(* ===== verification/TB_Prelude.thy ===== *)
theory TB_Prelude
  imports Main "HOL-Library.Word"
begin

text \<open>
  Shared vocabulary of the development: the machine integers of Go (unsigned words, and
  \<open>int64\<close> as an integer with its wrap-around written out), byte strings and fixed-size
  arrays, instants, Go errors, and the generic lemmas on lists, finite maps and words that the
  component theories use.

  Conventions. A Go \<open>error\<close> is a \<open>string option\<close> (\<open>None\<close> is \<open>nil\<close>); the string is the constant
  part of the message, without the values that \<open>fmt.Errorf\<close> formats into it. A result
  \<open>(T, error)\<close> is \<open>error + T\<close>. A pointer that the code compares with \<open>nil\<close> is an \<open>option\<close>.
\<close>

section \<open>Machine integers\<close>

type_synonym byte = "8 word"
type_synonym bytes = "byte list"
type_synonym u32 = "32 word"
type_synonym u64 = "64 word"
type_synonym i64 = int

text \<open>\<open>i64_wrap\<close> reduces an exact integer to the two's complement range of \<open>int64\<close>.\<close>

definition i64_wrap :: "int \<Rightarrow> i64" where
  "i64_wrap x = (x + 2 ^ 63) mod 2 ^ 64 - 2 ^ 63"

definition i64_add :: "i64 \<Rightarrow> i64 \<Rightarrow> i64" where
  "i64_add a b = i64_wrap (a + b)"

definition is_i64 :: "int \<Rightarrow> bool" where
  "is_i64 x \<longleftrightarrow> - (2 ^ 63) \<le> x \<and> x < 2 ^ 63"

named_theorems go_defs \<open>definitions of the Go primitives\<close>
named_theorems inv_rules \<open>preservation facts of the component invariants\<close>

lemma i64_wrap_id: "is_i64 x \<Longrightarrow> i64_wrap x = x"
  by (simp add: i64_wrap_def is_i64_def mod_pos_pos_trivial)

lemma is_i64_wrap [simp]: "is_i64 (i64_wrap x)"
proof -
  have "0 \<le> (x + 2 ^ 63) mod 2 ^ 64" "(x + 2 ^ 63) mod 2 ^ 64 < (2 ^ 64 :: int)"
    by simp_all
  then show ?thesis by (simp add: is_i64_def i64_wrap_def)
qed

text \<open>
  A sum of two in-range values that overflows comes back negative when both are
  non-negative: this is why a \<open>next < 0\<close> test also refuses an overflowing credit.
\<close>

lemma i64_add_nonneg_exact:
  assumes "0 \<le> a" "a < 2 ^ 63" "is_i64 d" "0 \<le> i64_add a d"
  shows "i64_add a d = a + d"
proof (cases "a + d < 2 ^ 63")
  case True
  with assms have "is_i64 (a + d)" by (simp add: is_i64_def)
  then show ?thesis by (simp add: i64_add_def i64_wrap_id)
next
  case False
  let ?x = "a + d + 2 ^ 63 :: int"
  from False assms have "0 \<le> ?x - 2 ^ 64" "?x - 2 ^ 64 < 2 ^ 64"
    by (simp_all add: is_i64_def)
  then have "(?x - 2 ^ 64) mod 2 ^ 64 = ?x - 2 ^ 64"
    by (rule mod_pos_pos_trivial)
  then have "?x mod 2 ^ 64 = ?x - 2 ^ 64"
    by (simp only: minus_mod_self2)
  then show ?thesis using assms False by (simp add: i64_add_def i64_wrap_def is_i64_def)
qed


text \<open>
  \<open>sql_u64\<close> is what \<open>database/sql\<close> does with a \<open>uint64\<close> argument: the default converter of
  \<open>database/sql/driver\<close> refuses a value with its top bit set.
\<close>

definition sql_u64 :: "u64 \<Rightarrow> bool" where
  "sql_u64 x \<longleftrightarrow> unat x < 2 ^ 63"

lemma sql_u64_code [code]: "sql_u64 x \<longleftrightarrow> uint x < 2 ^ 63"
proof -
  have "unat x < 2 ^ 63 \<longleftrightarrow> int (unat x) < int (2 ^ 63)" by (simp only: of_nat_less_iff)
  then show ?thesis by (simp only: sql_u64_def of_nat_power of_nat_numeral uint_nat [symmetric])
qed

lemma sql_u64_Suc: "sql_u64 x \<Longrightarrow> unat (x + 1) = unat x + 1"
  by (simp add: sql_u64_def unat_word_ariths)

section \<open>Byte strings and fixed-size arrays\<close>

definition zeros :: "nat \<Rightarrow> bytes" where
  "zeros n = replicate n 0"

text \<open>\<open>copy(dst[:], src)\<close> into a zeroed array of \<open>n\<close> bytes.\<close>

definition to_array :: "nat \<Rightarrow> bytes \<Rightarrow> bytes" where
  "to_array n bs = take n (bs @ zeros n)"

lemma length_zeros [simp]: "length (zeros n) = n"
  by (simp add: zeros_def)

lemma length_to_array [simp]: "length (to_array n bs) = n"
  by (simp add: to_array_def zeros_def min_def)

lemma to_array_id [simp]: "length bs = n \<Longrightarrow> to_array n bs = bs"
  by (simp add: to_array_def)

type_synonym ident = bytes   \<comment> \<open>\<open>ids.IdentityID\<close>, \<open>[32]byte\<close>\<close>
type_synonym reqid = bytes   \<comment> \<open>a request id, \<open>[16]byte\<close>\<close>

definition zero_id :: ident where
  "zero_id = zeros 32"

text \<open>\<open>binary.BigEndian.PutUint64\<close>.\<close>

definition be64 :: "u64 \<Rightarrow> bytes" where
  "be64 w = map (\<lambda>i. ucast (drop_bit (8 * i) w)) [7, 6, 5, 4, 3, 2, 1, 0]"

lemma length_be64 [simp]: "length (be64 w) = 8"
  by (simp add: be64_def)

lemma be64_inject [simp]: "be64 x = be64 y \<longleftrightarrow> x = y"
proof
  assume eq: "be64 x = be64 y"
  have byte_eq: "(ucast (drop_bit (8 * i) x) :: byte) = ucast (drop_bit (8 * i) y)" if "i < 8" for i
  proof -
    from that have "i \<in> set [7, 6, 5, 4, 3, 2, 1, 0]" by auto
    with eq show ?thesis unfolding be64_def by (auto simp only: map_eq_conv)
  qed
  show "x = y"
  proof (rule bit_word_eqI)
    fix n assume n: "n < LENGTH(64)"
    then have "n div 8 < 8" by simp
    from byte_eq [OF this] have "bit (ucast (drop_bit (8 * (n div 8)) x) :: byte) (n mod 8) =
        bit (ucast (drop_bit (8 * (n div 8)) y) :: byte) (n mod 8)" by simp
    then show "bit x n = bit y n"
      by (simp add: bit_unsigned_iff bit_drop_bit_eq)
  qed
qed simp

section \<open>Instants\<close>

text \<open>
  \<open>time.Time\<close> is an exact count of nanoseconds since 1970; \<open>time.Duration\<close> is a count of
  nanoseconds. The zero \<open>Time\<close> is the first instant of year 1.
\<close>

type_synonym time = int

definition zero_time :: time where
  "zero_time = - 62135596800 * 10 ^ 9"

definition unix :: "time \<Rightarrow> i64" where
  "unix t = t div 10 ^ 9"

definition seconds :: "int \<Rightarrow> int" where
  "seconds n = n * 10 ^ 9"

lemma unix_seconds [simp]: "unix (seconds n) = n"
  by (simp add: unix_def seconds_def)

section \<open>Sums over finite maps\<close>

definition msum :: "('v \<Rightarrow> int) \<Rightarrow> ('k \<rightharpoonup> 'v) \<Rightarrow> int" where
  "msum f m = (\<Sum>k\<in>dom m. f (the (m k)))"

definition opt_val :: "('v \<Rightarrow> int) \<Rightarrow> 'v option \<Rightarrow> int" where
  "opt_val f x = (case x of None \<Rightarrow> 0 | Some v \<Rightarrow> f v)"

lemma opt_val_simps [simp]: "opt_val f None = 0" "opt_val f (Some v) = f v"
  by (simp_all add: opt_val_def)

lemma msum_empty [simp]: "msum f Map.empty = 0"
  by (simp add: msum_def)

lemma msum_del:
  assumes "finite (dom m)"
  shows "msum f (m(k := None)) = msum f m - opt_val f (m k)"
proof (cases "m k")
  case None
  then have "m(k := None) = m" by (auto simp: fun_eq_iff)
  with None show ?thesis by simp
next
  case (Some v)
  then have k: "k \<in> dom m" by auto
  have "msum f (m(k := None)) = (\<Sum>j\<in>dom m - {k}. f (the (m j)))"
    unfolding msum_def by (rule sum.cong) auto
  also have "\<dots> = msum f m - f v"
    unfolding msum_def using assms k Some by (simp add: sum.remove)
  finally show ?thesis using Some by simp
qed

lemma msum_upd:
  assumes "finite (dom m)"
  shows "msum f (m(k \<mapsto> v)) = msum f m - opt_val f (m k) + f v"
proof -
  have "msum f (m(k \<mapsto> v)) = f v + (\<Sum>j\<in>dom m - {k}. f (the ((m(k \<mapsto> v)) j)))"
    unfolding msum_def using assms by (simp add: sum.insert_remove)
  also have "(\<Sum>j\<in>dom m - {k}. f (the ((m(k \<mapsto> v)) j))) = msum f (m(k := None))"
    unfolding msum_def by (rule sum.cong) auto
  finally show ?thesis using msum_del [OF assms, of f k] by linarith
qed

lemma msum_nonneg: "(\<And>k v. m k = Some v \<Longrightarrow> 0 \<le> f v) \<Longrightarrow> 0 \<le> msum f m"
  unfolding msum_def by (auto intro: sum_nonneg)

lemma msum_ge_member:
  assumes "finite (dom m)" "m k = Some v" "\<And>k v. m k = Some v \<Longrightarrow> 0 \<le> f v"
  shows "f v \<le> msum f m"
proof -
  have "0 \<le> msum f (m(k := None))"
    using assms(3) by (intro msum_nonneg) (auto split: if_splits)
  then show ?thesis using assms by (simp add: msum_del)
qed

section \<open>Lists\<close>

lemma append_eq_same_length:
  "length xs = length ys \<Longrightarrow> xs @ us = ys @ vs \<longleftrightarrow> xs = ys \<and> us = vs"
  by simp

lemma fold_invariant_set:
  assumes "P a" "\<And>x b. x \<in> set xs \<Longrightarrow> P b \<Longrightarrow> P (f x b)"
  shows "P (fold f xs a)"
  using assms by (induction xs arbitrary: a) auto

section \<open>Transition systems\<close>

text \<open>
  The contract of a component that is driven by steps: an initial state that satisfies the
  invariant, and steps that keep it. A component that only ever grows in some order \<open>R\<close> (an
  append-only log, a status that only advances) is a \<open>monotone_system\<close>.
\<close>

locale invariant_system =
  fixes start :: "'s" and step :: "'s \<Rightarrow> 's \<Rightarrow> bool" and inv :: "'s \<Rightarrow> bool"
  assumes start_inv: "inv start"
    and step_inv: "step s t \<Longrightarrow> inv s \<Longrightarrow> inv t"
begin

lemma steps_inv: "step\<^sup>*\<^sup>* s t \<Longrightarrow> inv s \<Longrightarrow> inv t"
  by (induction rule: rtranclp_induct) (auto intro: step_inv)

lemma reach_inv: "step\<^sup>*\<^sup>* start s \<Longrightarrow> inv s"
  by (rule steps_inv) (auto intro: start_inv)

end

locale monotone_system = invariant_system start step inv
  for start :: "'s" and step :: "'s \<Rightarrow> 's \<Rightarrow> bool" and inv :: "'s \<Rightarrow> bool" +
  fixes R :: "'s \<Rightarrow> 's \<Rightarrow> bool"
  assumes R_refl: "R s s"
    and R_trans: "R s t \<Longrightarrow> R t u \<Longrightarrow> R s u"
    and step_R: "step s t \<Longrightarrow> inv s \<Longrightarrow> R s t"
begin

lemma steps_R: "step\<^sup>*\<^sup>* s t \<Longrightarrow> inv s \<Longrightarrow> R s t"
  by (induction rule: rtranclp_induct) (auto intro: R_refl R_trans step_R steps_inv)

lemma reach_R: "step\<^sup>*\<^sup>* start s \<Longrightarrow> step\<^sup>*\<^sup>* s t \<Longrightarrow> R s t"
  by (auto intro: steps_R reach_inv)

end

section \<open>Orders\<close>

text \<open>
  A comparison whose \<open>not before\<close> is transitive, on the values it is meant for: what a Go \<open>Less\<close> function
  has to be for sorting and for heaps.
\<close>

locale weak_order =
  fixes lt :: "'a \<Rightarrow> 'a \<Rightarrow> bool" and carrier :: "'a set"
  assumes asym: "a \<in> carrier \<Longrightarrow> b \<in> carrier \<Longrightarrow> lt a b \<Longrightarrow> \<not> lt b a"
    and neg_trans: "a \<in> carrier \<Longrightarrow> b \<in> carrier \<Longrightarrow> c \<in> carrier \<Longrightarrow> \<not> lt a b \<Longrightarrow> \<not> lt b c \<Longrightarrow> \<not> lt a c"

end
