(* ===== verification/TB_Float.thy ===== *)
theory TB_Float
  imports Complex_Main TB_Prelude
begin

text \<open>
  The \<open>float64\<close> values of Go: a finite value is the rational it denotes, so the comparisons are
  exact, and every comparison with a NaN is false. (The two zeros denote the same rational, and
  compare equal in Go too; no modelled code tells them apart.) Arithmetic rounds the exact
  result to the nearest double, ties to even, one operation at a time: what Go does on targets
  where it does not fuse a multiplication with an addition.
\<close>

datatype float64 = NaN | NegInf | Fin rat | PosInf

fun f_le :: "float64 \<Rightarrow> float64 \<Rightarrow> bool" where
  "f_le NaN _ = False"
| "f_le _ NaN = False"
| "f_le NegInf _ = True"
| "f_le _ PosInf = True"
| "f_le (Fin a) (Fin b) = (a \<le> b)"
| "f_le _ _ = False"

definition f_lt :: "float64 \<Rightarrow> float64 \<Rightarrow> bool" where
  "f_lt a b \<longleftrightarrow> a \<noteq> NaN \<and> b \<noteq> NaN \<and> \<not> f_le b a"

definition f_eq :: "float64 \<Rightarrow> float64 \<Rightarrow> bool" where
  "f_eq a b \<longleftrightarrow> a \<noteq> NaN \<and> a = b"

definition f_in_unit :: "float64 \<Rightarrow> bool" where
  "f_in_unit h \<longleftrightarrow> f_le (Fin 0) h \<and> f_le h (Fin 1)"

lemma f_le_refl: "a \<noteq> NaN \<Longrightarrow> f_le a a"
  by (cases a) auto

lemma f_le_trans: "f_le a b \<Longrightarrow> f_le b c \<Longrightarrow> f_le a c"
  by (cases a; cases b; cases c) auto

lemma f_le_total: "a \<noteq> NaN \<Longrightarrow> b \<noteq> NaN \<Longrightarrow> f_le a b \<or> f_le b a"
  by (cases a; cases b) auto

lemma f_le_antisym: "f_le a b \<Longrightarrow> f_le b a \<Longrightarrow> a = b"
  by (cases a; cases b) auto

lemma f_lt_irrefl [simp]: "\<not> f_lt a a"
  by (cases a) (auto simp: f_lt_def)

lemma f_lt_trans: "f_lt a b \<Longrightarrow> f_lt b c \<Longrightarrow> f_lt a c"
  by (cases a; cases b; cases c) (auto simp: f_lt_def)

lemma f_lt_not_NaN: "f_lt a b \<Longrightarrow> a \<noteq> NaN \<and> b \<noteq> NaN"
  by (simp add: f_lt_def)

lemma f_in_unit_iff: "f_in_unit h \<longleftrightarrow> (\<exists>r. h = Fin r \<and> 0 \<le> r \<and> r \<le> 1)"
  by (cases h) (auto simp: f_in_unit_def)

section \<open>Rounded arithmetic\<close>

definition pow2 :: "int \<Rightarrow> rat" where
  "pow2 e = (if 0 \<le> e then of_int (2 ^ nat e) else 1 / of_int (2 ^ nat (- e)))"

function ilog2 :: "int \<Rightarrow> int" where
  "ilog2 n = (if n \<le> 1 then 0 else 1 + ilog2 (n div 2))"
  by pat_completeness auto
termination
  by (relation "measure nat") auto

declare ilog2.simps [simp del]

text \<open>The exponent \<open>e\<close> with \<open>2^e \<le> q < 2^(e+1)\<close>, for a positive \<open>q\<close>.\<close>

definition bin_exp :: "rat \<Rightarrow> int" where
  "bin_exp q = (case quotient_of q of (a, b) \<Rightarrow> let e = ilog2 a - ilog2 b in if pow2 e \<le> q then e else e - 1)"

definition round_even :: "rat \<Rightarrow> int" where
  "round_even q = (let f = \<lfloor>q\<rfloor>; d = q - of_int f in
     if d < 1 / 2 then f else if d > 1 / 2 then f + 1 else if even f then f else f + 1)"

definition round64 :: "rat \<Rightarrow> float64" where
  "round64 q = (if q = 0 then Fin 0 else
     let a = \<bar>q\<bar>; e = max (bin_exp a - 52) (- 1074); v = of_int (round_even (a / pow2 e)) * pow2 e
     in if v > 0 \<and> bin_exp v \<ge> 1024 then (if q > 0 then PosInf else NegInf) else Fin (sgn q * v))"

fun f_neg :: "float64 \<Rightarrow> float64" where
  "f_neg NaN = NaN"
| "f_neg PosInf = NegInf"
| "f_neg NegInf = PosInf"
| "f_neg (Fin a) = Fin (- a)"

fun f_add :: "float64 \<Rightarrow> float64 \<Rightarrow> float64" where
  "f_add NaN _ = NaN"
| "f_add _ NaN = NaN"
| "f_add PosInf NegInf = NaN"
| "f_add NegInf PosInf = NaN"
| "f_add PosInf _ = PosInf"
| "f_add _ PosInf = PosInf"
| "f_add NegInf _ = NegInf"
| "f_add _ NegInf = NegInf"
| "f_add (Fin a) (Fin b) = round64 (a + b)"

definition f_sub :: "float64 \<Rightarrow> float64 \<Rightarrow> float64" where
  "f_sub a b = f_add a (f_neg b)"

fun f_sign :: "float64 \<Rightarrow> rat" where
  "f_sign NaN = 0"
| "f_sign PosInf = 1"
| "f_sign NegInf = - 1"
| "f_sign (Fin a) = sgn a"

definition f_mul :: "float64 \<Rightarrow> float64 \<Rightarrow> float64" where
  "f_mul a b = (if a = NaN \<or> b = NaN then NaN else (case (a, b) of
     (Fin x, Fin y) \<Rightarrow> round64 (x * y)
   | _ \<Rightarrow> (let s = f_sign a * f_sign b in if s > 0 then PosInf else if s < 0 then NegInf else NaN)))"

definition f_of_int :: "int \<Rightarrow> float64" where
  "f_of_int n = round64 (of_int n)"

end
