(* ===== verification/TB_Wire.thy ===== *)
theory TB_Wire
  imports TB_Float
begin

text \<open>
  The wire-format messages (\<open>src/shared/proto\<close>, \<open>src/shared/exhaustionproof\<close>) and the
  validators every sender and receiver runs on them. A message is a record with the fields of
  its \<open>.proto\<close> declaration; a proto3 enum is open, so each enum has one constructor for the
  values the declaration does not name. A validator returns \<open>None\<close> for \<open>nil\<close> and the constant
  part of the message for an error.
\<close>

unbundle bit_operations_syntax

type_synonym err = "string option"

section \<open>Messages\<close>

datatype EntryKind = ENTRY_KIND_UNSPECIFIED | ENTRY_KIND_USAGE | ENTRY_KIND_TRANSFER_OUT
  | ENTRY_KIND_TRANSFER_IN | ENTRY_KIND_STARTER_GRANT | EntryKindOther int

record EntryBody =
  eb_prev_hash :: bytes
  eb_seq :: u64
  eb_kind :: EntryKind
  eb_consumer_id :: bytes
  eb_seeder_id :: bytes
  eb_model :: string
  eb_input_tokens :: u32
  eb_output_tokens :: u32
  eb_cost_credits :: u64
  eb_timestamp :: u64
  eb_request_id :: bytes
  eb_flags :: u32
  eb_ref :: bytes

record Entry =
  en_body :: "EntryBody option"
  en_consumer_sig :: bytes
  en_seeder_sig :: bytes
  en_tracker_sig :: bytes

record StopFailure =
  sf_matcher :: string
  sf_at :: u64
  sf_error_shape :: bytes

record UsageProbe =
  up_at :: u64
  up_output :: bytes

record ExhaustionProofV1 =
  xp_stop_failure :: "StopFailure option"
  xp_usage_probe :: "UsageProbe option"
  xp_captured_at :: u64
  xp_nonce :: bytes

record BalanceSnapshotBody =
  bs_identity_id :: bytes
  bs_credits :: i64
  bs_chain_tip_hash :: bytes
  bs_chain_tip_seq :: u64
  bs_issued_at :: u64
  bs_expires_at :: u64

record SignedBalanceSnapshot =
  sb_body :: "BalanceSnapshotBody option"
  sb_tracker_sig :: bytes

datatype PrivacyTier = PRIVACY_TIER_UNSPECIFIED | PRIVACY_TIER_STANDARD | PRIVACY_TIER_TEE
  | PrivacyTierOther int

record EnvelopeBody =
  ev_protocol_version :: u32
  ev_consumer_id :: bytes
  ev_model :: string
  ev_max_input_tokens :: u64
  ev_max_output_tokens :: u64
  ev_tier :: PrivacyTier
  ev_body_hash :: bytes
  ev_exhaustion_proof :: "ExhaustionProofV1 option"
  ev_balance_proof :: "SignedBalanceSnapshot option"
  ev_captured_at :: u64
  ev_nonce :: bytes
  ev_consumer_ephemeral_pub :: bytes

record EnvelopeSigned =
  es_body :: "EnvelopeBody option"
  es_consumer_sig :: bytes

datatype RpcMethod = RPC_METHOD_UNSPECIFIED | RPC_METHOD_ENROLL | RPC_METHOD_BROKER_REQUEST
  | RPC_METHOD_BALANCE | RPC_METHOD_SETTLE | RPC_METHOD_USAGE_REPORT | RPC_METHOD_ADVERTISE
  | RPC_METHOD_TRANSFER_REQUEST | RPC_METHOD_STUN_ALLOCATE | RPC_METHOD_TURN_RELAY_OPEN
  | RPC_METHOD_BOOTSTRAP_PEERS | RpcMethodOther int

datatype RpcStatus = RPC_STATUS_UNSPECIFIED | RPC_STATUS_OK | RPC_STATUS_INVALID
  | RPC_STATUS_NO_CAPACITY | RPC_STATUS_FROZEN | RPC_STATUS_INTERNAL
  | RPC_STATUS_UNAUTHENTICATED | RPC_STATUS_NOT_FOUND | RpcStatusOther int

record RpcError =
  re_code :: string
  re_message :: string

record RpcRequest =
  rq_method :: RpcMethod
  rq_payload :: bytes

record RpcResponse =
  rs_status :: RpcStatus
  rs_payload :: bytes
  rs_error :: "RpcError option"

record SeederAssignment =
  sa_seeder_addr :: bytes
  sa_seeder_pubkey :: bytes
  sa_reservation_token :: bytes

text \<open>The bands and the reject reason are only ever compared with their zero value.\<close>

record Queued =
  qd_request_id :: bytes
  qd_position_band :: int
  qd_eta_band :: int

record Rejected =
  rj_reason :: int
  rj_retry_after_s :: u32

datatype BrokerOutcome = OSeederAssignment "SeederAssignment option"
  | ONoCapacity "string option" | OQueued "Queued option" | ORejected "Rejected option"

record BrokerRequestResponse =
  br_outcome :: "BrokerOutcome option"

record OfferPush =
  op_consumer_id :: bytes
  op_envelope_hash :: bytes
  op_model :: string
  op_max_input_tokens :: u32
  op_max_output_tokens :: u32
  op_consumer_ephemeral_pub :: bytes
  op_request_id :: bytes

record SettlementPush =
  sp_preimage_hash :: bytes
  sp_preimage_body :: bytes

record BootstrapPeer =
  bp_tracker_id :: bytes
  bp_addr :: string
  bp_region_hint :: string
  bp_health_score :: float64
  bp_last_seen :: u64

record BootstrapPeerList =
  bl_issuer_id :: bytes
  bl_signed_at :: u64
  bl_expires_at :: u64
  bl_peers :: "BootstrapPeer option list"
  bl_sig :: bytes

record UsageReport =
  ur_request_id :: bytes
  ur_input_tokens :: u32
  ur_output_tokens :: u32
  ur_model :: string
  ur_seeder_sig :: bytes

record SettleRequest =
  sr_preimage_hash :: bytes
  sr_consumer_sig :: bytes

section \<open>Ledger entries\<close>

definition entryHashLen :: nat where "entryHashLen = 32"
definition entryRequestIDLen :: nat where "entryRequestIDLen = 16"
definition entryModelMaxLen :: nat where "entryModelMaxLen = 32"
definition entryFlagsMask :: u32 where "entryFlagsMask = 1"

primrec allZero :: "bytes \<Rightarrow> bool" where
  "allZero [] = True"
| "allZero (x # xs) = (if x \<noteq> 0 then False else allZero xs)"

definition ValidateEntryBody :: "EntryBody option \<Rightarrow> err" where
  "ValidateEntryBody ob = (case ob of None \<Rightarrow> Some ''proto: nil EntryBody'' | Some b \<Rightarrow>
     if length (eb_prev_hash b) \<noteq> entryHashLen then Some ''proto: prev_hash length''
     else if length (eb_ref b) \<noteq> entryHashLen then Some ''proto: ref length''
     else if eb_flags b AND NOT entryFlagsMask \<noteq> 0 then Some ''proto: flags, unknown bits set''
     else (case eb_kind b of
       ENTRY_KIND_USAGE \<Rightarrow>
         if length (eb_consumer_id b) \<noteq> entryHashLen then Some ''proto: usage consumer_id length''
         else if length (eb_seeder_id b) \<noteq> entryHashLen then Some ''proto: usage seeder_id length''
         else if eb_model b = [] then Some ''proto: usage entry has empty model''
         else if length (eb_model b) > entryModelMaxLen then Some ''proto: model length exceeds''
         else if length (eb_request_id b) \<noteq> entryRequestIDLen then Some ''proto: usage request_id length''
         else None
     | ENTRY_KIND_TRANSFER_OUT \<Rightarrow>
         if length (eb_consumer_id b) \<noteq> entryHashLen then Some ''proto: transfer_out consumer_id length''
         else if length (eb_seeder_id b) \<noteq> entryHashLen \<or> \<not> allZero (eb_seeder_id b)
           then Some ''proto: transfer_out seeder_id must be 32 zero bytes''
         else if eb_model b \<noteq> [] then Some ''proto: transfer_out model must be empty''
         else if length (eb_request_id b) \<noteq> entryRequestIDLen \<or> \<not> allZero (eb_request_id b)
           then Some ''proto: transfer_out request_id must be 16 zero bytes''
         else if eb_input_tokens b \<noteq> 0 \<or> eb_output_tokens b \<noteq> 0
           then Some ''proto: transfer_out tokens must be zero''
         else if eb_flags b \<noteq> 0 then Some ''proto: transfer_out flags must be 0''
         else None
     | ENTRY_KIND_TRANSFER_IN \<Rightarrow>
         if length (eb_consumer_id b) \<noteq> entryHashLen \<or> \<not> allZero (eb_consumer_id b)
           then Some ''proto: transfer_in consumer_id must be 32 zero bytes''
         else if length (eb_seeder_id b) \<noteq> entryHashLen \<or> \<not> allZero (eb_seeder_id b)
           then Some ''proto: transfer_in seeder_id must be 32 zero bytes''
         else if eb_model b \<noteq> [] then Some ''proto: transfer_in model must be empty''
         else if length (eb_request_id b) \<noteq> entryRequestIDLen \<or> \<not> allZero (eb_request_id b)
           then Some ''proto: transfer_in request_id must be 16 zero bytes''
         else if eb_input_tokens b \<noteq> 0 \<or> eb_output_tokens b \<noteq> 0
           then Some ''proto: transfer_in tokens must be zero''
         else if eb_flags b \<noteq> 0 then Some ''proto: transfer_in flags must be 0''
         else None
     | ENTRY_KIND_STARTER_GRANT \<Rightarrow>
         if length (eb_consumer_id b) \<noteq> entryHashLen then Some ''proto: starter_grant consumer_id length''
         else if length (eb_seeder_id b) \<noteq> entryHashLen \<or> \<not> allZero (eb_seeder_id b)
           then Some ''proto: starter_grant seeder_id must be 32 zero bytes''
         else if eb_model b \<noteq> [] then Some ''proto: starter_grant model must be empty''
         else if length (eb_request_id b) \<noteq> entryRequestIDLen \<or> \<not> allZero (eb_request_id b)
           then Some ''proto: starter_grant request_id must be 16 zero bytes''
         else if \<not> allZero (eb_ref b) then Some ''proto: starter_grant ref must be 32 zero bytes''
         else if eb_input_tokens b \<noteq> 0 \<or> eb_output_tokens b \<noteq> 0
           then Some ''proto: starter_grant tokens must be zero''
         else if eb_flags b \<noteq> 0 then Some ''proto: starter_grant flags must be 0''
         else None
     | _ \<Rightarrow> Some ''proto: kind must be USAGE, TRANSFER_OUT, TRANSFER_IN, or STARTER_GRANT''))"

section \<open>Exhaustion proofs and envelopes\<close>

definition proofFreshnessWindow :: u64 where "proofFreshnessWindow = 60"
definition nonceLen :: nat where "nonceLen = 16"

definition ValidateProofV1 :: "ExhaustionProofV1 option \<Rightarrow> err" where
  "ValidateProofV1 op = (case op of None \<Rightarrow> Some ''exhaustionproof: nil ExhaustionProofV1'' | Some p \<Rightarrow>
     (case xp_stop_failure p of None \<Rightarrow> Some ''exhaustionproof: missing stop_failure'' | Some sf \<Rightarrow>
     (case xp_usage_probe p of None \<Rightarrow> Some ''exhaustionproof: missing usage_probe'' | Some up \<Rightarrow>
       if sf_matcher sf \<noteq> ''rate_limit'' then Some ''exhaustionproof: stop_failure.matcher''
       else if sf_at sf = 0 then Some ''exhaustionproof: stop_failure.at is zero''
       else if up_at up = 0 then Some ''exhaustionproof: usage_probe.at is zero''
       else (let gap = (if sf_at sf > up_at up then sf_at sf - up_at up else up_at up - sf_at sf) in
         if gap > proofFreshnessWindow then Some ''exhaustionproof: signals apart, exceeds freshness window''
         else if xp_captured_at p = 0 then Some ''exhaustionproof: captured_at is zero''
         else if length (xp_nonce p) \<noteq> nonceLen then Some ''exhaustionproof: nonce length''
         else None))))"

definition ProtocolVersion :: "16 word" where "ProtocolVersion = 1"
definition envelopeIDLen :: nat where "envelopeIDLen = 32"
definition envelopeBodyHashLen :: nat where "envelopeBodyHashLen = 32"
definition envelopeNonceLen :: nat where "envelopeNonceLen = 16"

definition ValidateEnvelopeBody :: "EnvelopeBody option \<Rightarrow> err" where
  "ValidateEnvelopeBody ob = (case ob of None \<Rightarrow> Some ''proto: nil EnvelopeBody'' | Some b \<Rightarrow>
     if ev_protocol_version b \<noteq> ucast ProtocolVersion then Some ''proto: protocol_version''
     else if length (ev_consumer_id b) \<noteq> envelopeIDLen then Some ''proto: consumer_id length''
     else if ev_model b = [] then Some ''proto: model is empty''
     else if length (ev_body_hash b) \<noteq> envelopeBodyHashLen then Some ''proto: body_hash length''
     else if ev_tier b \<noteq> PRIVACY_TIER_STANDARD \<and> ev_tier b \<noteq> PRIVACY_TIER_TEE
       then Some ''proto: tier must be STANDARD or TEE''
     else if ev_exhaustion_proof b = None then Some ''proto: missing exhaustion_proof''
     else (case ValidateProofV1 (ev_exhaustion_proof b) of Some e \<Rightarrow> Some (''proto: exhaustion_proof: '' @ e)
     | None \<Rightarrow>
       if ev_balance_proof b = None then Some ''proto: missing balance_proof''
       else if ev_captured_at b = 0 then Some ''proto: captured_at is zero''
       else if length (ev_nonce b) \<noteq> envelopeNonceLen then Some ''proto: nonce length''
       else if length (ev_consumer_ephemeral_pub b) \<noteq> 0 \<and> length (ev_consumer_ephemeral_pub b) \<noteq> 32
         then Some ''proto: consumer_ephemeral_pub length''
       else None))"

section \<open>RPC framing, broker responses and pushes\<close>

definition MaxRPCPayloadSize :: nat where "MaxRPCPayloadSize = 1048576"

definition ValidateRPCRequest :: "RpcRequest option \<Rightarrow> err" where
  "ValidateRPCRequest oq = (case oq of None \<Rightarrow> Some ''proto: RpcRequest is nil'' | Some r \<Rightarrow>
     if rq_method r \<notin> {RPC_METHOD_ENROLL, RPC_METHOD_BROKER_REQUEST, RPC_METHOD_BALANCE,
          RPC_METHOD_SETTLE, RPC_METHOD_USAGE_REPORT, RPC_METHOD_ADVERTISE,
          RPC_METHOD_TRANSFER_REQUEST, RPC_METHOD_STUN_ALLOCATE, RPC_METHOD_TURN_RELAY_OPEN,
          RPC_METHOD_BOOTSTRAP_PEERS}
       then Some ''proto: RpcRequest.Method invalid''
     else if length (rq_payload r) > MaxRPCPayloadSize then Some ''proto: RpcRequest.Payload''
     else None)"

definition ValidateRPCResponse :: "RpcResponse option \<Rightarrow> err" where
  "ValidateRPCResponse op = (case op of None \<Rightarrow> Some ''proto: RpcResponse is nil'' | Some r \<Rightarrow>
     if rs_status r \<notin> {RPC_STATUS_OK, RPC_STATUS_INVALID, RPC_STATUS_NO_CAPACITY,
          RPC_STATUS_FROZEN, RPC_STATUS_INTERNAL, RPC_STATUS_UNAUTHENTICATED, RPC_STATUS_NOT_FOUND}
       then Some ''proto: RpcResponse.Status invalid''
     else if rs_status r \<noteq> RPC_STATUS_OK \<and>
          (case rs_error r of None \<Rightarrow> True | Some e \<Rightarrow> re_code e = [])
       then Some ''proto: RpcResponse.Error required when Status != OK''
     else if length (rs_payload r) > MaxRPCPayloadSize then Some ''proto: RpcResponse.Payload''
     else None)"

definition ValidateSeederAssignment :: "SeederAssignment option \<Rightarrow> err" where
  "ValidateSeederAssignment oa = (case oa of None \<Rightarrow> Some ''proto: SeederAssignment is nil'' | Some a \<Rightarrow>
     if length (sa_seeder_addr a) = 0 then Some ''proto: SeederAssignment.SeederAddr empty''
     else if length (sa_seeder_pubkey a) \<noteq> 32 then Some ''proto: SeederAssignment.SeederPubkey len''
     else if length (sa_reservation_token a) \<noteq> 16 then Some ''proto: SeederAssignment.ReservationToken len''
     else None)"

definition ValidateQueued :: "Queued option \<Rightarrow> err" where
  "ValidateQueued oq = (case oq of None \<Rightarrow> Some ''proto: Queued is nil'' | Some q \<Rightarrow>
     if length (qd_request_id q) \<noteq> 16 then Some ''proto: Queued.RequestId len''
     else if qd_position_band q = 0 then Some ''proto: Queued.PositionBand UNSPECIFIED''
     else if qd_eta_band q = 0 then Some ''proto: Queued.EtaBand UNSPECIFIED''
     else None)"

definition ValidateRejected :: "Rejected option \<Rightarrow> err" where
  "ValidateRejected oj = (case oj of None \<Rightarrow> Some ''proto: Rejected is nil'' | Some r \<Rightarrow>
     if rj_reason r = 0 then Some ''proto: Rejected.Reason UNSPECIFIED''
     else if rj_retry_after_s r < 60 \<or> rj_retry_after_s r > 600
       then Some ''proto: Rejected.RetryAfterS outside [60, 600]''
     else None)"

definition ValidateBrokerRequestResponse :: "BrokerRequestResponse option \<Rightarrow> err" where
  "ValidateBrokerRequestResponse op = (case op of None \<Rightarrow> Some ''proto: BrokerRequestResponse is nil''
   | Some r \<Rightarrow> (case br_outcome r of
       Some (OSeederAssignment a) \<Rightarrow> ValidateSeederAssignment a
     | Some (ONoCapacity nc) \<Rightarrow>
         (if nc = None then Some ''proto: BrokerRequestResponse.NoCapacity is nil'' else None)
     | Some (OQueued q) \<Rightarrow> ValidateQueued q
     | Some (ORejected j) \<Rightarrow> ValidateRejected j
     | None \<Rightarrow> Some ''proto: BrokerRequestResponse.Outcome unset''))"

definition ValidateOfferPush :: "OfferPush option \<Rightarrow> err" where
  "ValidateOfferPush oo = (case oo of None \<Rightarrow> Some ''proto: OfferPush is nil'' | Some p \<Rightarrow>
     if length (op_consumer_id p) \<noteq> 32 then Some ''proto: OfferPush.ConsumerId len''
     else if length (op_envelope_hash p) \<noteq> 32 then Some ''proto: OfferPush.EnvelopeHash len''
     else if op_model p = [] then Some ''proto: OfferPush.Model empty''
     else if length (op_consumer_ephemeral_pub p) \<noteq> 0 \<and> length (op_consumer_ephemeral_pub p) \<noteq> 32
       then Some ''proto: OfferPush.ConsumerEphemeralPub len''
     else if length (op_request_id p) \<noteq> 0 \<and> length (op_request_id p) \<noteq> 16
       then Some ''proto: OfferPush.RequestId len''
     else None)"

definition ValidateSettlementPush :: "SettlementPush option \<Rightarrow> err" where
  "ValidateSettlementPush os = (case os of None \<Rightarrow> Some ''proto: SettlementPush is nil'' | Some s \<Rightarrow>
     if length (sp_preimage_hash s) \<noteq> 32 then Some ''proto: SettlementPush.PreimageHash len''
     else if length (sp_preimage_body s) = 0 then Some ''proto: SettlementPush.PreimageBody empty''
     else None)"

section \<open>Bootstrap peer lists\<close>

text \<open>\<open>utf8.ValidString\<close>: well-formed UTF-8 of RFC 3629, over the code units of the string.\<close>

definition cont_byte :: "nat \<Rightarrow> bool" where
  "cont_byte c \<longleftrightarrow> 128 \<le> c \<and> c \<le> 191"

fun valid_utf8_nat :: "nat list \<Rightarrow> bool" where
  "valid_utf8_nat [] = True"
| "valid_utf8_nat (a # s) =
     (if a < 128 then valid_utf8_nat s
      else (case s of [] \<Rightarrow> False | b # s1 \<Rightarrow>
        if 194 \<le> a \<and> a \<le> 223 then cont_byte b \<and> valid_utf8_nat s1
        else (case s1 of [] \<Rightarrow> False | c # s2 \<Rightarrow>
          if 224 \<le> a \<and> a \<le> 239
          then (if a = 224 then 160 \<le> b \<and> b \<le> 191 else if a = 237 then 128 \<le> b \<and> b \<le> 159
                else cont_byte b) \<and> cont_byte c \<and> valid_utf8_nat s2
          else (case s2 of [] \<Rightarrow> False | d # s3 \<Rightarrow>
            240 \<le> a \<and> a \<le> 244 \<and>
            (if a = 240 then 144 \<le> b \<and> b \<le> 191 else if a = 244 then 128 \<le> b \<and> b \<le> 143
             else cont_byte b) \<and> cont_byte c \<and> cont_byte d \<and> valid_utf8_nat s3))))"

definition utf8_ValidString :: "string \<Rightarrow> bool" where
  "utf8_ValidString s = valid_utf8_nat (map of_char s)"

definition MaxBootstrapPeers :: nat where "MaxBootstrapPeers = 256"
definition MaxBootstrapPeerAddrLen :: nat where "MaxBootstrapPeerAddrLen = 256"
definition MaxBootstrapPeerRegionHintLen :: nat where "MaxBootstrapPeerRegionHintLen = 64"
definition MaxBootstrapPeerListLifetimeS :: u64 where "MaxBootstrapPeerListLifetimeS = 60 * 60"

primrec ValidateBootstrapPeers :: "BootstrapPeer option list \<Rightarrow> err" where
  "ValidateBootstrapPeers [] = None"
| "ValidateBootstrapPeers (op # ps) = (case op of None \<Rightarrow> Some ''proto: BootstrapPeerList.peers is nil'' | Some p \<Rightarrow>
     if length (bp_tracker_id p) \<noteq> 32 then Some ''proto: BootstrapPeerList.peers.tracker_id len''
     else if length (bp_addr p) = 0 then Some ''proto: BootstrapPeerList.peers.addr empty''
     else if length (bp_addr p) > MaxBootstrapPeerAddrLen then Some ''proto: BootstrapPeerList.peers.addr len''
     else if \<not> utf8_ValidString (bp_addr p) then Some ''proto: BootstrapPeerList.peers.addr invalid utf-8''
     else if length (bp_region_hint p) > MaxBootstrapPeerRegionHintLen
       then Some ''proto: BootstrapPeerList.peers.region_hint len''
     else if \<not> utf8_ValidString (bp_region_hint p)
       then Some ''proto: BootstrapPeerList.peers.region_hint invalid utf-8''
     else if bp_health_score p = NaN \<or> f_lt (bp_health_score p) (Fin 0) \<or> f_lt (Fin 1) (bp_health_score p)
       then Some ''proto: BootstrapPeerList.peers.health_score out of [0,1]''
     else ValidateBootstrapPeers ps)"

definition ValidateBootstrapPeerList :: "BootstrapPeerList option \<Rightarrow> err" where
  "ValidateBootstrapPeerList ol = (case ol of None \<Rightarrow> Some ''proto: nil BootstrapPeerList'' | Some l \<Rightarrow>
     if length (bl_issuer_id l) \<noteq> 32 then Some ''proto: BootstrapPeerList.issuer_id len''
     else if length (bl_sig l) \<noteq> 64 then Some ''proto: BootstrapPeerList.sig len''
     else if bl_signed_at l = 0 then Some ''proto: BootstrapPeerList.signed_at zero''
     else if bl_expires_at l \<le> bl_signed_at l then Some ''proto: BootstrapPeerList.expires_at not > signed_at''
     else if bl_expires_at l - bl_signed_at l > MaxBootstrapPeerListLifetimeS
       then Some ''proto: BootstrapPeerList lifetime''
     else if length (bl_peers l) > MaxBootstrapPeers then Some ''proto: BootstrapPeerList.peers len''
     else ValidateBootstrapPeers (bl_peers l))"

section \<open>What the validators guarantee\<close>

lemmas entry_len_defs = entryHashLen_def entryRequestIDLen_def entryModelMaxLen_def entryFlagsMask_def

lemma allZero_iff: "allZero bs \<longleftrightarrow> bs = zeros (length bs)"
  by (induction bs) (auto simp: zeros_def)

lemma allZero_zeros [simp]: "allZero (zeros n)"
  by (simp add: allZero_iff)

text \<open>
  The per-kind field matrix of the ledger, as a table: which identities and references a kind
  carries, and which slots it must leave zero.
\<close>

definition zero_slot :: "nat \<Rightarrow> bytes \<Rightarrow> bool" where
  "zero_slot n bs \<longleftrightarrow> bs = zeros n"

definition no_usage_fields :: "EntryBody \<Rightarrow> bool" where
  "no_usage_fields b \<longleftrightarrow> zero_slot 32 (eb_seeder_id b) \<and> eb_model b = [] \<and>
     zero_slot 16 (eb_request_id b) \<and> eb_input_tokens b = 0 \<and> eb_output_tokens b = 0 \<and> eb_flags b = 0"

definition entry_matrix :: "EntryBody \<Rightarrow> bool" where
  "entry_matrix b \<longleftrightarrow> length (eb_prev_hash b) = 32 \<and> length (eb_ref b) = 32 \<and>
     (case eb_kind b of
        ENTRY_KIND_USAGE \<Rightarrow> length (eb_consumer_id b) = 32 \<and> length (eb_seeder_id b) = 32 \<and>
          eb_model b \<noteq> [] \<and> length (eb_model b) \<le> 32 \<and> length (eb_request_id b) = 16 \<and>
          (eb_flags b = 0 \<or> eb_flags b = 1)
      | ENTRY_KIND_TRANSFER_OUT \<Rightarrow> length (eb_consumer_id b) = 32 \<and> no_usage_fields b
      | ENTRY_KIND_TRANSFER_IN \<Rightarrow> zero_slot 32 (eb_consumer_id b) \<and> no_usage_fields b
      | ENTRY_KIND_STARTER_GRANT \<Rightarrow> length (eb_consumer_id b) = 32 \<and> zero_slot 32 (eb_ref b) \<and>
          no_usage_fields b
      | _ \<Rightarrow> False)"

lemma flags_mask_iff: "(w :: u32) AND - 2 = 0 \<longleftrightarrow> w = 0 \<or> w = 1"
proof
  assume h: "w AND - 2 = 0"
  have "w = (w AND NOT 1) OR (w AND 1)"
    by (rule bit_eqI) (auto simp: bit_simps)
  also have "w AND NOT 1 = 0" using h by simp
  finally have "w = of_bool (odd w)" by (simp add: and_one_eq mod_2_eq_odd)
  then show "w = 0 \<or> w = 1" by (cases "odd w") simp_all
qed auto

lemma zero_slot_iff: "length bs \<noteq> n \<or> \<not> allZero bs \<longleftrightarrow> \<not> zero_slot n bs"
  by (auto simp: zero_slot_def allZero_iff)

lemma entry_body_valid_iff: "ValidateEntryBody (Some b) = None \<longleftrightarrow> entry_matrix b"
  by (cases "eb_kind b")
    (auto simp: ValidateEntryBody_def entry_matrix_def no_usage_fields_def entry_len_defs
      flags_mask_iff zero_slot_def allZero_iff zeros_def split: if_splits)

end
