(* ===== verification/TB_Session.thy ===== *)
theory TB_Session
  imports TB_Wire
begin

text \<open>
  Request lifecycle state (\<open>src/tracker/internal/session\<close>): the in-flight registry, the credit
  reservations and the manager that joins them.

  \<open>Inflight\<close> keeps pointers to shared \<open>Request\<close> values in two maps, so the model has a heap of
  requests and the maps hold addresses: a change through one map is seen through the other. A
  channel with a buffer of one is the list of its buffered values; \<open>None\<close> is the nil channel. Each
  method runs under its mutex and is one function of the state. Go leaves the iteration order of
  a map open: where the code ranges over a map, the order is an argument.
\<close>

section \<open>Requests\<close>

datatype State = StateUnspecified | StateSelecting | StateAssigned | StateServing | StateCompleted | StateFailed

fun State_String :: "State \<Rightarrow> string" where
  "State_String StateSelecting = ''selecting''"
| "State_String StateAssigned = ''assigned''"
| "State_String StateServing = ''serving''"
| "State_String StateCompleted = ''completed''"
| "State_String StateFailed = ''failed''"
| "State_String StateUnspecified = ''unspecified''"

fun IsAllowedTransition :: "State \<Rightarrow> State \<Rightarrow> bool" where
  "IsAllowedTransition StateSelecting to = (to = StateAssigned \<or> to = StateFailed)"
| "IsAllowedTransition StateAssigned to = (to = StateServing \<or> to = StateFailed)"
| "IsAllowedTransition StateServing to = (to = StateCompleted \<or> to = StateFailed)"
| "IsAllowedTransition _ to = False"

definition terminal :: "State \<Rightarrow> bool" where
  "terminal st \<longleftrightarrow> st = StateCompleted \<or> st = StateFailed"

record Request =
  rq_request_id :: reqid
  rq_consumer_id :: ident
  rq_envelope_body :: "EnvelopeBody option"
  rq_envelope_hash :: bytes
  rq_max_cost_reserved :: u64
  rq_assigned_seeder :: ident
  rq_seeder_pubkey :: bytes
  rq_offer_attempts :: "ident list"
  rq_started_at :: time
  rq_state :: State
  rq_preimage_hash :: bytes
  rq_settle_sig :: "bytes list option"
  rq_terminated_at :: time

datatype session_err = ErrInsufficientCredits | ErrDuplicateReservation | ErrIllegalTransition | ErrUnknownRequest

section \<open>The in-flight registry\<close>

type_synonym addr = nat

record Inflight =
  if_heap :: "addr \<rightharpoonup> Request"
  if_next :: addr
  if_byID :: "reqid \<rightharpoonup> addr"
  if_byHash :: "bytes \<rightharpoonup> addr"

definition NewInflight :: Inflight where
  "NewInflight = \<lparr>if_heap = Map.empty, if_next = 0, if_byID = Map.empty, if_byHash = Map.empty\<rparr>"

text \<open>
  \<open>Insert(&Request{...})\<close>: the caller builds the request in place, so the model allocates it and
  returns its address.
\<close>

definition Insert :: "Request \<Rightarrow> Inflight \<Rightarrow> addr \<times> Inflight" where
  "Insert r f = (if_next f, f\<lparr>if_heap := (if_heap f)(if_next f \<mapsto> r), if_next := if_next f + 1,
     if_byID := (if_byID f)(rq_request_id r \<mapsto> if_next f)\<rparr>)"

definition Inflight_Get :: "reqid \<Rightarrow> Inflight \<Rightarrow> (addr \<times> Request) option" where
  "Inflight_Get i f = (case if_byID f i of None \<Rightarrow> None
     | Some p \<Rightarrow> (case if_heap f p of None \<Rightarrow> None | Some r \<Rightarrow> Some (p, r)))"

definition set_request :: "addr \<Rightarrow> Request \<Rightarrow> Inflight \<Rightarrow> Inflight" where
  "set_request p r f = f\<lparr>if_heap := (if_heap f)(p \<mapsto> r)\<rparr>"

definition Transition :: "reqid \<Rightarrow> State \<Rightarrow> State \<Rightarrow> time \<Rightarrow> Inflight \<Rightarrow> session_err option \<times> Inflight" where
  "Transition i from to now f = (case Inflight_Get i f of None \<Rightarrow> (Some ErrUnknownRequest, f)
     | Some (p, r) \<Rightarrow> if rq_state r \<noteq> from then (Some ErrIllegalTransition, f)
         else (None, set_request p (if to = StateCompleted \<or> to = StateFailed
           then r\<lparr>rq_state := to, rq_terminated_at := now\<rparr> else r\<lparr>rq_state := to\<rparr>) f))"

definition MarkSeeder :: "reqid \<Rightarrow> ident \<Rightarrow> bytes \<Rightarrow> Inflight \<Rightarrow> session_err option \<times> Inflight" where
  "MarkSeeder i seeder pub f = (case Inflight_Get i f of None \<Rightarrow> (Some ErrUnknownRequest, f)
     | Some (p, r) \<Rightarrow> (None, set_request p (r\<lparr>rq_assigned_seeder := seeder, rq_seeder_pubkey := pub\<rparr>) f))"

definition IndexByHash :: "reqid \<Rightarrow> bytes \<Rightarrow> Inflight \<Rightarrow> session_err option \<times> Inflight" where
  "IndexByHash i h f = (case Inflight_Get i f of None \<Rightarrow> (Some ErrUnknownRequest, f)
     | Some (p, r) \<Rightarrow> (None, (set_request p (r\<lparr>rq_preimage_hash := h\<rparr>) f)\<lparr>if_byHash := (if_byHash f)(h \<mapsto> p)\<rparr>))"

definition LookupByHash :: "bytes \<Rightarrow> Inflight \<Rightarrow> (addr \<times> Request) option" where
  "LookupByHash h f = (case if_byHash f h of None \<Rightarrow> None
     | Some p \<Rightarrow> (case if_heap f p of None \<Rightarrow> None | Some r \<Rightarrow> Some (p, r)))"

definition LookupAssignment :: "reqid \<Rightarrow> Inflight \<Rightarrow> (ident \<times> ident) option" where
  "LookupAssignment i f = (case Inflight_Get i f of None \<Rightarrow> None
     | Some (p, r) \<Rightarrow> if rq_assigned_seeder r = zero_id then None else Some (rq_consumer_id r, rq_assigned_seeder r))"

definition EnsureSettleSig :: "reqid \<Rightarrow> Inflight \<Rightarrow> session_err option \<times> Inflight" where
  "EnsureSettleSig i f = (case Inflight_Get i f of None \<Rightarrow> (Some ErrUnknownRequest, f)
     | Some (p, r) \<Rightarrow> (None, set_request p (r\<lparr>rq_settle_sig :=
         (case rq_settle_sig r of None \<Rightarrow> Some [] | Some q \<Rightarrow> Some q)\<rparr>) f))"

record InflightSummary =
  is_request_id :: reqid
  is_consumer_id :: ident
  is_state :: State
  is_started_at :: time
  is_assigned_seeder :: ident
  is_preimage_hash :: bytes

definition Inflight_Snapshot :: "reqid list \<Rightarrow> Inflight \<Rightarrow> InflightSummary list" where
  "Inflight_Snapshot order f = map (\<lambda>(p, r). \<lparr>is_request_id = rq_request_id r, is_consumer_id = rq_consumer_id r,
     is_state = rq_state r, is_started_at = rq_started_at r, is_assigned_seeder = rq_assigned_seeder r,
     is_preimage_hash = rq_preimage_hash r\<rparr>) (List.map_filter (\<lambda>i. Inflight_Get i f) order)"

definition ForceFail :: "reqid \<Rightarrow> time \<Rightarrow> Inflight \<Rightarrow> (State \<times> bool) \<times> Inflight" where
  "ForceFail i now f = (case Inflight_Get i f of None \<Rightarrow> ((StateUnspecified, False), f)
     | Some (p, r) \<Rightarrow> ((rq_state r, True), set_request p (r\<lparr>rq_state := StateFailed,
         rq_terminated_at := (if rq_terminated_at r = zero_time then now else rq_terminated_at r)\<rparr>) f))"

definition sweep_terminal_one :: "time \<Rightarrow> reqid \<Rightarrow> Request list \<times> Inflight \<Rightarrow> Request list \<times> Inflight" where
  "sweep_terminal_one cutoff i acc = (case acc of (swept, f) \<Rightarrow> (case Inflight_Get i f of None \<Rightarrow> (swept, f)
     | Some (p, r) \<Rightarrow>
       if (rq_state r = StateCompleted \<or> rq_state r = StateFailed) \<and> \<not> rq_terminated_at r > cutoff
       then (swept @ [r], f\<lparr>if_byID := (if_byID f)(i := None),
         if_byHash := (if rq_preimage_hash r \<noteq> zero_id then (if_byHash f)(rq_preimage_hash r := None) else if_byHash f)\<rparr>)
       else (swept, f)))"

definition SweepTerminal :: "reqid list \<Rightarrow> time \<Rightarrow> int \<Rightarrow> Inflight \<Rightarrow> Request list \<times> Inflight" where
  "SweepTerminal order now terminalTTL f = fold (sweep_terminal_one (now - terminalTTL)) order ([], f)"

section \<open>Reservations\<close>

record Reservation =
  rv_req_id :: reqid
  rv_consumer_id :: ident
  rv_amount :: u64
  rv_expires_at :: time

record Reservations =
  rs_byID :: "ident \<rightharpoonup> u64"
  rs_byReq :: "reqid \<rightharpoonup> Reservation"

definition NewReservations :: Reservations where
  "NewReservations = \<lparr>rs_byID = Map.empty, rs_byReq = Map.empty\<rparr>"

definition Reserved :: "ident \<Rightarrow> Reservations \<Rightarrow> u64" where
  "Reserved consumer r = (case rs_byID r consumer of None \<Rightarrow> 0 | Some x \<Rightarrow> x)"

definition Reserve :: "reqid \<Rightarrow> ident \<Rightarrow> u64 \<Rightarrow> u64 \<Rightarrow> time \<Rightarrow> Reservations \<Rightarrow> session_err option \<times> Reservations" where
  "Reserve i consumer amount snapshotCredits expiresAt r =
     (if rs_byReq r i \<noteq> None then (Some ErrDuplicateReservation, r)
      else if Reserved consumer r + amount > snapshotCredits then (Some ErrInsufficientCredits, r)
      else (None, \<lparr>rs_byID = (rs_byID r)(consumer \<mapsto> Reserved consumer r + amount),
        rs_byReq = (rs_byReq r)(i \<mapsto> \<lparr>rv_req_id = i, rv_consumer_id = consumer, rv_amount = amount,
          rv_expires_at = expiresAt\<rparr>)\<rparr>))"

text \<open>\<open>byID[c] -= amount\<close>, then the key is deleted when the value is zero.\<close>

definition drop_slot :: "reqid \<Rightarrow> Reservation \<Rightarrow> Reservations \<Rightarrow> Reservations" where
  "drop_slot i slot r = (let left = Reserved (rv_consumer_id slot) r - rv_amount slot in
     \<lparr>rs_byID = (rs_byID r)(rv_consumer_id slot := (if left = 0 then None else Some left)),
      rs_byReq = (rs_byReq r)(i := None)\<rparr>)"

definition Release :: "reqid \<Rightarrow> Reservations \<Rightarrow> (ident \<times> u64 \<times> bool) \<times> Reservations" where
  "Release i r = (case rs_byReq r i of None \<Rightarrow> ((zero_id, 0, False), r)
     | Some slot \<Rightarrow> ((rv_consumer_id slot, rv_amount slot, True), drop_slot i slot r))"

definition Reservations_Get :: "reqid \<Rightarrow> Reservations \<Rightarrow> Reservation option" where
  "Reservations_Get i r = rs_byReq r i"

definition Reservations_Snapshot :: "reqid list \<Rightarrow> Reservations \<Rightarrow> Reservation list" where
  "Reservations_Snapshot order r = List.map_filter (rs_byReq r) order"

definition sweep_expired_one :: "time \<Rightarrow> reqid \<Rightarrow> Reservation list \<times> Reservations \<Rightarrow> Reservation list \<times> Reservations" where
  "sweep_expired_one now i acc = (case acc of (expired, r) \<Rightarrow> (case rs_byReq r i of None \<Rightarrow> (expired, r)
     | Some slot \<Rightarrow> if \<not> rv_expires_at slot > now then (expired @ [slot], drop_slot i slot r) else (expired, r)))"

definition SweepExpired :: "reqid list \<Rightarrow> time \<Rightarrow> Reservations \<Rightarrow> Reservation list \<times> Reservations" where
  "SweepExpired order now r = fold (sweep_expired_one now) order ([], r)"

section \<open>The manager\<close>

record Manager =
  mg_inflight :: Inflight
  mg_reservations :: Reservations

definition Manager_New :: Manager where
  "Manager_New = \<lparr>mg_inflight = NewInflight, mg_reservations = NewReservations\<rparr>"

record Expiry =
  ex_req_id :: reqid
  ex_consumer_id :: ident
  ex_amount :: u64
  ex_prior_state :: State
  ex_assigned_seeder :: ident

definition expire_slot :: "time \<Rightarrow> Reservation \<Rightarrow> Inflight \<Rightarrow> Expiry \<times> Inflight" where
  "expire_slot now slot f = (let e = \<lparr>ex_req_id = rv_req_id slot, ex_consumer_id = rv_consumer_id slot,
       ex_amount = rv_amount slot, ex_prior_state = StateUnspecified, ex_assigned_seeder = zero_id\<rparr> in
     (case Inflight_Get (rv_req_id slot) f of None \<Rightarrow> (e, f)
      | Some (p, r) \<Rightarrow>
        (let e' = e\<lparr>ex_prior_state := rq_state r,
               ex_assigned_seeder := (if rq_state r = StateAssigned then rq_assigned_seeder r else zero_id)\<rparr>
         in if rq_state r = StateSelecting
            then (e', snd (Transition (rv_req_id slot) StateSelecting StateFailed now f))
            else if rq_state r = StateAssigned
            then (e', snd (Transition (rv_req_id slot) StateAssigned StateFailed now f))
            else (e', f))))"

fun expire_slots :: "time \<Rightarrow> Reservation list \<Rightarrow> Inflight \<Rightarrow> Expiry list \<times> Inflight" where
  "expire_slots now [] f = ([], f)"
| "expire_slots now (slot # slots) f = (case expire_slot now slot f of (e, f1) \<Rightarrow>
     (case expire_slots now slots f1 of (es, f2) \<Rightarrow> (e # es, f2)))"

definition SweepExpiredAndFail :: "reqid list \<Rightarrow> time \<Rightarrow> Manager \<Rightarrow> Expiry list \<times> Manager" where
  "SweepExpiredAndFail order now m = (case SweepExpired order now (mg_reservations m) of (expired, rs) \<Rightarrow>
     (case expire_slots now expired (mg_inflight m) of (out, f) \<Rightarrow>
       (out, m\<lparr>mg_inflight := f, mg_reservations := rs\<rparr>)))"

end
