(* ===== verification/TB_Registry.thy ===== *)
theory TB_Registry
  imports TB_Wire
begin

text \<open>
  The seeder registry (\<open>src/tracker/internal/registry\<close>): records sharded by the leading bytes of the
  identity. The code copies every record on the way in and out, so stored records are values.
  \<open>Load\<close> is a Go \<open>int\<close> (64 bits). Network addresses are opaque. The iteration order of each shard's
  map is an argument (\<open>orders\<close>, one list of keys per shard).
\<close>

record Capabilities =
  ca_models :: "string list"
  ca_max_context :: u32
  ca_tiers :: "PrivacyTier list"
  ca_attestation :: bytes

record NetCoords =
  nc_external_addr :: string
  nc_local_candidates :: "string list"

record SeederRecord =
  sr_identity_id :: ident
  sr_conn_session_id :: u64
  sr_capabilities :: Capabilities
  sr_available :: bool
  sr_headroom_estimate :: float64
  sr_reputation_score :: float64
  sr_net_coords :: NetCoords
  sr_load :: i64
  sr_last_heartbeat :: time

datatype reg_err = ErrUnknownSeeder | ErrInvalidShardCount | ErrInvalidHeadroom | ErrLoadUnderflow

section \<open>Shards\<close>

type_synonym shard = "ident \<rightharpoonup> SeederRecord"

definition shard_put :: "SeederRecord \<Rightarrow> shard \<Rightarrow> shard" where
  "shard_put rec sh = sh(sr_identity_id rec \<mapsto> rec)"

definition shard_get :: "ident \<Rightarrow> shard \<Rightarrow> SeederRecord option" where
  "shard_get i sh = sh i"

definition shard_delete :: "ident \<Rightarrow> shard \<Rightarrow> shard" where
  "shard_delete i sh = sh(i := None)"

definition shard_update :: "ident \<Rightarrow> (SeederRecord \<Rightarrow> reg_err + SeederRecord) \<Rightarrow> shard \<Rightarrow> reg_err option \<times> shard" where
  "shard_update i fn sh = (case sh i of None \<Rightarrow> (Some ErrUnknownSeeder, sh)
     | Some r \<Rightarrow> (case fn r of Inl e \<Rightarrow> (Some e, sh) | Inr working \<Rightarrow> (None, sh(i \<mapsto> working))))"

definition shard_snapshot :: "ident list \<Rightarrow> shard \<Rightarrow> SeederRecord list" where
  "shard_snapshot order sh = List.map_filter sh order"

definition sweep_one :: "time \<Rightarrow> ident \<Rightarrow> nat \<times> shard \<Rightarrow> nat \<times> shard" where
  "sweep_one staleBefore i acc = (case acc of (removed, sh) \<Rightarrow> (case sh i of None \<Rightarrow> (removed, sh)
     | Some r \<Rightarrow> if \<not> sr_last_heartbeat r > staleBefore then (removed + 1, sh(i := None)) else (removed, sh)))"

definition sweepStale :: "ident list \<Rightarrow> time \<Rightarrow> shard \<Rightarrow> nat \<times> shard" where
  "sweepStale order staleBefore sh = fold (sweep_one staleBefore) order (0, sh)"

section \<open>The registry\<close>

type_synonym Registry = "shard list"

definition Registry_New :: "int \<Rightarrow> reg_err + Registry" where
  "Registry_New numShards = (if numShards \<le> 0 then Inl ErrInvalidShardCount else Inr (replicate (nat numShards) Map.empty))"

text \<open>\<open>binary.BigEndian.Uint64(b[:8])\<close>, then modulo the shard count in \<open>uint64\<close>.\<close>

definition be_uint :: "bytes \<Rightarrow> int" where
  "be_uint bs = foldl (\<lambda>acc b. acc * 256 + uint b) 0 bs"

definition shardIndex :: "Registry \<Rightarrow> ident \<Rightarrow> nat" where
  "shardIndex r i = nat (be_uint (take 8 i) mod int (length r))"

definition with_shard :: "ident \<Rightarrow> (shard \<Rightarrow> 'a \<times> shard) \<Rightarrow> Registry \<Rightarrow> 'a \<times> Registry" where
  "with_shard i op r = (let k = shardIndex r i; (out, sh) = op (r ! k) in (out, r[k := sh]))"

definition Register :: "SeederRecord \<Rightarrow> Registry \<Rightarrow> Registry" where
  "Register rec r = snd (with_shard (sr_identity_id rec) (\<lambda>sh. ((), shard_put rec sh)) r)"

definition Registry_Get :: "ident \<Rightarrow> Registry \<Rightarrow> SeederRecord option" where
  "Registry_Get i r = shard_get i (r ! shardIndex r i)"

definition Deregister :: "ident \<Rightarrow> Registry \<Rightarrow> Registry" where
  "Deregister i r = snd (with_shard i (\<lambda>sh. ((), shard_delete i sh)) r)"

definition Heartbeat :: "ident \<Rightarrow> time \<Rightarrow> Registry \<Rightarrow> reg_err option \<times> Registry" where
  "Heartbeat i now r = with_shard i (shard_update i (\<lambda>rec. Inr (rec\<lparr>sr_last_heartbeat := now\<rparr>))) r"

definition UpdateExternalAddr :: "ident \<Rightarrow> string \<Rightarrow> Registry \<Rightarrow> reg_err option \<times> Registry" where
  "UpdateExternalAddr i addr r = with_shard i (shard_update i (\<lambda>rec.
     Inr (rec\<lparr>sr_net_coords := (sr_net_coords rec)\<lparr>nc_external_addr := addr\<rparr>\<rparr>))) r"

definition Advertise :: "ident \<Rightarrow> Capabilities \<Rightarrow> bool \<Rightarrow> float64 \<Rightarrow> Registry \<Rightarrow> reg_err option \<times> Registry" where
  "Advertise i caps available headroom r =
     (if \<not> (f_le (Fin 0) headroom \<and> f_le headroom (Fin 1)) then (Some ErrInvalidHeadroom, r)
      else with_shard i (shard_update i (\<lambda>rec.
        Inr (rec\<lparr>sr_capabilities := caps, sr_available := available, sr_headroom_estimate := headroom\<rparr>))) r)"

definition UpdateReputation :: "ident \<Rightarrow> float64 \<Rightarrow> Registry \<Rightarrow> reg_err option \<times> Registry" where
  "UpdateReputation i score r = with_shard i (shard_update i (\<lambda>rec. Inr (rec\<lparr>sr_reputation_score := score\<rparr>))) r"

text \<open>The closure also reports the new load; after a successful update it is the stored one.\<close>

definition load_result :: "ident \<Rightarrow> reg_err option \<times> Registry \<Rightarrow> (reg_err + int) \<times> Registry" where
  "load_result i res = (case res of (Some e, r) \<Rightarrow> (Inl e, r)
     | (None, r) \<Rightarrow> (Inr (case Registry_Get i r of None \<Rightarrow> 0 | Some rec \<Rightarrow> sr_load rec), r))"

definition IncLoad :: "ident \<Rightarrow> Registry \<Rightarrow> (reg_err + int) \<times> Registry" where
  "IncLoad i r = load_result i (with_shard i (shard_update i (\<lambda>rec. Inr (rec\<lparr>sr_load := i64_add (sr_load rec) 1\<rparr>))) r)"

definition DecLoad :: "ident \<Rightarrow> Registry \<Rightarrow> (reg_err + int) \<times> Registry" where
  "DecLoad i r = load_result i (with_shard i (shard_update i (\<lambda>rec.
     if sr_load rec \<le> 0 then Inl ErrLoadUnderflow else Inr (rec\<lparr>sr_load := i64_add (sr_load rec) (- 1)\<rparr>))) r)"

definition Registry_Snapshot :: "(nat \<Rightarrow> ident list) \<Rightarrow> Registry \<Rightarrow> SeederRecord list" where
  "Registry_Snapshot orders r = concat (map (\<lambda>k. shard_snapshot (orders k) (r ! k)) [0..<length r])"

record Filter =
  ft_require_available :: bool
  ft_model :: string
  ft_tier :: PrivacyTier
  ft_min_headroom :: float64
  ft_max_load :: int

text \<open>\<open>containsString\<close> and \<open>containsTier\<close>.\<close>

primrec contains :: "'a list \<Rightarrow> 'a \<Rightarrow> bool" where
  "contains [] want = False"
| "contains (x # xs) want = (if x = want then True else contains xs want)"

lemma contains_iff [simp]: "contains xs x \<longleftrightarrow> x \<in> set xs"
  by (induction xs) auto

definition match_one :: "Filter \<Rightarrow> SeederRecord \<Rightarrow> bool" where
  "match_one f rec = (if ft_require_available f \<and> \<not> sr_available rec then False
     else if ft_model f \<noteq> [] \<and> \<not> contains (ca_models (sr_capabilities rec)) (ft_model f) then False
     else if ft_tier f \<noteq> PRIVACY_TIER_UNSPECIFIED \<and> \<not> contains (ca_tiers (sr_capabilities rec)) (ft_tier f) then False
     else if f_lt (sr_headroom_estimate rec) (ft_min_headroom f) then False
     else if ft_max_load f > 0 \<and> sr_load rec \<ge> ft_max_load f then False
     else True)"

definition Match :: "(nat \<Rightarrow> ident list) \<Rightarrow> Filter \<Rightarrow> Registry \<Rightarrow> SeederRecord list" where
  "Match orders f r = filter (match_one f) (Registry_Snapshot orders r)"

fun sweep_shards :: "(nat \<Rightarrow> ident list) \<Rightarrow> nat \<Rightarrow> time \<Rightarrow> shard list \<Rightarrow> nat \<times> shard list" where
  "sweep_shards orders k staleBefore [] = (0, [])"
| "sweep_shards orders k staleBefore (sh # shs) = (case sweepStale (orders k) staleBefore sh of (n, sh') \<Rightarrow>
     (case sweep_shards orders (k + 1) staleBefore shs of (m, shs') \<Rightarrow> (n + m, sh' # shs')))"

definition Registry_Sweep :: "(nat \<Rightarrow> ident list) \<Rightarrow> time \<Rightarrow> Registry \<Rightarrow> nat \<times> Registry" where
  "Registry_Sweep orders staleBefore r = sweep_shards orders 0 staleBefore r"

section \<open>The sharded store is one map\<close>

definition reg_inv :: "Registry \<Rightarrow> bool" where
  "reg_inv r \<longleftrightarrow> r \<noteq> [] \<and> (\<forall>k < length r. \<forall>i rec. (r ! k) i = Some rec \<longrightarrow>
     shardIndex r i = k \<and> sr_identity_id rec = i)"

definition seeders :: "Registry \<Rightarrow> ident \<rightharpoonup> SeederRecord" where
  "seeders r i = Registry_Get i r"

lemma shardIndex_less: "r \<noteq> [] \<Longrightarrow> shardIndex r i < length r"
  by (simp add: shardIndex_def nat_less_iff)

lemma shardIndex_update [simp]: "shardIndex (r[k := sh]) i = shardIndex r i"
  by (simp add: shardIndex_def)

text \<open>
  An operation on one shard that touches only the key \<open>i\<close>, and stores under it a record of
  that identity, keeps the invariant and is the same operation on the map.
\<close>

definition local_at :: "ident \<Rightarrow> shard \<Rightarrow> shard \<Rightarrow> bool" where
  "local_at i sh sh' \<longleftrightarrow> (\<forall>j. j \<noteq> i \<longrightarrow> sh' j = sh j) \<and> (\<forall>rec. sh' i = Some rec \<longrightarrow> sr_identity_id rec = i)"

lemma reg_invD: "reg_inv r \<Longrightarrow> k < length r \<Longrightarrow> (r ! k) i = Some rec \<Longrightarrow> shardIndex r i = k \<and> sr_identity_id rec = i"
  by (simp add: reg_inv_def)

lemma reg_inv_nonempty: "reg_inv r \<Longrightarrow> r \<noteq> []"
  by (simp add: reg_inv_def)

lemma with_shard_local:
  assumes "reg_inv r" "with_shard i op r = (out, r')" "op (r ! shardIndex r i) = (out', sh')"
    "local_at i (r ! shardIndex r i) sh'"
  shows "out = out'" "reg_inv r'" "seeders r' = (seeders r)(i := sh' i)" "length r' = length r"
proof -
  let ?k = "shardIndex r i"
  have k: "?k < length r" using reg_inv_nonempty [OF assms(1)] by (simp add: shardIndex_less)
  have r': "out = out'" "r' = r[?k := sh']" using assms(2,3) by (auto simp: with_shard_def Let_def)
  then show "out = out'" "length r' = length r" by simp_all
  show "seeders r' = (seeders r)(i := sh' i)"
  proof
    fix j
    show "seeders r' j = ((seeders r)(i := sh' i)) j"
      using k assms(4) by (cases "shardIndex r j = ?k") (auto simp: r' seeders_def Registry_Get_def shard_get_def local_at_def)
  qed
  show "reg_inv r'"
    unfolding reg_inv_def
  proof (intro conjI allI impI)
    show "r' \<noteq> []" using assms(1) by (auto simp: r' reg_inv_def)
    fix m j rec assume m: "m < length r'" "(r' ! m) j = Some rec"
    have "shardIndex r j = m \<and> sr_identity_id rec = j"
    proof (cases "m = ?k \<and> j = i")
      case True
      then show ?thesis using m k assms(4) by (simp add: r' local_at_def)
    next
      case False
      then have "(r ! m) j = Some rec" using m k assms(4) by (cases "m = ?k") (auto simp: r' local_at_def)
      then show ?thesis using m(1) reg_invD [OF assms(1)] by (simp add: r')
    qed
    then show "shardIndex r' j = m" "sr_identity_id rec = j" by (simp_all add: r')
  qed
qed

lemma Registry_New_inv: "Registry_New n = Inr r \<Longrightarrow> reg_inv r \<and> seeders r = Map.empty"
  by (auto simp: Registry_New_def reg_inv_def seeders_def Registry_Get_def shard_get_def shardIndex_def
      fun_eq_iff split: if_splits)

lemma Register_spec:
  assumes "reg_inv r"
  shows "reg_inv (Register rec r)" "seeders (Register rec r) = (seeders r)(sr_identity_id rec \<mapsto> rec)"
proof -
  let ?i = "sr_identity_id rec"
  let ?op = "\<lambda>sh. ((), shard_put rec sh)"
  have W: "with_shard ?i ?op r = ((), Register rec r)" by (simp add: Register_def prod_eq_iff)
  note L = with_shard_local [OF assms W, of "()" "shard_put rec (r ! shardIndex r ?i)"]
  show "reg_inv (Register rec r)" "seeders (Register rec r) = (seeders r)(?i \<mapsto> rec)"
    using L by (auto simp: shard_put_def local_at_def)
qed

lemma Deregister_spec:
  assumes "reg_inv r"
  shows "reg_inv (Deregister i r)" "seeders (Deregister i r) = (seeders r)(i := None)"
proof -
  let ?op = "\<lambda>sh. ((), shard_delete i sh)"
  have W: "with_shard i ?op r = ((), Deregister i r)" by (simp add: Deregister_def prod_eq_iff)
  note L = with_shard_local [OF assms W, of "()" "shard_delete i (r ! shardIndex r i)"]
  show "reg_inv (Deregister i r)" "seeders (Deregister i r) = (seeders r)(i := None)"
    using L by (auto simp: shard_delete_def local_at_def)
qed

text \<open>Every update of one record, at once.\<close>

lemma update_spec:
  assumes "reg_inv r" "with_shard i (shard_update i fn) r = (err, r')"
    "\<And>rec rec'. fn rec = Inr rec' \<Longrightarrow> sr_identity_id rec' = sr_identity_id rec"
  shows "reg_inv r'" "seeders r i = None \<Longrightarrow> err = Some ErrUnknownSeeder \<and> seeders r' = seeders r"
    "seeders r i = Some rec \<Longrightarrow> fn rec = Inl e \<Longrightarrow> err = Some e \<and> seeders r' = seeders r"
    "seeders r i = Some rec \<Longrightarrow> fn rec = Inr rec' \<Longrightarrow> err = None \<and> seeders r' = (seeders r)(i \<mapsto> rec')"
proof -
  let ?sh = "r ! shardIndex r i"
  obtain err' sh' where op: "shard_update i fn ?sh = (err', sh')" by force
  have sd: "seeders r i = ?sh i" by (simp add: seeders_def Registry_Get_def shard_get_def)
  have k: "shardIndex r i < length r" using reg_inv_nonempty [OF assms(1)] by (simp add: shardIndex_less)
  have id: "?sh i = Some x \<Longrightarrow> sr_identity_id x = i" for x using reg_invD [OF assms(1) k] by blast
  have "local_at i ?sh sh'" using op id assms(3)
    by (auto simp: shard_update_def local_at_def split: option.splits sum.splits)
  note L = with_shard_local [OF assms(1,2) op this]
  show "reg_inv r'" by (rule L(2))
  show "seeders r i = None \<Longrightarrow> err = Some ErrUnknownSeeder \<and> seeders r' = seeders r"
    "seeders r i = Some rec \<Longrightarrow> fn rec = Inl e \<Longrightarrow> err = Some e \<and> seeders r' = seeders r"
    "seeders r i = Some rec \<Longrightarrow> fn rec = Inr rec' \<Longrightarrow> err = None \<and> seeders r' = (seeders r)(i \<mapsto> rec')"
    using L(1,3) op sd by (auto simp: shard_update_def fun_upd_idem)
qed

end
