(* ===== verification/TB_Signing.thy ===== *)
theory TB_Signing
  imports TB_Wire
begin

text \<open>
  The signing helpers (\<open>src/shared/signing\<close>, \<open>src/shared/federation/signing_transfer.go\<close>): the
  canonical bytes that each party signs, and the length guards around Ed25519.

  The primitives the helpers call are the fields of a \<open>crypto\<close> record, an argument of every
  definition that uses them: Ed25519, SHA-256 and the PKIX encoding of the Go library, and the
  deterministic protobuf codec (third party). \<open>None\<close> is an error of the encoder. Every theorem
  holds for all such functions; where a result rests on a documented property of one of them the
  property is a named hypothesis.
\<close>

record TransferProofRequest =
  tq_source_tracker_id :: bytes
  tq_dest_tracker_id :: bytes
  tq_identity_id :: bytes
  tq_amount :: u64
  tq_nonce :: bytes
  tq_consumer_sig :: bytes
  tq_consumer_pub :: bytes
  tq_timestamp :: u64

record crypto =
  ed_verify :: "bytes \<Rightarrow> bytes \<Rightarrow> bytes \<Rightarrow> bool"
  ed_sign :: "bytes \<Rightarrow> bytes \<Rightarrow> bytes"
  sha256 :: "bytes \<Rightarrow> bytes"
  pkix :: "bytes \<Rightarrow> bytes option"
  pb_entry :: "EntryBody \<Rightarrow> bytes option"
  pb_entry_dec :: "bytes \<Rightarrow> EntryBody option"
  pb_balance :: "BalanceSnapshotBody \<Rightarrow> bytes option"
  pb_envelope :: "EnvelopeBody \<Rightarrow> bytes option"
  pb_transfer_req :: "TransferProofRequest \<Rightarrow> bytes option"

definition PublicKeySize :: nat where "PublicKeySize = 32"
definition PrivateKeySize :: nat where "PrivateKeySize = 64"
definition SignatureSize :: nat where "SignatureSize = 64"

lemmas key_sizes = PublicKeySize_def PrivateKeySize_def SignatureSize_def

section \<open>Verification and signing of protobuf bodies\<close>

definition Verify :: "crypto \<Rightarrow> bytes \<Rightarrow> bytes \<Rightarrow> bytes \<Rightarrow> bool" where
  "Verify cr pub msg sig = (if length pub \<noteq> PublicKeySize \<or> length sig \<noteq> SignatureSize then False
     else ed_verify cr pub msg sig)"

text \<open>
  \<open>DeterministicMarshal\<close> with the codec of one message type: a \<open>nil\<close> message is refused, an
  error of the codec is passed on.
\<close>

definition DeterministicMarshal :: "('m \<Rightarrow> bytes option) \<Rightarrow> 'm option \<Rightarrow> string + bytes" where
  "DeterministicMarshal enc om = (case om of None \<Rightarrow> Inl ''signing: DeterministicMarshal on nil message''
   | Some m \<Rightarrow> (case enc m of None \<Rightarrow> Inl ''proto: marshal'' | Some buf \<Rightarrow> Inr buf))"

definition SignEnvelope :: "crypto \<Rightarrow> bytes \<Rightarrow> EnvelopeBody option \<Rightarrow> string + bytes" where
  "SignEnvelope cr priv ob = (if length priv \<noteq> PrivateKeySize then Inl ''signing: private key length''
     else if ob = None then Inl ''signing: SignEnvelope on nil body''
     else (case DeterministicMarshal (pb_envelope cr) ob of
       Inl e \<Rightarrow> Inl (''signing: marshal envelope body: '' @ e) | Inr buf \<Rightarrow> Inr (ed_sign cr priv buf)))"

definition VerifyEnvelope :: "crypto \<Rightarrow> bytes \<Rightarrow> EnvelopeSigned option \<Rightarrow> bool" where
  "VerifyEnvelope cr pub os = (case os of None \<Rightarrow> False | Some s \<Rightarrow>
     if es_body s = None then False
     else (case DeterministicMarshal (pb_envelope cr) (es_body s) of
       Inl e \<Rightarrow> False | Inr buf \<Rightarrow> Verify cr pub buf (es_consumer_sig s)))"

definition SignBalanceSnapshot :: "crypto \<Rightarrow> bytes \<Rightarrow> BalanceSnapshotBody option \<Rightarrow> string + bytes" where
  "SignBalanceSnapshot cr priv ob = (if length priv \<noteq> PrivateKeySize then Inl ''signing: private key length''
     else if ob = None then Inl ''signing: SignBalanceSnapshot on nil body''
     else (case DeterministicMarshal (pb_balance cr) ob of
       Inl e \<Rightarrow> Inl (''signing: marshal balance snapshot body: '' @ e) | Inr buf \<Rightarrow> Inr (ed_sign cr priv buf)))"

definition VerifyBalanceSnapshot :: "crypto \<Rightarrow> bytes \<Rightarrow> SignedBalanceSnapshot option \<Rightarrow> bool" where
  "VerifyBalanceSnapshot cr pub os = (case os of None \<Rightarrow> False | Some s \<Rightarrow>
     if sb_body s = None then False
     else (case DeterministicMarshal (pb_balance cr) (sb_body s) of
       Inl e \<Rightarrow> False | Inr buf \<Rightarrow> Verify cr pub buf (sb_tracker_sig s)))"

definition SignEntry :: "crypto \<Rightarrow> bytes \<Rightarrow> EntryBody option \<Rightarrow> string + bytes" where
  "SignEntry cr priv ob = (if length priv \<noteq> PrivateKeySize then Inl ''signing: private key length''
     else if ob = None then Inl ''signing: SignEntry on nil body''
     else (case DeterministicMarshal (pb_entry cr) ob of
       Inl e \<Rightarrow> Inl (''signing: marshal entry body: '' @ e) | Inr buf \<Rightarrow> Inr (ed_sign cr priv buf)))"

definition VerifyEntry :: "crypto \<Rightarrow> bytes \<Rightarrow> EntryBody option \<Rightarrow> bytes \<Rightarrow> bool" where
  "VerifyEntry cr pub ob sig = (if ob = None then False
     else (case DeterministicMarshal (pb_entry cr) ob of
       Inl e \<Rightarrow> False | Inr buf \<Rightarrow> Verify cr pub buf sig))"

section \<open>Transfer-proof requests\<close>

definition CanonicalTransferProofRequestPreSig :: "crypto \<Rightarrow> TransferProofRequest option \<Rightarrow> string + bytes" where
  "CanonicalTransferProofRequestPreSig cr om = (case om of None \<Rightarrow> Inl ''federation: nil TransferProofRequest''
   | Some m \<Rightarrow> DeterministicMarshal (pb_transfer_req cr) (Some (m\<lparr>tq_consumer_sig := []\<rparr>)))"

definition SignTransferProofRequest :: "crypto \<Rightarrow> bytes \<Rightarrow> TransferProofRequest option \<Rightarrow> string + bytes" where
  "SignTransferProofRequest cr priv om = (if length priv \<noteq> PrivateKeySize then Inl ''federation: private key length''
     else (case CanonicalTransferProofRequestPreSig cr om of
       Inl e \<Rightarrow> Inl (''federation: canonical TransferProofRequest: '' @ e)
     | Inr c \<Rightarrow> Inr (ed_sign cr priv c)))"

section \<open>Usage assertions\<close>

record UsageAssertion =
  ua_request_id :: bytes
  ua_consumer_id :: bytes
  ua_seeder_id :: bytes
  ua_model :: string
  ua_input_tokens :: u32
  ua_output_tokens :: u32
  ua_cost_credits :: u64

definition str_bytes :: "string \<Rightarrow> bytes" where
  "str_bytes s = map of_char s"

definition usageAssertionDomain :: string where
  "usageAssertionDomain = ''token-bay/usage-assertion:v1''"

definition CanonicalUsageAssertionPreSig :: "UsageAssertion \<Rightarrow> string + bytes" where
  "CanonicalUsageAssertionPreSig a =
     (if length (ua_request_id a) \<noteq> 16 then Inl ''signing: usage assertion request_id must be 16 bytes''
      else if length (ua_consumer_id a) \<noteq> 32 \<or> length (ua_seeder_id a) \<noteq> 32
        then Inl ''signing: usage assertion consumer_id/seeder_id must be 32 bytes''
      else if ua_model a = [] then Inl ''signing: usage assertion model empty''
      else Inr (str_bytes usageAssertionDomain @ [0] @ ua_request_id a @ [0] @ ua_consumer_id a @ [0] @
        ua_seeder_id a @ [0] @ str_bytes (ua_model a) @ [0] @ be64 (ucast (ua_input_tokens a)) @
        be64 (ucast (ua_output_tokens a)) @ be64 (ua_cost_credits a)))"

definition SignUsageAssertion :: "crypto \<Rightarrow> bytes \<Rightarrow> UsageAssertion \<Rightarrow> string + bytes" where
  "SignUsageAssertion cr priv a = (if length priv \<noteq> PrivateKeySize then Inl ''signing: bad private key size''
     else (case CanonicalUsageAssertionPreSig a of Inl e \<Rightarrow> Inl e | Inr msg \<Rightarrow> Inr (ed_sign cr priv msg)))"

definition VerifyUsageAssertion :: "crypto \<Rightarrow> bytes \<Rightarrow> UsageAssertion \<Rightarrow> bytes \<Rightarrow> bool" where
  "VerifyUsageAssertion cr pub a sig =
     (if length pub \<noteq> PublicKeySize \<or> length sig \<noteq> SignatureSize then False
      else (case CanonicalUsageAssertionPreSig a of Inl e \<Rightarrow> False | Inr msg \<Rightarrow> ed_verify cr pub msg sig))"

section \<open>The preimage determines the assertion\<close>

lemma unat_of_char [simp]: "unat (of_char c :: byte) = of_char c"
proof -
  have "(of_char c :: byte) = word_of_nat (of_char c)"
    by (simp only: of_nat_of_char)
  then have "unat (of_char c :: byte) = of_char c mod 256"
    by (simp add: unsigned_of_nat take_bit_eq_mod)
  then show ?thesis by (simp only: of_char_mod_256)
qed

lemma str_bytes_inject [simp]: "str_bytes s = str_bytes t \<longleftrightarrow> s = t"
proof -
  have "inj (of_char :: char \<Rightarrow> byte)"
  proof (rule injI)
    fix c d :: char
    assume "(of_char c :: byte) = of_char d"
    then have "unat (of_char c :: byte) = unat (of_char d :: byte)" by simp
    then show "c = d" by (simp only: unat_of_char of_char_eq_iff)
  qed
  then show ?thesis by (auto simp: str_bytes_def inj_map_eq_map)
qed

lemma length_str_bytes [simp]: "length (str_bytes s) = length s"
  by (simp add: str_bytes_def)

lemma uint_ucast_u64 [simp]: "uint (ucast (x :: u32) :: u64) = uint x"
  by (rule uint_up_ucast) (simp add: is_up)

lemma unat_ucast_u64 [simp]: "unat (ucast (x :: u32) :: u64) = unat x"
  by (simp flip: nat_uint_eq)

lemma ucast_u32_u64_inject [simp]: "(ucast (x :: u32) :: u64) = ucast y \<longleftrightarrow> x = y"
  by (metis unat_ucast_u64 word_unat_eq_iff)

text \<open>
  Every field but the model has a fixed width, so the model's length follows from the length of
  the preimage: two assertions with the same canonical bytes are the same assertion.
\<close>

lemma canonical_usage_inject:
  assumes "CanonicalUsageAssertionPreSig a = Inr m" "CanonicalUsageAssertionPreSig b = Inr m"
  shows "a = b"
proof -
  let ?fix = "\<lambda>a. length (ua_request_id a) = 16 \<and> length (ua_consumer_id a) = 32 \<and> length (ua_seeder_id a) = 32"
  let ?pre = "\<lambda>a. str_bytes usageAssertionDomain @ [0] @ ua_request_id a @ [0] @ ua_consumer_id a @ [0] @
        ua_seeder_id a @ [0] @ str_bytes (ua_model a) @ [0] @ be64 (ucast (ua_input_tokens a)) @
        be64 (ucast (ua_output_tokens a)) @ be64 (ua_cost_credits a)"
  from assms have fa: "?fix a" and fb: "?fix b" and eq: "?pre a = ?pre b"
    by (auto simp: CanonicalUsageAssertionPreSig_def split: if_splits)
  from arg_cong [OF eq, of length] fa fb have "length (ua_model a) = length (ua_model b)"
    by simp
  with eq fa fb show "a = b"
    by (cases a; cases b) simp
qed

text \<open>
  What a party that signs or hashes canonical bytes relies on: the bytes determine the message.
  A hash of the bytes then identifies the message up to a collision of the hash.
\<close>

locale canonical_preimage =
  fixes pre :: "'m \<Rightarrow> string + bytes"
  assumes pre_inject: "pre a = Inr m \<Longrightarrow> pre b = Inr m \<Longrightarrow> a = b"
begin

lemma hash_binding:
  assumes "pre a = Inr m" "pre b = Inr n" "h m = h n"
  shows "a = b \<or> (m \<noteq> n \<and> h m = h n)"
  using assms pre_inject [of a m b] by auto

lemma distinct_preimages: "a \<noteq> b \<Longrightarrow> pre a = Inr m \<Longrightarrow> pre b \<noteq> Inr m"
  using pre_inject by blast

end

interpretation usage: canonical_preimage CanonicalUsageAssertionPreSig
  by unfold_locales (rule canonical_usage_inject)

lemma VerifyUsageAssertion_lengths:
  "VerifyUsageAssertion cr pub a sig \<Longrightarrow> length pub = 32 \<and> length sig = 64 \<and>
     (\<exists>m. CanonicalUsageAssertionPreSig a = Inr m \<and> ed_verify cr pub m sig)"
  by (auto simp: VerifyUsageAssertion_def key_sizes split: if_splits sum.splits)

end
