(* ===== verification/TB_Broker.thy ===== *)
theory TB_Broker
  imports TB_Session TB_Registry TB_Signing
begin

text \<open>
  The broker's selection phase (\<open>src/tracker/internal/broker\<close>): pricing, candidate ranking, the offer
  loop of \<open>Submit\<close>, the queue of parked envelopes and the operator overrides.

  The state is what the code shares: the session manager, the registry, the parked envelopes, and
  logs of the calls made to collaborators (offers pushed, offer outcomes reported). What the
  environment answers during one call is a \<open>submit_env\<close>: the reputation and revocation lookups, the
  random request id, the clock, the map iteration orders and the reply to each offer. While an
  offer is out other goroutines run; \<open>sv_meanwhile k\<close> is what they did to the shared state during
  attempt \<open>k\<close>. Metrics and log lines are left out.
\<close>

section \<open>Pricing\<close>

record ModelPrices =
  mp_in :: u64
  mp_out :: u64

type_synonym PriceTable = "string \<rightharpoonup> ModelPrices"

datatype broker_err = ErrUnknownModel | ErrSeederMismatch | ErrModelMismatch | ErrCostOverspend
  | ErrSeederSigInvalid | ErrDuplicateSettle | ErrUnknownPreimage | ErrDuplicateUsageReport
  | ErrInvalidState | ErrConsumerSig | ErrIdentityFrozen | ErrSession session_err | ErrCanceled
  | ErrDeadlineExceeded | ErrUnreachable | BrErr string

definition DefaultPriceTable :: PriceTable where
  "DefaultPriceTable = [''claude-opus-4-7'' \<mapsto> \<lparr>mp_in = 15, mp_out = 75\<rparr>,
     ''claude-sonnet-4-6'' \<mapsto> \<lparr>mp_in = 3, mp_out = 15\<rparr>, ''claude-haiku-4-5-20251001'' \<mapsto> \<lparr>mp_in = 1, mp_out = 5\<rparr>]"

definition NewPriceTableFromConfig :: "(string \<rightharpoonup> ModelPrices) \<Rightarrow> PriceTable" where
  "NewPriceTableFromConfig models = (\<lambda>name. case models name of None \<Rightarrow> None
     | Some m \<Rightarrow> Some \<lparr>mp_in = mp_in m, mp_out = mp_out m\<rparr>)"

definition MaxCost :: "PriceTable \<Rightarrow> EnvelopeBody option \<Rightarrow> broker_err + u64" where
  "MaxCost p oenv = (case oenv of None \<Rightarrow> Inl (BrErr ''broker: MaxCost called with nil envelope'')
     | Some env \<Rightarrow> (case p (ev_model env) of None \<Rightarrow> Inl ErrUnknownModel
         | Some m \<Rightarrow> Inr (mp_in m * ev_max_input_tokens env + mp_out m * ev_max_output_tokens env)))"

definition ActualCost :: "PriceTable \<Rightarrow> string \<Rightarrow> u32 \<Rightarrow> u32 \<Rightarrow> broker_err + u64" where
  "ActualCost p model tin tout = (case p model of None \<Rightarrow> Inl ErrUnknownModel
     | Some m \<Rightarrow> Inr (mp_in m * ucast tin + mp_out m * ucast tout))"

section \<open>Ranking candidates\<close>

record BrokerScoreWeights =
  sw_reputation :: float64
  sw_headroom :: float64
  sw_rtt :: float64
  sw_load :: float64

record BrokerConfig =
  bc_headroom_threshold :: float64
  bc_load_threshold :: int
  bc_score_weights :: BrokerScoreWeights
  bc_max_offer_attempts :: int

record Candidate =
  cd_record :: SeederRecord
  cd_score :: float64

definition Score :: "SeederRecord \<Rightarrow> BrokerScoreWeights \<Rightarrow> float64 \<Rightarrow> float64 \<Rightarrow> float64" where
  "Score rec w repScore rttMs =
     f_sub (f_sub (f_add (f_mul (sw_reputation w) repScore) (f_mul (sw_headroom w) (sr_headroom_estimate rec)))
       (f_mul (sw_rtt w) rttMs)) (f_mul (sw_load w) (f_of_int (sr_load rec)))"

text \<open>\<open>bytes.Compare(a, b) < 0\<close>.\<close>

fun bytes_less :: "bytes \<Rightarrow> bytes \<Rightarrow> bool" where
  "bytes_less xs [] = False"
| "bytes_less [] (y # ys) = True"
| "bytes_less (x # xs) (y # ys) = (if x = y then bytes_less xs ys else x < y)"

definition cand_less :: "Candidate \<Rightarrow> Candidate \<Rightarrow> bool" where
  "cand_less a b = (if \<not> f_eq (cd_score a) (cd_score b) then f_lt (cd_score b) (cd_score a)
     else bytes_less (sr_identity_id (cd_record a)) (sr_identity_id (cd_record b)))"

text \<open>\<open>sort.SliceStable\<close>: a stable sort; on a strict weak order every stable sort gives this list.\<close>

primrec insert_stable :: "('a \<Rightarrow> 'a \<Rightarrow> bool) \<Rightarrow> 'a \<Rightarrow> 'a list \<Rightarrow> 'a list" where
  "insert_stable lt x [] = [x]"
| "insert_stable lt x (y # ys) = (if lt y x then y # insert_stable lt x ys else x # y # ys)"

definition sort_stable :: "('a \<Rightarrow> 'a \<Rightarrow> bool) \<Rightarrow> 'a list \<Rightarrow> 'a list" where
  "sort_stable lt xs = foldr (insert_stable lt) xs []"

definition eligible :: "EnvelopeBody \<Rightarrow> (ident \<Rightarrow> bool) \<Rightarrow> BrokerConfig \<Rightarrow> ident list \<Rightarrow> SeederRecord \<Rightarrow> bool" where
  "eligible env frozen cfg alreadyTried rec =
     (if \<not> sr_available rec then False
      else if contains alreadyTried (sr_identity_id rec) then False
      else if \<not> contains (ca_models (sr_capabilities rec)) (ev_model env) then False
      else if \<not> contains (ca_tiers (sr_capabilities rec)) (ev_tier env) then False
      else if f_lt (sr_headroom_estimate rec) (bc_headroom_threshold cfg) then False
      else if bc_load_threshold cfg > 0 \<and> sr_load rec \<ge> bc_load_threshold cfg then False
      else if frozen (sr_identity_id rec) then False
      else True)"

definition Pick :: "SeederRecord list \<Rightarrow> EnvelopeBody \<Rightarrow> BrokerScoreWeights \<Rightarrow> (ident \<Rightarrow> bool) \<Rightarrow> (ident \<Rightarrow> float64) \<Rightarrow>
    BrokerConfig \<Rightarrow> ident list \<Rightarrow> Candidate list" where
  "Pick snapshot env w frozen score cfg alreadyTried = sort_stable cand_less
     (map (\<lambda>rec. \<lparr>cd_record = rec, cd_score = Score rec w (score (sr_identity_id rec)) (Fin 0)\<rparr>)
       (filter (eligible env frozen cfg alreadyTried) snapshot))"

section \<open>Offers\<close>

datatype offer_reply = NotConnected | Decision "(bool \<times> bytes) option" | TimedOut | CtxDone broker_err

definition offer_push :: "EnvelopeBody \<Rightarrow> bytes \<Rightarrow> reqid \<Rightarrow> OfferPush" where
  "offer_push body envHash i = \<lparr>op_consumer_id = ev_consumer_id body, op_envelope_hash = envHash,
     op_model = ev_model body, op_max_input_tokens = ucast (ev_max_input_tokens body),
     op_max_output_tokens = ucast (ev_max_output_tokens body),
     op_consumer_ephemeral_pub = ev_consumer_ephemeral_pub body, op_request_id = i\<rparr>"

definition runOffer :: "offer_reply \<Rightarrow> broker_err + (bool \<times> bytes)" where
  "runOffer reply = (case reply of NotConnected \<Rightarrow> Inl ErrUnreachable
     | Decision None \<Rightarrow> Inr (False, [])
     | Decision (Some (accept, pub)) \<Rightarrow> (if \<not> accept then Inr (False, []) else Inr (True, pub))
     | TimedOut \<Rightarrow> Inr (False, [])
     | CtxDone e \<Rightarrow> Inl e)"

section \<open>Submit\<close>

datatype Outcome = OutcomeUnspecified | OutcomeAdmit | OutcomeQueued | OutcomeRejected | OutcomeNoCapacity

record Assignment =
  as_seeder_addr :: string
  as_seeder_pubkey :: bytes
  as_reservation_token :: bytes
  as_request_id :: reqid
  as_assigned_seeder :: ident

record Result =
  rr_outcome :: Outcome
  rr_admit :: "Assignment option"
  rr_no_cap :: "string option"

definition no_capacity :: "string \<Rightarrow> Result" where
  "no_capacity reason = \<lparr>rr_outcome = OutcomeNoCapacity, rr_admit = None, rr_no_cap = Some reason\<rparr>"

record broker_state =
  bk_mgr :: Manager
  bk_reg :: Registry
  bk_queued :: "reqid \<rightharpoonup> EnvelopeBody"
  bk_offers :: "(ident \<times> OfferPush) list"
  bk_outcomes :: "(ident \<times> string) list"

record submit_env =
  sv_crypto :: crypto
  sv_cfg :: BrokerConfig
  sv_reservation_ttl_s :: int
  sv_prices :: PriceTable
  sv_frozen :: "ident \<Rightarrow> bool"
  sv_score :: "ident \<Rightarrow> float64"
  sv_revoked :: "(ident \<Rightarrow> string + bool) option"
  sv_rand :: "string + reqid"
  sv_now :: time
  sv_clock :: "nat \<Rightarrow> time"
  sv_orders :: "nat \<Rightarrow> nat \<Rightarrow> ident list"
  sv_reply :: "nat \<Rightarrow> ident \<Rightarrow> offer_reply"
  sv_meanwhile :: "nat \<Rightarrow> broker_state \<Rightarrow> broker_state"

definition upd_inflight :: "(Inflight \<Rightarrow> 'a \<times> Inflight) \<Rightarrow> broker_state \<Rightarrow> 'a \<times> broker_state" where
  "upd_inflight op st = (case op (mg_inflight (bk_mgr st)) of (x, f) \<Rightarrow> (x, st\<lparr>bk_mgr := (bk_mgr st)\<lparr>mg_inflight := f\<rparr>\<rparr>))"

definition upd_reservations :: "(Reservations \<Rightarrow> 'a \<times> Reservations) \<Rightarrow> broker_state \<Rightarrow> 'a \<times> broker_state" where
  "upd_reservations op st = (case op (mg_reservations (bk_mgr st)) of (x, r) \<Rightarrow>
     (x, st\<lparr>bk_mgr := (bk_mgr st)\<lparr>mg_reservations := r\<rparr>\<rparr>))"

definition upd_registry :: "(Registry \<Rightarrow> 'a \<times> Registry) \<Rightarrow> broker_state \<Rightarrow> 'a \<times> broker_state" where
  "upd_registry op st = (case op (bk_reg st) of (x, r) \<Rightarrow> (x, st\<lparr>bk_reg := r\<rparr>))"

definition failAndRelease :: "reqid \<Rightarrow> time \<Rightarrow> broker_state \<Rightarrow> broker_state" where
  "failAndRelease i now st = (let st1 = snd (upd_reservations (Release i) st)
     in snd (upd_inflight (Transition i StateSelecting StateFailed now) st1))"

datatype loop_out = LoopReturn "broker_err + Result" | LoopEnd bool

definition record_outcome :: "ident \<Rightarrow> string \<Rightarrow> broker_state \<Rightarrow> broker_state" where
  "record_outcome seeder oc st = st\<lparr>bk_outcomes := bk_outcomes st @ [(seeder, oc)]\<rparr>"

definition submit_filter :: "BrokerConfig \<Rightarrow> EnvelopeBody \<Rightarrow> Filter" where
  "submit_filter cfg body = \<lparr>ft_require_available = True, ft_model = ev_model body, ft_tier = ev_tier body,
     ft_min_headroom = bc_headroom_threshold cfg, ft_max_load = bc_load_threshold cfg\<rparr>"

text \<open>
  The loop over offer attempts: \<open>n\<close> attempts are left, \<open>k\<close> is the current one. \<open>LoopEnd triedAny\<close> is
  leaving the loop (no candidate, or no attempt left).
\<close>

fun offer_loop :: "submit_env \<Rightarrow> EnvelopeBody \<Rightarrow> bytes \<Rightarrow> reqid \<Rightarrow> nat \<Rightarrow> nat \<Rightarrow> ident list \<Rightarrow> bool \<Rightarrow> broker_state \<Rightarrow> loop_out \<times> broker_state" where
  "offer_loop env body envHash i 0 k tried triedAny st = (LoopEnd triedAny, st)"
| "offer_loop env body envHash i (Suc n) k tried triedAny st =
     (case Pick (Match (sv_orders env k) (submit_filter (sv_cfg env) body) (bk_reg st)) body
         (bc_score_weights (sv_cfg env)) (sv_frozen env) (sv_score env) (sv_cfg env) tried of
        [] \<Rightarrow> (LoopEnd triedAny, st)
      | cand # _ \<Rightarrow>
        (let seeder = cd_record cand; sid = sr_identity_id seeder in
         (case upd_registry (IncLoad sid) st of
            (Inl e, st1) \<Rightarrow> offer_loop env body envHash i n (k + 1) (tried @ [sid]) True st1
          | (Inr _, st1) \<Rightarrow>
            (let st2 = sv_meanwhile env k (st1\<lparr>bk_offers := bk_offers st1 @ [(sid, offer_push body envHash i)]\<rparr>) in
             (case runOffer (sv_reply env k sid) of
                Inl oerr \<Rightarrow>
                  if oerr = ErrCanceled \<or> oerr = ErrDeadlineExceeded then
                    (LoopReturn (Inl oerr), failAndRelease i (sv_clock env k) (snd (upd_registry (DecLoad sid) st2)))
                  else offer_loop env body envHash i n (k + 1) (tried @ [sid]) True
                    (record_outcome sid ''unreachable'' (snd (upd_registry (DecLoad sid) st2)))
              | Inr (accepted, ephPub) \<Rightarrow>
                  if \<not> accepted then offer_loop env body envHash i n (k + 1) (tried @ [sid]) True
                    (record_outcome sid ''reject'' (snd (upd_registry (DecLoad sid) st2)))
                  else
                    (let st3 = snd (upd_inflight (MarkSeeder i sid ephPub) (record_outcome sid ''accept'' st2)) in
                     (case upd_inflight (Transition i StateSelecting StateAssigned (sv_clock env k)) st3 of
                        (Some terr, st4) \<Rightarrow> (LoopReturn (Inl (ErrSession terr)),
                          failAndRelease i (sv_clock env k) (snd (upd_registry (DecLoad sid) st4)))
                      | (None, st4) \<Rightarrow> (LoopReturn (Inr \<lparr>rr_outcome = OutcomeAdmit,
                          rr_admit = Some \<lparr>as_seeder_addr = nc_external_addr (sr_net_coords seeder), as_seeder_pubkey = ephPub,
                            as_reservation_token = i, as_request_id = i, as_assigned_seeder = sid\<rparr>,
                          rr_no_cap = None\<rparr>), st4))))))))"

definition snapshot_credits :: "EnvelopeBody \<Rightarrow> u64" where
  "snapshot_credits body = (case ev_balance_proof body of None \<Rightarrow> 0 | Some bp \<Rightarrow>
     (case sb_body bp of None \<Rightarrow> 0 | Some b \<Rightarrow> if bs_credits b > 0 then word_of_int (bs_credits b) else 0))"

definition frozen_check :: "submit_env \<Rightarrow> ident \<Rightarrow> broker_err option" where
  "frozen_check env consumer = (if sv_frozen env consumer then Some ErrIdentityFrozen
     else (case sv_revoked env of None \<Rightarrow> None
       | Some lookup \<Rightarrow> (case lookup consumer of Inl rerr \<Rightarrow> Some (BrErr rerr)
           | Inr revoked \<Rightarrow> if revoked then Some ErrIdentityFrozen else None)))"

definition new_request :: "submit_env \<Rightarrow> reqid \<Rightarrow> ident \<Rightarrow> EnvelopeBody \<Rightarrow> bytes \<Rightarrow> u64 \<Rightarrow> Request" where
  "new_request env i consumer body envHash cost = \<lparr>rq_request_id = i, rq_consumer_id = consumer,
     rq_envelope_body = Some body, rq_envelope_hash = envHash, rq_max_cost_reserved = cost,
     rq_assigned_seeder = zero_id, rq_seeder_pubkey = [], rq_offer_attempts = [], rq_started_at = sv_now env,
     rq_state = StateSelecting, rq_preimage_hash = zeros 32, rq_settle_sig = None, rq_terminated_at = zero_time\<rparr>"

definition Submit :: "submit_env \<Rightarrow> EnvelopeSigned option \<Rightarrow> broker_state \<Rightarrow> (broker_err + Result) \<times> broker_state" where
  "Submit env oenv st = (case (case oenv of None \<Rightarrow> None | Some e \<Rightarrow> es_body e) of
     None \<Rightarrow> (Inl (BrErr ''broker: Submit nil envelope''), st)
   | Some body \<Rightarrow> (let consumer = to_array 32 (ev_consumer_id body) in
     (case frozen_check env consumer of Some e \<Rightarrow> (Inl e, st) | None \<Rightarrow>
     (case MaxCost (sv_prices env) (Some body) of Inl e \<Rightarrow> (Inl e, st) | Inr cost \<Rightarrow>
     (case sv_rand env of Inl e \<Rightarrow> (Inl (BrErr e), st) | Inr i \<Rightarrow>
     (case DeterministicMarshal (pb_envelope (sv_crypto env)) (Some body) of Inl e \<Rightarrow> (Inl (BrErr e), st) | Inr bodyBytes \<Rightarrow>
     (let envHash = sha256 (sv_crypto env) bodyBytes;
          expiresAt = sv_now env + seconds (sv_reservation_ttl_s env);
          creds = snapshot_credits body
      in (case upd_reservations (Reserve i consumer cost creds expiresAt) st of
           (Some rerr, st1) \<Rightarrow> if rerr = ErrInsufficientCredits then (Inr (no_capacity ''insufficient_credits''), st1)
             else (Inl (ErrSession rerr), st1)
         | (None, st1) \<Rightarrow>
           (let st2 = snd (upd_inflight (Insert (new_request env i consumer body envHash cost)) st1) in
            (case offer_loop env body envHash i (nat (bc_max_offer_attempts (sv_cfg env))) 0 [] False st2 of
               (LoopReturn res, st3) \<Rightarrow> (res, st3)
             | (LoopEnd triedAny, st3) \<Rightarrow>
                 (Inr (no_capacity (if triedAny then ''all_seeders_rejected'' else ''no_eligible_seeder'')),
                  failAndRelease i (sv_clock env (nat (bc_max_offer_attempts (sv_cfg env)))) st3)))))))))))"

definition Broker_LookupAssignment :: "reqid \<Rightarrow> broker_state \<Rightarrow> (ident \<times> ident) option" where
  "Broker_LookupAssignment i st = LookupAssignment i (mg_inflight (bk_mgr st))"

section \<open>Parked envelopes\<close>

definition RegisterQueued :: "EnvelopeSigned option \<Rightarrow> reqid \<Rightarrow> broker_state \<Rightarrow> broker_state" where
  "RegisterQueued oenv i st = (case (case oenv of None \<Rightarrow> None | Some e \<Rightarrow> es_body e) of
     None \<Rightarrow> st | Some body \<Rightarrow> st\<lparr>bk_queued := (bk_queued st)(i \<mapsto> body)\<rparr>)"

definition CancelQueued :: "reqid \<Rightarrow> broker_state \<Rightarrow> broker_state" where
  "CancelQueued i st = st\<lparr>bk_queued := (bk_queued st)(i := None)\<rparr>"

definition drain_min_priority :: "float64 \<Rightarrow> float64" where
  "drain_min_priority pressure = (if f_lt (Fin 1) pressure then f_mul (Fin (1/2)) (f_sub pressure (Fin 1)) else Fin 0)"

text \<open>
  One drain: \<open>pops\<close> are the entries that admission hands out (at \<open>drain_min_priority\<close>) until it has
  none ready, each with the environment of its \<open>Submit\<close>. The result lists what was delivered.
\<close>

fun drain_entries :: "(reqid \<times> submit_env) list \<Rightarrow> broker_state \<Rightarrow> (reqid \<times> Result) list \<times> broker_state" where
  "drain_entries [] st = ([], st)"
| "drain_entries ((i, env) # pops) st = (case bk_queued st i of
     None \<Rightarrow> drain_entries pops st
   | Some body \<Rightarrow> (case Submit env (Some \<lparr>es_body = Some body, es_consumer_sig = []\<rparr>) (st\<lparr>bk_queued := (bk_queued st)(i := None)\<rparr>) of
       (res, st1) \<Rightarrow> (let result = (case res of Inl e \<Rightarrow> no_capacity ''broker_error'' | Inr r \<Rightarrow> r) in
         (case drain_entries pops st1 of (ds, st2) \<Rightarrow> ((i, result) # ds, st2)))))"

definition drainOnce :: "float64 \<Rightarrow> (float64 \<Rightarrow> (reqid \<times> submit_env) list) \<Rightarrow> broker_state \<Rightarrow> (reqid \<times> Result) list \<times> broker_state" where
  "drainOnce pressure pop st = drain_entries (pop (drain_min_priority pressure)) st"

section \<open>Operator overrides\<close>

definition hex_val :: "char \<Rightarrow> nat option" where
  "hex_val c = (let n = of_char c :: nat in
     if 48 \<le> n \<and> n \<le> 57 then Some (n - 48) else if 97 \<le> n \<and> n \<le> 102 then Some (n - 87)
     else if 65 \<le> n \<and> n \<le> 70 then Some (n - 55) else None)"

fun hex_decode :: "string \<Rightarrow> bytes option" where
  "hex_decode [] = Some []"
| "hex_decode [c] = None"
| "hex_decode (c # d # cs) = (case (hex_val c, hex_val d) of
     (Some a, Some b) \<Rightarrow> (case hex_decode cs of None \<Rightarrow> None | Some bs \<Rightarrow> Some (of_nat (a * 16 + b) # bs))
   | _ \<Rightarrow> None)"

definition parseHex16 :: "string \<Rightarrow> reqid option" where
  "parseHex16 s = (case hex_decode s of None \<Rightarrow> None | Some b \<Rightarrow> if length b \<noteq> 16 then None else Some b)"

datatype http_status = StatusOK | StatusBadRequest | StatusNotFound

definition handleForceReleaseReservation :: "string \<Rightarrow> broker_state \<Rightarrow> http_status \<times> broker_state" where
  "handleForceReleaseReservation path st = (case parseHex16 path of None \<Rightarrow> (StatusBadRequest, st)
     | Some i \<Rightarrow> (case upd_reservations (Release i) st of ((_, _, ok), st1) \<Rightarrow>
         if \<not> ok then (StatusNotFound, st1) else (StatusOK, st1)))"

definition handleForceFailInflight :: "string \<Rightarrow> time \<Rightarrow> broker_state \<Rightarrow> http_status \<times> broker_state" where
  "handleForceFailInflight path now st = (case parseHex16 path of None \<Rightarrow> (StatusBadRequest, st)
     | Some i \<Rightarrow> (let asg = Broker_LookupAssignment i st in
       (case upd_inflight (ForceFail i now) st of ((prev, ok), st1) \<Rightarrow>
         if \<not> ok then (StatusNotFound, st1)
         else (case asg of Some (_, seeder) \<Rightarrow>
             if prev = StateAssigned then (StatusOK, snd (upd_registry (DecLoad seeder) st1)) else (StatusOK, st1)
           | None \<Rightarrow> (StatusOK, st1)))))"

record inflight_detail =
  id_request_id :: reqid
  id_consumer_id :: ident
  id_state :: string
  id_seeder :: "ident option"
  id_reservation_amount :: "u64 option"

definition handleGetInflight :: "string \<Rightarrow> broker_state \<Rightarrow> http_status \<times> inflight_detail option" where
  "handleGetInflight path st = (case parseHex16 path of None \<Rightarrow> (StatusBadRequest, None)
     | Some i \<Rightarrow> (case Inflight_Get i (mg_inflight (bk_mgr st)) of None \<Rightarrow> (StatusNotFound, None)
       | Some (p, req) \<Rightarrow> (StatusOK, Some \<lparr>id_request_id = rq_request_id req, id_consumer_id = rq_consumer_id req,
           id_state = State_String (rq_state req),
           id_seeder = (if rq_assigned_seeder req \<noteq> zero_id then Some (rq_assigned_seeder req) else None),
           id_reservation_amount = map_option rv_amount (Reservations_Get i (mg_reservations (bk_mgr st)))\<rparr>)))"

end
