(* ===== verification/TB_Entry.thy ===== *)
theory TB_Entry
  imports TB_Signing
begin

text \<open>
  Operations on ledger entries (\<open>src/tracker/internal/ledger/entry\<close>): the Go-typed kinds, one
  builder per kind, the body hash and the per-kind signature matrix.
\<close>

section \<open>Kinds\<close>

datatype Kind = KindUsage | KindTransferOut | KindTransferIn | KindStarterGrant | KindOther "8 word"

fun Kind_String :: "Kind \<Rightarrow> string" where
  "Kind_String KindUsage = ''usage''"
| "Kind_String KindTransferOut = ''transfer_out''"
| "Kind_String KindTransferIn = ''transfer_in''"
| "Kind_String KindStarterGrant = ''starter_grant''"
| "Kind_String (KindOther _) = ''unknown''"

text \<open>\<open>Kind.Proto\<close> panics on an unknown kind: \<open>None\<close> is the panic.\<close>

fun Kind_Proto :: "Kind \<Rightarrow> EntryKind option" where
  "Kind_Proto KindUsage = Some ENTRY_KIND_USAGE"
| "Kind_Proto KindTransferOut = Some ENTRY_KIND_TRANSFER_OUT"
| "Kind_Proto KindTransferIn = Some ENTRY_KIND_TRANSFER_IN"
| "Kind_Proto KindStarterGrant = Some ENTRY_KIND_STARTER_GRANT"
| "Kind_Proto (KindOther _) = None"

fun KindFromProto :: "EntryKind \<Rightarrow> Kind option" where
  "KindFromProto ENTRY_KIND_USAGE = Some KindUsage"
| "KindFromProto ENTRY_KIND_TRANSFER_OUT = Some KindTransferOut"
| "KindFromProto ENTRY_KIND_TRANSFER_IN = Some KindTransferIn"
| "KindFromProto ENTRY_KIND_STARTER_GRANT = Some KindStarterGrant"
| "KindFromProto _ = None"

lemma kind_roundtrip: "KindFromProto p = Some k \<longleftrightarrow> Kind_Proto k = Some p"
  by (cases p; cases k) auto

section \<open>Builders\<close>

definition flagConsumerSigMissing :: u32 where "flagConsumerSigMissing = push_bit 0 1"

record UsageInput =
  ui_prev_hash :: bytes
  ui_seq :: u64
  ui_consumer_id :: bytes
  ui_seeder_id :: bytes
  ui_model :: string
  ui_input_tokens :: u32
  ui_output_tokens :: u32
  ui_cost_credits :: u64
  ui_timestamp :: u64
  ui_request_id :: bytes
  ui_consumer_sig_missing :: bool

text \<open>\<open>checked w b\<close> runs \<open>ValidateEntryBody\<close> and returns the body or the wrapped error.\<close>

definition checked :: "string \<Rightarrow> EntryBody \<Rightarrow> string + EntryBody" where
  "checked w b = (case ValidateEntryBody (Some b) of Some e \<Rightarrow> Inl (w @ e) | None \<Rightarrow> Inr b)"

definition BuildUsageEntry :: "UsageInput \<Rightarrow> string + EntryBody" where
  "BuildUsageEntry inp = (if ui_model inp = [] then Inl ''entry: BuildUsageEntry: model is empty''
     else checked ''entry: BuildUsageEntry: ''
       \<lparr>eb_prev_hash = ui_prev_hash inp, eb_seq = ui_seq inp, eb_kind = ENTRY_KIND_USAGE,
        eb_consumer_id = ui_consumer_id inp, eb_seeder_id = ui_seeder_id inp, eb_model = ui_model inp,
        eb_input_tokens = ui_input_tokens inp, eb_output_tokens = ui_output_tokens inp,
        eb_cost_credits = ui_cost_credits inp, eb_timestamp = ui_timestamp inp,
        eb_request_id = ui_request_id inp,
        eb_flags = (if ui_consumer_sig_missing inp then 0 OR flagConsumerSigMissing else 0),
        eb_ref = zeros 32\<rparr>)"

record TransferOutInput =
  to_prev_hash :: bytes
  to_seq :: u64
  to_consumer_id :: bytes
  to_amount :: u64
  to_timestamp :: u64
  to_transfer_ref :: bytes

definition BuildTransferOutEntry :: "TransferOutInput \<Rightarrow> string + EntryBody" where
  "BuildTransferOutEntry inp = checked ''entry: BuildTransferOutEntry: ''
     \<lparr>eb_prev_hash = to_prev_hash inp, eb_seq = to_seq inp, eb_kind = ENTRY_KIND_TRANSFER_OUT,
      eb_consumer_id = to_consumer_id inp, eb_seeder_id = zeros 32, eb_model = [],
      eb_input_tokens = 0, eb_output_tokens = 0, eb_cost_credits = to_amount inp,
      eb_timestamp = to_timestamp inp, eb_request_id = zeros 16, eb_flags = 0,
      eb_ref = to_transfer_ref inp\<rparr>"

record TransferInInput =
  ti_prev_hash :: bytes
  ti_seq :: u64
  ti_amount :: u64
  ti_timestamp :: u64
  ti_transfer_ref :: bytes

definition BuildTransferInEntry :: "TransferInInput \<Rightarrow> string + EntryBody" where
  "BuildTransferInEntry inp = checked ''entry: BuildTransferInEntry: ''
     \<lparr>eb_prev_hash = ti_prev_hash inp, eb_seq = ti_seq inp, eb_kind = ENTRY_KIND_TRANSFER_IN,
      eb_consumer_id = zeros 32, eb_seeder_id = zeros 32, eb_model = [],
      eb_input_tokens = 0, eb_output_tokens = 0, eb_cost_credits = ti_amount inp,
      eb_timestamp = ti_timestamp inp, eb_request_id = zeros 16, eb_flags = 0,
      eb_ref = ti_transfer_ref inp\<rparr>"

record StarterGrantInput =
  sg_prev_hash :: bytes
  sg_seq :: u64
  sg_consumer_id :: bytes
  sg_amount :: u64
  sg_timestamp :: u64

definition BuildStarterGrantEntry :: "StarterGrantInput \<Rightarrow> string + EntryBody" where
  "BuildStarterGrantEntry inp = checked ''entry: BuildStarterGrantEntry: ''
     \<lparr>eb_prev_hash = sg_prev_hash inp, eb_seq = sg_seq inp, eb_kind = ENTRY_KIND_STARTER_GRANT,
      eb_consumer_id = sg_consumer_id inp, eb_seeder_id = zeros 32, eb_model = [],
      eb_input_tokens = 0, eb_output_tokens = 0, eb_cost_credits = sg_amount inp,
      eb_timestamp = sg_timestamp inp, eb_request_id = zeros 16, eb_flags = 0,
      eb_ref = zeros 32\<rparr>"

section \<open>Hash and signature matrix\<close>

definition Hash :: "crypto \<Rightarrow> EntryBody option \<Rightarrow> string + bytes" where
  "Hash cr ob = (if ob = None then Inl ''entry: Hash on nil body''
     else (case DeterministicMarshal (pb_entry cr) ob of
       Inl e \<Rightarrow> Inl (''entry: marshal body: '' @ e) | Inr buf \<Rightarrow> Inr (sha256 cr buf)))"

record Pubkeys =
  pk_consumer :: bytes
  pk_seeder :: bytes
  pk_tracker :: bytes

definition VerifyAll :: "crypto \<Rightarrow> Entry option \<Rightarrow> Pubkeys \<Rightarrow> err" where
  "VerifyAll cr oe keys = (case oe of None \<Rightarrow> Some ''entry: VerifyAll on nil entry'' | Some e \<Rightarrow>
   (case en_body e of None \<Rightarrow> Some ''entry: VerifyAll on nil entry'' | Some body \<Rightarrow>
     if length (en_tracker_sig e) = 0 then Some ''entry: tracker_sig is required''
     else if length (pk_tracker keys) \<noteq> PublicKeySize then Some ''entry: tracker pubkey missing''
     else if \<not> VerifyEntry cr (pk_tracker keys) (Some body) (en_tracker_sig e)
       then Some ''entry: tracker_sig invalid''
     else (let flagSigMissing = (eb_flags body AND flagConsumerSigMissing \<noteq> 0) in
      (case eb_kind body of
         ENTRY_KIND_USAGE \<Rightarrow>
           if length (en_seeder_sig e) = 0 then Some ''entry: usage seeder_sig is required''
           else if length (pk_seeder keys) \<noteq> PublicKeySize then Some ''entry: seeder pubkey missing''
           else if \<not> VerifyEntry cr (pk_seeder keys) (Some body) (en_seeder_sig e)
             then Some ''entry: seeder_sig invalid''
           else if flagSigMissing
             then (if length (en_consumer_sig e) \<noteq> 0
               then Some ''entry: usage consumer_sig must be empty when consumer_sig_missing flag set''
               else None)
           else if length (en_consumer_sig e) = 0
             then Some ''entry: usage consumer_sig required (or set consumer_sig_missing flag)''
           else if length (pk_consumer keys) \<noteq> PublicKeySize then Some ''entry: consumer pubkey missing''
           else if \<not> VerifyEntry cr (pk_consumer keys) (Some body) (en_consumer_sig e)
             then Some ''entry: consumer_sig invalid''
           else None
       | ENTRY_KIND_TRANSFER_OUT \<Rightarrow>
           if flagSigMissing then Some ''entry: transfer_out cannot set consumer_sig_missing''
           else if length (en_consumer_sig e) = 0 then Some ''entry: transfer_out consumer_sig required''
           else if length (pk_consumer keys) \<noteq> PublicKeySize then Some ''entry: consumer pubkey missing''
           else if \<not> VerifyEntry cr (pk_consumer keys) (Some body) (en_consumer_sig e)
             then Some ''entry: consumer_sig invalid''
           else if length (en_seeder_sig e) \<noteq> 0 then Some ''entry: transfer_out seeder_sig must be empty''
           else None
       | ENTRY_KIND_TRANSFER_IN \<Rightarrow>
           if length (en_consumer_sig e) \<noteq> 0 then Some ''entry: consumer_sig must be empty for this kind''
           else if length (en_seeder_sig e) \<noteq> 0 then Some ''entry: seeder_sig must be empty for this kind''
           else None
       | ENTRY_KIND_STARTER_GRANT \<Rightarrow>
           if length (en_consumer_sig e) \<noteq> 0 then Some ''entry: consumer_sig must be empty for this kind''
           else if length (en_seeder_sig e) \<noteq> 0 then Some ''entry: seeder_sig must be empty for this kind''
           else None
       | _ \<Rightarrow> Some ''entry: unknown kind''))))"

section \<open>What the builders return\<close>

lemma flag_one [simp]: "flagConsumerSigMissing = 1"
  by (simp add: flagConsumerSigMissing_def)

lemma checked_Inr [simp]: "checked w b = Inr c \<longleftrightarrow> c = b \<and> entry_matrix b"
  by (auto simp: checked_def entry_body_valid_iff [symmetric] split: option.splits)

lemma Hash_Inr: "Hash cr ob = Inr h \<longleftrightarrow> (\<exists>b buf. ob = Some b \<and> pb_entry cr b = Some buf \<and> h = sha256 cr buf)"
  by (cases ob) (auto simp: Hash_def DeterministicMarshal_def split: option.splits)

lemmas builder_defs = BuildUsageEntry_def BuildTransferOutEntry_def BuildTransferInEntry_def
  BuildStarterGrantEntry_def

lemma BuildUsageEntry_Inr:
  "BuildUsageEntry inp = Inr b \<Longrightarrow> entry_matrix b \<and> eb_kind b = ENTRY_KIND_USAGE \<and>
     eb_prev_hash b = ui_prev_hash inp \<and> eb_seq b = ui_seq inp \<and> eb_consumer_id b = ui_consumer_id inp \<and>
     eb_seeder_id b = ui_seeder_id inp \<and> eb_cost_credits b = ui_cost_credits inp \<and>
     eb_request_id b = ui_request_id inp \<and> eb_timestamp b = ui_timestamp inp \<and> eb_ref b = zeros 32 \<and>
     eb_flags b = (if ui_consumer_sig_missing inp then 1 else 0)"
  by (auto simp: builder_defs split: if_splits)

lemma BuildTransferOutEntry_Inr:
  "BuildTransferOutEntry inp = Inr b \<Longrightarrow> entry_matrix b \<and> eb_kind b = ENTRY_KIND_TRANSFER_OUT \<and>
     eb_prev_hash b = to_prev_hash inp \<and> eb_seq b = to_seq inp \<and> eb_consumer_id b = to_consumer_id inp \<and>
     eb_cost_credits b = to_amount inp \<and> eb_ref b = to_transfer_ref inp \<and> eb_timestamp b = to_timestamp inp"
  by (auto simp: builder_defs)

lemma BuildTransferInEntry_Inr:
  "BuildTransferInEntry inp = Inr b \<Longrightarrow> entry_matrix b \<and> eb_kind b = ENTRY_KIND_TRANSFER_IN \<and>
     eb_prev_hash b = ti_prev_hash inp \<and> eb_seq b = ti_seq inp \<and>
     eb_cost_credits b = ti_amount inp \<and> eb_ref b = ti_transfer_ref inp \<and> eb_timestamp b = ti_timestamp inp"
  by (auto simp: builder_defs)

lemma BuildStarterGrantEntry_Inr:
  "BuildStarterGrantEntry inp = Inr b \<Longrightarrow> entry_matrix b \<and> eb_kind b = ENTRY_KIND_STARTER_GRANT \<and>
     eb_prev_hash b = sg_prev_hash inp \<and> eb_seq b = sg_seq inp \<and> eb_consumer_id b = sg_consumer_id inp \<and>
     eb_cost_credits b = sg_amount inp \<and> eb_timestamp b = sg_timestamp inp"
  by (auto simp: builder_defs)

end
