(* ===== verification/TB_Storage.thy ===== *)
theory TB_Storage
  imports TB_Entry
begin

text \<open>
  The durable layer (\<open>src/tracker/internal/ledger/storage\<close>). The SQLite tables of
  \<open>schema_v1.sql\<close> are the fields of a \<open>store\<close> record and each method is the effect of its SQL
  statements on them: a primary or unique key that is already present refuses the insert, and a
  transaction that fails leaves the tables as they were. \<open>ORDER BY seq\<close> is a sort of the rows.

  SQLite and its driver are not part of the repository. Whether a statement fails for a reason of
  their own (I/O, cancellation, a busy database) is the argument \<open>flt\<close>, a predicate on the
  statements; every theorem that does not name it holds for all of them. The refusal of a
  \<open>uint64\<close> with its top bit set is \<open>database/sql\<close>'s own and is modelled (\<open>sql_u64\<close>).
\<close>

section \<open>Tables\<close>

record entry_row =
  er_seq :: u64
  er_prev_hash :: bytes
  er_hash :: bytes
  er_kind :: EntryKind
  er_consumer_id :: bytes
  er_seeder_id :: bytes
  er_model :: string
  er_input_tokens :: u32
  er_output_tokens :: u32
  er_cost_credits :: u64
  er_timestamp :: u64
  er_request_id :: bytes
  er_flags :: u32
  er_ref :: bytes
  er_consumer_sig :: "bytes option"
  er_seeder_sig :: "bytes option"
  er_tracker_sig :: bytes
  er_canonical :: bytes

record BalanceRow =
  br_identity_id :: bytes
  br_credits :: i64
  br_last_seq :: u64
  br_updated_at :: u64

record PeerRoot =
  pr_tracker_id :: bytes
  pr_hour :: u64
  pr_root :: bytes
  pr_sig :: bytes
  pr_received_at :: u64

record store =
  st_entries :: "entry_row list"
  st_balances :: "bytes \<rightharpoonup> BalanceRow"
  st_merkle :: "u64 \<rightharpoonup> bytes \<times> bytes"
  st_peer_roots :: "bytes \<times> u64 \<rightharpoonup> PeerRoot"

definition empty_store :: store where
  "empty_store = \<lparr>st_entries = [], st_balances = Map.empty, st_merkle = Map.empty, st_peer_roots = Map.empty\<rparr>"

datatype sql_call = SqlTip | SqlHasUsageRequestID bytes | SqlHasTransferRef EntryKind bytes
  | SqlBalance bytes | SqlBegin | SqlInsertEntry u64 | SqlUpsertBalance bytes | SqlCommit
  | SqlBalanceWithTip bytes | SqlLeaves u64 | SqlPutRoot u64 | SqlGetRoot u64 | SqlEntryBySeq u64
  | SqlEntryByHash bytes | SqlEntriesSince u64 | SqlPeerRootCheck bytes u64 | SqlPeerRootInsert bytes u64
  | SqlGetPeerRoot bytes u64

type_synonym faults = "sql_call \<Rightarrow> bool"

datatype st_err = ErrAlreadyExists | ErrDuplicateMerkleRoot | ErrPeerRootConflict | StErr string

section \<open>Queries\<close>

definition order_by_seq :: "entry_row list \<Rightarrow> entry_row list" where
  "order_by_seq rows = sort_key er_seq rows"

definition tip_row :: "entry_row list \<Rightarrow> entry_row option" where
  "tip_row rows = (case rev (order_by_seq rows) of [] \<Rightarrow> None | r # _ \<Rightarrow> Some r)"

definition Tip :: "faults \<Rightarrow> store \<Rightarrow> st_err + (u64 \<times> bytes \<times> bool)" where
  "Tip flt s = (if flt SqlTip then Inl (StErr ''storage: Tip'')
     else (case tip_row (st_entries s) of None \<Rightarrow> Inr (0, [], False)
       | Some r \<Rightarrow> Inr (er_seq r, er_hash r, True)))"

definition scanEntry :: "crypto \<Rightarrow> entry_row \<Rightarrow> st_err + Entry" where
  "scanEntry cr r = (case pb_entry_dec cr (er_canonical r) of
     None \<Rightarrow> Inl (StErr ''storage: unmarshal canonical'')
   | Some body \<Rightarrow> Inr \<lparr>en_body = Some body, en_consumer_sig = (case er_consumer_sig r of None \<Rightarrow> [] | Some g \<Rightarrow> g),
       en_seeder_sig = (case er_seeder_sig r of None \<Rightarrow> [] | Some g \<Rightarrow> g), en_tracker_sig = er_tracker_sig r\<rparr>)"

definition scan_found :: "crypto \<Rightarrow> entry_row option \<Rightarrow> st_err + Entry option" where
  "scan_found cr orow = (case orow of None \<Rightarrow> Inr None
     | Some r \<Rightarrow> (case scanEntry cr r of Inl e \<Rightarrow> Inl e | Inr e \<Rightarrow> Inr (Some e)))"

definition EntryBySeq :: "crypto \<Rightarrow> faults \<Rightarrow> u64 \<Rightarrow> store \<Rightarrow> st_err + Entry option" where
  "EntryBySeq cr flt sq s = (if \<not> sql_u64 sq \<or> flt (SqlEntryBySeq sq) then Inl (StErr ''storage: scan entry'')
     else scan_found cr (find (\<lambda>r. er_seq r = sq) (st_entries s)))"

definition EntryByHash :: "crypto \<Rightarrow> faults \<Rightarrow> bytes \<Rightarrow> store \<Rightarrow> st_err + Entry option" where
  "EntryByHash cr flt h s = (if flt (SqlEntryByHash h) then Inl (StErr ''storage: scan entry'')
     else scan_found cr (find (\<lambda>r. er_hash r = h) (st_entries s)))"

definition HasUsageRequestID :: "faults \<Rightarrow> bytes \<Rightarrow> store \<Rightarrow> st_err + bool" where
  "HasUsageRequestID flt rid s = (if flt (SqlHasUsageRequestID rid) then Inl (StErr ''storage: HasUsageRequestID'')
     else Inr (list_ex (\<lambda>r. er_kind r = ENTRY_KIND_USAGE \<and> er_request_id r = rid) (st_entries s)))"

definition HasTransferRef :: "faults \<Rightarrow> EntryKind \<Rightarrow> bytes \<Rightarrow> store \<Rightarrow> st_err + bool" where
  "HasTransferRef flt k rf s = (if flt (SqlHasTransferRef k rf) then Inl (StErr ''storage: HasTransferRef'')
     else Inr (list_ex (\<lambda>r. er_kind r = k \<and> er_ref r = rf) (st_entries s)))"

text \<open>The zero \<open>BalanceRow\<close> that Go returns on a clean miss.\<close>

definition zero_balance :: BalanceRow where
  "zero_balance = \<lparr>br_identity_id = [], br_credits = 0, br_last_seq = 0, br_updated_at = 0\<rparr>"

definition Balance :: "faults \<Rightarrow> bytes \<Rightarrow> store \<Rightarrow> st_err + (BalanceRow \<times> bool)" where
  "Balance flt i s = (if flt (SqlBalance i) then Inl (StErr ''storage: Balance'')
     else (case st_balances s i of None \<Rightarrow> Inr (zero_balance, False) | Some b \<Rightarrow> Inr (b, True)))"

record BalanceTipSnapshot =
  bt_balance :: BalanceRow
  bt_balance_found :: bool
  bt_tip_seq :: u64
  bt_tip_hash :: bytes
  bt_tip_found :: bool

text \<open>One read transaction: both reads see the same tables.\<close>

definition BalanceWithTip :: "faults \<Rightarrow> bytes \<Rightarrow> store \<Rightarrow> st_err + BalanceTipSnapshot" where
  "BalanceWithTip flt i s = (if flt (SqlBalanceWithTip i) then Inl (StErr ''storage: BalanceWithTip'')
     else Inr (let b = st_balances s i; t = tip_row (st_entries s) in
       \<lparr>bt_balance = (case b of None \<Rightarrow> zero_balance | Some r \<Rightarrow> r), bt_balance_found = (b \<noteq> None),
        bt_tip_seq = (case t of None \<Rightarrow> 0 | Some r \<Rightarrow> er_seq r),
        bt_tip_hash = (case t of None \<Rightarrow> [] | Some r \<Rightarrow> er_hash r), bt_tip_found = (t \<noteq> None)\<rparr>))"

primrec traverse :: "('a \<Rightarrow> 'e + 'b) \<Rightarrow> 'a list \<Rightarrow> 'e + 'b list" where
  "traverse f [] = Inr []"
| "traverse f (x # xs) = (case f x of Inl e \<Rightarrow> Inl e
     | Inr y \<Rightarrow> (case traverse f xs of Inl e \<Rightarrow> Inl e | Inr ys \<Rightarrow> Inr (y # ys)))"

definition rows_since :: "u64 \<Rightarrow> int \<Rightarrow> store \<Rightarrow> entry_row list" where
  "rows_since since limit s = (let rs = filter (\<lambda>r. er_seq r > since) (order_by_seq (st_entries s))
     in if limit > 0 then take (nat limit) rs else rs)"

definition EntriesSince :: "crypto \<Rightarrow> faults \<Rightarrow> u64 \<Rightarrow> int \<Rightarrow> store \<Rightarrow> st_err + Entry list" where
  "EntriesSince cr flt since limit s =
     (if \<not> sql_u64 since \<or> flt (SqlEntriesSince since) then Inl (StErr ''storage: EntriesSince query'')
      else traverse (scanEntry cr) (rows_since since limit s))"

definition EntriesWithHashSince :: "crypto \<Rightarrow> faults \<Rightarrow> u64 \<Rightarrow> int \<Rightarrow> store \<Rightarrow> st_err + (Entry \<times> bytes) list" where
  "EntriesWithHashSince cr flt since limit s =
     (if \<not> sql_u64 since \<or> flt (SqlEntriesSince since) then Inl (StErr ''storage: EntriesWithHashSince query'')
      else traverse (\<lambda>r. case scanEntry cr r of Inl e \<Rightarrow> Inl e | Inr e \<Rightarrow> Inr (e, er_hash r))
        (rows_since since limit s))"

section \<open>Appending an entry\<close>

record BalanceUpdate =
  bu_identity_id :: bytes
  bu_credits :: i64
  bu_last_seq :: u64
  bu_updated_at :: u64

record AppendInput =
  ai_entry :: "Entry option"
  ai_hash :: bytes
  ai_balances :: "BalanceUpdate list"

definition nullableBytes :: "bytes \<Rightarrow> bytes option" where
  "nullableBytes b = (if length b = 0 then None else Some b)"

primrec upsert_balances :: "faults \<Rightarrow> BalanceUpdate list \<Rightarrow> (bytes \<rightharpoonup> BalanceRow) \<Rightarrow> st_err + (bytes \<rightharpoonup> BalanceRow)" where
  "upsert_balances flt [] m = Inr m"
| "upsert_balances flt (b # bs) m =
     (if length (bu_identity_id b) \<noteq> 32 then Inl (StErr ''storage: balance identity_id length'')
      else if \<not> sql_u64 (bu_last_seq b) \<or> \<not> sql_u64 (bu_updated_at b) \<or> flt (SqlUpsertBalance (bu_identity_id b))
        then Inl (StErr ''storage: upsert balance'')
      else upsert_balances flt bs (m(bu_identity_id b \<mapsto>
        \<lparr>br_identity_id = bu_identity_id b, br_credits = bu_credits b, br_last_seq = bu_last_seq b,
         br_updated_at = bu_updated_at b\<rparr>)))"

definition mk_row :: "EntryBody \<Rightarrow> Entry \<Rightarrow> bytes \<Rightarrow> bytes \<Rightarrow> entry_row" where
  "mk_row body e h canonical =
     \<lparr>er_seq = eb_seq body, er_prev_hash = eb_prev_hash body, er_hash = h, er_kind = eb_kind body,
      er_consumer_id = eb_consumer_id body, er_seeder_id = eb_seeder_id body, er_model = eb_model body,
      er_input_tokens = eb_input_tokens body, er_output_tokens = eb_output_tokens body,
      er_cost_credits = eb_cost_credits body, er_timestamp = eb_timestamp body,
      er_request_id = eb_request_id body, er_flags = eb_flags body, er_ref = eb_ref body,
      er_consumer_sig = nullableBytes (en_consumer_sig e), er_seeder_sig = nullableBytes (en_seeder_sig e),
      er_tracker_sig = en_tracker_sig e, er_canonical = canonical\<rparr>"

definition AppendEntry :: "crypto \<Rightarrow> faults \<Rightarrow> AppendInput \<Rightarrow> store \<Rightarrow> (st_err + u64) \<times> store" where
  "AppendEntry cr flt inp s = (case ai_entry inp of
     None \<Rightarrow> (Inl (StErr ''storage: AppendEntry requires non-nil entry + body''), s)
   | Some e \<Rightarrow> (case en_body e of
       None \<Rightarrow> (Inl (StErr ''storage: AppendEntry requires non-nil entry + body''), s)
     | Some body \<Rightarrow>
       if length (en_tracker_sig e) = 0 then (Inl (StErr ''storage: AppendEntry requires non-empty tracker_sig''), s)
       else (case DeterministicMarshal (pb_entry cr) (Some body) of
         Inl x \<Rightarrow> (Inl (StErr (''storage: marshal canonical: '' @ x)), s)
       | Inr canonical \<Rightarrow>
         if flt SqlBegin then (Inl (StErr ''storage: begin tx''), s)
         else if \<not> sql_u64 (eb_seq body) \<or> \<not> sql_u64 (eb_cost_credits body) \<or> \<not> sql_u64 (eb_timestamp body)
           \<or> flt (SqlInsertEntry (eb_seq body)) then (Inl (StErr ''storage: append insert''), s)
         else if list_ex (\<lambda>r. er_seq r = eb_seq body \<or> er_hash r = ai_hash inp) (st_entries s)
           then (Inl ErrAlreadyExists, s)
         else (case upsert_balances flt (ai_balances inp) (st_balances s) of
           Inl x \<Rightarrow> (Inl x, s)
         | Inr bal \<Rightarrow>
           if flt SqlCommit then (Inl (StErr ''storage: commit''), s)
           else (Inr (eb_seq body), s\<lparr>st_entries := st_entries s @ [mk_row body e (ai_hash inp) canonical],
             st_balances := bal\<rparr>)))))"

section \<open>Merkle roots and peer roots\<close>

definition hourSeconds :: u64 where "hourSeconds = 3600"

definition LeavesForHour :: "faults \<Rightarrow> u64 \<Rightarrow> store \<Rightarrow> st_err + bytes list" where
  "LeavesForHour flt hour s = (let start = hour * hourSeconds; stop = start + hourSeconds in
     if \<not> sql_u64 start \<or> \<not> sql_u64 stop \<or> flt (SqlLeaves hour) then Inl (StErr ''storage: LeavesForHour query'')
     else Inr (map er_hash (order_by_seq (filter (\<lambda>r. start \<le> er_timestamp r \<and> er_timestamp r < stop) (st_entries s)))))"

definition PutMerkleRoot :: "faults \<Rightarrow> u64 \<Rightarrow> bytes \<Rightarrow> bytes \<Rightarrow> store \<Rightarrow> st_err option \<times> store" where
  "PutMerkleRoot flt hour rt sig s =
     (if length rt = 0 \<or> length sig = 0
        then (Some (StErr ''storage: PutMerkleRoot requires non-empty root and trackerSig''), s)
      else if \<not> sql_u64 hour \<or> flt (SqlPutRoot hour) then (Some (StErr ''storage: PutMerkleRoot''), s)
      else if st_merkle s hour \<noteq> None then (Some ErrDuplicateMerkleRoot, s)
      else (None, s\<lparr>st_merkle := (st_merkle s)(hour \<mapsto> (rt, sig))\<rparr>))"

definition GetMerkleRoot :: "faults \<Rightarrow> u64 \<Rightarrow> store \<Rightarrow> st_err + (bytes \<times> bytes) option" where
  "GetMerkleRoot flt hour s = (if \<not> sql_u64 hour \<or> flt (SqlGetRoot hour) then Inl (StErr ''storage: GetMerkleRoot'')
     else Inr (st_merkle s hour))"

definition PutPeerRoot :: "faults \<Rightarrow> PeerRoot \<Rightarrow> store \<Rightarrow> st_err option \<times> store" where
  "PutPeerRoot flt p s =
     (if length (pr_tracker_id p) = 0 \<or> length (pr_root p) = 0 \<or> length (pr_sig p) = 0
        then (Some (StErr ''storage: PutPeerRoot requires non-empty tracker_id, root, sig''), s)
      else if \<not> sql_u64 (pr_hour p) \<or> flt (SqlPeerRootCheck (pr_tracker_id p) (pr_hour p))
        then (Some (StErr ''storage: PutPeerRoot existence check''), s)
      else (case st_peer_roots s (pr_tracker_id p, pr_hour p) of
        Some x \<Rightarrow> (if pr_root x = pr_root p \<and> pr_sig x = pr_sig p then (None, s) else (Some ErrPeerRootConflict, s))
      | None \<Rightarrow>
        if \<not> sql_u64 (pr_received_at p) \<or> flt (SqlPeerRootInsert (pr_tracker_id p) (pr_hour p))
          then (Some (StErr ''storage: PutPeerRoot insert''), s)
        else (None, s\<lparr>st_peer_roots := (st_peer_roots s)((pr_tracker_id p, pr_hour p) \<mapsto> p)\<rparr>)))"

definition GetPeerRoot :: "faults \<Rightarrow> bytes \<Rightarrow> u64 \<Rightarrow> store \<Rightarrow> st_err + PeerRoot option" where
  "GetPeerRoot flt t hour s = (if \<not> sql_u64 hour \<or> flt (SqlGetPeerRoot t hour) then Inl (StErr ''storage: GetPeerRoot'')
     else Inr (st_peer_roots s (t, hour)))"

end
