(* ===== verification/TB_Ledger.thy ===== *)
theory TB_Ledger
  imports TB_Storage
begin

text \<open>
  The chain orchestrator (\<open>src/tracker/internal/ledger\<close>): every append under the ledger lock, the
  signed balance snapshot, the integrity audit and the hourly Merkle rollup. The state is the
  \<open>store\<close>; \<open>ledger_env\<close> holds what \<open>Open\<close> fixes. \<open>Ledger.mu\<close> covers a whole append, so an append
  is one atomic function of the store.
\<close>

record ledger_env =
  le_crypto :: crypto
  le_key :: bytes

datatype ledger_err = ErrStaleTip | ErrInsufficientBalance | ErrUsageRequestExists
  | ErrTransferRefExists | ErrTransferIdentityMismatch | LStore string st_err | LErr string

section \<open>Helpers\<close>

definition unixSecondsU :: "time \<Rightarrow> u64" where
  "unixSecondsU t = (let s = unix t in if s < 0 then 0 else word_of_int s)"

definition signedAmount :: "u64 \<Rightarrow> ledger_err + i64" where
  "signedAmount amount = (if uint amount > 2 ^ 63 - 1 then Inl (LErr ''ledger: amount exceeds int64 range'')
     else Inr (uint amount))"

section \<open>The append core\<close>

record balanceDelta =
  bd_identity_id :: bytes
  bd_delta :: i64

record appendInput =
  ap_body :: "EntryBody option"
  ap_consumer_sig :: bytes
  ap_consumer_pub :: bytes
  ap_seeder_sig :: bytes
  ap_seeder_pub :: bytes
  ap_deltas :: "balanceDelta list"
  ap_sigs_pre_verified :: bool

primrec applyDeltas :: "faults \<Rightarrow> u64 \<Rightarrow> u64 \<Rightarrow> balanceDelta list \<Rightarrow> store \<Rightarrow> ledger_err + BalanceUpdate list" where
  "applyDeltas flt sq ts [] s = Inr []"
| "applyDeltas flt sq ts (d # ds) s = (case Balance flt (bd_identity_id d) s of
     Inl e \<Rightarrow> Inl (LStore ''ledger: read balance'' e)
   | Inr (cur, found) \<Rightarrow> (let nxt = i64_add (br_credits cur) (bd_delta d) in
       if nxt < 0 then Inl ErrInsufficientBalance
       else (case applyDeltas flt sq ts ds s of Inl e \<Rightarrow> Inl e
         | Inr us \<Rightarrow> Inr (\<lparr>bu_identity_id = bd_identity_id d, bu_credits = nxt, bu_last_seq = sq,
             bu_updated_at = ts\<rparr> # us))))"

definition expected_tip :: "u64 \<times> bytes \<times> bool \<Rightarrow> bytes \<times> u64" where
  "expected_tip t = (case t of (tipSeq, tipHash, hasTip) \<Rightarrow>
     if hasTip then (tipHash, tipSeq + 1) else (zeros 32, 1))"

definition check_tip :: "faults \<Rightarrow> EntryBody \<Rightarrow> store \<Rightarrow> ledger_err option" where
  "check_tip flt body s = (case Tip flt s of Inl e \<Rightarrow> Some (LStore ''ledger: read tip'' e)
   | Inr t \<Rightarrow> (case expected_tip t of (expectedPrev, expectedSeq) \<Rightarrow>
       if eb_prev_hash body \<noteq> expectedPrev \<or> eb_seq body \<noteq> expectedSeq then Some ErrStaleTip else None))"

definition check_single_use :: "faults \<Rightarrow> EntryBody \<Rightarrow> store \<Rightarrow> ledger_err option" where
  "check_single_use flt body s =
     (let usage = (if eb_kind body = ENTRY_KIND_USAGE
        then (case HasUsageRequestID flt (eb_request_id body) s of
          Inl e \<Rightarrow> Some (LStore ''ledger: usage request_id lookup'' e)
        | Inr exists \<Rightarrow> if exists then Some ErrUsageRequestExists else None)
        else None)
      in if usage \<noteq> None then usage
      else if eb_kind body = ENTRY_KIND_TRANSFER_OUT \<or> eb_kind body = ENTRY_KIND_TRANSFER_IN
        then (case HasTransferRef flt (eb_kind body) (eb_ref body) s of
          Inl e \<Rightarrow> Some (LStore ''ledger: transfer ref lookup'' e)
        | Inr exists \<Rightarrow> if exists then Some ErrTransferRefExists else None)
      else None)"

definition check_participant_sigs :: "crypto \<Rightarrow> appendInput \<Rightarrow> ledger_err option" where
  "check_participant_sigs cr inp =
     (if ap_sigs_pre_verified inp then None
      else if length (ap_consumer_sig inp) \<noteq> 0 \<and>
          \<not> VerifyEntry cr (ap_consumer_pub inp) (ap_body inp) (ap_consumer_sig inp)
        then Some (LErr ''ledger: consumer_sig invalid'')
      else if length (ap_seeder_sig inp) \<noteq> 0 \<and>
          \<not> VerifyEntry cr (ap_seeder_pub inp) (ap_body inp) (ap_seeder_sig inp)
        then Some (LErr ''ledger: seeder_sig invalid'')
      else None)"

definition appendLocked :: "ledger_env \<Rightarrow> faults \<Rightarrow> appendInput \<Rightarrow> bool \<Rightarrow> store \<Rightarrow> (ledger_err + Entry) \<times> store" where
  "appendLocked env flt inp verifyPreFilled s = (case ap_body inp of
     None \<Rightarrow> (Inl (LErr ''ledger: appendEntry requires non-nil body''), s)
   | Some body \<Rightarrow>
     (case (if verifyPreFilled then check_tip flt body s else None) of Some e \<Rightarrow> (Inl e, s) | None \<Rightarrow>
     (case ValidateEntryBody (Some body) of Some e \<Rightarrow> (Inl (LErr (''ledger: validate body: '' @ e)), s) | None \<Rightarrow>
     (case check_single_use flt body s of Some e \<Rightarrow> (Inl e, s) | None \<Rightarrow>
     (case check_participant_sigs (le_crypto env) inp of Some e \<Rightarrow> (Inl e, s) | None \<Rightarrow>
     (case SignEntry (le_crypto env) (le_key env) (Some body) of
       Inl e \<Rightarrow> (Inl (LErr (''ledger: tracker sign: '' @ e)), s) | Inr trackerSig \<Rightarrow>
     (case applyDeltas flt (eb_seq body) (eb_timestamp body) (ap_deltas inp) s of
       Inl e \<Rightarrow> (Inl e, s) | Inr balances \<Rightarrow>
     (case Hash (le_crypto env) (Some body) of
       Inl e \<Rightarrow> (Inl (LErr (''ledger: hash: '' @ e)), s) | Inr h \<Rightarrow>
     (let e = \<lparr>en_body = Some body, en_consumer_sig = ap_consumer_sig inp,
                en_seeder_sig = ap_seeder_sig inp, en_tracker_sig = trackerSig\<rparr>
      in (case AppendEntry (le_crypto env) flt
            \<lparr>ai_entry = Some e, ai_hash = h, ai_balances = balances\<rparr> s of
           (Inl x, s') \<Rightarrow> (Inl (LStore ''ledger: append'' x), s')
         | (Inr _, s') \<Rightarrow> (Inr e, s')))))))))))"

definition appendEntry :: "ledger_env \<Rightarrow> faults \<Rightarrow> appendInput \<Rightarrow> store \<Rightarrow> (ledger_err + Entry) \<times> store" where
  "appendEntry env flt inp s = appendLocked env flt inp True s"

definition appendEntryWithBuilder ::
  "ledger_env \<Rightarrow> faults \<Rightarrow> time \<Rightarrow> (bytes \<Rightarrow> u64 \<Rightarrow> u64 \<Rightarrow> ledger_err + appendInput) \<Rightarrow> store \<Rightarrow> (ledger_err + Entry) \<times> store" where
  "appendEntryWithBuilder env flt now build s = (case Tip flt s of
     Inl e \<Rightarrow> (Inl (LStore ''ledger: read tip'' e), s)
   | Inr t \<Rightarrow> (case expected_tip t of (prev, nextSeq) \<Rightarrow>
       (case build prev nextSeq (unixSecondsU now) of Inl e \<Rightarrow> (Inl e, s)
        | Inr inp \<Rightarrow> appendLocked env flt inp False s)))"

section \<open>Usage entries\<close>

record UsageRecord =
  rec_prev_hash :: bytes
  rec_seq :: u64
  rec_consumer_id :: bytes
  rec_seeder_id :: bytes
  rec_model :: string
  rec_input_tokens :: u32
  rec_output_tokens :: u32
  rec_cost_credits :: u64
  rec_timestamp :: u64
  rec_request_id :: bytes
  rec_consumer_sig_missing :: bool
  rec_consumer_sig :: bytes
  rec_consumer_pub :: bytes
  rec_seeder_sig :: bytes
  rec_seeder_pub :: bytes

definition rec_assertion :: "UsageRecord \<Rightarrow> UsageAssertion" where
  "rec_assertion r = \<lparr>ua_request_id = rec_request_id r, ua_consumer_id = rec_consumer_id r,
     ua_seeder_id = rec_seeder_id r, ua_model = rec_model r, ua_input_tokens = rec_input_tokens r,
     ua_output_tokens = rec_output_tokens r, ua_cost_credits = rec_cost_credits r\<rparr>"

definition AppendUsage :: "ledger_env \<Rightarrow> faults \<Rightarrow> UsageRecord \<Rightarrow> store \<Rightarrow> (ledger_err + Entry) \<times> store" where
  "AppendUsage env flt r s =
     (if length (rec_seeder_sig r) = 0 \<or> length (rec_seeder_pub r) \<noteq> PublicKeySize
        then (Inl (LErr ''ledger: AppendUsage requires seeder sig + pubkey''), s)
      else if \<not> rec_consumer_sig_missing r \<and>
          (length (rec_consumer_sig r) = 0 \<or> length (rec_consumer_pub r) \<noteq> PublicKeySize)
        then (Inl (LErr ''ledger: AppendUsage requires consumer sig + pubkey (or set ConsumerSigMissing)''), s)
      else if \<not> VerifyUsageAssertion (le_crypto env) (rec_seeder_pub r) (rec_assertion r) (rec_seeder_sig r)
        then (Inl (LErr ''ledger: seeder_sig invalid over usage-assertion''), s)
      else if \<not> rec_consumer_sig_missing r \<and>
          \<not> VerifyUsageAssertion (le_crypto env) (rec_consumer_pub r) (rec_assertion r) (rec_consumer_sig r)
        then (Inl (LErr ''ledger: consumer_sig invalid over usage-assertion''), s)
      else (case signedAmount (rec_cost_credits r) of Inl e \<Rightarrow> (Inl e, s) | Inr cost \<Rightarrow>
        (case BuildUsageEntry \<lparr>ui_prev_hash = rec_prev_hash r, ui_seq = rec_seq r,
            ui_consumer_id = rec_consumer_id r, ui_seeder_id = rec_seeder_id r, ui_model = rec_model r,
            ui_input_tokens = rec_input_tokens r, ui_output_tokens = rec_output_tokens r,
            ui_cost_credits = rec_cost_credits r, ui_timestamp = rec_timestamp r,
            ui_request_id = rec_request_id r, ui_consumer_sig_missing = rec_consumer_sig_missing r\<rparr> of
          Inl e \<Rightarrow> (Inl (LErr (''ledger: build usage: '' @ e)), s)
        | Inr body \<Rightarrow> appendEntry env flt
            \<lparr>ap_body = Some body,
             ap_consumer_sig = (if rec_consumer_sig_missing r then [] else rec_consumer_sig r),
             ap_consumer_pub = (if rec_consumer_sig_missing r then [] else rec_consumer_pub r),
             ap_seeder_sig = rec_seeder_sig r, ap_seeder_pub = rec_seeder_pub r,
             ap_deltas = [\<lparr>bd_identity_id = rec_consumer_id r, bd_delta = - cost\<rparr>,
                          \<lparr>bd_identity_id = rec_seeder_id r, bd_delta = cost\<rparr>],
             ap_sigs_pre_verified = True\<rparr> s)))"

section \<open>Transfers and starter grants\<close>

record TransferOutRecord =
  tor_prev_hash :: bytes
  tor_seq :: u64
  tor_consumer_id :: bytes
  tor_amount :: u64
  tor_timestamp :: u64
  tor_transfer_ref :: bytes
  tor_source_tracker_id :: bytes
  tor_dest_tracker_id :: bytes
  tor_consumer_sig :: bytes
  tor_consumer_pub :: bytes

definition tor_request :: "TransferOutRecord \<Rightarrow> TransferProofRequest" where
  "tor_request r = \<lparr>tq_source_tracker_id = tor_source_tracker_id r, tq_dest_tracker_id = tor_dest_tracker_id r,
     tq_identity_id = tor_consumer_id r, tq_amount = tor_amount r, tq_nonce = tor_transfer_ref r,
     tq_consumer_sig = [], tq_consumer_pub = tor_consumer_pub r, tq_timestamp = tor_timestamp r\<rparr>"

definition AppendTransferOut :: "ledger_env \<Rightarrow> faults \<Rightarrow> TransferOutRecord \<Rightarrow> store \<Rightarrow> (ledger_err + Entry) \<times> store" where
  "AppendTransferOut env flt r s =
     (if length (tor_consumer_sig r) = 0 \<or> length (tor_consumer_pub r) \<noteq> PublicKeySize
        then (Inl (LErr ''ledger: AppendTransferOut requires consumer sig + pubkey''), s)
      else if tor_amount r = 0 then (Inl (LErr ''ledger: transfer_out amount must be > 0''), s)
      else (case signedAmount (tor_amount r) of Inl e \<Rightarrow> (Inl e, s) | Inr delta \<Rightarrow>
        (case pkix (le_crypto env) (tor_consumer_pub r) of
          None \<Rightarrow> (Inl (LErr ''ledger: marshal consumer pubkey SPKI''), s)
        | Some spki \<Rightarrow>
          if sha256 (le_crypto env) spki \<noteq> tor_consumer_id r then (Inl ErrTransferIdentityMismatch, s)
          else (case CanonicalTransferProofRequestPreSig (le_crypto env) (Some (tor_request r)) of
            Inl e \<Rightarrow> (Inl (LErr (''ledger: canonical transfer-proof-request: '' @ e)), s)
          | Inr canonical \<Rightarrow>
            if \<not> Verify (le_crypto env) (tor_consumer_pub r) canonical (tor_consumer_sig r)
              then (Inl (LErr ''ledger: consumer_sig invalid over transfer-proof-request intent''), s)
            else (case BuildTransferOutEntry \<lparr>to_prev_hash = tor_prev_hash r, to_seq = tor_seq r,
                to_consumer_id = tor_consumer_id r, to_amount = tor_amount r,
                to_timestamp = tor_timestamp r, to_transfer_ref = tor_transfer_ref r\<rparr> of
              Inl e \<Rightarrow> (Inl (LErr (''ledger: build transfer_out: '' @ e)), s)
            | Inr body \<Rightarrow> appendEntry env flt
                \<lparr>ap_body = Some body, ap_consumer_sig = tor_consumer_sig r, ap_consumer_pub = tor_consumer_pub r,
                 ap_seeder_sig = [], ap_seeder_pub = [],
                 ap_deltas = [\<lparr>bd_identity_id = tor_consumer_id r, bd_delta = - delta\<rparr>],
                 ap_sigs_pre_verified = True\<rparr> s)))))"

record TransferInRecord =
  tir_prev_hash :: bytes
  tir_seq :: u64
  tir_identity_id :: bytes
  tir_amount :: u64
  tir_timestamp :: u64
  tir_transfer_ref :: bytes

definition AppendTransferIn :: "ledger_env \<Rightarrow> faults \<Rightarrow> TransferInRecord \<Rightarrow> store \<Rightarrow> (ledger_err + Entry) \<times> store" where
  "AppendTransferIn env flt r s =
     (if tir_amount r = 0 then (Inl (LErr ''ledger: transfer_in amount must be > 0''), s)
      else (case signedAmount (tir_amount r) of Inl e \<Rightarrow> (Inl e, s) | Inr delta \<Rightarrow>
        (case BuildTransferInEntry \<lparr>ti_prev_hash = tir_prev_hash r, ti_seq = tir_seq r,
            ti_amount = tir_amount r, ti_timestamp = tir_timestamp r, ti_transfer_ref = tir_transfer_ref r\<rparr> of
          Inl e \<Rightarrow> (Inl (LErr (''ledger: build transfer_in: '' @ e)), s)
        | Inr body \<Rightarrow> appendEntry env flt
            \<lparr>ap_body = Some body, ap_consumer_sig = [], ap_consumer_pub = [], ap_seeder_sig = [],
             ap_seeder_pub = [], ap_deltas = [\<lparr>bd_identity_id = tir_identity_id r, bd_delta = delta\<rparr>],
             ap_sigs_pre_verified = False\<rparr> s)))"

definition grant_builder :: "bytes \<Rightarrow> u64 \<Rightarrow> i64 \<Rightarrow> bytes \<Rightarrow> u64 \<Rightarrow> u64 \<Rightarrow> ledger_err + appendInput" where
  "grant_builder identityID amount delta prev sq now =
     (case BuildStarterGrantEntry \<lparr>sg_prev_hash = prev, sg_seq = sq, sg_consumer_id = identityID,
         sg_amount = amount, sg_timestamp = now\<rparr> of
        Inl e \<Rightarrow> Inl (LErr (''ledger: build starter_grant: '' @ e))
      | Inr body \<Rightarrow> Inr \<lparr>ap_body = Some body, ap_consumer_sig = [], ap_consumer_pub = [], ap_seeder_sig = [],
          ap_seeder_pub = [], ap_deltas = [\<lparr>bd_identity_id = identityID, bd_delta = delta\<rparr>],
          ap_sigs_pre_verified = False\<rparr>)"

definition IssueStarterGrant :: "ledger_env \<Rightarrow> faults \<Rightarrow> time \<Rightarrow> bytes \<Rightarrow> u64 \<Rightarrow> store \<Rightarrow> (ledger_err + Entry) \<times> store" where
  "IssueStarterGrant env flt now identityID amount s =
     (if amount = 0 then (Inl (LErr ''ledger: starter grant amount must be > 0''), s)
      else if length identityID \<noteq> 32 then (Inl (LErr ''ledger: identity_id length''), s)
      else (case signedAmount amount of Inl e \<Rightarrow> (Inl e, s)
        | Inr delta \<Rightarrow> appendEntryWithBuilder env flt now (grant_builder identityID amount delta) s))"

section \<open>Signed balances\<close>

definition balanceSnapshotTTLSeconds :: u64 where "balanceSnapshotTTLSeconds = 600"

definition SignedBalance :: "ledger_env \<Rightarrow> faults \<Rightarrow> time \<Rightarrow> bytes \<Rightarrow> store \<Rightarrow> ledger_err + SignedBalanceSnapshot" where
  "SignedBalance env flt now identityID s =
     (if length identityID \<noteq> 32 then Inl (LErr ''ledger: identity_id length'')
      else (case BalanceWithTip flt identityID s of Inl e \<Rightarrow> Inl (LStore ''ledger: BalanceWithTip'' e)
        | Inr snap \<Rightarrow>
          (let tipHash = (if bt_tip_found snap then bt_tip_hash snap else zeros 32);
               issued = unixSecondsU now;
               body = \<lparr>bs_identity_id = identityID, bs_credits = br_credits (bt_balance snap),
                 bs_chain_tip_hash = tipHash, bs_chain_tip_seq = bt_tip_seq snap, bs_issued_at = issued,
                 bs_expires_at = issued + balanceSnapshotTTLSeconds\<rparr>
           in (case SignBalanceSnapshot (le_crypto env) (le_key env) (Some body) of
             Inl e \<Rightarrow> Inl (LErr (''ledger: sign snapshot: '' @ e))
           | Inr sig \<Rightarrow> Inr \<lparr>sb_body = Some body, sb_tracker_sig = sig\<rparr>))))"

section \<open>Integrity audit\<close>

definition auditBatchSize :: int where "auditBatchSize = 1000"

datatype audit_out = AuditReturn "ledger_err option" | AuditNext bytes u64

text \<open>
  The inner loop over one page. A row scanned from the store always carries a body, so the
  \<open>None\<close> case (a nil dereference in Go) is unreachable.
\<close>

primrec audit_batch :: "crypto \<Rightarrow> u64 \<Rightarrow> (Entry \<times> bytes) list \<Rightarrow> bytes \<Rightarrow> u64 \<Rightarrow> audit_out" where
  "audit_batch cr untilSeq [] prevHash cursor = AuditNext prevHash cursor"
| "audit_batch cr untilSeq (eh # es) prevHash cursor = (case eh of (e, storedHash) \<Rightarrow>
     (case en_body e of None \<Rightarrow> AuditReturn (Some (LErr ''panic: nil body'')) | Some body \<Rightarrow>
       if eb_seq body > untilSeq then AuditReturn None
       else if eb_prev_hash body \<noteq> prevHash then AuditReturn (Some (LErr ''ledger: chain break''))
       else (case Hash cr (Some body) of Inl x \<Rightarrow> AuditReturn (Some (LErr (''ledger: AssertChainIntegrity hash: '' @ x)))
         | Inr h \<Rightarrow> if h \<noteq> storedHash then AuditReturn (Some (LErr ''ledger: content corruption''))
             else audit_batch cr untilSeq es h (eb_seq body))))"

text \<open>
  The outer loop pages through the table. The cursor is the sequence number inside the last body,
  so on a corrupted table the loop need not advance: it is modelled with fuel, \<open>None\<close> is out of
  fuel.
\<close>

fun audit_loop :: "crypto \<Rightarrow> faults \<Rightarrow> store \<Rightarrow> nat \<Rightarrow> u64 \<Rightarrow> bytes \<Rightarrow> u64 \<Rightarrow> ledger_err option option" where
  "audit_loop cr flt s 0 untilSeq prevHash cursor = None"
| "audit_loop cr flt s (Suc fuel) untilSeq prevHash cursor =
     (if cursor < untilSeq then
        (case EntriesWithHashSince cr flt cursor auditBatchSize s of
           Inl e \<Rightarrow> Some (Some (LStore ''ledger: AssertChainIntegrity page'' e))
         | Inr batch \<Rightarrow> if batch = [] then Some None
             else (case audit_batch cr untilSeq batch prevHash cursor of
               AuditReturn r \<Rightarrow> Some r
             | AuditNext h c \<Rightarrow> audit_loop cr flt s fuel untilSeq h c))
      else Some None)"

definition audit_anchor :: "crypto \<Rightarrow> faults \<Rightarrow> u64 \<Rightarrow> store \<Rightarrow> ledger_err + bytes" where
  "audit_anchor cr flt sinceSeq s = (if sinceSeq = 0 then Inr (zeros 32)
     else (case EntryBySeq cr flt sinceSeq s of Inl e \<Rightarrow> Inl (LStore ''ledger: AssertChainIntegrity anchor'' e)
       | Inr None \<Rightarrow> Inl (LErr ''ledger: AssertChainIntegrity: anchor missing'')
       | Inr (Some anchor) \<Rightarrow> (case Hash cr (en_body anchor) of
           Inl e \<Rightarrow> Inl (LErr (''ledger: AssertChainIntegrity anchor hash: '' @ e)) | Inr h \<Rightarrow> Inr h)))"

definition AssertChainIntegrity :: "crypto \<Rightarrow> faults \<Rightarrow> nat \<Rightarrow> u64 \<Rightarrow> u64 \<Rightarrow> store \<Rightarrow> ledger_err option option" where
  "AssertChainIntegrity cr flt fuel sinceSeq untilSeq s = (case audit_anchor cr flt sinceSeq s of
     Inl e \<Rightarrow> Some (Some e)
   | Inr prevHash \<Rightarrow>
     if untilSeq = 0 then
       (case Tip flt s of Inl e \<Rightarrow> Some (Some (LStore ''ledger: AssertChainIntegrity tip'' e))
        | Inr (tipSeq, _, hasTip) \<Rightarrow> if \<not> hasTip then Some None
            else audit_loop cr flt s fuel tipSeq prevHash sinceSeq)
     else audit_loop cr flt s fuel untilSeq prevHash sinceSeq)"

section \<open>Merkle rollup\<close>

fun merkle_pairs :: "crypto \<Rightarrow> bytes list \<Rightarrow> bytes list" where
  "merkle_pairs cr (a # b # xs) = sha256 cr (a @ b) # merkle_pairs cr xs"
| "merkle_pairs cr _ = []"

definition merkle_pad :: "bytes list \<Rightarrow> bytes list" where
  "merkle_pad level = (if length level mod 2 = 1 then level @ [last level] else level)"

lemma length_merkle_pairs [simp]: "length (merkle_pairs cr xs) = length xs div 2"
  by (induction cr xs rule: merkle_pairs.induct) auto

lemma length_merkle_pad: "length (merkle_pad xs) = length xs + length xs mod 2"
  by (auto simp: merkle_pad_def mod_2_eq_odd)

function merkle_loop :: "crypto \<Rightarrow> bytes list \<Rightarrow> bytes list" where
  "merkle_loop cr level = (if length level > 1 then merkle_loop cr (merkle_pairs cr (merkle_pad level)) else level)"
  by pat_completeness auto
termination
  by (relation "measure (\<lambda>(cr, level). length level)") (auto simp: length_merkle_pad)

declare merkle_loop.simps [simp del]

text \<open>Go returns nil on no leaves: the empty byte string.\<close>

definition merkleHash :: "crypto \<Rightarrow> bytes list \<Rightarrow> bytes" where
  "merkleHash cr leaves = (if leaves = [] then [] else hd (merkle_loop cr leaves))"

definition merkleRootSignDomain :: bytes where
  "merkleRootSignDomain = str_bytes ''token-bay/merkle-root'' @ [0]"

definition merkleRootSignPreimage :: "u64 \<Rightarrow> bytes \<Rightarrow> bytes" where
  "merkleRootSignPreimage hour rt = merkleRootSignDomain @ be64 hour @ rt"

definition RunRollupOnce :: "ledger_env \<Rightarrow> faults \<Rightarrow> u64 \<Rightarrow> store \<Rightarrow> ledger_err option \<times> store" where
  "RunRollupOnce env flt hour s = (case GetMerkleRoot flt hour s of
     Inl e \<Rightarrow> (Some (LStore ''ledger: rollup check existing root'' e), s)
   | Inr (Some _) \<Rightarrow> (None, s)
   | Inr None \<Rightarrow> (case LeavesForHour flt hour s of
       Inl e \<Rightarrow> (Some (LStore ''ledger: rollup read leaves'' e), s)
     | Inr leaves \<Rightarrow>
       if leaves = [] then (None, s)
       else (let rt = merkleHash (le_crypto env) leaves in
         if length rt \<noteq> 32 then (Some (LErr ''ledger: rollup unexpected root length''), s)
         else (case PutMerkleRoot flt hour rt (ed_sign (le_crypto env) (le_key env) (merkleRootSignPreimage hour rt)) s of
             (None, s') \<Rightarrow> (None, s')
           | (Some ErrDuplicateMerkleRoot, s') \<Rightarrow> (None, s')
           | (Some e, s') \<Rightarrow> (Some (LStore ''ledger: rollup put root'' e), s')))))"

definition prevHourFromTime :: "time \<Rightarrow> u64 \<times> bool" where
  "prevHourFromTime t = (let s = unix t in if s < 7200 then (0, False)
     else (word_of_int s div 3600 - 1, True))"

end
