(* ===== verification/TB_Settlement.thy ===== *)
theory TB_Settlement
  imports TB_Broker TB_Ledger
begin

text \<open>
  The settlement phase (\<open>src/tracker/internal/broker/settlement.go\<close>, \<open>reaper.go\<close>): usage reports, the
  consumer's counter-signature, the ledger append and the reservation reaper.

  \<open>HandleUsageReport\<close> starts one goroutine per report; \<open>sl_tasks\<close> lists the ones that wait, each with
  the pointer to its request and the record it will append. A waiting goroutine is resumed by one
  of three events (\<open>await_event\<close>). Between two appends of the retry loop other writers may extend
  the ledger: \<open>se_others k\<close> is what they did before attempt \<open>k\<close>. Metrics and log lines are left out;
  pushes to the consumer and ledger events are logged.
\<close>

record pendingSettle =
  ps_assertion :: UsageAssertion
  ps_pre_sig :: bytes
  ps_verified :: bool
  ps_refused :: bool
  ps_consumer_sig :: bytes
  ps_consumer_pub :: bytes

record LedgerEvent =
  le_consumer_id :: ident
  le_seeder_id :: ident
  le_cost_credits :: u64
  le_flags :: u32
  le_timestamp :: u64

record settle_state =
  sl_bk :: broker_state
  sl_store :: store
  sl_pending :: "reqid \<rightharpoonup> pendingSettle"
  sl_tasks :: "(addr \<times> UsageRecord) list"
  sl_pushes :: "(ident \<times> SettlementPush) list"
  sl_events :: "LedgerEvent list"

record settle_env =
  se_ledger :: ledger_env
  se_prices :: PriceTable
  se_identity :: "(ident \<Rightarrow> bytes option) option"
  se_now :: time
  se_tip_fault :: faults
  se_append_fault :: "nat \<Rightarrow> faults"
  se_retries :: int
  se_others :: "nat \<Rightarrow> store \<Rightarrow> store"

datatype settle_err = StBroker broker_err | StSession session_err | StLedger st_err | StSign string | StMalformed string

section \<open>Pending verdicts\<close>

definition putPending :: "reqid \<Rightarrow> UsageAssertion \<Rightarrow> bytes \<Rightarrow> settle_state \<Rightarrow> bool \<times> settle_state" where
  "putPending i assertion preSig st = (if sl_pending st i \<noteq> None then (False, st)
     else (True, st\<lparr>sl_pending := (sl_pending st)(i \<mapsto> \<lparr>ps_assertion = assertion, ps_pre_sig = preSig,
       ps_verified = False, ps_refused = False, ps_consumer_sig = [], ps_consumer_pub = []\<rparr>)\<rparr>))"

definition dropPending :: "reqid \<Rightarrow> settle_state \<Rightarrow> settle_state" where
  "dropPending i st = st\<lparr>sl_pending := (sl_pending st)(i := None)\<rparr>"

definition pendingVerdict :: "reqid \<Rightarrow> settle_state \<Rightarrow> bool \<times> bool \<times> bytes \<times> bytes" where
  "pendingVerdict i st = (case sl_pending st i of None \<Rightarrow> (False, False, [], [])
     | Some p \<Rightarrow> (ps_verified p, ps_refused p, ps_consumer_sig p, ps_consumer_pub p))"

section \<open>Usage reports\<close>

definition sl_inflight :: "(Inflight \<Rightarrow> 'a \<times> Inflight) \<Rightarrow> settle_state \<Rightarrow> 'a \<times> settle_state" where
  "sl_inflight op st = (case upd_inflight op (sl_bk st) of (x, b) \<Rightarrow> (x, st\<lparr>sl_bk := b\<rparr>))"

definition overspent :: "u64 \<Rightarrow> u64 \<Rightarrow> bool" where
  "overspent actualCost reserved \<longleftrightarrow> actualCost > reserved * 105 div 100"

definition usage_assertion :: "Request \<Rightarrow> UsageReport \<Rightarrow> u64 \<Rightarrow> UsageAssertion" where
  "usage_assertion req r actualCost = \<lparr>ua_request_id = ur_request_id r, ua_consumer_id = rq_consumer_id req,
     ua_seeder_id = rq_assigned_seeder req, ua_model = ur_model r, ua_input_tokens = ur_input_tokens r,
     ua_output_tokens = ur_output_tokens r, ua_cost_credits = actualCost\<rparr>"

definition usage_record :: "settle_env \<Rightarrow> Request \<Rightarrow> UsageReport \<Rightarrow> u64 \<Rightarrow> bytes \<times> u64 \<Rightarrow> UsageRecord" where
  "usage_record env req r actualCost pos = \<lparr>rec_prev_hash = fst pos, rec_seq = snd pos,
     rec_consumer_id = rq_consumer_id req, rec_seeder_id = rq_assigned_seeder req, rec_model = ur_model r,
     rec_input_tokens = ur_input_tokens r, rec_output_tokens = ur_output_tokens r, rec_cost_credits = actualCost,
     rec_timestamp = word_of_int (unix (se_now env)), rec_request_id = ur_request_id r,
     rec_consumer_sig_missing = False, rec_consumer_sig = [], rec_consumer_pub = [],
     rec_seeder_sig = ur_seeder_sig r, rec_seeder_pub = rq_seeder_pubkey req\<rparr>"

definition report_checks :: "settle_env \<Rightarrow> ident \<Rightarrow> Request \<Rightarrow> UsageReport \<Rightarrow> settle_err + u64" where
  "report_checks env peerID req r =
     (if rq_state req \<noteq> StateAssigned \<and> rq_state req \<noteq> StateServing then Inl (StBroker ErrInvalidState)
      else if rq_assigned_seeder req \<noteq> peerID then Inl (StBroker ErrSeederMismatch)
      else (case rq_envelope_body req of None \<Rightarrow> Inl (StBroker ErrModelMismatch)
        | Some b \<Rightarrow> if ev_model b \<noteq> ur_model r then Inl (StBroker ErrModelMismatch)
        else (case ActualCost (se_prices env) (ur_model r) (ur_input_tokens r) (ur_output_tokens r) of
            Inl e \<Rightarrow> Inl (StBroker e)
          | Inr actualCost \<Rightarrow> if overspent actualCost (rq_max_cost_reserved req) then Inl (StBroker ErrCostOverspend)
              else Inr actualCost)))"

text \<open>Steps 7 to 10: the assertion, the seeder's signature, the indexes, the gate and the goroutine.\<close>

definition report_accept :: "settle_env \<Rightarrow> addr \<Rightarrow> Request \<Rightarrow> UsageReport \<Rightarrow> u64 \<Rightarrow> bytes \<times> u64 \<Rightarrow> settle_state \<Rightarrow> (settle_err + unit) \<times> settle_state" where
  "report_accept env p req r actualCost pos st =
     (let i = to_array 16 (ur_request_id r); assertion = usage_assertion req r actualCost; cr = le_crypto (se_ledger env) in
      (case CanonicalUsageAssertionPreSig assertion of Inl perr \<Rightarrow> (Inl (StSign perr), st) | Inr preSig \<Rightarrow>
       if \<not> VerifyUsageAssertion cr (rq_seeder_pubkey req) assertion (ur_seeder_sig r) then (Inl (StBroker ErrSeederSigInvalid), st)
       else (let preimageHash = sha256 cr preSig in
         (case sl_inflight (EnsureSettleSig i) st of (Some eerr, st1) \<Rightarrow> (Inl (StSession eerr), st1) | (None, st1) \<Rightarrow>
         (case sl_inflight (IndexByHash i preimageHash) st1 of (Some ierr, st2) \<Rightarrow> (Inl (StSession ierr), st2) | (None, st2) \<Rightarrow>
         (case putPending i assertion preSig st2 of (False, st3) \<Rightarrow> (Inl (StBroker ErrDuplicateUsageReport), st3) | (True, st3) \<Rightarrow>
           (Inr (), st3\<lparr>sl_pushes := sl_pushes st3 @ [(rq_consumer_id req, \<lparr>sp_preimage_hash = preimageHash, sp_preimage_body = preSig\<rparr>)],
              sl_tasks := sl_tasks st3 @ [(p, usage_record env req r actualCost pos)]\<rparr>)))))))"

definition HandleUsageReport :: "settle_env \<Rightarrow> ident \<Rightarrow> UsageReport option \<Rightarrow> settle_state \<Rightarrow> (settle_err + unit) \<times> settle_state" where
  "HandleUsageReport env peerID orep st = (case orep of None \<Rightarrow> (Inl (StMalformed ''settlement: malformed UsageReport''), st)
   | Some r \<Rightarrow> if length (ur_request_id r) \<noteq> 16 then (Inl (StMalformed ''settlement: malformed UsageReport''), st)
     else (let i = to_array 16 (ur_request_id r) in
       (case Inflight_Get i (mg_inflight (bk_mgr (sl_bk st))) of None \<Rightarrow> (Inl (StSession ErrUnknownRequest), st)
        | Some (p, req) \<Rightarrow>
          (case report_checks env peerID req r of Inl e \<Rightarrow> (Inl e, st) | Inr actualCost \<Rightarrow>
          (case sl_inflight (Transition i StateAssigned StateServing (se_now env)) st of (terr, st1) \<Rightarrow>
           if terr \<noteq> None \<and> terr \<noteq> Some ErrIllegalTransition then (Inl (StSession (the terr)), st1)
           else (case Tip (se_tip_fault env) (sl_store st1) of Inl e \<Rightarrow> (Inl (StLedger e), st1)
             | Inr t \<Rightarrow> report_accept env p req r actualCost (expected_tip t) st1))))))"

section \<open>The consumer's counter-signature\<close>

datatype sigVerdict = sigVerified | sigRefused | sigUnverifiable

definition verifyConsumerSig :: "settle_env \<Rightarrow> Request \<Rightarrow> bytes \<Rightarrow> settle_state \<Rightarrow> sigVerdict \<times> settle_state" where
  "verifyConsumerSig env req sig st = (case se_identity env of None \<Rightarrow> (sigUnverifiable, st) | Some resolver \<Rightarrow>
     (case sl_pending st (rq_request_id req) of None \<Rightarrow> (sigUnverifiable, st) | Some p \<Rightarrow>
       if length (ps_pre_sig p) = 0 then (sigUnverifiable, st)
       else (case resolver (rq_consumer_id req) of None \<Rightarrow> (sigUnverifiable, st) | Some pub \<Rightarrow>
         if length pub \<noteq> PublicKeySize then (sigUnverifiable, st)
         else if \<not> VerifyUsageAssertion (le_crypto (se_ledger env)) pub (ps_assertion p) sig
           then (sigRefused, st\<lparr>sl_pending := (sl_pending st)(rq_request_id req \<mapsto> p\<lparr>ps_refused := True\<rparr>)\<rparr>)
         else (sigVerified, st\<lparr>sl_pending := (sl_pending st)(rq_request_id req \<mapsto>
           p\<lparr>ps_verified := True, ps_consumer_sig := sig, ps_consumer_pub := pub\<rparr>)\<rparr>))))"

text \<open>A send on a channel with a buffer of one, or the default case.\<close>

definition try_send :: "addr \<Rightarrow> bytes \<Rightarrow> settle_state \<Rightarrow> bool \<times> settle_state" where
  "try_send p sig st = (let f = mg_inflight (bk_mgr (sl_bk st)) in
     (case if_heap f p of Some req \<Rightarrow> (case rq_settle_sig req of
         Some [] \<Rightarrow> (True, snd (sl_inflight (\<lambda>f. ((), set_request p (req\<lparr>rq_settle_sig := Some [sig]\<rparr>) f)) st))
       | _ \<Rightarrow> (False, st)) | None \<Rightarrow> (False, st)))"

definition HandleSettle :: "settle_env \<Rightarrow> ident \<Rightarrow> SettleRequest option \<Rightarrow> settle_state \<Rightarrow> (settle_err + unit) \<times> settle_state" where
  "HandleSettle env peerID os st = (case os of None \<Rightarrow> (Inl (StMalformed ''settlement: malformed Settle''), st)
   | Some r \<Rightarrow> if length (sr_preimage_hash r) \<noteq> 32 then (Inl (StMalformed ''settlement: malformed Settle''), st)
     else (case LookupByHash (to_array 32 (sr_preimage_hash r)) (mg_inflight (bk_mgr (sl_bk st))) of
        None \<Rightarrow> (Inl (StBroker ErrUnknownPreimage), st)
      | Some (p, req) \<Rightarrow>
        if rq_consumer_id req \<noteq> peerID then (Inl (StBroker ErrSeederMismatch), st)
        else if rq_settle_sig req = None then (Inl (StBroker ErrUnknownPreimage), st)
        else (case verifyConsumerSig env req (sr_consumer_sig r) st of
            (sigRefused, st1) \<Rightarrow> (Inl (StBroker ErrConsumerSig), st1)
          | (_, st1) \<Rightarrow> (case try_send p (sr_consumer_sig r) st1 of
              (True, st2) \<Rightarrow> (Inr (), st2) | (False, st2) \<Rightarrow> (Inl (StBroker ErrDuplicateSettle), st2)))))"

section \<open>Appending\<close>

text \<open>
  The retry loop: attempt \<open>k\<close> of at most \<open>retries + 1\<close>. The result is the last error, or \<open>None\<close>.
\<close>

fun append_attempts :: "settle_env \<Rightarrow> nat \<Rightarrow> nat \<Rightarrow> UsageRecord \<Rightarrow> ledger_err option \<Rightarrow> store \<Rightarrow> ledger_err option \<times> UsageRecord \<times> store" where
  "append_attempts env 0 k rec err s = (err, rec, s)"
| "append_attempts env (Suc n) k rec err s =
     (case AppendUsage (se_ledger env) (se_append_fault env k) rec (se_others env k s) of
        (Inr e, s1) \<Rightarrow> (None, rec, s1)
      | (Inl x, s1) \<Rightarrow> if x \<noteq> ErrStaleTip then (Some x, rec, s1)
          else (case Tip (se_append_fault env k) s1 of Inl terr \<Rightarrow> (Some (LStore ''tip'' terr), rec, s1)
            | Inr (tipSeq, tipHash, _) \<Rightarrow>
                append_attempts env n (k + 1) (rec\<lparr>rec_prev_hash := tipHash, rec_seq := tipSeq + 1\<rparr>) (Some x) s1))"

definition sl_upd_bk :: "(broker_state \<Rightarrow> broker_state) \<Rightarrow> settle_state \<Rightarrow> settle_state" where
  "sl_upd_bk f st = st\<lparr>sl_bk := f (sl_bk st)\<rparr>"

definition appendUsageEntry :: "settle_env \<Rightarrow> Request \<Rightarrow> UsageRecord \<Rightarrow> settle_state \<Rightarrow> settle_state" where
  "appendUsageEntry env req rec st =
     (case append_attempts env (nat (se_retries env + 1)) 0 rec None (sl_store st) of (appendErr, rec', s') \<Rightarrow>
       (let st1 = st\<lparr>sl_store := s'\<rparr>; i = rq_request_id req in
        if appendErr \<noteq> None then snd (sl_inflight (Transition i StateServing StateFailed (se_now env)) st1)
        else (let st2 = sl_upd_bk (\<lambda>b. snd (upd_reservations (Release i) b)) st1;
                  st3 = sl_upd_bk (\<lambda>b. snd (upd_registry (DecLoad (rq_assigned_seeder req)) b)) st2;
                  st4 = snd (sl_inflight (Transition i StateServing StateCompleted (se_now env)) st3)
              in st4\<lparr>sl_events := sl_events st4 @ [\<lparr>le_consumer_id = rq_consumer_id req, le_seeder_id = rq_assigned_seeder req,
                   le_cost_credits = rec_cost_credits rec', le_flags = (if rec_consumer_sig_missing rec' then 1 else 0),
                   le_timestamp = rec_timestamp rec'\<rparr>]\<rparr>)))"

datatype await_event = SettleSig | TimerExpired | Stopped

text \<open>
  The body of \<open>awaitSettle\<close> from the moment its \<open>select\<close> fires, for the task at position \<open>n\<close>. The
  \<open>SettleSig\<close> case can only fire when the channel holds a value.
\<close>

definition await_verdict :: "settle_env \<Rightarrow> await_event \<Rightarrow> Request \<Rightarrow> UsageRecord \<Rightarrow> settle_state \<Rightarrow> settle_state" where
  "await_verdict env event req rec st = (case pendingVerdict (rq_request_id req) st of (verified, refused, sig, pub) \<Rightarrow>
     (case event of
        SettleSig \<Rightarrow> if refused then st
          else appendUsageEntry env req (if verified then rec\<lparr>rec_consumer_sig_missing := False, rec_consumer_sig := sig,
              rec_consumer_pub := pub\<rparr> else rec\<lparr>rec_consumer_sig_missing := True\<rparr>) st
      | TimerExpired \<Rightarrow> if refused then st else appendUsageEntry env req (rec\<lparr>rec_consumer_sig_missing := True\<rparr>) st
      | Stopped \<Rightarrow> st))"

definition remove_nth :: "nat \<Rightarrow> 'a list \<Rightarrow> 'a list" where
  "remove_nth n xs = take n xs @ drop (Suc n) xs"

definition awaitSettle :: "settle_env \<Rightarrow> await_event \<Rightarrow> nat \<Rightarrow> settle_state \<Rightarrow> settle_state" where
  "awaitSettle env event n st = (case sl_tasks st ! n of (p, rec) \<Rightarrow>
     (case if_heap (mg_inflight (bk_mgr (sl_bk st))) p of None \<Rightarrow> st
      | Some req \<Rightarrow>
        (let st1 = (if event = SettleSig then snd (sl_inflight (\<lambda>f. ((), set_request p (req\<lparr>rq_settle_sig := Some []\<rparr>) f)) st) else st);
             st2 = await_verdict env event req rec st1;
             st3 = dropPending (rq_request_id req) st2
         in st3\<lparr>sl_tasks := remove_nth n (sl_tasks st3)\<rparr>)))"

section \<open>The reaper\<close>

definition reap_loads :: "Expiry list \<Rightarrow> Registry \<Rightarrow> Registry" where
  "reap_loads es r = fold (\<lambda>e r. if ex_prior_state e = StateAssigned \<and> ex_assigned_seeder e \<noteq> zero_id
     then snd (DecLoad (ex_assigned_seeder e) r) else r) es r"

definition runReap :: "reqid list \<Rightarrow> time \<Rightarrow> settle_state \<Rightarrow> settle_state" where
  "runReap order now st = (case SweepExpiredAndFail order now (bk_mgr (sl_bk st)) of (es, m) \<Rightarrow>
     sl_upd_bk (\<lambda>b. b\<lparr>bk_mgr := m, bk_reg := reap_loads es (bk_reg b)\<rparr>) st)"

end
