(* ===== verification/TB_Session_Spec.thy ===== *)
theory TB_Session_Spec
  imports TB_Session
begin

text \<open>
  What the session package promises: held credit is the sum of the slots, requests behind the two
  pointer maps behave as one map from request ids, a transition is a compare-and-swap, and the
  sweeps remove exactly what has expired.
\<close>

section \<open>Holds on credit\<close>

definition held_by :: "ident \<Rightarrow> Reservation \<Rightarrow> int" where
  "held_by c slot = (if rv_consumer_id slot = c then uint (rv_amount slot) else 0)"

text \<open>
  The contract of a book of holds: what is held for a consumer is the sum of that consumer's
  slots (in the machine's arithmetic), and a release removes one slot.
\<close>

locale hold_book =
  fixes inv :: "'s \<Rightarrow> bool" and slots :: "'s \<Rightarrow> reqid \<rightharpoonup> Reservation" and held :: "ident \<Rightarrow> 's \<Rightarrow> u64"
    and release :: "reqid \<Rightarrow> 's \<Rightarrow> 's"
  assumes slots_finite: "inv s \<Longrightarrow> finite (dom (slots s))"
    and held_sum: "inv s \<Longrightarrow> held c s = word_of_int (msum (held_by c) (slots s))"
    and release_inv: "inv s \<Longrightarrow> inv (release i s)"
    and release_slots: "inv s \<Longrightarrow> slots (release i s) = (slots s)(i := None)"
begin

lemma release_held:
  assumes "inv s"
  shows "held c (release i s) = held c s - (case slots s i of None \<Rightarrow> 0 | Some v \<Rightarrow> if rv_consumer_id v = c then rv_amount v else 0)"
proof -
  have "msum (held_by c) (slots (release i s)) = msum (held_by c) (slots s) - opt_val (held_by c) (slots s i)"
    using assms by (simp add: release_slots msum_del slots_finite)
  then have "held c (release i s) = held c s - word_of_int (opt_val (held_by c) (slots s i))"
    using assms by (simp add: held_sum release_inv)
  then show ?thesis by (auto simp: held_by_def split: option.splits)
qed

lemma release_idem: "inv s \<Longrightarrow> slots (release i (release i s)) = slots (release i s)"
  by (simp add: release_slots release_inv)

lemma held_exact:
  assumes "inv s" "msum (held_by c) (slots s) < 2 ^ 64"
  shows "uint (held c s) = msum (held_by c) (slots s)"
proof -
  have "0 \<le> msum (held_by c) (slots s)" by (rule msum_nonneg) (simp add: held_by_def)
  then show ?thesis using assms by (simp add: held_sum uint_word_of_int mod_pos_pos_trivial)
qed

lemma release_all:
  assumes "inv s" "dom (slots s) \<subseteq> set is"
  shows "held c (fold release is s) = 0"
proof -
  have "inv (fold release is s) \<and> slots (fold release is s) = slots s |` (- set is)"
    using assms(1) by (induction "is" arbitrary: s) (auto simp: release_inv release_slots restrict_map_def fun_eq_iff)
  moreover have "slots s |` (- set is) = Map.empty"
    using assms(2) by (auto simp: restrict_map_def fun_eq_iff dom_def)
  ultimately show ?thesis by (simp add: held_sum)
qed

end

definition res_inv :: "Reservations \<Rightarrow> bool" where
  "res_inv r \<longleftrightarrow> finite (dom (rs_byReq r)) \<and> (\<forall>i v. rs_byReq r i = Some v \<longrightarrow> rv_req_id v = i) \<and>
     (\<forall>c. Reserved c r = word_of_int (msum (held_by c) (rs_byReq r)))"

lemma res_inv_New: "res_inv NewReservations"
  by (simp add: res_inv_def NewReservations_def Reserved_def)

lemma Reserved_drop_slot:
  "Reserved c (drop_slot i slot r) = (if c = rv_consumer_id slot then Reserved c r - rv_amount slot else Reserved c r)"
  by (auto simp: Reserved_def drop_slot_def Let_def)

lemma byReq_drop_slot [simp]: "rs_byReq (drop_slot i slot r) = (rs_byReq r)(i := None)"
  by (simp add: drop_slot_def Let_def)

lemma drop_slot_inv [inv_rules]:
  assumes "res_inv r" "rs_byReq r i = Some slot"
  shows "res_inv (drop_slot i slot r)"
proof -
  have "Reserved c (drop_slot i slot r) = word_of_int (msum (held_by c) ((rs_byReq r)(i := None)))" for c
    using assms by (auto simp: Reserved_drop_slot msum_del res_inv_def held_by_def)
  then show ?thesis using assms by (auto simp: res_inv_def split: if_splits)
qed

lemma Release_inv [inv_rules]: "res_inv r \<Longrightarrow> res_inv (snd (Release i r))"
  by (auto simp: Release_def split: option.splits intro: drop_slot_inv)

lemma Reserve_inv [inv_rules]:
  assumes "res_inv r"
  shows "res_inv (snd (Reserve i c amount snap t r))"
proof (cases "fst (Reserve i c amount snap t r)")
  case None
  let ?v = "\<lparr>rv_req_id = i, rv_consumer_id = c, rv_amount = amount, rv_expires_at = t\<rparr>"
  from None have new: "rs_byReq r i = None" and
    r': "snd (Reserve i c amount snap t r) = \<lparr>rs_byID = (rs_byID r)(c \<mapsto> Reserved c r + amount), rs_byReq = (rs_byReq r)(i \<mapsto> ?v)\<rparr>"
    by (auto simp: Reserve_def split: if_splits)
  have "Reserved d (snd (Reserve i c amount snap t r)) = word_of_int (msum (held_by d) ((rs_byReq r)(i \<mapsto> ?v)))" for d
    using assms new unfolding r' by (auto simp: msum_upd res_inv_def held_by_def Reserved_def)
  then show ?thesis using assms unfolding r' by (auto simp: res_inv_def)
qed (auto simp: Reserve_def assms split: if_splits)

lemma slots_Release: "rs_byReq (snd (Release i r)) = (rs_byReq r)(i := None)"
  by (auto simp: Release_def fun_eq_iff split: option.splits)

interpretation book: hold_book res_inv rs_byReq Reserved "\<lambda>i r. snd (Release i r)"
  by unfold_locales (auto simp: slots_Release intro: Release_inv, auto simp: res_inv_def)

definition expired :: "time \<Rightarrow> Reservation \<Rightarrow> bool" where
  "expired now v \<longleftrightarrow> rv_expires_at v \<le> now"

definition live_slots :: "time \<Rightarrow> (reqid \<rightharpoonup> Reservation) \<Rightarrow> reqid \<rightharpoonup> Reservation" where
  "live_slots now m = (\<lambda>i. case m i of None \<Rightarrow> None | Some v \<Rightarrow> if expired now v then None else Some v)"

lemma fold_sweep_expired:
  assumes "fold (sweep_expired_one now) order (xs, r) = (ys, r')"
  shows "rs_byReq r' = (\<lambda>i. if i \<in> set order then live_slots now (rs_byReq r) i else rs_byReq r i) \<and>
    set ys = set xs \<union> {v. \<exists>i\<in>set order. rs_byReq r i = Some v \<and> expired now v} \<and> (res_inv r \<longrightarrow> res_inv r')"
  using assms
proof (induction order arbitrary: xs r)
  case (Cons i order)
  show ?case
  proof (cases "rs_byReq r i")
    case None
    then have "fold (sweep_expired_one now) order (xs, r) = (ys, r')"
      using Cons.prems by (simp add: sweep_expired_one_def [of now i])
    from Cons.IH [OF this] None show ?thesis by (auto simp: live_slots_def fun_eq_iff)
  next
    case (Some v)
    show ?thesis
    proof (cases "expired now v")
      case True
      then have "fold (sweep_expired_one now) order (xs @ [v], drop_slot i v r) = (ys, r')"
        using Cons.prems Some by (simp add: sweep_expired_one_def [of now i] expired_def)
      note ih = Cons.IH [OF this]
      have "rs_byReq r' = (\<lambda>j. if j \<in> set (i # order) then live_slots now (rs_byReq r) j else rs_byReq r j)"
        using ih Some True by (auto simp: live_slots_def fun_eq_iff)
      moreover have "set ys = set xs \<union> {w. \<exists>j\<in>set (i # order). rs_byReq r j = Some w \<and> expired now w}"
      proof -
        have "{w. \<exists>j\<in>set order. rs_byReq (drop_slot i v r) j = Some w \<and> expired now w} \<union> {v} =
            {w. \<exists>j\<in>set (i # order). rs_byReq r j = Some w \<and> expired now w}" 
          using Some True by (auto split: if_splits) (metis option.inject)
        moreover from ih have "set ys = set xs \<union> ({w. \<exists>j\<in>set order. rs_byReq (drop_slot i v r) j = Some w \<and> expired now w} \<union> {v})"
          by (simp del: byReq_drop_slot) blast?
        ultimately show ?thesis by simp
      qed
      ultimately show ?thesis using ih drop_slot_inv [OF _ Some] by auto
    next
      case False
      then have "fold (sweep_expired_one now) order (xs, r) = (ys, r')"
        using Cons.prems Some by (simp add: sweep_expired_one_def [of now i] expired_def)
      from Cons.IH [OF this] Some False show ?thesis by (auto simp: live_slots_def fun_eq_iff)
    qed
  qed
qed auto

lemma SweepExpired_spec:
  assumes "SweepExpired order now r = (ys, r')" "dom (rs_byReq r) \<subseteq> set order"
  shows "rs_byReq r' = live_slots now (rs_byReq r)" "set ys = {v. \<exists>i. rs_byReq r i = Some v \<and> expired now v}"
    "res_inv r \<Longrightarrow> res_inv r'"
  using fold_sweep_expired [OF assms(1) [unfolded SweepExpired_def]] assms(2)
  by (auto simp: live_slots_def fun_eq_iff dom_def split: option.splits)

section \<open>Requests behind pointers\<close>

definition inflight_inv :: "Inflight \<Rightarrow> bool" where
  "inflight_inv f \<longleftrightarrow> finite (dom (if_byID f)) \<and> (\<forall>p r. if_heap f p = Some r \<longrightarrow> p < if_next f) \<and>
     (\<forall>i p. if_byID f i = Some p \<longrightarrow> (\<exists>r. if_heap f p = Some r \<and> rq_request_id r = i)) \<and>
     (\<forall>h p. if_byHash f h = Some p \<longrightarrow> (\<exists>r. if_heap f p = Some r))"

text \<open>The requests as a map from request ids: what the methods promise.\<close>

definition requests :: "Inflight \<Rightarrow> reqid \<rightharpoonup> Request" where
  "requests f i = (case if_byID f i of None \<Rightarrow> None | Some p \<Rightarrow> if_heap f p)"

lemma requests_Get: "requests f i = map_option snd (Inflight_Get i f)"
  by (auto simp: requests_def Inflight_Get_def split: option.splits)

lemma requests_Some: "requests f i = Some r \<longleftrightarrow> (\<exists>p. Inflight_Get i f = Some (p, r))"
  by (auto simp: requests_Get)

lemma Inflight_Get_Some: "Inflight_Get i f = Some (p, r) \<longleftrightarrow> if_byID f i = Some p \<and> if_heap f p = Some r"
  by (auto simp: Inflight_Get_def split: option.splits)

lemma set_request_requests:
  assumes "inflight_inv f" "Inflight_Get i f = Some (p, r)" "rq_request_id r' = i"
  shows "requests (set_request p r' f) = (requests f)(i \<mapsto> r')" "inflight_inv (set_request p r' f)"
proof -
  have g: "if_byID f i = Some p" "if_heap f p = Some r" using assms(2) by (auto simp: Inflight_Get_Some)
  have at: "\<exists>x. if_heap f q = Some x \<and> rq_request_id x = j" if "if_byID f j = Some q" for j q
    using assms(1) that by (simp add: inflight_inv_def)
  have inj: "if_byID f j = Some p \<Longrightarrow> j = i" for j using at [of j p] at [OF g(1)] by auto
  show "requests (set_request p r' f) = (requests f)(i \<mapsto> r')"
  proof
    fix j
    show "requests (set_request p r' f) j = ((requests f)(i \<mapsto> r')) j"
      using g inj [of j] by (cases "if_byID f j") (auto simp: requests_def set_request_def)
  qed
  show "inflight_inv (set_request p r' f)"
    unfolding inflight_inv_def
  proof (intro conjI allI impI)
    fix j q assume "if_byID (set_request p r' f) j = Some q"
    then show "\<exists>x. if_heap (set_request p r' f) q = Some x \<and> rq_request_id x = j"
      using assms(1,3) inj [of j] by (cases "q = p") (auto simp: inflight_inv_def set_request_def)
  qed (use assms(1) g in \<open>auto simp: inflight_inv_def set_request_def split: if_splits\<close>)
qed

lemma requests_id: "inflight_inv f \<Longrightarrow> requests f i = Some r \<Longrightarrow> rq_request_id r = i"
  by (fastforce simp: requests_Some Inflight_Get_Some inflight_inv_def)

lemma Insert_spec:
  assumes "inflight_inv f" "Insert r f = (p, f')"
  shows "requests f' = (requests f)(rq_request_id r \<mapsto> r)" "inflight_inv f'" "if_heap f' p = Some r"
proof -
  have fresh: "if_heap f (if_next f) = None" using assms(1) by (cases "if_heap f (if_next f)") (auto simp: inflight_inv_def)
  have old: "if_byID f j = Some q \<Longrightarrow> q \<noteq> if_next f" for j q using assms(1) fresh by (force simp: inflight_inv_def)
  show "requests f' = (requests f)(rq_request_id r \<mapsto> r)"
  proof
    fix j
    show "requests f' j = ((requests f)(rq_request_id r \<mapsto> r)) j"
      using assms(2) old [of j] by (cases "if_byID f j") (auto simp: Insert_def requests_def)
  qed
  show "inflight_inv f'" using assms fresh by (auto dest: old simp: Insert_def inflight_inv_def less_Suc_eq split: if_split_asm)
  show "if_heap f' p = Some r" using assms(2) by (auto simp: Insert_def)
qed

text \<open>Each method as an update of the abstract map.\<close>

definition set_state :: "State \<Rightarrow> time \<Rightarrow> Request \<Rightarrow> Request" where
  "set_state to now r = (if terminal to then r\<lparr>rq_state := to, rq_terminated_at := now\<rparr> else r\<lparr>rq_state := to\<rparr>)"

lemma Transition_spec:
  assumes "inflight_inv f"
  shows "inflight_inv (snd (Transition i from to now f))"
    and "requests f i = None \<Longrightarrow> Transition i from to now f = (Some ErrUnknownRequest, f)"
    and "requests f i = Some r \<Longrightarrow> rq_state r \<noteq> from \<Longrightarrow> Transition i from to now f = (Some ErrIllegalTransition, f)"
    and "requests f i = Some r \<Longrightarrow> rq_state r = from \<Longrightarrow> fst (Transition i from to now f) = None \<and>
      requests (snd (Transition i from to now f)) = (requests f)(i \<mapsto> set_state to now r)"
proof -
  have id: "Inflight_Get i f = Some (p, r) \<Longrightarrow> rq_request_id r = i" for p r
    using requests_id [OF assms] by (auto simp: requests_Some)
  note upd = set_request_requests [OF assms]
  show "inflight_inv (snd (Transition i from to now f))"
    using assms by (auto simp: Transition_def id split: option.splits intro!: upd(2))
  show "requests f i = None \<Longrightarrow> Transition i from to now f = (Some ErrUnknownRequest, f)"
    by (simp add: requests_Get Transition_def)
  show "requests f i = Some r \<Longrightarrow> rq_state r \<noteq> from \<Longrightarrow> Transition i from to now f = (Some ErrIllegalTransition, f)"
    by (auto simp: requests_Some Transition_def)
  show "requests f i = Some r \<Longrightarrow> rq_state r = from \<Longrightarrow> fst (Transition i from to now f) = None \<and>
      requests (snd (Transition i from to now f)) = (requests f)(i \<mapsto> set_state to now r)"
    by (auto simp: requests_Some Transition_def set_state_def terminal_def id upd(1))
qed

lemma MarkSeeder_spec:
  assumes "inflight_inv f"
  shows "inflight_inv (snd (MarkSeeder i s pub f))"
    and "requests (snd (MarkSeeder i s pub f)) =
      (requests f)(i := map_option (\<lambda>r. r\<lparr>rq_assigned_seeder := s, rq_seeder_pubkey := pub\<rparr>) (requests f i))"
proof -
  have id: "Inflight_Get i f = Some (p, r) \<Longrightarrow> rq_request_id r = i" for p r
    using requests_id [OF assms] by (auto simp: requests_Some)
  note upd = set_request_requests [OF assms]
  show "inflight_inv (snd (MarkSeeder i s pub f))"
    using assms by (auto simp: MarkSeeder_def id split: option.splits intro!: upd(2))
  show "requests (snd (MarkSeeder i s pub f)) =
      (requests f)(i := map_option (\<lambda>r. r\<lparr>rq_assigned_seeder := s, rq_seeder_pubkey := pub\<rparr>) (requests f i))"
    by (cases "Inflight_Get i f") (auto simp: MarkSeeder_def requests_Get [of f i] fun_upd_idem id upd(1))
qed

lemma EnsureSettleSig_spec:
  assumes "inflight_inv f"
  shows "inflight_inv (snd (EnsureSettleSig i f))"
    and "requests (snd (EnsureSettleSig i f)) = (requests f)(i := map_option (\<lambda>r. r\<lparr>rq_settle_sig :=
      (case rq_settle_sig r of None \<Rightarrow> Some [] | Some q \<Rightarrow> Some q)\<rparr>) (requests f i))"
proof -
  have id: "Inflight_Get i f = Some (p, r) \<Longrightarrow> rq_request_id r = i" for p r
    using requests_id [OF assms] by (auto simp: requests_Some)
  note upd = set_request_requests [OF assms]
  show "inflight_inv (snd (EnsureSettleSig i f))"
    using assms by (auto simp: EnsureSettleSig_def id split: option.splits intro!: upd(2))
  show "requests (snd (EnsureSettleSig i f)) = (requests f)(i := map_option (\<lambda>r. r\<lparr>rq_settle_sig :=
      (case rq_settle_sig r of None \<Rightarrow> Some [] | Some q \<Rightarrow> Some q)\<rparr>) (requests f i))"
    by (cases "Inflight_Get i f") (auto simp: EnsureSettleSig_def requests_Get [of f i] fun_upd_idem id upd(1))
qed

lemma IndexByHash_spec:
  assumes "inflight_inv f"
  shows "inflight_inv (snd (IndexByHash i h f))"
    and "requests (snd (IndexByHash i h f)) = (requests f)(i := map_option (\<lambda>r. r\<lparr>rq_preimage_hash := h\<rparr>) (requests f i))"
proof -
  have id: "Inflight_Get i f = Some (p, r) \<Longrightarrow> rq_request_id r = i" for p r
    using requests_id [OF assms] by (auto simp: requests_Some)
  note upd = set_request_requests [OF assms]
  have byHash: "requests (g\<lparr>if_byHash := m\<rparr>) = requests g" for g m
    by (auto simp: requests_def fun_eq_iff split: option.splits)
  have inv: "inflight_inv (g\<lparr>if_byHash := (if_byHash f)(h \<mapsto> p)\<rparr>)"
    if "inflight_inv g" "if_heap g p = Some r" "if_byHash g = if_byHash f" for g p r
    using that by (auto simp: inflight_inv_def)
  show "inflight_inv (snd (IndexByHash i h f))"
    using assms by (auto simp: IndexByHash_def id split: option.splits intro!: inv upd(2)) (auto simp: set_request_def)
  show "requests (snd (IndexByHash i h f)) = (requests f)(i := map_option (\<lambda>r. r\<lparr>rq_preimage_hash := h\<rparr>) (requests f i))"
    by (cases "Inflight_Get i f") (auto simp: IndexByHash_def requests_Get [of f i] byHash fun_upd_idem id upd(1))
qed

lemma ForceFail_spec:
  assumes "inflight_inv f"
  shows "inflight_inv (snd (ForceFail i now f))"
    and "requests (snd (ForceFail i now f)) = (requests f)(i := map_option (\<lambda>r. r\<lparr>rq_state := StateFailed,
      rq_terminated_at := (if rq_terminated_at r = zero_time then now else rq_terminated_at r)\<rparr>) (requests f i))"
proof -
  have id: "Inflight_Get i f = Some (p, r) \<Longrightarrow> rq_request_id r = i" for p r
    using requests_id [OF assms] by (auto simp: requests_Some)
  note upd = set_request_requests [OF assms]
  show "inflight_inv (snd (ForceFail i now f))"
    using assms by (auto simp: ForceFail_def id split: option.splits intro!: upd(2))
  show "requests (snd (ForceFail i now f)) = (requests f)(i := map_option (\<lambda>r. r\<lparr>rq_state := StateFailed,
      rq_terminated_at := (if rq_terminated_at r = zero_time then now else rq_terminated_at r)\<rparr>) (requests f i))"
    by (cases "Inflight_Get i f") (auto simp: ForceFail_def requests_Get [of f i] fun_upd_idem id upd(1))
qed

section \<open>Sweeps\<close>

definition fail_if_open :: "time \<Rightarrow> Request \<Rightarrow> Request" where
  "fail_if_open now r = (if rq_state r = StateSelecting \<or> rq_state r = StateAssigned then set_state StateFailed now r else r)"

lemma set_state_sel [simp]: "rq_state (set_state st now r) = st" "rq_request_id (set_state st now r) = rq_request_id r"
  "rq_assigned_seeder (set_state st now r) = rq_assigned_seeder r" "rq_consumer_id (set_state st now r) = rq_consumer_id r"
  by (simp_all add: set_state_def)

lemma fail_if_open_idem [simp]: "fail_if_open now (fail_if_open now r) = fail_if_open now r"
  by (simp add: fail_if_open_def)

lemma expire_slot_spec:
  assumes "inflight_inv f" "expire_slot now slot f = (e, f')"
  shows "inflight_inv f'"
    "requests f' = (requests f)(rv_req_id slot := map_option (fail_if_open now) (requests f (rv_req_id slot)))"
    "ex_req_id e = rv_req_id slot"
    "ex_prior_state e = StateAssigned \<longleftrightarrow> (\<exists>r. requests f (rv_req_id slot) = Some r \<and> rq_state r = StateAssigned)"
    "ex_prior_state e = StateAssigned \<Longrightarrow> \<exists>r. requests f (rv_req_id slot) = Some r \<and> ex_assigned_seeder e = rq_assigned_seeder r"
proof -
  let ?i = "rv_req_id slot"
  note T = Transition_spec [OF assms(1)]
  show "inflight_inv f'" using assms T(1)
    by (auto simp: expire_slot_def Let_def split: option.splits if_splits)
  show "requests f' = (requests f)(?i := map_option (fail_if_open now) (requests f ?i))"
  proof (cases "Inflight_Get ?i f")
    case None
    then show ?thesis using assms(2) by (auto simp: expire_slot_def Let_def requests_Get fun_eq_iff)
  next
    case (Some pr)
    then obtain p r where g: "Inflight_Get ?i f = Some (p, r)" by (cases pr) auto
    then have r: "requests f ?i = Some r" by (simp add: requests_Get)
    show ?thesis using assms(2) g r T(4) [OF r]
      by (auto simp: expire_slot_def Let_def fail_if_open_def fun_upd_idem split: if_splits)
  qed
qed (use assms(2) in \<open>auto simp: expire_slot_def Let_def requests_Get split: option.splits if_splits\<close>)

lemma expire_slots_spec:
  assumes "inflight_inv f" "expire_slots now slots f = (es, f')"
  shows "inflight_inv f' \<and> map ex_req_id es = map rv_req_id slots \<and>
    requests f' = (\<lambda>i. if i \<in> rv_req_id ` set slots then map_option (fail_if_open now) (requests f i) else requests f i)"
  using assms
proof (induction slots arbitrary: f es)
  case (Cons slot slots)
  obtain e f1 where 1: "expire_slot now slot f = (e, f1)" by force
  obtain es2 f2 where 2: "expire_slots now slots f1 = (es2, f2)" by force
  have fin: "es = e # es2" "f' = f2" using Cons.prems(2) 1 2 by auto
  note one = expire_slot_spec [OF Cons.prems(1) 1]
  note rest = Cons.IH [OF one(1) 2 [folded fin(2)]]
  show ?case using one rest fin by (auto simp: fun_eq_iff map_option.compositionality comp_def)
qed auto

lemma SweepExpiredAndFail_spec:
  assumes "inflight_inv (mg_inflight m)" "res_inv (mg_reservations m)" "dom (rs_byReq (mg_reservations m)) \<subseteq> set order"
    "SweepExpiredAndFail order now m = (es, m')"
  shows "inflight_inv (mg_inflight m')" "res_inv (mg_reservations m')"
    "rs_byReq (mg_reservations m') = live_slots now (rs_byReq (mg_reservations m))"
    "requests (mg_inflight m') = (\<lambda>i. case rs_byReq (mg_reservations m) i of
       Some v \<Rightarrow> if expired now v then map_option (fail_if_open now) (requests (mg_inflight m) i) else requests (mg_inflight m) i
     | None \<Rightarrow> requests (mg_inflight m) i)"
proof -
  obtain ys rs where s: "SweepExpired order now (mg_reservations m) = (ys, rs)" by force
  obtain es' f' where x: "expire_slots now ys (mg_inflight m) = (es', f')" by force
  have m': "mg_inflight m' = f'" "mg_reservations m' = rs"
    using assms(4) s x by (auto simp: SweepExpiredAndFail_def)
  note S = SweepExpired_spec [OF s assms(3)] and E = expire_slots_spec [OF assms(1) x]
  show "inflight_inv (mg_inflight m')" "res_inv (mg_reservations m')"
    "rs_byReq (mg_reservations m') = live_slots now (rs_byReq (mg_reservations m))"
    using S E assms(2) m' by simp_all
  have "i \<in> rv_req_id ` set ys \<longleftrightarrow> (\<exists>v. rs_byReq (mg_reservations m) i = Some v \<and> expired now v)" for i
    using S(2) assms(2) by (auto simp: res_inv_def image_iff)
  then show "requests (mg_inflight m') = (\<lambda>i. case rs_byReq (mg_reservations m) i of
       Some v \<Rightarrow> if expired now v then map_option (fail_if_open now) (requests (mg_inflight m) i) else requests (mg_inflight m) i
     | None \<Rightarrow> requests (mg_inflight m) i)"
    using E m' by (auto simp: fun_eq_iff split: option.splits)
qed

definition stale :: "time \<Rightarrow> Request \<Rightarrow> bool" where
  "stale cutoff r \<longleftrightarrow> terminal (rq_state r) \<and> rq_terminated_at r \<le> cutoff"

lemma sweep_terminal_one_spec:
  assumes "inflight_inv f" "sweep_terminal_one cutoff i (xs, f) = (ys, f')"
  shows "inflight_inv f' \<and> if_heap f' = if_heap f \<and>
    requests f' = (requests f)(i := (case requests f i of None \<Rightarrow> None | Some r \<Rightarrow> if stale cutoff r then None else Some r))"
proof (cases "Inflight_Get i f")
  case None
  then show ?thesis using assms by (auto simp: sweep_terminal_one_def requests_Get fun_eq_iff)
next
  case (Some pr)
  then obtain p r where g: "Inflight_Get i f = Some (p, r)" by (cases pr) auto
  then have r: "requests f i = Some r" by (simp add: requests_Get)
  show ?thesis
  proof (cases "stale cutoff r")
    case True
    then have f': "f' = f\<lparr>if_byID := (if_byID f)(i := None), if_byHash :=
        (if rq_preimage_hash r \<noteq> zero_id then (if_byHash f)(rq_preimage_hash r := None) else if_byHash f)\<rparr>"
      using assms(2) g by (auto simp: sweep_terminal_one_def stale_def terminal_def)
    have "inflight_inv f'" using assms(1) unfolding f' by (auto simp: inflight_inv_def split: if_split_asm)
    moreover have "requests f' = (requests f)(i := None)" unfolding f' by (auto simp: requests_def fun_eq_iff split: option.splits)
    ultimately show ?thesis using r True by (simp add: f')
  next
    case False
    then have "f' = f" using assms(2) g by (auto simp: sweep_terminal_one_def stale_def terminal_def split: if_splits)
    then show ?thesis using r False assms(1) by (simp add: fun_upd_idem)
  qed
qed

lemma SweepTerminal_spec:
  assumes "inflight_inv f" "fold (sweep_terminal_one cutoff) order (xs, f) = (ys, f')"
  shows "inflight_inv f' \<and> requests f' = (\<lambda>i. if i \<in> set order
    then (case requests f i of None \<Rightarrow> None | Some r \<Rightarrow> if stale cutoff r then None else Some r) else requests f i)"
  using assms
proof (induction order arbitrary: xs f)
  case (Cons i order)
  obtain zs f1 where 1: "sweep_terminal_one cutoff i (xs, f) = (zs, f1)" by force
  note one = sweep_terminal_one_spec [OF Cons.prems(1) 1]
  have rest: "fold (sweep_terminal_one cutoff) order (zs, f1) = (ys, f')" using Cons.prems(2) 1 by simp
  from Cons.IH [OF conjunct1 [OF one] rest] one show ?case by (auto simp: fun_eq_iff split: option.splits)
qed auto

section \<open>Properties\<close>

inductive res_step :: "Reservations \<Rightarrow> Reservations \<Rightarrow> bool" where
  res_reserve: "Reserve i c amount snap t r = (err, r') \<Longrightarrow> res_step r r'"
| res_release: "Release i r = (out, r') \<Longrightarrow> res_step r r'"
| res_sweep: "SweepExpired order now r = (out, r') \<Longrightarrow> res_step r r'"

interpretation holds: invariant_system NewReservations res_step res_inv
proof
  show "res_inv NewReservations" by (rule res_inv_New)
  show "res_step r r' \<Longrightarrow> res_inv r \<Longrightarrow> res_inv r'" for r r'
  proof (induction rule: res_step.induct)
    case (res_reserve i c amount snap t r err r')
    then show ?case using Reserve_inv [of r i c amount snap t] by simp
  next
    case (res_release i r out r')
    then show ?case using Release_inv [of r i] by simp
  next
    case (res_sweep order now r out r')
    then show ?case using fold_sweep_expired [of now order "[]" r out r'] by (simp add: SweepExpired_def)
  qed
qed

text \<open>
  C14. After any run of reserve, release and expiry sweeps the reserved total of a consumer
  equals the sum of its open slots modulo 2 to the 64, and exactly that sum while it fits in a
  uint64.
\<close>

theorem reserved_is_sum_of_slots:
  assumes "res_step\<^sup>*\<^sup>* NewReservations r"
  shows "Reserved c r = word_of_int (msum (held_by c) (rs_byReq r)) \<and>
    (msum (held_by c) (rs_byReq r) < 2 ^ 64 \<longrightarrow> uint (Reserved c r) = msum (held_by c) (rs_byReq r))"
  using book.held_sum [OF holds.reach_inv [OF assms], of c] book.held_exact [OF holds.reach_inv [OF assms], of c] by blast

definition demo_res :: Reservations where
  "demo_res = snd (Reserve (replicate 16 1) (replicate 32 1) 10 100 0 NewReservations)"

lemma demo_res_reach: "res_step\<^sup>*\<^sup>* NewReservations demo_res"
proof -
  have "res_step NewReservations demo_res" unfolding demo_res_def by (rule res_reserve) (rule prod.collapse [symmetric])
  then show ?thesis by blast
qed

theorem reserved_is_sum_of_slots_witness:
  "Reserved (replicate 32 1) demo_res = 10 \<and> (10 :: u64) = word_of_int (msum (held_by (replicate 32 1)) (rs_byReq demo_res))"
  using conjunct1 [OF reserved_is_sum_of_slots [OF demo_res_reach, of "replicate 32 1"]]
  by (simp add: demo_res_def Reserve_def NewReservations_def Reserved_def)

text \<open>
  While the sum of a consumer's reservations fits in a uint64, an accepted reservation never
  takes its open reservations above the credit snapshot it was checked against.
\<close>

theorem reserve_no_overcommit:
  assumes "res_inv r" "Reserve i c amount snap t r = (None, r')"
    "msum (held_by c) (rs_byReq r) + uint amount < 2 ^ 64"
  shows "msum (held_by c) (rs_byReq r') = msum (held_by c) (rs_byReq r) + uint amount \<and>
    msum (held_by c) (rs_byReq r') \<le> uint snap"
proof -
  have nn: "0 \<le> msum (held_by c) (rs_byReq r)" by (rule msum_nonneg) (simp add: held_by_def)
  have slots: "rs_byReq r i = None" "rs_byReq r' = (rs_byReq r)(i \<mapsto> \<lparr>rv_req_id = i, rv_consumer_id = c, rv_amount = amount, rv_expires_at = t\<rparr>)"
    and le: "Reserved c r + amount \<le> snap"
    using assms(2) by (auto simp: Reserve_def not_less split: if_splits)
  have sum: "msum (held_by c) (rs_byReq r') = msum (held_by c) (rs_byReq r) + uint amount"
    using assms(1) slots by (simp add: msum_upd res_inv_def held_by_def)
  have "Reserved c r + amount = word_of_int (msum (held_by c) (rs_byReq r) + uint amount)"
    using book.held_sum [OF assms(1)] by simp
  then have "uint (Reserved c r + amount) = msum (held_by c) (rs_byReq r) + uint amount"
    using nn assms(3) uint_ge_0 [of amount] by (simp add: uint_word_of_int mod_pos_pos_trivial del: of_int_add)
  then show ?thesis using le sum by (simp add: word_le_def)
qed

theorem reserve_no_overcommit_witness:
  "msum (held_by (replicate 32 1)) (rs_byReq (snd (Reserve (replicate 16 2) (replicate 32 1) 20 100 0 demo_res))) \<le> 100"
proof -
  have s: "rs_byReq demo_res = [replicate 16 1 \<mapsto> \<lparr>rv_req_id = replicate 16 1, rv_consumer_id = replicate 32 1, rv_amount = 10, rv_expires_at = 0\<rparr>]"
    by (simp add: demo_res_def Reserve_def NewReservations_def Reserved_def)
  then have m: "msum (held_by (replicate 32 1)) (rs_byReq demo_res) = 10"
    by (simp add: msum_upd held_by_def)
  have R: "Reserve (replicate 16 2) (replicate 32 1) 20 100 0 demo_res =
      (None, snd (Reserve (replicate 16 2) (replicate 32 1) 20 100 0 demo_res))"
    by (simp add: Reserve_def demo_res_def NewReservations_def Reserved_def)
  show ?thesis using reserve_no_overcommit [OF holds.reach_inv [OF demo_res_reach] R] m by simp
qed

text \<open>
  The addition in Reserve wraps: with 10 credits held, a reservation of 2 to the 64 minus 5 is
  accepted against a balance of 100 and the reserved total becomes 5.
\<close>

theorem reserve_wraps:
  "fst (Reserve (replicate 16 2) (replicate 32 1) (- 5) 100 0 demo_res) = None \<and>
   uint (- 5 :: u64) > 100 \<and>
   Reserved (replicate 32 1) (snd (Reserve (replicate 16 2) (replicate 32 1) (- 5) 100 0 demo_res)) = 5"
  by (simp add: Reserve_def demo_res_def NewReservations_def Reserved_def)

text \<open>
  Releasing a reservation restores the book.
\<close>

lemma reserve_release_roundtrip:
  assumes "Reserve i c amount snap t r = (None, r')"
  shows "fst (Release i r') = (c, amount, True) \<and> rs_byReq (snd (Release i r')) = rs_byReq r \<and>
    (\<forall>d. Reserved d (snd (Release i r')) = Reserved d r)"
  using assms
  by (auto simp: Reserve_def Release_def Reserved_drop_slot fun_upd_idem split: if_splits) (auto simp: Reserved_def)

definition demo_request :: Request where
  "demo_request = \<lparr>rq_request_id = replicate 16 1, rq_consumer_id = replicate 32 1, rq_envelope_body = None,
     rq_envelope_hash = zeros 32, rq_max_cost_reserved = 10, rq_assigned_seeder = zero_id, rq_seeder_pubkey = [],
     rq_offer_attempts = [], rq_started_at = 0, rq_state = StateSelecting, rq_preimage_hash = zeros 32,
     rq_settle_sig = None, rq_terminated_at = zero_time\<rparr>"

definition demo_inflight :: Inflight where
  "demo_inflight = snd (Insert demo_request NewInflight)"

lemma inflight_inv_New: "inflight_inv NewInflight"
  by (simp add: inflight_inv_def NewInflight_def)

lemma demo_inflight_ok: "inflight_inv demo_inflight" "requests demo_inflight = [replicate 16 1 \<mapsto> demo_request]"
proof -
  obtain p where I: "Insert demo_request NewInflight = (p, demo_inflight)" by (simp add: demo_inflight_def Insert_def)
  have "requests NewInflight = Map.empty" by (simp add: requests_def NewInflight_def fun_eq_iff)
  then show "requests demo_inflight = [replicate 16 1 \<mapsto> demo_request]"
    using Insert_spec(1) [OF inflight_inv_New I] by (simp add: demo_request_def)
  show "inflight_inv demo_inflight" by (rule Insert_spec(2) [OF inflight_inv_New I])
qed

text \<open>
  One expiry sweep removes exactly the expired reservations and fails exactly their requests
  that were still selecting or assigned, whatever order the map iteration uses, and keeps both
  invariants.
\<close>

theorem expiry_sweep_fails_open_requests:
  assumes "inflight_inv (mg_inflight m)" "res_inv (mg_reservations m)" "dom (rs_byReq (mg_reservations m)) \<subseteq> set order"
    "SweepExpiredAndFail order now m = (es, m')"
  shows "inflight_inv (mg_inflight m') \<and> res_inv (mg_reservations m') \<and>
    rs_byReq (mg_reservations m') = live_slots now (rs_byReq (mg_reservations m)) \<and>
    requests (mg_inflight m') = (\<lambda>i. case rs_byReq (mg_reservations m) i of
       Some v \<Rightarrow> if expired now v then map_option (fail_if_open now) (requests (mg_inflight m) i) else requests (mg_inflight m) i
     | None \<Rightarrow> requests (mg_inflight m) i)"
  using SweepExpiredAndFail_spec [OF assms] by simp

theorem expiry_sweep_fails_open_requests_witness:
  "map_option rq_state (requests (mg_inflight (snd (SweepExpiredAndFail [replicate 16 1] 5
     \<lparr>mg_inflight = demo_inflight, mg_reservations = demo_res\<rparr>))) (replicate 16 1)) = Some StateFailed"
proof -
  let ?m = "\<lparr>mg_inflight = demo_inflight, mg_reservations = demo_res\<rparr>"
  obtain es m' where S: "SweepExpiredAndFail [replicate 16 1] 5 ?m = (es, m')" by force
  have slot: "rs_byReq demo_res = [replicate 16 1 \<mapsto> \<lparr>rv_req_id = replicate 16 1, rv_consumer_id = replicate 32 1, rv_amount = 10, rv_expires_at = 0\<rparr>]"
    by (simp add: demo_res_def Reserve_def NewReservations_def Reserved_def)
  have "requests (mg_inflight m') (replicate 16 1) = map_option (fail_if_open 5) (requests demo_inflight (replicate 16 1))"
    using expiry_sweep_fails_open_requests [of ?m "[replicate 16 1]" 5 es m'] S demo_inflight_ok(1)
      holds.reach_inv [OF demo_res_reach] by (simp add: slot expired_def)
  then show ?thesis using S demo_inflight_ok(2) by (simp add: fail_if_open_def demo_request_def)
qed

text \<open>
  A transition that succeeds found the request in the expected state and changed only that
  request; a second transition from the same expected state is refused.
\<close>

lemma transition_is_cas:
  assumes "inflight_inv f" "from \<noteq> to" "fst (Transition i from to now f) = None"
  shows "inflight_inv (snd (Transition i from to now f)) \<and>
    (\<exists>r. requests f i = Some r \<and> rq_state r = from \<and>
      requests (snd (Transition i from to now f)) = (requests f)(i \<mapsto> set_state to now r)) \<and>
    Transition i from to' now' (snd (Transition i from to now f)) = (Some ErrIllegalTransition, snd (Transition i from to now f))"
proof -
  note T = Transition_spec [OF assms(1)]
  obtain r where r: "requests f i = Some r" "rq_state r = from"
    using T(2,3) [of i] assms(3) by (cases "requests f i") force+
  have upd: "requests (snd (Transition i from to now f)) = (requests f)(i \<mapsto> set_state to now r)" using T(4) [OF r] by simp
  have inv: "inflight_inv (snd (Transition i from to now f))" by (rule T(1))
  have "Transition i from to' now' (snd (Transition i from to now f)) = (Some ErrIllegalTransition, snd (Transition i from to now f))"
    by (rule Transition_spec(3) [OF inv, of i "set_state to now r"]) (simp_all add: upd assms(2) [symmetric])
  then show ?thesis using inv r upd by blast
qed

lemma transition_is_cas_witness:
  "fst (Transition (replicate 16 1) StateSelecting StateAssigned 7 demo_inflight) = None \<and>
   fst (Transition (replicate 16 1) StateSelecting StateFailed 8
     (snd (Transition (replicate 16 1) StateSelecting StateAssigned 7 demo_inflight))) = Some ErrIllegalTransition"
proof -
  have "fst (Transition (replicate 16 1) StateSelecting StateAssigned 7 demo_inflight) = None"
    using Transition_spec(4) [OF demo_inflight_ok(1), of "replicate 16 1" demo_request] demo_inflight_ok(2)
    by (simp add: demo_request_def)
  from transition_is_cas [OF demo_inflight_ok(1) _ this] this show ?thesis by simp
qed

text \<open>
  The terminal sweep drops exactly the terminal requests older than the retention time.
\<close>

lemma terminal_sweep_keeps_open:
  assumes "inflight_inv f" "SweepTerminal order now ttl f = (swept, f')" "dom (requests f) \<subseteq> set order"
  shows "inflight_inv f' \<and> requests f' = (\<lambda>i. case requests f i of None \<Rightarrow> None
    | Some r \<Rightarrow> if terminal (rq_state r) \<and> rq_terminated_at r \<le> now - ttl then None else Some r)"
  using SweepTerminal_spec [OF assms(1) assms(2) [unfolded SweepTerminal_def]] assms(3)
  by (auto simp: fun_eq_iff dom_def stale_def split: option.splits)

end
