(* ===== verification/TB_Registry_Spec.thy ===== *)
theory TB_Registry_Spec
  imports TB_Registry
begin

text \<open>
  What the registry promises: the sharded store is one map from identities to records, the load
  counters go up and down by one and never below zero, \<open>Match\<close> returns exactly the records that
  satisfy the filter and \<open>Sweep\<close> removes exactly the stale ones.
\<close>

section \<open>Load counters\<close>

text \<open>
  What the broker relies on: a counter per known seeder that goes up by one, and down by one but
  never below zero.
\<close>

locale load_counter =
  fixes inv :: "'s \<Rightarrow> bool" and load :: "'s \<Rightarrow> ident \<rightharpoonup> int"
    and inc :: "ident \<Rightarrow> 's \<Rightarrow> ('e + int) \<times> 's" and dec :: "ident \<Rightarrow> 's \<Rightarrow> ('e + int) \<times> 's"
  assumes inc_inv: "inv s \<Longrightarrow> inv (snd (inc i s))" and dec_inv: "inv s \<Longrightarrow> inv (snd (dec i s))"
    and inc_unknown: "inv s \<Longrightarrow> load s i = None \<Longrightarrow> isl (fst (inc i s)) \<and> load (snd (inc i s)) = load s"
    and inc_known: "inv s \<Longrightarrow> load s i = Some n \<Longrightarrow> n < 2 ^ 63 - 1 \<Longrightarrow> 0 \<le> n \<Longrightarrow>
      fst (inc i s) = Inr (n + 1) \<and> load (snd (inc i s)) = (load s)(i \<mapsto> n + 1)"
    and dec_load: "inv s \<Longrightarrow> load (snd (dec i s)) = (load s)(i := (case load s i of None \<Rightarrow> None
      | Some n \<Rightarrow> Some (if n \<le> 0 then n else i64_add n (- 1))))"
begin

lemma inc_dec:
  assumes "inv s" "load s i = Some n" "0 \<le> n" "n < 2 ^ 63 - 1"
  shows "load (snd (dec i (snd (inc i s)))) = load s"
proof -
  have up: "load (snd (inc i s)) = (load s)(i \<mapsto> n + 1)" using inc_known [OF assms(1,2,4,3)] by simp
  have "i64_add (n + 1) (- 1) = n" using assms(3,4) by (simp add: i64_add_def i64_wrap_id is_i64_def)
  then show ?thesis using dec_load [OF inc_inv [OF assms(1)], of i i] up assms(2,3)
    by (auto simp: fun_upd_idem)
qed

lemma dec_nonneg:
  assumes "inv s" "load s j = Some n" "0 \<le> n" "n < 2 ^ 63"
  shows "\<exists>m. load (snd (dec i s)) j = Some m \<and> 0 \<le> m \<and> m \<le> n"
proof (cases "i = j")
  case True
  then show ?thesis using assms dec_load [OF assms(1), of i] by (auto simp: i64_add_def i64_wrap_id is_i64_def)
next
  case False
  then show ?thesis using assms dec_load [OF assms(1), of i] by auto
qed

end

definition loads :: "Registry \<Rightarrow> ident \<rightharpoonup> int" where
  "loads r i = map_option sr_load (seeders r i)"

lemma load_result_snd [simp]: "snd (load_result i res) = snd res"
  by (cases res) (auto simp: load_result_def split: option.splits)

lemma IncLoad_spec:
  assumes "reg_inv r"
  shows "reg_inv (snd (IncLoad i r))"
    "seeders r i = None \<Longrightarrow> fst (IncLoad i r) = Inl ErrUnknownSeeder \<and> seeders (snd (IncLoad i r)) = seeders r"
    "seeders r i = Some rec \<Longrightarrow> fst (IncLoad i r) = Inr (i64_add (sr_load rec) 1) \<and>
      seeders (snd (IncLoad i r)) = (seeders r)(i \<mapsto> rec\<lparr>sr_load := i64_add (sr_load rec) 1\<rparr>)"
proof -
  let ?fn = "\<lambda>rec :: SeederRecord. Inr (rec\<lparr>sr_load := i64_add (sr_load rec) 1\<rparr>) :: reg_err + SeederRecord"
  obtain err r' where W: "with_shard i (shard_update i ?fn) r = (err, r')" by force
  note U = update_spec [OF assms W]
  have s: "snd (IncLoad i r) = r'" by (simp add: IncLoad_def W)
  show "reg_inv (snd (IncLoad i r))" using U(1) s by auto
  show "seeders r i = None \<Longrightarrow> fst (IncLoad i r) = Inl ErrUnknownSeeder \<and> seeders (snd (IncLoad i r)) = seeders r"
    using U(2) by (auto simp: IncLoad_def W load_result_def)
  show "seeders r i = Some rec \<Longrightarrow> fst (IncLoad i r) = Inr (i64_add (sr_load rec) 1) \<and>
      seeders (snd (IncLoad i r)) = (seeders r)(i \<mapsto> rec\<lparr>sr_load := i64_add (sr_load rec) 1\<rparr>)"
    using U(4) [of rec "rec\<lparr>sr_load := i64_add (sr_load rec) 1\<rparr>"]
    by (auto simp: IncLoad_def W load_result_def seeders_def [symmetric])
qed

lemma DecLoad_spec:
  assumes "reg_inv r"
  shows "reg_inv (snd (DecLoad i r))"
    "seeders r i = None \<Longrightarrow> fst (DecLoad i r) = Inl ErrUnknownSeeder \<and> seeders (snd (DecLoad i r)) = seeders r"
    "seeders r i = Some rec \<Longrightarrow> sr_load rec \<le> 0 \<Longrightarrow> fst (DecLoad i r) = Inl ErrLoadUnderflow \<and> seeders (snd (DecLoad i r)) = seeders r"
    "seeders r i = Some rec \<Longrightarrow> 0 < sr_load rec \<Longrightarrow> fst (DecLoad i r) = Inr (i64_add (sr_load rec) (- 1)) \<and>
      seeders (snd (DecLoad i r)) = (seeders r)(i \<mapsto> rec\<lparr>sr_load := i64_add (sr_load rec) (- 1)\<rparr>)"
proof -
  let ?fn = "\<lambda>rec :: SeederRecord. if sr_load rec \<le> 0 then Inl ErrLoadUnderflow else Inr (rec\<lparr>sr_load := i64_add (sr_load rec) (- 1)\<rparr>)"
  obtain err r' where W: "with_shard i (shard_update i ?fn) r = (err, r')" by force
  have id: "?fn rec = Inr rec' \<Longrightarrow> sr_identity_id rec' = sr_identity_id rec" for rec rec' by (auto split: if_splits)
  note U = update_spec [OF assms W id]
  have s: "snd (DecLoad i r) = r'" by (simp add: DecLoad_def W)
  show "reg_inv (snd (DecLoad i r))" using U(1) s by auto
  show "seeders r i = None \<Longrightarrow> fst (DecLoad i r) = Inl ErrUnknownSeeder \<and> seeders (snd (DecLoad i r)) = seeders r"
    using U(2) by (auto simp: DecLoad_def W load_result_def)
  show "seeders r i = Some rec \<Longrightarrow> sr_load rec \<le> 0 \<Longrightarrow> fst (DecLoad i r) = Inl ErrLoadUnderflow \<and> seeders (snd (DecLoad i r)) = seeders r"
    using U(3) [of rec ErrLoadUnderflow] by (auto simp: DecLoad_def W load_result_def)
  show "seeders r i = Some rec \<Longrightarrow> 0 < sr_load rec \<Longrightarrow> fst (DecLoad i r) = Inr (i64_add (sr_load rec) (- 1)) \<and>
      seeders (snd (DecLoad i r)) = (seeders r)(i \<mapsto> rec\<lparr>sr_load := i64_add (sr_load rec) (- 1)\<rparr>)"
    using U(4) [of rec "rec\<lparr>sr_load := i64_add (sr_load rec) (- 1)\<rparr>"]
    by (auto simp: DecLoad_def W load_result_def seeders_def [symmetric])
qed

interpretation loads: load_counter reg_inv loads IncLoad DecLoad
proof
  fix r :: Registry and i n
  assume inv: "reg_inv r"
  show "reg_inv (snd (IncLoad i r))" "reg_inv (snd (DecLoad i r))" using inv by (rule IncLoad_spec DecLoad_spec)+
  show "loads r i = None \<Longrightarrow> isl (fst (IncLoad i r)) \<and> loads (snd (IncLoad i r)) = loads r"
    using IncLoad_spec(2) [OF inv, of i] by (auto simp: loads_def fun_eq_iff)
  show "loads r i = Some n \<Longrightarrow> n < 2 ^ 63 - 1 \<Longrightarrow> 0 \<le> n \<Longrightarrow>
      fst (IncLoad i r) = Inr (n + 1) \<and> loads (snd (IncLoad i r)) = (loads r)(i \<mapsto> n + 1)"
    using IncLoad_spec(3) [OF inv, of i] i64_wrap_id [of "n + 1"]
    by (auto simp: loads_def fun_eq_iff i64_add_def is_i64_def)
  show "loads (snd (DecLoad i r)) = (loads r)(i := (case loads r i of None \<Rightarrow> None
      | Some n \<Rightarrow> Some (if n \<le> 0 then n else i64_add n (- 1))))"
  proof (cases "seeders r i")
    case None
    then show ?thesis using DecLoad_spec(2) [OF inv] by (auto simp: loads_def fun_eq_iff)
  next
    case (Some rec)
    then show ?thesis using DecLoad_spec(3,4) [OF inv Some]
      by (cases "sr_load rec \<le> 0") (auto simp: loads_def fun_eq_iff)
  qed
qed

section \<open>Snapshots and sweeps\<close>

text \<open>An iteration order of every shard: each key once.\<close>

definition orders_ok :: "(nat \<Rightarrow> ident list) \<Rightarrow> Registry \<Rightarrow> bool" where
  "orders_ok orders r \<longleftrightarrow> (\<forall>k < length r. distinct (orders k) \<and> set (orders k) = dom (r ! k))"

lemma map_filter_dom: "set xs = dom m \<Longrightarrow> set (List.map_filter m xs) = ran m"
  by (force simp: List.map_filter_def ran_def dom_def image_iff)

lemma Registry_Snapshot_set:
  assumes "reg_inv r" "orders_ok orders r"
  shows "set (Registry_Snapshot orders r) = ran (seeders r)"
proof -
  have "set (Registry_Snapshot orders r) = (\<Union>k<length r. ran (r ! k))"
    using assms(2) by (auto simp: Registry_Snapshot_def shard_snapshot_def orders_ok_def map_filter_dom atLeast0LessThan)
  also have "\<dots> = ran (seeders r)"
  proof (intro set_eqI iffI)
    fix rec assume "rec \<in> (\<Union>k<length r. ran (r ! k))"
    then obtain k i where "k < length r" "(r ! k) i = Some rec" by (auto simp: ran_def)
    then show "rec \<in> ran (seeders r)" using reg_invD [OF assms(1)] by (auto simp: seeders_def Registry_Get_def shard_get_def ran_def)
  next
    fix rec assume "rec \<in> ran (seeders r)"
    then obtain i where "(r ! shardIndex r i) i = Some rec" by (auto simp: seeders_def Registry_Get_def shard_get_def ran_def)
    then show "rec \<in> (\<Union>k<length r. ran (r ! k))"
      using shardIndex_less [OF reg_inv_nonempty [OF assms(1)], of i] by (auto simp: ran_def)
  qed
  finally show ?thesis .
qed

definition fresh_only :: "time \<Rightarrow> shard \<Rightarrow> shard" where
  "fresh_only t sh = (\<lambda>i. case sh i of None \<Rightarrow> None | Some rec \<Rightarrow> if sr_last_heartbeat rec > t then Some rec else None)"

lemma fold_sweep_one:
  assumes "distinct order"
  shows "fold (sweep_one t) order (n, sh) = (n + length (filter (\<lambda>i. \<exists>rec. sh i = Some rec \<and> sr_last_heartbeat rec \<le> t) order),
    (\<lambda>i. if i \<in> set order then fresh_only t sh i else sh i))"
  using assms
proof (induction order arbitrary: n sh)
  case (Cons i order)
  show ?case
  proof (cases "\<exists>rec. sh i = Some rec \<and> sr_last_heartbeat rec \<le> t")
    case True
    then have one: "sweep_one t i (n, sh) = (n + 1, sh(i := None))" by (auto simp: sweep_one_def)
    have "filter (\<lambda>j. \<exists>rec. (sh(i := None)) j = Some rec \<and> sr_last_heartbeat rec \<le> t) order =
        filter (\<lambda>j. \<exists>rec. sh j = Some rec \<and> sr_last_heartbeat rec \<le> t) order"
      using Cons.prems by (intro filter_cong) auto
    moreover have "(\<lambda>j. if j \<in> set order then fresh_only t (sh(i := None)) j else (sh(i := None)) j) =
        (\<lambda>j. if j \<in> set (i # order) then fresh_only t sh j else sh j)"
      using True by (auto simp: fun_eq_iff fresh_only_def)
    ultimately show ?thesis using Cons.IH [of "n + 1" "sh(i := None)"] Cons.prems one True by (simp del: fun_upd_apply)
  next
    case False
    then have one: "sweep_one t i (n, sh) = (n, sh)" by (auto simp: sweep_one_def split: option.splits)
    have "(\<lambda>j. if j \<in> set order then fresh_only t sh j else sh j) =
        (\<lambda>j. if j \<in> set (i # order) then fresh_only t sh j else sh j)"
      using False by (auto simp: fun_eq_iff fresh_only_def not_le split: option.splits)
    then show ?thesis using Cons.IH [of n sh] Cons.prems one False by simp
  qed
qed simp

lemma sweepStale_spec: "distinct order \<Longrightarrow> set order = dom sh \<Longrightarrow> snd (sweepStale order t sh) = fresh_only t sh"
  by (auto simp: sweepStale_def fold_sweep_one fun_eq_iff fresh_only_def split: option.splits)

lemma sweep_shards_spec:
  assumes "\<forall>j < length shs. distinct (orders (k + j)) \<and> set (orders (k + j)) = dom (shs ! j)"
  shows "snd (sweep_shards orders k t shs) = map (fresh_only t) shs"
  using assms
proof (induction shs arbitrary: k)
  case (Cons sh shs)
  have "\<forall>j < length shs. distinct (orders (k + 1 + j)) \<and> set (orders (k + 1 + j)) = dom (shs ! j)"
  proof (intro allI impI)
    fix j assume "j < length shs"
    then show "distinct (orders (k + 1 + j)) \<and> set (orders (k + 1 + j)) = dom (shs ! j)"
      using Cons.prems [rule_format, of "Suc j"] by simp
  qed
  from Cons.IH [OF this] show ?case
    using sweepStale_spec [of "orders k" sh t] Cons.prems [THEN spec, of 0] by (auto split: prod.splits)
qed simp

section \<open>Properties\<close>

text \<open>
  C15. The sharded registry implements one map from identities to seeder records: register,
  deregister, heartbeat and reputation update act on it like the map operation, and each keeps
  every record in its shard.
\<close>

theorem registry_refines_map:
  assumes "reg_inv r"
  shows "reg_inv (Register rec r) \<and> seeders (Register rec r) = (seeders r)(sr_identity_id rec \<mapsto> rec) \<and>
    reg_inv (Deregister i r) \<and> seeders (Deregister i r) = (seeders r)(i := None) \<and>
    reg_inv (snd (Heartbeat i now r)) \<and>
    seeders (snd (Heartbeat i now r)) = (seeders r)(i := map_option (\<lambda>x. x\<lparr>sr_last_heartbeat := now\<rparr>) (seeders r i)) \<and>
    reg_inv (snd (UpdateReputation i score r)) \<and>
    seeders (snd (UpdateReputation i score r)) = (seeders r)(i := map_option (\<lambda>x. x\<lparr>sr_reputation_score := score\<rparr>) (seeders r i))"
proof -
  obtain e1 r1 where H: "Heartbeat i now r = (e1, r1)" by force
  note h = update_spec [OF assms H [unfolded Heartbeat_def]]
  obtain e2 r2 where R: "UpdateReputation i score r = (e2, r2)" by force
  note u = update_spec [OF assms R [unfolded UpdateReputation_def]]
  show ?thesis
  proof (cases "seeders r i")
    case None
    then show ?thesis using h(1,2) u(1,2) Register_spec [OF assms] Deregister_spec [OF assms] H R
      by (auto simp: fun_upd_idem)
  next
    case (Some x)
    then show ?thesis using h(1) h(4) [OF _ Some] u(1) u(4) [OF _ Some] Register_spec [OF assms] Deregister_spec [OF assms] H R
      by auto
  qed
qed

definition demo_seeder :: "byte \<Rightarrow> int \<Rightarrow> SeederRecord" where
  "demo_seeder b n = \<lparr>sr_identity_id = replicate 32 b, sr_conn_session_id = 0,
     sr_capabilities = \<lparr>ca_models = [''m''], ca_max_context = 0, ca_tiers = [PRIVACY_TIER_STANDARD], ca_attestation = []\<rparr>,
     sr_available = True, sr_headroom_estimate = Fin (1/2), sr_reputation_score = Fin 0,
     sr_net_coords = \<lparr>nc_external_addr = ''a'', nc_local_candidates = []\<rparr>, sr_load = n, sr_last_heartbeat = 50\<rparr>"

definition demo_reg :: Registry where
  "demo_reg = Register (demo_seeder 2 0) (replicate 16 Map.empty)"

lemma demo_reg_ok: "reg_inv demo_reg" "seeders demo_reg = [replicate 32 2 \<mapsto> demo_seeder 2 0]"
proof -
  have "Registry_New 16 = Inr (replicate 16 Map.empty)" by (simp add: Registry_New_def)
  from Registry_New_inv [OF this] have n: "reg_inv (replicate 16 Map.empty)" "seeders (replicate 16 Map.empty) = Map.empty" by auto
  show "reg_inv demo_reg" "seeders demo_reg = [replicate 32 2 \<mapsto> demo_seeder 2 0]"
    using Register_spec [OF n(1), of "demo_seeder 2 0"] n(2) by (simp_all add: demo_reg_def) (simp add: demo_seeder_def)
qed

theorem registry_refines_map_witness:
  "seeders (Deregister (replicate 32 2) demo_reg) = Map.empty"
  using registry_refines_map [OF demo_reg_ok(1), of _ "replicate 32 2"] demo_reg_ok(2) by simp

text \<open>
  Match returns exactly the registered records that satisfy the filter, whatever the iteration
  order of the shards.
\<close>

theorem match_is_exact:
  assumes "reg_inv r" "orders_ok orders r"
  shows "set (Match orders f r) = {rec. \<exists>i. seeders r i = Some rec \<and> match_one f rec}"
  using Registry_Snapshot_set [OF assms] by (auto simp: Match_def ran_def)

definition demo_orders :: "nat \<Rightarrow> ident list" where
  "demo_orders k = (if k = 2 then [replicate 32 2] else [])"

lemma demo_orders_ok: "orders_ok demo_orders demo_reg"
proof -
  have k: "shardIndex (replicate 16 Map.empty) (replicate 32 2) = 2"
    by (simp add: shardIndex_def be_uint_def eval_nat_numeral)
  have d: "demo_reg = (replicate 16 Map.empty)[2 := [replicate 32 2 \<mapsto> demo_seeder 2 0]]"
    by (simp add: demo_reg_def Register_def with_shard_def Let_def shard_put_def demo_seeder_def k)
  show ?thesis unfolding d by (auto simp: orders_ok_def demo_orders_def nth_list_update split: if_splits)
qed

theorem match_is_exact_witness:
  "set (Match demo_orders \<lparr>ft_require_available = True, ft_model = ''m'', ft_tier = PRIVACY_TIER_STANDARD,
     ft_min_headroom = Fin 0, ft_max_load = 5\<rparr> demo_reg) = {demo_seeder 2 0}"
  unfolding match_is_exact [OF demo_reg_ok(1) demo_orders_ok] demo_reg_ok(2)
  by (auto simp: match_one_def demo_seeder_def f_lt_def split: if_splits)

text \<open>
  Advertise refuses a headroom outside the unit interval and otherwise updates one record.
\<close>

lemma advertise_headroom:
  assumes "reg_inv r"
  shows "(\<not> f_in_unit h \<longrightarrow> Advertise i caps av h r = (Some ErrInvalidHeadroom, r)) \<and>
    (f_in_unit h \<longrightarrow> reg_inv (snd (Advertise i caps av h r)) \<and> seeders (snd (Advertise i caps av h r)) = (seeders r)(i :=
       map_option (\<lambda>x. x\<lparr>sr_capabilities := caps, sr_available := av, sr_headroom_estimate := h\<rparr>) (seeders r i)))"
proof (cases "f_in_unit h")
  case True
  let ?fn = "\<lambda>rec :: SeederRecord. Inr (rec\<lparr>sr_capabilities := caps, sr_available := av, sr_headroom_estimate := h\<rparr>) :: reg_err + SeederRecord"
  obtain e r' where W: "with_shard i (shard_update i ?fn) r = (e, r')" by force
  note u = update_spec [OF assms W]
  have A: "Advertise i caps av h r = (e, r')" using True W by (simp add: Advertise_def f_in_unit_def)
  show ?thesis
  proof (cases "seeders r i")
    case None
    then show ?thesis using True A u(1,2) by (auto simp: fun_upd_idem)
  next
    case (Some x)
    then show ?thesis using True A u(1) u(4) [OF _ Some] by auto
  qed
qed (auto simp: Advertise_def f_in_unit_def)

text \<open>
  Incrementing and then decrementing the load of a seeder restores every load, and decrementing
  a load of zero is refused instead of going negative.
\<close>

lemma load_inc_dec:
  assumes "reg_inv r" "loads r i = Some n" "0 \<le> n" "n < 2 ^ 63 - 1"
  shows "fst (IncLoad i r) = Inr (n + 1) \<and> loads (snd (IncLoad i r)) = (loads r)(i \<mapsto> n + 1) \<and>
    loads (snd (DecLoad i (snd (IncLoad i r)))) = loads r \<and>
    (n = 0 \<longrightarrow> fst (DecLoad i r) = Inl ErrLoadUnderflow \<and> loads (snd (DecLoad i r)) = loads r)"
proof -
  have "fst (DecLoad i r) = Inl ErrLoadUnderflow \<and> loads (snd (DecLoad i r)) = loads r" if "n = 0"
    using DecLoad_spec(3) [OF assms(1)] assms(2) that by (auto simp: loads_def fun_eq_iff)
  then show ?thesis using loads.inc_known [OF assms(1,2,4,3)] loads.inc_dec [OF assms] by blast
qed

lemma load_inc_dec_witness:
  "fst (IncLoad (replicate 32 2) demo_reg) = Inr 1 \<and> fst (DecLoad (replicate 32 2) demo_reg) = Inl ErrLoadUnderflow"
  using load_inc_dec [OF demo_reg_ok(1), of "replicate 32 2" 0] by (simp add: loads_def demo_reg_ok(2) demo_seeder_def)

text \<open>
  A registry sweep removes exactly the seeders whose last heartbeat is not later than the
  cutoff, in every shard and for every iteration order.
\<close>

lemma sweep_removes_stale:
  assumes "reg_inv r" "orders_ok orders r"
  shows "reg_inv (snd (Registry_Sweep orders t r)) \<and> seeders (snd (Registry_Sweep orders t r)) =
    (\<lambda>i. case seeders r i of None \<Rightarrow> None | Some rec \<Rightarrow> if sr_last_heartbeat rec > t then Some rec else None)"
proof -
  have s: "snd (Registry_Sweep orders t r) = map (fresh_only t) r"
    using sweep_shards_spec [of r orders 0 t] assms(2) by (simp add: Registry_Sweep_def orders_ok_def)
  have ix: "shardIndex (map (fresh_only t) r) i = shardIndex r i" for i by (simp add: shardIndex_def)
  have "reg_inv (map (fresh_only t) r)"
    unfolding reg_inv_def
  proof (intro conjI allI impI)
    show "map (fresh_only t) r \<noteq> []" using reg_inv_nonempty [OF assms(1)] by simp
    fix k i rec assume k: "k < length (map (fresh_only t) r)" "(map (fresh_only t) r ! k) i = Some rec"
    then have "(r ! k) i = Some rec" by (auto simp: fresh_only_def split: option.splits if_splits)
    then show "shardIndex (map (fresh_only t) r) i = k" "sr_identity_id rec = i"
      using reg_invD [OF assms(1), of k i rec] k(1) ix by auto
  qed
  moreover have "seeders (map (fresh_only t) r) i = fresh_only t (seeders r) i" for i
    using shardIndex_less [OF reg_inv_nonempty [OF assms(1)], of i]
    by (simp add: seeders_def Registry_Get_def shard_get_def ix fresh_only_def)
  ultimately show ?thesis unfolding s by (auto simp: fresh_only_def fun_eq_iff)
qed

lemma sweep_removes_stale_witness:
  "seeders (snd (Registry_Sweep demo_orders 50 demo_reg)) = Map.empty \<and>
   seeders (snd (Registry_Sweep demo_orders 49 demo_reg)) = [replicate 32 2 \<mapsto> demo_seeder 2 0]"
  using sweep_removes_stale [OF demo_reg_ok(1) demo_orders_ok] by (simp add: demo_reg_ok(2) demo_seeder_def fun_eq_iff)

end
