(* ===== verification/TB_Broker_Spec.thy ===== *)
theory TB_Broker_Spec
  imports TB_Broker TB_Session_Spec TB_Registry_Spec
begin

text \<open>
  What the broker promises: candidates are exactly the eligible seeders, best score first; a
  submission ends either assigned with its reservation in place or failed with the reservation
  released, whatever other goroutines do meanwhile to other requests; loads are given back; a
  parked envelope is delivered at most once.
\<close>

section \<open>Ranking\<close>

lemma eligible_iff:
  "eligible env frozen cfg tried rec \<longleftrightarrow> sr_available rec \<and> sr_identity_id rec \<notin> set tried \<and>
     ev_model env \<in> set (ca_models (sr_capabilities rec)) \<and> ev_tier env \<in> set (ca_tiers (sr_capabilities rec)) \<and>
     \<not> f_lt (sr_headroom_estimate rec) (bc_headroom_threshold cfg) \<and>
     (bc_load_threshold cfg > 0 \<longrightarrow> sr_load rec < bc_load_threshold cfg) \<and> \<not> frozen (sr_identity_id rec)"
  by (auto simp: eligible_def)

lemma set_insert_stable [simp]: "set (insert_stable lt x xs) = insert x (set xs)"
  by (induction xs) auto

lemma set_sort_stable [simp]: "set (sort_stable lt xs) = set xs"
  by (induction xs) (auto simp: sort_stable_def)

lemma length_insert_stable [simp]: "length (insert_stable lt x xs) = Suc (length xs)"
  by (induction xs) auto

lemma length_sort_stable [simp]: "length (sort_stable lt xs) = length xs"
  by (induction xs) (auto simp: sort_stable_def)

text \<open>
  What a comparison must satisfy for a sort to mean anything: a strict weak order on the elements.
\<close>

context weak_order
begin

lemma insert_sorted:
  assumes "sorted_wrt (\<lambda>a b. \<not> lt b a) ys" "set ys \<subseteq> carrier" "x \<in> carrier"
  shows "sorted_wrt (\<lambda>a b. \<not> lt b a) (insert_stable lt x ys)"
  using assms
proof (induction ys)
  case (Cons y ys)
  show ?case
  proof (cases "lt y x")
    case True
    then show ?thesis using Cons asym by auto
  next
    case False
    then have "\<not> lt z x" if "z \<in> set ys" for z
      using that Cons.prems neg_trans [of z y x] by auto
    then show ?thesis using False Cons.prems by auto
  qed
qed simp

lemma sort_sorted: "set xs \<subseteq> carrier \<Longrightarrow> sorted_wrt (\<lambda>a b. \<not> lt b a) (sort_stable lt xs)"
proof (induction xs)
  case (Cons x xs)
  then show ?case using insert_sorted [of "sort_stable lt xs" x] by (simp add: sort_stable_def) (metis set_sort_stable sort_stable_def)
qed (simp add: sort_stable_def)

end

lemma bytes_less_irrefl [simp]: "\<not> bytes_less a a"
  by (induction a) auto

lemma bytes_less_asym: "bytes_less a b \<Longrightarrow> \<not> bytes_less b a"
  by (induction a b rule: bytes_less.induct) (auto split: if_splits)

lemma bytes_less_total: "bytes_less a b \<or> a = b \<or> bytes_less b a"
  by (induction a b rule: bytes_less.induct) (auto simp: neq_iff, (metis bytes_less.simps(2) neq_Nil_conv)+)

lemma bytes_less_trans: "bytes_less a b \<Longrightarrow> bytes_less b c \<Longrightarrow> bytes_less a c"
proof (induction a b arbitrary: c rule: bytes_less.induct)
  case (2 y ys)
  then show ?case by (cases c) auto
next
  case (3 x xs y ys)
  then show ?case by (cases c) (auto split: if_splits)
qed simp

lemma bytes_less_neg_trans: "\<not> bytes_less a b \<Longrightarrow> \<not> bytes_less b c \<Longrightarrow> \<not> bytes_less a c"
  using bytes_less_total bytes_less_trans bytes_less_asym by metis

definition scored :: "Candidate set" where
  "scored = {c. cd_score c \<noteq> NaN}"

lemma f_lt_cases: "a \<noteq> NaN \<Longrightarrow> b \<noteq> NaN \<Longrightarrow> f_lt a b \<or> a = b \<or> f_lt b a"
  using f_le_antisym f_lt_def by blast

lemma f_lt_asym: "f_lt a b \<Longrightarrow> \<not> f_lt b a"
  using f_lt_trans f_lt_irrefl by blast

interpretation ranking: weak_order cand_less scored
proof
  fix a b c :: Candidate
  assume a: "a \<in> scored" and b: "b \<in> scored"
  show "cand_less a b \<Longrightarrow> \<not> cand_less b a"
    using a b f_lt_asym bytes_less_asym by (auto simp: cand_less_def f_eq_def scored_def split: if_splits)
  assume c: "c \<in> scored"
  let ?s = cd_score
  have na: "?s a \<noteq> NaN" "?s b \<noteq> NaN" "?s c \<noteq> NaN" using a b c by (auto simp: scored_def)
  assume 1: "\<not> cand_less a b" and 2: "\<not> cand_less b c"
  have ab: "f_lt (?s a) (?s b) \<or> ?s a = ?s b" and bc: "f_lt (?s b) (?s c) \<or> ?s b = ?s c"
    using 1 2 na f_lt_cases by (auto simp: cand_less_def f_eq_def split: if_splits) 
  then have "f_lt (?s a) (?s c) \<or> ?s a = ?s b \<and> ?s b = ?s c" using f_lt_trans by metis
  then show "\<not> cand_less a c"
  proof
    assume "f_lt (?s a) (?s c)"
    then show ?thesis using na f_lt_asym by (auto simp: cand_less_def f_eq_def)
  next
    assume "?s a = ?s b \<and> ?s b = ?s c"
    then show ?thesis using 1 2 na bytes_less_neg_trans by (auto simp: cand_less_def f_eq_def)
  qed
qed

section \<open>One submission\<close>

abbreviation bk_requests :: "broker_state \<Rightarrow> reqid \<rightharpoonup> Request" where
  "bk_requests st \<equiv> requests (mg_inflight (bk_mgr st))"

abbreviation bk_slots :: "broker_state \<Rightarrow> reqid \<rightharpoonup> Reservation" where
  "bk_slots st \<equiv> rs_byReq (mg_reservations (bk_mgr st))"

definition broker_inv :: "broker_state \<Rightarrow> bool" where
  "broker_inv st \<longleftrightarrow> inflight_inv (mg_inflight (bk_mgr st)) \<and> res_inv (mg_reservations (bk_mgr st)) \<and> reg_inv (bk_reg st)"

lemma upd_registry_frame [simp]:
  "bk_mgr (snd (upd_registry op st)) = bk_mgr st" "bk_queued (snd (upd_registry op st)) = bk_queued st"
  "bk_reg (snd (upd_registry op st)) = snd (op (bk_reg st))" "fst (upd_registry op st) = fst (op (bk_reg st))"
  by (auto simp: upd_registry_def split: prod.splits)

lemma upd_inflight_frame [simp]:
  "bk_reg (snd (upd_inflight op st)) = bk_reg st" "bk_queued (snd (upd_inflight op st)) = bk_queued st"
  "mg_reservations (bk_mgr (snd (upd_inflight op st))) = mg_reservations (bk_mgr st)"
  "mg_inflight (bk_mgr (snd (upd_inflight op st))) = snd (op (mg_inflight (bk_mgr st)))"
  "fst (upd_inflight op st) = fst (op (mg_inflight (bk_mgr st)))"
  by (auto simp: upd_inflight_def split: prod.splits)

lemma upd_reservations_frame [simp]:
  "bk_reg (snd (upd_reservations op st)) = bk_reg st" "bk_queued (snd (upd_reservations op st)) = bk_queued st"
  "mg_inflight (bk_mgr (snd (upd_reservations op st))) = mg_inflight (bk_mgr st)"
  "mg_reservations (bk_mgr (snd (upd_reservations op st))) = snd (op (mg_reservations (bk_mgr st)))"
  "fst (upd_reservations op st) = fst (op (mg_reservations (bk_mgr st)))"
  by (auto simp: upd_reservations_def split: prod.splits)

lemma record_outcome_frame [simp]:
  "bk_mgr (record_outcome s oc st) = bk_mgr st" "bk_reg (record_outcome s oc st) = bk_reg st"
  "bk_queued (record_outcome s oc st) = bk_queued st"
  by (simp_all add: record_outcome_def)

lemma failAndRelease_frame [simp]: "bk_reg (failAndRelease i now st) = bk_reg st"
  "bk_queued (failAndRelease i now st) = bk_queued st"
  by (simp_all add: failAndRelease_def Let_def)

text \<open>The request is being brokered: selecting, with its reservation in place.\<close>

definition selecting :: "reqid \<Rightarrow> u64 \<Rightarrow> broker_state \<Rightarrow> bool" where
  "selecting i cost st \<longleftrightarrow> broker_inv st \<and>
     (\<exists>r. bk_requests st i = Some r \<and> rq_state r = StateSelecting \<and> rq_max_cost_reserved r = cost) \<and>
     (\<exists>v. bk_slots st i = Some v \<and> rv_amount v = cost)"

text \<open>Rely condition: other goroutines keep the invariants and leave this request and its slot alone.\<close>

definition rely :: "reqid \<Rightarrow> (nat \<Rightarrow> broker_state \<Rightarrow> broker_state) \<Rightarrow> bool" where
  "rely i m \<longleftrightarrow> (\<forall>k st. broker_inv st \<longrightarrow> broker_inv (m k st) \<and> bk_requests (m k st) i = bk_requests st i \<and>
     bk_slots (m k st) i = bk_slots st i)"

definition closed_failed :: "reqid \<Rightarrow> broker_state \<Rightarrow> bool" where
  "closed_failed i st \<longleftrightarrow> broker_inv st \<and> bk_slots st i = None \<and>
     (bk_requests st i = None \<or> (\<exists>r. bk_requests st i = Some r \<and> rq_state r = StateFailed))"

definition assigned_to :: "reqid \<Rightarrow> u64 \<Rightarrow> ident \<Rightarrow> bytes \<Rightarrow> broker_state \<Rightarrow> bool" where
  "assigned_to i cost seeder pub st \<longleftrightarrow> broker_inv st \<and>
     (\<exists>r. bk_requests st i = Some r \<and> rq_state r = StateAssigned \<and> rq_assigned_seeder r = seeder \<and>
       rq_seeder_pubkey r = pub \<and> rq_max_cost_reserved r = cost) \<and>
     (\<exists>v. bk_slots st i = Some v \<and> rv_amount v = cost)"

lemma selecting_registry:
  "selecting i cost st \<Longrightarrow> (\<And>r. reg_inv r \<Longrightarrow> reg_inv (snd (op r))) \<Longrightarrow> selecting i cost (snd (upd_registry op st))"
  by (auto simp: selecting_def broker_inv_def)

lemma selecting_outcome: "selecting i cost st \<Longrightarrow> selecting i cost (record_outcome s oc st)"
  by (simp add: selecting_def broker_inv_def)

lemma selecting_meanwhile: "selecting i cost st \<Longrightarrow> rely i m \<Longrightarrow> selecting i cost (m k st)"
  by (auto simp: selecting_def rely_def)

lemma selecting_fail: "selecting i cost st \<Longrightarrow> closed_failed i (failAndRelease i now st)"
proof -
  assume s: "selecting i cost st"
  then obtain r where r: "bk_requests st i = Some r" "rq_state r = StateSelecting" and
    inv: "inflight_inv (mg_inflight (bk_mgr st))" "res_inv (mg_reservations (bk_mgr st))" "reg_inv (bk_reg st)"
    by (auto simp: selecting_def broker_inv_def)
  note T = Transition_spec(1,4) [OF inv(1)]
  show ?thesis using T(1) T(2) [OF r] inv Release_inv [OF inv(2)]
    by (simp add: closed_failed_def broker_inv_def failAndRelease_def Let_def slots_Release)
qed

lemma selecting_assign:
  assumes "selecting i cost st" "upd_inflight (Transition i StateSelecting StateAssigned now)
     (snd (upd_inflight (MarkSeeder i seeder pub) st)) = (e, st')"
  shows "e = None" "assigned_to i cost seeder pub st'"
proof -
  from assms(1) obtain r where r: "bk_requests st i = Some r" "rq_state r = StateSelecting" "rq_max_cost_reserved r = cost" and
    inv: "inflight_inv (mg_inflight (bk_mgr st))" "res_inv (mg_reservations (bk_mgr st))" "reg_inv (bk_reg st)"
    by (auto simp: selecting_def broker_inv_def)
  let ?f = "snd (MarkSeeder i seeder pub (mg_inflight (bk_mgr st)))"
  let ?r = "r\<lparr>rq_assigned_seeder := seeder, rq_seeder_pubkey := pub\<rparr>"
  note M = MarkSeeder_spec [OF inv(1), of i seeder pub]
  have r1: "requests ?f i = Some ?r" using M(2) r by simp
  note T = Transition_spec(1,4) [OF M(1), of i]
  note t = T(2) [OF r1, of StateSelecting StateAssigned now]
  have e: "e = fst (Transition i StateSelecting StateAssigned now ?f)" and
    st': "mg_inflight (bk_mgr st') = snd (Transition i StateSelecting StateAssigned now ?f)"
    "mg_reservations (bk_mgr st') = mg_reservations (bk_mgr st)" "bk_reg st' = bk_reg st"
    using arg_cong [OF assms(2), of fst] arg_cong [OF assms(2), of snd] by auto
  show "e = None" using e t r(2) by simp
  show "assigned_to i cost seeder pub st'"
    using assms(1) t r inv T(1) st' by (auto simp: assigned_to_def broker_inv_def selecting_def set_state_def terminal_def)
qed

definition admitted :: "broker_err + Result \<Rightarrow> Assignment option" where
  "admitted res = (case res of Inl _ \<Rightarrow> None | Inr r \<Rightarrow> rr_admit r)"

lemma offer_loop_outcome:
  assumes "selecting i cost st" "rely i (sv_meanwhile env)"
    "offer_loop env body envHash i n k tried triedAny st = (out, st')"
  shows "case out of LoopEnd _ \<Rightarrow> selecting i cost st'
    | LoopReturn res \<Rightarrow> (case admitted res of None \<Rightarrow> closed_failed i st'
        | Some a \<Rightarrow> as_request_id a = i \<and> as_reservation_token a = i \<and>
            assigned_to i cost (as_assigned_seeder a) (as_seeder_pubkey a) st')"
  using assms
proof (induction n arbitrary: k tried triedAny st)
  case (Suc n)
  let ?cands = "Pick (Match (sv_orders env k) (submit_filter (sv_cfg env) body) (bk_reg st)) body
         (bc_score_weights (sv_cfg env)) (sv_frozen env) (sv_score env) (sv_cfg env) tried"
  show ?case
  proof (cases ?cands)
    case Nil
    then show ?thesis using Suc.prems by auto
  next
    case (Cons cand rest)
    define sid where "sid = sr_identity_id (cd_record cand)"
    obtain ie st1 where I: "upd_registry (IncLoad sid) st = (ie, st1)" by force
    have s1: "selecting i cost st1" using selecting_registry [OF Suc.prems(1), of "IncLoad sid"] loads.inc_inv I
      by (metis snd_conv)
    show ?thesis
    proof (cases ie)
      case (Inl e)
      then have "offer_loop env body envHash i n (k + 1) (tried @ [sid]) True st1 = (out, st')"
        using Suc.prems(3) Cons I by (simp add: Let_def sid_def)
      then show ?thesis by (rule Suc.IH [OF s1 Suc.prems(2)])
    next
      case (Inr x)
      define st2 where "st2 = sv_meanwhile env k (st1\<lparr>bk_offers := bk_offers st1 @ [(sid, offer_push body envHash i)]\<rparr>)"
      have s2: "selecting i cost st2"
        unfolding st2_def by (rule selecting_meanwhile [OF _ Suc.prems(2)]) (use s1 in \<open>simp add: selecting_def broker_inv_def\<close>)
      have sd: "selecting i cost (snd (upd_registry (DecLoad sid) st2))"
        by (rule selecting_registry [OF s2 loads.dec_inv])
      show ?thesis
      proof (cases "runOffer (sv_reply env k sid)")
        case oerr: (Inl oerr)
        show ?thesis
        proof (cases "oerr = ErrCanceled \<or> oerr = ErrDeadlineExceeded")
          case True
          then have "out = LoopReturn (Inl oerr) \<and> st' = failAndRelease i (sv_clock env k) (snd (upd_registry (DecLoad sid) st2))"
            using Suc.prems(3) Cons I Inr oerr by (auto simp: Let_def sid_def st2_def)
          then show ?thesis using selecting_fail [OF sd] by (simp add: admitted_def)
        next
          case False
          then have "offer_loop env body envHash i n (k + 1) (tried @ [sid]) True
              (record_outcome sid ''unreachable'' (snd (upd_registry (DecLoad sid) st2))) = (out, st')"
            using Suc.prems(3) Cons I Inr oerr by (simp add: Let_def sid_def st2_def)
          then show ?thesis by (rule Suc.IH [OF selecting_outcome [OF sd] Suc.prems(2)])
        qed
      next
        case reply: (Inr ap)
        obtain acc pub where ap: "ap = (acc, pub)" by force
        show ?thesis
        proof (cases acc)
          case False
          then have "offer_loop env body envHash i n (k + 1) (tried @ [sid]) True
              (record_outcome sid ''reject'' (snd (upd_registry (DecLoad sid) st2))) = (out, st')"
            using Suc.prems(3) Cons I Inr reply ap by (simp add: Let_def sid_def st2_def)
          then show ?thesis by (rule Suc.IH [OF selecting_outcome [OF sd] Suc.prems(2)])
        next
          case True
          obtain e st4 where T: "upd_inflight (Transition i StateSelecting StateAssigned (sv_clock env k))
              (snd (upd_inflight (MarkSeeder i sid pub) (record_outcome sid ''accept'' st2))) = (e, st4)" by force
          note A = selecting_assign [OF selecting_outcome [OF s2] T]
          have "\<exists>r. out = LoopReturn (Inr r) \<and> st' = st4 \<and> rr_admit r = Some \<lparr>as_seeder_addr = nc_external_addr (sr_net_coords (cd_record cand)),
              as_seeder_pubkey = pub, as_reservation_token = i, as_request_id = i, as_assigned_seeder = sid\<rparr>"
            using Suc.prems(3) Cons I Inr reply ap True T A(1) by (auto simp: Let_def sid_def st2_def)
          then show ?thesis using A(2) by (auto simp: admitted_def)
        qed
      qed
    qed
  qed
qed auto

definition submit_tail :: "submit_env \<Rightarrow> EnvelopeBody \<Rightarrow> bytes \<Rightarrow> reqid \<Rightarrow> broker_state \<Rightarrow> (broker_err + Result) \<times> broker_state" where
  "submit_tail env body envHash i st2 =
     (case offer_loop env body envHash i (nat (bc_max_offer_attempts (sv_cfg env))) 0 [] False st2 of
        (LoopReturn res, st3) \<Rightarrow> (res, st3)
      | (LoopEnd triedAny, st3) \<Rightarrow>
          (Inr (no_capacity (if triedAny then ''all_seeders_rejected'' else ''no_eligible_seeder'')),
           failAndRelease i (sv_clock env (nat (bc_max_offer_attempts (sv_cfg env)))) st3))"

text \<open>Either nothing was changed and nothing admitted, or the reservation was taken and the loop ran.\<close>

lemma Reserve_error: "Reserve i c a s t r = (Some e, r') \<Longrightarrow> r' = r"
  by (auto simp: Reserve_def split: if_splits)

lemma Submit_cases:
  assumes "Submit env oenv st = (res, st')" "sv_rand env = Inr i"
  obtains "admitted res = None" "st' = st"
  | body consumer cost creds t envHash where "frozen_check env consumer = None"
      "consumer = to_array 32 (ev_consumer_id body)" "MaxCost (sv_prices env) (Some body) = Inr cost"
      "creds = snapshot_credits body"
      "fst (Reserve i consumer cost creds t (mg_reservations (bk_mgr st))) = None"
      "submit_tail env body envHash i (snd (upd_inflight (Insert (new_request env i consumer body envHash cost))
        (snd (upd_reservations (Reserve i consumer cost creds t) st)))) = (res, st')"
proof -
  let ?ob = "case oenv of None \<Rightarrow> None | Some e \<Rightarrow> es_body e"
  show thesis
  proof (cases ?ob)
    case None
    then show ?thesis using assms that(1) by (auto simp: Submit_def admitted_def)
  next
    case (Some body)
    let ?c = "to_array 32 (ev_consumer_id body)"
    show ?thesis
    proof (cases "\<exists>cost h. frozen_check env ?c = None \<and> MaxCost (sv_prices env) (Some body) = Inr cost \<and>
        DeterministicMarshal (pb_envelope (sv_crypto env)) (Some body) = Inr h")
      case False
      then show ?thesis using assms that(1) Some
        by (auto simp: Submit_def admitted_def Let_def split: option.splits sum.splits)
    next
      case True
      then obtain cost h where ok: "frozen_check env ?c = None" "MaxCost (sv_prices env) (Some body) = Inr cost"
        "DeterministicMarshal (pb_envelope (sv_crypto env)) (Some body) = Inr h" by blast
      let ?t = "sv_now env + seconds (sv_reservation_ttl_s env)" and ?cr = "snapshot_credits body"
      obtain e r' where R: "Reserve i ?c cost ?cr ?t (mg_reservations (bk_mgr st)) = (e, r')" by force
      show ?thesis
      proof (cases e)
        case (Some x)
        have "snd (upd_reservations (Reserve i ?c cost ?cr ?t) st) = st"
          using R Reserve_error [OF R [unfolded Some]] by (simp add: upd_reservations_def)
        then have "admitted res = None \<and> st' = st"
          using assms \<open>?ob = Some body\<close> ok R Some
          by (auto simp: Submit_def admitted_def Let_def upd_reservations_def no_capacity_def split: if_splits)
        then show ?thesis using that(1) by blast
      next
        case None
        then show ?thesis using assms \<open>?ob = Some body\<close> ok R
          by (intro that(2) [of ?c body cost ?cr ?t "sha256 (sv_crypto env) h"])
            (auto simp: Submit_def submit_tail_def Let_def upd_reservations_def)
      qed
    qed
  qed
qed

lemma submit_start:
  assumes "broker_inv st" "fst (Reserve i consumer cost creds t (mg_reservations (bk_mgr st))) = None"
  shows "selecting i cost (snd (upd_inflight (Insert (new_request env i consumer body envHash cost))
        (snd (upd_reservations (Reserve i consumer cost creds t) st))))"
proof -
  let ?f = "mg_inflight (bk_mgr st)" and ?r = "mg_reservations (bk_mgr st)"
  let ?req = "new_request env i consumer body envHash cost"
  have inv: "inflight_inv ?f" "res_inv ?r" "reg_inv (bk_reg st)" using assms(1) by (auto simp: broker_inv_def)
  obtain p f' where I: "Insert ?req ?f = (p, f')" by force
  have rq: "rq_request_id ?req = i" "rq_state ?req = StateSelecting" "rq_max_cost_reserved ?req = cost"
    by (simp_all add: new_request_def)
  have slot: "\<exists>v. rs_byReq (snd (Reserve i consumer cost creds t ?r)) i = Some v \<and> rv_amount v = cost"
    using assms(2) by (auto simp: Reserve_def split: if_splits)
  show ?thesis using Insert_spec [OF inv(1) I] I slot inv(3) Reserve_inv [OF inv(2)] rq
    by (simp add: selecting_def broker_inv_def)
qed

definition submit_post :: "reqid \<Rightarrow> broker_err + Result \<Rightarrow> broker_state \<Rightarrow> bool" where
  "submit_post i res st \<longleftrightarrow> (case admitted res of None \<Rightarrow> closed_failed i st
    | Some a \<Rightarrow> as_request_id a = i \<and> as_reservation_token a = i \<and>
        (\<exists>cost. assigned_to i cost (as_assigned_seeder a) (as_seeder_pubkey a) st))"

lemma Submit_outcome:
  assumes "broker_inv st" "rely i (sv_meanwhile env)" "sv_rand env = Inr i" "bk_requests st i = None" "bk_slots st i = None"
    "Submit env oenv st = (res, st')"
  shows "submit_post i res st'"
  using assms(6,3)
proof (cases rule: Submit_cases)
  case 1
  then show ?thesis using assms(1,4,5) by (simp add: submit_post_def closed_failed_def)
next
  case (2 body consumer cost creds t envHash)
  let ?st2 = "snd (upd_inflight (Insert (new_request env i consumer body envHash cost))
        (snd (upd_reservations (Reserve i consumer cost creds t) st)))"
  obtain out st3 where L: "offer_loop env body envHash i (nat (bc_max_offer_attempts (sv_cfg env))) 0 [] False ?st2 = (out, st3)"
    by force
  note P = offer_loop_outcome [OF submit_start [OF assms(1) 2(5)] assms(2) L]
  show ?thesis
  proof (cases out)
    case (LoopReturn r)
    then show ?thesis using P 2(6) L by (auto simp: submit_tail_def submit_post_def split: option.splits)
  next
    case (LoopEnd x)
    then show ?thesis using P 2(6) L selecting_fail
      by (auto simp: submit_tail_def submit_post_def admitted_def no_capacity_def)
  qed
qed

text \<open>With no other goroutine interfering, a submission leaves every load as it was, plus one for an admitted seeder.\<close>

definition loads_ok :: "Registry \<Rightarrow> bool" where
  "loads_ok r \<longleftrightarrow> reg_inv r \<and> (\<forall>i n. loads r i = Some n \<longrightarrow> 0 \<le> n \<and> n < 2 ^ 63 - 1)"

definition load_delta :: "Assignment option \<Rightarrow> Registry \<Rightarrow> Registry \<Rightarrow> bool" where
  "load_delta a r r' \<longleftrightarrow> reg_inv r' \<and> (case a of None \<Rightarrow> loads r' = loads r
     | Some x \<Rightarrow> \<exists>n. loads r (as_assigned_seeder x) = Some n \<and> loads r' = (loads r)(as_assigned_seeder x \<mapsto> n + 1))"

lemma inc_dec_back:
  assumes "loads_ok r" "IncLoad i r = (Inr x, r1)"
  shows "load_delta None r (snd (DecLoad i r1))" "\<exists>n. loads r i = Some n \<and> loads r1 = (loads r)(i \<mapsto> n + 1)" "reg_inv r1"
proof -
  have inv: "reg_inv r" using assms(1) by (simp add: loads_ok_def)
  have r1: "snd (IncLoad i r) = r1" using assms(2) by simp
  obtain n where n: "loads r i = Some n"
    using loads.inc_unknown [OF inv, of i] assms(2) by (cases "loads r i") auto
  then have b: "0 \<le> n" "n < 2 ^ 63 - 1" using assms(1) by (auto simp: loads_ok_def)
  show "reg_inv r1" using loads.inc_inv [OF inv, of i] r1 by simp
  then show "load_delta None r (snd (DecLoad i r1))"
    using loads.inc_dec [OF inv n b] loads.dec_inv r1 by (simp add: load_delta_def)
  show "\<exists>n. loads r i = Some n \<and> loads r1 = (loads r)(i \<mapsto> n + 1)"
    using loads.inc_known [OF inv n b(2,1)] n r1 by blast
qed

lemma load_delta_trans: "load_delta None r r1 \<Longrightarrow> load_delta a r1 r2 \<Longrightarrow> load_delta a r r2"
  by (auto simp: load_delta_def split: option.splits)

lemma load_delta_ok: "loads_ok r \<Longrightarrow> load_delta None r r' \<Longrightarrow> loads_ok r'"
  by (simp add: loads_ok_def load_delta_def)

definition out_admit :: "loop_out \<Rightarrow> Assignment option" where
  "out_admit out = (case out of LoopEnd _ \<Rightarrow> None | LoopReturn res \<Rightarrow> admitted res)"

lemma offer_loop_loads:
  assumes "loads_ok (bk_reg st)" "sv_meanwhile env = (\<lambda>k st. st)"
    "offer_loop env body envHash i n k tried triedAny st = (out, st')"
  shows "load_delta (out_admit out) (bk_reg st) (bk_reg st')"
  using assms(1,3)
proof (induction n arbitrary: k tried triedAny st)
  case 0
  then show ?case by (auto simp: load_delta_def loads_ok_def out_admit_def)
next
  case (Suc n)
  let ?cands = "Pick (Match (sv_orders env k) (submit_filter (sv_cfg env) body) (bk_reg st)) body
         (bc_score_weights (sv_cfg env)) (sv_frozen env) (sv_score env) (sv_cfg env) tried"
  show ?case
  proof (cases ?cands)
    case Nil
    then show ?thesis using Suc.prems by (auto simp: load_delta_def loads_ok_def out_admit_def)
  next
    case (Cons cand rest)
    define sid where "sid = sr_identity_id (cd_record cand)"
    obtain ie r1 where I: "IncLoad sid (bk_reg st) = (ie, r1)" by force
    have U: "upd_registry (IncLoad sid) st = (ie, st\<lparr>bk_reg := r1\<rparr>)" by (simp add: upd_registry_def I)
    show ?thesis
    proof (cases ie)
      case (Inl e)
      have same: "load_delta None (bk_reg st) r1"
      proof (cases "loads (bk_reg st) sid")
        case None
        then show ?thesis using loads.inc_unknown [of "bk_reg st" sid] loads.inc_inv [of "bk_reg st" sid] Suc.prems(1) I
          by (auto simp: load_delta_def loads_ok_def)
      next
        case (Some m)
        then show ?thesis using loads.inc_known [of "bk_reg st" sid m] Suc.prems(1) I Inl by (auto simp: loads_ok_def)
      qed
      have "offer_loop env body envHash i n (k + 1) (tried @ [sid]) True (st\<lparr>bk_reg := r1\<rparr>) = (out, st')"
        using Suc.prems(2) Cons U Inl by (simp add: Let_def sid_def)
      from Suc.IH [OF _ this] load_delta_ok [OF Suc.prems(1) same] load_delta_trans [OF same] show ?thesis by simp
    next
      case (Inr x)
      note ret = inc_dec_back [OF Suc.prems(1) I [unfolded Inr]]
      define st2 where "st2 = st\<lparr>bk_reg := r1\<rparr>\<lparr>bk_offers := bk_offers (st\<lparr>bk_reg := r1\<rparr>) @ [(sid, offer_push body envHash i)]\<rparr>"
      have reg2: "bk_reg st2 = r1" by (simp add: st2_def)
      have step: "offer_loop env body envHash i (Suc n) k tried triedAny st = (case runOffer (sv_reply env k sid) of
          Inl oerr \<Rightarrow> if oerr = ErrCanceled \<or> oerr = ErrDeadlineExceeded then
              (LoopReturn (Inl oerr), failAndRelease i (sv_clock env k) (snd (upd_registry (DecLoad sid) st2)))
            else offer_loop env body envHash i n (k + 1) (tried @ [sid]) True
              (record_outcome sid ''unreachable'' (snd (upd_registry (DecLoad sid) st2)))
        | Inr (accepted, ephPub) \<Rightarrow> if \<not> accepted then offer_loop env body envHash i n (k + 1) (tried @ [sid]) True
              (record_outcome sid ''reject'' (snd (upd_registry (DecLoad sid) st2)))
            else (let st3 = snd (upd_inflight (MarkSeeder i sid ephPub) (record_outcome sid ''accept'' st2)) in
               (case upd_inflight (Transition i StateSelecting StateAssigned (sv_clock env k)) st3 of
                  (Some terr, st4) \<Rightarrow> (LoopReturn (Inl (ErrSession terr)),
                     failAndRelease i (sv_clock env k) (snd (upd_registry (DecLoad sid) st4)))
                | (None, st4) \<Rightarrow> (LoopReturn (Inr \<lparr>rr_outcome = OutcomeAdmit,
                     rr_admit = Some \<lparr>as_seeder_addr = nc_external_addr (sr_net_coords (cd_record cand)), as_seeder_pubkey = ephPub,
                       as_reservation_token = i, as_request_id = i, as_assigned_seeder = sid\<rparr>,
                     rr_no_cap = None\<rparr>), st4))))"
        unfolding offer_loop.simps Cons list.case Let_def sid_def [symmetric] U Inr prod.case sum.case assms(2) st2_def [symmetric]
        by (rule refl)
      have IH: "load_delta (out_admit out) (bk_reg st) (bk_reg st')"
        if "offer_loop env body envHash i n (k + 1) (tried @ [sid]) True
              (record_outcome sid oc (snd (upd_registry (DecLoad sid) st2))) = (out, st')" for oc
        using Suc.IH [OF _ that] load_delta_ok [OF Suc.prems(1) ret(1)] load_delta_trans [OF ret(1)] reg2 by simp
      show ?thesis
      proof (cases "runOffer (sv_reply env k sid)")
        case oerr: (Inl oerr)
        then show ?thesis using Suc.prems(2) step IH ret(1) reg2
          by (auto simp: out_admit_def admitted_def split: if_splits)
      next
        case reply: (Inr ap)
        obtain acc pub where ap: "ap = (acc, pub)" by force
        obtain e st4 where T: "upd_inflight (Transition i StateSelecting StateAssigned (sv_clock env k))
              (snd (upd_inflight (MarkSeeder i sid pub) (record_outcome sid ''accept'' st2))) = (e, st4)" by force
        have reg4: "bk_reg st4 = r1" using arg_cong [OF T, of snd] reg2 by (metis snd_conv upd_inflight_frame(1) record_outcome_frame(2))
        show ?thesis
        proof (cases acc)
          case False
          then show ?thesis using Suc.prems(2) step reply ap IH by simp
        next
          case True
          show ?thesis
          proof (cases e)
            case None
            then show ?thesis using Suc.prems(2) step reply ap True T reg4 ret(2,3)
              by (auto simp: out_admit_def admitted_def load_delta_def)
          next
            case (Some terr)
            then show ?thesis using Suc.prems(2) step reply ap True T reg4 ret(1)
              by (auto simp: out_admit_def admitted_def)
          qed
        qed
      qed
    qed
  qed
qed

lemma Submit_loads:
  assumes "loads_ok (bk_reg st)" "sv_meanwhile env = (\<lambda>k st. st)" "sv_rand env = Inr i" "Submit env oenv st = (res, st')"
  shows "load_delta (admitted res) (bk_reg st) (bk_reg st')"
  using assms(4,3)
proof (cases rule: Submit_cases)
  case 1
  then show ?thesis using assms(1) by (simp add: load_delta_def loads_ok_def)
next
  case (2 body consumer cost creds t envHash)
  let ?st2 = "snd (upd_inflight (Insert (new_request env i consumer body envHash cost))
        (snd (upd_reservations (Reserve i consumer cost creds t) st)))"
  obtain out st3 where L: "offer_loop env body envHash i (nat (bc_max_offer_attempts (sv_cfg env))) 0 [] False ?st2 = (out, st3)"
    by force
  have "loads_ok (bk_reg ?st2)" using assms(1) by simp
  note P = offer_loop_loads [OF this assms(2) L]
  show ?thesis using P 2(6) L
    by (cases out) (auto simp: submit_tail_def out_admit_def admitted_def no_capacity_def)
qed

section \<open>A concrete broker\<close>

definition demo_body :: EnvelopeBody where
  "demo_body = \<lparr>ev_protocol_version = 1, ev_consumer_id = replicate 32 1, ev_model = ''m'', ev_max_input_tokens = 3,
     ev_max_output_tokens = 4, ev_tier = PRIVACY_TIER_STANDARD, ev_body_hash = zeros 32, ev_exhaustion_proof = None,
     ev_balance_proof = Some \<lparr>sb_body = Some \<lparr>bs_identity_id = replicate 32 1, bs_credits = 100, bs_chain_tip_hash = zeros 32,
       bs_chain_tip_seq = 0, bs_issued_at = 0, bs_expires_at = 600\<rparr>, sb_tracker_sig = []\<rparr>,
     ev_captured_at = 0, ev_nonce = zeros 16, ev_consumer_ephemeral_pub = []\<rparr>"

definition demo_prims :: crypto where
  "demo_prims = \<lparr>ed_verify = (\<lambda>pub msg sig. sig = to_array 64 (pub @ msg)), ed_sign = (\<lambda>priv msg. to_array 64 (drop 32 priv @ msg)),
     sha256 = to_array 32, pkix = Some, pb_entry = (\<lambda>_. None), pb_entry_dec = (\<lambda>_. None), pb_balance = (\<lambda>_. None),
     pb_envelope = (\<lambda>b. Some (ev_consumer_id b)), pb_transfer_req = (\<lambda>_. None)\<rparr>"

definition demo_senv :: "offer_reply \<Rightarrow> submit_env" where
  "demo_senv reply = \<lparr>sv_crypto = demo_prims,
     sv_cfg = \<lparr>bc_headroom_threshold = Fin (1/5), bc_load_threshold = 5,
       bc_score_weights = \<lparr>sw_reputation = Fin (1/2), sw_headroom = Fin (1/4), sw_rtt = Fin 0, sw_load = Fin (1/4)\<rparr>,
       bc_max_offer_attempts = 4\<rparr>,
     sv_reservation_ttl_s = 600, sv_prices = [''m'' \<mapsto> \<lparr>mp_in = 1, mp_out = 5\<rparr>], sv_frozen = (\<lambda>i. i = replicate 32 9),
     sv_score = (\<lambda>_. Fin (1/2)), sv_revoked = None, sv_rand = Inr (replicate 16 6), sv_now = 0, sv_clock = (\<lambda>k. 1),
     sv_orders = (\<lambda>k. demo_orders), sv_reply = (\<lambda>k s. reply), sv_meanwhile = (\<lambda>k st. st)\<rparr>"

definition demo_broker :: broker_state where
  "demo_broker = \<lparr>bk_mgr = Manager_New, bk_reg = demo_reg, bk_queued = Map.empty, bk_offers = [], bk_outcomes = []\<rparr>"

definition demo_signed :: EnvelopeSigned where
  "demo_signed = \<lparr>es_body = Some demo_body, es_consumer_sig = []\<rparr>"

lemma demo_broker_inv: "broker_inv demo_broker" "bk_requests demo_broker i = None" "bk_slots demo_broker i = None"
  "loads_ok (bk_reg demo_broker)"
  using inflight_inv_New res_inv_New demo_reg_ok
  by (auto simp: broker_inv_def demo_broker_def Manager_New_def NewInflight_def NewReservations_def requests_def loads_ok_def
      loads_def demo_seeder_def split: if_splits)

lemma demo_rely: "rely i (sv_meanwhile (demo_senv reply))"
  by (simp add: rely_def demo_senv_def)

lemma demo_admit: "map_option as_assigned_seeder (admitted (fst (Submit (demo_senv (Decision (Some (True, replicate 32 4)))) (Some demo_signed) demo_broker)))
    = Some (replicate 32 2)"
  by code_simp

lemma demo_reject: "admitted (fst (Submit (demo_senv TimedOut) (Some demo_signed) demo_broker)) = None"
  by code_simp

section \<open>Properties\<close>

text \<open>
  Pick returns exactly the eligible records of the snapshot, each with its score, sorted by
  descending score with ties broken by identity.
\<close>

theorem pick_ranks_eligible:
  assumes "\<forall>rec\<in>set snapshot. Score rec w (score (sr_identity_id rec)) (Fin 0) \<noteq> NaN"
  shows "set (Pick snapshot env w frozen score cfg tried) =
      (\<lambda>rec. \<lparr>cd_record = rec, cd_score = Score rec w (score (sr_identity_id rec)) (Fin 0)\<rparr>) `
        {rec \<in> set snapshot. eligible env frozen cfg tried rec} \<and>
    sorted_wrt (\<lambda>a b. \<not> cand_less b a) (Pick snapshot env w frozen score cfg tried)"
proof
  show "set (Pick snapshot env w frozen score cfg tried) =
      (\<lambda>rec. \<lparr>cd_record = rec, cd_score = Score rec w (score (sr_identity_id rec)) (Fin 0)\<rparr>) `
        {rec \<in> set snapshot. eligible env frozen cfg tried rec}" by (simp add: Pick_def)
  show "sorted_wrt (\<lambda>a b. \<not> cand_less b a) (Pick snapshot env w frozen score cfg tried)"
    unfolding Pick_def using assms by (intro ranking.sort_sorted) (auto simp: scored_def)
qed

lemma Score_demo: "Score (demo_seeder 2 n) \<lparr>sw_reputation = Fin (1/2), sw_headroom = Fin (1/4), sw_rtt = Fin 0, sw_load = Fin (1/4)\<rparr>
    (Fin (1/2)) (Fin 0) \<noteq> NaN" if "n = 0 \<or> n = 3"
  using that by (elim disjE) (simp_all only:, code_simp+)

theorem pick_ranks_eligible_witness:
  "sorted_wrt (\<lambda>a b. \<not> cand_less b a) (Pick [demo_seeder 2 3, demo_seeder 2 0] demo_body
     \<lparr>sw_reputation = Fin (1/2), sw_headroom = Fin (1/4), sw_rtt = Fin 0, sw_load = Fin (1/4)\<rparr> (\<lambda>_. False) (\<lambda>_. Fin (1/2))
     (sv_cfg (demo_senv TimedOut)) [])"
  by (rule conjunct2 [OF pick_ranks_eligible]) (simp add: Score_demo)





text \<open>
  A frozen or revoked consumer is refused before anything is reserved or inserted.
\<close>

lemma submit_refuses_frozen:
  assumes "es_body e = Some body" "frozen_check env (to_array 32 (ev_consumer_id body)) = Some err"
  shows "Submit env (Some e) st = (Inl err, st)"
  using assms by (simp add: Submit_def Let_def)

lemma submit_refuses_frozen_witness:
  "Submit (demo_senv TimedOut) (Some (demo_signed\<lparr>es_body := Some (demo_body\<lparr>ev_consumer_id := replicate 32 9\<rparr>)\<rparr>)) demo_broker =
    (Inl ErrIdentityFrozen, demo_broker)"
  by (rule submit_refuses_frozen [of _ "demo_body\<lparr>ev_consumer_id := replicate 32 9\<rparr>"])
    (simp_all add: frozen_check_def demo_senv_def)

text \<open>
  The maximal cost is exact while it fits in a uint64.
\<close>

lemma max_cost_exact:
  assumes "p (ev_model env) = Some m"
    "uint (mp_in m) * uint (ev_max_input_tokens env) + uint (mp_out m) * uint (ev_max_output_tokens env) < 2 ^ 64"
  shows "\<exists>c. MaxCost p (Some env) = Inr c \<and>
    uint c = uint (mp_in m) * uint (ev_max_input_tokens env) + uint (mp_out m) * uint (ev_max_output_tokens env)"
proof -
  have "uint (mp_in m * ev_max_input_tokens env + mp_out m * ev_max_output_tokens env) =
      (uint (mp_in m) * uint (ev_max_input_tokens env) + uint (mp_out m) * uint (ev_max_output_tokens env)) mod 2 ^ 64"
    by (simp add: uint_word_ariths mod_simps)
  then show ?thesis using assms by (simp add: MaxCost_def mod_pos_pos_trivial)
qed

text \<open>
  The multiplication in MaxCost wraps for a huge token limit.
\<close>

lemma max_cost_wraps:
  "MaxCost DefaultPriceTable (Some (demo_body\<lparr>ev_model := ''claude-opus-4-7'', ev_max_input_tokens := 1229782938247303442,
     ev_max_output_tokens := 0\<rparr>)) = Inr 14"
  by (simp add: MaxCost_def DefaultPriceTable_def)

section \<open>The queue\<close>

lemma offer_loop_queued:
  assumes "sv_meanwhile env = (\<lambda>k st. st)" "offer_loop env body envHash i n k tried triedAny st = (out, st')"
  shows "bk_queued st' = bk_queued st"
  using assms(2)
proof (induction n arbitrary: k tried triedAny st)
  case (Suc n)
  have reg: "upd_registry op st = (x, st1) \<Longrightarrow> bk_queued st1 = bk_queued st" for op x st1 st by (metis snd_conv upd_registry_frame(2))
  have inf: "upd_inflight op st = (x, st1) \<Longrightarrow> bk_queued st1 = bk_queued st" for op x st1 st by (metis snd_conv upd_inflight_frame(2))
  show ?case using Suc assms(1)
    by (force simp: Let_def split: list.splits prod.splits sum.splits if_splits option.splits dest!: reg inf)
qed simp

lemma Submit_queued:
  assumes "sv_meanwhile env = (\<lambda>k st. st)" "Submit env oenv st = (res, st')"
  shows "bk_queued st' = bk_queued st"
proof (cases "sv_rand env")
  case (Inl e)
  then show ?thesis using assms(2) by (auto simp: Submit_def Let_def split: option.splits sum.splits)
next
  case (Inr i)
  from assms(2) Inr show ?thesis
  proof (cases rule: Submit_cases)
    case (2 body consumer cost creds t envHash)
    let ?st2 = "snd (upd_inflight (Insert (new_request env i consumer body envHash cost))
        (snd (upd_reservations (Reserve i consumer cost creds t) st)))"
    obtain out st3 where L: "offer_loop env body envHash i (nat (bc_max_offer_attempts (sv_cfg env))) 0 [] False ?st2 = (out, st3)"
      by force
    show ?thesis using offer_loop_queued [OF assms(1) L] 2(6) L by (cases out) (auto simp: submit_tail_def)
  qed simp
qed

text \<open>
  Draining the queue delivers a result to exactly the popped requests that were still
  registered, in pop order, once each, and removes exactly them from the pending table.
\<close>

lemma drain_delivers_once:
  assumes "\<forall>(i, env)\<in>set pops. sv_meanwhile env = (\<lambda>k st. st)" "distinct (map fst pops)"
    "drain_entries pops st = (ds, st')"
  shows "map fst ds = filter (\<lambda>i. i \<in> dom (bk_queued st)) (map fst pops) \<and>
    bk_queued st' = bk_queued st |` (- set (map fst pops))"
  using assms
proof (induction pops arbitrary: st ds)
  case (Cons p pops)
  obtain i env where p: "p = (i, env)" by force
  show ?case
  proof (cases "bk_queued st i")
    case None
    then have "drain_entries pops st = (ds, st')" using Cons.prems p by simp
    from Cons.IH [OF _ _ this] Cons.prems p None show ?thesis by (auto simp: restrict_map_def fun_eq_iff)
  next
    case (Some body)
    obtain res st1 where S: "Submit env (Some \<lparr>es_body = Some body, es_consumer_sig = []\<rparr>)
        (st\<lparr>bk_queued := (bk_queued st)(i := None)\<rparr>) = (res, st1)" by force
    obtain ds2 st2 where D: "drain_entries pops st1 = (ds2, st2)" by force
    have q: "bk_queued st1 = (bk_queued st)(i := None)" using Submit_queued [OF _ S] Cons.prems(1) p by simp
    have ds: "map fst ds = i # map fst ds2" "st' = st2" using Cons.prems(3) p Some S D by (auto simp: Let_def)
    have "filter (\<lambda>j. j \<in> dom (bk_queued st1)) (map fst pops) = filter (\<lambda>j. j \<in> dom (bk_queued st)) (map fst pops)"
      using Cons.prems(2) p by (intro filter_cong) (auto simp: q)
    moreover have "map fst ds2 = filter (\<lambda>j. j \<in> dom (bk_queued st1)) (map fst pops)"
      "bk_queued st' = bk_queued st1 |` (- set (map fst pops))"
      using Cons.IH [OF _ _ D [folded ds(2)]] Cons.prems p by auto
    moreover have "bk_queued st1 |` (- set (map fst pops)) = bk_queued st |` (- set (map fst (p # pops)))"
      unfolding q by (auto simp: restrict_map_def p)
    ultimately show ?thesis using ds(1) Some p by auto
  qed
qed auto

lemma drain_delivers_once_witness:
  "map fst (fst (drain_entries [(replicate 16 3, demo_senv TimedOut)]
     (RegisterQueued (Some demo_signed) (replicate 16 3) demo_broker))) = [replicate 16 3]"
proof -
  obtain ds st' where D: "drain_entries [(replicate 16 3, demo_senv TimedOut)]
     (RegisterQueued (Some demo_signed) (replicate 16 3) demo_broker) = (ds, st')" by force
  have "bk_queued (RegisterQueued (Some demo_signed) (replicate 16 3) demo_broker) = [replicate 16 3 \<mapsto> demo_body]"
    by (simp add: RegisterQueued_def demo_signed_def demo_broker_def)
  then show ?thesis using drain_delivers_once [OF _ _ D] D by (simp add: demo_senv_def)
qed

section \<open>Operator overrides\<close>

text \<open>
  The operator override fails the request and gives back the seeder load exactly when the
  request was assigned, leaving the reservation to the sweep.
\<close>

lemma force_fail_returns_load:
  assumes "broker_inv st" "parseHex16 path = Some i" "bk_requests st i = Some r"
  shows "\<exists>st'. handleForceFailInflight path now st = (StatusOK, st') \<and>
    bk_reg st' = (if rq_state r = StateAssigned \<and> rq_assigned_seeder r \<noteq> zero_id
      then snd (DecLoad (rq_assigned_seeder r) (bk_reg st)) else bk_reg st) \<and>
    bk_slots st' = bk_slots st \<and> (\<exists>r'. bk_requests st' i = Some r' \<and> rq_state r' = StateFailed)"
proof -
  have inv: "inflight_inv (mg_inflight (bk_mgr st))" using assms(1) by (simp add: broker_inv_def)
  obtain p where g: "Inflight_Get i (mg_inflight (bk_mgr st)) = Some (p, r)" using assms(3) by (auto simp: requests_Some)
  note F = ForceFail_spec(2) [OF inv, of i now]
  have fst: "fst (ForceFail i now (mg_inflight (bk_mgr st))) = (rq_state r, True)" by (simp add: ForceFail_def g)
  obtain st1 where U: "upd_inflight (ForceFail i now) st = ((rq_state r, True), st1)"
    and st1: "mg_inflight (bk_mgr st1) = snd (ForceFail i now (mg_inflight (bk_mgr st)))"
      "mg_reservations (bk_mgr st1) = mg_reservations (bk_mgr st)" "bk_reg st1 = bk_reg st"
    using upd_inflight_frame [of "ForceFail i now" st] fst by (metis prod.collapse)
  have req: "\<exists>r'. bk_requests st1 i = Some r' \<and> rq_state r' = StateFailed" using F assms(3) st1(1) by simp
  show ?thesis using assms(2) U g st1 req
    by (auto simp: handleForceFailInflight_def Broker_LookupAssignment_def LookupAssignment_def Let_def)
qed

definition demo_assigned :: broker_state where
  "demo_assigned = demo_broker\<lparr>bk_mgr := \<lparr>mg_inflight = snd (Insert (demo_request\<lparr>rq_state := StateAssigned,
     rq_assigned_seeder := replicate 32 2\<rparr>) NewInflight), mg_reservations = NewReservations\<rparr>\<rparr>"

lemma force_fail_returns_load_witness:
  "bk_reg (snd (handleForceFailInflight ''01010101010101010101010101010101'' 5 demo_assigned)) =
    snd (DecLoad (replicate 32 2) demo_reg)"
proof -
  let ?r = "demo_request\<lparr>rq_state := StateAssigned, rq_assigned_seeder := replicate 32 2\<rparr>"
  obtain p f' where I: "Insert ?r NewInflight = (p, f')" by force
  note S = Insert_spec [OF inflight_inv_New I]
  have inv: "broker_inv demo_assigned" using S(2) I demo_broker_inv(1) res_inv_New
    by (simp add: broker_inv_def demo_assigned_def demo_broker_def)
  have hex: "parseHex16 ''01010101010101010101010101010101'' = Some (replicate 16 1)" by code_simp
  have "rq_request_id ?r = replicate 16 1" by (simp add: demo_request_def)
  then have req: "bk_requests demo_assigned (replicate 16 1) = Some ?r"
    using S(1) I by (simp add: demo_assigned_def)
  have reg: "bk_reg demo_assigned = demo_reg" "replicate 32 (2 :: byte) \<noteq> zero_id"
    by (simp_all add: demo_assigned_def demo_broker_def zero_id_def zeros_def)
  from force_fail_returns_load [OF inv hex req, of 5] reg show ?thesis by auto
qed

end
