(* ===== verification/TB_Chain.thy ===== *)
theory TB_Chain
  imports TB_Ledger
begin

text \<open>
  The chain invariant of the ledger: rows are numbered from 1 without gaps, each row's
  \<open>prev_hash\<close> is the hash of the row before, the columns and the stored hash agree with the
  canonical bytes, the tracker signed them, request ids and transfer refs are single use, and no
  balance is negative. Every append keeps it whatever the database does, and a failed append
  changes nothing.
\<close>

fun linked :: "bytes \<Rightarrow> u64 \<Rightarrow> entry_row list \<Rightarrow> bool" where
  "linked prev n [] = True"
| "linked prev n (r # rs) = (er_prev_hash r = prev \<and> er_seq r = n \<and> linked (er_hash r) (n + 1) rs)"

definition end_hash :: "bytes \<Rightarrow> entry_row list \<Rightarrow> bytes" where
  "end_hash prev rs = (if rs = [] then prev else er_hash (last rs))"

lemma linked_append:
  "linked prev n (rs @ qs) \<longleftrightarrow> linked prev n rs \<and> linked (end_hash prev rs) (n + of_nat (length rs)) qs"
  by (induction rs arbitrary: prev n) (auto simp: end_hash_def algebra_simps)

lemma linked_seq_nth:
  "linked prev n rs \<Longrightarrow> i < length rs \<Longrightarrow> er_seq (rs ! i) = n + of_nat i"
  by (induction rs arbitrary: prev n i) (auto simp: nth_Cons' algebra_simps)

definition seqs_ok :: "entry_row list \<Rightarrow> bool" where
  "seqs_ok rows \<longleftrightarrow> linked (zeros 32) 1 rows \<and> length rows < 2 ^ 63"

lemma seqs_ok_unat:
  assumes "seqs_ok rows" "i < length rows"
  shows "unat (er_seq (rows ! i)) = Suc i"
proof -
  have "er_seq (rows ! i) = 1 + of_nat i"
    using assms linked_seq_nth unfolding seqs_ok_def by blast
  then have "er_seq (rows ! i) = of_nat (Suc i)" by simp
  moreover have "Suc i < 2 ^ 64" using assms by (simp add: seqs_ok_def)
  ultimately show ?thesis by (simp add: unat_of_nat del: of_nat_Suc)
qed

lemma seqs_ok_sorted: "seqs_ok rows \<Longrightarrow> sorted (map er_seq rows)"
  by (auto simp: sorted_iff_nth_mono word_le_nat_alt seqs_ok_unat)

lemma order_by_seq_id [simp]: "seqs_ok rows \<Longrightarrow> order_by_seq rows = rows"
  unfolding order_by_seq_def by (rule sort_key_id_if_sorted) (rule seqs_ok_sorted)

lemma tip_row_last: "seqs_ok rows \<Longrightarrow> tip_row rows = (if rows = [] then None else Some (last rows))"
  by (cases rows rule: rev_cases) (auto simp: tip_row_def)

lemma Tip_cases:
  assumes "seqs_ok (st_entries s)" "Tip flt s = Inr t"
  shows "expected_tip t = (end_hash (zeros 32) (st_entries s), of_nat (length (st_entries s)) + 1)"
proof (cases "st_entries s" rule: rev_cases)
  case Nil
  then show ?thesis using assms by (auto simp: Tip_def tip_row_last expected_tip_def end_hash_def split: if_splits)
next
  case (snoc ys y)
  have "er_seq ((ys @ [y]) ! length ys) = 1 + of_nat (length ys)"
    using assms(1) unfolding seqs_ok_def snoc by (intro linked_seq_nth) auto
  then show ?thesis using assms snoc
    by (auto simp: Tip_def tip_row_last expected_tip_def end_hash_def split: if_splits)
qed

text \<open>What a stored row says of its body.\<close>

definition row_body :: "crypto \<Rightarrow> entry_row \<Rightarrow> EntryBody \<Rightarrow> bool" where
  "row_body cr r b \<longleftrightarrow> pb_entry cr b = Some (er_canonical r) \<and> er_hash r = sha256 cr (er_canonical r) \<and>
     entry_matrix b \<and> er_seq r = eb_seq b \<and> er_prev_hash r = eb_prev_hash b \<and> er_kind r = eb_kind b \<and>
     er_consumer_id r = eb_consumer_id b \<and> er_seeder_id r = eb_seeder_id b \<and> er_model r = eb_model b \<and>
     er_input_tokens r = eb_input_tokens b \<and> er_output_tokens r = eb_output_tokens b \<and>
     er_cost_credits r = eb_cost_credits b \<and> er_timestamp r = eb_timestamp b \<and>
     er_request_id r = eb_request_id b \<and> er_flags r = eb_flags b \<and> er_ref r = eb_ref b"

definition usage_ids :: "entry_row list \<Rightarrow> bytes list" where
  "usage_ids rows = map er_request_id (filter (\<lambda>r. er_kind r = ENTRY_KIND_USAGE) rows)"

definition refs_of :: "EntryKind \<Rightarrow> entry_row list \<Rightarrow> bytes list" where
  "refs_of k rows = map er_ref (filter (\<lambda>r. er_kind r = k) rows)"

definition balances_ok :: "(bytes \<rightharpoonup> BalanceRow) \<Rightarrow> bool" where
  "balances_ok m \<longleftrightarrow> finite (dom m) \<and>
     (\<forall>i b. m i = Some b \<longrightarrow> length i = 32 \<and> br_identity_id b = i \<and> 0 \<le> br_credits b \<and> br_credits b < 2 ^ 63)"

definition chain_inv :: "ledger_env \<Rightarrow> store \<Rightarrow> bool" where
  "chain_inv env s \<longleftrightarrow> seqs_ok (st_entries s) \<and>
     (\<forall>r\<in>set (st_entries s). (\<exists>b. row_body (le_crypto env) r b) \<and> er_tracker_sig r = ed_sign (le_crypto env) (le_key env) (er_canonical r)) \<and>
     distinct (usage_ids (st_entries s)) \<and> distinct (refs_of ENTRY_KIND_TRANSFER_OUT (st_entries s)) \<and>
     distinct (refs_of ENTRY_KIND_TRANSFER_IN (st_entries s)) \<and> balances_ok (st_balances s)"

lemma chain_inv_empty: "chain_inv env empty_store"
  by (simp add: chain_inv_def empty_store_def seqs_ok_def usage_ids_def refs_of_def balances_ok_def)

definition deltas_ok :: "balanceDelta list \<Rightarrow> bool" where
  "deltas_ok ds \<longleftrightarrow> (\<forall>d\<in>set ds. is_i64 (bd_delta d))"

text \<open>The effect of a successful append, as one fact.\<close>

definition appended :: "ledger_env \<Rightarrow> faults \<Rightarrow> appendInput \<Rightarrow> store \<Rightarrow> EntryBody \<Rightarrow> Entry \<Rightarrow> store \<Rightarrow> bool" where
  "appended env flt inp s body e s' \<longleftrightarrow> (\<exists>canonical us bal.
     ap_body inp = Some body \<and> entry_matrix body \<and> check_single_use flt body s = None \<and>
     check_participant_sigs (le_crypto env) inp = None \<and>
     pb_entry (le_crypto env) body = Some canonical \<and>
     applyDeltas flt (eb_seq body) (eb_timestamp body) (ap_deltas inp) s = Inr us \<and>
     upsert_balances flt us (st_balances s) = Inr bal \<and>
     sql_u64 (eb_seq body) \<and> sql_u64 (eb_cost_credits body) \<and> sql_u64 (eb_timestamp body) \<and>
     (\<forall>r\<in>set (st_entries s). er_seq r \<noteq> eb_seq body \<and> er_hash r \<noteq> sha256 (le_crypto env) canonical) \<and>
     e = \<lparr>en_body = Some body, en_consumer_sig = ap_consumer_sig inp, en_seeder_sig = ap_seeder_sig inp,
          en_tracker_sig = ed_sign (le_crypto env) (le_key env) canonical\<rparr> \<and>
     s' = s\<lparr>st_entries := st_entries s @ [mk_row body e (sha256 (le_crypto env) canonical) canonical],
            st_balances := bal\<rparr>)"

lemma AppendEntry_cases:
  assumes "AppendEntry cr flt inp s = (res, s')" "ai_entry inp = Some e" "en_body e = Some body"
    "pb_entry cr body = Some canonical"
  shows "(\<exists>x. res = Inl x \<and> s' = s) \<or>
    (\<exists>bal. res = Inr (eb_seq body) \<and> upsert_balances flt (ai_balances inp) (st_balances s) = Inr bal \<and>
     sql_u64 (eb_seq body) \<and> sql_u64 (eb_cost_credits body) \<and> sql_u64 (eb_timestamp body) \<and>
     (\<forall>r\<in>set (st_entries s). er_seq r \<noteq> eb_seq body \<and> er_hash r \<noteq> ai_hash inp) \<and>
     s' = s\<lparr>st_entries := st_entries s @ [mk_row body e (ai_hash inp) canonical], st_balances := bal\<rparr>)"
  using assms
  by (auto simp: AppendEntry_def DeterministicMarshal_def list_ex_iff split: if_splits sum.splits)

lemma appendLocked_cases:
  assumes "appendLocked env flt inp v s = (res, s')"
  shows "(\<exists>e. res = Inl e \<and> s' = s) \<or> (\<exists>body e. res = Inr e \<and> appended env flt inp s body e s' \<and>
    (v \<longrightarrow> check_tip flt body s = None))"
proof (cases "ap_body inp")
  case None
  then show ?thesis using assms by (auto simp: appendLocked_def)
next
  case (Some body)
  let ?cr = "le_crypto env"
  show ?thesis
  proof (cases "pb_entry ?cr body")
    case None
    then show ?thesis using assms Some
      by (auto simp: appendLocked_def SignEntry_def DeterministicMarshal_def split: if_splits option.splits)
  next
    case canonical: (Some canonical)
    note H = Hash_Inr [THEN iffD2]
    have hash: "Hash ?cr (Some body) = Inr (sha256 ?cr canonical)"
      using canonical by (simp add: Hash_Inr)
    show ?thesis
    proof (cases "\<exists>e. res = Inl e \<and> s' = s")
      case True
      then show ?thesis by simp
    next
      case False
      let ?e = "\<lparr>en_body = Some body, en_consumer_sig = ap_consumer_sig inp,
                en_seeder_sig = ap_seeder_sig inp, en_tracker_sig = ed_sign ?cr (le_key env) canonical\<rparr>"
      from assms Some hash canonical False obtain us where
        tip: "v \<longrightarrow> check_tip flt body s = None" and valid: "ValidateEntryBody (Some body) = None" and
        single: "check_single_use flt body s = None" and sigs: "check_participant_sigs ?cr inp = None" and
        us: "applyDeltas flt (eb_seq body) (eb_timestamp body) (ap_deltas inp) s = Inr us" and
        app: "(case AppendEntry ?cr flt \<lparr>ai_entry = Some ?e, ai_hash = sha256 ?cr canonical, ai_balances = us\<rparr> s of
           (Inl x, s') \<Rightarrow> (Inl (LStore ''ledger: append'' x), s') | (Inr _, s') \<Rightarrow> (Inr ?e, s')) = (res, s')"
        by (auto simp: appendLocked_def SignEntry_def DeterministicMarshal_def Let_def
            split: if_splits option.splits sum.splits prod.splits)
      obtain res1 s1 where A: "AppendEntry ?cr flt \<lparr>ai_entry = Some ?e, ai_hash = sha256 ?cr canonical, ai_balances = us\<rparr> s = (res1, s1)"
        by force
      from AppendEntry_cases [OF A, of ?e body canonical] app A False canonical
      show ?thesis using tip valid single sigs us Some
        by (auto simp: appended_def entry_body_valid_iff)
    qed
  qed
qed


definition extends :: "EntryBody \<Rightarrow> store \<Rightarrow> bool" where
  "extends body s \<longleftrightarrow> eb_prev_hash body = end_hash (zeros 32) (st_entries s) \<and>
     eb_seq body = of_nat (length (st_entries s)) + 1"

lemma check_tip_extends:
  "seqs_ok (st_entries s) \<Longrightarrow> check_tip flt body s = None \<Longrightarrow> extends body s"
  by (auto simp: check_tip_def extends_def Tip_cases split: sum.splits if_splits)

lemma usage_ids_snoc: "usage_ids (rs @ [r]) = usage_ids rs @ (if er_kind r = ENTRY_KIND_USAGE then [er_request_id r] else [])"
  by (simp add: usage_ids_def)

lemma refs_of_snoc: "refs_of k (rs @ [r]) = refs_of k rs @ (if er_kind r = k then [er_ref r] else [])"
  by (simp add: refs_of_def)

lemma check_single_use_None:
  assumes "check_single_use flt body s = None"
  shows "eb_kind body = ENTRY_KIND_USAGE \<Longrightarrow> eb_request_id body \<notin> set (usage_ids (st_entries s))"
    and "eb_kind body = ENTRY_KIND_TRANSFER_OUT \<or> eb_kind body = ENTRY_KIND_TRANSFER_IN \<Longrightarrow>
      eb_ref body \<notin> set (refs_of (eb_kind body) (st_entries s))"
  using assms
  by (auto simp: check_single_use_def HasUsageRequestID_def HasTransferRef_def list_ex_iff usage_ids_def
      refs_of_def Let_def split: if_splits)

definition credits_of :: "(bytes \<rightharpoonup> BalanceRow) \<Rightarrow> bytes \<Rightarrow> int" where
  "credits_of m i = opt_val br_credits (m i)"

lemma credits_of_bounds: "balances_ok m \<Longrightarrow> 0 \<le> credits_of m i \<and> credits_of m i < 2 ^ 63"
  by (cases "m i") (auto simp: credits_of_def balances_ok_def)

lemma Balance_credits: "Balance flt i s = Inr (b, found) \<Longrightarrow> br_credits b = credits_of (st_balances s) i"
  by (auto simp: Balance_def zero_balance_def credits_of_def split: if_splits option.splits)

lemma applyDeltas_Inr:
  assumes "balances_ok (st_balances s)" "deltas_ok ds" "applyDeltas flt sq ts ds s = Inr us"
  shows "us = map (\<lambda>d. \<lparr>bu_identity_id = bd_identity_id d,
       bu_credits = credits_of (st_balances s) (bd_identity_id d) + bd_delta d, bu_last_seq = sq, bu_updated_at = ts\<rparr>) ds \<and>
     (\<forall>u\<in>set us. 0 \<le> bu_credits u \<and> bu_credits u < 2 ^ 63)"
  using assms(2,3)
proof (induction ds arbitrary: us)
  case Nil
  then show ?case by simp
next
  case (Cons d ds)
  let ?c = "credits_of (st_balances s) (bd_identity_id d)"
  from Cons.prems obtain us' where us': "applyDeltas flt sq ts ds s = Inr us'"
    and nn: "0 \<le> i64_add ?c (bd_delta d)"
    and us: "us = \<lparr>bu_identity_id = bd_identity_id d, bu_credits = i64_add ?c (bd_delta d), bu_last_seq = sq,
             bu_updated_at = ts\<rparr> # us'"
    by (auto simp: Let_def Balance_credits split: sum.splits if_splits)
  have ex: "i64_add ?c (bd_delta d) = ?c + bd_delta d"
    using credits_of_bounds [OF assms(1)] Cons.prems(1) nn
    by (intro i64_add_nonneg_exact) (auto simp: deltas_ok_def)
  have "i64_add ?c (bd_delta d) < 2 ^ 63"
    using is_i64_wrap [of "?c + bd_delta d"] by (simp add: i64_add_def is_i64_def)
  moreover have "deltas_ok ds" using Cons.prems(1) by (simp add: deltas_ok_def)
  ultimately show ?case using Cons.IH us' us ex nn by auto
qed

lemma upsert_balances_ok:
  assumes "upsert_balances flt us m = Inr m'" "balances_ok m" "\<forall>u\<in>set us. 0 \<le> bu_credits u \<and> bu_credits u < 2 ^ 63"
  shows "balances_ok m'"
  using assms
proof (induction us arbitrary: m)
  case (Cons u us)
  let ?m = "m(bu_identity_id u \<mapsto> \<lparr>br_identity_id = bu_identity_id u, br_credits = bu_credits u,
     br_last_seq = bu_last_seq u, br_updated_at = bu_updated_at u\<rparr>)"
  have "balances_ok ?m" using Cons.prems by (auto simp: balances_ok_def split: if_splits)
  then show ?case using Cons by (auto split: if_splits)
qed simp

lemma row_body_mk_row:
  assumes "pb_entry cr body = Some canonical" "entry_matrix body"
  shows "row_body cr (mk_row body e (sha256 cr canonical) canonical) body"
  using assms by (simp add: row_body_def mk_row_def)

lemma mk_row_sel [simp]:
  "er_seq (mk_row b e h c) = eb_seq b" "er_prev_hash (mk_row b e h c) = eb_prev_hash b"
  "er_hash (mk_row b e h c) = h" "er_kind (mk_row b e h c) = eb_kind b"
  "er_request_id (mk_row b e h c) = eb_request_id b" "er_ref (mk_row b e h c) = eb_ref b"
  "er_tracker_sig (mk_row b e h c) = en_tracker_sig e" "er_canonical (mk_row b e h c) = c"
  "er_cost_credits (mk_row b e h c) = eb_cost_credits b" "er_consumer_id (mk_row b e h c) = eb_consumer_id b"
  "er_seeder_id (mk_row b e h c) = eb_seeder_id b" "er_flags (mk_row b e h c) = eb_flags b"
  by (simp_all add: mk_row_def)

lemma seqs_ok_snoc:
  assumes "seqs_ok rows" "er_prev_hash r = end_hash (zeros 32) rows" "er_seq r = of_nat (length rows) + 1"
    "sql_u64 (er_seq r)"
  shows "seqs_ok (rows @ [r])"
proof -
  have "unat (er_seq r) = Suc (length rows)"
  proof -
    have "er_seq r = of_nat (Suc (length rows))" using assms(3) by simp
    moreover have "Suc (length rows) < 2 ^ 64" using assms(1) by (simp add: seqs_ok_def)
    ultimately show ?thesis by (simp add: unat_of_nat del: of_nat_Suc)
  qed
  then have "Suc (length rows) < 2 ^ 63" using assms(4) by (simp add: sql_u64_def)
  then show ?thesis using assms(1-3) by (simp add: seqs_ok_def linked_append add.commute)
qed

lemma appended_chain_inv:
  assumes "chain_inv env s" "appended env flt inp s body e s'" "extends body s" "deltas_ok (ap_deltas inp)"
  shows "chain_inv env s'"
proof -
  let ?cr = "le_crypto env"
  from assms(2) obtain canonical us bal where
    c: "pb_entry ?cr body = Some canonical" and m: "entry_matrix body" and
    single: "check_single_use flt body s = None" and
    us: "applyDeltas flt (eb_seq body) (eb_timestamp body) (ap_deltas inp) s = Inr us" and
    bal: "upsert_balances flt us (st_balances s) = Inr bal" and sq: "sql_u64 (eb_seq body)" and
    e: "en_tracker_sig e = ed_sign ?cr (le_key env) canonical" and
    s': "s' = s\<lparr>st_entries := st_entries s @ [mk_row body e (sha256 ?cr canonical) canonical], st_balances := bal\<rparr>"
    unfolding appended_def by auto
  have inv: "seqs_ok (st_entries s)" "balances_ok (st_balances s)"
    using assms(1) by (auto simp: chain_inv_def)
  have "seqs_ok (st_entries s')"
    unfolding s' using inv(1) assms(3) sq by (auto simp: extends_def intro!: seqs_ok_snoc)
  moreover have "balances_ok bal"
    using upsert_balances_ok [OF bal inv(2)] applyDeltas_Inr [OF inv(2) assms(4) us] by blast
  moreover note single_use = check_single_use_None [OF single]
  ultimately show ?thesis
    using assms(1) row_body_mk_row [OF c m, of e] e
    by (auto simp: chain_inv_def s' usage_ids_snoc refs_of_snoc dest: single_use)
qed

section \<open>The public appends\<close>

lemma signedAmount_Inr: "signedAmount a = Inr c \<longleftrightarrow> c = uint a \<and> uint a < 2 ^ 63"
  by (auto simp: signedAmount_def split: if_splits)

lemma uint_is_i64 [simp]:
  assumes "uint (a :: u64) < 9223372036854775808"
  shows "is_i64 (uint a)" "is_i64 (- uint a)"
proof -
  have nn: "0 \<le> uint a" by simp
  have p: "(2 :: int) ^ 63 = 9223372036854775808" by simp
  show "is_i64 (uint a)" unfolding is_i64_def p using assms nn by linarith
  show "is_i64 (- uint a)" unfolding is_i64_def p using assms nn by linarith
qed

lemma signedAmount_is_i64: "signedAmount a = Inr c \<Longrightarrow> is_i64 c \<and> is_i64 (- c) \<and> 0 \<le> c"
  by (auto simp: signedAmount_Inr)

text \<open>What each public append does: nothing and an error, or one \<open>appended\<close> row.\<close>

definition usage_input :: "UsageRecord \<Rightarrow> appendInput \<Rightarrow> EntryBody \<Rightarrow> bool" where
  "usage_input r inp body \<longleftrightarrow>
     ap_deltas inp = [\<lparr>bd_identity_id = rec_consumer_id r, bd_delta = - uint (rec_cost_credits r)\<rparr>,
                      \<lparr>bd_identity_id = rec_seeder_id r, bd_delta = uint (rec_cost_credits r)\<rparr>] \<and>
     uint (rec_cost_credits r) < 2 ^ 63 \<and> eb_kind body = ENTRY_KIND_USAGE \<and>
     eb_prev_hash body = rec_prev_hash r \<and> eb_seq body = rec_seq r \<and>
     eb_consumer_id body = rec_consumer_id r \<and> eb_seeder_id body = rec_seeder_id r \<and>
     eb_cost_credits body = rec_cost_credits r \<and> eb_request_id body = rec_request_id r \<and>
     eb_flags body = (if rec_consumer_sig_missing r then 1 else 0)"

lemma AppendUsage_cases:
  assumes "AppendUsage env flt r s = (res, s')"
  shows "(\<exists>e. res = Inl e \<and> s' = s) \<or> (\<exists>inp body e. res = Inr e \<and> appended env flt inp s body e s' \<and>
    check_tip flt body s = None \<and> usage_input r inp body \<and>
    VerifyUsageAssertion (le_crypto env) (rec_seeder_pub r) (rec_assertion r) (rec_seeder_sig r) \<and>
    (rec_consumer_sig_missing r \<or>
      VerifyUsageAssertion (le_crypto env) (rec_consumer_pub r) (rec_assertion r) (rec_consumer_sig r)))"
proof (cases "\<exists>e. res = Inl e \<and> s' = s")
  case False
  with assms obtain cost body inp where
    a: "appendEntry env flt inp s = (res, s')" and b: "ap_body inp = Some body" and
    u: "usage_input r inp body" and
    sigs: "VerifyUsageAssertion (le_crypto env) (rec_seeder_pub r) (rec_assertion r) (rec_seeder_sig r)"
      "rec_consumer_sig_missing r \<or>
      VerifyUsageAssertion (le_crypto env) (rec_consumer_pub r) (rec_assertion r) (rec_consumer_sig r)"
    unfolding AppendUsage_def usage_input_def
    by (fastforce split: if_splits sum.splits simp: signedAmount_Inr dest!: BuildUsageEntry_Inr)
  from appendLocked_cases [OF a [unfolded appendEntry_def]] False obtain body' e where
    "res = Inr e" "appended env flt inp s body' e s'" "check_tip flt body' s = None" by auto
  moreover from this b have "body' = body" by (auto simp: appended_def)
  ultimately show ?thesis using u sigs by blast
qed simp

definition tout_input :: "TransferOutRecord \<Rightarrow> appendInput \<Rightarrow> EntryBody \<Rightarrow> bool" where
  "tout_input r inp body \<longleftrightarrow>
     ap_deltas inp = [\<lparr>bd_identity_id = tor_consumer_id r, bd_delta = - uint (tor_amount r)\<rparr>] \<and>
     tor_amount r \<noteq> 0 \<and> uint (tor_amount r) < 2 ^ 63 \<and> eb_kind body = ENTRY_KIND_TRANSFER_OUT \<and>
     eb_prev_hash body = tor_prev_hash r \<and> eb_seq body = tor_seq r \<and>
     eb_consumer_id body = tor_consumer_id r \<and> eb_cost_credits body = tor_amount r \<and> eb_ref body = tor_transfer_ref r"

definition transfer_authorized :: "ledger_env \<Rightarrow> TransferOutRecord \<Rightarrow> bool" where
  "transfer_authorized env r \<longleftrightarrow> (\<exists>spki canonical.
     pkix (le_crypto env) (tor_consumer_pub r) = Some spki \<and> sha256 (le_crypto env) spki = tor_consumer_id r \<and>
     pb_transfer_req (le_crypto env) (tor_request r) = Some canonical \<and>
     Verify (le_crypto env) (tor_consumer_pub r) canonical (tor_consumer_sig r))"

lemma AppendTransferOut_cases:
  assumes "AppendTransferOut env flt r s = (res, s')"
  shows "(\<exists>e. res = Inl e \<and> s' = s) \<or> (\<exists>inp body e. res = Inr e \<and> appended env flt inp s body e s' \<and>
    check_tip flt body s = None \<and> tout_input r inp body \<and> transfer_authorized env r)"
proof (cases "\<exists>e. res = Inl e \<and> s' = s")
  case False
  with assms obtain body inp where
    a: "appendEntry env flt inp s = (res, s')" and b: "ap_body inp = Some body" and
    u: "tout_input r inp body" and au: "transfer_authorized env r"
    unfolding AppendTransferOut_def tout_input_def transfer_authorized_def
    by (fastforce split: if_splits sum.splits option.splits simp: signedAmount_Inr CanonicalTransferProofRequestPreSig_def
        DeterministicMarshal_def tor_request_def dest!: BuildTransferOutEntry_Inr)
  from appendLocked_cases [OF a [unfolded appendEntry_def]] False obtain body' e where
    "res = Inr e" "appended env flt inp s body' e s'" "check_tip flt body' s = None" by auto
  moreover from this b have "body' = body" by (auto simp: appended_def)
  ultimately show ?thesis using u au by blast
qed simp

definition tin_input :: "TransferInRecord \<Rightarrow> appendInput \<Rightarrow> EntryBody \<Rightarrow> bool" where
  "tin_input r inp body \<longleftrightarrow>
     ap_deltas inp = [\<lparr>bd_identity_id = tir_identity_id r, bd_delta = uint (tir_amount r)\<rparr>] \<and>
     tir_amount r \<noteq> 0 \<and> uint (tir_amount r) < 2 ^ 63 \<and> eb_kind body = ENTRY_KIND_TRANSFER_IN \<and>
     eb_prev_hash body = tir_prev_hash r \<and> eb_seq body = tir_seq r \<and>
     eb_cost_credits body = tir_amount r \<and> eb_ref body = tir_transfer_ref r"

lemma AppendTransferIn_cases:
  assumes "AppendTransferIn env flt r s = (res, s')"
  shows "(\<exists>e. res = Inl e \<and> s' = s) \<or> (\<exists>inp body e. res = Inr e \<and> appended env flt inp s body e s' \<and>
    check_tip flt body s = None \<and> tin_input r inp body)"
proof (cases "\<exists>e. res = Inl e \<and> s' = s")
  case False
  with assms obtain body inp where
    a: "appendEntry env flt inp s = (res, s')" and b: "ap_body inp = Some body" and u: "tin_input r inp body"
    unfolding AppendTransferIn_def tin_input_def
    by (fastforce split: if_splits sum.splits simp: signedAmount_Inr dest!: BuildTransferInEntry_Inr)
  from appendLocked_cases [OF a [unfolded appendEntry_def]] False obtain body' e where
    "res = Inr e" "appended env flt inp s body' e s'" "check_tip flt body' s = None" by auto
  moreover from this b have "body' = body" by (auto simp: appended_def)
  ultimately show ?thesis using u by blast
qed simp

definition grant_input :: "bytes \<Rightarrow> u64 \<Rightarrow> appendInput \<Rightarrow> EntryBody \<Rightarrow> bool" where
  "grant_input i amount inp body \<longleftrightarrow> ap_deltas inp = [\<lparr>bd_identity_id = i, bd_delta = uint amount\<rparr>] \<and>
     amount \<noteq> 0 \<and> uint amount < 2 ^ 63 \<and> length i = 32 \<and> eb_kind body = ENTRY_KIND_STARTER_GRANT \<and>
     eb_consumer_id body = i \<and> eb_cost_credits body = amount"

lemma IssueStarterGrant_cases:
  assumes "IssueStarterGrant env flt now i amount s = (res, s')" "seqs_ok (st_entries s)"
  shows "(\<exists>e. res = Inl e \<and> s' = s) \<or> (\<exists>inp body e. res = Inr e \<and> appended env flt inp s body e s' \<and>
    extends body s \<and> grant_input i amount inp body)"
proof (cases "\<exists>e. res = Inl e \<and> s' = s")
  case False
  with assms(1) obtain delta where am: "amount \<noteq> 0" "length i = 32" "signedAmount amount = Inr delta" and
    w: "appendEntryWithBuilder env flt now (grant_builder i amount delta) s = (res, s')"
    by (auto simp: IssueStarterGrant_def split: if_splits sum.splits)
  from w False obtain t prev sq inp where
    t: "Tip flt s = Inr t" and pos: "expected_tip t = (prev, sq)" and
    bl: "grant_builder i amount delta prev sq (unixSecondsU now) = Inr inp" and
    a: "appendLocked env flt inp False s = (res, s')"
    by (auto simp: appendEntryWithBuilder_def split: sum.splits prod.splits)
  from bl am obtain body where b: "ap_body inp = Some body" and g: "grant_input i amount inp body" and
    pos': "eb_prev_hash body = prev" "eb_seq body = sq"
    by (auto simp: grant_builder_def grant_input_def signedAmount_Inr split: sum.splits dest!: BuildStarterGrantEntry_Inr)
  have "extends body s" using Tip_cases [OF assms(2) t] pos pos' by (simp add: extends_def)
  moreover from appendLocked_cases [OF a] False obtain body' e where
    "res = Inr e" "appended env flt inp s body' e s'" by auto
  moreover from this b have "body' = body" by (auto simp: appended_def)
  ultimately show ?thesis using g by blast
qed simp


section \<open>Runs of the ledger\<close>

text \<open>
  One step of the ledger: any public append with any arguments and any database faults, or one
  rollup. \<open>ledger_reach\<close> is what a tracker's store can become.
\<close>

inductive ledger_step :: "ledger_env \<Rightarrow> store \<Rightarrow> store \<Rightarrow> bool" for env where
  step_usage: "AppendUsage env flt r s = (res, s') \<Longrightarrow> ledger_step env s s'"
| step_transfer_out: "AppendTransferOut env flt ro s = (res, s') \<Longrightarrow> ledger_step env s s'"
| step_transfer_in: "AppendTransferIn env flt ri s = (res, s') \<Longrightarrow> ledger_step env s s'"
| step_grant: "IssueStarterGrant env flt now i amount s = (res, s') \<Longrightarrow> ledger_step env s s'"
| step_rollup: "RunRollupOnce env flt hour s = (err, s') \<Longrightarrow> ledger_step env s s'"

definition ledger_reach :: "ledger_env \<Rightarrow> store \<Rightarrow> bool" where
  "ledger_reach env s \<longleftrightarrow> (ledger_step env)\<^sup>*\<^sup>* empty_store s"

inductive_simps ledger_step_iff: "ledger_step env s s'"

lemma RunRollupOnce_cases:
  assumes "RunRollupOnce env flt hour s = (err, s')"
  shows "s' = s \<or> (\<exists>leaves. st_merkle s hour = None \<and> LeavesForHour flt hour s = Inr leaves \<and> leaves \<noteq> [] \<and>
    err = None \<and> length (merkleHash (le_crypto env) leaves) = 32 \<and>
    s' = s\<lparr>st_merkle := (st_merkle s)(hour \<mapsto> (merkleHash (le_crypto env) leaves,
      ed_sign (le_crypto env) (le_key env) (merkleRootSignPreimage hour (merkleHash (le_crypto env) leaves))))\<rparr>)"
  using assms
  by (auto simp: RunRollupOnce_def GetMerkleRoot_def PutMerkleRoot_def Let_def
      split: if_splits option.splits sum.splits st_err.splits)

text \<open>Either a step leaves entries and balances alone, or it appended one row that extends the chain.\<close>

lemma ledger_step_cases:
  assumes "ledger_step env s s'" "chain_inv env s"
  shows "st_entries s' = st_entries s \<and> st_balances s' = st_balances s \<or>
    (\<exists>flt inp body e. appended env flt inp s body e s' \<and> extends body s \<and> deltas_ok (ap_deltas inp) \<and>
      ((\<exists>r. usage_input r inp body) \<or> (\<exists>r. tout_input r inp body) \<or> (\<exists>r. tin_input r inp body) \<or>
       (\<exists>i a. grant_input i a inp body)))"
proof -
  have seqs: "seqs_ok (st_entries s)" using assms(2) by (simp add: chain_inv_def)
  have d: "usage_input r inp body \<or> tout_input ro inp body \<or> tin_input ri inp body \<or> grant_input i a inp body \<Longrightarrow>
      deltas_ok (ap_deltas inp)" for r ro ri i a inp body
    by (auto simp: usage_input_def tout_input_def tin_input_def grant_input_def deltas_ok_def)
  from assms(1) show ?thesis
  proof cases
    case step_usage
    then show ?thesis using AppendUsage_cases [OF step_usage] check_tip_extends [OF seqs] d by blast
  next
    case step_transfer_out
    then show ?thesis using AppendTransferOut_cases [OF step_transfer_out] check_tip_extends [OF seqs] d by blast
  next
    case step_transfer_in
    then show ?thesis using AppendTransferIn_cases [OF step_transfer_in] check_tip_extends [OF seqs] d by blast
  next
    case step_grant
    then show ?thesis using IssueStarterGrant_cases [OF step_grant seqs] d by blast
  next
    case step_rollup
    then show ?thesis using RunRollupOnce_cases [OF step_rollup] by auto
  qed
qed

lemma ledger_step_inv [inv_rules]: "ledger_step env s s' \<Longrightarrow> chain_inv env s \<Longrightarrow> chain_inv env s'"
  using ledger_step_cases appended_chain_inv by (metis chain_inv_def)

text \<open>
  The store only grows: rows are added at the end, a published Merkle root and a balance row are
  never removed, and a root is never changed.
\<close>

definition grows :: "store \<Rightarrow> store \<Rightarrow> bool" where
  "grows s s' \<longleftrightarrow> (\<exists>rs. st_entries s' = st_entries s @ rs) \<and> st_merkle s \<subseteq>\<^sub>m st_merkle s' \<and>
     dom (st_balances s) \<subseteq> dom (st_balances s')"

lemma upsert_balances_dom: "upsert_balances flt us m = Inr m' \<Longrightarrow> dom m \<subseteq> dom m'"
proof (induction us arbitrary: m)
  case (Cons u us)
  let ?b = "\<lparr>br_identity_id = bu_identity_id u, br_credits = bu_credits u, br_last_seq = bu_last_seq u,
    br_updated_at = bu_updated_at u\<rparr>"
  from Cons.prems have "upsert_balances flt us (m(bu_identity_id u \<mapsto> ?b)) = Inr m'"
    by (simp split: if_split_asm)
  from Cons.IH [OF this] show ?case unfolding dom_def by (auto split: if_splits)
qed simp

lemma appended_grows: "appended env flt inp s body e s' \<Longrightarrow> grows s s'"
  by (auto simp: appended_def grows_def dest!: upsert_balances_dom)

lemma RunRollupOnce_grows: "RunRollupOnce env flt hour s = (err, s') \<Longrightarrow> grows s s'"
  by (auto dest!: RunRollupOnce_cases simp: grows_def map_le_def)

lemma ledger_step_grows:
  assumes "ledger_step env s s'" "chain_inv env s"
  shows "grows s s'"
proof -
  have seqs: "seqs_ok (st_entries s)" using assms(2) by (simp add: chain_inv_def)
  have refl: "grows s s" by (simp add: grows_def)
  from assms(1) show ?thesis
    by cases (blast dest: AppendUsage_cases AppendTransferOut_cases AppendTransferIn_cases
        IssueStarterGrant_cases [OF _ seqs] RunRollupOnce_grows intro: appended_grows refl)+
qed

interpretation chain: monotone_system empty_store "ledger_step env" "chain_inv env" grows for env
proof
  show "chain_inv env empty_store" by (rule chain_inv_empty)
  show "grows s s" for s by (simp add: grows_def)
  show "grows s t \<Longrightarrow> grows t u \<Longrightarrow> grows s u" for s t u
    by (auto simp: grows_def intro: map_le_trans)
qed (auto intro: ledger_step_inv ledger_step_grows)

lemma ledger_reach_inv: "ledger_reach env s \<Longrightarrow> chain_inv env s"
  unfolding ledger_reach_def by (rule chain.reach_inv)

lemma ledger_grows: "ledger_reach env s \<Longrightarrow> (ledger_step env)\<^sup>*\<^sup>* s t \<Longrightarrow> grows s t"
  unfolding ledger_reach_def by (rule chain.reach_R)

end
