(* ===== verification/TB_Accounts.thy ===== *)
theory TB_Accounts
  imports TB_Chain
begin

text \<open>
  The balances table as an account book, and the accounting identity that ties it to the chain:
  usage moves credits between two accounts, grants and transfers in create them, transfers out
  destroy them.
\<close>

section \<open>Balances as an account book\<close>

text \<open>
  The abstract view of the balances table: a total function from identities to credits. The
  abstract operations are \<open>acct_add\<close> (credit or debit one account) and their composition.
\<close>

definition abs_bal :: "store \<Rightarrow> bytes \<Rightarrow> int" where
  "abs_bal s = credits_of (st_balances s)"

definition acct_add :: "bytes \<Rightarrow> int \<Rightarrow> (bytes \<Rightarrow> int) \<Rightarrow> bytes \<Rightarrow> int" where
  "acct_add i d m = m(i := m i + d)"

definition total_credits :: "store \<Rightarrow> int" where
  "total_credits s = msum br_credits (st_balances s)"

definition row_value :: "entry_row \<Rightarrow> int" where
  "row_value r = (case er_kind r of
     ENTRY_KIND_USAGE \<Rightarrow> (if er_consumer_id r = er_seeder_id r then uint (er_cost_credits r) else 0)
   | ENTRY_KIND_TRANSFER_OUT \<Rightarrow> - uint (er_cost_credits r)
   | ENTRY_KIND_TRANSFER_IN \<Rightarrow> uint (er_cost_credits r)
   | ENTRY_KIND_STARTER_GRANT \<Rightarrow> uint (er_cost_credits r)
   | _ \<Rightarrow> 0)"

lemma credits_of_upd: "credits_of (m(i \<mapsto> b)) = (credits_of m)(i := br_credits b)"
  by (auto simp: credits_of_def fun_eq_iff)

lemma upsert_one:
  assumes "upsert_balances flt [u] m = Inr m'" "finite (dom m)"
  shows "credits_of m' = (credits_of m)(bu_identity_id u := bu_credits u)"
    and "msum br_credits m' = msum br_credits m - credits_of m (bu_identity_id u) + bu_credits u"
    and "finite (dom m')"
  using assms by (auto simp: credits_of_upd msum_upd credits_of_def split: if_splits)

lemma upsert_two:
  assumes "upsert_balances flt [u, v] m = Inr m'" "finite (dom m)"
  shows "credits_of m' = (credits_of m)(bu_identity_id u := bu_credits u, bu_identity_id v := bu_credits v)"
    and "msum br_credits m' = msum br_credits m - credits_of m (bu_identity_id u) + bu_credits u
      - ((credits_of m)(bu_identity_id u := bu_credits u)) (bu_identity_id v) + bu_credits v"
proof -
  from assms(1) obtain m1 where 1: "upsert_balances flt [u] m = Inr m1" and 2: "upsert_balances flt [v] m1 = Inr m'"
    by (auto split: if_splits)
  note a = upsert_one [OF 1 assms(2)]
  note b = upsert_one [OF 2 a(3)]
  show "credits_of m' = (credits_of m)(bu_identity_id u := bu_credits u, bu_identity_id v := bu_credits v)"
    using a(1) b(1) by simp
  show "msum br_credits m' = msum br_credits m - credits_of m (bu_identity_id u) + bu_credits u
      - ((credits_of m)(bu_identity_id u := bu_credits u)) (bu_identity_id v) + bu_credits v"
    using a(1,2) b(2) by simp
qed

text \<open>What an append did to the balances table and the entries table.\<close>

lemma appended_effect:
  assumes "appended env flt inp s body e s'" "balances_ok (st_balances s)" "deltas_ok (ap_deltas inp)"
  obtains canonical us where "st_entries s' = st_entries s @ [mk_row body e (sha256 (le_crypto env) canonical) canonical]"
    "us = map (\<lambda>d. \<lparr>bu_identity_id = bd_identity_id d, bu_credits = abs_bal s (bd_identity_id d) + bd_delta d,
       bu_last_seq = eb_seq body, bu_updated_at = eb_timestamp body\<rparr>) (ap_deltas inp)"
    "upsert_balances flt us (st_balances s) = Inr (st_balances s')" "finite (dom (st_balances s))"
    "\<forall>u\<in>set us. 0 \<le> bu_credits u" "pb_entry (le_crypto env) body = Some canonical"
    "st_merkle s' = st_merkle s"
proof -
  from assms(1) obtain canonical us where c: "pb_entry (le_crypto env) body = Some canonical" and
    us: "applyDeltas flt (eb_seq body) (eb_timestamp body) (ap_deltas inp) s = Inr us" and
    bal: "upsert_balances flt us (st_balances s) = Inr (st_balances s')" and
    ent: "st_entries s' = st_entries s @ [mk_row body e (sha256 (le_crypto env) canonical) canonical]" and
    mk: "st_merkle s' = st_merkle s"
    by (auto simp: appended_def)
  show thesis
    using applyDeltas_Inr [OF assms(2,3) us] assms(2) c bal ent mk
    by (intro that [of canonical us]) (auto simp: abs_bal_def balances_ok_def)
qed

lemma appended_one:
  assumes "appended env flt inp s body e s'" "balances_ok (st_balances s)" "is_i64 d"
    "ap_deltas inp = [\<lparr>bd_identity_id = i, bd_delta = d\<rparr>]"
  shows "abs_bal s' = acct_add i d (abs_bal s)" "total_credits s' = total_credits s + d" "0 \<le> abs_bal s i + d"
proof -
  have "deltas_ok (ap_deltas inp)" using assms by (simp add: deltas_ok_def)
  from appended_effect [OF assms(1,2) this] obtain us where
    us: "us = [\<lparr>bu_identity_id = i, bu_credits = abs_bal s i + d, bu_last_seq = eb_seq body, bu_updated_at = eb_timestamp body\<rparr>]"
    and up: "upsert_balances flt us (st_balances s) = Inr (st_balances s')" and fin: "finite (dom (st_balances s))"
    and nn: "\<forall>u\<in>set us. 0 \<le> bu_credits u"
    using assms(4) by auto
  note one = upsert_one [OF up [unfolded us] fin]
  show "abs_bal s' = acct_add i d (abs_bal s)"
    using one(1) by (simp add: abs_bal_def acct_add_def)
  show "total_credits s' = total_credits s + d"
    using one(2) by (simp add: total_credits_def abs_bal_def)
  show "0 \<le> abs_bal s i + d" using nn us by simp
qed

lemma appended_two:
  assumes "appended env flt inp s body e s'" "balances_ok (st_balances s)" "is_i64 c" "is_i64 (- c)"
    "ap_deltas inp = [\<lparr>bd_identity_id = i, bd_delta = - c\<rparr>, \<lparr>bd_identity_id = j, bd_delta = c\<rparr>]"
  shows "i \<noteq> j \<Longrightarrow> abs_bal s' = acct_add j c (acct_add i (- c) (abs_bal s))"
    and "i = j \<Longrightarrow> abs_bal s' = acct_add i c (abs_bal s)"
    and "total_credits s' = total_credits s + (if i = j then c else 0)" and "c \<le> abs_bal s i"
proof -
  have "deltas_ok (ap_deltas inp)" using assms by (simp add: deltas_ok_def)
  from appended_effect [OF assms(1,2) this] obtain us where
    us: "us = [\<lparr>bu_identity_id = i, bu_credits = abs_bal s i - c, bu_last_seq = eb_seq body, bu_updated_at = eb_timestamp body\<rparr>,
      \<lparr>bu_identity_id = j, bu_credits = abs_bal s j + c, bu_last_seq = eb_seq body, bu_updated_at = eb_timestamp body\<rparr>]"
    and up: "upsert_balances flt us (st_balances s) = Inr (st_balances s')" and fin: "finite (dom (st_balances s))"
    and nn: "\<forall>u\<in>set us. 0 \<le> bu_credits u"
    using assms(5) by auto
  note two = upsert_two [OF up [unfolded us] fin]
  show "i \<noteq> j \<Longrightarrow> abs_bal s' = acct_add j c (acct_add i (- c) (abs_bal s))"
    and "i = j \<Longrightarrow> abs_bal s' = acct_add i c (abs_bal s)"
    using two(1) by (auto simp: abs_bal_def acct_add_def)
  show "total_credits s' = total_credits s + (if i = j then c else 0)"
    using two(2) by (auto simp: total_credits_def abs_bal_def)
  show "c \<le> abs_bal s i" using nn us by simp
qed

lemma ledger_step_supply:
  assumes "ledger_step env s s'" "chain_inv env s"
  shows "total_credits s' - total_credits s = (\<Sum>r\<leftarrow>st_entries s'. row_value r) - (\<Sum>r\<leftarrow>st_entries s. row_value r)"
  using ledger_step_cases [OF assms]
proof
  assume "st_entries s' = st_entries s \<and> st_balances s' = st_balances s"
  then show ?thesis by (simp add: total_credits_def)
next
  assume "\<exists>flt inp body e. appended env flt inp s body e s' \<and> extends body s \<and> deltas_ok (ap_deltas inp) \<and>
      ((\<exists>r. usage_input r inp body) \<or> (\<exists>r. tout_input r inp body) \<or> (\<exists>r. tin_input r inp body) \<or>
       (\<exists>i a. grant_input i a inp body))"
  then obtain flt inp body e where app: "appended env flt inp s body e s'" and d: "deltas_ok (ap_deltas inp)" and
    k: "(\<exists>r. usage_input r inp body) \<or> (\<exists>r. tout_input r inp body) \<or> (\<exists>r. tin_input r inp body) \<or>
       (\<exists>i a. grant_input i a inp body)" by blast
  have b: "balances_ok (st_balances s)" using assms(2) by (simp add: chain_inv_def)
  obtain canonical where ent: "st_entries s' = st_entries s @ [mk_row body e (sha256 (le_crypto env) canonical) canonical]"
    using appended_effect [OF app b d] by metis
  let ?row = "mk_row body e (sha256 (le_crypto env) canonical) canonical"
  from k have "total_credits s' = total_credits s + row_value ?row"
  proof (elim disjE exE)
    fix r assume "usage_input r inp body"
    then show ?thesis
      using appended_two(3) [OF app b, of "uint (rec_cost_credits r)" "rec_consumer_id r" "rec_seeder_id r"]
      by (auto simp: usage_input_def row_value_def)
  next
    fix r assume "tout_input r inp body"
    then show ?thesis
      using appended_one(2) [OF app b, of "- uint (tor_amount r)" "tor_consumer_id r"]
      by (auto simp: tout_input_def row_value_def)
  next
    fix r assume "tin_input r inp body"
    then show ?thesis
      using appended_one(2) [OF app b, of "uint (tir_amount r)" "tir_identity_id r"]
      by (auto simp: tin_input_def row_value_def)
  next
    fix i a assume "grant_input i a inp body"
    then show ?thesis
      using appended_one(2) [OF app b, of "uint a" i] by (auto simp: grant_input_def row_value_def)
  qed
  then show ?thesis by (simp add: ent)
qed

end
