(* ===== verification/TB_Audit.thy ===== *)
theory TB_Audit
  imports TB_Accounts
begin

text \<open>
  The integrity audit (\<open>audit.go\<close>) accepts every chain the ledger can build, and what it accepts is
  bound to the tip hash. The Merkle root of \<open>rollup.go\<close> binds the leaves of an hour, up to the
  padding of odd levels.
\<close>

section \<open>The integrity audit\<close>

text \<open>The documented round trip of the protobuf codec on entry bodies.\<close>

definition codec_ok :: "crypto \<Rightarrow> bool" where
  "codec_ok cr \<longleftrightarrow> (\<forall>b c. pb_entry cr b = Some c \<longrightarrow> pb_entry_dec cr c = Some b)"

text \<open>A list of rows that the audit accepts from the anchor \<open>prev\<close>.\<close>

fun audited :: "crypto \<Rightarrow> bytes \<Rightarrow> entry_row list \<Rightarrow> bool" where
  "audited cr prev [] = True"
| "audited cr prev (r # rs) = ((\<exists>b c. pb_entry_dec cr (er_canonical r) = Some b \<and> eb_prev_hash b = prev \<and>
     pb_entry cr b = Some c \<and> er_hash r = sha256 cr c) \<and> audited cr (er_hash r) rs)"

lemma audited_append: "audited cr prev (rs @ qs) \<longleftrightarrow> audited cr prev rs \<and> audited cr (end_hash prev rs) qs"
  by (induction rs arbitrary: prev) (auto simp: end_hash_def)

definition scan_row :: "crypto \<Rightarrow> entry_row \<Rightarrow> st_err + (Entry \<times> bytes)" where
  "scan_row cr r = (case scanEntry cr r of Inl e \<Rightarrow> Inl e | Inr e \<Rightarrow> Inr (e, er_hash r))"

lemma scan_row_Inr:
  "scan_row cr r = Inr eh \<Longrightarrow> snd eh = er_hash r \<and> (\<exists>b. en_body (fst eh) = Some b \<and> pb_entry_dec cr (er_canonical r) = Some b)"
  by (auto simp: scan_row_def scanEntry_def split: option.splits)

lemma traverse_Inr: "traverse f xs = Inr ys \<longleftrightarrow> list_all2 (\<lambda>x y. f x = Inr y) xs ys"
proof (induction xs arbitrary: ys)
  case (Cons x xs)
  show ?case by (cases ys) (auto split: sum.splits simp flip: Cons.IH)
qed auto

lemma EntriesWithHashSince_Inr:
  "EntriesWithHashSince cr flt since limit s = Inr batch \<longleftrightarrow>
     sql_u64 since \<and> \<not> flt (SqlEntriesSince since) \<and>
     list_all2 (\<lambda>r eh. scan_row cr r = Inr eh) (rows_since since limit s) batch"
  unfolding EntriesWithHashSince_def scan_row_def traverse_Inr [symmetric] by auto

text \<open>The seq column agrees with the body: what the primary key projects.\<close>

definition seq_column_ok :: "crypto \<Rightarrow> entry_row list \<Rightarrow> bool" where
  "seq_column_ok cr rows \<longleftrightarrow> distinct (map er_seq rows) \<and>
     (\<forall>r\<in>set rows. \<forall>b. pb_entry_dec cr (er_canonical r) = Some b \<longrightarrow> eb_seq b = er_seq r)"

definition seqs_match :: "crypto \<Rightarrow> entry_row list \<Rightarrow> bool" where
  "seqs_match cr rs \<longleftrightarrow> (\<forall>r\<in>set rs. \<forall>b. pb_entry_dec cr (er_canonical r) = Some b \<longrightarrow> eb_seq b = er_seq r)"

lemma audit_batch_sound:
  assumes "list_all2 (\<lambda>r eh. scan_row cr r = Inr eh) rs batch" "seqs_match cr rs"
    "\<forall>r\<in>set rs. er_seq r \<le> until"
  shows "audit_batch cr until batch prev cur = AuditNext h c \<Longrightarrow>
      audited cr prev rs \<and> h = end_hash prev rs \<and> c = (if rs = [] then cur else er_seq (last rs))"
    and "audit_batch cr until batch prev cur \<noteq> AuditReturn None"
  using assms
proof (induction rs batch arbitrary: prev cur rule: list_all2_induct)
  case Nil
  { case 1 then show ?case by (simp add: end_hash_def) next case 2 then show ?case by simp }
next
  case (Cons r rs eh es)
  obtain b where b: "en_body (fst eh) = Some b" "pb_entry_dec cr (er_canonical r) = Some b" and sh: "snd eh = er_hash r"
    using scan_row_Inr [OF Cons.hyps(1)] by blast
  { case 1
    then have seqb: "eb_seq b = er_seq r" "er_seq r \<le> until" using b(2) by (auto simp: seqs_match_def)
    from 1(1) b sh obtain c' where c': "pb_entry cr b = Some c'" "er_hash r = sha256 cr c'" "eb_prev_hash b = prev"
      and rest: "audit_batch cr until es (er_hash r) (er_seq r) = AuditNext h c"
      using seqb by (cases eh) (auto split: if_splits sum.splits simp: Hash_Inr)
    have m: "seqs_match cr rs" "\<forall>r\<in>set rs. er_seq r \<le> until" using 1 by (auto simp: seqs_match_def)
    from Cons.IH(1) [OF rest m] b c' show ?case by (auto simp: end_hash_def) }
  { case 2
    then have seqb: "eb_seq b = er_seq r" "er_seq r \<le> until" using b(2) by (auto simp: seqs_match_def)
    have m: "seqs_match cr rs" "\<forall>r\<in>set rs. er_seq r \<le> until" using 2 by (auto simp: seqs_match_def)
    show ?case using Cons.IH(2) [OF m] b sh seqb
      by (cases eh) (auto split: if_splits sum.splits simp: Hash_Inr) }
qed

lemma sorted_filter_gt:
  assumes "sorted_wrt (<) (map er_seq (xs @ ys))" "xs \<noteq> []"
  shows "filter (\<lambda>r. er_seq r > er_seq (last xs)) (xs @ ys) = ys"
proof (cases xs rule: rev_cases)
  case (snoc as a)
  have "\<forall>x\<in>set as. er_seq x < er_seq a" "\<forall>y\<in>set ys. er_seq a < er_seq y"
    using assms(1) snoc by (auto simp: sorted_wrt_append)
  then show ?thesis unfolding snoc by (auto simp: filter_empty_conv intro!: filter_True)
qed (use assms in simp)

lemma order_by_seq_strict:
  "distinct (map er_seq rows) \<Longrightarrow> sorted_wrt (<) (map er_seq (order_by_seq rows))"
proof -
  assume d: "distinct (map er_seq rows)"
  then have "distinct (map er_seq (order_by_seq rows))"
    by (simp add: order_by_seq_def distinct_map)
  moreover have "sorted (map er_seq (order_by_seq rows))" by (simp add: order_by_seq_def)
  ultimately show ?thesis by (simp add: strict_sorted_iff)
qed

lemma set_order_by_seq [simp]: "set (order_by_seq rows) = set rows"
  by (simp add: order_by_seq_def)

lemma audit_loop_sound:
  assumes "seq_column_ok cr (st_entries s)" "\<forall>r\<in>set (st_entries s). er_seq r \<le> until"
    "audit_loop cr flt s fuel until prev cur = Some None"
  shows "audited cr prev (filter (\<lambda>r. er_seq r > cur) (order_by_seq (st_entries s)))"
  using assms(3)
proof (induction fuel arbitrary: prev cur)
  case (Suc fuel)
  let ?all = "order_by_seq (st_entries s)"
  let ?fs = "filter (\<lambda>r. er_seq r > cur) ?all"
  have strict: "sorted_wrt (<) (map er_seq ?all)"
    using assms(1) order_by_seq_strict by (auto simp: seq_column_ok_def)
  show ?case
  proof (cases "cur < until")
    case False
    then have "?fs = []" using assms(2) by (auto simp: filter_empty_conv)
    then show ?thesis by simp
  next
    case True
    with Suc.prems obtain batch where batch: "EntriesWithHashSince cr flt cur auditBatchSize s = Inr batch"
      by (auto split: sum.splits)
    let ?page = "take 1000 ?fs"
    have page: "rows_since cur auditBatchSize s = ?page" by (simp add: rows_since_def auditBatchSize_def)
    have scan: "list_all2 (\<lambda>r eh. scan_row cr r = Inr eh) ?page batch"
      using batch page by (simp add: EntriesWithHashSince_Inr)
    show ?thesis
    proof (cases "batch = []")
      case True
      then have "?page = []" using scan by simp
      then show ?thesis by simp
    next
      case ne: False
      have sub: "set ?page \<subseteq> set (st_entries s)" by (auto dest: in_set_takeD)
      have m: "seqs_match cr ?page" "\<forall>r\<in>set ?page. er_seq r \<le> until"
        using assms(1,2) sub by (auto simp: seqs_match_def seq_column_ok_def)
      from Suc.prems True batch ne audit_batch_sound(2) [OF scan m, of prev cur] obtain h c where
        nxt: "audit_batch cr until batch prev cur = AuditNext h c" and
        rest: "audit_loop cr flt s fuel until h c = Some None"
        by (auto split: audit_out.splits)
      from audit_batch_sound(1) [OF scan m nxt] ne scan have
        ap: "audited cr prev ?page" and h: "h = end_hash prev ?page" and c: "c = er_seq (last ?page)" and pne: "?page \<noteq> []"
        by auto
      have last_gt: "er_seq (last ?page) > cur"
        using last_in_set [OF pne] by (auto dest: in_set_takeD)
      have fs: "sorted_wrt (<) (map er_seq (?page @ drop 1000 ?fs))"
        using strict by (simp add: sorted_wrt_map sorted_wrt_filter)
      have "filter (\<lambda>r. er_seq r > c) ?all = filter (\<lambda>r. er_seq r > c) ?fs"
        using last_gt c by (auto simp: filter_filter intro!: filter_cong)
      also have "\<dots> = drop 1000 ?fs"
        using sorted_filter_gt [OF fs pne] c by (simp only: append_take_drop_id)
      finally have "audited cr h (drop 1000 ?fs)" using Suc.IH [OF rest] by simp
      then have "audited cr prev (?page @ drop 1000 ?fs)" using ap h by (simp only: audited_append)
      then show ?thesis by (simp only: append_take_drop_id)
    qed
  qed
qed simp

text \<open>
  Two audited lists of the same length that end in the same hash hold the same bodies, unless two
  of the encodings that were hashed collide.
\<close>

definition canon_of :: "crypto \<Rightarrow> entry_row list \<Rightarrow> bytes set" where
  "canon_of cr rs = {c. \<exists>r\<in>set rs. \<exists>b. pb_entry_dec cr (er_canonical r) = Some b \<and> pb_entry cr b = Some c}"

lemma canon_of_append: "canon_of cr (rs @ qs) = canon_of cr rs \<union> canon_of cr qs"
  by (auto simp: canon_of_def)

lemma audited_same_tip:
  assumes "codec_ok cr" "audited cr prev rs" "audited cr prev qs" "length rs = length qs"
    "end_hash prev rs = end_hash prev qs" "inj_on (sha256 cr) (canon_of cr rs \<union> canon_of cr qs)"
  shows "map (\<lambda>r. pb_entry_dec cr (er_canonical r)) rs = map (\<lambda>r. pb_entry_dec cr (er_canonical r)) qs"
  using assms(2-6)
proof (induction rs arbitrary: qs rule: rev_induct)
  case (snoc r rs)
  then obtain q qs' where qs: "qs = qs' @ [q]" "length rs = length qs'"
    by (metis append_butlast_last_id length_0_conv length_append_singleton length_butlast diff_Suc_1 nat.simps(3))
  from snoc.prems qs obtain b c b' c' where
    r: "pb_entry_dec cr (er_canonical r) = Some b" "pb_entry cr b = Some c" "er_hash r = sha256 cr c" "eb_prev_hash b = end_hash prev rs"
    and q: "pb_entry_dec cr (er_canonical q) = Some b'" "pb_entry cr b' = Some c'" "er_hash q = sha256 cr c'" "eb_prev_hash b' = end_hash prev qs'"
    by (auto simp: audited_append)
  have "er_hash r = er_hash q" using snoc.prems(4) qs by (simp add: end_hash_def)
  moreover have "c \<in> canon_of cr [r]" "c' \<in> canon_of cr [q]" using r q by (auto simp: canon_of_def)
  ultimately have "c = c'" using r(3) q(3) snoc.prems(5) qs by (auto simp: canon_of_append dest: inj_onD)
  then have bb: "b = b'" using r(2) q(2) assms(1) by (metis codec_ok_def option.inject)
  have "inj_on (sha256 cr) (canon_of cr rs \<union> canon_of cr qs')"
    using snoc.prems(5) qs by (auto simp: canon_of_append elim: inj_on_subset)
  then have "map (\<lambda>r. pb_entry_dec cr (er_canonical r)) rs = map (\<lambda>r. pb_entry_dec cr (er_canonical r)) qs'"
    using snoc.IH [of qs'] snoc.prems qs r(4) q(4) bb by (auto simp: audited_append)
  then show ?case using bb r(1) q(1) qs by simp
qed simp

lemma rows_after:
  assumes "seqs_ok rows" "k \<le> length rows"
  shows "filter (\<lambda>r. er_seq r > of_nat k) rows = drop k rows"
proof -
  have k: "unat (of_nat k :: u64) = k" using assms by (simp add: seqs_ok_def unat_of_nat)
  have "filter (\<lambda>r. er_seq r > of_nat k) (take k rows) = []"
    using assms by (auto simp: filter_empty_conv in_set_conv_nth word_less_nat_alt seqs_ok_unat k)
  moreover have "filter (\<lambda>r. er_seq r > of_nat k) (drop k rows) = drop k rows"
    using assms by (auto simp: filter_id_conv in_set_conv_nth word_less_nat_alt seqs_ok_unat k)
  ultimately show ?thesis by (metis append_Nil append_take_drop_id filter_append)
qed

lemma audit_batch_complete:
  assumes "codec_ok cr" "linked prev n rs" "\<forall>r\<in>set rs. \<exists>b. row_body cr r b"
    "\<forall>r\<in>set rs. er_seq r \<le> until"
  shows "\<exists>batch. list_all2 (\<lambda>r eh. scan_row cr r = Inr eh) rs batch \<and>
    audit_batch cr until batch prev cur = AuditNext (end_hash prev rs) (if rs = [] then cur else er_seq (last rs))"
  using assms(2-4)
proof (induction rs arbitrary: prev n cur)
  case (Cons r rs)
  from Cons.prems obtain b where b: "row_body cr r b" by auto
  then have dec: "pb_entry_dec cr (er_canonical r) = Some b" using assms(1) by (auto simp: row_body_def codec_ok_def)
  from Cons.IH [of "er_hash r" "n + 1" "er_seq r"] Cons.prems obtain batch where
    batch: "list_all2 (\<lambda>r eh. scan_row cr r = Inr eh) rs batch" and
    run: "audit_batch cr until batch (er_hash r) (er_seq r) = AuditNext (end_hash (er_hash r) rs) (if rs = [] then er_seq r else er_seq (last rs))"
    by auto
  obtain e where e: "scan_row cr r = Inr (e, er_hash r)" "en_body e = Some b"
    using dec by (auto simp: scan_row_def scanEntry_def)
  have "Hash cr (Some b) = Inr (er_hash r)" using b by (simp add: Hash_Inr row_body_def)
  moreover have "eb_seq b = er_seq r" "eb_prev_hash b = prev" "\<not> er_seq r > until"
    using b Cons.prems by (auto simp: row_body_def)
  ultimately show ?case using batch run e
    by (intro exI [of _ "(e, er_hash r) # batch"]) (auto simp: end_hash_def)
qed (auto simp: end_hash_def)

lemma audit_loop_complete:
  assumes "codec_ok (le_crypto env)" "chain_inv env s" "\<And>q. \<not> flt (SqlEntriesSince q)"
    "k \<le> length (st_entries s)" "length (st_entries s) \<le> k + 1000 * fuel"
  shows "audit_loop (le_crypto env) flt s (Suc fuel) (of_nat (length (st_entries s)))
    (end_hash (zeros 32) (take k (st_entries s))) (of_nat k) = Some None"
  using assms(4-5)
proof (induction fuel arbitrary: k)
  case 0
  then show ?case by simp
next
  case (Suc fuel)
  let ?rows = "st_entries s" and ?cr = "le_crypto env"
  let ?page = "take 1000 (drop k ?rows)"
  have sq: "seqs_ok ?rows" and rows: "\<forall>r\<in>set ?rows. \<exists>b. row_body ?cr r b"
    using assms(2) by (auto simp: chain_inv_def)
  have uk: "unat (of_nat j :: u64) = j" if "j \<le> length ?rows" for j
    using sq that by (simp add: seqs_ok_def unat_of_nat)
  show ?case
  proof (cases "k = length ?rows")
    case True
    then show ?thesis by simp
  next
    case False
    with Suc.prems have lt: "k < length ?rows" by simp
    have page: "rows_since (of_nat k) auditBatchSize s = ?page"
      using sq Suc.prems(1) by (simp add: rows_since_def auditBatchSize_def rows_after)
    have "linked (zeros 32) 1 (take k ?rows @ ?page @ drop 1000 (drop k ?rows))"
      using sq unfolding seqs_ok_def append_take_drop_id by simp
    then have link: "linked (end_hash (zeros 32) (take k ?rows)) (1 + of_nat k) ?page"
      using lt by (simp only: linked_append length_take min_absorb2 less_imp_le)
    have le: "\<forall>r\<in>set ?page. er_seq r \<le> of_nat (length ?rows)"
    proof
      fix r assume "r \<in> set ?page"
      then have "r \<in> set ?rows" by (auto dest: in_set_takeD in_set_dropD)
      then obtain i where "i < length ?rows" "r = ?rows ! i" by (auto simp: in_set_conv_nth)
      then show "er_seq r \<le> of_nat (length ?rows)"
        using seqs_ok_unat [OF sq] uk [of "length ?rows"] by (simp add: word_le_nat_alt)
    qed
    have rb: "\<forall>r\<in>set ?page. \<exists>b. row_body ?cr r b" using rows by (auto dest: in_set_takeD in_set_dropD)
    from audit_batch_complete [OF assms(1) link rb le, of "of_nat k"] obtain batch where
      scan: "list_all2 (\<lambda>r eh. scan_row ?cr r = Inr eh) ?page batch" and
      run: "audit_batch ?cr (of_nat (length ?rows)) batch (end_hash (zeros 32) (take k ?rows)) (of_nat k) =
        AuditNext (end_hash (end_hash (zeros 32) (take k ?rows)) ?page) (if ?page = [] then of_nat k else er_seq (last ?page))"
      by blast
    have "sql_u64 (of_nat k)" using sq lt uk [of k] by (simp add: sql_u64_def seqs_ok_def)
    then have ents: "EntriesWithHashSince ?cr flt (of_nat k) auditBatchSize s = Inr batch"
      using scan page assms(3) by (simp add: EntriesWithHashSince_Inr)
    have ne: "?page \<noteq> []" "batch \<noteq> []" using lt scan by auto
    let ?k = "min (length ?rows) (k + 1000)"
    have app: "take k ?rows @ ?page = take ?k ?rows" using lt by (simp add: take_add min_def)
    have hash: "end_hash (end_hash (zeros 32) (take k ?rows)) ?page = end_hash (zeros 32) (take ?k ?rows)"
      unfolding app [symmetric] using ne by (simp add: end_hash_def)
    have "last ?page = ?rows ! (?k - 1)"
      using lt by (simp add: last_conv_nth min_def) (simp add: add.commute)?
    then have "er_seq (last ?page) = of_nat ?k"
      using seqs_ok_unat [OF sq, of "?k - 1"] lt uk [of ?k] by (simp add: word_unat_eq_iff)
    then have cur: "AuditNext (end_hash (zeros 32) (take ?k ?rows)) (if ?page = [] then of_nat k else er_seq (last ?page)) =
      AuditNext (end_hash (zeros 32) (take ?k ?rows)) (of_nat ?k)" using ne by simp
    have "(of_nat k :: u64) < of_nat (length ?rows)"
      using lt uk [of k] uk [of "length ?rows"] by (simp add: word_less_nat_alt)
    then have step: "audit_loop ?cr flt s (Suc (Suc fuel)) (of_nat (length ?rows)) (end_hash (zeros 32) (take k ?rows)) (of_nat k) =
      audit_loop ?cr flt s (Suc fuel) (of_nat (length ?rows)) (end_hash (zeros 32) (take ?k ?rows)) (of_nat ?k)"
      using ents run ne hash cur by (simp del: audit_loop.simps add: audit_loop.simps(2) [of _ _ _ "Suc fuel"])
    show ?thesis unfolding step using Suc.prems lt by (intro Suc.IH) (auto simp: min_def)
  qed
qed

lemma AssertChainIntegrity_complete:
  assumes "codec_ok (le_crypto env)" "chain_inv env s" "\<not> flt SqlTip" "\<And>q. \<not> flt (SqlEntriesSince q)"
    "length (st_entries s) \<le> 1000 * fuel"
  shows "AssertChainIntegrity (le_crypto env) flt (Suc fuel) 0 0 s = Some None"
proof -
  have sq: "seqs_ok (st_entries s)" using assms(2) by (simp add: chain_inv_def)
  show ?thesis
  proof (cases "st_entries s" rule: rev_cases)
    case Nil
    then show ?thesis using assms(3) by (simp add: AssertChainIntegrity_def audit_anchor_def Tip_def tip_row_def order_by_seq_def)
  next
    case (snoc ys y)
    have "er_seq ((ys @ [y]) ! length ys) = 1 + of_nat (length ys)"
      using sq unfolding seqs_ok_def snoc by (intro linked_seq_nth) auto
    then have "Tip flt s = Inr (of_nat (length (st_entries s)), er_hash y, True)"
      using assms(3) sq snoc by (simp add: Tip_def tip_row_last)
    then show ?thesis using audit_loop_complete [OF assms(1,2), of flt 0 fuel] assms(4,5)
      by (simp add: AssertChainIntegrity_def audit_anchor_def end_hash_def del: audit_loop.simps)
  qed
qed

lemma tip_row_max:
  assumes "tip_row rows = Some t" "r \<in> set rows"
  shows "er_seq r \<le> er_seq t"
proof -
  obtain qs where qs: "order_by_seq rows = qs @ [t]"
    using assms(1) by (cases "order_by_seq rows" rule: rev_cases) (auto simp: tip_row_def)
  have "sorted (map er_seq (qs @ [t]))" unfolding qs [symmetric] by (simp add: order_by_seq_def)
  moreover have "r \<in> set (qs @ [t])" unfolding qs [symmetric] using assms(2) by simp
  ultimately show ?thesis by (auto simp: sorted_append)
qed

lemma AssertChainIntegrity_sound:
  assumes "AssertChainIntegrity cr flt fuel 0 0 s = Some None" "seq_column_ok cr (st_entries s)"
    "\<forall>r\<in>set (st_entries s). 0 < er_seq r"
  shows "audited cr (zeros 32) (order_by_seq (st_entries s))"
proof (cases "tip_row (st_entries s)")
  case None
  then have "order_by_seq (st_entries s) = []"
    by (auto simp: tip_row_def split: list.splits)
  then show ?thesis by simp
next
  case (Some t)
  with assms(1) have "audit_loop cr flt s fuel (er_seq t) (zeros 32) 0 = Some None"
    by (auto simp: AssertChainIntegrity_def audit_anchor_def Tip_def split: if_splits)
  from audit_loop_sound [OF assms(2) _ this] tip_row_max [OF Some]
  have "audited cr (zeros 32) (filter (\<lambda>r. er_seq r > 0) (order_by_seq (st_entries s)))" by blast
  moreover have "filter (\<lambda>r. er_seq r > 0) (order_by_seq (st_entries s)) = order_by_seq (st_entries s)"
    using assms(3) by (intro filter_True) simp
  ultimately show ?thesis by simp
qed

text \<open>A chain the ledger built is audited row by row.\<close>

lemma linked_audited:
  assumes "codec_ok cr" "linked prev n rs" "\<forall>r\<in>set rs. \<exists>b. row_body cr r b"
  shows "audited cr prev rs"
  using assms(2,3)
proof (induction rs arbitrary: prev n)
  case (Cons r rs)
  then obtain b where b: "row_body cr r b" by auto
  then have "pb_entry_dec cr (er_canonical r) = Some b" using assms(1) by (auto simp: row_body_def codec_ok_def)
  then show ?case using Cons b by (auto simp: row_body_def)
qed simp

section \<open>Merkle roots\<close>

definition hash32 :: "crypto \<Rightarrow> bool" where
  "hash32 cr \<longleftrightarrow> (\<forall>m. length (sha256 cr m) = 32)"

definition leaves32 :: "bytes list \<Rightarrow> bool" where
  "leaves32 xs \<longleftrightarrow> (\<forall>x\<in>set xs. length x = 32)"

lemma merkle_pairs_leaves32: "hash32 cr \<Longrightarrow> leaves32 (merkle_pairs cr xs)"
  by (induction cr xs rule: merkle_pairs.induct) (auto simp: leaves32_def hash32_def)

lemma merkle_pad_leaves32: "leaves32 xs \<Longrightarrow> leaves32 (merkle_pad xs)"
  by (cases xs rule: rev_cases) (auto simp: merkle_pad_def leaves32_def)

lemma length_merkle_level: "length (merkle_pairs cr (merkle_pad xs)) = (length xs + 1) div 2"
  by (auto simp: length_merkle_pad mod_2_eq_odd elim!: oddE)

lemma merkle_loop_single:
  assumes "xs \<noteq> []" "hash32 cr" "leaves32 xs"
  shows "\<exists>rt. merkle_loop cr xs = [rt] \<and> length rt = 32"
  using assms
proof (induction cr xs rule: merkle_loop.induct)
  case (1 cr level)
  show ?case
  proof (cases "length level > 1")
    case True
    have "merkle_pairs cr (merkle_pad level) \<noteq> []"
      using True length_merkle_level [of cr level] by fastforce
    then show ?thesis using 1 True merkle_pairs_leaves32 by (simp add: merkle_loop.simps [of _ level])
  next
    case False
    with 1 obtain x where "level = [x]" by (cases level) auto
    then show ?thesis using 1 by (simp add: merkle_loop.simps [of _ "[x]"] leaves32_def)
  qed
qed

lemma merkleHash_length: "xs \<noteq> [] \<Longrightarrow> hash32 cr \<Longrightarrow> leaves32 xs \<Longrightarrow> length (merkleHash cr xs) = 32"
  using merkle_loop_single [of xs cr] by (auto simp: merkleHash_def)

text \<open>The messages that are hashed on the way to a root.\<close>

fun pair_inputs :: "bytes list \<Rightarrow> bytes list" where
  "pair_inputs (a # b # xs) = (a @ b) # pair_inputs xs"
| "pair_inputs _ = []"

function merkle_inputs :: "crypto \<Rightarrow> bytes list \<Rightarrow> bytes list" where
  "merkle_inputs cr level = (if length level > 1
     then pair_inputs (merkle_pad level) @ merkle_inputs cr (merkle_pairs cr (merkle_pad level)) else [])"
  by pat_completeness auto
termination
  by (relation "measure (\<lambda>(cr, level). length level)") (auto simp: length_merkle_pad)

declare merkle_inputs.simps [simp del]

lemma merkle_pairs_inject:
  assumes "merkle_pairs cr xs = merkle_pairs cr ys" "length xs = length ys" "even (length xs)"
    "leaves32 xs" "leaves32 ys" "inj_on (sha256 cr) (set (pair_inputs xs) \<union> set (pair_inputs ys))"
  shows "xs = ys"
  using assms
proof (induction cr xs arbitrary: ys rule: merkle_pairs.induct)
  case (1 cr a b xs)
  then obtain c d zs where ys: "ys = c # d # zs" by (metis length_Suc_conv)
  have "a @ b = c @ d"
  proof (rule inj_onD [OF "1.prems"(6)])
    show "sha256 cr (a @ b) = sha256 cr (c @ d)" using "1.prems"(1) ys by simp
  qed (simp_all add: ys)
  then have "a = c" "b = d" using 1 ys by (auto simp: leaves32_def)
  moreover have "xs = zs"
    using "1.prems" ys by (intro "1.IH") (auto simp: leaves32_def)
  ultimately show ?case using ys by simp
qed auto

lemma merkle_pad_inject: "merkle_pad xs = merkle_pad ys \<Longrightarrow> length xs = length ys \<Longrightarrow> xs = ys"
  by (auto simp: merkle_pad_def split: if_splits)

lemma merkle_loop_inject:
  assumes "merkle_loop cr xs = merkle_loop cr ys" "length xs = length ys" "leaves32 xs" "leaves32 ys"
    "hash32 cr" "inj_on (sha256 cr) (set (merkle_inputs cr xs) \<union> set (merkle_inputs cr ys))"
  shows "xs = ys"
  using assms
proof (induction cr xs arbitrary: ys rule: merkle_loop.induct)
  case (1 cr xs)
  show ?case
  proof (cases "length xs > 1")
    case True
    let ?x = "merkle_pairs cr (merkle_pad xs)" and ?y = "merkle_pairs cr (merkle_pad ys)"
    have loop: "merkle_loop cr ?x = merkle_loop cr ?y"
      using 1(2,3) True by (simp add: merkle_loop.simps [of _ xs] merkle_loop.simps [of _ ys])
    have inp: "set (merkle_inputs cr xs) = set (pair_inputs (merkle_pad xs)) \<union> set (merkle_inputs cr ?x)"
      "set (merkle_inputs cr ys) = set (pair_inputs (merkle_pad ys)) \<union> set (merkle_inputs cr ?y)"
      using 1(3) True by (simp_all add: merkle_inputs.simps [of _ xs] merkle_inputs.simps [of _ ys])
    have inj: "inj_on (sha256 cr) (set (merkle_inputs cr ?x) \<union> set (merkle_inputs cr ?y))"
      "inj_on (sha256 cr) (set (pair_inputs (merkle_pad xs)) \<union> set (pair_inputs (merkle_pad ys)))"
      using "1.prems"(6) unfolding inp by (auto elim: inj_on_subset)
    have "?x = ?y"
      using 1(3) by (intro "1.IH" [OF True loop] merkle_pairs_leaves32 "1.prems"(5) inj) (simp add: length_merkle_level del: length_merkle_pairs)
    then have "merkle_pad xs = merkle_pad ys"
    proof (rule merkle_pairs_inject)
      show "length (merkle_pad xs) = length (merkle_pad ys)" "even (length (merkle_pad xs))"
        using "1.prems"(2) by (simp_all add: length_merkle_pad mod_2_eq_odd)
      show "leaves32 (merkle_pad xs)" "leaves32 (merkle_pad ys)"
        using "1.prems"(3,4) by (simp_all add: merkle_pad_leaves32)
    qed (rule inj(2))
    then show ?thesis using 1(3) by (rule merkle_pad_inject)
  next
    case False
    then show ?thesis using 1(2,3) by (simp add: merkle_loop.simps [of _ xs] merkle_loop.simps [of _ ys])
  qed
qed

lemma merkleHash_inject:
  assumes "merkleHash cr xs = merkleHash cr ys" "length xs = length ys" "leaves32 xs" "leaves32 ys"
    "hash32 cr" "inj_on (sha256 cr) (set (merkle_inputs cr xs) \<union> set (merkle_inputs cr ys))"
  shows "xs = ys"
proof (cases "xs = []")
  case False
  then have ne: "xs \<noteq> []" "ys \<noteq> []" using assms(2) by auto
  obtain a b where "merkle_loop cr xs = [a]" "merkle_loop cr ys = [b]"
    using merkle_loop_single [OF ne(1) assms(5,3)] merkle_loop_single [OF ne(2) assms(5,4)] by blast
  then have "merkle_loop cr xs = merkle_loop cr ys" using assms(1) ne by (simp add: merkleHash_def)
  then show ?thesis by (rule merkle_loop_inject [OF _ assms(2-6)])
qed (use assms in simp)

text \<open>An odd level is padded with its last node, so the root does not bind the number of leaves.\<close>

lemma merkleHash_duplicate:
  assumes "odd (length xs)" "length xs > 1"
  shows "merkleHash cr (xs @ [last xs]) = merkleHash cr xs"
proof -
  have "merkle_pad (xs @ [last xs]) = merkle_pad xs"
    using assms by (auto simp: merkle_pad_def mod_2_eq_odd)
  then show ?thesis using assms
    by (auto simp: merkleHash_def merkle_loop.simps [of _ xs] merkle_loop.simps [of _ "xs @ [last xs]"])
qed

end
