(* ===== verification/TB_Usage.thy ===== *)
theory TB_Usage
  imports TB_Audit
begin

text \<open>
  When a usage append succeeds: a record that both parties signed, that extends the tip, whose
  request id is new and whose cost the consumer can pay is accepted by a healthy database.
\<close>

definition usage_body :: "UsageRecord \<Rightarrow> EntryBody" where
  "usage_body r = \<lparr>eb_prev_hash = rec_prev_hash r, eb_seq = rec_seq r, eb_kind = ENTRY_KIND_USAGE,
     eb_consumer_id = rec_consumer_id r, eb_seeder_id = rec_seeder_id r, eb_model = rec_model r,
     eb_input_tokens = rec_input_tokens r, eb_output_tokens = rec_output_tokens r,
     eb_cost_credits = rec_cost_credits r, eb_timestamp = rec_timestamp r, eb_request_id = rec_request_id r,
     eb_flags = (if rec_consumer_sig_missing r then 1 else 0), eb_ref = zeros 32\<rparr>"

definition usage_admissible :: "ledger_env \<Rightarrow> UsageRecord \<Rightarrow> store \<Rightarrow> bool" where
  "usage_admissible env r s \<longleftrightarrow>
     VerifyUsageAssertion (le_crypto env) (rec_seeder_pub r) (rec_assertion r) (rec_seeder_sig r) \<and>
     (rec_consumer_sig_missing r \<or>
       VerifyUsageAssertion (le_crypto env) (rec_consumer_pub r) (rec_assertion r) (rec_consumer_sig r)) \<and>
     extends (usage_body r) s \<and> entry_matrix (usage_body r) \<and>
     rec_request_id r \<notin> set (usage_ids (st_entries s)) \<and>
     uint (rec_cost_credits r) \<le> abs_bal s (rec_consumer_id r) \<and>
     abs_bal s (rec_seeder_id r) + uint (rec_cost_credits r) < 2 ^ 63 \<and>
     sql_u64 (rec_seq r) \<and> sql_u64 (rec_timestamp r)"

text \<open>What the tracker's own key and encoder provide.\<close>

definition signer_ok :: "ledger_env \<Rightarrow> EntryBody \<Rightarrow> store \<Rightarrow> bool" where
  "signer_ok env body s \<longleftrightarrow> length (le_key env) = PrivateKeySize \<and> (\<exists>c. pb_entry (le_crypto env) body = Some c \<and>
     ed_sign (le_crypto env) (le_key env) c \<noteq> [] \<and>
     (\<forall>r\<in>set (st_entries s). er_hash r \<noteq> sha256 (le_crypto env) c))"

lemma check_tip_None:
  assumes "seqs_ok (st_entries s)" "extends body s"
  shows "check_tip (\<lambda>_. False) body s = None"
proof -
  obtain t where t: "Tip (\<lambda>_. False) s = Inr t" by (cases "tip_row (st_entries s)") (auto simp: Tip_def)
  show ?thesis using Tip_cases [OF assms(1) t] t assms(2) by (simp add: check_tip_def extends_def)
qed

lemma applyDeltas_ok:
  assumes "balances_ok (st_balances s)"
    "\<forall>d\<in>set ds. is_i64 (bd_delta d) \<and> 0 \<le> abs_bal s (bd_identity_id d) + bd_delta d \<and> abs_bal s (bd_identity_id d) + bd_delta d < 2 ^ 63"
  shows "\<exists>us. applyDeltas (\<lambda>_. False) sq ts ds s = Inr us \<and> map bu_identity_id us = map bd_identity_id ds \<and>
    (\<forall>u\<in>set us. bu_last_seq u = sq \<and> bu_updated_at u = ts)"
  using assms(2)
proof (induction ds)
  case (Cons d ds)
  then obtain us where us: "applyDeltas (\<lambda>_. False) sq ts ds s = Inr us" "map bu_identity_id us = map bd_identity_id ds"
    "\<forall>u\<in>set us. bu_last_seq u = sq \<and> bu_updated_at u = ts" by auto
  obtain b f where b: "Balance (\<lambda>_. False) (bd_identity_id d) s = Inr (b, f)"
    by (cases "st_balances s (bd_identity_id d)") (auto simp: Balance_def)
  have c: "br_credits b = abs_bal s (bd_identity_id d)" using Balance_credits [OF b] by (simp add: abs_bal_def)
  have "i64_add (br_credits b) (bd_delta d) = br_credits b + bd_delta d"
    using Cons.prems unfolding i64_add_def c by (intro i64_wrap_id) (simp add: is_i64_def)
  then show ?case using Cons.prems us b c by (auto simp: Let_def)
qed simp

lemma upsert_balances_succeeds:
  assumes "\<forall>u\<in>set us. length (bu_identity_id u) = 32 \<and> sql_u64 (bu_last_seq u) \<and> sql_u64 (bu_updated_at u)"
  shows "\<exists>m'. upsert_balances (\<lambda>_. False) us m = Inr m'"
  using assms by (induction us arbitrary: m) auto

lemma check_single_use_usage:
  "eb_kind body = ENTRY_KIND_USAGE \<Longrightarrow> eb_request_id body \<notin> set (usage_ids (st_entries s)) \<Longrightarrow>
   check_single_use (\<lambda>_. False) body s = None"
  by (force simp: check_single_use_def HasUsageRequestID_def list_ex_iff usage_ids_def)

lemma extends_fresh_seq:
  assumes "seqs_ok (st_entries s)" "extends body s" "r \<in> set (st_entries s)"
  shows "er_seq r \<noteq> eb_seq body"
proof -
  obtain i where i: "i < length (st_entries s)" "r = st_entries s ! i" using assms(3) by (auto simp: in_set_conv_nth)
  have "eb_seq body = of_nat (Suc (length (st_entries s)))" using assms(2) by (simp add: extends_def)
  moreover have "Suc (length (st_entries s)) < 2 ^ 64" using assms(1) by (simp add: seqs_ok_def)
  ultimately have "unat (eb_seq body) = Suc (length (st_entries s))" by (simp add: unat_of_nat del: of_nat_Suc)
  then show ?thesis using seqs_ok_unat [OF assms(1) i(1)] i by auto
qed

lemma appendEntry_succeeds:
  assumes "chain_inv env s" "ap_body inp = Some body" "extends body s" "entry_matrix body"
    "check_single_use (\<lambda>_. False) body s = None" "check_participant_sigs (le_crypto env) inp = None"
    "signer_ok env body s" "applyDeltas (\<lambda>_. False) (eb_seq body) (eb_timestamp body) (ap_deltas inp) s = Inr us"
    "\<forall>u\<in>set us. length (bu_identity_id u) = 32 \<and> bu_last_seq u = eb_seq body \<and> bu_updated_at u = eb_timestamp body"
    "sql_u64 (eb_seq body)" "sql_u64 (eb_cost_credits body)" "sql_u64 (eb_timestamp body)"
  shows "\<exists>e s'. appendEntry env (\<lambda>_. False) inp s = (Inr e, s')"
proof -
  let ?cr = "le_crypto env"
  have seqs: "seqs_ok (st_entries s)" using assms(1) by (simp add: chain_inv_def)
  from assms(7) obtain c where c: "pb_entry ?cr body = Some c" "length (le_key env) = PrivateKeySize"
    "ed_sign ?cr (le_key env) c \<noteq> []" "\<forall>r\<in>set (st_entries s). er_hash r \<noteq> sha256 ?cr c"
    by (auto simp: signer_ok_def)
  obtain bal where bal: "upsert_balances (\<lambda>_. False) us (st_balances s) = Inr bal"
    using upsert_balances_succeeds [of us "st_balances s"] assms(9,10,12) by auto
  have fresh: "\<not> list_ex (\<lambda>r. er_seq r = eb_seq body \<or> er_hash r = sha256 ?cr c) (st_entries s)"
    using extends_fresh_seq [OF seqs assms(3)] c(4) by (auto simp: list_ex_iff)
  have valid: "ValidateEntryBody (Some body) = None" using assms(4) by (simp add: entry_body_valid_iff)
  have hash: "Hash ?cr (Some body) = Inr (sha256 ?cr c)" using c(1) by (simp add: Hash_Inr)
  show ?thesis
    using assms(2,4,5,6,8,10-12) check_tip_None [OF seqs assms(3)] c bal fresh hash valid
    by (simp add: appendEntry_def appendLocked_def SignEntry_def DeterministicMarshal_def
        AppendEntry_def Let_def)
qed

lemma BuildUsageEntry_usage_body:
  assumes "entry_matrix (usage_body r)"
  shows "BuildUsageEntry \<lparr>ui_prev_hash = rec_prev_hash r, ui_seq = rec_seq r,
            ui_consumer_id = rec_consumer_id r, ui_seeder_id = rec_seeder_id r, ui_model = rec_model r,
            ui_input_tokens = rec_input_tokens r, ui_output_tokens = rec_output_tokens r,
            ui_cost_credits = rec_cost_credits r, ui_timestamp = rec_timestamp r,
            ui_request_id = rec_request_id r, ui_consumer_sig_missing = rec_consumer_sig_missing r\<rparr> = Inr (usage_body r)"
proof -
  have "rec_model r \<noteq> []" using assms by (simp add: usage_body_def entry_matrix_def)
  then show ?thesis using assms
    by (cases "rec_consumer_sig_missing r") (simp_all add: BuildUsageEntry_def usage_body_def)
qed

lemma move_bounds:
  assumes "0 \<le> (c :: int)" "c \<le> a" "a < 2 ^ 63" "0 \<le> b" "b + c < 2 ^ 63"
  shows "is_i64 (- c) \<and> is_i64 c \<and> 0 \<le> a + - c \<and> a + - c < 2 ^ 63 \<and> 0 \<le> b + c"
  using assms by (simp add: is_i64_def)

lemma AppendUsage_succeeds:
  assumes "chain_inv env s" "usage_admissible env r s" "signer_ok env (usage_body r) s"
  shows "\<exists>e s'. AppendUsage env (\<lambda>_. False) r s = (Inr e, s')"
proof -
  note adm = assms(2) [unfolded usage_admissible_def]
  have m: "entry_matrix (usage_body r)" and ids: "length (rec_consumer_id r) = 32" "length (rec_seeder_id r) = 32"
    using adm by (auto simp: entry_matrix_def usage_body_def)
  have bal: "balances_ok (st_balances s)" using assms(1) by (simp add: chain_inv_def)
  have cb: "abs_bal s i < 2 ^ 63" "0 \<le> abs_bal s i" for i using credits_of_bounds [OF bal] by (auto simp: abs_bal_def)
  have c63: "uint (rec_cost_credits r) < 2 ^ 63" using adm cb by (meson le_less_trans)
  let ?inp = "\<lparr>ap_body = Some (usage_body r),
     ap_consumer_sig = (if rec_consumer_sig_missing r then [] else rec_consumer_sig r),
     ap_consumer_pub = (if rec_consumer_sig_missing r then [] else rec_consumer_pub r),
     ap_seeder_sig = rec_seeder_sig r, ap_seeder_pub = rec_seeder_pub r,
     ap_deltas = [\<lparr>bd_identity_id = rec_consumer_id r, bd_delta = - uint (rec_cost_credits r)\<rparr>,
                  \<lparr>bd_identity_id = rec_seeder_id r, bd_delta = uint (rec_cost_credits r)\<rparr>],
     ap_sigs_pre_verified = True\<rparr>"
  have sel: "eb_kind (usage_body r) = ENTRY_KIND_USAGE" "eb_request_id (usage_body r) = rec_request_id r"
    "eb_seq (usage_body r) = rec_seq r" "eb_timestamp (usage_body r) = rec_timestamp r"
    "eb_cost_credits (usage_body r) = rec_cost_credits r" by (simp_all add: usage_body_def)
  have "\<forall>d\<in>set (ap_deltas ?inp). is_i64 (bd_delta d) \<and> 0 \<le> abs_bal s (bd_identity_id d) + bd_delta d \<and>
      abs_bal s (bd_identity_id d) + bd_delta d < 2 ^ 63"
    using move_bounds [OF uint_ge_0 [of "rec_cost_credits r"], of "abs_bal s (rec_consumer_id r)" "abs_bal s (rec_seeder_id r)"]
      adm cb c63 by simp
  from applyDeltas_ok [OF bal this] obtain us where
    us: "applyDeltas (\<lambda>_. False) (rec_seq r) (rec_timestamp r) (ap_deltas ?inp) s = Inr us"
    "map bu_identity_id us = [rec_consumer_id r, rec_seeder_id r]"
    "\<forall>u\<in>set us. bu_last_seq u = rec_seq r \<and> bu_updated_at u = rec_timestamp r"
    by (metis (no_types, lifting) appendInput.select_convs(6) balanceDelta.select_convs(1) list.simps(8) list.simps(9))
  have "bu_identity_id ` set us = {rec_consumer_id r, rec_seeder_id r}"
    using arg_cong [OF us(2), of set] by simp
  then have len: "\<forall>u\<in>set us. length (bu_identity_id u) = 32" using ids by (metis imageI insertE singletonD)
  have "sql_u64 (rec_cost_credits r)" using c63 by (simp add: sql_u64_code)
  then have "\<exists>e s'. appendEntry env (\<lambda>_. False) ?inp s = (Inr e, s')"
    using adm us(1,3) len m assms(1,3) sel
    by (intro appendEntry_succeeds [of env s ?inp "usage_body r" us]) (auto simp: check_single_use_usage check_participant_sigs_def)
  moreover note BuildUsageEntry_usage_body [OF m]
  moreover have "signedAmount (rec_cost_credits r) = Inr (uint (rec_cost_credits r))"
    using c63 by (simp add: signedAmount_Inr)
  moreover have "length (rec_seeder_sig r) = 64 \<and> length (rec_seeder_pub r) = 32"
    "rec_consumer_sig_missing r \<or> length (rec_consumer_sig r) = 64 \<and> length (rec_consumer_pub r) = 32"
    using adm VerifyUsageAssertion_lengths by blast+
  ultimately show ?thesis using adm by (auto simp: AppendUsage_def key_sizes)
qed

lemma chain_inv_seqs: "chain_inv env s \<Longrightarrow> seqs_ok (st_entries s)"
  and chain_inv_balances: "chain_inv env s \<Longrightarrow> balances_ok (st_balances s)"
  by (simp_all add: chain_inv_def)

text \<open>A record that no longer extends the tip is turned away, the ledger untouched.\<close>

lemma AppendUsage_stale:
  assumes "chain_inv env s" "\<not> flt SqlTip"
    "VerifyUsageAssertion (le_crypto env) (rec_seeder_pub r) (rec_assertion r) (rec_seeder_sig r)"
    "rec_consumer_sig_missing r \<or>
     VerifyUsageAssertion (le_crypto env) (rec_consumer_pub r) (rec_assertion r) (rec_consumer_sig r)"
    "uint (rec_cost_credits r) < 2 ^ 63" "entry_matrix (usage_body r)"
    "rec_prev_hash r \<noteq> end_hash (zeros 32) (st_entries s) \<or> rec_seq r \<noteq> of_nat (length (st_entries s)) + 1"
  shows "AppendUsage env flt r s = (Inl ErrStaleTip, s)"
proof -
  obtain t where t: "Tip flt s = Inr t" using assms(2) by (cases "tip_row (st_entries s)") (auto simp: Tip_def)
  have "check_tip flt (usage_body r) s = Some ErrStaleTip"
    using Tip_cases [OF chain_inv_seqs [OF assms(1)] t] t assms(7) by (auto simp: check_tip_def usage_body_def)
  moreover note built = BuildUsageEntry_usage_body [OF assms(6)]
  moreover have "length (rec_seeder_sig r) = 64 \<and> length (rec_seeder_pub r) = 32"
    "rec_consumer_sig_missing r \<or> length (rec_consumer_sig r) = 64 \<and> length (rec_consumer_pub r) = 32"
    using assms(3,4) VerifyUsageAssertion_lengths by blast+
  moreover have "signedAmount (rec_cost_credits r) = Inr (uint (rec_cost_credits r))"
    using assms(5) by (simp add: signedAmount_Inr)
  ultimately show ?thesis using assms(3,4) by (auto simp: AppendUsage_def appendEntry_def appendLocked_def key_sizes)
qed

end
