(* ===== verification/TB_Concrete.thy ===== *)
theory TB_Concrete
  imports TB_Usage
begin

text \<open>
  A concrete instance of the primitives (\<open>demo_crypto\<close>) and a small concrete ledger, on which the
  hypotheses of the theorems are discharged by evaluation. The codec is a length-prefixed
  encoding with an executable decoder; the hash is a checksum and the signature scheme only binds
  the public key and a prefix of the message: they satisfy the documented laws that the
  development relies on (fixed sizes, decoding inverts encoding, signatures verify), not security.
\<close>

section \<open>A concrete codec\<close>

fun enc_fields :: "bytes list \<Rightarrow> bytes" where
  "enc_fields [] = []"
| "enc_fields (f # fs) = of_nat (length f) # f @ enc_fields fs"

function dec_fields :: "bytes \<Rightarrow> bytes list" where
  "dec_fields [] = []"
| "dec_fields (n # bs) = take (unat n) bs # dec_fields (drop (unat n) bs)"
  by pat_completeness auto
termination
  by (relation "measure length") auto

lemma dec_enc_fields: "list_all (\<lambda>f. length f < 256) fs \<Longrightarrow> dec_fields (enc_fields fs) = fs"
  by (induction fs) (auto simp: unat_of_nat)

definition enc_num :: "'a::len word \<Rightarrow> bytes" where
  "enc_num w = map (\<lambda>i. of_bool (bit w i)) [0..<LENGTH('a)]"

definition dec_num :: "bytes \<Rightarrow> 'a::len word" where
  "dec_num bs = horner_sum of_bool 2 (map (\<lambda>b. b = 1) bs)"

lemma dec_enc_num [simp]: "dec_num (enc_num w) = (w :: 'a::len word)"
proof -
  have "map (\<lambda>b. b = 1) (enc_num w) = map (bit w) [0..<LENGTH('a)]" by (simp add: enc_num_def)
  then have "dec_num (enc_num w) = take_bit LENGTH('a) w"
    unfolding dec_num_def by (simp only: horner_sum_bit_eq_take_bit)
  then show ?thesis by simp
qed

fun enc_kind :: "EntryKind \<Rightarrow> bytes option" where
  "enc_kind ENTRY_KIND_UNSPECIFIED = Some [0]"
| "enc_kind ENTRY_KIND_USAGE = Some [1]"
| "enc_kind ENTRY_KIND_TRANSFER_OUT = Some [2]"
| "enc_kind ENTRY_KIND_TRANSFER_IN = Some [3]"
| "enc_kind ENTRY_KIND_STARTER_GRANT = Some [4]"
| "enc_kind (EntryKindOther n) = None"

definition dec_kind :: "bytes \<Rightarrow> EntryKind" where
  "dec_kind bs = (if bs = [1] then ENTRY_KIND_USAGE else if bs = [2] then ENTRY_KIND_TRANSFER_OUT
     else if bs = [3] then ENTRY_KIND_TRANSFER_IN else if bs = [4] then ENTRY_KIND_STARTER_GRANT
     else ENTRY_KIND_UNSPECIFIED)"

lemma dec_enc_kind: "enc_kind k = Some bs \<Longrightarrow> dec_kind bs = k"
  by (cases k) (auto simp: dec_kind_def)

definition enc_str :: "string \<Rightarrow> bytes" where
  "enc_str cs = map (\<lambda>c. of_nat (of_char c)) cs"

definition dec_str :: "bytes \<Rightarrow> string" where
  "dec_str bs = map (\<lambda>b. char_of (unat b)) bs"

lemma dec_enc_str [simp]: "dec_str (enc_str cs) = cs"
  by (simp add: dec_str_def enc_str_def comp_def unat_of_nat map_idI)

definition body_fields :: "EntryBody \<Rightarrow> bytes \<Rightarrow> bytes list" where
  "body_fields b k = [enc_num (eb_seq b), k, enc_num (eb_cost_credits b), enc_num (eb_timestamp b),
     enc_num (eb_input_tokens b), enc_num (eb_output_tokens b), enc_num (eb_flags b), eb_prev_hash b,
     eb_consumer_id b, eb_seeder_id b, enc_str (eb_model b), eb_request_id b, eb_ref b]"

definition enc_entry :: "EntryBody \<Rightarrow> bytes option" where
  "enc_entry b = (case enc_kind (eb_kind b) of None \<Rightarrow> None | Some k \<Rightarrow>
     if list_all (\<lambda>f. length f < 256) (body_fields b k) then Some (enc_fields (body_fields b k)) else None)"

definition dec_entry :: "bytes \<Rightarrow> EntryBody option" where
  "dec_entry c = (case dec_fields c of
     [sq, k, cost, ts, tin, tout, fl, prev, con, sdr, md, rid, rf] \<Rightarrow>
       Some \<lparr>eb_prev_hash = prev, eb_seq = dec_num sq, eb_kind = dec_kind k, eb_consumer_id = con,
         eb_seeder_id = sdr, eb_model = dec_str md, eb_input_tokens = dec_num tin, eb_output_tokens = dec_num tout,
         eb_cost_credits = dec_num cost, eb_timestamp = dec_num ts, eb_request_id = rid,
         eb_flags = dec_num fl, eb_ref = rf\<rparr>
   | _ \<Rightarrow> None)"

lemma dec_enc_entry: "enc_entry b = Some c \<Longrightarrow> dec_entry c = Some b"
proof -
  assume "enc_entry b = Some c"
  then obtain k where k: "enc_kind (eb_kind b) = Some k" and
    l: "list_all (\<lambda>f. length f < 256) (body_fields b k)" and c: "c = enc_fields (body_fields b k)"
    by (auto simp: enc_entry_def split: option.splits if_splits)
  show ?thesis unfolding dec_entry_def c dec_enc_fields [OF l]
    by (simp add: body_fields_def dec_enc_kind [OF k])
qed

section \<open>A concrete crypto suite and ledger\<close>

text \<open>A weighted sum of 32-byte blocks: every byte of the message reaches the digest.\<close>

function mix :: "byte \<Rightarrow> bytes \<Rightarrow> bytes \<Rightarrow> bytes" where
  "mix k acc m = (if m = [] then acc else mix (k + 1) (map2 (\<lambda>a b. a + k * b) acc (to_array 32 m)) (drop 32 m))"
  by pat_completeness auto
termination
  by (relation "measure (\<lambda>(k, acc, m). length m)") auto

declare mix.simps [simp del]

lemma length_mix: "length acc = 32 \<Longrightarrow> length (mix k acc m) = 32"
  by (induction k acc m rule: mix.induct) (subst mix.simps, simp)

definition demo_crypto :: crypto where
  "demo_crypto = \<lparr>
     ed_verify = (\<lambda>pub msg sig. sig = to_array 64 (pub @ msg)),
     ed_sign = (\<lambda>priv msg. to_array 64 (drop 32 priv @ msg)),
     sha256 = mix 1 (zeros 32),
     pkix = (\<lambda>pub. Some pub),
     pb_entry = enc_entry, pb_entry_dec = dec_entry,
     pb_balance = (\<lambda>b. Some (bs_identity_id b @ bs_chain_tip_hash b @ be64 (bs_chain_tip_seq b))),
     pb_envelope = (\<lambda>b. Some (enc_fields [])),
     pb_transfer_req = (\<lambda>r. Some (tq_identity_id r @ be64 (tq_amount r) @ tq_nonce r))\<rparr>"

lemma demo_codec: "codec_ok demo_crypto"
  by (simp add: codec_ok_def demo_crypto_def dec_enc_entry)

lemma demo_hash32: "hash32 demo_crypto"
  by (simp add: hash32_def demo_crypto_def length_mix)

definition demo_env :: ledger_env where
  "demo_env = \<lparr>le_crypto = demo_crypto, le_key = replicate 64 7\<rparr>"

definition no_faults :: faults where
  "no_faults c = False"

definition alice :: ident where "alice = replicate 32 1"
definition bob :: ident where "bob = replicate 32 2"

definition demo_s1 :: store where
  "demo_s1 = snd (IssueStarterGrant demo_env no_faults (seconds 7201) alice 500 empty_store)"

definition demo_usage :: "ident \<Rightarrow> u64 \<Rightarrow> UsageRecord" where
  "demo_usage seeder cost = (let r = \<lparr>rec_prev_hash = er_hash (last (st_entries demo_s1)), rec_seq = 2,
     rec_consumer_id = alice, rec_seeder_id = seeder, rec_model = ''m'', rec_input_tokens = 3,
     rec_output_tokens = 4, rec_cost_credits = cost, rec_timestamp = 7300, rec_request_id = replicate 16 9,
     rec_consumer_sig_missing = False, rec_consumer_sig = [], rec_consumer_pub = alice,
     rec_seeder_sig = [], rec_seeder_pub = seeder\<rparr>;
     msg = (case CanonicalUsageAssertionPreSig (rec_assertion r) of Inl e \<Rightarrow> [] | Inr m \<Rightarrow> m)
   in r\<lparr>rec_consumer_sig := to_array 64 (alice @ msg), rec_seeder_sig := to_array 64 (seeder @ msg)\<rparr>)"

definition demo_s2 :: store where
  "demo_s2 = snd (AppendUsage demo_env no_faults (demo_usage bob 30) demo_s1)"

definition demo_tout :: TransferOutRecord where
  "demo_tout = \<lparr>tor_prev_hash = er_hash (last (st_entries demo_s1)), tor_seq = 2, tor_consumer_id = alice,
     tor_amount = 60, tor_timestamp = 7300, tor_transfer_ref = replicate 32 5, tor_source_tracker_id = replicate 32 8,
     tor_dest_tracker_id = replicate 32 9, tor_consumer_sig = to_array 64 (alice @ alice @ be64 60 @ replicate 32 5),
     tor_consumer_pub = alice\<rparr>"

definition demo_s3 :: store where
  "demo_s3 = snd (AppendTransferOut demo_env no_faults demo_tout demo_s1)"

lemma demo_s1_reach: "ledger_reach demo_env demo_s1"
proof -
  have "ledger_step demo_env empty_store demo_s1"
    unfolding demo_s1_def by (rule step_grant) (rule prod.collapse [symmetric])
  then show ?thesis by (auto simp: ledger_reach_def)
qed

lemma demo_s2_reach: "ledger_reach demo_env demo_s2"
proof -
  have "ledger_step demo_env demo_s1 demo_s2"
    unfolding demo_s2_def by (rule step_usage) (rule prod.collapse [symmetric])
  then show ?thesis using demo_s1_reach by (auto simp: ledger_reach_def)
qed

lemma demo_s3_reach: "ledger_reach demo_env demo_s3"
proof -
  have "ledger_step demo_env demo_s1 demo_s3"
    unfolding demo_s3_def by (rule step_transfer_out) (rule prod.collapse [symmetric])
  then show ?thesis using demo_s1_reach by (auto simp: ledger_reach_def)
qed

lemma demo_tout_ok: "\<exists>e. AppendTransferOut demo_env no_faults demo_tout demo_s1 = (Inr e, demo_s3)"
proof -
  have "(case fst (AppendTransferOut demo_env no_faults demo_tout demo_s1) of Inr e \<Rightarrow> True | _ \<Rightarrow> False)"
    by code_simp
  then show ?thesis by (auto simp: demo_s3_def prod_eq_iff split: sum.splits)
qed

lemma demo_s1_eval: "length (st_entries demo_s1) = 1 \<and> abs_bal demo_s1 alice = 500 \<and> abs_bal demo_s1 bob = 0"
  by code_simp


lemma demo_usage_ok: "\<exists>e. AppendUsage demo_env no_faults (demo_usage bob 30) demo_s1 = (Inr e, demo_s2)"
proof -
  have "(case fst (AppendUsage demo_env no_faults (demo_usage bob 30) demo_s1) of Inr e \<Rightarrow> True | _ \<Rightarrow> False)"
    by code_simp
  then show ?thesis by (auto simp: demo_s2_def prod_eq_iff split: sum.splits)
qed

lemma demo_s2_eval: "length (st_entries demo_s2) = 2 \<and> abs_bal demo_s2 alice = 470 \<and> abs_bal demo_s2 bob = 30"
  by code_simp

end
