(* ===== verification/TB_Ledger_Props.thy ===== *)
theory TB_Ledger_Props
  imports TB_Concrete
begin

text \<open>
  The properties of the ledger: the chain and account invariants over every run, the exact effect of
  each append, single use of request ids and transfer references, authorization, liveness, the
  integrity audit, the Merkle rollup and the signed balance snapshot.
\<close>

section \<open>Chain and accounts\<close>

interpretation supply_of: monotone_system empty_store "ledger_step env" "chain_inv env"
  "\<lambda>s t. total_credits t - total_credits s = (\<Sum>r\<leftarrow>st_entries t. row_value r) - (\<Sum>r\<leftarrow>st_entries s. row_value r)" for env
  by unfold_locales (auto intro: ledger_step_supply)

text \<open>
  C1. Whatever sequence of appends (usage, transfer out, transfer in, starter grant) and hourly
  rollups runs, with any database failures, the stored chain is well formed: sequence numbers 1,
  2, 3, ... without gaps, every row linked to the hash of its predecessor, every row the
  validated and hashed canonical body, request ids and transfer refs unique, and every balance a
  non-negative int64.
\<close>

theorem ledger_chain_invariant:
  assumes "ledger_reach env s"
  shows "chain_inv env s"
  using assms unfolding ledger_reach_def by (rule chain.reach_inv)

theorem ledger_chain_invariant_witness: "chain_inv demo_env demo_s2 \<and> length (st_entries demo_s2) = 2"
  using ledger_chain_invariant [OF demo_s2_reach] demo_s2_eval by simp

text \<open>
  C2. In every reachable ledger the sum of all balances equals the sum of the values of the
  entries: grants and transfers in add, transfers out subtract, and a usage entry between two
  different parties is neutral (a self-dealing usage entry counts as a mint, see the finding).
\<close>

theorem ledger_credit_conservation:
  assumes "ledger_reach env s"
  shows "total_credits s = (\<Sum>r\<leftarrow>st_entries s. row_value r)"
  using supply_of.reach_R [of env empty_store s] assms
  by (simp add: ledger_reach_def total_credits_def empty_store_def)

theorem ledger_credit_conservation_witness:
  "total_credits demo_s2 = (\<Sum>r\<leftarrow>st_entries demo_s2. row_value r)"
  by (rule ledger_credit_conservation [OF demo_s2_reach])

text \<open>
  A successful usage append between two different identities moves exactly the cost from the
  consumer to the seeder, only when the consumer can pay it, and leaves the total unchanged.
\<close>

theorem usage_moves_credits:
  assumes "chain_inv env s" "AppendUsage env flt r s = (Inr e, s')" "rec_consumer_id r \<noteq> rec_seeder_id r"
  shows "abs_bal s' = acct_add (rec_seeder_id r) (uint (rec_cost_credits r))
           (acct_add (rec_consumer_id r) (- uint (rec_cost_credits r)) (abs_bal s)) \<and>
         uint (rec_cost_credits r) \<le> abs_bal s (rec_consumer_id r) \<and> total_credits s' = total_credits s"
proof -
  from AppendUsage_cases [OF assms(2)] obtain inp body where
    app: "appended env flt inp s body e s'" and u: "usage_input r inp body" by auto
  note two = appended_two [OF app chain_inv_balances [OF assms(1)],
      of "uint (rec_cost_credits r)" "rec_consumer_id r" "rec_seeder_id r"]
  show ?thesis using two(1,3,4) u assms(3) by (auto simp: usage_input_def)
qed

theorem usage_moves_credits_witness: "abs_bal demo_s2 alice = 470 \<and> abs_bal demo_s2 bob = 30"
proof -
  obtain e where e: "AppendUsage demo_env no_faults (demo_usage bob 30) demo_s1 = (Inr e, demo_s2)"
    using demo_usage_ok by blast
  have ids: "rec_consumer_id (demo_usage bob 30) = alice" "rec_seeder_id (demo_usage bob 30) = bob"
    "rec_cost_credits (demo_usage bob 30) = 30" "alice \<noteq> bob" by (simp_all add: demo_usage_def Let_def alice_def bob_def)
  show ?thesis using usage_moves_credits [OF ledger_reach_inv [OF demo_s1_reach] e] ids demo_s1_eval
    by (simp add: acct_add_def)
qed

text \<open>
  When a usage record names the same identity as consumer and seeder, the successful append
  credits that identity with the cost and debits nothing: both updates start from the same
  stored balance and the second overwrites the first.
\<close>

theorem usage_self_dealing_mints:
  assumes "chain_inv env s" "AppendUsage env flt r s = (Inr e, s')" "rec_consumer_id r = rec_seeder_id r"
  shows "abs_bal s' = acct_add (rec_consumer_id r) (uint (rec_cost_credits r)) (abs_bal s) \<and>
    total_credits s' = total_credits s + uint (rec_cost_credits r)"
proof -
  from AppendUsage_cases [OF assms(2)] obtain inp body where
    app: "appended env flt inp s body e s'" and u: "usage_input r inp body" by auto
  note two = appended_two [OF app chain_inv_balances [OF assms(1)],
      of "uint (rec_cost_credits r)" "rec_consumer_id r" "rec_seeder_id r"]
  show ?thesis using two(2,3) u assms(3) by (auto simp: usage_input_def)
qed

theorem usage_self_dealing_mints_witness:
  "abs_bal (snd (AppendUsage demo_env no_faults (demo_usage alice 30) demo_s1)) alice = 530"
proof -
  have "(case fst (AppendUsage demo_env no_faults (demo_usage alice 30) demo_s1) of Inr e \<Rightarrow> True | _ \<Rightarrow> False)"
    by code_simp
  then obtain e s' where e: "AppendUsage demo_env no_faults (demo_usage alice 30) demo_s1 = (Inr e, s')"
    by (cases "AppendUsage demo_env no_faults (demo_usage alice 30) demo_s1") (auto split: sum.splits)
  have ids: "rec_consumer_id (demo_usage alice 30) = alice" "rec_seeder_id (demo_usage alice 30) = alice"
    "rec_cost_credits (demo_usage alice 30) = 30" by (simp_all add: demo_usage_def Let_def)
  show ?thesis using usage_self_dealing_mints [OF ledger_reach_inv [OF demo_s1_reach] e] e ids demo_s1_eval
    by (simp add: acct_add_def)
qed

text \<open>
  C13. Every append operation that returns an error leaves the store exactly as it was,
  whichever database call failed.
\<close>

theorem failed_append_unchanged:
  assumes "seqs_ok (st_entries s)"
  shows "(AppendUsage env flt r s = (Inl err, s') \<longrightarrow> s' = s) \<and>
    (AppendTransferOut env flt ro s = (Inl err, s') \<longrightarrow> s' = s) \<and>
    (AppendTransferIn env flt ri s = (Inl err, s') \<longrightarrow> s' = s) \<and>
    (IssueStarterGrant env flt now i amount s = (Inl err, s') \<longrightarrow> s' = s)"
  using assms by (auto dest!: AppendUsage_cases AppendTransferOut_cases AppendTransferIn_cases
      IssueStarterGrant_cases [OF _ assms])

theorem failed_append_unchanged_witness:
  "IssueStarterGrant demo_env no_faults 0 [] 5 empty_store = (Inl (LErr ''ledger: identity_id length''), empty_store)"
proof -
  have seqs: "seqs_ok (st_entries empty_store)" by (simp add: seqs_ok_def empty_store_def)
  have "fst (IssueStarterGrant demo_env no_faults 0 [] 5 empty_store) = Inl (LErr ''ledger: identity_id length'')"
    by (simp add: IssueStarterGrant_def)
  then show ?thesis
    using failed_append_unchanged [OF seqs] by (metis prod.collapse)
qed

text \<open>
  Later states of the ledger only extend earlier ones: entries are a prefix, published Merkle
  roots never change and no account disappears.
\<close>

theorem ledger_append_only:
  assumes "ledger_reach env s" "(ledger_step env)\<^sup>*\<^sup>* s t"
  shows "(\<exists>rs. st_entries t = st_entries s @ rs) \<and> st_merkle s \<subseteq>\<^sub>m st_merkle t \<and>
    dom (st_balances s) \<subseteq> dom (st_balances t)"
  using ledger_grows [OF assms] by (auto simp: grows_def)

theorem ledger_append_only_witness:
  "\<exists>rs. st_entries demo_s2 = st_entries demo_s1 @ rs"
proof -
  have "ledger_step demo_env demo_s1 demo_s2"
    unfolding demo_s2_def by (rule step_usage) (rule prod.collapse [symmetric])
  then show ?thesis using ledger_append_only [OF demo_s1_reach, of demo_s2] by blast
qed

text \<open>
  C3. Once a request id has been settled by a usage entry, no later usage append with that
  request id succeeds, whatever else happened to the ledger in between, and the refused append
  leaves the ledger as it was.
\<close>

theorem usage_replay_refused:
  assumes "ledger_reach env s" "rec_request_id r \<in> set (usage_ids (st_entries s))" "(ledger_step env)\<^sup>*\<^sup>* s t"
  shows "\<exists>err. AppendUsage env flt r t = (Inl err, t)"
proof -
  obtain rs where "st_entries t = st_entries s @ rs"
    using ledger_grows [OF assms(1,3)] by (auto simp: grows_def)
  then have used: "rec_request_id r \<in> set (usage_ids (st_entries t))" using assms(2) by (auto simp: usage_ids_def)
  obtain res t' where A: "AppendUsage env flt r t = (res, t')" by force
  show ?thesis
    using AppendUsage_cases [OF A] A used by (auto simp: appended_def usage_input_def dest: check_single_use_None(1))
qed

theorem usage_replay_refused_witness:
  "\<exists>err. AppendUsage demo_env no_faults (demo_usage bob 7) demo_s2 = (Inl err, demo_s2)"
proof -
  have "replicate 16 9 \<in> set (usage_ids (st_entries demo_s2))" by code_simp
  moreover have "rec_request_id (demo_usage bob 7) = replicate 16 9" by (simp add: demo_usage_def Let_def)
  ultimately show ?thesis using usage_replay_refused [OF demo_s2_reach] by simp
qed

text \<open>
  A transfer reference that is on the chain as a debit (or as a credit) is never debited (or
  credited) again, after any further run of the ledger.
\<close>

theorem transfer_ref_single_use:
  assumes "ledger_reach env s" "(ledger_step env)\<^sup>*\<^sup>* s t"
  shows "(tor_transfer_ref ro \<in> set (refs_of ENTRY_KIND_TRANSFER_OUT (st_entries s)) \<longrightarrow>
      (\<exists>err. AppendTransferOut env flt ro t = (Inl err, t))) \<and>
    (tir_transfer_ref ri \<in> set (refs_of ENTRY_KIND_TRANSFER_IN (st_entries s)) \<longrightarrow>
      (\<exists>err. AppendTransferIn env flt ri t = (Inl err, t)))"
proof -
  obtain rs where rs: "st_entries t = st_entries s @ rs"
    using ledger_grows [OF assms] by (auto simp: grows_def)
  have sub: "set (refs_of k (st_entries s)) \<subseteq> set (refs_of k (st_entries t))" for k by (auto simp: refs_of_def rs)
  obtain res t' where O: "AppendTransferOut env flt ro t = (res, t')" by force
  obtain res2 t2 where I: "AppendTransferIn env flt ri t = (res2, t2)" by force
  show ?thesis
  proof (intro conjI impI)
    assume "tor_transfer_ref ro \<in> set (refs_of ENTRY_KIND_TRANSFER_OUT (st_entries s))"
    then have "tor_transfer_ref ro \<in> set (refs_of ENTRY_KIND_TRANSFER_OUT (st_entries t))" using sub by blast
    then show "\<exists>err. AppendTransferOut env flt ro t = (Inl err, t)" using AppendTransferOut_cases [OF O] O
      by (auto simp: appended_def tout_input_def dest: check_single_use_None(2))
  next
    assume "tir_transfer_ref ri \<in> set (refs_of ENTRY_KIND_TRANSFER_IN (st_entries s))"
    then have "tir_transfer_ref ri \<in> set (refs_of ENTRY_KIND_TRANSFER_IN (st_entries t))" using sub by blast
    then show "\<exists>err. AppendTransferIn env flt ri t = (Inl err, t)" using AppendTransferIn_cases [OF I] I
      by (auto simp: appended_def tin_input_def dest: check_single_use_None(2))
  qed
qed

theorem transfer_ref_single_use_witness:
  "\<exists>err. AppendTransferOut demo_env no_faults demo_tout demo_s3 = (Inl err, demo_s3)"
proof -
  have "replicate 32 5 \<in> set (refs_of ENTRY_KIND_TRANSFER_OUT (st_entries demo_s3))" by code_simp
  then show ?thesis using transfer_ref_single_use [OF demo_s3_reach rtranclp.rtrancl_refl, of demo_tout]
    by (simp add: demo_tout_def)
qed

text \<open>
  C4. A transfer-out entry is only written for an intent that the consumer signed, for a
  positive amount that its balance covers, and debits exactly that amount from that identity.
\<close>

theorem transfer_out_authorized:
  assumes "chain_inv env s" "AppendTransferOut env flt r s = (Inr e, s')"
  shows "transfer_authorized env r \<and> 0 < tor_amount r \<and> uint (tor_amount r) \<le> abs_bal s (tor_consumer_id r) \<and>
    abs_bal s' = acct_add (tor_consumer_id r) (- uint (tor_amount r)) (abs_bal s) \<and>
    total_credits s' = total_credits s - uint (tor_amount r)"
proof -
  from AppendTransferOut_cases [OF assms(2)] obtain inp body where
    app: "appended env flt inp s body e s'" and u: "tout_input r inp body" and a: "transfer_authorized env r" by auto
  note one = appended_one [OF app chain_inv_balances [OF assms(1)], of "- uint (tor_amount r)" "tor_consumer_id r"]
  show ?thesis using one u a by (auto simp: tout_input_def word_neq_0_conv)
qed

theorem transfer_out_authorized_witness:
  "transfer_authorized demo_env demo_tout \<and> abs_bal demo_s3 alice = 440"
proof -
  obtain e where "AppendTransferOut demo_env no_faults demo_tout demo_s1 = (Inr e, demo_s3)"
    using demo_tout_ok by blast
  from transfer_out_authorized [OF ledger_reach_inv [OF demo_s1_reach] this] demo_s1_eval show ?thesis
    by (simp add: demo_tout_def acct_add_def)
qed

text \<open>
  Every usage entry written carries the parties, cost and request id of the record, under a
  seeder signature over the usage assertion that verifies; either the consumer signature
  verifies too and the flag bit is clear, or the flag bit records that it is missing.
\<close>

theorem usage_attested:
  assumes "chain_inv env s" "AppendUsage env flt r s = (Inr e, s')"
  shows "\<exists>row. st_entries s' = st_entries s @ [row] \<and>
    er_kind row = ENTRY_KIND_USAGE \<and> er_consumer_id row = rec_consumer_id r \<and> er_seeder_id row = rec_seeder_id r \<and>
    er_cost_credits row = rec_cost_credits r \<and> er_request_id row = rec_request_id r \<and>
    VerifyUsageAssertion (le_crypto env) (rec_seeder_pub r) (rec_assertion r) (rec_seeder_sig r) \<and>
    (er_flags row = 0 \<and> VerifyUsageAssertion (le_crypto env) (rec_consumer_pub r) (rec_assertion r) (rec_consumer_sig r) \<or>
     er_flags row = 1 \<and> rec_consumer_sig_missing r)"
proof -
  from AppendUsage_cases [OF assms(2)] obtain inp body where
    app: "appended env flt inp s body e s'" and u: "usage_input r inp body" and
    v: "VerifyUsageAssertion (le_crypto env) (rec_seeder_pub r) (rec_assertion r) (rec_seeder_sig r)"
      "rec_consumer_sig_missing r \<or>
       VerifyUsageAssertion (le_crypto env) (rec_consumer_pub r) (rec_assertion r) (rec_consumer_sig r)" by auto
  then show ?thesis by (auto simp: appended_def usage_input_def)
qed

theorem usage_attested_witness:
  "\<exists>row. st_entries demo_s2 = st_entries demo_s1 @ [row] \<and> er_seeder_id row = bob \<and> er_flags row = 0"
proof -
  obtain e where "AppendUsage demo_env no_faults (demo_usage bob 30) demo_s1 = (Inr e, demo_s2)"
    using demo_usage_ok by blast
  from usage_attested [OF ledger_reach_inv [OF demo_s1_reach] this] show ?thesis
    by (auto simp: demo_usage_def Let_def)
qed

text \<open>
  A signed usage record that extends the tip, has a fresh request id and a cost the consumer can
  pay is appended by a healthy database.
\<close>

theorem usage_append_live:
  assumes "chain_inv env s" "usage_admissible env r s" "signer_ok env (usage_body r) s"
  shows "\<exists>e s'. AppendUsage env (\<lambda>_. False) r s = (Inr e, s') \<and> length (st_entries s') = length (st_entries s) + 1"
proof -
  obtain e s' where e: "AppendUsage env (\<lambda>_. False) r s = (Inr e, s')" using AppendUsage_succeeds [OF assms] by blast
  moreover have "length (st_entries s') = length (st_entries s) + 1"
    using AppendUsage_cases [OF e] by (auto simp: appended_def)
  ultimately show ?thesis by blast
qed

lemma demo_admissible:
  "usage_admissible demo_env (demo_usage bob 30) demo_s1 \<and> signer_ok demo_env (usage_body (demo_usage bob 30)) demo_s1"
proof
  show "usage_admissible demo_env (demo_usage bob 30) demo_s1"
    by code_simp
  have "(case pb_entry (le_crypto demo_env) (usage_body (demo_usage bob 30)) of None \<Rightarrow> False
    | Some c \<Rightarrow> ed_sign (le_crypto demo_env) (le_key demo_env) c \<noteq> [] \<and>
     (\<forall>r\<in>set (st_entries demo_s1). er_hash r \<noteq> sha256 (le_crypto demo_env) c))" by code_simp
  then show "signer_ok demo_env (usage_body (demo_usage bob 30)) demo_s1"
    by (auto simp: signer_ok_def demo_env_def key_sizes split: option.splits)
qed

theorem usage_append_live_witness:
  "\<exists>e s'. AppendUsage demo_env (\<lambda>_. False) (demo_usage bob 30) demo_s1 = (Inr e, s') \<and> length (st_entries s') = 2"
  using usage_append_live [OF ledger_reach_inv [OF demo_s1_reach]] demo_admissible demo_s1_eval by fastforce

lemma chain_row_dec:
  assumes "codec_ok (le_crypto env)" "chain_inv env s" "r \<in> set (st_entries s)"
  obtains b where "pb_entry_dec (le_crypto env) (er_canonical r) = Some b" "row_body (le_crypto env) r b"
  using assms by (fastforce simp: chain_inv_def codec_ok_def row_body_def)

lemma chain_inv_seq_column:
  assumes "codec_ok (le_crypto env)" "chain_inv env s"
  shows "seq_column_ok (le_crypto env) (st_entries s)" "\<forall>r\<in>set (st_entries s). 0 < er_seq r"
proof -
  have sq: "seqs_ok (st_entries s)" by (rule chain_inv_seqs [OF assms(2)])
  have "distinct (map er_seq (st_entries s))"
  proof (clarsimp simp: distinct_conv_nth)
    fix i j assume ij: "i < length (st_entries s)" "j < length (st_entries s)" "i \<noteq> j"
      and eq: "er_seq (st_entries s ! i) = er_seq (st_entries s ! j)"
    have "Suc i = Suc j" using seqs_ok_unat [OF sq ij(1)] seqs_ok_unat [OF sq ij(2)] unfolding eq by (rule trans [OF sym])
    then show False using ij(3) by simp
  qed
  moreover have "eb_seq b = er_seq r" if "r \<in> set (st_entries s)" "pb_entry_dec (le_crypto env) (er_canonical r) = Some b" for r b
    by (rule chain_row_dec [OF assms that(1)]) (use that(2) in \<open>simp add: row_body_def\<close>)
  ultimately show "seq_column_ok (le_crypto env) (st_entries s)" by (auto simp: seq_column_ok_def)
  show "\<forall>r\<in>set (st_entries s). 0 < er_seq r"
    by (auto simp: in_set_conv_nth word_less_nat_alt seqs_ok_unat [OF sq])
qed

lemma chain_canon_inj:
  assumes "codec_ok (le_crypto env)" "chain_inv env s" "distinct (map er_hash (st_entries s))"
  shows "inj_on (sha256 (le_crypto env)) (canon_of (le_crypto env) (st_entries s))"
proof (rule inj_onI)
  fix x y
  assume "x \<in> canon_of (le_crypto env) (st_entries s)" "y \<in> canon_of (le_crypto env) (st_entries s)"
    and eq: "sha256 (le_crypto env) x = sha256 (le_crypto env) y"
  then obtain r q where r: "r \<in> set (st_entries s)" "er_hash r = sha256 (le_crypto env) x" "er_canonical r = x"
    and q: "q \<in> set (st_entries s)" "er_hash q = sha256 (le_crypto env) y" "er_canonical q = y"
    using chain_row_dec [OF assms(1,2)] unfolding canon_of_def row_body_def by (smt (verit) mem_Collect_eq option.inject)
  then have "er_hash r = er_hash q" using eq by simp
  then have "r = q" using assms(3) r(1) q(1) by (auto simp: distinct_map dest: inj_onD)
  then show "x = y" using r q by simp
qed

section \<open>Audit, rollup and balance snapshots\<close>

text \<open>
  C11. The audit of a ledger written by this code over a healthy database terminates within one
  page per thousand entries and reports no error.
\<close>

theorem audit_accepts_ledger:
  assumes "ledger_reach env s" "codec_ok (le_crypto env)" "\<not> flt SqlTip" "\<forall>q. \<not> flt (SqlEntriesSince q)"
    "length (st_entries s) \<le> 1000 * fuel"
  shows "AssertChainIntegrity (le_crypto env) flt (Suc fuel) 0 0 s = Some None"
  using assms by (intro AssertChainIntegrity_complete ledger_reach_inv) auto

theorem audit_accepts_ledger_witness: "AssertChainIntegrity demo_crypto no_faults 2 0 0 demo_s2 = Some None"
  using audit_accepts_ledger [OF demo_s2_reach, of no_faults 1] demo_codec demo_s2_eval
  by (simp add: demo_env_def no_faults_def numeral_2_eq_2)



text \<open>
  Two leaf lists of the same length with the same Merkle root are equal, provided the hash has
  no collision among the inputs of the two trees.
\<close>

theorem merkle_root_binds_leaves:
  assumes "merkleHash cr xs = merkleHash cr ys" "length xs = length ys" "leaves32 xs" "leaves32 ys" "hash32 cr"
    "inj_on (sha256 cr) (set (merkle_inputs cr xs) \<union> set (merkle_inputs cr ys))"
  shows "xs = ys"
  by (rule merkleHash_inject [OF assms])

theorem merkle_root_binds_leaves_witness:
  "merkleHash demo_crypto [alice, bob, alice] = merkleHash demo_crypto (rev [alice, bob, alice]) \<and>
   [alice, bob, alice] = rev [alice, bob, alice]"
proof -
  have "leaves32 [alice, bob, alice]" by (simp add: leaves32_def alice_def bob_def)
  moreover have "inj_on (sha256 demo_crypto) (set (merkle_inputs demo_crypto [alice, bob, alice]))"
  proof -
    have "inj_on f (set xs)" if "distinct (map f (remdups xs))" for f :: "bytes \<Rightarrow> bytes" and xs
      using that by (simp add: distinct_map)
    moreover have "distinct (map (sha256 demo_crypto) (remdups (merkle_inputs demo_crypto [alice, bob, alice])))"
      by code_simp
    ultimately show ?thesis by blast
  qed
  ultimately show ?thesis using merkle_root_binds_leaves [of demo_crypto "[alice, bob, alice]" "rev [alice, bob, alice]"]
    demo_hash32 by simp
qed

text \<open>
  An odd level is padded by repeating its last hash, so a leaf list and the list with its last
  leaf repeated have the same root.
\<close>

lemma merkle_odd_padding:
  assumes "odd (length xs)" "length xs > 1"
  shows "merkleHash cr (xs @ [last xs]) = merkleHash cr xs"
  by (rule merkleHash_duplicate [OF assms])

definition sig_correct :: "crypto \<Rightarrow> bytes \<Rightarrow> bytes \<Rightarrow> bool" where
  "sig_correct cr priv pub \<longleftrightarrow> length pub = PublicKeySize \<and>
     (\<forall>m. length (ed_sign cr priv m) = SignatureSize \<and> ed_verify cr pub m (ed_sign cr priv m))"

text \<open>
  A signed balance snapshot verifies under the tracker key and states the balance, the tip hash
  and the tip sequence number of one and the same state of the ledger, and expires ten minutes
  after it was issued.
\<close>

lemma signed_balance_attests:
  assumes "chain_inv env s" "SignedBalance env flt now i s = Inr sb" "sig_correct (le_crypto env) (le_key env) pub"
  shows "VerifyBalanceSnapshot (le_crypto env) pub (Some sb) \<and>
    (\<exists>b. sb_body sb = Some b \<and> bs_identity_id b = i \<and> bs_credits b = abs_bal s i \<and>
      bs_chain_tip_hash b = end_hash (zeros 32) (st_entries s) \<and>
      bs_chain_tip_seq b = of_nat (length (st_entries s)) \<and> bs_expires_at b = bs_issued_at b + 600)"
proof -
  have seqs: "seqs_ok (st_entries s)" by (rule chain_inv_seqs [OF assms(1)])
  have tip: "tip_row (st_entries s) = (if st_entries s = [] then None else Some (last (st_entries s)))"
    by (rule tip_row_last [OF seqs])
  have last: "er_seq (last (st_entries s)) = of_nat (length (st_entries s))" if "st_entries s \<noteq> []"
  proof -
    have "er_seq (st_entries s ! (length (st_entries s) - 1)) = 1 + of_nat (length (st_entries s) - 1)"
      using seqs that unfolding seqs_ok_def by (intro linked_seq_nth) auto
    then show ?thesis using that by (cases "length (st_entries s)") (auto simp: last_conv_nth)
  qed
  have credits: "br_credits (case st_balances s i of None \<Rightarrow> zero_balance | Some b \<Rightarrow> b) = abs_bal s i"
    by (auto simp: abs_bal_def credits_of_def zero_balance_def split: option.splits)
  show ?thesis using assms(2,3) tip last credits
    by (auto simp: SignedBalance_def BalanceWithTip_def SignBalanceSnapshot_def DeterministicMarshal_def
        VerifyBalanceSnapshot_def Verify_def sig_correct_def end_hash_def balanceSnapshotTTLSeconds_def
        Let_def split: if_splits option.splits sum.splits)
qed

lemma demo_sig_correct: "sig_correct demo_crypto (replicate 64 7) (replicate 32 7)"
  by (simp add: sig_correct_def demo_crypto_def key_sizes)

lemma signed_balance_attests_witness:
  "\<exists>sb b. SignedBalance demo_env no_faults (seconds 8000) alice demo_s2 = Inr sb \<and>
     VerifyBalanceSnapshot demo_crypto (replicate 32 7) (Some sb) \<and> sb_body sb = Some b \<and> bs_credits b = 470 \<and>
     bs_chain_tip_seq b = 2"
proof -
  obtain sb where sb: "SignedBalance demo_env no_faults (seconds 8000) alice demo_s2 = Inr sb"
    by (simp add: SignedBalance_def BalanceWithTip_def no_faults_def alice_def SignBalanceSnapshot_def
        DeterministicMarshal_def demo_env_def demo_crypto_def key_sizes Let_def)
  have cr: "le_crypto demo_env = demo_crypto" "le_key demo_env = replicate 64 7" by (simp_all add: demo_env_def)
  show ?thesis
    using signed_balance_attests [OF ledger_reach_inv [OF demo_s2_reach] sb, of "replicate 32 7"]
      demo_sig_correct demo_s2_eval sb by (auto simp: cr)
qed

lemma LeavesForHour_leaves32:
  assumes "chain_inv env s" "hash32 (le_crypto env)" "LeavesForHour flt hour s = Inr leaves"
  shows "leaves32 leaves"
  using assms unfolding leaves32_def
  by (fastforce simp: LeavesForHour_def Let_def chain_inv_def row_body_def hash32_def split: if_splits)

text \<open>
  A rollup writes the Merkle root over exactly the entries of its hour, and a root that was
  published for an hour is never replaced.
\<close>

lemma rollup_publishes_once:
  assumes "chain_inv env s" "hash32 (le_crypto env)" "\<forall>m. ed_sign (le_crypto env) (le_key env) m \<noteq> []"
    "sql_u64 hour" "LeavesForHour (\<lambda>_. False) hour s = Inr leaves" "leaves \<noteq> []" "st_merkle s hour = None"
  shows "\<exists>s'. RunRollupOnce env (\<lambda>_. False) hour s = (None, s') \<and>
    st_merkle s' = (st_merkle s)(hour \<mapsto> (merkleHash (le_crypto env) leaves, ed_sign (le_crypto env) (le_key env)
      (merkleRootSignPreimage hour (merkleHash (le_crypto env) leaves)))) \<and>
    st_entries s' = st_entries s \<and> st_balances s' = st_balances s \<and>
    RunRollupOnce env (\<lambda>_. False) hour s' = (None, s')"
proof -
  have "length (merkleHash (le_crypto env) leaves) = 32"
    by (rule merkleHash_length [OF assms(6,2) LeavesForHour_leaves32 [OF assms(1,2,5)]])
  moreover from this have "merkleHash (le_crypto env) leaves \<noteq> []" by auto
  ultimately show ?thesis using assms(3-7)
    by (simp add: RunRollupOnce_def GetMerkleRoot_def PutMerkleRoot_def Let_def)
qed

lemma rollup_publishes_once_witness:
  "\<exists>s'. RunRollupOnce demo_env (\<lambda>_. False) 2 demo_s2 = (None, s') \<and> st_merkle s' 2 \<noteq> None"
proof -
  have l: "map_sum (\<lambda>_. ()) length (LeavesForHour (\<lambda>_. False) 2 demo_s2) = Inr 2" by code_simp
  then obtain leaves where lv: "LeavesForHour (\<lambda>_. False) 2 demo_s2 = Inr leaves" "leaves \<noteq> []"
    by (cases "LeavesForHour (\<lambda>_. False) 2 demo_s2") force+
  have "st_merkle demo_s2 2 = None" by code_simp
  moreover have "\<forall>m. ed_sign (le_crypto demo_env) (le_key demo_env) m \<noteq> []"
    by (simp add: demo_env_def demo_crypto_def to_array_def)
  moreover have "hash32 (le_crypto demo_env)" using demo_hash32 by (simp add: demo_env_def)
  moreover have "sql_u64 2" by code_simp
  ultimately show ?thesis
    using rollup_publishes_once [OF ledger_reach_inv [OF demo_s2_reach] _ _ _ lv] by fastforce
qed

text \<open>
  The hour to roll up is one that is over.
\<close>

lemma prev_hour_completed:
  assumes "prevHourFromTime t = (hour, ok)" "unix t < 2 ^ 63"
  shows "(ok \<longleftrightarrow> 7200 \<le> unix t) \<and> (ok \<longrightarrow> (uint hour + 1) * 3600 \<le> unix t \<and> unix t < (uint hour + 2) * 3600)"
proof (cases "7200 \<le> unix t")
  case True
  then have h: "hour = word_of_int (unix t) div 3600 - 1" and ok: ok
    using assms(1) by (auto simp: prevHourFromTime_def Let_def)
  have "uint (word_of_int (unix t) :: u64) = unix t"
    using True assms(2) by (simp add: uint_word_of_int mod_pos_pos_trivial)
  then have d: "uint (word_of_int (unix t) div 3600 :: u64) = unix t div 3600" by (simp add: uint_div)
  moreover have "unix t div 3600 \<ge> 2" using True by linarith
  ultimately have "(1 :: u64) \<le> word_of_int (unix t) div 3600" by (simp add: word_le_def)
  then have "uint hour = unix t div 3600 - 1" unfolding h using d by (simp add: uint_minus_simple_alt)
  then show ?thesis using True ok by simp linarith
next
  case False
  then show ?thesis using assms(1) by (auto simp: prevHourFromTime_def Let_def)
qed

end
