(* ===== verification/TB_Settlement_Spec.thy ===== *)
theory TB_Settlement_Spec
  imports TB_Settlement TB_Broker_Spec TB_Ledger_Props
begin

text \<open>
  What settlement guarantees. The invariant ties three structures together: the waiting
  goroutines, the pending verdicts and the in-flight requests. It is kept by every handler, by the
  goroutines, the reaper and the operators, and under any interleaving with other ledger writers.
\<close>

section \<open>Frames\<close>

text \<open>What never changes in a request once it is assigned, seen through any pointer.\<close>

definition static :: "Request \<Rightarrow> reqid \<times> ident \<times> ident \<times> bytes" where
  "static r = (rq_request_id r, rq_consumer_id r, rq_assigned_seeder r, rq_seeder_pubkey r)"

definition heap_ext :: "Inflight \<Rightarrow> Inflight \<Rightarrow> bool" where
  "heap_ext f f' \<longleftrightarrow> (\<forall>p r. if_heap f p = Some r \<longrightarrow> (\<exists>r'. if_heap f' p = Some r' \<and> static r' = static r \<and>
     (rq_settle_sig r \<noteq> None \<longrightarrow> rq_settle_sig r' \<noteq> None)))"

lemma heap_ext_refl [simp]: "heap_ext f f"
  by (simp add: heap_ext_def)

lemma heap_ext_trans: "heap_ext f g \<Longrightarrow> heap_ext g h \<Longrightarrow> heap_ext f h"
  unfolding heap_ext_def by metis

lemma heap_ext_set_request:
  "if_heap f p = Some r \<Longrightarrow> static r' = static r \<Longrightarrow> (rq_settle_sig r \<noteq> None \<longrightarrow> rq_settle_sig r' \<noteq> None) \<Longrightarrow>
   heap_ext f (set_request p r' f)"
  by (auto simp: heap_ext_def set_request_def)

lemma heap_ext_Transition: "heap_ext f (snd (Transition i from to now f))"
  by (auto simp: Transition_def Inflight_Get_Some static_def split: option.splits intro!: heap_ext_set_request)

lemma heap_ext_EnsureSettleSig: "heap_ext f (snd (EnsureSettleSig i f))"
  by (auto simp: EnsureSettleSig_def Inflight_Get_Some static_def split: option.splits intro!: heap_ext_set_request)

lemma heap_ext_IndexByHash: "heap_ext f (snd (IndexByHash i h f))"
  by (auto simp: IndexByHash_def Inflight_Get_Some heap_ext_def set_request_def static_def split: option.splits)

lemma heap_ext_ForceFail: "heap_ext f (snd (ForceFail i now f))"
  by (auto simp: ForceFail_def Inflight_Get_Some static_def split: option.splits intro!: heap_ext_set_request)

lemma heap_ext_expire_slot: "expire_slot now slot f = (e, f') \<Longrightarrow> heap_ext f f'"
  by (auto simp: expire_slot_def Let_def split: option.splits if_splits intro: heap_ext_Transition)

lemma heap_ext_expire_slots: "expire_slots now slots f = (es, f') \<Longrightarrow> heap_ext f f'"
proof (induction slots arbitrary: f es)
  case (Cons slot slots)
  obtain e f1 where 1: "expire_slot now slot f = (e, f1)" by force
  obtain es2 f2 where 2: "expire_slots now slots f1 = (es2, f2)" by force
  then show ?case using Cons 1 heap_ext_trans [OF heap_ext_expire_slot [OF 1]] by auto
qed simp

lemma fold_sweep_terminal_heap:
  "inflight_inv f \<Longrightarrow> fold (sweep_terminal_one cutoff) order (xs, f) = (ys, f') \<Longrightarrow> if_heap f' = if_heap f"
proof (induction order arbitrary: xs f)
  case (Cons i order)
  obtain zs f1 where 1: "sweep_terminal_one cutoff i (xs, f) = (zs, f1)" by force
  from sweep_terminal_one_spec [OF Cons.prems(1) 1] Cons 1 show ?case by auto
qed simp

lemma sl_inflight_frame [simp]:
  "sl_store (snd (sl_inflight op st)) = sl_store st" "sl_pending (snd (sl_inflight op st)) = sl_pending st"
  "sl_tasks (snd (sl_inflight op st)) = sl_tasks st" "sl_bk (snd (sl_inflight op st)) = snd (upd_inflight op (sl_bk st))"
  "fst (sl_inflight op st) = fst (op (mg_inflight (bk_mgr (sl_bk st))))"
  by (auto simp: sl_inflight_def split: prod.splits) (metis fst_conv upd_inflight_frame(5))

section \<open>The invariant of settlement\<close>

definition verdict_ok :: "crypto \<Rightarrow> pendingSettle \<Rightarrow> bool" where
  "verdict_ok cr ps \<longleftrightarrow> (ps_verified ps \<longrightarrow> VerifyUsageAssertion cr (ps_consumer_pub ps) (ps_assertion ps) (ps_consumer_sig ps))"

abbreviation sl_heap :: "settle_state \<Rightarrow> addr \<rightharpoonup> Request" where
  "sl_heap st \<equiv> if_heap (mg_inflight (bk_mgr (sl_bk st)))"

definition task_ok :: "crypto \<Rightarrow> (addr \<rightharpoonup> Request) \<Rightarrow> (reqid \<rightharpoonup> pendingSettle) \<Rightarrow> addr \<times> UsageRecord \<Rightarrow> bool" where
  "task_ok cr heap pend t \<longleftrightarrow> (case t of (p, rec) \<Rightarrow> \<exists>req ps. heap p = Some req \<and> rq_settle_sig req \<noteq> None \<and>
     static req = (rec_request_id rec, rec_consumer_id rec, rec_seeder_id rec, rec_seeder_pub rec) \<and>
     pend (rec_request_id rec) = Some ps \<and> ps_assertion ps = rec_assertion rec \<and> verdict_ok cr ps \<and>
     VerifyUsageAssertion cr (rec_seeder_pub rec) (rec_assertion rec) (rec_seeder_sig rec))"

definition task_ids :: "settle_state \<Rightarrow> reqid list" where
  "task_ids st = map (rec_request_id \<circ> snd) (sl_tasks st)"

definition settle_inv :: "ledger_env \<Rightarrow> settle_state \<Rightarrow> bool" where
  "settle_inv lenv st \<longleftrightarrow> broker_inv (sl_bk st) \<and> chain_inv lenv (sl_store st) \<and>
     (\<forall>t\<in>set (sl_tasks st). task_ok (le_crypto lenv) (sl_heap st) (sl_pending st) t) \<and>
     distinct (task_ids st) \<and> dom (sl_pending st) = set (task_ids st)"

lemma task_ok_heap:
  assumes "task_ok cr (if_heap f) pend t" "heap_ext f f'"
  shows "task_ok cr (if_heap f') pend t"
proof -
  obtain p rec where t: "t = (p, rec)" by force
  with assms(1) obtain req ps where r: "if_heap f p = Some req" "rq_settle_sig req \<noteq> None"
    "static req = (rec_request_id rec, rec_consumer_id rec, rec_seeder_id rec, rec_seeder_pub rec)" and
    rest: "pend (rec_request_id rec) = Some ps" "ps_assertion ps = rec_assertion rec" "verdict_ok cr ps"
    "VerifyUsageAssertion cr (rec_seeder_pub rec) (rec_assertion rec) (rec_seeder_sig rec)"
    by (auto simp: task_ok_def)
  from assms(2) r(1,2) obtain req' where "if_heap f' p = Some req'" "static req' = static req" "rq_settle_sig req' \<noteq> None"
    unfolding heap_ext_def by blast
  then show ?thesis using r(3) rest by (auto simp: task_ok_def t)
qed

lemma settle_inv_bk:
  assumes "settle_inv lenv st" "broker_inv b" "heap_ext (mg_inflight (bk_mgr (sl_bk st))) (mg_inflight (bk_mgr b))"
    "sl_bk st' = b" "chain_inv lenv (sl_store st')" "sl_pending st' = sl_pending st" "sl_tasks st' = sl_tasks st"
  shows "settle_inv lenv st'"
  using assms task_ok_heap by (auto simp: settle_inv_def task_ids_def)

lemma broker_inv_inflight:
  "broker_inv b \<Longrightarrow> (\<And>f. inflight_inv f \<Longrightarrow> inflight_inv (snd (op f))) \<Longrightarrow> broker_inv (snd (upd_inflight op b))"
  by (simp add: broker_inv_def)

lemma settle_inv_inflight:
  assumes "settle_inv lenv st" "inflight_inv (snd (op (mg_inflight (bk_mgr (sl_bk st)))))"
    "heap_ext (mg_inflight (bk_mgr (sl_bk st))) (snd (op (mg_inflight (bk_mgr (sl_bk st)))))"
  shows "settle_inv lenv (snd (sl_inflight op st))"
proof (rule settle_inv_bk [OF assms(1)])
  show "broker_inv (snd (upd_inflight op (sl_bk st)))" using assms by (simp add: broker_inv_def settle_inv_def)
  show "chain_inv lenv (sl_store (snd (sl_inflight op st)))" using assms(1) by (simp add: settle_inv_def)
qed (use assms(3) in simp_all)

lemma settle_inv_inflight_inv: "settle_inv lenv st \<Longrightarrow> inflight_inv (mg_inflight (bk_mgr (sl_bk st)))"
  by (simp add: settle_inv_def broker_inv_def)

section \<open>Usage reports keep the invariant\<close>

lemma settle_inv_Transition [inv_rules]:
  assumes "settle_inv lenv st"
  shows "settle_inv lenv (snd (sl_inflight (Transition i from to now) st))"
  by (rule settle_inv_inflight [where op = "Transition i from to now", OF assms Transition_spec(1) [OF settle_inv_inflight_inv [OF assms]]])
    (rule heap_ext_Transition)

lemma settle_inv_EnsureSettleSig [inv_rules]:
  assumes "settle_inv lenv st"
  shows "settle_inv lenv (snd (sl_inflight (EnsureSettleSig i) st))"
  by (rule settle_inv_inflight [where op = "EnsureSettleSig i", OF assms EnsureSettleSig_spec(1) [OF settle_inv_inflight_inv [OF assms]]])
    (rule heap_ext_EnsureSettleSig)

lemma settle_inv_IndexByHash [inv_rules]:
  assumes "settle_inv lenv st"
  shows "settle_inv lenv (snd (sl_inflight (IndexByHash i h) st))"
  by (rule settle_inv_inflight [where op = "IndexByHash i h", OF assms IndexByHash_spec(1) [OF settle_inv_inflight_inv [OF assms]]])
    (rule heap_ext_IndexByHash)

lemma Get_set_request: "Inflight_Get i f = Some (p, q) \<Longrightarrow> Inflight_Get i (set_request p q' f) = Some (p, q')"
  by (auto simp: Inflight_Get_Some set_request_def)

lemma Get_byHash [simp]: "Inflight_Get i (f\<lparr>if_byHash := m\<rparr>) = Inflight_Get i f"
  by (auto simp: Inflight_Get_def split: option.splits)

lemma Transition_Get:
  assumes "Inflight_Get i f = Some (p, q)"
  shows "\<exists>q1. Inflight_Get i (snd (Transition i from to now f)) = Some (p, q1) \<and> static q1 = static q"
  using assms by (auto simp: Transition_def Get_set_request static_def)

lemma EnsureSettleSig_Get:
  assumes "Inflight_Get i f = Some (p, q)"
  shows "\<exists>q1. Inflight_Get i (snd (EnsureSettleSig i f)) = Some (p, q1) \<and> static q1 = static q \<and> rq_settle_sig q1 \<noteq> None"
  using assms by (auto simp: EnsureSettleSig_def Get_set_request static_def split: option.splits)

lemma IndexByHash_Get:
  assumes "Inflight_Get i f = Some (p, q)"
  shows "\<exists>q1. Inflight_Get i (snd (IndexByHash i h f)) = Some (p, q1) \<and> static q1 = static q \<and> rq_settle_sig q1 = rq_settle_sig q"
  using assms by (auto simp: IndexByHash_def Get_set_request static_def)

lemma report_accept_cases:
  assumes inv: "settle_inv (se_ledger env) st" and g: "Inflight_Get (ur_request_id r) (mg_inflight (bk_mgr (sl_bk st))) = Some (p, q)"
    and st0: "static q = static req" and len: "length (ur_request_id r) = 16"
    and run: "report_accept env p req r cost pos st = (res, st')"
  shows "settle_inv (se_ledger env) st' \<and> sl_store st' = sl_store st \<and>
    (case res of Inl _ \<Rightarrow> sl_tasks st' = sl_tasks st
     | Inr _ \<Rightarrow> sl_pending st (ur_request_id r) = None \<and> sl_tasks st' = sl_tasks st @ [(p, usage_record env req r cost pos)])"
proof -
  let ?i = "ur_request_id r" and ?a = "usage_assertion req r cost" and ?cr = "le_crypto (se_ledger env)"
  have arr: "to_array 16 ?i = ?i" using len by simp
  show ?thesis
  proof (cases "CanonicalUsageAssertionPreSig ?a")
    case (Inl e)
    then show ?thesis using run inv by (auto simp: report_accept_def Let_def)
  next
    case (Inr pre)
    show ?thesis
    proof (cases "VerifyUsageAssertion ?cr (rq_seeder_pubkey req) ?a (ur_seeder_sig r)")
      case False
      then show ?thesis using run inv Inr by (auto simp: report_accept_def Let_def)
    next
      case ver: True
      obtain e1 st1 where E: "sl_inflight (EnsureSettleSig ?i) st = (e1, st1)" by force
      have st1: "st1 = snd (sl_inflight (EnsureSettleSig ?i) st)" using E by simp
      have i1: "settle_inv (se_ledger env) st1"
        unfolding st1 by (rule settle_inv_EnsureSettleSig [OF inv])
      have e1: "e1 = None" using arg_cong [OF E, of fst] g by (simp add: EnsureSettleSig_def)
      have g1: "\<exists>q1. Inflight_Get ?i (mg_inflight (bk_mgr (sl_bk st1))) = Some (p, q1) \<and> static q1 = static req \<and> rq_settle_sig q1 \<noteq> None"
        using EnsureSettleSig_Get [OF g] st0 by (simp add: st1)
      then obtain q1 where g1: "Inflight_Get ?i (mg_inflight (bk_mgr (sl_bk st1))) = Some (p, q1)" "static q1 = static req"
        "rq_settle_sig q1 \<noteq> None" by blast
      let ?h = "sha256 ?cr pre"
      obtain e2 st2 where X: "sl_inflight (IndexByHash ?i ?h) st1 = (e2, st2)" by force
      have st2: "st2 = snd (sl_inflight (IndexByHash ?i ?h) st1)" using X by simp
      have i2: "settle_inv (se_ledger env) st2"
        unfolding st2 by (rule settle_inv_IndexByHash [OF i1])
      have e2: "e2 = None" using arg_cong [OF X, of fst] g1(1) by (simp add: IndexByHash_def)
      have h2: "\<exists>q2. sl_heap st2 p = Some q2 \<and> static q2 = static req \<and> rq_settle_sig q2 \<noteq> None"
        using IndexByHash_Get [OF g1(1), of ?h] g1(2,3) by (auto simp: st2 Inflight_Get_Some)
      have same: "sl_store st2 = sl_store st" "sl_pending st2 = sl_pending st" "sl_tasks st2 = sl_tasks st"
        by (simp_all add: st1 st2)
      show ?thesis
      proof (cases "sl_pending st ?i")
        case (Some x)
        then have "res = Inl (StBroker ErrDuplicateUsageReport) \<and> st' = st2"
          using run Inr ver E X e1 e2 same by (auto simp: report_accept_def Let_def arr putPending_def)
        then show ?thesis using i2 same by simp
      next
        case None
        let ?ps = "\<lparr>ps_assertion = ?a, ps_pre_sig = pre, ps_verified = False, ps_refused = False, ps_consumer_sig = [], ps_consumer_pub = []\<rparr>"
        let ?rec = "usage_record env req r cost pos"
        have out: "res = Inr ()" "sl_pending st' = (sl_pending st)(?i \<mapsto> ?ps)" "sl_tasks st' = sl_tasks st @ [(p, ?rec)]"
          "sl_store st' = sl_store st" "sl_bk st' = sl_bk st2"
          using run Inr ver E X e1 e2 same None by (auto simp: report_accept_def Let_def arr putPending_def)
        have rec: "rec_request_id ?rec = ?i" "rec_assertion ?rec = ?a" "rec_consumer_id ?rec = rq_consumer_id req"
          "rec_seeder_id ?rec = rq_assigned_seeder req" "rec_seeder_pub ?rec = rq_seeder_pubkey req" "rec_seeder_sig ?rec = ur_seeder_sig r"
          by (simp_all add: usage_record_def rec_assertion_def usage_assertion_def)
        have rid: "rq_request_id req = ?i"
          using requests_id [OF settle_inv_inflight_inv [OF inv], of ?i q] g st0 by (simp add: requests_Get static_def)
        have "task_ok ?cr (sl_heap st2) ((sl_pending st)(?i \<mapsto> ?ps)) (p, ?rec)"
          using h2 ver rid by (auto simp: task_ok_def rec verdict_ok_def static_def)
        moreover have "task_ok ?cr (sl_heap st2) ((sl_pending st)(?i \<mapsto> ?ps)) t" if "t \<in> set (sl_tasks st)" for t
        proof -
          have "task_ok ?cr (sl_heap st2) (sl_pending st) t" using i2 that same by (simp add: settle_inv_def)
          moreover from this None have "rec_request_id (snd t) \<noteq> ?i" by (auto simp: task_ok_def)
          ultimately show ?thesis by (auto simp: task_ok_def)
        qed
        moreover have "?i \<notin> set (task_ids st)" using inv None by (auto simp: settle_inv_def)
        ultimately have "settle_inv (se_ledger env) st'"
          using i2 inv same by (auto simp: settle_inv_def out task_ids_def rec)
        then show ?thesis using out None by simp
      qed
    qed
  qed
qed

lemma HandleUsageReport_cases:
  assumes inv: "settle_inv (se_ledger env) st" and run: "HandleUsageReport env peerID orep st = (res, st')"
  shows "settle_inv (se_ledger env) st' \<and> sl_store st' = sl_store st \<and>
    (case res of Inl _ \<Rightarrow> sl_tasks st' = sl_tasks st
     | Inr _ \<Rightarrow> \<exists>r p q cost pos. orep = Some r \<and> requests (mg_inflight (bk_mgr (sl_bk st))) (ur_request_id r) = Some q \<and>
         report_checks env peerID q r = Inr cost \<and> sl_pending st (ur_request_id r) = None \<and>
         sl_tasks st' = sl_tasks st @ [(p, usage_record env q r cost pos)])"
proof (cases "\<exists>e. res = Inl e \<and> st' = st")
  case True
  then show ?thesis using inv by auto
next
  case False
  obtain r where r: "orep = Some r" "length (ur_request_id r) = 16"
    using run False by (auto simp: HandleUsageReport_def split: option.splits if_splits)
  let ?i = "ur_request_id r" and ?f = "mg_inflight (bk_mgr (sl_bk st))"
  have arr: "to_array 16 ?i = ?i" using r by simp
  obtain p q where g: "Inflight_Get ?i ?f = Some (p, q)"
    using run False r by (auto simp: HandleUsageReport_def Let_def split: option.splits)
  obtain cost where c: "report_checks env peerID q r = Inr cost"
    using run False r g by (auto simp: HandleUsageReport_def Let_def split: sum.splits)
  obtain terr st1 where T: "sl_inflight (Transition ?i StateAssigned StateServing (se_now env)) st = (terr, st1)" by force
  have st1: "st1 = snd (sl_inflight (Transition ?i StateAssigned StateServing (se_now env)) st)" using T by simp
  have i1: "settle_inv (se_ledger env) st1"
    unfolding st1 by (rule settle_inv_Transition [OF inv])
  have same: "sl_store st1 = sl_store st" "sl_pending st1 = sl_pending st" "sl_tasks st1 = sl_tasks st" by (simp_all add: st1)
  have "terr = None \<or> terr = Some ErrIllegalTransition"
    using arg_cong [OF T, of fst] g by (auto simp: Transition_def split: if_splits)
  moreover have g1: "\<exists>q1. Inflight_Get ?i (mg_inflight (bk_mgr (sl_bk st1))) = Some (p, q1) \<and> static q1 = static q"
    using Transition_Get [OF g] by (simp add: st1)
  ultimately show ?thesis
  proof (cases "Tip (se_tip_fault env) (sl_store st1)")
    case (Inl e)
    then have "(\<exists>e. res = Inl e) \<and> st' = st1"
      using run r g c T arr \<open>terr = None \<or> terr = Some ErrIllegalTransition\<close>
      by (auto simp: HandleUsageReport_def Let_def)
    then show ?thesis using i1 same by auto
  next
    case (Inr t)
    then have acc: "report_accept env p q r cost (expected_tip t) st1 = (res, st')"
      using run r g c T arr \<open>terr = None \<or> terr = Some ErrIllegalTransition\<close>
      by (auto simp: HandleUsageReport_def Let_def)
    obtain q1 where q1: "Inflight_Get ?i (mg_inflight (bk_mgr (sl_bk st1))) = Some (p, q1)" "static q1 = static q" using g1 by blast
    note A = report_accept_cases [OF i1 q1 r(2) acc]
    have "requests ?f ?i = Some q" using g by (auto simp: requests_Some)
    then show ?thesis using A r(1) c same by (cases res; cases "expected_tip t") auto
  qed
qed

section \<open>Counter-signatures keep the invariant\<close>

lemma verifyConsumerSig_cases:
  assumes inv: "settle_inv (se_ledger env) st" and run: "verifyConsumerSig env req sig st = (v, st')"
  shows "settle_inv (se_ledger env) st' \<and> sl_bk st' = sl_bk st \<and> sl_store st' = sl_store st \<and> sl_tasks st' = sl_tasks st"
proof (cases "st' = st")
  case True
  then show ?thesis using inv by simp
next
  case False
  let ?i = "rq_request_id req" and ?cr = "le_crypto (se_ledger env)"
  have "\<exists>p p'. sl_pending st ?i = Some p \<and> st' = st\<lparr>sl_pending := (sl_pending st)(?i \<mapsto> p')\<rparr> \<and>
      (p' = p\<lparr>ps_refused := True\<rparr> \<or> (\<exists>pub. p' = p\<lparr>ps_verified := True, ps_consumer_sig := sig, ps_consumer_pub := pub\<rparr> \<and>
        VerifyUsageAssertion ?cr pub (ps_assertion p) sig))"
    using run False by (auto simp: verifyConsumerSig_def split: option.splits if_splits)
  then obtain p p' where p: "sl_pending st ?i = Some p" and st': "st' = st\<lparr>sl_pending := (sl_pending st)(?i \<mapsto> p')\<rparr>" and
    d: "p' = p\<lparr>ps_refused := True\<rparr> \<or> (\<exists>pub. p' = p\<lparr>ps_verified := True, ps_consumer_sig := sig, ps_consumer_pub := pub\<rparr> \<and>
        VerifyUsageAssertion ?cr pub (ps_assertion p) sig)" by blast
  from d have p': "ps_assertion p' = ps_assertion p" "verdict_ok ?cr p \<Longrightarrow> verdict_ok ?cr p'" by (auto simp: verdict_ok_def)
  have "task_ok ?cr (sl_heap st) ((sl_pending st)(?i \<mapsto> p')) t" if "task_ok ?cr (sl_heap st) (sl_pending st) t" for t
    using that p p' by (fastforce simp: task_ok_def split: prod.splits)
  then show ?thesis using inv p by (auto simp: settle_inv_def st' task_ids_def)
qed

lemma try_send_cases:
  assumes inv: "settle_inv lenv st" and run: "try_send p sig st = (ok, st')"
  shows "settle_inv lenv st' \<and> sl_store st' = sl_store st \<and> sl_tasks st' = sl_tasks st \<and> sl_pending st' = sl_pending st"
proof (cases "st' = st")
  case True
  then show ?thesis using inv by simp
next
  case False
  let ?f = "mg_inflight (bk_mgr (sl_bk st))"
  from run False obtain req where h: "if_heap ?f p = Some req" "rq_settle_sig req = Some []" and
    st': "st' = snd (sl_inflight (\<lambda>f. ((), set_request p (req\<lparr>rq_settle_sig := Some [sig]\<rparr>) f)) st)"
    by (auto simp: try_send_def Let_def split: option.splits list.splits)
  have fi: "inflight_inv ?f" by (rule settle_inv_inflight_inv [OF inv])
  have "inflight_inv (set_request p (req\<lparr>rq_settle_sig := Some [sig]\<rparr>) ?f)"
    using fi h(1) by (auto simp: inflight_inv_def set_request_def) fastforce
  then have "settle_inv lenv st'" unfolding st'
    by (intro settle_inv_inflight [OF inv]) (auto simp: h static_def intro!: heap_ext_set_request)
  then show ?thesis by (simp add: st')
qed

lemma HandleSettle_cases:
  assumes inv: "settle_inv (se_ledger env) st" and run: "HandleSettle env peerID os st = (res, st')"
  shows "settle_inv (se_ledger env) st' \<and> sl_store st' = sl_store st \<and> sl_tasks st' = sl_tasks st"
proof (cases "st' = st")
  case True
  then show ?thesis using inv by simp
next
  case False
  from run False obtain p req sig v st1 where V: "verifyConsumerSig env req sig st = (v, st1)" and
    rest: "st' = st1 \<or> (\<exists>ok. try_send p sig st1 = (ok, st'))"
    by (auto simp: HandleSettle_def split: option.splits if_splits prod.splits sigVerdict.splits bool.splits) blast+
  note A = verifyConsumerSig_cases [OF inv V]
  then have i1: "settle_inv (se_ledger env) st1" by simp
  from rest show ?thesis using A try_send_cases [OF i1] by auto
qed

section \<open>Appending\<close>

definition others_ok :: "settle_env \<Rightarrow> bool" where
  "others_ok env \<longleftrightarrow> (\<forall>k s. (ledger_step (se_ledger env))\<^sup>*\<^sup>* s (se_others env k s))"

definition same_usage :: "UsageRecord \<Rightarrow> UsageRecord \<Rightarrow> bool" where
  "same_usage r r' \<longleftrightarrow> (\<exists>h sq. r' = r\<lparr>rec_prev_hash := h, rec_seq := sq\<rparr>)"

lemma same_usage_refl [simp]: "same_usage r r"
  unfolding same_usage_def by (intro exI [of _ "rec_prev_hash r"] exI [of _ "rec_seq r"]) simp

lemma same_usage_retip: "same_usage (r\<lparr>rec_prev_hash := h, rec_seq := sq\<rparr>) r' \<Longrightarrow> same_usage r r'"
  unfolding same_usage_def by auto

lemma append_attempts_cases:
  assumes "others_ok env" "append_attempts env n k rec err s = (err', rec', s')"
  shows "(ledger_step (se_ledger env))\<^sup>*\<^sup>* s s' \<and> same_usage rec rec' \<and> (err' = None \<longrightarrow> n = 0 \<and> err = None \<or>
    (\<exists>flt s0 e. (ledger_step (se_ledger env))\<^sup>*\<^sup>* s s0 \<and> AppendUsage (se_ledger env) flt rec' s0 = (Inr e, s')))"
  using assms(2)
proof (induction n arbitrary: k rec err s)
  case (Suc n)
  let ?L = "ledger_step (se_ledger env)" and ?s0 = "se_others env k s"
  have o: "?L\<^sup>*\<^sup>* s ?s0" using assms(1) by (simp add: others_ok_def)
  obtain res s1 where A: "AppendUsage (se_ledger env) (se_append_fault env k) rec ?s0 = (res, s1)" by force
  have s1: "?L\<^sup>*\<^sup>* s s1" using o step_usage [OF A] by (simp add: rtranclp.rtrancl_into_rtrancl)
  consider (ok) e where "res = Inr e" | (err) x where "res = Inl x" "x \<noteq> ErrStaleTip \<or> (\<exists>t. Tip (se_append_fault env k) s1 = Inl t)"
    | (retry) sq h u where "res = Inl ErrStaleTip" "Tip (se_append_fault env k) s1 = Inr (sq, h, u)"
    by (cases res; cases "Tip (se_append_fault env k) s1") auto
  then show ?case
  proof cases
    case ok
    then show ?thesis using Suc.prems A s1 o by auto
  next
    case err
    then show ?thesis using Suc.prems A s1 by (auto split: if_splits)
  next
    case retry
    then have "append_attempts env n (k + 1) (rec\<lparr>rec_prev_hash := h, rec_seq := sq + 1\<rparr>) (Some ErrStaleTip) s1 = (err', rec', s')"
      using Suc.prems A by simp
    from Suc.IH [OF this] s1 show ?thesis by (blast intro: same_usage_retip rtranclp_trans)
  qed
qed auto

lemma ledger_steps_inv: "(ledger_step env)\<^sup>*\<^sup>* s s' \<Longrightarrow> chain_inv env s \<Longrightarrow> chain_inv env s'"
  by (rule chain.steps_inv)

lemma sl_upd_bk_frame [simp]:
  "sl_store (sl_upd_bk g st) = sl_store st" "sl_pending (sl_upd_bk g st) = sl_pending st"
  "sl_tasks (sl_upd_bk g st) = sl_tasks st" "sl_bk (sl_upd_bk g st) = g (sl_bk st)" "sl_events (sl_upd_bk g st) = sl_events st"
  by (simp_all add: sl_upd_bk_def)

lemma sl_inflight_events [simp]: "sl_events (snd (sl_inflight op st)) = sl_events st"
  by (simp add: sl_inflight_def split: prod.splits)

text \<open>The three broker effects of a settled request.\<close>

definition settled_bk :: "Request \<Rightarrow> time \<Rightarrow> broker_state \<Rightarrow> broker_state" where
  "settled_bk req now b = snd (upd_inflight (Transition (rq_request_id req) StateServing StateCompleted now)
     (snd (upd_registry (DecLoad (rq_assigned_seeder req)) (snd (upd_reservations (Release (rq_request_id req)) b)))))"

definition failed_bk :: "Request \<Rightarrow> time \<Rightarrow> broker_state \<Rightarrow> broker_state" where
  "failed_bk req now b = snd (upd_inflight (Transition (rq_request_id req) StateServing StateFailed now) b)"

lemma appendUsageEntry_cases:
  assumes "others_ok env" "0 \<le> se_retries env"
  shows "\<exists>rec' s'. same_usage rec rec' \<and> (ledger_step (se_ledger env))\<^sup>*\<^sup>* (sl_store st) s' \<and>
    sl_store (appendUsageEntry env req rec st) = s' \<and> sl_pending (appendUsageEntry env req rec st) = sl_pending st \<and>
    sl_tasks (appendUsageEntry env req rec st) = sl_tasks st \<and>
    ((sl_bk (appendUsageEntry env req rec st) = failed_bk req (se_now env) (sl_bk st) \<and> sl_events (appendUsageEntry env req rec st) = sl_events st) \<or>
     (sl_bk (appendUsageEntry env req rec st) = settled_bk req (se_now env) (sl_bk st) \<and>
      (\<exists>ev. sl_events (appendUsageEntry env req rec st) = sl_events st @ [ev] \<and> le_cost_credits ev = rec_cost_credits rec) \<and>
      (\<exists>flt s0 e. (ledger_step (se_ledger env))\<^sup>*\<^sup>* (sl_store st) s0 \<and> AppendUsage (se_ledger env) flt rec' s0 = (Inr e, s'))))"
proof -
  obtain err rec' s' where A: "append_attempts env (nat (se_retries env + 1)) 0 rec None (sl_store st) = (err, rec', s')"
    using prod_cases3 by blast
  note C = append_attempts_cases [OF assms(1) A]
  have pos: "nat (se_retries env + 1) \<noteq> 0" using assms(2) by simp
  have same: "rec_cost_credits rec' = rec_cost_credits rec" using C by (auto simp: same_usage_def)
  show ?thesis
  proof (cases err)
    case None
    then have "sl_store (appendUsageEntry env req rec st) = s'" "sl_pending (appendUsageEntry env req rec st) = sl_pending st"
      "sl_tasks (appendUsageEntry env req rec st) = sl_tasks st"
      "sl_bk (appendUsageEntry env req rec st) = settled_bk req (se_now env) (sl_bk st)"
      "\<exists>ev. sl_events (appendUsageEntry env req rec st) = sl_events st @ [ev] \<and> le_cost_credits ev = rec_cost_credits rec"
      by (simp_all add: appendUsageEntry_def A Let_def settled_bk_def same)
    then show ?thesis using C None pos by (intro exI [of _ rec'] exI [of _ s']) simp
  next
    case (Some x)
    then have "sl_store (appendUsageEntry env req rec st) = s'" "sl_pending (appendUsageEntry env req rec st) = sl_pending st"
      "sl_tasks (appendUsageEntry env req rec st) = sl_tasks st" "sl_events (appendUsageEntry env req rec st) = sl_events st"
      "sl_bk (appendUsageEntry env req rec st) = failed_bk req (se_now env) (sl_bk st)"
      by (simp_all add: appendUsageEntry_def A Let_def failed_bk_def)
    then show ?thesis using C by (intro exI [of _ rec'] exI [of _ s']) simp
  qed
qed

lemma settled_bk_ok:
  assumes "broker_inv b"
  shows "broker_inv (settled_bk req now b)" "heap_ext (mg_inflight (bk_mgr b)) (mg_inflight (bk_mgr (settled_bk req now b)))"
    "broker_inv (failed_bk req now b)" "heap_ext (mg_inflight (bk_mgr b)) (mg_inflight (bk_mgr (failed_bk req now b)))"
  using assms Transition_spec(1) Release_inv DecLoad_spec(1) heap_ext_Transition
  by (simp_all add: broker_inv_def settled_bk_def failed_bk_def)

lemma settle_inv_append [inv_rules]:
  assumes "settle_inv (se_ledger env) st" "others_ok env" "0 \<le> se_retries env"
  shows "settle_inv (se_ledger env) (appendUsageEntry env req rec st)"
proof -
  from appendUsageEntry_cases [OF assms(2,3), of rec st req] obtain rec' s' where
    a: "(ledger_step (se_ledger env))\<^sup>*\<^sup>* (sl_store st) s'" "sl_store (appendUsageEntry env req rec st) = s'"
      "sl_pending (appendUsageEntry env req rec st) = sl_pending st" "sl_tasks (appendUsageEntry env req rec st) = sl_tasks st" and
    b: "sl_bk (appendUsageEntry env req rec st) = failed_bk req (se_now env) (sl_bk st) \<or>
        sl_bk (appendUsageEntry env req rec st) = settled_bk req (se_now env) (sl_bk st)" by blast
  have inv: "broker_inv (sl_bk st)" "chain_inv (se_ledger env) (sl_store st)" using assms(1) by (auto simp: settle_inv_def)
  have "chain_inv (se_ledger env) s'" by (rule ledger_steps_inv [OF a(1) inv(2)])
  then show ?thesis using b settled_bk_ok [OF inv(1)] a
    by (elim disjE) (rule settle_inv_bk [OF assms(1)]; simp)+
qed

lemma await_verdict_cases:
  "await_verdict env event req rec st = st \<or>
   (\<exists>rec0. await_verdict env event req rec st = appendUsageEntry env req rec0 st)"
  by (auto simp: await_verdict_def split: prod.splits await_event.splits)

section \<open>Settling one request\<close>

lemma remove_nth_set: "n < length xs \<Longrightarrow> distinct (map f xs) \<Longrightarrow> set (remove_nth n xs) = {x \<in> set xs. f x \<noteq> f (xs ! n)}"
proof -
  assume n: "n < length xs" and d: "distinct (map f xs)"
  have xs: "xs = take n xs @ xs ! n # drop (Suc n) xs" using n by (rule id_take_nth_drop)
  with d have "distinct (map f (take n xs @ xs ! n # drop (Suc n) xs))" by simp
  then have "f (xs ! n) \<notin> f ` set (take n xs)" "f (xs ! n) \<notin> f ` set (drop (Suc n) xs)" by auto
  moreover have "set xs = set (take n xs) \<union> {xs ! n} \<union> set (drop (Suc n) xs)" by (subst xs) auto
  ultimately show ?thesis by (auto simp: remove_nth_def image_iff)
qed

lemma remove_nth_map: "map f (remove_nth n xs) = remove_nth n (map f xs)"
  by (simp add: remove_nth_def take_map drop_map)

lemma remove_nth_distinct: "distinct xs \<Longrightarrow> distinct (remove_nth n xs)"
  by (auto simp: remove_nth_def set_take_disj_set_drop_if_distinct)

lemma settle_inv_finish:
  assumes "settle_inv lenv st" "n < length (sl_tasks st)" "rec_request_id (snd (sl_tasks st ! n)) = i"
  shows "settle_inv lenv (dropPending i st\<lparr>sl_tasks := remove_nth n (sl_tasks st)\<rparr>)"
proof -
  have inv: "broker_inv (sl_bk st)" "chain_inv lenv (sl_store st)" "distinct (task_ids st)" "dom (sl_pending st) = set (task_ids st)"
    "\<And>t. t \<in> set (sl_tasks st) \<Longrightarrow> task_ok (le_crypto lenv) (sl_heap st) (sl_pending st) t"
    using assms(1) by (auto simp: settle_inv_def)
  note R = remove_nth_set [OF assms(2), of "rec_request_id \<circ> snd"]
  have set: "set (remove_nth n (sl_tasks st)) = {t \<in> set (sl_tasks st). rec_request_id (snd t) \<noteq> i}"
    using R inv(3) assms(3) by (simp add: task_ids_def)
  have "task_ok (le_crypto lenv) (sl_heap st) ((sl_pending st)(i := None)) t" if "t \<in> set (remove_nth n (sl_tasks st))" for t
    using inv(5) [of t] that set by (auto simp: task_ok_def)
  moreover have "distinct (map (rec_request_id \<circ> snd) (remove_nth n (sl_tasks st)))"
    using inv(3) by (simp add: remove_nth_map remove_nth_distinct task_ids_def)
  moreover have "dom ((sl_pending st)(i := None)) = (rec_request_id \<circ> snd) ` set (remove_nth n (sl_tasks st))"
    using inv(4) by (auto simp: set task_ids_def)
  ultimately show ?thesis using inv(1,2) by (simp add: settle_inv_def dropPending_def task_ids_def)
qed

lemma settle_inv_receive:
  assumes "settle_inv lenv st" "sl_heap st p = Some req" "rq_settle_sig req \<noteq> None"
  shows "settle_inv lenv (snd (sl_inflight (\<lambda>f. ((), set_request p (req\<lparr>rq_settle_sig := Some q\<rparr>) f)) st))"
proof (rule settle_inv_inflight [OF assms(1)])
  have "inflight_inv (mg_inflight (bk_mgr (sl_bk st)))" by (rule settle_inv_inflight_inv [OF assms(1)])
  then show "inflight_inv (snd ((), set_request p (req\<lparr>rq_settle_sig := Some q\<rparr>) (mg_inflight (bk_mgr (sl_bk st)))))"
    using assms(2) by (auto simp: inflight_inv_def set_request_def) fastforce
qed (auto simp: assms static_def intro!: heap_ext_set_request)

definition awaited :: "await_event \<Rightarrow> addr \<Rightarrow> Request \<Rightarrow> settle_state \<Rightarrow> settle_state" where
  "awaited event p req st = (if event = SettleSig
     then snd (sl_inflight (\<lambda>f. ((), set_request p (req\<lparr>rq_settle_sig := Some []\<rparr>) f)) st) else st)"

lemma awaited_frame [simp]: "sl_store (awaited event p req st) = sl_store st" "sl_pending (awaited event p req st) = sl_pending st"
  "sl_tasks (awaited event p req st) = sl_tasks st" "sl_events (awaited event p req st) = sl_events st"
  "bk_reg (sl_bk (awaited event p req st)) = bk_reg (sl_bk st)"
  "mg_reservations (bk_mgr (sl_bk (awaited event p req st))) = mg_reservations (bk_mgr (sl_bk st))"
  by (simp_all add: awaited_def)

lemma awaitSettle_unfold:
  assumes "settle_inv lenv st" "n < length (sl_tasks st)" "sl_tasks st ! n = (p, rec)"
  obtains req where "sl_heap st p = Some req" "static req = (rec_request_id rec, rec_consumer_id rec, rec_seeder_id rec, rec_seeder_pub rec)"
    "awaitSettle env event n st = (let st2 = await_verdict env event req rec (awaited event p req st)
       in dropPending (rec_request_id rec) st2\<lparr>sl_tasks := remove_nth n (sl_tasks st2)\<rparr>)"
    "settle_inv lenv (awaited event p req st)"
proof -
  have "task_ok (le_crypto lenv) (sl_heap st) (sl_pending st) (p, rec)"
    using assms(1,2) nth_mem [OF assms(2)] unfolding assms(3) by (simp add: settle_inv_def)
  then obtain req where r: "sl_heap st p = Some req" "rq_settle_sig req \<noteq> None"
    "static req = (rec_request_id rec, rec_consumer_id rec, rec_seeder_id rec, rec_seeder_pub rec)"
    by (auto simp: task_ok_def)
  then have i: "rq_request_id req = rec_request_id rec" by (simp add: static_def)
  show thesis
    by (rule that [OF r(1,3)]) (use r assms(1) i in \<open>auto simp: awaitSettle_def assms(3) Let_def awaited_def dropPending_def settle_inv_receive\<close>)
qed

lemma settle_inv_await [inv_rules]:
  assumes "settle_inv (se_ledger env) st" "others_ok env" "0 \<le> se_retries env" "n < length (sl_tasks st)"
  shows "settle_inv (se_ledger env) (awaitSettle env event n st)"
proof -
  obtain p rec where t: "sl_tasks st ! n = (p, rec)" by force
  obtain req where a: "awaitSettle env event n st = (let st2 = await_verdict env event req rec (awaited event p req st)
       in dropPending (rec_request_id rec) st2\<lparr>sl_tasks := remove_nth n (sl_tasks st2)\<rparr>)"
    "settle_inv (se_ledger env) (awaited event p req st)"
    by (rule awaitSettle_unfold [OF assms(1,4) t])
  define st2 where "st2 = await_verdict env event req rec (awaited event p req st)"
  have st2: "settle_inv (se_ledger env) st2 \<and> sl_tasks st2 = sl_tasks st"
  proof (cases "st2 = awaited event p req st")
    case False
    then obtain rec0 where "st2 = appendUsageEntry env req rec0 (awaited event p req st)"
      using await_verdict_cases unfolding st2_def by blast
    then show ?thesis using settle_inv_append [OF a(2) assms(2,3)] appendUsageEntry_cases [OF assms(2,3)]
      by (metis awaited_frame(3))
  qed (use a(2) in simp)
  show ?thesis using settle_inv_finish [of "se_ledger env" st2 n] st2 assms(4) t a(1) by (simp add: Let_def st2_def)
qed

section \<open>The reaper and the operators\<close>

lemma reap_loads_inv: "reg_inv r \<Longrightarrow> reg_inv (reap_loads es r)"
  unfolding reap_loads_def by (induction es arbitrary: r) (auto simp: DecLoad_spec(1))

lemma settle_inv_reap [inv_rules]:
  assumes "settle_inv lenv st" "dom (bk_slots (sl_bk st)) \<subseteq> set order"
  shows "settle_inv lenv (runReap order now st)"
proof -
  let ?m = "bk_mgr (sl_bk st)"
  obtain es m where S: "SweepExpiredAndFail order now ?m = (es, m)" by force
  have inv: "inflight_inv (mg_inflight ?m)" "res_inv (mg_reservations ?m)" "reg_inv (bk_reg (sl_bk st))" "chain_inv lenv (sl_store st)"
    using assms(1) by (auto simp: settle_inv_def broker_inv_def)
  note spec = SweepExpiredAndFail_spec [OF inv(1,2) assms(2) S]
  obtain ys rs where s: "SweepExpired order now (mg_reservations ?m) = (ys, rs)" by force
  obtain es' f' where x: "expire_slots now ys (mg_inflight ?m) = (es', f')" by force
  have "mg_inflight m = f'" using S s x by (auto simp: SweepExpiredAndFail_def)
  then have ext: "heap_ext (mg_inflight ?m) (mg_inflight m)" using heap_ext_expire_slots [OF x] by simp
  have "broker_inv (sl_bk (runReap order now st))"
    using spec(1,2) inv(3) by (simp add: broker_inv_def runReap_def S reap_loads_inv)
  from settle_inv_bk [OF assms(1) this] ext inv(4) show ?thesis by (simp add: runReap_def S)
qed

lemma settle_inv_upd_bk:
  assumes "settle_inv lenv st" "broker_inv b" "heap_ext (mg_inflight (bk_mgr (sl_bk st))) (mg_inflight (bk_mgr b))"
  shows "settle_inv lenv (st\<lparr>sl_bk := b\<rparr>)"
  using settle_inv_bk [OF assms, of "st\<lparr>sl_bk := b\<rparr>"] assms(1) by (simp add: settle_inv_def)

lemma handleForceRelease_ok:
  assumes "broker_inv b" "handleForceReleaseReservation path b = (code, b')"
  shows "broker_inv b'" "mg_inflight (bk_mgr b') = mg_inflight (bk_mgr b)"
proof -
  have "b' = b \<or> (\<exists>i. b' = snd (upd_reservations (Release i) b))"
    using assms(2) by (auto simp: handleForceReleaseReservation_def split: option.splits prod.splits if_splits) (metis snd_conv)+
  then show "broker_inv b'" "mg_inflight (bk_mgr b') = mg_inflight (bk_mgr b)"
    using assms(1) by (auto simp: broker_inv_def Release_inv)
qed

lemma handleForceFail_ok:
  assumes "broker_inv b" "handleForceFailInflight path now b = (code, b')"
  shows "broker_inv b'" "heap_ext (mg_inflight (bk_mgr b)) (mg_inflight (bk_mgr b'))"
proof -
  have "b' = b \<or> (\<exists>i b1. b1 = snd (upd_inflight (ForceFail i now) b) \<and> (b' = b1 \<or> (\<exists>s. b' = snd (upd_registry (DecLoad s) b1))))"
    using assms(2) by (auto simp: handleForceFailInflight_def Let_def split: option.splits prod.splits if_splits)
      (metis snd_conv)+
  then show "broker_inv b'" "heap_ext (mg_inflight (bk_mgr b)) (mg_inflight (bk_mgr b'))"
    using assms(1) by (auto simp: broker_inv_def ForceFail_spec(1) DecLoad_spec(1) heap_ext_ForceFail)
qed

section \<open>The settlement system\<close>

text \<open>
  Everything that happens to a running settlement: reports, counter-signatures, waiting
  goroutines, the reaper, the operators, other ledger writers, and the broker working on
  other requests (\<open>step_broker\<close>: any change that leaves the awaited requests' parties and
  channels alone).
\<close>

definition keeps_tasks :: "settle_state \<Rightarrow> broker_state \<Rightarrow> bool" where
  "keeps_tasks st b \<longleftrightarrow> (\<forall>(p, rec)\<in>set (sl_tasks st). \<forall>r. sl_heap st p = Some r \<longrightarrow>
     (\<exists>r'. if_heap (mg_inflight (bk_mgr b)) p = Some r' \<and> static r' = static r \<and> (rq_settle_sig r \<noteq> None \<longrightarrow> rq_settle_sig r' \<noteq> None)))"

inductive settle_step :: "ledger_env \<Rightarrow> settle_state \<Rightarrow> settle_state \<Rightarrow> bool" for lenv where
  step_report: "se_ledger env = lenv \<Longrightarrow> HandleUsageReport env peer r st = (res, st') \<Longrightarrow> settle_step lenv st st'"
| step_settle: "se_ledger env = lenv \<Longrightarrow> HandleSettle env peer q st = (res, st') \<Longrightarrow> settle_step lenv st st'"
| step_await: "se_ledger env = lenv \<Longrightarrow> others_ok env \<Longrightarrow> 0 \<le> se_retries env \<Longrightarrow> n < length (sl_tasks st) \<Longrightarrow>
    settle_step lenv st (awaitSettle env event n st)"
| step_reap: "dom (bk_slots (sl_bk st)) \<subseteq> set order \<Longrightarrow> settle_step lenv st (runReap order now st)"
| step_force_release: "handleForceReleaseReservation path (sl_bk st) = (code, b) \<Longrightarrow> settle_step lenv st (st\<lparr>sl_bk := b\<rparr>)"
| step_force_fail: "handleForceFailInflight path now (sl_bk st) = (code, b) \<Longrightarrow> settle_step lenv st (st\<lparr>sl_bk := b\<rparr>)"
| step_ledger: "ledger_step lenv (sl_store st) s \<Longrightarrow> settle_step lenv st (st\<lparr>sl_store := s\<rparr>)"
| step_broker: "broker_inv b \<Longrightarrow> keeps_tasks st b \<Longrightarrow> settle_step lenv st (st\<lparr>sl_bk := b\<rparr>)"

text \<open>A settlement as \<open>OpenSettlement\<close> starts it, on the broker and the ledger it is given.\<close>

definition fresh_settle :: "broker_state \<Rightarrow> store \<Rightarrow> settle_state" where
  "fresh_settle b s = \<lparr>sl_bk = b, sl_store = s, sl_pending = Map.empty, sl_tasks = [], sl_pushes = [], sl_events = []\<rparr>"

lemma settle_inv_rely:
  assumes "settle_inv lenv st" "broker_inv b" "keeps_tasks st b"
  shows "settle_inv lenv (st\<lparr>sl_bk := b\<rparr>)"
proof -
  have "task_ok (le_crypto lenv) (if_heap (mg_inflight (bk_mgr b))) (sl_pending st) t" if t: "t \<in> set (sl_tasks st)" for t
  proof -
    obtain p rec where pr: "t = (p, rec)" by force
    have ok: "task_ok (le_crypto lenv) (sl_heap st) (sl_pending st) (p, rec)" using assms(1) t pr by (simp add: settle_inv_def)
    then obtain r where r: "sl_heap st p = Some r" "rq_settle_sig r \<noteq> None" by (auto simp: task_ok_def)
    then obtain r' where "if_heap (mg_inflight (bk_mgr b)) p = Some r'" "static r' = static r" "rq_settle_sig r' \<noteq> None"
      using assms(3) t pr unfolding keeps_tasks_def by blast
    then show ?thesis using ok r by (auto simp: task_ok_def pr)
  qed
  then show ?thesis using assms(1,2) by (simp add: settle_inv_def task_ids_def)
qed

lemma settle_step_inv:
  assumes "settle_step lenv st st'" "settle_inv lenv st"
  shows "settle_inv lenv st'"
  using assms
proof (induction rule: settle_step.induct)
  case (step_report env peer r st res st')
  then show ?case using HandleUsageReport_cases by blast
next
  case (step_settle env peer q st res st')
  then show ?case using HandleSettle_cases by blast
next
  case (step_force_release path st code b)
  then have "broker_inv (sl_bk st)" by (simp add: settle_inv_def)
  from handleForceRelease_ok [OF this step_force_release(1)] step_force_release(2) show ?case
    by (intro settle_inv_upd_bk) simp_all
next
  case (step_force_fail path now st code b)
  then have "broker_inv (sl_bk st)" by (simp add: settle_inv_def)
  from handleForceFail_ok [OF this step_force_fail(1)] step_force_fail(2) show ?case
    by (intro settle_inv_upd_bk) simp_all
next
  case (step_ledger st s)
  then show ?case using ledger_step_inv [OF step_ledger(1)] by (simp add: settle_inv_def task_ids_def)
qed (auto intro: settle_inv_await settle_inv_reap settle_inv_rely)

lemma settle_inv_open: "broker_inv b \<Longrightarrow> chain_inv lenv s \<Longrightarrow> settle_inv lenv (fresh_settle b s)"
  by (simp add: settle_inv_def fresh_settle_def task_ids_def)

definition fresh_broker :: broker_state where
  "fresh_broker = \<lparr>bk_mgr = Manager_New, bk_reg = replicate 16 Map.empty, bk_queued = Map.empty, bk_offers = [], bk_outcomes = []\<rparr>"

lemma fresh_broker_inv: "broker_inv fresh_broker"
  using Registry_New_inv [of 16 "replicate 16 Map.empty"] inflight_inv_New res_inv_New
  by (simp add: broker_inv_def fresh_broker_def Manager_New_def Registry_New_def)

interpretation settlement: invariant_system "fresh_settle fresh_broker empty_store" "settle_step lenv" "settle_inv lenv" for lenv
  by unfold_locales (auto intro: settle_step_inv settle_inv_open fresh_broker_inv chain_inv_empty)

lemma settle_reach_inv:
  assumes "broker_inv b" "ledger_reach lenv s" "(settle_step lenv)\<^sup>*\<^sup>* (fresh_settle b s) st"
  shows "settle_inv lenv st"
  by (rule settlement.steps_inv [OF assms(3) settle_inv_open [OF assms(1) ledger_reach_inv [OF assms(2)]]])

section \<open>Retrying on a stale tip\<close>

definition retip :: "store \<Rightarrow> UsageRecord \<Rightarrow> UsageRecord" where
  "retip s r = r\<lparr>rec_prev_hash := end_hash (zeros 32) (st_entries s), rec_seq := of_nat (length (st_entries s)) + 1\<rparr>"

lemma retip_sel [simp]: "rec_assertion (retip s r) = rec_assertion r" "rec_request_id (retip s r) = rec_request_id r"
  "rec_seeder_sig (retip s r) = rec_seeder_sig r" "rec_seeder_pub (retip s r) = rec_seeder_pub r"
  "rec_consumer_sig_missing (retip s r) = rec_consumer_sig_missing r" "rec_consumer_sig (retip s r) = rec_consumer_sig r"
  "rec_consumer_pub (retip s r) = rec_consumer_pub r" "rec_cost_credits (retip s r) = rec_cost_credits r"
  "rec_consumer_id (retip s r) = rec_consumer_id r"
  by (simp_all add: retip_def rec_assertion_def)

lemma append_attempts_retry:
  assumes inv: "chain_inv (se_ledger env) s0" and ne: "st_entries s0 \<noteq> []" and o: "se_others env k s = s0" "se_others env (k + 1) s0 = s0"
    and flt: "se_append_fault env = (\<lambda>_ _. False)" and adm: "usage_admissible (se_ledger env) (retip s0 rec) s0"
    and sgn: "signer_ok (se_ledger env) (usage_body (retip s0 rec)) s0" and m: "entry_matrix (usage_body rec)"
  shows "\<exists>s' e. append_attempts env (Suc (Suc n)) k rec err s = (None, retip s0 rec, s') \<and>
    AppendUsage (se_ledger env) (\<lambda>_. False) (retip s0 rec) s0 = (Inr e, s')"
proof -
  obtain e s' where ok: "AppendUsage (se_ledger env) (\<lambda>_. False) (retip s0 rec) s0 = (Inr e, s')"
    using AppendUsage_succeeds [OF inv adm sgn] by blast
  show ?thesis
  proof (cases "retip s0 rec = rec")
    case True
    then show ?thesis using ok o(1) flt by simp
  next
    case False
    have "rec_prev_hash rec \<noteq> end_hash (zeros 32) (st_entries s0) \<or> rec_seq rec \<noteq> of_nat (length (st_entries s0)) + 1"
      using False by (auto simp: retip_def)
    moreover have "uint (rec_cost_credits rec) < 2 ^ 63"
      using adm credits_of_bounds [OF chain_inv_balances [OF inv], of "rec_consumer_id rec"] by (simp add: usage_admissible_def abs_bal_def)
    ultimately have stale: "AppendUsage (se_ledger env) (\<lambda>_. False) rec s0 = (Inl ErrStaleTip, s0)"
      using adm m by (intro AppendUsage_stale [OF inv]) (auto simp: usage_admissible_def)
    obtain sq h where tip: "Tip (\<lambda>_. False) s0 = Inr (sq, h, True)"
      using ne by (simp add: Tip_def tip_row_last [OF chain_inv_seqs [OF inv]])
    from Tip_cases [OF chain_inv_seqs [OF inv] tip] have "rec\<lparr>rec_prev_hash := h, rec_seq := sq + 1\<rparr> = retip s0 rec"
      by (simp add: expected_tip_def retip_def)
    then show ?thesis using stale tip ok o flt by simp
  qed
qed

lemma AppendUsage_recorded:
  assumes "AppendUsage env flt r s = (Inr e, s')"
  shows "usage_ids (st_entries s') = usage_ids (st_entries s) @ [rec_request_id r]"
  using AppendUsage_cases [OF assms] by (auto simp: appended_def usage_input_def usage_ids_snoc)

section \<open>A concrete settlement\<close>

definition demo_settle_env :: settle_env where
  "demo_settle_env = \<lparr>se_ledger = demo_env, se_prices = [''m'' \<mapsto> \<lparr>mp_in = 2, mp_out = 6\<rparr>], se_identity = Some Some,
     se_now = seconds 7300, se_tip_fault = no_faults, se_append_fault = (\<lambda>_ _. False), se_retries = 2, se_others = (\<lambda>k s. s)\<rparr>"

definition demo_serving :: Request where
  "demo_serving = \<lparr>rq_request_id = replicate 16 9, rq_consumer_id = alice, rq_envelope_body = Some demo_body,
     rq_envelope_hash = zeros 32, rq_max_cost_reserved = 40, rq_assigned_seeder = bob, rq_seeder_pubkey = bob,
     rq_offer_attempts = [], rq_started_at = 0, rq_state = StateAssigned, rq_preimage_hash = zeros 32,
     rq_settle_sig = None, rq_terminated_at = zero_time\<rparr>"

definition demo_open :: settle_state where
  "demo_open = fresh_settle (demo_broker\<lparr>bk_mgr := \<lparr>mg_inflight = snd (Insert demo_serving NewInflight),
     mg_reservations = NewReservations\<rparr>\<rparr>) demo_s1"

definition demo_report :: UsageReport where
  "demo_report = \<lparr>ur_request_id = replicate 16 9, ur_input_tokens = 3, ur_output_tokens = 4, ur_model = ''m'',
     ur_seeder_sig = rec_seeder_sig (demo_usage bob 30)\<rparr>"

definition demo_reported :: settle_state where
  "demo_reported = snd (HandleUsageReport demo_settle_env bob (Some demo_report) demo_open)"

definition demo_forged :: SettleRequest where
  "demo_forged = \<lparr>sr_preimage_hash = sp_preimage_hash (snd (hd (sl_pushes demo_reported))), sr_consumer_sig = zeros 64\<rparr>"

definition demo_refused :: settle_state where
  "demo_refused = awaitSettle demo_settle_env TimerExpired 0 (snd (HandleSettle demo_settle_env alice (Some demo_forged) demo_reported))"

lemma demo_open_inv: "settle_inv demo_env demo_open"
proof -
  obtain p f' where I: "Insert demo_serving NewInflight = (p, f')" by force
  have "broker_inv (demo_broker\<lparr>bk_mgr := \<lparr>mg_inflight = f', mg_reservations = NewReservations\<rparr>\<rparr>)"
    using Insert_spec(2) [OF inflight_inv_New I] demo_broker_inv(1) res_inv_New by (simp add: broker_inv_def)
  then show ?thesis unfolding demo_open_def using I by (simp add: settle_inv_open ledger_reach_inv [OF demo_s1_reach])
qed

lemma demo_report_ok: "fst (HandleUsageReport demo_settle_env bob (Some demo_report) demo_open) = Inr ()"
  by code_simp

section \<open>Properties\<close>

text \<open>
  C18. Under every interleaving of usage reports, counter-signatures, waiting goroutines,
  reaper, operator overrides, other ledger writers and other broker work, there is at most one
  waiting settlement per request and its verdict entry exists exactly as long; the seeder
  signature of every waiting record verifies, and a verdict says verified only over a consumer
  signature that verifies over the same assertion.
\<close>

theorem settlement_invariant:
  assumes "broker_inv b" "ledger_reach lenv s" "(settle_step lenv)\<^sup>*\<^sup>* (fresh_settle b s) st"
  shows "broker_inv (sl_bk st) \<and> chain_inv lenv (sl_store st) \<and> distinct (task_ids st) \<and>
    dom (sl_pending st) = set (task_ids st) \<and>
    (\<forall>(p, rec)\<in>set (sl_tasks st). \<exists>ps. sl_pending st (rec_request_id rec) = Some ps \<and>
       VerifyUsageAssertion (le_crypto lenv) (rec_seeder_pub rec) (rec_assertion rec) (rec_seeder_sig rec) \<and>
       (ps_verified ps \<longrightarrow> VerifyUsageAssertion (le_crypto lenv) (ps_consumer_pub ps) (rec_assertion rec) (ps_consumer_sig ps)))"
  using settle_reach_inv [OF assms] by (fastforce simp: settle_inv_def task_ok_def verdict_ok_def)

theorem settlement_invariant_witness:
  "dom (sl_pending demo_reported) = set (task_ids demo_reported) \<and> chain_inv demo_env (sl_store demo_reported)"
proof -
  obtain b where b: "demo_open = fresh_settle b demo_s1" "broker_inv b"
    using demo_open_inv by (simp add: demo_open_def settle_inv_def fresh_settle_def)
  have "settle_step demo_env demo_open demo_reported"
    unfolding demo_reported_def by (rule step_report [OF _ prod.collapse [symmetric]]) (simp add: demo_settle_env_def)
  then show ?thesis using settlement_invariant [OF b(2) demo_s1_reach] b(1) by (metis r_into_rtranclp)
qed




lemma demo_others: "others_ok demo_settle_env" "0 \<le> se_retries demo_settle_env" "se_ledger demo_settle_env = demo_env"
  by (simp_all add: others_ok_def demo_settle_env_def)

lemma demo_reported_inv: "settle_inv demo_env demo_reported"
proof -
  have H: "HandleUsageReport demo_settle_env bob (Some demo_report) demo_open = (Inr (), demo_reported)"
    unfolding demo_reported_def by (rule prod_eqI) (simp_all add: demo_report_ok)
  then show ?thesis using HandleUsageReport_cases [OF _ H] demo_open_inv demo_others(3) by simp
qed


text \<open>
  When another writer moves the tip before the first attempt and none interferes with the
  second, one retry is enough: the record with a refreshed position is appended, and the request
  is settled.
\<close>

lemma settle_retry_succeeds:
  assumes "chain_inv (se_ledger env) s0" "st_entries s0 \<noteq> []" "se_others env 0 (sl_store st) = s0" "se_others env 1 s0 = s0"
    "se_append_fault env = (\<lambda>_ _. False)" "1 \<le> se_retries env" "entry_matrix (usage_body rec)"
    "usage_admissible (se_ledger env) (retip s0 rec) s0" "signer_ok (se_ledger env) (usage_body (retip s0 rec)) s0"
  shows "usage_ids (st_entries (sl_store (appendUsageEntry env req rec st))) = usage_ids (st_entries s0) @ [rec_request_id rec] \<and>
    sl_bk (appendUsageEntry env req rec st) = settled_bk req (se_now env) (sl_bk st) \<and>
    bk_slots (sl_bk (appendUsageEntry env req rec st)) (rq_request_id req) = None"
proof -
  have n: "nat (se_retries env + 1) = Suc (Suc (nat (se_retries env - 1)))" using assms(6) by arith
  have o1: "se_others env (0 + 1) s0 = s0" using assms(4) by simp
  obtain s' e where A: "append_attempts env (Suc (Suc (nat (se_retries env - 1)))) 0 rec None (sl_store st) = (None, retip s0 rec, s')"
    "AppendUsage (se_ledger env) (\<lambda>_. False) (retip s0 rec) s0 = (Inr e, s')"
    using append_attempts_retry [OF assms(1,2,3) o1 assms(5,8,9,7)] by blast
  have "sl_store (appendUsageEntry env req rec st) = s'" "sl_bk (appendUsageEntry env req rec st) = settled_bk req (se_now env) (sl_bk st)"
    using A(1) n by (simp_all add: appendUsageEntry_def Let_def settled_bk_def del: append_attempts.simps)
  then show ?thesis using AppendUsage_recorded [OF A(2)] by (simp add: settled_bk_def slots_Release)
qed

lemma settle_retry_succeeds_witness:
  "usage_ids (st_entries (sl_store (appendUsageEntry demo_settle_env demo_serving
     ((demo_usage bob 30)\<lparr>rec_prev_hash := zeros 32, rec_seq := 1\<rparr>) demo_open))) = [replicate 16 9]"
proof -
  let ?rec = "(demo_usage bob 30)\<lparr>rec_prev_hash := zeros 32, rec_seq := 1\<rparr>"
  have inv: "chain_inv (se_ledger demo_settle_env) demo_s1" using ledger_reach_inv [OF demo_s1_reach] by (simp add: demo_others(3))
  have len: "length (st_entries demo_s1) = 1" using demo_s1_eval by simp
  then have ne: "st_entries demo_s1 \<noteq> []" by auto
  have re: "retip demo_s1 ?rec = demo_usage bob 30"
    using ne len by (simp add: retip_def demo_usage_def Let_def end_hash_def)
  have store: "sl_store demo_open = demo_s1" by (simp add: demo_open_def fresh_settle_def)
  have ids: "usage_ids (st_entries demo_s1) = []" by code_simp
  have em: "entry_matrix (usage_body ?rec)" by code_simp
  have rid: "rec_request_id ?rec = replicate 16 9" by (simp add: demo_usage_def Let_def)
  show ?thesis
    using settle_retry_succeeds [of demo_settle_env demo_s1 demo_open ?rec demo_serving] inv ne em ids rid re store
      demo_admissible demo_others by (simp add: demo_settle_env_def)
qed

text \<open>
  After a forged counter-signature was refused and the timer expired without writing an entry,
  the same usage report is accepted again, and its timer then appends the usage entry that the
  refusal had suppressed.
\<close>

theorem refused_settlement_replayed:
  "fst (HandleSettle demo_settle_env alice (Some demo_forged) demo_reported) = Inl (StBroker ErrConsumerSig) \<and>
   st_entries (sl_store demo_refused) = st_entries demo_s1 \<and>
   fst (HandleUsageReport demo_settle_env bob (Some demo_report) demo_refused) = Inr () \<and>
   usage_ids (st_entries (sl_store (awaitSettle demo_settle_env TimerExpired 0
     (snd (HandleUsageReport demo_settle_env bob (Some demo_report) demo_refused))))) = [replicate 16 9]"
proof (intro conjI)
  show "fst (HandleSettle demo_settle_env alice (Some demo_forged) demo_reported) = Inl (StBroker ErrConsumerSig)" by code_simp
  show "fst (HandleUsageReport demo_settle_env bob (Some demo_report) demo_refused) = Inr ()" by code_simp
  show "usage_ids (st_entries (sl_store (awaitSettle demo_settle_env TimerExpired 0
     (snd (HandleUsageReport demo_settle_env bob (Some demo_report) demo_refused))))) = [replicate 16 9]" by code_simp
  show "st_entries (sl_store demo_refused) = st_entries demo_s1" by code_simp
qed

end
