(* ===== verification/TB_Codec.thy ===== *)
theory TB_Codec
  imports TB_Prelude
begin

text \<open>
  Fixed-width integer encodings (\<open>encoding/binary\<close>) and the Castagnoli checksum (\<open>hash/crc32\<close>) that the
  on-disk formats of the tracker use.
\<close>

unbundle bit_operations_syntax

section \<open>Big and little endian\<close>

definition be32 :: "u32 \<Rightarrow> bytes" where
  "be32 w = map (\<lambda>i. ucast (drop_bit (8 * i) w)) [3, 2, 1, 0]"

definition le32 :: "u32 \<Rightarrow> bytes" where
  "le32 w = rev (be32 w)"

definition le64 :: "u64 \<Rightarrow> bytes" where
  "le64 w = rev (be64 w)"

definition be_word :: "bytes \<Rightarrow> 'a::len word" where
  "be_word bs = foldl (\<lambda>a b. a * 256 + ucast b) 0 bs"

definition le_word :: "bytes \<Rightarrow> 'a::len word" where
  "le_word bs = be_word (rev bs)"

lemma length_enc [simp]: "length (be32 w) = 4" "length (le32 w) = 4" "length (le64 v) = 8"
  by (simp_all add: be32_def le32_def le64_def)

lemma drop_bit_step:
  fixes w :: "'a::len word"
  assumes "8 \<le> LENGTH('a)"
  shows "drop_bit (k + 8) w * 256 + ucast (ucast (drop_bit k w) :: byte) = drop_bit k w"
proof -
  let ?x = "drop_bit k w"
  have "ucast (ucast ?x :: byte) = take_bit 8 ?x"
    using assms by (simp add: unsigned_ucast_eq min_def)
  moreover have "drop_bit (k + 8) w * 256 = push_bit 8 (drop_bit 8 ?x)"
    by (simp add: push_bit_eq_mult drop_bit_drop_bit ac_simps)
  ultimately show ?thesis using bits_ident [of 8 ?x] by simp
qed

lemma drop_bit_top:
  fixes w :: "'a::len word"
  assumes "k + 8 = LENGTH('a)"
  shows "ucast (ucast (drop_bit k w) :: byte) = drop_bit k w"
proof -
  have "drop_bit (k + 8) w = 0" unfolding assms by (rule bit_word_eqI) (simp add: bit_drop_bit_eq bit_imp_le_length)
  then show ?thesis using drop_bit_step [of k w] assms by simp
qed

lemma be_word_be32 [simp]: "be_word (be32 w) = w"
  using drop_bit_top [of 24 w] drop_bit_step [of 16 w] drop_bit_step [of 8 w] drop_bit_step [of 0 w]
  by (simp add: be_word_def be32_def)

lemma be_word_be64 [simp]: "be_word (be64 w) = w"
  using drop_bit_top [of 56 w] drop_bit_step [of 48 w] drop_bit_step [of 40 w] drop_bit_step [of 32 w]
    drop_bit_step [of 24 w] drop_bit_step [of 16 w] drop_bit_step [of 8 w] drop_bit_step [of 0 w]
  by (simp add: be_word_def be64_def)

lemma le_word_le [simp]: "le_word (le32 w) = w" "le_word (le64 v) = v"
  by (simp_all add: le_word_def le32_def le64_def)

text \<open>\<open>buf[a:b]\<close>.\<close>

definition cut :: "nat \<Rightarrow> nat \<Rightarrow> 'a list \<Rightarrow> 'a list" where
  "cut a b xs = take (b - a) (drop a xs)"

lemma cut_append1: "b \<le> length xs \<Longrightarrow> cut a b (xs @ ys) = cut a b xs"
  by (auto simp: cut_def)

lemma cut_append2: "length xs = n \<Longrightarrow> cut (n + a) (n + b) (xs @ ys) = cut a b ys"
  by (simp add: cut_def)

section \<open>Signed reading\<close>

text \<open>\<open>int64(u)\<close> and \<open>uint64(i)\<close>.\<close>

definition to_i64 :: "u64 \<Rightarrow> i64" where
  "to_i64 w = sint w"

definition of_i64 :: "i64 \<Rightarrow> u64" where
  "of_i64 i = word_of_int i"

lemma to_of_i64 [simp]: "is_i64 i \<Longrightarrow> to_i64 (of_i64 i) = i"
  by (simp add: to_i64_def of_i64_def is_i64_def sint_sbintrunc' signed_take_bit_int_eq_self)

lemma is_i64_to_i64 [simp]: "is_i64 (to_i64 w)"
  using sint_ge [of w] sint_lt [of w] by (simp add: is_i64_def to_i64_def)

section \<open>CRC-32C\<close>

definition crc_bit :: "u32 \<Rightarrow> u32" where
  "crc_bit c = (if bit c 0 then drop_bit 1 c XOR 0x82F63B78 else drop_bit 1 c)"

definition crc_byte :: "u32 \<Rightarrow> byte \<Rightarrow> u32" where
  "crc_byte c b = (crc_bit ^^ 8) (c XOR ucast b)"

definition crc32c :: "bytes \<Rightarrow> u32" where
  "crc32c bs = NOT (foldl crc_byte (NOT 0) bs)"

end
