(* ===== verification/TB_Credit.thy ===== *)
theory TB_Credit
  imports TB_Codec "HOL-Library.Signed_Division"
begin

text \<open>
  Admission's per-consumer credit history (\<open>src/tracker/internal/admission/buckets.go\<close>, \<open>state.go\<close>,
  the apply functions of \<open>events.go\<close>). The shards of the Go code partition one map by identity and
  are only ever reached through \<open>consumerShardFor\<close>; the model is that map.
\<close>

section \<open>Day buckets\<close>

record DayBucket =
  db_total :: u32
  db_a :: u32
  db_b :: u32
  db_day_stamp :: time

definition rollingWindowDays :: nat where "rollingWindowDays = 30"

definition empty_bucket :: DayBucket where
  "empty_bucket = \<lparr>db_total = 0, db_a = 0, db_b = 0, db_day_stamp = zero_time\<rparr>"

definition dayBucketIndex :: "time \<Rightarrow> nat \<Rightarrow> nat" where
  "dayBucketIndex t windowDays = (let day = unix t sdiv 86400; idx = day smod int windowDays in
     nat (if idx < 0 then idx + int windowDays else idx))"

definition day_ns :: int where "day_ns = seconds 86400"

definition stripToDay :: "time \<Rightarrow> time" where
  "stripToDay t = t - t mod day_ns"

definition rotateIfStale :: "DayBucket \<Rightarrow> time \<Rightarrow> nat \<Rightarrow> DayBucket" where
  "rotateIfStale b now windowDays = (let today = stripToDay now in
     if db_day_stamp b = zero_time then empty_bucket\<lparr>db_day_stamp := today\<rparr>
     else if today - db_day_stamp b \<ge> int windowDays * day_ns then empty_bucket\<lparr>db_day_stamp := today\<rparr>
     else b)"

section \<open>Consumer state\<close>

record ConsumerCreditState =
  cs_first_seen_at :: time
  cs_settlement_buckets :: "DayBucket list"
  cs_dispute_buckets :: "DayBucket list"
  cs_flow_buckets :: "DayBucket list"
  cs_last_balance_seen :: i64

type_synonym credits = "ident \<rightharpoonup> ConsumerCreditState"

definition new_consumer :: "time \<Rightarrow> ConsumerCreditState" where
  "new_consumer now = \<lparr>cs_first_seen_at = now, cs_settlement_buckets = replicate rollingWindowDays empty_bucket,
     cs_dispute_buckets = replicate rollingWindowDays empty_bucket,
     cs_flow_buckets = replicate rollingWindowDays empty_bucket, cs_last_balance_seen = 0\<rparr>"

definition getOrInit :: "ident \<Rightarrow> time \<Rightarrow> credits \<Rightarrow> ConsumerCreditState" where
  "getOrInit i now m = (case m i of Some st \<Rightarrow> st | None \<Rightarrow> new_consumer now)"

section \<open>Ledger events\<close>

datatype LedgerEventKind = LedgerEventUnspecified | LedgerEventSettlement | LedgerEventTransferIn | LedgerEventTransferOut
  | LedgerEventStarterGrant | LedgerEventDisputeFiled | LedgerEventDisputeResolved

record AdmEvent =
  ae_kind :: LedgerEventKind
  ae_consumer_id :: ident
  ae_seeder_id :: ident
  ae_cost_credits :: u64
  ae_flags :: u32
  ae_dispute_upheld :: bool
  ae_timestamp :: time

definition upd_bucket :: "time \<Rightarrow> (DayBucket \<Rightarrow> DayBucket) \<Rightarrow> DayBucket list \<Rightarrow> DayBucket list" where
  "upd_bucket ts f bs = (let idx = dayBucketIndex ts rollingWindowDays in
     bs[idx := f (rotateIfStale (bs ! idx) ts rollingWindowDays)])"

definition applySettlement :: "AdmEvent \<Rightarrow> credits \<Rightarrow> credits" where
  "applySettlement ev m = (let ts = ae_timestamp ev; cost = ae_cost_credits ev;
      cst = getOrInit (ae_consumer_id ev) ts m;
      cst1 = cst\<lparr>cs_settlement_buckets := upd_bucket ts (\<lambda>b. b\<lparr>db_total := db_total b + 1,
                   db_a := (if \<not> bit (ae_flags ev) 0 then db_a b + 1 else db_a b)\<rparr>) (cs_settlement_buckets cst),
                 cs_flow_buckets := upd_bucket ts (\<lambda>b. b\<lparr>db_b := db_b b + ucast cost\<rparr>) (cs_flow_buckets cst),
                 cs_last_balance_seen := i64_wrap (cs_last_balance_seen cst - to_i64 cost)\<rparr>;
      m1 = m(ae_consumer_id ev \<mapsto> cst1) in
    if ae_seeder_id ev \<noteq> zero_id then
      (let sst = getOrInit (ae_seeder_id ev) ts m1;
           sst1 = sst\<lparr>cs_flow_buckets := upd_bucket ts (\<lambda>b. b\<lparr>db_a := db_a b + ucast cost\<rparr>) (cs_flow_buckets sst),
                      cs_last_balance_seen := i64_wrap (cs_last_balance_seen sst + to_i64 cost)\<rparr>
       in m1(ae_seeder_id ev \<mapsto> sst1))
    else m1)"

definition applyTransfer :: "ident \<Rightarrow> i64 \<Rightarrow> time \<Rightarrow> credits \<Rightarrow> credits" where
  "applyTransfer i delta now m = (let st = getOrInit i now m in
     m(i \<mapsto> st\<lparr>cs_last_balance_seen := i64_wrap (cs_last_balance_seen st + delta)\<rparr>))"

definition applyStarterGrant :: "AdmEvent \<Rightarrow> credits \<Rightarrow> credits" where
  "applyStarterGrant ev m = (let st = getOrInit (ae_consumer_id ev) (ae_timestamp ev) m in
     m(ae_consumer_id ev \<mapsto> st\<lparr>cs_first_seen_at := (if cs_first_seen_at st = zero_time \<or> cs_first_seen_at st > ae_timestamp ev
         then ae_timestamp ev else cs_first_seen_at st), cs_last_balance_seen := to_i64 (ae_cost_credits ev)\<rparr>))"

definition applyDispute :: "AdmEvent \<Rightarrow> bool \<Rightarrow> credits \<Rightarrow> credits" where
  "applyDispute ev upheld m = (let st = getOrInit (ae_consumer_id ev) (ae_timestamp ev) m in
     m(ae_consumer_id ev \<mapsto> st\<lparr>cs_dispute_buckets := upd_bucket (ae_timestamp ev)
         (\<lambda>b. if upheld then b\<lparr>db_b := db_b b + 1\<rparr> else b\<lparr>db_a := db_a b + 1\<rparr>) (cs_dispute_buckets st)\<rparr>))"

definition signedDelta :: "u64 \<Rightarrow> bool \<Rightarrow> i64" where
  "signedDelta cost positive = (let d = to_i64 cost in if \<not> positive then i64_wrap (- d) else d)"

text \<open>What one event does to the credit map, once it is persisted.\<close>

definition apply_event :: "AdmEvent \<Rightarrow> credits \<Rightarrow> credits" where
  "apply_event ev m = (case ae_kind ev of
     LedgerEventSettlement \<Rightarrow> applySettlement ev m
   | LedgerEventTransferIn \<Rightarrow> applyTransfer (ae_consumer_id ev) (signedDelta (ae_cost_credits ev) True) (ae_timestamp ev) m
   | LedgerEventTransferOut \<Rightarrow> applyTransfer (ae_consumer_id ev) (signedDelta (ae_cost_credits ev) False) (ae_timestamp ev) m
   | LedgerEventStarterGrant \<Rightarrow> applyStarterGrant ev m
   | LedgerEventDisputeFiled \<Rightarrow> applyDispute ev False m
   | LedgerEventDisputeResolved \<Rightarrow> if \<not> ae_dispute_upheld ev then m else applyDispute ev True m
   | LedgerEventUnspecified \<Rightarrow> m)"

end
