(* ===== verification/TB_TLog.thy ===== *)
theory TB_TLog
  imports TB_Credit "HOL-Library.AList"
begin

text \<open>
  Admission's transaction log (\<open>src/tracker/internal/admission/tlog.go\<close>), the persistence of ledger
  events (\<open>events.go\<close>) and the start-up replay (\<open>replay.go\<close>, \<open>snapshot.go\<close>). The log is bytes: a file, a
  write buffer in front of it, and the rotated files. A crash keeps the file and an arbitrary
  prefix of the buffer (\<open>bufio\<close> spills when it is full, the flush goroutine at any moment).
\<close>

section \<open>Records and frames\<close>

record TLogRecord =
  tr_seq :: u64
  tr_ts :: u64
  tr_kind :: byte
  tr_payload :: bytes

definition TLogKindSettlement :: byte where "TLogKindSettlement = 0"
definition TLogKindDisputeFiled :: byte where "TLogKindDisputeFiled = 1"
definition TLogKindDisputeResolved :: byte where "TLogKindDisputeResolved = 2"
definition TLogKindHeartbeatBucketRoll :: byte where "TLogKindHeartbeatBucketRoll = 3"
definition TLogKindSnapshotMark :: byte where "TLogKindSnapshotMark = 4"
definition TLogKindOperatorOverride :: byte where "TLogKindOperatorOverride = 5"
definition TLogKindTransfer :: byte where "TLogKindTransfer = 6"
definition TLogKindStarterGrant :: byte where "TLogKindStarterGrant = 7"

lemmas tlog_kinds = TLogKindSettlement_def TLogKindDisputeFiled_def TLogKindDisputeResolved_def
  TLogKindHeartbeatBucketRoll_def TLogKindSnapshotMark_def TLogKindOperatorOverride_def TLogKindTransfer_def
  TLogKindStarterGrant_def

datatype tlog_err = ErrTLogCorrupt | ErrTLogTruncated

definition tlogMinFrameSize :: nat where "tlogMinFrameSize = 25"

definition marshalTLogRecord :: "TLogRecord \<Rightarrow> bytes" where
  "marshalTLogRecord rec = (let bodyLen = 8 + 8 + 1 + length (tr_payload rec) + 4;
     covered = be64 (tr_seq rec) @ be64 (tr_ts rec) @ [tr_kind rec] @ tr_payload rec
   in be32 (of_nat bodyLen) @ covered @ be32 (crc32c covered))"

definition unmarshalTLogRecord :: "bytes \<Rightarrow> tlog_err + TLogRecord \<times> nat" where
  "unmarshalTLogRecord buf =
     (if length buf < tlogMinFrameSize then Inl ErrTLogTruncated
      else (let bodyLen = unat (be_word (cut 0 4 buf) :: u32); frameLen = 4 + bodyLen in
        if frameLen > length buf then Inl ErrTLogTruncated
        else if bodyLen < tlogMinFrameSize - 4 then Inl ErrTLogTruncated
        else (let payloadEnd = frameLen - 4; gotCRC = be_word (cut payloadEnd frameLen buf) :: u32;
                  wantCRC = crc32c (cut 4 payloadEnd buf) in
          if gotCRC \<noteq> wantCRC then Inl ErrTLogCorrupt
          else Inr (\<lparr>tr_seq = be_word (cut 4 12 buf), tr_ts = be_word (cut 12 20 buf), tr_kind = buf ! 20,
                     tr_payload = cut 21 payloadEnd buf\<rparr>, frameLen))))"

lemma unmarshal_progress: "unmarshalTLogRecord buf = Inr (rec, n) \<Longrightarrow> 25 \<le> n \<and> n \<le> length buf"
  by (auto simp: unmarshalTLogRecord_def Let_def tlogMinFrameSize_def split: if_splits)

text \<open>The loop of \<open>readTLogFile\<close>, from offset \<open>pos\<close>: records, last good offset, error.\<close>

function read_frames :: "bytes \<Rightarrow> nat \<Rightarrow> TLogRecord list \<times> nat \<times> tlog_err option" where
  "read_frames data pos = (if pos < length data then
     (case unmarshalTLogRecord (drop pos data) of
        Inl ErrTLogTruncated \<Rightarrow> ([], pos, None)
      | Inl ErrTLogCorrupt \<Rightarrow> ([], pos, Some ErrTLogCorrupt)
      | Inr (rec, n) \<Rightarrow> (case read_frames data (pos + n) of (recs, off, err) \<Rightarrow> (rec # recs, off, err)))
     else ([], pos, None))"
  by pat_completeness auto
termination
  by (relation "measure (\<lambda>(data, pos). length data - pos)") (auto dest: unmarshal_progress)

declare read_frames.simps [simp del]

definition readTLogFile :: "bytes \<Rightarrow> TLogRecord list \<times> nat \<times> tlog_err option" where
  "readTLogFile data = read_frames data 0"

section \<open>Payloads\<close>

record SettlementPayload =
  spl_consumer_id :: ident
  spl_seeder_id :: ident
  spl_cost_credits :: u64
  spl_flags :: u32

definition marshalSettlementPayload :: "SettlementPayload \<Rightarrow> bytes" where
  "marshalSettlementPayload p = to_array 32 (spl_consumer_id p) @ to_array 32 (spl_seeder_id p) @
     be64 (spl_cost_credits p) @ be32 (spl_flags p)"

definition unmarshalSettlementPayload :: "bytes \<Rightarrow> SettlementPayload option" where
  "unmarshalSettlementPayload buf = (if length buf < 32 + 32 + 8 + 4 then None else
     Some \<lparr>spl_consumer_id = cut 0 32 buf, spl_seeder_id = cut 32 64 buf,
       spl_cost_credits = be_word (cut 64 72 buf), spl_flags = be_word (cut 72 76 buf)\<rparr>)"

record DisputePayload =
  dpl_consumer_id :: ident
  dpl_upheld :: bool

definition marshalDisputePayload :: "DisputePayload \<Rightarrow> bytes" where
  "marshalDisputePayload p = to_array 32 (dpl_consumer_id p) @ [if dpl_upheld p then 1 else 0]"

definition unmarshalDisputePayload :: "bytes \<Rightarrow> DisputePayload option" where
  "unmarshalDisputePayload buf = (if length buf < 33 then None else
     Some \<lparr>dpl_consumer_id = cut 0 32 buf, dpl_upheld = (buf ! 32 \<noteq> 0)\<rparr>)"

definition appendLenPrefixed :: "bytes \<Rightarrow> bytes \<Rightarrow> bytes" where
  "appendLenPrefixed dst val = dst @ be32 (of_nat (length val)) @ val"

definition readLenPrefixed :: "bytes \<Rightarrow> (bytes \<times> bytes) option" where
  "readLenPrefixed buf = (if length buf < 4 then None
     else (let n = unat (be_word (cut 0 4 buf) :: u32) in
       if 4 + n > length buf then None else Some (cut 4 (4 + n) buf, drop (4 + n) buf)))"

record SnapshotMarkPayload =
  smp_snapshot_seq :: u64
  smp_path :: bytes

definition marshalSnapshotMarkPayload :: "SnapshotMarkPayload \<Rightarrow> bytes" where
  "marshalSnapshotMarkPayload p = appendLenPrefixed (be64 (smp_snapshot_seq p)) (smp_path p)"

definition unmarshalSnapshotMarkPayload :: "bytes \<Rightarrow> SnapshotMarkPayload option" where
  "unmarshalSnapshotMarkPayload buf = (if length buf < 8 then None
     else if length buf > 8 then (case readLenPrefixed (drop 8 buf) of None \<Rightarrow> None
       | Some (path, _) \<Rightarrow> Some \<lparr>smp_snapshot_seq = be_word (cut 0 8 buf), smp_path = path\<rparr>)
     else Some \<lparr>smp_snapshot_seq = be_word (cut 0 8 buf), smp_path = []\<rparr>)"

record OperatorOverridePayload =
  oop_operator_id :: bytes
  oop_action :: bytes
  oop_params :: bytes
  oop_ts :: i64

definition marshalOperatorOverridePayload :: "OperatorOverridePayload \<Rightarrow> bytes" where
  "marshalOperatorOverridePayload p = appendLenPrefixed (appendLenPrefixed (appendLenPrefixed [] (oop_operator_id p))
     (oop_action p)) (oop_params p) @ be64 (of_i64 (oop_ts p))"

definition unmarshalOperatorOverridePayload :: "bytes \<Rightarrow> OperatorOverridePayload option" where
  "unmarshalOperatorOverridePayload buf = (case readLenPrefixed buf of None \<Rightarrow> None | Some (op1, rest1) \<Rightarrow>
     (case readLenPrefixed rest1 of None \<Rightarrow> None | Some (action, rest2) \<Rightarrow>
     (case readLenPrefixed rest2 of None \<Rightarrow> None | Some (params, rest3) \<Rightarrow>
       Some \<lparr>oop_operator_id = op1, oop_action = action, oop_params = params,
         oop_ts = (if length rest3 \<ge> 8 then to_i64 (be_word (cut 0 8 rest3)) else 0)\<rparr>)))"

definition TransferIn :: byte where "TransferIn = 1"
definition TransferOut :: byte where "TransferOut = 2"

record TransferPayload =
  tpl_consumer_id :: ident
  tpl_cost_credits :: u64
  tpl_direction :: byte

definition marshalTransferPayload :: "TransferPayload \<Rightarrow> bytes" where
  "marshalTransferPayload p = to_array 32 (tpl_consumer_id p) @ be64 (tpl_cost_credits p) @ [tpl_direction p]"

definition unmarshalTransferPayload :: "bytes \<Rightarrow> TransferPayload option" where
  "unmarshalTransferPayload buf = (if length buf < 41 then None else
     Some \<lparr>tpl_consumer_id = cut 0 32 buf, tpl_cost_credits = be_word (cut 32 40 buf), tpl_direction = buf ! 40\<rparr>)"

record StarterGrantPayload =
  sgp_consumer_id :: ident
  sgp_cost_credits :: u64

definition marshalStarterGrantPayload :: "StarterGrantPayload \<Rightarrow> bytes" where
  "marshalStarterGrantPayload p = to_array 32 (sgp_consumer_id p) @ be64 (sgp_cost_credits p)"

definition unmarshalStarterGrantPayload :: "bytes \<Rightarrow> StarterGrantPayload option" where
  "unmarshalStarterGrantPayload buf = (if length buf < 40 then None else
     Some \<lparr>sgp_consumer_id = cut 0 32 buf, sgp_cost_credits = be_word (cut 32 40 buf)\<rparr>)"

section \<open>The writer\<close>

text \<open>
  \<open>tw_file\<close> has reached the operating system, \<open>tw_buf\<close> may not have. \<open>tw_rotated\<close> holds the renamed files
  by their sequence suffix: a rename onto an existing name replaces it. \<open>io\<close> says which system
  call fails.
\<close>

record tlogWriter =
  tw_file :: bytes
  tw_buf :: bytes
  tw_rotated :: "(u64 \<times> bytes) list"
  tw_rotation_bytes :: int
  tw_bytes_written :: int
  tw_last_seq_in_file :: u64

datatype tlog_io = IoWrite | IoFlush | IoSync | IoRename

type_synonym io_faults = "tlog_io \<Rightarrow> bool"

definition newTLogWriter :: "bytes \<Rightarrow> (u64 \<times> bytes) list \<Rightarrow> int \<Rightarrow> tlogWriter" where
  "newTLogWriter file rotated rotationBytes = \<lparr>tw_file = file, tw_buf = [], tw_rotated = rotated,
     tw_rotation_bytes = rotationBytes, tw_bytes_written = int (length file), tw_last_seq_in_file = 0\<rparr>"

definition tw_flush :: "tlogWriter \<Rightarrow> tlogWriter" where
  "tw_flush w = w\<lparr>tw_file := tw_file w @ tw_buf w, tw_buf := []\<rparr>"

definition rotateLocked :: "io_faults \<Rightarrow> tlogWriter \<Rightarrow> bool \<times> tlogWriter" where
  "rotateLocked io w = (if io IoFlush then (False, w) else
     (let w1 = tw_flush w in
      if io IoSync \<or> io IoRename then (False, w1)
      else (True, w1\<lparr>tw_rotated := AList.update (tw_last_seq_in_file w1) (tw_file w1) (tw_rotated w1),
                    tw_file := [], tw_bytes_written := 0\<rparr>)))"

definition Append :: "io_faults \<Rightarrow> TLogRecord \<Rightarrow> tlogWriter \<Rightarrow> bool \<times> tlogWriter" where
  "Append io rec w = (let frame = marshalTLogRecord rec in
     if io IoWrite then (False, w)
     else (let w1 = w\<lparr>tw_buf := tw_buf w @ frame, tw_bytes_written := tw_bytes_written w + int (length frame),
                     tw_last_seq_in_file := max (tw_last_seq_in_file w) (tr_seq rec)\<rparr>;
               dispute = (tr_kind rec = TLogKindDisputeFiled \<or> tr_kind rec = TLogKindDisputeResolved) in
       if dispute \<and> io IoFlush then (False, w1)
       else (let w2 = (if dispute then tw_flush w1 else w1) in
         if dispute \<and> io IoSync then (False, w2)
         else if tw_bytes_written w2 \<ge> tw_rotation_bytes w2 then rotateLocked io w2
         else (True, w2))))"

text \<open>What a crash leaves: the rotated files, the file, and \<open>k\<close> bytes of the buffer.\<close>

definition crash :: "nat \<Rightarrow> tlogWriter \<Rightarrow> (u64 \<times> bytes) list \<times> bytes" where
  "crash k w = (tw_rotated w, tw_file w @ take k (tw_buf w))"

text \<open>\<open>enumerateTLogFiles\<close>: the rotated files by ascending suffix, the active file last.\<close>

definition enumerateTLogFiles :: "(u64 \<times> bytes) list \<times> bytes \<Rightarrow> bytes list" where
  "enumerateTLogFiles disk = map snd (sort_key fst (fst disk)) @ [snd disk]"

section \<open>The subsystem's persistent half\<close>

record adm_state =
  ad_consumers :: credits
  ad_next_seq :: u64
  ad_tlog :: "tlogWriter option"
  ad_replaying :: bool
  ad_degraded :: bool
  ad_tlog_corruptions :: nat

definition event_record :: "u64 \<Rightarrow> AdmEvent \<Rightarrow> TLogRecord option" where
  "event_record sq ev = (let ts = of_i64 (unix (ae_timestamp ev));
      mk = (\<lambda>kind payload. Some \<lparr>tr_seq = sq, tr_ts = ts, tr_kind = kind, tr_payload = payload\<rparr>) in
    (case ae_kind ev of
       LedgerEventSettlement \<Rightarrow> mk TLogKindSettlement (marshalSettlementPayload \<lparr>spl_consumer_id = ae_consumer_id ev,
         spl_seeder_id = ae_seeder_id ev, spl_cost_credits = ae_cost_credits ev, spl_flags = ae_flags ev\<rparr>)
     | LedgerEventTransferIn \<Rightarrow> mk TLogKindTransfer (marshalTransferPayload \<lparr>tpl_consumer_id = ae_consumer_id ev,
         tpl_cost_credits = ae_cost_credits ev, tpl_direction = TransferIn\<rparr>)
     | LedgerEventTransferOut \<Rightarrow> mk TLogKindTransfer (marshalTransferPayload \<lparr>tpl_consumer_id = ae_consumer_id ev,
         tpl_cost_credits = ae_cost_credits ev, tpl_direction = TransferOut\<rparr>)
     | LedgerEventStarterGrant \<Rightarrow> mk TLogKindStarterGrant (marshalStarterGrantPayload \<lparr>sgp_consumer_id = ae_consumer_id ev,
         sgp_cost_credits = ae_cost_credits ev\<rparr>)
     | LedgerEventDisputeFiled \<Rightarrow> mk TLogKindDisputeFiled (marshalDisputePayload \<lparr>dpl_consumer_id = ae_consumer_id ev, dpl_upheld = False\<rparr>)
     | LedgerEventDisputeResolved \<Rightarrow> if \<not> ae_dispute_upheld ev then None
         else mk TLogKindDisputeResolved (marshalDisputePayload \<lparr>dpl_consumer_id = ae_consumer_id ev, dpl_upheld = True\<rparr>)
     | LedgerEventUnspecified \<Rightarrow> None))"

definition persistEvent :: "io_faults \<Rightarrow> TLogRecord \<Rightarrow> adm_state \<Rightarrow> bool \<times> adm_state" where
  "persistEvent io rec st = (if ad_replaying st then (True, st)
     else (case ad_tlog st of None \<Rightarrow> (True, st)
       | Some w \<Rightarrow> (case Append io rec w of (ok, w') \<Rightarrow> (ok, st\<lparr>ad_tlog := Some w'\<rparr>))))"

definition OnLedgerEvent :: "io_faults \<Rightarrow> AdmEvent \<Rightarrow> adm_state \<Rightarrow> adm_state" where
  "OnLedgerEvent io ev st = (let sq = ad_next_seq st + 1; st1 = st\<lparr>ad_next_seq := sq\<rparr> in
     (case event_record sq ev of None \<Rightarrow> st1
      | Some rec \<Rightarrow> (case persistEvent io rec st1 of
          (False, st2) \<Rightarrow> st2
        | (True, st2) \<Rightarrow> st2\<lparr>ad_consumers := apply_event ev (ad_consumers st2)\<rparr>)))"

section \<open>Replay\<close>

definition no_io :: io_faults where "no_io _ = False"

definition record_event :: "TLogRecord \<Rightarrow> AdmEvent option" where
  "record_event r = (let ts = seconds (to_i64 (tr_ts r));
      ev = (\<lambda>kind c s cost fl up. \<lparr>ae_kind = kind, ae_consumer_id = c, ae_seeder_id = s, ae_cost_credits = cost,
              ae_flags = fl, ae_dispute_upheld = up, ae_timestamp = ts\<rparr>) in
    if tr_kind r = TLogKindSettlement then
      map_option (\<lambda>p. ev LedgerEventSettlement (spl_consumer_id p) (spl_seeder_id p) (spl_cost_credits p) (spl_flags p) False)
        (unmarshalSettlementPayload (tr_payload r))
    else if tr_kind r = TLogKindDisputeFiled then
      map_option (\<lambda>p. ev (if dpl_upheld p then LedgerEventDisputeResolved else LedgerEventDisputeFiled) (dpl_consumer_id p) zero_id 0 0 (dpl_upheld p))
        (unmarshalDisputePayload (tr_payload r))
    else if tr_kind r = TLogKindDisputeResolved then
      map_option (\<lambda>p. ev LedgerEventDisputeResolved (dpl_consumer_id p) zero_id 0 0 (dpl_upheld p))
        (unmarshalDisputePayload (tr_payload r))
    else if tr_kind r = TLogKindTransfer then
      map_option (\<lambda>p. ev (if tpl_direction p = TransferOut then LedgerEventTransferOut else LedgerEventTransferIn)
          (tpl_consumer_id p) zero_id (tpl_cost_credits p) 0 False)
        (unmarshalTransferPayload (tr_payload r))
    else if tr_kind r = TLogKindStarterGrant then
      map_option (\<lambda>p. ev LedgerEventStarterGrant (sgp_consumer_id p) zero_id (sgp_cost_credits p) 0 False)
        (unmarshalStarterGrantPayload (tr_payload r))
    else None)"

definition applyTLogRecord :: "TLogRecord \<Rightarrow> adm_state \<Rightarrow> adm_state" where
  "applyTLogRecord r st = (case record_event r of None \<Rightarrow> st | Some ev \<Rightarrow> OnLedgerEvent no_io ev st)"

fun replay_files :: "u64 \<Rightarrow> bytes list \<Rightarrow> adm_state \<Rightarrow> tlog_err option \<times> adm_state" where
  "replay_files startSeq [] st = (None, st)"
| "replay_files startSeq (f # fs) st = (case readTLogFile f of
     (recs, _, Some err) \<Rightarrow> (Some err, if err = ErrTLogCorrupt then st\<lparr>ad_tlog_corruptions := ad_tlog_corruptions st + 1\<rparr> else st)
   | (recs, _, None) \<Rightarrow> replay_files startSeq fs (fold applyTLogRecord (filter (\<lambda>r. tr_seq r > startSeq) recs) st))"

definition replayTLog :: "u64 \<Rightarrow> (u64 \<times> bytes) list \<times> bytes \<Rightarrow> adm_state \<Rightarrow> tlog_err option \<times> adm_state" where
  "replayTLog startSeq disk st = (if ad_tlog st = None then (None, st)
     else replay_files startSeq (enumerateTLogFiles disk) st)"

text \<open>A snapshot file: its sequence number, and its content unless it does not load.\<close>

record Snapshot =
  sn_seq :: u64
  sn_consumers :: credits

type_synonym snapshot_files = "(u64 \<times> Snapshot option) list"

datatype snapshot_load = NoSnapshot | NoUsable | Loaded Snapshot

fun first_usable :: "(u64 \<times> Snapshot option) list \<Rightarrow> Snapshot option" where
  "first_usable [] = None"
| "first_usable ((_, Some snap) # fs) = Some snap"
| "first_usable ((_, None) # fs) = first_usable fs"

definition loadNewestUsableSnapshot :: "snapshot_files \<Rightarrow> snapshot_load" where
  "loadNewestUsableSnapshot files = (if files = [] then NoSnapshot
     else (case first_usable (rev (sort_key fst files)) of Some snap \<Rightarrow> Loaded snap | None \<Rightarrow> NoUsable))"

definition applySnapshot :: "Snapshot \<Rightarrow> adm_state \<Rightarrow> adm_state" where
  "applySnapshot snap st = st\<lparr>ad_consumers := ad_consumers st ++ sn_consumers snap\<rparr>"

datatype replay_err = ReplayTLog tlog_err | ReplayLedger

text \<open>
  \<open>src\<close> is \<open>LedgerSource.EventsAfter\<close>: the ledger events after a sequence number, or a failure. It is asked
  with the writer's last sequence number, which a newly opened writer has at zero.
\<close>

definition StartupReplay :: "snapshot_files \<Rightarrow> (u64 \<times> bytes) list \<times> bytes \<Rightarrow> (u64 \<Rightarrow> AdmEvent list option) \<Rightarrow> adm_state \<Rightarrow> replay_err option \<times> adm_state" where
  "StartupReplay files disk src st0 = (let st = st0\<lparr>ad_replaying := True\<rparr>; load = loadNewestUsableSnapshot files;
      st1 = (case load of Loaded snap \<Rightarrow> applySnapshot snap st | NoUsable \<Rightarrow> st\<lparr>ad_degraded := True\<rparr> | NoSnapshot \<Rightarrow> st);
      startSeq = (case load of Loaded snap \<Rightarrow> sn_seq snap | _ \<Rightarrow> 0) in
    (case replayTLog startSeq disk st1 of
       (Some err, st2) \<Rightarrow> (Some (ReplayTLog err), st2\<lparr>ad_replaying := False\<rparr>)
     | (None, st2) \<Rightarrow> (case src (case ad_tlog st2 of None \<Rightarrow> 0 | Some w \<Rightarrow> tw_last_seq_in_file w) of
         None \<Rightarrow> (Some ReplayLedger, st2\<lparr>ad_replaying := False\<rparr>)
       | Some missing \<Rightarrow> (None, (fold (OnLedgerEvent no_io) missing st2)\<lparr>ad_replaying := False\<rparr>))))"

text \<open>\<open>runSnapshotEmitOnce\<close>: a snapshot at the writer's last sequence number, unless
  writing the file fails, and its mark in the log.\<close>

definition runSnapshotEmitOnce :: "bool \<Rightarrow> io_faults \<Rightarrow> time \<Rightarrow> int \<Rightarrow> bytes \<Rightarrow> snapshot_files \<Rightarrow> adm_state \<Rightarrow> snapshot_files \<times> adm_state" where
  "runSnapshotEmitOnce written io ts retained path files st = (if \<not> written then (files, st) else let sq = (case ad_tlog st of None \<Rightarrow> 0 | Some w \<Rightarrow> tw_last_seq_in_file w);
      files1 = sort_key fst (AList.update sq (Some \<lparr>sn_seq = sq, sn_consumers = ad_consumers st\<rparr>) files);
      keep = nat (if retained \<le> 0 then 3 else retained);
      files2 = drop (length files1 - keep) files1 in
    (files2, (case ad_tlog st of None \<Rightarrow> st
       | Some w \<Rightarrow> st\<lparr>ad_tlog := Some (snd (Append io \<lparr>tr_seq = 0, tr_ts = of_i64 (unix ts), tr_kind = TLogKindSnapshotMark,
            tr_payload = marshalSnapshotMarkPayload \<lparr>smp_snapshot_seq = sq, smp_path = path\<rparr>\<rparr> w))\<rparr>)))"

definition fresh_adm :: "(u64 \<times> bytes) list \<times> bytes \<Rightarrow> int \<Rightarrow> adm_state" where
  "fresh_adm disk rotationBytes = \<lparr>ad_consumers = Map.empty, ad_next_seq = 0,
     ad_tlog = Some (newTLogWriter (snd disk) (fst disk) rotationBytes), ad_replaying = False, ad_degraded = False,
     ad_tlog_corruptions = 0\<rparr>"

end
