(* ===== verification/TB_TLog_Spec.thy ===== *)
theory TB_TLog_Spec
  imports TB_TLog
begin

text \<open>
  What the log guarantees: encodings round trip, reading a log that was cut anywhere gives back a
  prefix of its records, and replaying it rebuilds the credit state of a prefix of the events. Two
  scenarios show where recovery fails: a torn frame that is appended to, and sequence numbers that
  restart behind a snapshot.
\<close>

section \<open>Slices\<close>

lemma cut_skip: "length xs \<le> a \<Longrightarrow> cut a b (xs @ ys) = cut (a - length xs) (b - length xs) ys"
  by (auto simp: cut_def)

lemma cut_here: "length xs = b - a \<Longrightarrow> cut 0 (b - a) (xs @ ys) = xs"
  by (simp add: cut_def)

lemma cut_0: "cut 0 n (xs @ ys) = (if n \<le> length xs then take n xs else xs @ cut 0 (n - length xs) ys)"
  by (simp add: cut_def)

lemma length_cut [simp]: "length (cut a b xs) = min (b - a) (length xs - a)"
  by (simp add: cut_def)

section \<open>Frames\<close>

definition fits :: "TLogRecord \<Rightarrow> bool" where
  "fits r \<longleftrightarrow> length (tr_payload r) + 21 < 2 ^ 32"

lemma length_marshal [simp]: "length (marshalTLogRecord r) = 25 + length (tr_payload r)"
  by (simp add: marshalTLogRecord_def Let_def)

lemma unat_bodyLen: "fits r \<Longrightarrow> unat (of_nat (8 + 8 + 1 + length (tr_payload r) + 4) :: u32) = length (tr_payload r) + 21"
  by (simp add: fits_def unat_of_nat del: of_nat_add)

lemma marshal_header: "cut 0 4 (marshalTLogRecord r @ rest) = be32 (of_nat (8 + 8 + 1 + length (tr_payload r) + 4))"
  by (simp add: marshalTLogRecord_def Let_def cut_def del: of_nat_add)

lemma unmarshal_marshal:
  assumes "fits r"
  shows "unmarshalTLogRecord (marshalTLogRecord r @ rest) = Inr (r, length (marshalTLogRecord r))"
proof -
  let ?n = "length (tr_payload r)" and ?buf = "marshalTLogRecord r @ rest"
  let ?cov = "be64 (tr_seq r) @ be64 (tr_ts r) @ [tr_kind r] @ tr_payload r"
  have buf: "?buf = be32 (of_nat (8 + 8 + 1 + ?n + 4)) @ ?cov @ be32 (crc32c ?cov) @ rest"
    by (simp add: marshalTLogRecord_def Let_def)
  have hd: "unat (be_word (cut 0 4 ?buf) :: u32) = 21 + ?n"
    unfolding marshal_header be_word_be32 using unat_bodyLen [OF assms] by simp
  have cov: "cut 4 (21 + ?n) ?buf = ?cov" unfolding buf by (simp add: cut_def)
  have crc: "cut (21 + ?n) (25 + ?n) ?buf = be32 (crc32c ?cov)" unfolding buf by (simp add: cut_def)
  have f: "cut 4 12 ?buf = be64 (tr_seq r)" "cut 12 20 ?buf = be64 (tr_ts r)" "?buf ! 20 = tr_kind r"
    "cut 21 (21 + ?n) ?buf = tr_payload r"
    unfolding buf by (simp_all add: cut_def nth_append)
  show ?thesis unfolding unmarshalTLogRecord_def Let_def hd
    by (simp add: tlogMinFrameSize_def f cov crc)
qed

lemma unmarshal_torn:
  assumes "fits r" "marshalTLogRecord r = t @ u" "u \<noteq> []"
  shows "unmarshalTLogRecord t = Inl ErrTLogTruncated"
proof (cases "length t < 25")
  case False
  have "cut 0 4 (t @ u) = cut 0 4 t" using False by (simp add: cut_def)
  then have "cut 0 4 t = be32 (of_nat (8 + 8 + 1 + length (tr_payload r) + 4))"
    using marshal_header [of r "[]"] assms(2) by simp
  then have "unat (be_word (cut 0 4 t) :: u32) = length (tr_payload r) + 21"
    using unat_bodyLen [OF assms(1)] by simp
  moreover have "length t < length (tr_payload r) + 25"
    using arg_cong [OF assms(2), of length] assms(3) by (cases u) auto
  ultimately show ?thesis using False by (simp add: unmarshalTLogRecord_def tlogMinFrameSize_def Let_def)
qed (simp add: unmarshalTLogRecord_def tlogMinFrameSize_def)

abbreviation frames :: "TLogRecord list \<Rightarrow> bytes" where
  "frames rs \<equiv> concat (map marshalTLogRecord rs)"

lemma read_frames_prefix:
  assumes "list_all fits rs" "tail = [] \<or> unmarshalTLogRecord tail = Inl ErrTLogTruncated"
  shows "read_frames (pre @ frames rs @ tail) (length pre) = (rs, length pre + length (frames rs), None)"
  using assms(1)
proof (induction rs arbitrary: pre)
  case Nil
  then show ?case using assms(2) by (subst read_frames.simps) auto
next
  case (Cons r rs)
  have "read_frames ((pre @ marshalTLogRecord r) @ frames rs @ tail) (length (pre @ marshalTLogRecord r)) =
      (rs, length (pre @ marshalTLogRecord r) + length (frames rs), None)"
    by (rule Cons.IH) (use Cons.prems in simp)
  moreover have "unmarshalTLogRecord (drop (length pre) (pre @ frames (r # rs) @ tail)) = Inr (r, length (marshalTLogRecord r))"
    using unmarshal_marshal [of r "frames rs @ tail"] Cons.prems by simp
  ultimately show ?case by (subst read_frames.simps) (simp add: add.assoc)
qed

lemma take_concat:
  "\<exists>j t. j \<le> length xs \<and> take k (concat xs) = concat (take j xs) @ t \<and>
    (t = [] \<or> j < length xs \<and> (\<exists>u. u \<noteq> [] \<and> xs ! j = t @ u)) \<and> (length (concat xs) \<le> k \<longrightarrow> j = length xs)"
proof (induction xs arbitrary: k)
  case (Cons x xs)
  show ?case
  proof (cases "length x \<le> k")
    case True
    obtain j t where j: "j \<le> length xs" "take (k - length x) (concat xs) = concat (take j xs) @ t"
      "t = [] \<or> j < length xs \<and> (\<exists>u. u \<noteq> [] \<and> xs ! j = t @ u)" "length (concat xs) \<le> k - length x \<longrightarrow> j = length xs"
      using Cons.IH by blast
    then show ?thesis using True by (intro exI [of _ "Suc j"] exI [of _ t]) auto
  next
    case False
    have "\<exists>u. u \<noteq> [] \<and> (x # xs) ! 0 = take k x @ u"
      by (rule exI [of _ "drop k x"]) (use False in simp)
    then show ?thesis by (intro exI [of _ 0] exI [of _ "take k x"]) (use False in auto)
  qed
qed simp

lemma torn_read:
  assumes "list_all fits rs"
  shows "\<exists>j off. j \<le> length rs \<and> readTLogFile (take k (frames rs)) = (take j rs, off, None) \<and>
    (length (frames rs) \<le> k \<longrightarrow> j = length rs)"
proof -
  let ?xs = "map marshalTLogRecord rs"
  obtain j t where j0: "j \<le> length ?xs" "take k (concat ?xs) = concat (take j ?xs) @ t"
    "t = [] \<or> j < length ?xs \<and> (\<exists>u. u \<noteq> [] \<and> ?xs ! j = t @ u)" "length (concat ?xs) \<le> k \<longrightarrow> j = length ?xs"
    using take_concat by blast
  then have j: "j \<le> length rs" "take k (frames rs) = frames (take j rs) @ t"
    "t = [] \<or> j < length rs \<and> (\<exists>u. u \<noteq> [] \<and> marshalTLogRecord (rs ! j) = t @ u)" "length (frames rs) \<le> k \<longrightarrow> j = length rs"
    by (auto simp: take_map)
  have "t = [] \<or> unmarshalTLogRecord t = Inl ErrTLogTruncated"
    using j(3) assms unmarshal_torn by (metis list_all_length)
  moreover have "list_all fits (take j rs)" using assms by (auto simp: list_all_iff dest: in_set_takeD)
  ultimately have "read_frames ([] @ frames (take j rs) @ t) (length ([] :: bytes)) =
      (take j rs, length ([] :: bytes) + length (frames (take j rs)), None)"
    by (rule read_frames_prefix [rotated])
  then show ?thesis using j(1,2,4) by (auto simp: readTLogFile_def)
qed

text \<open>
  C25. A log file of records is read back record for record, and a file cut off at any byte is
  read as a prefix of its records without an error: a torn tail is never taken for corruption.
\<close>

theorem tlog_cut_anywhere:
  assumes "list_all fits rs"
  shows "readTLogFile (frames rs) = (rs, length (frames rs), None) \<and>
    (\<exists>j\<le>length rs. \<exists>off. readTLogFile (take k (frames rs)) = (take j rs, off, None))"
  using torn_read [OF assms, of k] read_frames_prefix [OF assms, of "[]" "[]"] by (auto simp: readTLogFile_def)

section \<open>Payloads\<close>

lemma settlement_roundtrip:
  "length (spl_consumer_id p) = 32 \<Longrightarrow> length (spl_seeder_id p) = 32 \<Longrightarrow>
   unmarshalSettlementPayload (marshalSettlementPayload p) = Some p"
  by (simp add: marshalSettlementPayload_def unmarshalSettlementPayload_def cut_def)

lemma dispute_roundtrip:
  "length (dpl_consumer_id p) = 32 \<Longrightarrow> unmarshalDisputePayload (marshalDisputePayload p) = Some p"
  by (simp add: marshalDisputePayload_def unmarshalDisputePayload_def cut_def nth_append)

lemma transfer_roundtrip:
  "length (tpl_consumer_id p) = 32 \<Longrightarrow> unmarshalTransferPayload (marshalTransferPayload p) = Some p"
  by (simp add: marshalTransferPayload_def unmarshalTransferPayload_def cut_def nth_append)

lemma grant_roundtrip:
  "length (sgp_consumer_id p) = 32 \<Longrightarrow> unmarshalStarterGrantPayload (marshalStarterGrantPayload p) = Some p"
  by (simp add: marshalStarterGrantPayload_def unmarshalStarterGrantPayload_def cut_def)

lemma len_prefixed_roundtrip:
  "length v < 2 ^ 32 \<Longrightarrow> readLenPrefixed (be32 (of_nat (length v)) @ v @ rest) = Some (v, rest)"
  by (simp add: readLenPrefixed_def cut_def unat_of_nat Let_def)

lemma snapshot_mark_roundtrip:
  "length (smp_path p) < 2 ^ 32 \<Longrightarrow> unmarshalSnapshotMarkPayload (marshalSnapshotMarkPayload p) = Some p"
  using len_prefixed_roundtrip [of "smp_path p" "[]"]
  by (simp add: marshalSnapshotMarkPayload_def unmarshalSnapshotMarkPayload_def appendLenPrefixed_def cut_def)

lemma override_roundtrip:
  assumes "length (oop_operator_id p) < 2 ^ 32" "length (oop_action p) < 2 ^ 32" "length (oop_params p) < 2 ^ 32" "is_i64 (oop_ts p)"
  shows "unmarshalOperatorOverridePayload (marshalOperatorOverridePayload p) = Some p"
  using assms
  by (simp add: marshalOperatorOverridePayload_def unmarshalOperatorOverridePayload_def appendLenPrefixed_def
      len_prefixed_roundtrip cut_def)

section \<open>Events through the log\<close>

text \<open>The events admission is sent: 32-byte identities and whole seconds, as settlement builds them.\<close>

definition event_ok :: "AdmEvent \<Rightarrow> bool" where
  "event_ok ev \<longleftrightarrow> length (ae_consumer_id ev) = 32 \<and> length (ae_seeder_id ev) = 32 \<and>
     ae_timestamp ev = seconds (unix (ae_timestamp ev)) \<and> is_i64 (unix (ae_timestamp ev))"

definition logged :: "AdmEvent \<Rightarrow> bool" where
  "logged ev \<longleftrightarrow> event_record 0 ev \<noteq> None"

lemma unlogged_noop: "event_record sq ev = None \<Longrightarrow> apply_event ev m = m"
  by (auto simp: event_record_def apply_event_def Let_def split: LedgerEventKind.splits if_splits)

lemma event_record_Some_iff: "event_record sq ev \<noteq> None \<longleftrightarrow> logged ev"
  by (auto simp: event_record_def logged_def Let_def split: LedgerEventKind.splits)

lemma event_record_seq: "event_record sq ev = Some r \<Longrightarrow> tr_seq r = sq \<and> (event_ok ev \<longrightarrow> fits r)"
  by (auto simp: event_record_def Let_def fits_def event_ok_def marshalSettlementPayload_def marshalTransferPayload_def
      marshalStarterGrantPayload_def marshalDisputePayload_def split: LedgerEventKind.splits if_splits)

text \<open>A replayed record has the effect of the event it was written for.\<close>

definition replayed :: "AdmEvent \<Rightarrow> AdmEvent" where
  "replayed ev = (case ae_kind ev of
     LedgerEventSettlement \<Rightarrow> ev\<lparr>ae_dispute_upheld := False\<rparr>
   | LedgerEventDisputeFiled \<Rightarrow> ev\<lparr>ae_seeder_id := zero_id, ae_cost_credits := 0, ae_flags := 0, ae_dispute_upheld := False\<rparr>
   | LedgerEventDisputeResolved \<Rightarrow> ev\<lparr>ae_seeder_id := zero_id, ae_cost_credits := 0, ae_flags := 0\<rparr>
   | _ \<Rightarrow> ev\<lparr>ae_seeder_id := zero_id, ae_flags := 0, ae_dispute_upheld := False\<rparr>)"

lemma record_event_replayed:
  assumes "event_ok ev" "event_record sq ev = Some r"
  shows "record_event r = Some (replayed ev)"
proof -
  have ts: "seconds (to_i64 (of_i64 (unix (ae_timestamp ev)))) = ae_timestamp ev" using assms(1) by (simp add: event_ok_def)
  have ids: "length (ae_consumer_id ev) = 32" "length (ae_seeder_id ev) = 32" using assms(1) by (auto simp: event_ok_def)
  show ?thesis using assms(2) ids ts
    by (cases "ae_kind ev") (auto simp: event_record_def record_event_def Let_def tlog_kinds settlement_roundtrip transfer_roundtrip
        grant_roundtrip dispute_roundtrip TransferIn_def TransferOut_def replayed_def split: if_splits)
qed

lemma apply_replayed: "apply_event (replayed ev) = apply_event ev"
  by (cases "ae_kind ev") (simp_all add: apply_event_def replayed_def fun_eq_iff applySettlement_def applyStarterGrant_def
      applyDispute_def Let_def cong: if_cong)

lemma replayed_logged: "event_record sq ev \<noteq> None \<Longrightarrow> event_record sq' (replayed ev) \<noteq> None"
  by (cases "ae_kind ev") (auto simp: event_record_def replayed_def Let_def split: if_splits)

section \<open>The log of a run\<close>

text \<open>
  The bytes of the writer are the frames of \<open>L\<close>: whole frames in every rotated file, whole frames in
  the file and the buffer together, and the suffixes of the rotated files ascend.
\<close>

definition log_of :: "TLogRecord list \<Rightarrow> tlogWriter \<Rightarrow> bool" where
  "log_of L w \<longleftrightarrow> (\<exists>Ls Lf. L = concat Ls @ Lf \<and> map snd (tw_rotated w) = map frames Ls \<and> tw_file w @ tw_buf w = frames Lf \<and>
     sorted_wrt (<) (map fst (tw_rotated w)) \<and> (\<forall>k\<in>set (map fst (tw_rotated w)). k \<le> tw_last_seq_in_file w))"

lemma AList_update_fresh: "k \<notin> set (map fst xs) \<Longrightarrow> AList.update k v xs = xs @ [(k, v)]"
  by (induction xs) auto

lemma log_of_flush: "log_of L w \<Longrightarrow> log_of L (tw_flush w)"
  by (simp add: log_of_def tw_flush_def)

lemma log_of_rotate:
  assumes "log_of L w" "\<forall>k\<in>set (map fst (tw_rotated w)). k < tw_last_seq_in_file w"
  shows "fst (rotateLocked no_io w) \<and> log_of L (snd (rotateLocked no_io w)) \<and>
    tw_last_seq_in_file (snd (rotateLocked no_io w)) = tw_last_seq_in_file w"
proof -
  obtain Ls Lf where L: "L = concat Ls @ Lf" "map snd (tw_rotated w) = map frames Ls" "tw_file w @ tw_buf w = frames Lf"
    "sorted_wrt (<) (map fst (tw_rotated w))" using assms(1) by (auto simp: log_of_def)
  have fresh: "tw_last_seq_in_file w \<notin> set (map fst (tw_rotated w))" using assms(2) by auto
  have rot: "AList.update (tw_last_seq_in_file w) (frames Lf) (tw_rotated w) = tw_rotated w @ [(tw_last_seq_in_file w, frames Lf)]"
    by (rule AList_update_fresh [OF fresh])
  have "log_of L (w\<lparr>tw_file := [], tw_buf := [], tw_rotated := tw_rotated w @ [(tw_last_seq_in_file w, frames Lf)], tw_bytes_written := 0\<rparr>)"
    unfolding log_of_def using L assms(2)
    by (intro exI [of _ "Ls @ [Lf]"] exI [of _ "[]"]) (auto simp: sorted_wrt_append less_imp_le)
  then show ?thesis using rot L(3) by (simp add: rotateLocked_def no_io_def tw_flush_def log_of_def)
qed

lemma log_of_Append:
  assumes "log_of L w" "tw_last_seq_in_file w < tr_seq r"
  shows "fst (Append no_io r w) \<and> log_of (L @ [r]) (snd (Append no_io r w)) \<and>
    tw_last_seq_in_file (snd (Append no_io r w)) = tr_seq r"
proof -
  let ?w1 = "w\<lparr>tw_buf := tw_buf w @ marshalTLogRecord r, tw_bytes_written := tw_bytes_written w + int (length (marshalTLogRecord r)),
     tw_last_seq_in_file := max (tw_last_seq_in_file w) (tr_seq r)\<rparr>"
  obtain Ls Lf where L: "L = concat Ls @ Lf" "map snd (tw_rotated w) = map frames Ls" "tw_file w @ tw_buf w = frames Lf"
    "sorted_wrt (<) (map fst (tw_rotated w))" "\<forall>k\<in>set (map fst (tw_rotated w)). k \<le> tw_last_seq_in_file w"
    using assms(1) by (auto simp: log_of_def)
  have old: "\<forall>k\<in>set (map fst (tw_rotated w)). k < tr_seq r" using L(5) assms(2) by auto
  have w1: "log_of (L @ [r]) ?w1" unfolding log_of_def using L assms(2) old
    by (intro exI [of _ Ls] exI [of _ "Lf @ [r]"]) (auto simp: max_def less_imp_le append_assoc [symmetric] simp del: append_assoc)
  have m: "max (tw_last_seq_in_file w) (tr_seq r) = tr_seq r" using assms(2) by simp
  have rot: "fst (rotateLocked no_io w2) \<and> log_of (L @ [r]) (snd (rotateLocked no_io w2)) \<and> tw_last_seq_in_file (snd (rotateLocked no_io w2)) = tr_seq r"
    if "w2 = ?w1 \<or> w2 = tw_flush ?w1" for w2
    using log_of_rotate [of "L @ [r]" w2] that w1 log_of_flush [OF w1] old m by (auto simp: tw_flush_def)
  show ?thesis using rot [of ?w1] rot [of "tw_flush ?w1"] w1 log_of_flush [OF w1] m
    by (auto simp: Append_def Let_def no_io_def tw_flush_def)
qed

text \<open>The records a list of events leaves in the log, numbered from \<open>n + 1\<close>.\<close>

fun log_records :: "nat \<Rightarrow> AdmEvent list \<Rightarrow> TLogRecord list" where
  "log_records n [] = []"
| "log_records n (ev # evs) = (case event_record (of_nat (Suc n)) ev of None \<Rightarrow> [] | Some r \<Rightarrow> [r]) @ log_records (Suc n) evs"

lemma log_records_snoc:
  "log_records n (evs @ [ev]) = log_records n evs @ (case event_record (of_nat (Suc (n + length evs))) ev of None \<Rightarrow> [] | Some r \<Rightarrow> [r])"
  by (induction evs arbitrary: n) auto

definition running :: "AdmEvent list \<Rightarrow> adm_state \<Rightarrow> bool" where
  "running evs st \<longleftrightarrow> ad_consumers st = fold apply_event evs Map.empty \<and> ad_next_seq st = of_nat (length evs) \<and> \<not> ad_replaying st \<and>
     (\<exists>w. ad_tlog st = Some w \<and> log_of (log_records 0 evs) w \<and> tw_last_seq_in_file w \<le> of_nat (length evs))"

lemma word_Suc_less: "Suc n < 2 ^ 64 \<Longrightarrow> (x :: u64) \<le> of_nat n \<Longrightarrow> x < of_nat (Suc n)"
  by (simp add: word_le_nat_alt word_less_nat_alt unat_of_nat del: of_nat_Suc)

lemma running_step:
  assumes "running evs st" "Suc (length evs) < 2 ^ 64"
  shows "running (evs @ [ev]) (OnLedgerEvent no_io ev st)"
proof -
  obtain w where w: "ad_tlog st = Some w" "log_of (log_records 0 evs) w" "tw_last_seq_in_file w \<le> of_nat (length evs)"
    and st: "ad_consumers st = fold apply_event evs Map.empty" "ad_next_seq st = of_nat (length evs)" "\<not> ad_replaying st"
    using assms(1) by (auto simp: running_def)
  have sq: "ad_next_seq st + 1 = of_nat (Suc (length evs))" using st(2) by simp
  have le: "tw_last_seq_in_file w < of_nat (Suc (length evs))" by (rule word_Suc_less [OF assms(2) w(3)])
  show ?thesis
  proof (cases "event_record (of_nat (Suc (length evs))) ev")
    case None
    then show ?thesis using w st sq le unlogged_noop [OF None]
      by (auto simp: running_def OnLedgerEvent_def log_records_snoc Let_def less_imp_le simp del: of_nat_Suc)
  next
    case (Some r)
    then have "tr_seq r = of_nat (Suc (length evs))" using event_record_seq by blast
    then have A: "fst (Append no_io r w)" "log_of (log_records 0 evs @ [r]) (snd (Append no_io r w))"
      "tw_last_seq_in_file (snd (Append no_io r w)) = of_nat (Suc (length evs))"
      using log_of_Append [OF w(2), of r] le by auto
    obtain w' where w': "Append no_io r w = (True, w')" using A(1) by (cases "Append no_io r w") auto
    have "OnLedgerEvent no_io ev st = st\<lparr>ad_next_seq := of_nat (Suc (length evs)), ad_tlog := Some w',
        ad_consumers := apply_event ev (ad_consumers st)\<rparr>"
      using Some w(1) st(3) w' by (simp add: OnLedgerEvent_def persistEvent_def sq Let_def del: of_nat_Suc)
    then show ?thesis using A w' st Some by (auto simp: running_def log_records_snoc simp del: of_nat_Suc)
  qed
qed

lemma running_fold:
  assumes "running evs0 st" "length evs0 + length evs < 2 ^ 64"
  shows "running (evs0 @ evs) (fold (OnLedgerEvent no_io) evs st)"
  using assms
proof (induction evs arbitrary: evs0 st)
  case (Cons ev evs)
  have "running (evs0 @ [ev]) (OnLedgerEvent no_io ev st)" using Cons.prems by (intro running_step) auto
  from Cons.IH [OF this] Cons.prems(2) show ?case by simp
qed simp

lemma running_fresh: "running [] (fresh_adm ([], []) rot)"
  unfolding running_def fresh_adm_def newTLogWriter_def log_of_def
  by (auto intro: exI [of _ "[]"])

section \<open>Replay\<close>

definition replays_to :: "AdmEvent list \<Rightarrow> TLogRecord list \<Rightarrow> bool" where
  "replays_to evs rs \<longleftrightarrow> (\<forall>st. ad_replaying st \<longrightarrow> ad_consumers (fold applyTLogRecord rs st) = fold apply_event evs (ad_consumers st) \<and>
     ad_replaying (fold applyTLogRecord rs st) \<and> ad_tlog (fold applyTLogRecord rs st) = ad_tlog st)"

lemma applyTLogRecord_effect:
  assumes "event_ok ev" "event_record sq ev = Some r" "ad_replaying st"
  shows "ad_consumers (applyTLogRecord r st) = apply_event ev (ad_consumers st) \<and> ad_replaying (applyTLogRecord r st) \<and>
    ad_tlog (applyTLogRecord r st) = ad_tlog st"
proof -
  obtain r' where "event_record (ad_next_seq st + 1) (replayed ev) = Some r'"
    using replayed_logged [of sq ev] assms(2) by auto
  then show ?thesis using record_event_replayed [OF assms(1,2)] assms(3)
    by (simp add: applyTLogRecord_def OnLedgerEvent_def persistEvent_def Let_def apply_replayed)
qed

text \<open>Any prefix of the records of a run is what some prefix of its events leaves behind.\<close>

lemma log_records_take:
  assumes "list_all event_ok evs"
  shows "\<exists>i\<le>length evs. replays_to (take i evs) (take j (log_records n evs)) \<and>
    (length (log_records n evs) \<le> j \<longrightarrow> i = length evs)"
  using assms
proof (induction evs arbitrary: n j)
  case Nil
  then show ?case by (simp add: replays_to_def)
next
  case (Cons ev evs)
  show ?case
  proof (cases "event_record (of_nat (Suc n)) ev")
    case None
    obtain i where "i \<le> length evs" "replays_to (take i evs) (take j (log_records (Suc n) evs))"
      "length (log_records (Suc n) evs) \<le> j \<longrightarrow> i = length evs" using Cons.IH [of j "Suc n"] Cons.prems by auto
    then show ?thesis using None unlogged_noop [OF None]
      by (intro exI [of _ "Suc i"]) (simp add: replays_to_def del: of_nat_Suc)
  next
    case (Some r)
    show ?thesis
    proof (cases j)
      case 0
      then show ?thesis using Some by (intro exI [of _ 0]) (simp add: replays_to_def del: of_nat_Suc)
    next
      case (Suc j')
      obtain i where "i \<le> length evs" "replays_to (take i evs) (take j' (log_records (Suc n) evs))"
        "length (log_records (Suc n) evs) \<le> j' \<longrightarrow> i = length evs" using Cons.IH [of j' "Suc n"] Cons.prems by auto
      then show ?thesis using Some Suc applyTLogRecord_effect [OF _ Some] Cons.prems
        by (intro exI [of _ "Suc i"]) (simp add: replays_to_def del: of_nat_Suc)
    qed
  qed
qed

lemma log_records_props:
  assumes "list_all event_ok evs" "n + length evs < 2 ^ 64" "r \<in> set (log_records n evs)"
  shows "fits r \<and> 0 < tr_seq r"
  using assms
proof (induction evs arbitrary: n)
  case (Cons ev evs)
  have pos: "(0 :: u64) < of_nat (Suc n)" using Cons.prems(2) by (simp add: word_less_nat_alt unat_of_nat del: of_nat_Suc)
  show ?case using Cons.IH [of "Suc n"] Cons.prems pos event_record_seq [of "of_nat (Suc n)" ev]
    by (auto split: option.splits simp del: of_nat_Suc)
qed simp

lemma replay_files_concat:
  assumes "list_all fits rs" "\<forall>r\<in>set rs. 0 < tr_seq r"
  shows "replay_files 0 (frames rs # fs) st = replay_files 0 fs (fold applyTLogRecord rs st)"
proof -
  have "readTLogFile (take (length (frames rs)) (frames rs)) = (rs, length (frames rs), None)"
    using read_frames_prefix [OF assms(1), of "[]" "[]"] by (simp add: readTLogFile_def)
  moreover have "filter (\<lambda>r. 0 < tr_seq r) rs = rs" using assms(2) by simp
  ultimately show ?thesis by simp
qed

lemma replay_whole_files:
  assumes "list_all fits (concat Ls)" "\<forall>r\<in>set (concat Ls). 0 < tr_seq r"
  shows "replay_files 0 (map frames Ls @ fs) st = replay_files 0 fs (fold applyTLogRecord (concat Ls) st)"
  using assms by (induction Ls arbitrary: st) (auto simp: replay_files_concat simp del: replay_files.simps)

lemma sort_key_sorted: "sorted_wrt (<) (map f xs) \<Longrightarrow> sort_key f xs = xs"
  by (rule sort_key_id_if_sorted) (simp add: strict_sorted_imp_sorted)

lemma fold_replays: "replays_to evs rs \<Longrightarrow> ad_replaying st \<Longrightarrow> ad_consumers (fold applyTLogRecord rs st) = fold apply_event evs (ad_consumers st)"
  by (simp add: replays_to_def)


text \<open>
  A record that is appended after a torn frame it fits into is swallowed: the reader stops
  before the torn frame, reports no error and never reaches the later record.
\<close>

theorem torn_tail_swallows:
  assumes "list_all fits L" "fits r" "marshalTLogRecord r = t @ u" "4 \<le> length t"
    "length t + length (marshalTLogRecord r2) < length (marshalTLogRecord r)"
  shows "readTLogFile (frames L @ t @ marshalTLogRecord r2) = (L, length (frames L), None)"
proof -
  let ?tail = "t @ marshalTLogRecord r2"
  have "cut 0 4 ?tail = cut 0 4 (t @ u)" using assms(4) by (simp add: cut_def)
  then have hd: "unat (be_word (cut 0 4 ?tail) :: u32) = length (tr_payload r) + 21"
    using unat_bodyLen [OF assms(2)] marshal_header [of r "[]"] assms(3) by simp
  have "unmarshalTLogRecord ?tail = Inl ErrTLogTruncated"
    unfolding unmarshalTLogRecord_def Let_def hd using assms(5) by simp
  then show ?thesis using read_frames_prefix [OF assms(1), of ?tail "[]"] by (simp add: readTLogFile_def)
qed

definition demo_settlement :: AdmEvent where
  "demo_settlement = \<lparr>ae_kind = LedgerEventSettlement, ae_consumer_id = replicate 32 1, ae_seeder_id = replicate 32 2, ae_cost_credits = 30,
     ae_flags = 0, ae_dispute_upheld = False, ae_timestamp = seconds 86400\<rparr>"

definition demo_grant :: AdmEvent where
  "demo_grant = \<lparr>ae_kind = LedgerEventStarterGrant, ae_consumer_id = replicate 32 3, ae_seeder_id = zero_id, ae_cost_credits = 500,
     ae_flags = 0, ae_dispute_upheld = False, ae_timestamp = seconds 86401\<rparr>"

definition demo_record :: "u64 \<Rightarrow> AdmEvent \<Rightarrow> TLogRecord" where
  "demo_record n ev = the (event_record n ev)"

lemma demo_events: "event_ok demo_settlement" "event_ok demo_grant" "list_all event_ok [demo_settlement, demo_grant]"
  by (simp_all add: event_ok_def demo_settlement_def demo_grant_def zero_id_def is_i64_def)

lemma demo_record_Some: "event_record n demo_settlement = Some (demo_record n demo_settlement)" "event_record n demo_grant = Some (demo_record n demo_grant)"
  by (simp_all add: demo_record_def event_record_def demo_settlement_def demo_grant_def Let_def)

lemma demo_payload: "length (tr_payload (demo_record n demo_settlement)) = 76" "length (tr_payload (demo_record n demo_grant)) = 40"
  by (simp_all add: demo_record_def event_record_def demo_settlement_def demo_grant_def Let_def marshalSettlementPayload_def marshalStarterGrantPayload_def)

theorem tlog_cut_anywhere_witness:
  "readTLogFile (frames [demo_record 1 demo_settlement]) =
     ([demo_record 1 demo_settlement], length (frames [demo_record 1 demo_settlement]), None)"
  using tlog_cut_anywhere [of "[demo_record 1 demo_settlement]" 0] by (simp add: fits_def demo_payload)

theorem torn_tail_swallows_witness:
  "fst (readTLogFile (take 10 (marshalTLogRecord (demo_record 1 demo_settlement)) @ marshalTLogRecord (demo_record 1 demo_grant))) = []"
  using torn_tail_swallows [of "[]" "demo_record 1 demo_settlement" "take 10 (marshalTLogRecord (demo_record 1 demo_settlement))"
      "drop 10 (marshalTLogRecord (demo_record 1 demo_settlement))" "demo_record 1 demo_grant"]
  by (simp add: fits_def demo_payload)


section \<open>Sequence numbers behind a snapshot\<close>

lemma OnLedgerEvent_tlog: "ad_tlog st \<noteq> None \<Longrightarrow> ad_tlog (OnLedgerEvent io ev st) \<noteq> None"
  by (auto simp: OnLedgerEvent_def persistEvent_def Let_def split: option.splits prod.splits bool.splits)

lemma applyTLogRecord_none: "replay_files s [frames L] st = (None, st)" if "list_all fits L" "\<forall>r\<in>set L. tr_seq r \<le> s"
proof -
  have "readTLogFile (frames L) = (L, length (frames L), None)"
    using read_frames_prefix [OF that(1), of "[]" "[]"] by (simp add: readTLogFile_def)
  moreover have "filter (\<lambda>r. s < tr_seq r) L = []" using that(2) by (auto simp: filter_empty_conv not_less)
  ultimately show ?thesis by simp
qed

text \<open>
  After a start from a snapshot the next event is logged with a sequence number that is not
  above that of the snapshot, so a restart from the same snapshot skips it: an event that was
  persisted and applied is lost.
\<close>

theorem snapshot_hides_later_events:
  assumes "list_all fits L" "\<forall>r\<in>set L. tr_seq r \<le> sn_seq snap" "1 \<le> sn_seq snap" "event_ok ev" "logged ev"
    "int (length (frames L)) + 1000 < rot"
    "StartupReplay [(sn_seq snap, Some snap)] ([], frames L) (\<lambda>_. Some []) (fresh_adm ([], frames L) rot) = (err, st)"
    "st' = OnLedgerEvent no_io ev st" "ad_tlog st' = Some w"
  shows "err = None \<and> ad_consumers st = sn_consumers snap \<and> ad_consumers st' = apply_event ev (sn_consumers snap) \<and>
    (\<exists>st2. StartupReplay [(sn_seq snap, Some snap)] (crash (length (tw_buf w)) w) (\<lambda>_. Some []) (fresh_adm (crash (length (tw_buf w)) w) rot) = (None, st2) \<and>
       ad_consumers st2 = sn_consumers snap)"
proof -
  let ?S = "sn_seq snap" and ?st0 = "fresh_adm ([], frames L) rot"
  have load: "loadNewestUsableSnapshot [(?S, Some snap)] = Loaded snap" by (simp add: loadNewestUsableSnapshot_def)
  have start: "StartupReplay [(?S, Some snap)] ([], frames L') (\<lambda>_. Some []) (fresh_adm ([], frames L') rot) =
      (None, (fresh_adm ([], frames L') rot)\<lparr>ad_consumers := sn_consumers snap\<rparr>)"
    if "list_all fits L'" "\<forall>r\<in>set L'. tr_seq r \<le> ?S" for L'
    using applyTLogRecord_none [OF that]
    by (simp add: StartupReplay_def load replayTLog_def enumerateTLogFiles_def applySnapshot_def fresh_adm_def Let_def del: replay_files.simps)
  have st: "err = None" "st = ?st0\<lparr>ad_consumers := sn_consumers snap\<rparr>" using start [OF assms(1,2)] assms(7) by auto
  obtain r where r: "event_record 1 ev = Some r" using assms(5) event_record_Some_iff [of 1 ev] by auto
  have rs: "tr_seq r = 1" "fits r" using event_record_seq [OF r] assms(4) by auto
  have len: "length (marshalTLogRecord r) < 1000"
    using r assms(4) by (auto simp: event_record_def event_ok_def Let_def marshalSettlementPayload_def marshalTransferPayload_def
        marshalStarterGrantPayload_def marshalDisputePayload_def split: LedgerEventKind.splits if_splits)
  let ?w = "newTLogWriter (frames L) [] rot"
  have A: "fst (Append no_io r ?w)" "tw_rotated (snd (Append no_io r ?w)) = []"
    "tw_file (snd (Append no_io r ?w)) @ tw_buf (snd (Append no_io r ?w)) = frames (L @ [r])"
    using len assms(6) by (auto simp: Append_def newTLogWriter_def no_io_def tw_flush_def Let_def)
  obtain w' where w': "Append no_io r ?w = (True, w')" using A(1) by (cases "Append no_io r ?w") auto
  have st': "st' = st\<lparr>ad_next_seq := 1, ad_tlog := Some w', ad_consumers := apply_event ev (sn_consumers snap)\<rparr>"
    using r w' by (simp add: assms(8) st(2) OnLedgerEvent_def persistEvent_def fresh_adm_def Let_def)
  then have "w = w'" using assms(9) by simp
  then have cr: "crash (length (tw_buf w)) w = ([], frames (L @ [r]))" using A w' by (simp add: crash_def)
  have "list_all fits (L @ [r])" "\<forall>x\<in>set (L @ [r]). tr_seq x \<le> ?S" using assms(1-3) rs by auto
  from start [OF this] show ?thesis using st st' by (simp add: cr fresh_adm_def)
qed

theorem snapshot_hides_later_events_witness:
  "\<exists>st2 w. ad_tlog (OnLedgerEvent no_io demo_grant (snd (StartupReplay [(1, Some \<lparr>sn_seq = 1, sn_consumers = Map.empty\<rparr>)] ([], []) (\<lambda>_. Some []) (fresh_adm ([], []) 2000)))) = Some w \<and>
     StartupReplay [(1, Some \<lparr>sn_seq = 1, sn_consumers = Map.empty\<rparr>)] (crash (length (tw_buf w)) w) (\<lambda>_. Some []) (fresh_adm (crash (length (tw_buf w)) w) 2000) = (None, st2) \<and>
     ad_consumers st2 = Map.empty"
proof -
  let ?snap = "\<lparr>sn_seq = 1, sn_consumers = Map.empty\<rparr>"
  obtain err st where S: "StartupReplay [(sn_seq ?snap, Some ?snap)] ([], frames []) (\<lambda>_. Some []) (fresh_adm ([], frames []) 2000) = (err, st)" by force
  have "ad_tlog st \<noteq> None" using S
    by (simp add: StartupReplay_def loadNewestUsableSnapshot_def replayTLog_def enumerateTLogFiles_def applySnapshot_def fresh_adm_def
        readTLogFile_def read_frames.simps Let_def) auto
  then obtain w where w: "ad_tlog (OnLedgerEvent no_io demo_grant st) = Some w"
    using OnLedgerEvent_tlog by blast
  have "logged demo_grant" by (simp add: logged_def demo_record_Some)
  then show ?thesis using snapshot_hides_later_events [OF _ _ _ demo_events(2) _ _ S refl w] S w by auto
qed

end
