(* ===== verification/TB_Snapshot.thy ===== *)
theory TB_Snapshot
  imports TB_TLog
begin

text \<open>
  The bytes of an admission snapshot (\<open>src/tracker/internal/admission/snapshot.go\<close>). The tables are
  given in the order the map iteration yields them. A slice beyond the end of the file panics in Go,
  which is one of the outcomes of \<open>readSnapshot\<close>.
\<close>

record MinuteBucket =
  mb_expected :: u32
  mb_actual :: u32

definition heartbeatWindowMinutes :: nat where "heartbeatWindowMinutes = 10"

record SeederHeartbeatState =
  sh_buckets :: "MinuteBucket list"
  sh_last_bucket_roll_at :: time
  sh_last_headroom_estimate :: u32
  sh_last_headroom_source :: byte
  sh_last_headroom_ts :: time
  sh_can_probe_usage :: bool

section \<open>Writing\<close>

definition snapshotMagic :: u32 where "snapshotMagic = 0x41444D53"
definition snapshotFormatVersion :: u32 where "snapshotFormatVersion = 1"

definition le_unix :: "time \<Rightarrow> bytes" where
  "le_unix t = le64 (of_i64 (unix t))"

definition encodeDayBucket :: "DayBucket \<Rightarrow> bytes" where
  "encodeDayBucket b = le32 (db_total b) @ le32 (db_a b) @ le32 (db_b b) @ le_unix (db_day_stamp b)"

definition encodeConsumerState :: "ident \<Rightarrow> ConsumerCreditState \<Rightarrow> bytes" where
  "encodeConsumerState i st = to_array 32 i @ le_unix (cs_first_seen_at st) @ le64 (of_i64 (cs_last_balance_seen st)) @
     concat (map (\<lambda>k. encodeDayBucket (cs_settlement_buckets st ! k) @ encodeDayBucket (cs_dispute_buckets st ! k) @
       encodeDayBucket (cs_flow_buckets st ! k)) [0..<rollingWindowDays])"

definition encodeSeederState :: "ident \<Rightarrow> SeederHeartbeatState \<Rightarrow> bytes" where
  "encodeSeederState i st = to_array 32 i @
     concat (map (\<lambda>k. le32 (mb_expected (sh_buckets st ! k)) @ le32 (mb_actual (sh_buckets st ! k))) [0..<heartbeatWindowMinutes]) @
     le_unix (sh_last_bucket_roll_at st) @ le32 (sh_last_headroom_estimate st) @ [sh_last_headroom_source st] @
     le_unix (sh_last_headroom_ts st) @ [if sh_can_probe_usage st then 1 else 0]"

definition encodeSnapshotBody :: "u64 \<Rightarrow> time \<Rightarrow> (ident \<times> ConsumerCreditState) list \<Rightarrow> (ident \<times> SeederHeartbeatState) list \<Rightarrow> bytes" where
  "encodeSnapshotBody sq ts consumers seeders = le32 snapshotMagic @ le32 snapshotFormatVersion @ le64 sq @ le_unix ts @
     le32 (of_nat (length consumers)) @ concat (map (\<lambda>(i, st). encodeConsumerState i st) consumers) @
     le32 (of_nat (length seeders)) @ concat (map (\<lambda>(i, st). encodeSeederState i st) seeders)"

text \<open>What \<open>writeSnapshot\<close> renames into place, when no system call fails.\<close>

definition writeSnapshot :: "u64 \<Rightarrow> time \<Rightarrow> (ident \<times> ConsumerCreditState) list \<Rightarrow> (ident \<times> SeederHeartbeatState) list \<Rightarrow> bytes" where
  "writeSnapshot sq ts consumers seeders = (let body = encodeSnapshotBody sq ts consumers seeders in body @ le32 (crc32c body))"

section \<open>Reading\<close>

datatype snap_err = SnapTooShort | SnapBadMagic | SnapBadVersion | SnapBadCRC | SnapTruncated | SnapPanic

record SnapshotFile =
  sf_seq :: u64
  sf_ts :: time
  sf_consumers :: credits
  sf_seeders :: "ident \<rightharpoonup> SeederHeartbeatState"

definition un_unix :: "bytes \<Rightarrow> time" where
  "un_unix bs = seconds (to_i64 (le_word bs))"

definition decodeDayBucket :: "bytes \<Rightarrow> DayBucket" where
  "decodeDayBucket buf = \<lparr>db_total = le_word (cut 0 4 buf), db_a = le_word (cut 4 8 buf), db_b = le_word (cut 8 12 buf),
     db_day_stamp = un_unix (cut 12 20 buf)\<rparr>"

definition consumer_fixed :: nat where "consumer_fixed = 32 + 8 + 8 + rollingWindowDays * 3 * 20"

definition decodeConsumerState :: "bytes \<Rightarrow> (ident \<times> ConsumerCreditState \<times> nat) option" where
  "decodeConsumerState buf = (if length buf < consumer_fixed then None
     else (let bucket = (\<lambda>off k. decodeDayBucket (cut (48 + 60 * k + off) (48 + 60 * k + off + 20) buf)) in
       Some (cut 0 32 buf, \<lparr>cs_first_seen_at = un_unix (cut 32 40 buf), cs_settlement_buckets = map (bucket 0) [0..<rollingWindowDays],
         cs_dispute_buckets = map (bucket 20) [0..<rollingWindowDays], cs_flow_buckets = map (bucket 40) [0..<rollingWindowDays],
         cs_last_balance_seen = to_i64 (le_word (cut 40 48 buf))\<rparr>, consumer_fixed)))"

definition seeder_fixed :: nat where "seeder_fixed = 32 + heartbeatWindowMinutes * 8 + 8 + 4 + 1 + 8 + 1"

definition decodeSeederState :: "bytes \<Rightarrow> (ident \<times> SeederHeartbeatState \<times> nat) option" where
  "decodeSeederState buf = (if length buf < seeder_fixed then None
     else Some (cut 0 32 buf, \<lparr>sh_buckets = map (\<lambda>k. \<lparr>mb_expected = le_word (cut (32 + 8 * k) (32 + 8 * k + 4) buf),
         mb_actual = le_word (cut (32 + 8 * k + 4) (32 + 8 * k + 8) buf)\<rparr>) [0..<heartbeatWindowMinutes],
       sh_last_bucket_roll_at = un_unix (cut 112 120 buf), sh_last_headroom_estimate = le_word (cut 120 124 buf),
       sh_last_headroom_source = buf ! 124, sh_last_headroom_ts = un_unix (cut 125 133 buf), sh_can_probe_usage = (buf ! 133 \<noteq> 0)\<rparr>,
       seeder_fixed))"

text \<open>The two decoding loops: \<open>n\<close> more entries from offset \<open>pos\<close>.\<close>

primrec decode_entries :: "(bytes \<Rightarrow> (ident \<times> 'v \<times> nat) option) \<Rightarrow> bytes \<Rightarrow> nat \<Rightarrow> nat \<Rightarrow> (ident \<rightharpoonup> 'v) \<Rightarrow> ((ident \<rightharpoonup> 'v) \<times> nat) option" where
  "decode_entries dec data 0 pos m = Some (m, pos)"
| "decode_entries dec data (Suc n) pos m = (case dec (drop pos data) of None \<Rightarrow> None
     | Some (i, st, k) \<Rightarrow> decode_entries dec data n (pos + k) (m(i \<mapsto> st)))"

definition readSnapshot :: "bytes \<Rightarrow> snap_err + SnapshotFile" where
  "readSnapshot data = (if length data < 28 then Inl SnapTooShort
     else if (le_word (cut 0 4 data) :: u32) \<noteq> snapshotMagic then Inl SnapBadMagic
     else if (le_word (cut 4 8 data) :: u32) \<noteq> snapshotFormatVersion then Inl SnapBadVersion
     else (let bodyEnd = length data - 4 in
       if crc32c (take bodyEnd data) \<noteq> le_word (drop bodyEnd data) then Inl SnapBadCRC
       else (case decode_entries decodeConsumerState data (unat (le_word (cut 24 28 data) :: u32)) 28 Map.empty of
           None \<Rightarrow> Inl SnapTruncated
         | Some (cs, pos) \<Rightarrow>
           if pos + 4 > length data then Inl SnapPanic
           else (case decode_entries decodeSeederState data (unat (le_word (cut pos (pos + 4) data) :: u32)) (pos + 4) Map.empty of
               None \<Rightarrow> Inl SnapTruncated
             | Some (ss, _) \<Rightarrow> Inr \<lparr>sf_seq = le_word (cut 8 16 data), sf_ts = un_unix (cut 16 24 data), sf_consumers = cs, sf_seeders = ss\<rparr>))))"

text \<open>The part of a loaded file that the replay installs, and what the start-up code makes of a file.\<close>

definition loaded_snapshot :: "bytes \<Rightarrow> Snapshot option" where
  "loaded_snapshot data = (case readSnapshot data of Inl _ \<Rightarrow> None | Inr f \<Rightarrow> Some \<lparr>sn_seq = sf_seq f, sn_consumers = sf_consumers f\<rparr>)"

section \<open>Round trips\<close>

lemma cut_take: "cut a b xs = take (b - a) (drop a xs)"
  by (simp add: cut_def)

lemma cut_off: "cut (a + b) (a + b + n) xs = take n (drop b (drop a xs))"
  by (simp add: cut_def add.commute)

lemma le_unix_simps [simp]: "length (le_unix t) = 8" "is_i64 (unix t) \<Longrightarrow> t mod 10 ^ 9 = 0 \<Longrightarrow> un_unix (le_unix t) = t"
proof -
  assume "is_i64 (unix t)" "t mod 10 ^ 9 = 0"
  moreover have "10 ^ 9 * (t div 10 ^ 9) + t mod 10 ^ 9 = t" by (rule mult_div_mod_eq)
  ultimately show "un_unix (le_unix t) = t" by (simp add: un_unix_def le_unix_def seconds_def unix_def)
qed (simp add: le_unix_def)

definition stamp_ok :: "time \<Rightarrow> bool" where
  "stamp_ok t \<longleftrightarrow> is_i64 (unix t) \<and> t mod 10 ^ 9 = 0"

lemma length_encodeDayBucket [simp]: "length (encodeDayBucket b) = 20"
  by (simp add: encodeDayBucket_def)

lemma decode_day_bucket: "stamp_ok (db_day_stamp b) \<Longrightarrow> decodeDayBucket (encodeDayBucket b) = b"
  by (simp add: decodeDayBucket_def encodeDayBucket_def cut_take stamp_ok_def)

text \<open>Block \<open>k\<close> of a concatenation of blocks of one length.\<close>

lemma drop_blocks:
  assumes "\<And>k. length (f k) = n" "i \<le> m"
  shows "drop (n * i) (concat (map f [0..<m])) = concat (map f [i..<m])"
proof -
  have "[0..<m] = [0..<i] @ [i..<m]" using assms(2) by (metis le_add_diff_inverse upt_add_eq_append zero_le)
  moreover have "length (concat (map f [0..<i])) = n * i" by (induction i) (simp_all add: assms(1))
  ultimately show ?thesis by simp
qed

lemma block_at:
  assumes "\<And>k. length (f k) = n" "i < m" "length pre = p"
  shows "drop (p + n * i) (pre @ concat (map f [0..<m]) @ rest) = f i @ concat (map f [Suc i..<m]) @ rest"
proof -
  have "length (concat (map f [0..<m])) = n * m" by (induction m) (simp_all add: assms(1))
  moreover have "n * i \<le> n * m" using assms(2) by simp
  ultimately show ?thesis using drop_blocks [of f n i m] assms by (simp add: upt_conv_Cons)
qed

definition buckets_ok :: "DayBucket list \<Rightarrow> bool" where
  "buckets_ok bs \<longleftrightarrow> length bs = rollingWindowDays \<and> (\<forall>b\<in>set bs. stamp_ok (db_day_stamp b))"

definition consumer_ok :: "ident \<times> ConsumerCreditState \<Rightarrow> bool" where
  "consumer_ok e \<longleftrightarrow> length (fst e) = 32 \<and> stamp_ok (cs_first_seen_at (snd e)) \<and> is_i64 (cs_last_balance_seen (snd e)) \<and>
     buckets_ok (cs_settlement_buckets (snd e)) \<and> buckets_ok (cs_dispute_buckets (snd e)) \<and> buckets_ok (cs_flow_buckets (snd e))"

definition seeder_ok :: "ident \<times> SeederHeartbeatState \<Rightarrow> bool" where
  "seeder_ok e \<longleftrightarrow> length (fst e) = 32 \<and> length (sh_buckets (snd e)) = heartbeatWindowMinutes \<and>
     stamp_ok (sh_last_bucket_roll_at (snd e)) \<and> stamp_ok (sh_last_headroom_ts (snd e))"

lemma map_nth_upt: "length xs = n \<Longrightarrow> (\<And>k. k < n \<Longrightarrow> f k = xs ! k) \<Longrightarrow> map f [0..<n] = xs"
  by (rule nth_equalityI) auto

lemma decode_consumer:
  assumes "consumer_ok (i, st)"
  shows "decodeConsumerState (encodeConsumerState i st @ rest) = Some (i, st, consumer_fixed)"
proof -
  let ?f = "\<lambda>k. encodeDayBucket (cs_settlement_buckets st ! k) @ encodeDayBucket (cs_dispute_buckets st ! k) @ encodeDayBucket (cs_flow_buckets st ! k)"
  let ?pre = "i @ le_unix (cs_first_seen_at st) @ le64 (of_i64 (cs_last_balance_seen st))"
  let ?buf = "encodeConsumerState i st @ rest"
  note ok = assms [unfolded consumer_ok_def fst_conv snd_conv]
  have buf: "?buf = ?pre @ concat (map ?f [0..<30]) @ rest" using ok by (simp add: encodeConsumerState_def rollingWindowDays_def)
  have len: "length (concat (map ?f [0..<30])) = 1800" by (simp add: length_concat o_def sum_list_triv)
  have at: "drop (48 + 60 * k) ?buf = ?f k @ concat (map ?f [Suc k..<30]) @ rest" if "k < 30" for k
    unfolding buf by (rule block_at) (use that ok in simp_all)
  have b: "stamp_ok (db_day_stamp (bs ! k))" if "buckets_ok bs" "k < 30" for bs k
    using that by (auto simp: buckets_ok_def rollingWindowDays_def)
  have S: "map (\<lambda>k. decodeDayBucket (cut (48 + 60 * k + 0) (48 + 60 * k + 0 + 20) ?buf)) [0..<rollingWindowDays] = cs_settlement_buckets st"
    by (rule map_nth_upt) (use ok b in \<open>simp_all only: cut_off at rollingWindowDays_def buckets_ok_def\<close>, simp add: decode_day_bucket)
  have D: "map (\<lambda>k. decodeDayBucket (cut (48 + 60 * k + 20) (48 + 60 * k + 20 + 20) ?buf)) [0..<rollingWindowDays] = cs_dispute_buckets st"
    by (rule map_nth_upt) (use ok b in \<open>simp_all only: cut_off at rollingWindowDays_def buckets_ok_def\<close>, simp add: decode_day_bucket)
  have F: "map (\<lambda>k. decodeDayBucket (cut (48 + 60 * k + 40) (48 + 60 * k + 40 + 20) ?buf)) [0..<rollingWindowDays] = cs_flow_buckets st"
    by (rule map_nth_upt) (use ok b in \<open>simp_all only: cut_off at rollingWindowDays_def buckets_ok_def\<close>, simp add: decode_day_bucket)
  have hd: "cut 0 32 ?buf = i" "cut 32 40 ?buf = le_unix (cs_first_seen_at st)" "cut 40 48 ?buf = le64 (of_i64 (cs_last_balance_seen st))"
    unfolding buf using ok by (simp_all add: cut_take)
  have "\<not> length ?buf < consumer_fixed" unfolding buf using ok len by (simp add: consumer_fixed_def rollingWindowDays_def)
  then show ?thesis unfolding decodeConsumerState_def Let_def S D F hd using ok by (simp add: stamp_ok_def)
qed


lemma decode_seeder:
  assumes "seeder_ok (i, st)"
  shows "decodeSeederState (encodeSeederState i st @ rest) = Some (i, st, seeder_fixed)"
proof -
  let ?f = "\<lambda>k. le32 (mb_expected (sh_buckets st ! k)) @ le32 (mb_actual (sh_buckets st ! k))"
  let ?tail = "le_unix (sh_last_bucket_roll_at st) @ le32 (sh_last_headroom_estimate st) @ [sh_last_headroom_source st] @
     le_unix (sh_last_headroom_ts st) @ [if sh_can_probe_usage st then 1 else 0]"
  let ?buf = "encodeSeederState i st @ rest"
  note ok = assms [unfolded seeder_ok_def fst_conv snd_conv]
  have buf: "?buf = i @ concat (map ?f [0..<10]) @ ?tail @ rest" using ok by (simp add: encodeSeederState_def heartbeatWindowMinutes_def)
  have len: "length (concat (map ?f [0..<10])) = 80" by (simp add: length_concat o_def sum_list_triv)
  have at: "drop (32 + 8 * k) ?buf = ?f k @ concat (map ?f [Suc k..<10]) @ ?tail @ rest" if "k < 10" for k
    unfolding buf by (rule block_at) (use that ok in simp_all)
  have B: "map (\<lambda>k. \<lparr>mb_expected = le_word (cut (32 + 8 * k) (32 + 8 * k + 4) ?buf),
         mb_actual = le_word (cut (32 + 8 * k + 4) (32 + 8 * k + 8) ?buf)\<rparr>) [0..<heartbeatWindowMinutes] = sh_buckets st"
  proof (rule map_nth_upt)
    fix k assume k: "k < heartbeatWindowMinutes"
    have "cut (32 + 8 * k) (32 + 8 * k + 4) ?buf = le32 (mb_expected (sh_buckets st ! k))"
      "cut (32 + 8 * k + 4) (32 + 8 * k + 8) ?buf = le32 (mb_actual (sh_buckets st ! k))"
      using at [of k] k cut_off [of "32 + 8 * k" 0 4 ?buf] cut_off [of "32 + 8 * k" 4 4 ?buf] by (simp_all add: heartbeatWindowMinutes_def)
    then show "\<lparr>mb_expected = le_word (cut (32 + 8 * k) (32 + 8 * k + 4) ?buf),
         mb_actual = le_word (cut (32 + 8 * k + 4) (32 + 8 * k + 8) ?buf)\<rparr> = sh_buckets st ! k" by simp
  qed (use ok in simp)
  have tl: "drop 112 ?buf = ?tail @ rest" unfolding buf using ok len by simp
  have c: "cut 112 120 xs = take 8 (drop 112 xs)" "cut 120 124 xs = take 4 (drop 8 (drop 112 xs))" "cut 125 133 xs = take 8 (drop 13 (drop 112 xs))" for xs :: bytes
    by (simp_all add: cut_take)
  have T: "cut 112 120 ?buf = le_unix (sh_last_bucket_roll_at st)" "cut 120 124 ?buf = le32 (sh_last_headroom_estimate st)"
    "cut 125 133 ?buf = le_unix (sh_last_headroom_ts st)"
    unfolding c tl by simp_all
  have N: "?buf ! 124 = sh_last_headroom_source st" "?buf ! 133 = (if sh_can_probe_usage st then 1 else 0)"
    unfolding buf using ok len by (simp_all add: nth_append)
  have "cut 0 32 ?buf = i" unfolding buf using ok by (simp add: cut_take)
  moreover have "\<not> length ?buf < seeder_fixed" unfolding buf using ok len by (simp add: seeder_fixed_def heartbeatWindowMinutes_def)
  ultimately show ?thesis unfolding decodeSeederState_def B T N using ok by (simp add: stamp_ok_def)
qed

lemma decode_entries_all:
  assumes "\<And>e r. ok e \<Longrightarrow> dec (enc e @ r) = Some (fst e, snd e, fx)" "\<And>e. ok e \<Longrightarrow> length (enc e) = fx" "list_all ok es" "length pre = pos"
  shows "decode_entries dec (pre @ concat (map enc es) @ rest) (length es) pos m =
    Some (fold (\<lambda>e m. m(fst e \<mapsto> snd e)) es m, pos + length (concat (map enc es)))"
  using assms(3,4)
proof (induction es arbitrary: pre pos m)
  case (Cons e es)
  have "decode_entries dec ((pre @ enc e) @ concat (map enc es) @ rest) (length es) (pos + fx) (m(fst e \<mapsto> snd e)) =
    Some (fold (\<lambda>e m. m(fst e \<mapsto> snd e)) es (m(fst e \<mapsto> snd e)), (pos + fx) + length (concat (map enc es)))"
    by (rule Cons.IH) (use Cons.prems assms(2) in auto)
  moreover have "dec (drop pos (pre @ concat (map enc (e # es)) @ rest)) = Some (fst e, snd e, fx)" "length (enc e) = fx"
    using Cons.prems assms(1,2) by simp_all
  moreover from this(1) have "decode_entries dec (pre @ concat (map enc (e # es)) @ rest) (length (e # es)) pos m =
      decode_entries dec (pre @ concat (map enc (e # es)) @ rest) (length es) (pos + fx) (m(fst e \<mapsto> snd e))"
    by (simp only: length_Cons decode_entries.simps option.case prod.case)
  ultimately show ?case by (simp only: list.map concat.simps append_assoc fold_simps length_append add.assoc)
qed simp

lemma fold_upd_map_of: "distinct (map fst es) \<Longrightarrow> fold (\<lambda>e m. m(fst e \<mapsto> snd e)) es m = m ++ map_of es"
proof (induction es arbitrary: m)
  case (Cons e es)
  then have "fst e \<notin> dom (map_of es)" by (simp add: dom_map_of_conv_image_fst)
  then show ?case using Cons by (cases e) (auto simp: map_add_def fun_eq_iff split: option.splits)
qed simp

lemma length_consumer: "consumer_ok e \<Longrightarrow> length (case e of (i, st) \<Rightarrow> encodeConsumerState i st) = consumer_fixed"
  by (auto simp: encodeConsumerState_def consumer_fixed_def rollingWindowDays_def length_concat o_def sum_list_triv split: prod.splits)

lemma length_seeder: "seeder_ok e \<Longrightarrow> length (case e of (i, st) \<Rightarrow> encodeSeederState i st) = seeder_fixed"
  by (auto simp: encodeSeederState_def seeder_fixed_def heartbeatWindowMinutes_def length_concat o_def sum_list_triv split: prod.splits)

text \<open>
  C27. A snapshot file that is written with whole-second times and fewer than 2 to the 32
  entries is read back as the same sequence number, time and tables, whatever order the map
  iteration used.
\<close>

theorem snapshot_round_trip:
  assumes "list_all consumer_ok cs" "list_all seeder_ok ss" "distinct (map fst cs)" "distinct (map fst ss)"
    "length cs < 2 ^ 32" "length ss < 2 ^ 32" "stamp_ok ts"
  shows "readSnapshot (writeSnapshot sq ts cs ss) = Inr \<lparr>sf_seq = sq, sf_ts = ts, sf_consumers = map_of cs, sf_seeders = map_of ss\<rparr> \<and>
    loaded_snapshot (writeSnapshot sq ts cs ss) = Some \<lparr>sn_seq = sq, sn_consumers = map_of cs\<rparr>"
proof -
  let ?ec = "\<lambda>(i, st). encodeConsumerState i st"
  let ?es = "\<lambda>(i, st). encodeSeederState i st"
  let ?h = "le32 snapshotMagic @ le32 snapshotFormatVersion @ le64 sq @ le_unix ts @ le32 (of_nat (length cs))"
  let ?C = "concat (map ?ec cs)"
  let ?S = "concat (map ?es ss)"
  let ?body = "encodeSnapshotBody sq ts cs ss"
  let ?data = "writeSnapshot sq ts cs ss"
  let ?crc = "le32 (crc32c ?body)"
  have body: "?body = ?h @ ?C @ le32 (of_nat (length ss)) @ ?S" by (simp add: encodeSnapshotBody_def)
  have data: "?data = ?body @ ?crc" by (simp add: writeSnapshot_def Let_def)
  have len: "length ?data = 28 + length ?C + 4 + length ?S + 4" unfolding data body by simp
  have hdr: "cut 0 4 ?data = le32 snapshotMagic" "cut 4 8 ?data = le32 snapshotFormatVersion" "cut 8 16 ?data = le64 sq"
    "cut 16 24 ?data = le_unix ts" "cut 24 28 ?data = le32 (of_nat (length cs))"
    unfolding data body by (simp_all add: cut_take)
  have crc: "take (length ?data - 4) ?data = ?body" "drop (length ?data - 4) ?data = ?crc" unfolding data by simp_all
  have n: "unat (of_nat (length cs) :: u32) = length cs" "unat (of_nat (length ss) :: u32) = length ss"
    using assms(5,6) by (simp_all add: unat_of_nat take_bit_nat_eq_self)
  have dc: "decode_entries decodeConsumerState ?data (length cs) 28 Map.empty = Some (map_of cs, 28 + length ?C)"
  proof -
    have "decode_entries decodeConsumerState (?h @ ?C @ (le32 (of_nat (length ss)) @ ?S @ ?crc)) (length cs) 28 Map.empty =
        Some (fold (\<lambda>e m. m(fst e \<mapsto> snd e)) cs Map.empty, 28 + length ?C)"
      by (rule decode_entries_all [where ok = consumer_ok]) (use assms(1) length_consumer decode_consumer in \<open>auto split: prod.splits\<close>)
    then show ?thesis using fold_upd_map_of [OF assms(3), of Map.empty] by (simp add: data body)
  qed
  have cnt: "cut (28 + length ?C) (32 + length ?C) ?data = le32 (of_nat (length ss))"
    unfolding data body by (simp add: cut_take)
  have ds: "decode_entries decodeSeederState ?data (length ss) (32 + length ?C) Map.empty = Some (map_of ss, 32 + length ?C + length ?S)"
  proof -
    have "decode_entries decodeSeederState ((?h @ ?C @ le32 (of_nat (length ss))) @ ?S @ ?crc) (length ss) (32 + length ?C) Map.empty =
        Some (fold (\<lambda>e m. m(fst e \<mapsto> snd e)) ss Map.empty, 32 + length ?C + length ?S)"
      by (rule decode_entries_all [where ok = seeder_ok]) (use assms(2) length_seeder decode_seeder in \<open>auto split: prod.splits\<close>)
    then show ?thesis using fold_upd_map_of [OF assms(4), of Map.empty] by (simp add: data body)
  qed
  have "readSnapshot ?data = Inr \<lparr>sf_seq = sq, sf_ts = ts, sf_consumers = map_of cs, sf_seeders = map_of ss\<rparr>"
    unfolding readSnapshot_def Let_def hdr crc
    using len assms(7) by (simp add: n dc cnt ds stamp_ok_def)
  then show ?thesis by (simp add: loaded_snapshot_def)
qed

definition demo_heartbeat :: SeederHeartbeatState where
  "demo_heartbeat = \<lparr>sh_buckets = replicate 10 \<lparr>mb_expected = 6, mb_actual = 5\<rparr>, sh_last_bucket_roll_at = seconds 60,
     sh_last_headroom_estimate = 4000, sh_last_headroom_source = 1, sh_last_headroom_ts = seconds 90, sh_can_probe_usage = True\<rparr>"

theorem snapshot_round_trip_witness:
  "loaded_snapshot (writeSnapshot 9 (seconds 120) [(replicate 32 1, new_consumer (seconds 30)), (replicate 32 2, new_consumer (seconds 40))]
     [(replicate 32 3, demo_heartbeat)]) =
   Some \<lparr>sn_seq = 9, sn_consumers = [replicate 32 1 \<mapsto> new_consumer (seconds 30), replicate 32 2 \<mapsto> new_consumer (seconds 40)]\<rparr>"
proof -
  have s: "stamp_ok (seconds n)" if "is_i64 n" for n using that by (simp add: stamp_ok_def) (simp add: seconds_def)
  have z: "stamp_ok zero_time" by (simp add: stamp_ok_def zero_time_def unix_def is_i64_def)
  have b: "buckets_ok (replicate rollingWindowDays empty_bucket)" using z by (simp add: buckets_ok_def empty_bucket_def)
  have c: "consumer_ok (i, new_consumer (seconds n))" if "length i = 32" "is_i64 n" for i n
    using that s b by (simp add: consumer_ok_def new_consumer_def is_i64_def)
  have h: "seeder_ok (replicate 32 3, demo_heartbeat)" using s by (simp add: seeder_ok_def demo_heartbeat_def heartbeatWindowMinutes_def is_i64_def)
  show ?thesis
    using snapshot_round_trip [of "[(replicate 32 1, new_consumer (seconds 30)), (replicate 32 2, new_consumer (seconds 40))]"
        "[(replicate 32 3, demo_heartbeat)]" "seconds 120" 9] c h s by (simp add: is_i64_def fun_upd_twist)
qed

end
