(* ===== verification/TB_Float_Bounds.thy ===== *)
theory TB_Float_Bounds
  imports TB_Float
begin

text \<open>
  Division, conversions and the duration methods of Go's \<open>float64\<close>, and bounds on rounded results: a
  sum, product or quotient of values between 0 and integers below \<open>2^53\<close> rounds to a finite value
  that respects the bound.
\<close>

section \<open>Further operations\<close>

text \<open>Division; a zero divisor is the positive zero (the modelled code never divides by zero).\<close>

fun f_div :: "float64 \<Rightarrow> float64 \<Rightarrow> float64" where
  "f_div NaN _ = NaN"
| "f_div _ NaN = NaN"
| "f_div (Fin x) (Fin y) = (if y = 0 then (if x > 0 then PosInf else if x < 0 then NegInf else NaN) else round64 (x / y))"
| "f_div (Fin x) _ = Fin 0"
| "f_div PosInf (Fin y) = (if y < 0 then NegInf else PosInf)"
| "f_div NegInf (Fin y) = (if y < 0 then PosInf else NegInf)"
| "f_div _ _ = NaN"

definition f_min :: "float64 \<Rightarrow> float64 \<Rightarrow> float64" where
  "f_min a b = (if a = NaN \<or> b = NaN then (if a = NegInf \<or> b = NegInf then NegInf else NaN)
     else if f_le a b then a else b)"

text \<open>\<open>math.Round\<close>: halves away from zero.\<close>

fun f_round :: "float64 \<Rightarrow> float64" where
  "f_round (Fin x) = Fin (of_int (if x \<ge> 0 then \<lfloor>x + 1 / 2\<rfloor> else - \<lfloor>- x + 1 / 2\<rfloor>))"
| "f_round x = x"

fun f_floor :: "float64 \<Rightarrow> float64" where
  "f_floor (Fin x) = Fin (of_int \<lfloor>x\<rfloor>)"
| "f_floor x = x"

definition min_int :: int where "min_int = - (2 ^ 63)"

text \<open>Conversion to \<open>int\<close> cuts off the fraction; a value that does not fit gives the smallest integer, as on amd64.\<close>

fun f_to_int :: "float64 \<Rightarrow> int" where
  "f_to_int (Fin x) = (let n = (if x \<ge> 0 then \<lfloor>x\<rfloor> else - \<lfloor>- x\<rfloor>) in if is_i64 n then n else min_int)"
| "f_to_int _ = min_int"

text \<open>\<open>Time.Sub\<close> saturates.\<close>

definition time_sub :: "time \<Rightarrow> time \<Rightarrow> int" where
  "time_sub a b = max min_int (min (2 ^ 63 - 1) (a - b))"

text \<open>\<open>Duration.Minutes\<close> and \<open>Duration.Seconds\<close> of a non-negative duration.\<close>

definition minute_ns :: int where "minute_ns = 60000000000"
definition second_ns :: int where "second_ns = 1000000000"

definition dur_minutes :: "int \<Rightarrow> float64" where
  "dur_minutes d = f_add (f_of_int (d div minute_ns)) (f_div (f_of_int (d mod minute_ns)) (f_of_int minute_ns))"

definition dur_seconds :: "int \<Rightarrow> float64" where
  "dur_seconds d = f_add (f_of_int (d div second_ns)) (f_div (f_of_int (d mod second_ns)) (f_of_int second_ns))"

section \<open>Powers and exponents\<close>

lemma pow2_powi: "pow2 e = 2 powi e"
  by (simp add: pow2_def power_int_def field_simps)

lemma pow2_pos [simp]: "0 < pow2 e"
  by (simp add: pow2_powi)

lemma pow2_nonneg [simp]: "0 \<le> pow2 e"
  by (rule order_less_imp_le) simp

lemma pow2_add: "pow2 (a + b) = pow2 a * pow2 b"
  by (simp add: pow2_powi power_int_add)

lemma pow2_diff: "pow2 (a - b) = pow2 a / pow2 b"
  by (simp add: pow2_powi power_int_diff)

lemma pow2_mono: "a \<le> b \<Longrightarrow> pow2 a \<le> pow2 b"
  by (simp add: pow2_powi power_int_increasing)

lemma pow2_less: "pow2 a < pow2 b \<Longrightarrow> a < b"
  by (meson linorder_not_le pow2_mono order.strict_trans2 order_less_irrefl)

lemma pow2_nat: "0 \<le> e \<Longrightarrow> pow2 e = of_int (2 ^ nat e)"
  by (simp add: pow2_def)

lemma pow2_0 [simp]: "pow2 0 = 1"
  by (simp add: pow2_def)

lemma ilog2_bounds: "0 < n \<Longrightarrow> 0 \<le> ilog2 n \<and> 2 ^ nat (ilog2 n) \<le> n \<and> n < 2 ^ (nat (ilog2 n) + 1)"
proof (induction n rule: ilog2.induct)
  case (1 n)
  show ?case
  proof (cases "n \<le> 1")
    case True
    then show ?thesis using 1(2) by (subst (1 2 3) ilog2.simps) auto
  next
    case False
    let ?m = "n div 2"
    have IH: "0 \<le> ilog2 ?m" "2 ^ nat (ilog2 ?m) \<le> ?m" "?m < 2 ^ (nat (ilog2 ?m) + 1)" using 1(1) False by auto
    have e: "ilog2 n = 1 + ilog2 ?m" using False by (subst ilog2.simps) simp
    have s: "nat (1 + ilog2 ?m) = Suc (nat (ilog2 ?m))" using IH(1) by simp
    have "n = 2 * ?m + n mod 2" "n mod 2 < 2" "0 \<le> n mod 2" by simp_all
    moreover have "(2::int) ^ nat (ilog2 n) = 2 * 2 ^ nat (ilog2 ?m)" "(2::int) ^ (nat (ilog2 n) + 1) = 2 * 2 ^ (nat (ilog2 ?m) + 1)"
      by (simp_all add: e s)
    ultimately show ?thesis using IH e by linarith
  qed
qed

lemma ilog2_pow2: "0 < n \<Longrightarrow> pow2 (ilog2 n) \<le> of_int n \<and> of_int n < pow2 (ilog2 n + 1)"
proof -
  assume n: "0 < n"
  note b = ilog2_bounds [OF n]
  have "pow2 (ilog2 n) = of_int (2 ^ nat (ilog2 n))" "pow2 (ilog2 n + 1) = of_int (2 ^ (nat (ilog2 n) + 1))"
    using b by (simp_all add: pow2_nat nat_add_distrib)
  then show ?thesis using b by (metis of_int_le_iff of_int_less_iff)
qed

lemma bin_exp_bounds:
  assumes "0 < q"
  shows "pow2 (bin_exp q) \<le> q" "q < pow2 (bin_exp q + 1)"
proof -
  obtain a b where ab: "quotient_of q = (a, b)" by fastforce
  have b: "0 < b" and q: "q = of_int a / of_int b" using quotient_of_denom_pos [OF ab] quotient_of_div [OF ab] by auto
  have a: "0 < a" using assms b q by (simp add: zero_less_divide_iff)
  let ?e = "ilog2 a - ilog2 b"
  have la: "pow2 (ilog2 a) \<le> of_int a" "of_int a < pow2 (ilog2 a) * 2" using ilog2_pow2 [OF a] by (simp_all add: pow2_add pow2_powi power_int_add)
  have lb: "pow2 (ilog2 b) \<le> of_int b" "of_int b < pow2 (ilog2 b) * 2" using ilog2_pow2 [OF b] by (simp_all add: pow2_add pow2_powi power_int_add)
  have bp: "(0::rat) < of_int b" using b by simp
  have up: "q < pow2 (?e + 1)"
  proof -
    have "q < pow2 (ilog2 a) * 2 / of_int b" unfolding q using la(2) bp by (simp add: divide_strict_right_mono)
    also have "\<dots> \<le> pow2 (ilog2 a) * 2 / pow2 (ilog2 b)" using lb(1) by (intro divide_left_mono) (use bp in auto)
    finally show ?thesis by (simp add: pow2_add pow2_diff) (simp add: pow2_powi)
  qed
  have lo: "pow2 (?e - 1) \<le> q"
  proof -
    have "pow2 (?e - 1) = pow2 (ilog2 a) / (pow2 (ilog2 b) * 2)" by (simp add: pow2_diff) (simp add: pow2_powi)
    also have "\<dots> \<le> pow2 (ilog2 a) / of_int b" using lb(2) bp by (intro divide_left_mono) auto
    also have "\<dots> \<le> q" unfolding q using la(1) bp by (simp add: divide_right_mono)
    finally show ?thesis .
  qed
  have be: "bin_exp q = (if pow2 ?e \<le> q then ?e else ?e - 1)" by (simp add: bin_exp_def ab Let_def)
  show "pow2 (bin_exp q) \<le> q" "q < pow2 (bin_exp q + 1)" using up lo be by auto
qed

lemma bin_exp_less: "0 < q \<Longrightarrow> q < pow2 k \<Longrightarrow> bin_exp q < k"
  using bin_exp_bounds(1) [of q] pow2_less [of "bin_exp q" k] by auto

lemma bin_exp_ge: "0 < q \<Longrightarrow> pow2 k \<le> q \<Longrightarrow> k \<le> bin_exp q"
  using bin_exp_bounds(2) [of q] pow2_less [of k "bin_exp q + 1"] by auto

lemma round_even_le: "q \<le> of_int n \<Longrightarrow> round_even q \<le> n"
  by (auto simp: round_even_def Let_def) linarith+

lemma round_even_ge: "of_int n \<le> q \<Longrightarrow> n \<le> round_even q"
  by (auto simp: round_even_def Let_def) linarith+

section \<open>Bounds on rounded values\<close>

definition f_bnd :: "int \<Rightarrow> float64 \<Rightarrow> bool" where
  "f_bnd n x \<longleftrightarrow> (\<exists>r. x = Fin r \<and> 0 \<le> r \<and> r \<le> of_int n)"

lemma round64_bnd:
  assumes "0 \<le> q" "q \<le> of_int n" "n < 2 ^ 53"
  shows "f_bnd n (round64 q)"
proof (cases "q = 0")
  case True
  then show ?thesis using assms by (simp add: round64_def f_bnd_def)
next
  case False
  then have q: "0 < q" using assms(1) by simp
  have n53: "of_int n < pow2 53" using assms(3) by (simp add: pow2_def)
  define e where "e = max (bin_exp q - 52) (- 1074)"
  define v where "v = of_int (round_even (q / pow2 e)) * pow2 e"
  have e0: "e \<le> 0" using bin_exp_less [OF q, of 53] n53 assms(2) by (auto simp: e_def)
  have eq: "of_int n / pow2 e = of_int (n * 2 ^ nat (- e))"
    using e0 by (cases "e = 0") (auto simp: pow2_def)
  have "q / pow2 e \<le> of_int (n * 2 ^ nat (- e))" unfolding eq [symmetric] using assms(2) by (simp add: divide_right_mono)
  then have le: "round_even (q / pow2 e) \<le> n * 2 ^ nat (- e)" by (rule round_even_le)
  have "v \<le> of_int (n * 2 ^ nat (- e)) * pow2 e" unfolding v_def by (intro mult_right_mono) (simp_all add: le del: of_int_mult)
  then have vn: "v \<le> of_int n" unfolding eq [symmetric] using pow2_pos [of e] by simp
  have v0: "0 \<le> v" unfolding v_def using round_even_ge [of 0 "q / pow2 e"] q by (simp add: divide_nonneg_pos order_less_imp_le)
  have "\<not> (v > 0 \<and> bin_exp v \<ge> 1024)" using bin_exp_less [of v 53] vn n53 by auto
  then have "round64 q = Fin v" using q by (simp add: round64_def Let_def e_def v_def)
  then show ?thesis using v0 vn by (simp add: f_bnd_def)
qed

lemma round64_not_NaN [simp]: "round64 q \<noteq> NaN"
  by (simp add: round64_def Let_def)

lemma f_of_int_not_NaN [simp]: "f_of_int n \<noteq> NaN"
  by (simp add: f_of_int_def)

lemma round64_ge_1:
  assumes "1 \<le> q"
  shows "round64 q = PosInf \<or> (\<exists>r. round64 q = Fin r \<and> 1 \<le> r)"
proof -
  have q: "0 < q" using assms by simp
  have be: "0 \<le> bin_exp q" using bin_exp_ge [OF q, of 0] assms by simp
  define v where "v = of_int (round_even (q / pow2 (bin_exp q - 52))) * pow2 (bin_exp q - 52)"
  have "of_int (2 ^ 52) \<le> q / pow2 (bin_exp q - 52)"
    using bin_exp_bounds(1) [OF q] by (simp add: pow2_diff pos_le_divide_eq) (simp add: pow2_def)
  then have "2 ^ 52 \<le> round_even (q / pow2 (bin_exp q - 52))" by (rule round_even_ge)
  then have "of_int (2 ^ 52) * pow2 (bin_exp q - 52) \<le> v"
    unfolding v_def by (intro mult_right_mono) (simp_all only: of_int_le_iff pow2_nonneg)
  moreover have "of_int (2 ^ 52) * pow2 (bin_exp q - 52) = pow2 (bin_exp q)"
    by (simp add: pow2_diff) (simp add: pow2_def)
  ultimately have "1 \<le> v" using pow2_mono [OF be] by simp
  moreover have "round64 q = (if v > 0 \<and> bin_exp v \<ge> 1024 then PosInf else Fin v)"
    using q be by (simp add: round64_def Let_def v_def max_def)
  ultimately show ?thesis by auto
qed

lemma f_bnd_mono: "f_bnd m x \<Longrightarrow> m \<le> n \<Longrightarrow> f_bnd n x"
  by (auto simp: f_bnd_def)

lemma f_bnd_not_NaN: "f_bnd n x \<Longrightarrow> x \<noteq> NaN"
  by (auto simp: f_bnd_def)

lemma f_bnd_unit: "f_in_unit x \<longleftrightarrow> f_bnd 1 x"
  by (auto simp: f_in_unit_iff f_bnd_def)

lemma f_bnd_add: "f_bnd m x \<Longrightarrow> f_bnd n y \<Longrightarrow> m + n < 2 ^ 53 \<Longrightarrow> f_bnd (m + n) (f_add x y)"
  by (auto simp: f_bnd_def [of _ x] f_bnd_def [of _ y] intro!: round64_bnd)

lemma f_bnd_mul: "f_bnd m x \<Longrightarrow> f_bnd n y \<Longrightarrow> m * n < 2 ^ 53 \<Longrightarrow> f_bnd (m * n) (f_mul x y)"
  by (auto simp: f_bnd_def [of _ x] f_bnd_def [of _ y] f_mul_def intro!: round64_bnd mult_mono)

lemma f_bnd_div: "f_bnd (m * n) x \<Longrightarrow> of_int m \<le> r \<Longrightarrow> 0 < m \<Longrightarrow> n < 2 ^ 53 \<Longrightarrow> 0 \<le> n \<Longrightarrow> f_bnd n (f_div x (Fin r))"
proof -
  assume a: "f_bnd (m * n) x" "of_int m \<le> r" "0 < m" "n < 2 ^ 53" "0 \<le> n"
  obtain s where s: "x = Fin s" "0 \<le> s" "s \<le> of_int m * of_int n" using a(1) by (auto simp: f_bnd_def)
  have m: "(0::rat) < of_int m" using a(3) by simp
  have r: "0 < r" using m a(2) by linarith
  have "s \<le> r * of_int n" using s(3) mult_right_mono [OF a(2), of "of_int n"] a(5) by simp
  then have "s / r \<le> of_int n" using r by (simp add: pos_divide_le_eq mult.commute)
  then show ?thesis using s r a(4) by (auto intro!: round64_bnd)
qed

lemma f_bnd_of_int: "0 \<le> n \<Longrightarrow> n \<le> m \<Longrightarrow> m < 2 ^ 53 \<Longrightarrow> f_bnd m (f_of_int n)"
  unfolding f_of_int_def by (rule round64_bnd) auto

lemma f_bnd_Fin [simp]: "f_bnd n (Fin r) \<longleftrightarrow> 0 \<le> r \<and> r \<le> of_int n"
  by (simp add: f_bnd_def)

end
