(* ===== verification/TB_Attestation.thy ===== *)
theory TB_Attestation
  imports TB_Signing
begin

text \<open>
  The admission messages (\<open>src/shared/admission/admission.proto\<close>), their validators
  (\<open>src/shared/admission/validate.go\<close>) and the signatures on credit attestations
  (\<open>src/shared/signing/proto.go\<close>). The deterministic encoder of the attestation body is an argument.
\<close>

type_synonym i32 = int

datatype TickSource = TICK_SOURCE_UNSPECIFIED | TICK_SOURCE_HEURISTIC | TICK_SOURCE_USAGE_PROBE | TickSourceOther int

record CreditAttestationBody =
  cb_identity_id :: bytes
  cb_issuer_tracker_id :: bytes
  cb_score :: u32
  cb_tenure_days :: u32
  cb_settlement_reliability :: u32
  cb_dispute_rate :: u32
  cb_net_credit_flow_30d :: i64
  cb_balance_cushion_log2 :: i32
  cb_computed_at :: u64
  cb_expires_at :: u64

record SignedCreditAttestation =
  sa_body :: "CreditAttestationBody option"
  sa_tracker_sig :: bytes

record FetchHeadroomRequest =
  hq_request_nonce :: u64
  hq_model_filter :: string

record PerModelHeadroom =
  pm_model :: string
  pm_headroom_estimate :: u32

record FetchHeadroomResponse =
  hr_request_nonce :: u64
  hr_headroom_estimate :: u32
  hr_source :: TickSource
  hr_probe_age_s :: u32
  hr_can_probe_usage :: bool
  hr_per_model :: "PerModelHeadroom option list"

definition scoreMax :: u32 where "scoreMax = 10000"
definition tenureDaysCap :: u32 where "tenureDaysCap = 365"
definition attestationMaxTTLSeconds :: u64 where "attestationMaxTTLSeconds = 604800"

definition ValidateCreditAttestationBody :: "CreditAttestationBody option \<Rightarrow> string option" where
  "ValidateCreditAttestationBody ob = (case ob of None \<Rightarrow> Some ''admission: nil CreditAttestationBody'' | Some b \<Rightarrow>
     if length (cb_identity_id b) \<noteq> 32 then Some ''admission: identity_id length''
     else if length (cb_issuer_tracker_id b) \<noteq> 32 then Some ''admission: issuer_tracker_id length''
     else if cb_score b > scoreMax then Some ''admission: score exceeds''
     else if cb_tenure_days b > tenureDaysCap then Some ''admission: tenure_days exceeds cap''
     else if cb_settlement_reliability b > scoreMax then Some ''admission: settlement_reliability exceeds''
     else if cb_dispute_rate b > scoreMax then Some ''admission: dispute_rate exceeds''
     else if cb_balance_cushion_log2 b < - 8 \<or> cb_balance_cushion_log2 b > 8 then Some ''admission: balance_cushion_log2 out of range''
     else if cb_computed_at b = 0 then Some ''admission: computed_at is zero''
     else if cb_expires_at b \<le> cb_computed_at b then Some ''admission: expires_at must be > computed_at''
     else if cb_expires_at b - cb_computed_at b > attestationMaxTTLSeconds then Some ''admission: ttl exceeds max''
     else None)"

definition ValidateFetchHeadroomRequest :: "FetchHeadroomRequest option \<Rightarrow> string option" where
  "ValidateFetchHeadroomRequest oreq = (case oreq of None \<Rightarrow> Some ''admission: nil FetchHeadroomRequest'' | Some r \<Rightarrow>
     if hq_request_nonce r = 0 then Some ''admission: request_nonce is zero'' else None)"

fun check_per_model :: "PerModelHeadroom option list \<Rightarrow> string option" where
  "check_per_model [] = None"
| "check_per_model (None # pms) = Some ''admission: per_model is nil''"
| "check_per_model (Some pm # pms) =
     (if pm_model pm = [] then Some ''admission: per_model model is empty''
      else if pm_headroom_estimate pm > scoreMax then Some ''admission: per_model headroom_estimate exceeds''
      else check_per_model pms)"

definition ValidateFetchHeadroomResponse :: "FetchHeadroomResponse option \<Rightarrow> string option" where
  "ValidateFetchHeadroomResponse oresp = (case oresp of None \<Rightarrow> Some ''admission: nil FetchHeadroomResponse'' | Some r \<Rightarrow>
     if hr_source r \<notin> {TICK_SOURCE_HEURISTIC, TICK_SOURCE_USAGE_PROBE} then Some ''admission: source must be HEURISTIC or USAGE_PROBE''
     else if hr_headroom_estimate r > scoreMax then Some ''admission: headroom_estimate exceeds''
     else check_per_model (hr_per_model r))"

section \<open>Signatures\<close>

definition SignCreditAttestation :: "crypto \<Rightarrow> (CreditAttestationBody \<Rightarrow> bytes option) \<Rightarrow> bytes \<Rightarrow> CreditAttestationBody option \<Rightarrow> string + bytes" where
  "SignCreditAttestation cr enc priv ob = (if length priv \<noteq> PrivateKeySize then Inl ''signing: private key length''
     else if ob = None then Inl ''signing: SignCreditAttestation on nil body''
     else (case DeterministicMarshal enc ob of
       Inl e \<Rightarrow> Inl (''signing: marshal credit attestation body: '' @ e) | Inr buf \<Rightarrow> Inr (ed_sign cr priv buf)))"

definition VerifyCreditAttestation :: "crypto \<Rightarrow> (CreditAttestationBody \<Rightarrow> bytes option) \<Rightarrow> bytes \<Rightarrow> SignedCreditAttestation option \<Rightarrow> bool" where
  "VerifyCreditAttestation cr enc pub os = (case os of None \<Rightarrow> False | Some s \<Rightarrow>
     if sa_body s = None then False
     else (case DeterministicMarshal enc (sa_body s) of
       Inl e \<Rightarrow> False | Inr buf \<Rightarrow> Verify cr pub buf (sa_tracker_sig s)))"

text \<open>What a receiver may rely on once a body has passed its validator.\<close>

lemma valid_attestation:
  "ValidateCreditAttestationBody (Some b) = None \<longleftrightarrow>
     length (cb_identity_id b) = 32 \<and> length (cb_issuer_tracker_id b) = 32 \<and> cb_score b \<le> 10000 \<and> cb_tenure_days b \<le> 365 \<and>
     cb_settlement_reliability b \<le> 10000 \<and> cb_dispute_rate b \<le> 10000 \<and> - 8 \<le> cb_balance_cushion_log2 b \<and>
     cb_balance_cushion_log2 b \<le> 8 \<and> cb_computed_at b \<noteq> 0 \<and> cb_computed_at b < cb_expires_at b \<and>
     cb_expires_at b - cb_computed_at b \<le> 604800"
  by (auto simp: ValidateCreditAttestationBody_def scoreMax_def tenureDaysCap_def attestationMaxTTLSeconds_def)

lemma sign_verify_attestation:
  assumes "length pub = PublicKeySize" "\<And>m. ed_verify cr pub m (ed_sign cr priv m)" "\<And>m. length (ed_sign cr priv m) = SignatureSize"
    "SignCreditAttestation cr enc priv (Some b) = Inr sig"
  shows "VerifyCreditAttestation cr enc pub (Some \<lparr>sa_body = Some b, sa_tracker_sig = sig\<rparr>)"
  using assms by (auto simp: SignCreditAttestation_def VerifyCreditAttestation_def Verify_def split: if_splits sum.splits)

end
