(* ===== verification/TB_Score.thy ===== *)
theory TB_Score
  imports TB_Float_Bounds TB_Credit TB_Attestation
begin

text \<open>
  The credit score (\<open>src/tracker/internal/admission/score.go\<close>) and the configuration it reads
  (\<open>src/tracker/internal/config/config.go\<close>). \<open>math.Exp\<close> and \<open>math.Log2\<close> are the fields of a \<open>math_lib\<close>
  record: their last bits depend on the platform, and what the results rely on is a hypothesis.
\<close>

record AdmissionScoreWeights =
  aw_settlement_reliability :: float64
  aw_inverse_dispute_rate :: float64
  aw_tenure :: float64
  aw_net_credit_flow :: float64
  aw_balance_cushion :: float64

record AdmissionConfig =
  ac_pressure_admit_threshold :: float64
  ac_pressure_reject_threshold :: float64
  ac_queue_cap :: int
  ac_trial_tier_score :: float64
  ac_aging_alpha_per_minute :: float64
  ac_queue_timeout_s :: int
  ac_score_weights :: AdmissionScoreWeights
  ac_net_flow_normalization_constant :: int
  ac_tenure_cap_days :: int
  ac_starter_grant_credits :: int
  ac_rolling_window_days :: int
  ac_trial_settlements_required :: int
  ac_trial_duration_hours :: int
  ac_attestation_ttl_seconds :: int
  ac_attestation_max_ttl_seconds :: int
  ac_attestation_issuance_per_consumer_per_hour :: int
  ac_max_attestation_score_imported :: float64
  ac_tlog_path :: string
  ac_snapshot_path_prefix :: string
  ac_snapshot_interval_s :: int
  ac_snapshots_retained :: int
  ac_fsync_batch_window_ms :: int
  ac_heartbeat_window_minutes :: int
  ac_heartbeat_freshness_decay_max_s :: int
  ac_attestation_peer_blocklist :: "string list"

definition DefaultAdmissionWeights :: AdmissionScoreWeights where
  "DefaultAdmissionWeights = \<lparr>aw_settlement_reliability = round64 (30 / 100), aw_inverse_dispute_rate = round64 (10 / 100),
     aw_tenure = round64 (20 / 100), aw_net_credit_flow = round64 (30 / 100), aw_balance_cushion = round64 (10 / 100)\<rparr>"

definition DefaultAdmissionConfig :: AdmissionConfig where
  "DefaultAdmissionConfig = \<lparr>ac_pressure_admit_threshold = round64 (85 / 100), ac_pressure_reject_threshold = round64 (15 / 10),
     ac_queue_cap = 512, ac_trial_tier_score = round64 (4 / 10), ac_aging_alpha_per_minute = round64 (5 / 100),
     ac_queue_timeout_s = 300, ac_score_weights = DefaultAdmissionWeights, ac_net_flow_normalization_constant = 10000,
     ac_tenure_cap_days = 30, ac_starter_grant_credits = 1000, ac_rolling_window_days = 30,
     ac_trial_settlements_required = 50, ac_trial_duration_hours = 72, ac_attestation_ttl_seconds = 86400,
     ac_attestation_max_ttl_seconds = 604800, ac_attestation_issuance_per_consumer_per_hour = 6,
     ac_max_attestation_score_imported = round64 (95 / 100), ac_tlog_path = [], ac_snapshot_path_prefix = [],
     ac_snapshot_interval_s = 600, ac_snapshots_retained = 3, ac_fsync_batch_window_ms = 5,
     ac_heartbeat_window_minutes = 10, ac_heartbeat_freshness_decay_max_s = 300, ac_attestation_peer_blocklist = []\<rparr>"

record math_lib =
  m_exp :: "float64 \<Rightarrow> float64"
  m_log2 :: "float64 \<Rightarrow> float64"

record Signals =
  sg_settlement_reliability :: float64
  sg_dispute_rate :: float64
  sg_tenure_days :: int
  sg_net_flow :: i64
  sg_balance_cushion_log2 :: int

definition zero_signals :: Signals where
  "zero_signals = \<lparr>sg_settlement_reliability = Fin 0, sg_dispute_rate = Fin 0, sg_tenure_days = 0, sg_net_flow = 0, sg_balance_cushion_log2 = 0\<rparr>"

definition sigmoid :: "math_lib \<Rightarrow> float64 \<Rightarrow> float64" where
  "sigmoid lib x = f_div (Fin 1) (f_add (Fin 1) (m_exp lib (f_neg x)))"

definition clamp01 :: "float64 \<Rightarrow> float64" where
  "clamp01 x = (if f_lt x (Fin 0) then Fin 0 else if f_lt (Fin 1) x then Fin 1 else x)"

definition clampInt :: "int \<Rightarrow> int \<Rightarrow> int \<Rightarrow> int" where
  "clampInt x lo hi = (if x < lo then lo else if x > hi then hi else x)"

definition maxInt :: "int \<Rightarrow> int \<Rightarrow> int" where
  "maxInt a b = (if a > b then a else b)"

definition floorLog2Ratio :: "math_lib \<Rightarrow> i64 \<Rightarrow> i64 \<Rightarrow> int" where
  "floorLog2Ratio lib num den = (if num \<le> 0 \<or> den \<le> 0 then min_int
     else f_to_int (f_floor (m_log2 lib (f_div (f_of_int num) (f_of_int den)))))"

definition computeSignals :: "math_lib \<Rightarrow> ConsumerCreditState \<Rightarrow> AdmissionConfig \<Rightarrow> time \<Rightarrow> Signals" where
  "computeSignals lib st cfg now = (let
     days = time_sub now (cs_first_seen_at st) sdiv day_ns;
     days1 = (if days < 0 then 0 else days);
     tenureDays = (if days1 > ac_tenure_cap_days cfg then ac_tenure_cap_days cfg else days1);
     totalSettled = fold (\<lambda>b n. n + db_total b) (cs_settlement_buckets st) 0;
     cleanCount = fold (\<lambda>b n. n + db_a b) (cs_settlement_buckets st) 0;
     filed = fold (\<lambda>b n. n + db_a b) (cs_dispute_buckets st) 0;
     upheld = fold (\<lambda>b n. n + db_b b) (cs_dispute_buckets st) 0;
     earned = fold (\<lambda>b n. n + db_a b) (cs_flow_buckets st) 0;
     spent = fold (\<lambda>b n. n + db_b b) (cs_flow_buckets st) 0;
     net = (let d = uint filed - uint upheld in if d < 0 then 0 else d);
     rate = f_div (f_of_int net) (f_of_int (uint totalSettled)) in
    \<lparr>sg_settlement_reliability = (if totalSettled > 0 then f_div (f_of_int (uint cleanCount)) (f_of_int (uint totalSettled)) else Fin (- 1)),
     sg_dispute_rate = (if totalSettled > 0 then (if f_lt (Fin 1) rate then Fin 1 else rate) else Fin (- 1)),
     sg_tenure_days = tenureDays,
     sg_net_flow = uint earned - uint spent,
     sg_balance_cushion_log2 = clampInt (floorLog2Ratio lib (cs_last_balance_seen st) (maxInt 1 (ac_starter_grant_credits cfg))) (- 8) 8\<rparr>)"

definition ComputeLocalScore :: "math_lib \<Rightarrow> ConsumerCreditState option \<Rightarrow> AdmissionConfig \<Rightarrow> time \<Rightarrow> float64 \<times> Signals" where
  "ComputeLocalScore lib ost cfg now = (case ost of None \<Rightarrow> (ac_trial_tier_score cfg, zero_signals) | Some st \<Rightarrow>
     (let signals = computeSignals lib st cfg now;
        tenureNorm = (if ac_tenure_cap_days cfg > 0
           then f_min (Fin 1) (f_div (f_of_int (sg_tenure_days signals)) (f_of_int (ac_tenure_cap_days cfg))) else Fin 0);
        netFlowNorm = sigmoid lib (f_div (f_of_int (sg_net_flow signals)) (f_of_int (maxInt 1 (ac_net_flow_normalization_constant cfg))));
        cushionNorm = f_div (f_of_int (sg_balance_cushion_log2 signals + 8)) (Fin 16);
        w = ac_score_weights cfg in
      if f_lt (sg_settlement_reliability signals) (Fin 0) then
        (let undef = f_add (aw_settlement_reliability w) (aw_inverse_dispute_rate w);
             defined = f_add (f_add (aw_tenure w) (aw_net_credit_flow w)) (aw_balance_cushion w) in
         if f_le defined (Fin 0) then (ac_trial_tier_score cfg, signals)
         else (let factor = f_add (Fin 1) (f_div undef defined);
                   score = f_mul factor (f_add (f_add (f_mul (aw_tenure w) tenureNorm) (f_mul (aw_net_credit_flow w) netFlowNorm))
                             (f_mul (aw_balance_cushion w) cushionNorm)) in
           (clamp01 score, signals)))
      else
        (let inverseDispute = f_sub (Fin 1) (sg_dispute_rate signals);
             score = f_add (f_add (f_add (f_add (f_mul (aw_settlement_reliability w) (sg_settlement_reliability signals))
                       (f_mul (aw_inverse_dispute_rate w) inverseDispute)) (f_mul (aw_tenure w) tenureNorm))
                       (f_mul (aw_net_credit_flow w) netFlowNorm)) (f_mul (aw_balance_cushion w) cushionNorm) in
         (clamp01 score, signals))))"

section \<open>Resolution\<close>

datatype ScoreSource = ScoreSourceUnspecified | ScoreSourceAttestation | ScoreSourceLocal | ScoreSourceTrialTier

definition hasAnySettlement :: "Signals \<Rightarrow> bool" where
  "hasAnySettlement s \<longleftrightarrow> f_le (Fin 0) (sg_settlement_reliability s)"

text \<open>\<open>peers\<close> is \<open>PeerSet.Contains\<close>.\<close>

definition tryAttestation :: "crypto \<Rightarrow> (CreditAttestationBody \<Rightarrow> bytes option) \<Rightarrow> (ident \<Rightarrow> bool) \<Rightarrow> AdmissionConfig \<Rightarrow> SignedCreditAttestation \<Rightarrow> time \<Rightarrow> float64 option" where
  "tryAttestation cr enc peers cfg att now = (case sa_body att of None \<Rightarrow> None | Some b \<Rightarrow>
     if ValidateCreditAttestationBody (Some b) \<noteq> None then None
     else if length (cb_issuer_tracker_id b) \<noteq> 32 then None
     else (let issuer = cb_issuer_tracker_id b; nowUnix = unix now in
       if \<not> peers issuer then None
       else if nowUnix < 0 \<or> of_int nowUnix \<ge> cb_expires_at b then None
       else if \<not> VerifyCreditAttestation cr enc issuer (Some att) then None
       else (let score = f_div (f_of_int (uint (cb_score b))) (Fin 10000) in
         Some (if f_lt (ac_max_attestation_score_imported cfg) score then ac_max_attestation_score_imported cfg else score))))"

definition resolveCreditScore :: "crypto \<Rightarrow> (CreditAttestationBody \<Rightarrow> bytes option) \<Rightarrow> math_lib \<Rightarrow> (ident \<Rightarrow> bool) \<Rightarrow> AdmissionConfig \<Rightarrow> credits \<Rightarrow> ident \<Rightarrow> SignedCreditAttestation option \<Rightarrow> time \<Rightarrow> float64 \<times> ScoreSource" where
  "resolveCreditScore cr enc lib peers cfg m consumerID oatt now =
     (case Option.bind oatt (\<lambda>att. tryAttestation cr enc peers cfg att now) of
        Some score \<Rightarrow> (score, ScoreSourceAttestation)
      | None \<Rightarrow> (case m consumerID of
          Some st \<Rightarrow> (case ComputeLocalScore lib (Some st) cfg now of (score, sigs) \<Rightarrow>
             if hasAnySettlement sigs then (score, ScoreSourceLocal) else (ac_trial_tier_score cfg, ScoreSourceTrialTier))
        | None \<Rightarrow> (ac_trial_tier_score cfg, ScoreSourceTrialTier)))"

end
