(* ===== verification/TB_Heap.thy ===== *)
theory TB_Heap
  imports TB_Prelude "HOL-Library.Multiset"
begin

text \<open>
  \<open>container/heap\<close>, as the admission queue uses it: a binary heap in a list, with the comparison as
  an argument (\<open>lt a b\<close>: \<open>a\<close> comes out before \<open>b\<close>). Its contract is proved for every weak order.
\<close>

section \<open>Operations\<close>

definition swap_at :: "nat \<Rightarrow> nat \<Rightarrow> 'a list \<Rightarrow> 'a list" where
  "swap_at i j xs = xs[i := xs ! j, j := xs ! i]"

function heap_up :: "('a \<Rightarrow> 'a \<Rightarrow> bool) \<Rightarrow> 'a list \<Rightarrow> nat \<Rightarrow> 'a list" where
  "heap_up lt xs j = (let i = (j - 1) div 2 in
     if i = j \<or> \<not> lt (xs ! j) (xs ! i) then xs else heap_up lt (swap_at i j xs) i)"
  by pat_completeness auto
termination
  by (relation "measure (\<lambda>(lt, xs, j). j)") auto

function heap_down :: "('a \<Rightarrow> 'a \<Rightarrow> bool) \<Rightarrow> 'a list \<Rightarrow> nat \<Rightarrow> nat \<Rightarrow> 'a list" where
  "heap_down lt xs i n = (let j1 = 2 * i + 1 in
     if j1 \<ge> n then xs
     else (let j2 = j1 + 1; j = (if j2 < n \<and> lt (xs ! j2) (xs ! j1) then j2 else j1) in
       if \<not> lt (xs ! j) (xs ! i) then xs else heap_down lt (swap_at i j xs) j n))"
  by pat_completeness auto
termination
  by (relation "measure (\<lambda>(lt, xs, i, n). n - i)") (auto split: if_splits)

declare heap_up.simps [simp del] heap_down.simps [simp del]

definition heap_Push :: "('a \<Rightarrow> 'a \<Rightarrow> bool) \<Rightarrow> 'a \<Rightarrow> 'a list \<Rightarrow> 'a list" where
  "heap_Push lt x xs = heap_up lt (xs @ [x]) (length xs)"

definition heap_Pop :: "('a \<Rightarrow> 'a \<Rightarrow> bool) \<Rightarrow> 'a list \<Rightarrow> 'a \<times> 'a list" where
  "heap_Pop lt xs = (let n = length xs - 1; ys = heap_down lt (swap_at 0 n xs) 0 n in (ys ! n, take n ys))"

primrec heap_init_loop :: "('a \<Rightarrow> 'a \<Rightarrow> bool) \<Rightarrow> nat \<Rightarrow> 'a list \<Rightarrow> 'a list" where
  "heap_init_loop lt 0 xs = xs"
| "heap_init_loop lt (Suc i) xs = heap_init_loop lt i (heap_down lt xs i (length xs))"

definition heap_Init :: "('a \<Rightarrow> 'a \<Rightarrow> bool) \<Rightarrow> 'a list \<Rightarrow> 'a list" where
  "heap_Init lt xs = heap_init_loop lt (length xs div 2) xs"

section \<open>Permutations\<close>

lemma length_swap_at [simp]: "length (swap_at i j xs) = length xs"
  by (simp add: swap_at_def)

lemma mset_swap_at [simp]: "i < length xs \<Longrightarrow> j < length xs \<Longrightarrow> mset (swap_at i j xs) = mset xs"
  by (simp add: swap_at_def mset_swap)

lemma nth_swap_at: "i < length xs \<Longrightarrow> j < length xs \<Longrightarrow> k < length xs \<Longrightarrow>
   swap_at i j xs ! k = (if k = j then xs ! i else if k = i then xs ! j else xs ! k)"
  by (auto simp: swap_at_def nth_list_update)

lemma heap_up_mset: "j < length xs \<Longrightarrow> mset (heap_up lt xs j) = mset xs"
proof (induction lt xs j rule: heap_up.induct)
  case (1 lt xs j)
  have "(j - 1) div 2 < length xs" using 1(2) by linarith
  then show ?case using 1 by (subst heap_up.simps) (simp add: Let_def)
qed

lemma heap_down_mset: "n \<le> length xs \<Longrightarrow> mset (heap_down lt xs i n) = mset xs"
  by (induction lt xs i n rule: heap_down.induct) (subst heap_down.simps, simp add: Let_def)

lemma heap_down_beyond: "n \<le> length xs \<Longrightarrow> i < n \<Longrightarrow> n \<le> k \<Longrightarrow> k < length xs \<Longrightarrow> heap_down lt xs i n ! k = xs ! k"
proof (induction lt xs i n rule: heap_down.induct)
  case (1 lt xs i n)
  then show ?case by (subst heap_down.simps) (auto simp: Let_def nth_swap_at)
qed

lemma length_heap_down [simp]: "n \<le> length xs \<Longrightarrow> length (heap_down lt xs i n) = length xs"
  using heap_down_mset mset_eq_length by blast

section \<open>The heap order\<close>

text \<open>Position \<open>k\<close> does not come out before its parent.\<close>

definition node_ok :: "('a \<Rightarrow> 'a \<Rightarrow> bool) \<Rightarrow> 'a list \<Rightarrow> nat \<Rightarrow> bool" where
  "node_ok lt xs k \<longleftrightarrow> 0 < k \<longrightarrow> \<not> lt (xs ! k) (xs ! ((k - 1) div 2))"

definition is_heap :: "('a \<Rightarrow> 'a \<Rightarrow> bool) \<Rightarrow> 'a list \<Rightarrow> bool" where
  "is_heap lt xs \<longleftrightarrow> (\<forall>k<length xs. node_ok lt xs k)"

context weak_order
begin

lemma up_ok:
  assumes "set xs \<subseteq> carrier" "j < length xs" "\<And>k. k < length xs \<Longrightarrow> k \<noteq> j \<Longrightarrow> node_ok lt xs k"
    "\<And>k. k < length xs \<Longrightarrow> 0 < k \<Longrightarrow> 0 < j \<Longrightarrow> (k - 1) div 2 = j \<Longrightarrow> \<not> lt (xs ! k) (xs ! ((j - 1) div 2))"
  shows "is_heap lt (heap_up lt xs j)"
  using assms
proof (induction j arbitrary: xs rule: less_induct)
  case (less j)
  let ?i = "(j - 1) div 2"
  have il: "?i < length xs" using less.prems(2) by linarith
  have C: "xs ! k \<in> carrier" if "k < length xs" for k using less.prems(1) that by auto
  show ?case
  proof (cases "?i = j \<or> \<not> lt (xs ! j) (xs ! ?i)")
    case True
    then have "node_ok lt xs j" by (auto simp: node_ok_def)
    then show ?thesis using less.prems(3) True by (subst heap_up.simps) (auto simp: is_heap_def Let_def)
  next
    case False
    let ?ys = "swap_at ?i j xs"
    have ij: "?i < j" "lt (xs ! j) (xs ! ?i)" using False by auto
    have nlt: "\<not> lt (xs ! ?i) (xs ! j)" using asym [OF C C] ij less.prems(2) il by blast
    have nth: "?ys ! k = (if k = j then xs ! ?i else if k = ?i then xs ! j else xs ! k)" if "k < length xs" for k
      using nth_swap_at il less.prems(2) that by blast
    have old: "\<not> lt (xs ! k) (xs ! ((k - 1) div 2))" if "k < length xs" "0 < k" "k \<noteq> j" for k
      using less.prems(3) that by (simp add: node_ok_def)
    have par: "(k - 1) div 2 < length xs" if "k < length xs" for k using that by linarith
    have "is_heap lt (heap_up lt ?ys ?i)"
    proof (rule less.IH)
      show "?i < j" by (rule ij)
      show "set ?ys \<subseteq> carrier" using less.prems(1) mset_swap_at [OF il less.prems(2)] by (metis set_mset_mset)
      show "?i < length ?ys" using il by simp
      fix k assume k: "k < length ?ys"
      show "node_ok lt ?ys k" if "k \<noteq> ?i"
        unfolding node_ok_def
      proof
        assume k0: "0 < k"
        have kl: "k < length xs" using k by simp
        show "\<not> lt (?ys ! k) (?ys ! ((k - 1) div 2))"
        proof (cases "k = j")
          case True
          then show ?thesis using nth [OF kl] nth [OF par [OF kl]] nlt ij by simp
        next
          case kj: False
          have "\<not> lt (xs ! k) (xs ! ?i)" if "(k - 1) div 2 = j" using less.prems(4) [OF kl k0 _ that] ij by simp
          moreover have "\<not> lt (xs ! k) (xs ! j)" if "(k - 1) div 2 = ?i"
            using neg_trans [OF C [OF kl] C [OF il] C [OF less.prems(2)]] old [OF kl k0 kj] that nlt by simp
          ultimately show ?thesis using nth [OF kl] nth [OF par [OF kl]] kj \<open>k \<noteq> ?i\<close> old [OF kl k0 kj] by auto
        qed
      qed
      assume k0: "0 < k" and i0: "0 < ?i" and pk: "(k - 1) div 2 = ?i"
      have kl: "k < length xs" using k by simp
      have pi: "\<not> lt (xs ! ?i) (xs ! ((?i - 1) div 2))" using old [OF il i0] ij by simp
      have ne: "(?i - 1) div 2 \<noteq> j" "(?i - 1) div 2 \<noteq> ?i" "k \<noteq> ?i" using ij i0 pk k0 by linarith+
      have "\<not> lt (xs ! k) (xs ! ((?i - 1) div 2))" if "k \<noteq> j"
        using neg_trans [OF C [OF kl] C [OF il] C [OF par [OF il]]] old [OF kl k0 that] pk pi by simp
      then show "\<not> lt (?ys ! k) (?ys ! ((?i - 1) div 2))"
        using nth [OF kl] nth [OF par [OF il]] ne pi by simp
    qed
    then show ?thesis using False by (subst heap_up.simps) (simp add: Let_def)
  qed
qed

lemma down_ok:
  assumes "set xs \<subseteq> carrier" "n \<le> length xs" "i0 \<le> i" "i < n"
    "\<And>k. k < n \<Longrightarrow> 0 < k \<Longrightarrow> i0 \<le> (k - 1) div 2 \<Longrightarrow> (k - 1) div 2 \<noteq> i \<Longrightarrow> \<not> lt (xs ! k) (xs ! ((k - 1) div 2))"
    "\<And>k. k < n \<Longrightarrow> 0 < k \<Longrightarrow> (k - 1) div 2 = i \<Longrightarrow> i0 < i \<Longrightarrow> \<not> lt (xs ! k) (xs ! ((i - 1) div 2))"
  shows "\<forall>k<n. 0 < k \<longrightarrow> i0 \<le> (k - 1) div 2 \<longrightarrow> \<not> lt (heap_down lt xs i n ! k) (heap_down lt xs i n ! ((k - 1) div 2))"
  using assms
proof (induction "n - i" arbitrary: xs i rule: less_induct)
  case (less i xs)
  let ?j1 = "2 * i + 1"
  have C: "xs ! k \<in> carrier" if "k < n" for k using less.prems(1,2) that by auto
  have child: "k = ?j1 \<or> k = ?j1 + 1" if "0 < k" "(k - 1) div 2 = i" for k using that by linarith
  show ?case
  proof (cases "?j1 \<ge> n")
    case True
    then have "\<not> lt (xs ! k) (xs ! ((k - 1) div 2))" if "k < n" "0 < k" "i0 \<le> (k - 1) div 2" for k
      using less.prems(5) [OF that] child [OF that(2)] that(1) by linarith
    then show ?thesis using True by (subst (1 2) heap_down.simps) (simp add: Let_def)
  next
    case j1: False
    define j where "j = (if ?j1 + 1 < n \<and> lt (xs ! (?j1 + 1)) (xs ! ?j1) then ?j1 + 1 else ?j1)"
    have step: "heap_down lt xs i n = (if lt (xs ! j) (xs ! i) then heap_down lt (swap_at i j xs) j n else xs)"
      by (subst heap_down.simps) (use j1 in \<open>simp add: Let_def j_def cong: if_cong\<close>)
    have j: "j < n" "i < j" "(j - 1) div 2 = i" "0 < j" using j1 by (auto simp: j_def)
    have best: "\<not> lt (xs ! k) (xs ! j)" if "k < n" "0 < k" "(k - 1) div 2 = i" for k
      using child [OF that(2,3)] that(1) asym [OF C C, of "?j1 + 1" ?j1] asym [OF C C, of k k] j1 by (auto simp: j_def split: if_splits)
    show ?thesis
    proof (cases "lt (xs ! j) (xs ! i)")
      case False
      have "\<not> lt (xs ! k) (xs ! ((k - 1) div 2))" if k: "k < n" "0 < k" "i0 \<le> (k - 1) div 2" for k
      proof (cases "(k - 1) div 2 = i")
        case True
        then show ?thesis using neg_trans [OF C [OF k(1)] C [OF j(1)] C [OF less.prems(4)]] best [OF k(1,2) True] False by simp
      qed (use less.prems(5) [OF k] in simp)
      then show ?thesis using False by (simp add: step)
    next
      case True
      let ?ys = "swap_at i j xs"
      have nlt: "\<not> lt (xs ! i) (xs ! j)" using asym [OF C [OF j(1)] C [OF less.prems(4)] True] .
      have il: "i < length xs" "j < length xs" using less.prems(2,4) j(1) by auto
      have nth: "?ys ! k = (if k = j then xs ! i else if k = i then xs ! j else xs ! k)" if "k < n" for k
        using nth_swap_at [OF il, of k] that less.prems(2) by simp
      have par: "(k - 1) div 2 < n" if "k < n" for k using that by linarith
      have eq: "heap_down lt xs i n = heap_down lt ?ys j n"
        using True by (simp add: step)
      show ?thesis unfolding eq
      proof (rule less.hyps)
        show "n - j < n - i" using j by simp
        show "set ?ys \<subseteq> carrier" using less.prems(1) mset_swap_at [OF il] by (metis set_mset_mset)
        show "n \<le> length ?ys" "i0 \<le> j" "j < n" using less.prems(2,3) j by simp_all
        fix k assume k: "k < n" "0 < k"
        show "\<not> lt (?ys ! k) (?ys ! ((k - 1) div 2))" if p: "i0 \<le> (k - 1) div 2" "(k - 1) div 2 \<noteq> j"
        proof (cases "(k - 1) div 2 = i")
          case ki: True
          have "k \<noteq> i" using ki k(2) by linarith
          then show ?thesis using best [OF k ki] nlt nth [OF k(1)] nth [OF less.prems(4)] ki j(2) by auto
        next
          case ki: False
          have old: "\<not> lt (xs ! k) (xs ! ((k - 1) div 2))" using less.prems(5) [OF k p(1) ki] .
          have "k \<noteq> j" using ki j(3) by auto
          show ?thesis
          proof (cases "k = i")
            case True
            then have "i0 < i" using p(1) k(2) by linarith
            then have "\<not> lt (xs ! j) (xs ! ((i - 1) div 2))" using less.prems(6) [OF j(1,4,3)] by simp
            then show ?thesis using True ki p(2) nth [OF k(1)] nth [OF par [OF k(1)]] j(2) by simp
          next
            case False
            then show ?thesis using old \<open>k \<noteq> j\<close> ki p(2) nth [OF k(1)] nth [OF par [OF k(1)]] by simp
          qed
        qed
        assume kj: "(k - 1) div 2 = j" "i0 < j"
        have kn: "k \<noteq> j" "k \<noteq> i" using kj(1) k(2) j(2) by linarith+
        have "\<not> lt (xs ! k) (xs ! j)" using less.prems(5) [OF k] kj j(2) less.prems(3) by simp
        then show "\<not> lt (?ys ! k) (?ys ! ((j - 1) div 2))" using nth [OF k(1)] nth [OF less.prems(4)] kn j by simp
      qed
    qed
  qed
qed

lemma heap_root:
  assumes "set xs \<subseteq> carrier" "is_heap lt xs" "k < length xs"
  shows "\<not> lt (xs ! k) (xs ! 0)"
  using assms(3)
proof (induction k rule: less_induct)
  case (less k)
  have C: "xs ! m \<in> carrier" if "m < length xs" for m using assms(1) that by auto
  show ?case
  proof (cases "k = 0")
    case True
    then show ?thesis using asym [OF C C, of 0 0] less.prems by auto
  next
    case False
    let ?p = "(k - 1) div 2"
    have p: "?p < k" "?p < length xs" using False less.prems by linarith+
    have "\<not> lt (xs ! k) (xs ! ?p)" using assms(2) less.prems False by (simp add: is_heap_def node_ok_def)
    then show ?thesis using less.IH [OF p] neg_trans [OF C C C, of k ?p 0] less.prems p by (cases xs) auto
  qed
qed

lemma Push_ok:
  assumes "set xs \<subseteq> carrier" "x \<in> carrier" "is_heap lt xs"
  shows "is_heap lt (heap_Push lt x xs)"
  unfolding heap_Push_def
proof (rule up_ok)
  fix k assume k: "k < length (xs @ [x])"
  show "node_ok lt (xs @ [x]) k" if "k \<noteq> length xs"
  proof -
    have "k < length xs" "(k - 1) div 2 < length xs" using k that by auto
    then show ?thesis using assms(3) by (simp add: is_heap_def node_ok_def nth_append)
  qed
  show "\<not> lt ((xs @ [x]) ! k) ((xs @ [x]) ! ((length xs - 1) div 2))" if "0 < k" "0 < length xs" "(k - 1) div 2 = length xs"
    using that k by simp
qed (use assms in auto)

lemma Pop_ok:
  assumes "set xs \<subseteq> carrier" "is_heap lt xs" "xs \<noteq> []" "heap_Pop lt xs = (x, ys)"
  shows "x = xs ! 0 \<and> is_heap lt ys \<and> mset xs = add_mset x (mset ys) \<and> (\<forall>z\<in>set xs. \<not> lt z x)"
proof -
  let ?n = "length xs - 1"
  let ?s = "swap_at 0 ?n xs"
  let ?d = "heap_down lt ?s 0 ?n"
  have n: "0 < length xs" "?n < length xs" using assms(3) by auto
  have len: "length ?d = length xs" by simp
  have x: "x = ?d ! ?n" "ys = take ?n ?d" using assms(4) by (auto simp: heap_Pop_def Let_def)
  have dn: "?d ! ?n = ?s ! ?n"
  proof (cases "?n = 0")
    case True
    then show ?thesis by (subst heap_down.simps) simp
  qed (use heap_down_beyond [of ?n ?s 0 ?n lt] n in simp)
  then have x0: "x = xs ! 0" using x n by (simp add: nth_swap_at)
  have heap: "is_heap lt ys"
  proof (cases "?n = 0")
    case True
    then show ?thesis by (simp add: x(2) is_heap_def)
  next
    case False
    have nth: "?s ! k = xs ! k" if "0 < k" "k < ?n" for k using that n by (simp add: nth_swap_at)
    have "\<forall>k<?n. 0 < k \<longrightarrow> 0 \<le> (k - 1) div 2 \<longrightarrow> \<not> lt (?d ! k) (?d ! ((k - 1) div 2))"
    proof (rule down_ok)
      show "set ?s \<subseteq> carrier" using assms(1) mset_swap_at [OF n] by (metis set_mset_mset)
      fix k assume k: "k < ?n" "0 < k" "(k - 1) div 2 \<noteq> 0"
      have p: "0 < (k - 1) div 2" "(k - 1) div 2 < ?n" using k by linarith+
      show "\<not> lt (?s ! k) (?s ! ((k - 1) div 2))"
        using assms(2) k nth [OF k(2,1)] nth [OF p] by (simp add: is_heap_def node_ok_def)
    qed (use False in auto)
    then show ?thesis using len by (auto simp: x(2) is_heap_def node_ok_def)
  qed
  have "mset ?d = mset xs" using heap_down_mset [of ?n ?s lt 0] mset_swap_at [OF n] by simp
  moreover have "?d = ys @ [x]" using len n x by (metis take_Suc_conv_app_nth Suc_pred' take_all_iff order_refl)
  ultimately have "mset xs = add_mset x (mset ys)" by (metis mset_append mset_single_iff_right union_mset_add_mset_right add_mset_add_single)
  moreover have "\<not> lt z x" if "z \<in> set xs" for z
    using that heap_root [OF assms(1,2)] x0 by (auto simp: in_set_conv_nth)
  ultimately show ?thesis using x0 heap by blast
qed

lemma init_loop_ok:
  assumes "set xs \<subseteq> carrier" "m \<le> length xs div 2"
    "\<And>k. k < length xs \<Longrightarrow> 0 < k \<Longrightarrow> m \<le> (k - 1) div 2 \<Longrightarrow> \<not> lt (xs ! k) (xs ! ((k - 1) div 2))"
  shows "is_heap lt (heap_init_loop lt m xs)"
  using assms
proof (induction m arbitrary: xs)
  case 0
  then show ?case by (auto simp: is_heap_def node_ok_def)
next
  case (Suc m)
  let ?ys = "heap_down lt xs m (length xs)"
  have len: "length ?ys = length xs" by simp
  have "\<forall>k<length xs. 0 < k \<longrightarrow> m \<le> (k - 1) div 2 \<longrightarrow> \<not> lt (?ys ! k) (?ys ! ((k - 1) div 2))"
    by (rule down_ok) (use Suc.prems in auto)
  moreover have "set ?ys \<subseteq> carrier" using Suc.prems(1) heap_down_mset [of "length xs" xs lt m] by (metis order_refl set_mset_mset)
  ultimately show ?case using Suc.IH [of ?ys] Suc.prems(2) len by simp
qed

lemma Init_ok: "set xs \<subseteq> carrier \<Longrightarrow> is_heap lt (heap_Init lt xs)"
  unfolding heap_Init_def by (rule init_loop_ok) auto

end

lemma heap_init_loop_mset: "mset (heap_init_loop lt m xs) = mset xs"
  by (induction m arbitrary: xs) (auto simp: heap_down_mset)

lemma heap_Init_mset: "mset (heap_Init lt xs) = mset xs"
  by (simp add: heap_Init_def heap_init_loop_mset)

lemma heap_Push_mset: "mset (heap_Push lt x xs) = add_mset x (mset xs)"
  by (simp add: heap_Push_def heap_up_mset)

end
