(* ===== verification/TB_Admission.thy ===== *)
theory TB_Admission
  imports TB_Score TB_TLog TB_Heap TB_Registry
begin

text \<open>
  The admission subsystem (\<open>src/tracker/internal/admission\<close>): the priority queue, the supply aggregator,
  the decision procedure, the attestation issuer with its rate limit, and the operator's handlers.
  One \<open>Subsystem\<close> record holds the state behind the mutexes; each operation is one step. Random
  bytes and the jitter are arguments.
\<close>

section \<open>The queue\<close>

record QueueEntry =
  qe_request_id :: reqid
  qe_consumer_id :: ident
  qe_envelope_hash :: bytes
  qe_credit_score :: float64
  qe_enqueued_at :: time

definition zero_entry :: QueueEntry where
  "zero_entry = \<lparr>qe_request_id = zeros 16, qe_consumer_id = zero_id, qe_envelope_hash = zeros 32, qe_credit_score = Fin 0,
     qe_enqueued_at = zero_time\<rparr>"

definition EffectivePriority :: "QueueEntry \<Rightarrow> time \<Rightarrow> float64 \<Rightarrow> float64" where
  "EffectivePriority e now agingAlpha = (let wait = time_sub now (qe_enqueued_at e); wait1 = (if wait < 0 then 0 else wait) in
     f_add (qe_credit_score e) (f_mul agingAlpha (dur_minutes wait1)))"

record queueHeap =
  qh_entries :: "QueueEntry list"
  qh_now :: time
  qh_aging_alpha :: float64

definition newQueueHeap :: "time \<Rightarrow> float64 \<Rightarrow> queueHeap" where
  "newQueueHeap now agingAlpha = \<lparr>qh_entries = [], qh_now = now, qh_aging_alpha = agingAlpha\<rparr>"

definition queue_Less :: "time \<Rightarrow> float64 \<Rightarrow> QueueEntry \<Rightarrow> QueueEntry \<Rightarrow> bool" where
  "queue_Less now agingAlpha a b = f_lt (EffectivePriority b now agingAlpha) (EffectivePriority a now agingAlpha)"

definition queue_Push :: "QueueEntry \<Rightarrow> queueHeap \<Rightarrow> queueHeap" where
  "queue_Push e h = h\<lparr>qh_entries := heap_Push (queue_Less (qh_now h) (qh_aging_alpha h)) e (qh_entries h)\<rparr>"

definition queue_Pop :: "queueHeap \<Rightarrow> QueueEntry \<times> queueHeap" where
  "queue_Pop h = (if qh_entries h = [] then (zero_entry, h)
     else (case heap_Pop (queue_Less (qh_now h) (qh_aging_alpha h)) (qh_entries h) of (e, es) \<Rightarrow> (e, h\<lparr>qh_entries := es\<rparr>)))"

definition queue_Peek :: "queueHeap \<Rightarrow> QueueEntry option" where
  "queue_Peek h = (case qh_entries h of [] \<Rightarrow> None | e # _ \<Rightarrow> Some e)"

definition AdvanceTime :: "time \<Rightarrow> queueHeap \<Rightarrow> queueHeap" where
  "AdvanceTime now h = h\<lparr>qh_now := now\<rparr>"

definition Reheapify :: "queueHeap \<Rightarrow> queueHeap" where
  "Reheapify h = h\<lparr>qh_entries := heap_Init (queue_Less (qh_now h) (qh_aging_alpha h)) (qh_entries h)\<rparr>"

section \<open>Supply and demand\<close>

record SupplySnapshot =
  ss_computed_at :: time
  ss_total_headroom :: float64
  ss_per_model :: "string \<rightharpoonup> float64"
  ss_contributing_seeders :: u32
  ss_silent_seeders :: u32
  ss_pressure :: float64
  ss_recent_reject_rate :: float64

definition emptySupplySnapshot :: SupplySnapshot where
  "emptySupplySnapshot = \<lparr>ss_computed_at = zero_time, ss_total_headroom = Fin 0, ss_per_model = Map.empty,
     ss_contributing_seeders = 0, ss_silent_seeders = 0, ss_pressure = Fin 0, ss_recent_reject_rate = Fin 0\<rparr>"

record demandTracker =
  dt_rate_ewma :: float64
  dt_last_tick :: time

definition demand_record :: "time \<Rightarrow> demandTracker \<Rightarrow> demandTracker" where
  "demand_record now d = \<lparr>dt_rate_ewma = f_add (dt_rate_ewma d) (Fin 1), dt_last_tick = now\<rparr>"

definition readAndDecay :: "math_lib \<Rightarrow> time \<Rightarrow> demandTracker \<Rightarrow> float64 \<times> demandTracker" where
  "readAndDecay lib now d = (if dt_last_tick d = zero_time then (Fin 0, d)
     else (let dt = time_sub now (dt_last_tick d); secs = (if dt < 0 then Fin 0 else dur_seconds dt);
               rate = f_mul (dt_rate_ewma d) (m_exp lib (f_div (f_neg secs) (Fin 5))) in
       (rate, \<lparr>dt_rate_ewma = rate, dt_last_tick = now\<rparr>)))"

definition seederWeight :: "AdmissionConfig \<Rightarrow> SeederRecord \<Rightarrow> time \<Rightarrow> float64" where
  "seederWeight cfg sr now = (let d = time_sub now (sr_last_heartbeat sr); age = (if d < 0 then Fin 0 else dur_seconds d);
      maxAge = f_of_int (ac_heartbeat_freshness_decay_max_s cfg);
      freshness = (if f_le age (Fin 60) then Fin 1 else if f_le maxAge age then Fin 0
        else f_div (f_sub maxAge age) (f_sub maxAge (Fin 60))) in
    f_mul freshness (sr_reputation_score sr))"

definition add_model :: "float64 \<Rightarrow> string \<Rightarrow> (string \<rightharpoonup> float64) \<Rightarrow> (string \<rightharpoonup> float64)" where
  "add_model c model pm = pm(model \<mapsto> f_add (case pm model of None \<Rightarrow> Fin 0 | Some x \<Rightarrow> x) c)"

definition aggregate_one :: "AdmissionConfig \<Rightarrow> time \<Rightarrow> SeederRecord \<Rightarrow> SupplySnapshot \<Rightarrow> SupplySnapshot" where
  "aggregate_one cfg now sr acc = (let w = seederWeight cfg sr now in
     if f_le w (Fin 0) then acc\<lparr>ss_silent_seeders := ss_silent_seeders acc + 1\<rparr>
     else (let contribution = f_mul (sr_headroom_estimate sr) w in
       acc\<lparr>ss_total_headroom := f_add (ss_total_headroom acc) contribution,
           ss_contributing_seeders := ss_contributing_seeders acc + 1,
           ss_per_model := fold (add_model contribution) (ca_models (sr_capabilities sr)) (ss_per_model acc)\<rparr>))"

section \<open>Rate limiter\<close>

text \<open>The shards partition one map by identity; the model is that map.\<close>

record rateLimiter =
  rl_cap :: int
  rl_window :: int
  rl_events :: "ident \<Rightarrow> time list"

definition newRateLimiter :: "int \<Rightarrow> rateLimiter" where
  "newRateLimiter perHourCap = \<lparr>rl_cap = perHourCap, rl_window = seconds 3600, rl_events = (\<lambda>_. [])\<rparr>"

definition allow :: "ident \<Rightarrow> time \<Rightarrow> rateLimiter \<Rightarrow> bool \<times> rateLimiter" where
  "allow i now rl = (if rl_cap rl \<le> 0 then (True, rl)
     else (let cutoff = now - rl_window rl; pruned = filter (\<lambda>t. t > cutoff) (rl_events rl i) in
       if int (length pruned) \<ge> rl_cap rl then (False, rl\<lparr>rl_events := (rl_events rl)(i := pruned)\<rparr>)
       else (True, rl\<lparr>rl_events := (rl_events rl)(i := pruned @ [now])\<rparr>)))"

section \<open>The subsystem\<close>

text \<open>The parts \<open>Open\<close> sets once, and what the code calls outside it: the clock library, Ed25519 and the peer set.\<close>

record adm_env =
  av_cfg :: AdmissionConfig
  av_priv :: bytes
  av_tracker_id :: ident
  av_crypto :: crypto
  av_enc :: "CreditAttestationBody \<Rightarrow> bytes option"
  av_math :: math_lib
  av_peers :: "ident \<Rightarrow> bool"

record Subsystem =
  sb_store :: adm_state
  sb_queue :: queueHeap
  sb_supply :: "SupplySnapshot option"
  sb_demand :: demandTracker
  sb_attest_rl :: rateLimiter
  sb_blocklist :: "ident set"

definition validateConfigForOpen :: "AdmissionConfig \<Rightarrow> string option" where
  "validateConfigForOpen cfg = (if ac_rolling_window_days cfg \<le> 0 then Some ''RollingWindowDays must be positive''
     else if f_le (ac_pressure_reject_threshold cfg) (ac_pressure_admit_threshold cfg)
       then Some ''PressureAdmitThreshold must be < PressureRejectThreshold''
     else if ac_queue_cap cfg \<le> 0 then Some ''QueueCap must be positive'' else None)"

definition trackerIDFromPubkey :: "bytes \<Rightarrow> ident" where
  "trackerIDFromPubkey pub = (if length pub \<ge> 32 then take 32 pub else zero_id)"

text \<open>\<open>Open\<close> after its options: \<open>pub\<close> is the public half of the key, \<open>tlog\<close> the opened writer.\<close>

definition Admission_Open :: "AdmissionConfig \<Rightarrow> bytes \<Rightarrow> tlogWriter option \<Rightarrow> string + Subsystem" where
  "Admission_Open cfg priv tlog = (if length priv \<noteq> PrivateKeySize then Inl ''admission: tracker key length''
     else (case validateConfigForOpen cfg of Some e \<Rightarrow> Inl (''admission: '' @ e)
       | None \<Rightarrow> Inr \<lparr>sb_store = \<lparr>ad_consumers = Map.empty, ad_next_seq = 0, ad_tlog = tlog, ad_replaying = False,
                         ad_degraded = False, ad_tlog_corruptions = 0\<rparr>,
            sb_queue = newQueueHeap zero_time (ac_aging_alpha_per_minute cfg), sb_supply = None,
            sb_demand = \<lparr>dt_rate_ewma = Fin 0, dt_last_tick = zero_time\<rparr>,
            sb_attest_rl = newRateLimiter (ac_attestation_issuance_per_consumer_per_hour cfg), sb_blocklist = {}\<rparr>))"

definition Supply :: "Subsystem \<Rightarrow> SupplySnapshot" where
  "Supply s = (case sb_supply s of Some v \<Rightarrow> v | None \<Rightarrow> emptySupplySnapshot)"

definition PressureGauge :: "Subsystem \<Rightarrow> float64" where
  "PressureGauge s = (let snap = Supply s in if ss_computed_at snap = zero_time then Fin 0 else ss_pressure snap)"

text \<open>\<open>records\<close> is the registry snapshot.\<close>

definition runAggregatorOnce :: "adm_env \<Rightarrow> SeederRecord list \<Rightarrow> time \<Rightarrow> Subsystem \<Rightarrow> Subsystem" where
  "runAggregatorOnce env records now s = (let acc = fold (aggregate_one (av_cfg env) now) records emptySupplySnapshot in
     (case readAndDecay (av_math env) now (sb_demand s) of (demand, d) \<Rightarrow>
       (let pressure = (if f_lt (Fin 0) (ss_total_headroom acc) then f_div demand (ss_total_headroom acc) else Fin 0) in
        s\<lparr>sb_demand := d, sb_supply := Some (acc\<lparr>ss_computed_at := now, ss_pressure := pressure\<rparr>)\<rparr>)))"

section \<open>Decisions\<close>

datatype AdmOutcome = AdmUnspecified | AdmAdmit | AdmQueue | AdmReject

datatype PositionBand = PositionBandUnspecified | PositionBand1To10 | PositionBand11To50 | PositionBand51To200 | PositionBand200Plus

datatype EtaBand = EtaBandUnspecified | EtaBandLessThan30s | EtaBand30sTo2m | EtaBand2mTo5m | EtaBand5mPlus

datatype RejectReason = RejectReasonUnspecified | RejectReasonRegionOverloaded | RejectReasonQueueTimeout

record QueuedDetails =
  qd_request_id :: reqid
  qd_position_band :: PositionBand
  qd_eta_band :: EtaBand

record RejectedDetails =
  rd_reason :: RejectReason
  rd_retry_after_s :: u32

record AdmResult =
  dr_outcome :: AdmOutcome
  dr_queued :: "QueuedDetails option"
  dr_rejected :: "RejectedDetails option"
  dr_credit_used :: float64

definition bandPosition :: "int \<Rightarrow> PositionBand" where
  "bandPosition p = (if p \<le> 0 then PositionBandUnspecified else if p \<le> 10 then PositionBand1To10
     else if p \<le> 50 then PositionBand11To50 else if p \<le> 200 then PositionBand51To200 else PositionBand200Plus)"

definition bandEta :: "int \<Rightarrow> EtaBand" where
  "bandEta d = (if d < seconds 30 then EtaBandLessThan30s else if d \<le> seconds 120 then EtaBand30sTo2m
     else if d \<le> seconds 300 then EtaBand2mTo5m else EtaBand5mPlus)"

definition avg_service_ns :: int where "avg_service_ns = 200000000"

definition estimateEta :: "int \<Rightarrow> int" where
  "estimateEta pos = i64_wrap (pos * avg_service_ns)"

definition computeRetryAfterS :: "int \<Rightarrow> int \<Rightarrow> int \<Rightarrow> u32" where
  "computeRetryAfterS queueSize avgServiceTime jitter = (let
     drainS = i64_wrap (queueSize * avgServiceTime) sdiv second_ns;
     v = 30 + jitter + drainS;
     v1 = (if v < 60 then 60 else v);
     v2 = (if v1 > 600 then 600 else v1) in of_int v2)"

text \<open>\<open>rid\<close> is the result of \<open>newRequestID\<close>, \<open>jitter\<close> that of \<open>Intn(30)\<close>.\<close>

definition Decide :: "adm_env \<Rightarrow> reqid \<Rightarrow> int \<Rightarrow> ident \<Rightarrow> SignedCreditAttestation option \<Rightarrow> time \<Rightarrow> Subsystem \<Rightarrow> AdmResult \<times> Subsystem" where
  "Decide env rid jitter consumerID att now s = (let cfg = av_cfg env;
      score = fst (resolveCreditScore (av_crypto env) (av_enc env) (av_math env) (av_peers env) cfg (ad_consumers (sb_store s)) consumerID att now);
      s1 = s\<lparr>sb_demand := demand_record now (sb_demand s)\<rparr>;
      supply = Supply s1;
      reject = (\<lparr>dr_outcome = AdmReject, dr_queued = None,
         dr_rejected = Some \<lparr>rd_reason = RejectReasonRegionOverloaded,
           rd_retry_after_s = computeRetryAfterS (int (length (qh_entries (sb_queue s1)))) avg_service_ns jitter\<rparr>,
         dr_credit_used = score\<rparr>, s1) in
    if ss_computed_at supply = zero_time \<or> f_lt (ss_pressure supply) (ac_pressure_admit_threshold cfg)
    then (\<lparr>dr_outcome = AdmAdmit, dr_queued = None, dr_rejected = None, dr_credit_used = score\<rparr>, s1)
    else if f_lt (ss_pressure supply) (ac_pressure_reject_threshold cfg) then
      (if int (length (qh_entries (sb_queue s1))) < ac_queue_cap cfg then
         (let entry = \<lparr>qe_request_id = rid, qe_consumer_id = consumerID, qe_envelope_hash = zeros 32, qe_credit_score = score, qe_enqueued_at = now\<rparr>;
              q = queue_Push entry (AdvanceTime now (sb_queue s1));
              pos = int (length (qh_entries q)) in
          (\<lparr>dr_outcome = AdmQueue, dr_queued = Some \<lparr>qd_request_id = rid, qd_position_band = bandPosition pos,
              qd_eta_band = bandEta (estimateEta pos)\<rparr>, dr_rejected = None, dr_credit_used = score\<rparr>, s1\<lparr>sb_queue := q\<rparr>))
       else reject)
    else reject)"

definition PopReadyForBroker :: "adm_env \<Rightarrow> time \<Rightarrow> float64 \<Rightarrow> Subsystem \<Rightarrow> QueueEntry option \<times> Subsystem" where
  "PopReadyForBroker env now minServePriority s = (let q = AdvanceTime now (sb_queue s); s1 = s\<lparr>sb_queue := q\<rparr> in
     (case queue_Peek q of None \<Rightarrow> (None, s1)
      | Some head \<Rightarrow> if f_lt (EffectivePriority head now (ac_aging_alpha_per_minute (av_cfg env))) minServePriority then (None, s1)
          else (case queue_Pop q of (e, q') \<Rightarrow> (Some e, s\<lparr>sb_queue := q'\<rparr>))))"

section \<open>Issuing attestations\<close>

datatype attest_err = ErrNoLocalHistory | ErrRateLimited | ErrAttest string

definition f_to_u32 :: "float64 \<Rightarrow> u32" where
  "f_to_u32 x = of_int (f_to_int x)"

definition nonNegativeFixedPoint :: "float64 \<Rightarrow> u32" where
  "nonNegativeFixedPoint v = (if f_lt v (Fin 0) then 0
     else (let v1 = (if f_lt (Fin 1) v then Fin 1 else v) in f_to_u32 (f_round (f_mul v1 (Fin 10000)))))"

definition attestation_body :: "adm_env \<Rightarrow> ident \<Rightarrow> time \<Rightarrow> float64 \<Rightarrow> Signals \<Rightarrow> CreditAttestationBody" where
  "attestation_body env consumerID now score sigs = \<lparr>cb_identity_id = consumerID, cb_issuer_tracker_id = av_tracker_id env,
     cb_score = f_to_u32 (f_round (f_mul score (Fin 10000))), cb_tenure_days = of_int (sg_tenure_days sigs),
     cb_settlement_reliability = nonNegativeFixedPoint (sg_settlement_reliability sigs),
     cb_dispute_rate = nonNegativeFixedPoint (sg_dispute_rate sigs), cb_net_credit_flow_30d = sg_net_flow sigs,
     cb_balance_cushion_log2 = sg_balance_cushion_log2 sigs, cb_computed_at = of_int (unix now),
     cb_expires_at = of_int (unix (now + seconds (ac_attestation_ttl_seconds (av_cfg env))))\<rparr>"

definition IssueAttestation :: "adm_env \<Rightarrow> ident \<Rightarrow> time \<Rightarrow> Subsystem \<Rightarrow> (attest_err + SignedCreditAttestation) \<times> Subsystem" where
  "IssueAttestation env consumerID now s = (case ad_consumers (sb_store s) consumerID of None \<Rightarrow> (Inl ErrNoLocalHistory, s)
   | Some st \<Rightarrow> (case allow consumerID now (sb_attest_rl s) of (ok, rl) \<Rightarrow>
      (let s1 = s\<lparr>sb_attest_rl := rl\<rparr> in
       if \<not> ok then (Inl ErrRateLimited, s1)
       else (case ComputeLocalScore (av_math env) (Some st) (av_cfg env) now of (score, sigs) \<Rightarrow>
         (let body = attestation_body env consumerID now score sigs in
          case ValidateCreditAttestationBody (Some body) of Some e \<Rightarrow> (Inl (ErrAttest e), s1)
          | None \<Rightarrow> (case SignCreditAttestation (av_crypto env) (av_enc env) (av_priv env) (Some body) of
              Inl e \<Rightarrow> (Inl (ErrAttest e), s1)
            | Inr sig \<Rightarrow> (Inr \<lparr>sa_body = Some body, sa_tracker_sig = sig\<rparr>, s1)))))))"

section \<open>Operator handlers\<close>

definition hex_digit :: "nat \<Rightarrow> char" where
  "hex_digit n = (if n < 10 then char_of (48 + n) else char_of (87 + n))"

definition hex_encode :: "bytes \<Rightarrow> string" where
  "hex_encode bs = concat (map (\<lambda>b. [hex_digit (unat b div 16), hex_digit (unat b mod 16)]) bs)"

text \<open>\<open>drainTopN\<close>; a negative \<open>n\<close> panics in \<open>make\<close>, which the model returns as \<open>None\<close>.\<close>

fun drain_loop :: "nat \<Rightarrow> queueHeap \<Rightarrow> QueueEntry list \<times> queueHeap" where
  "drain_loop 0 q = ([], q)"
| "drain_loop (Suc n) q = (if qh_entries q = [] then ([], q)
     else (case queue_Pop q of (e, q1) \<Rightarrow> (case drain_loop n q1 of (es, q2) \<Rightarrow> (e # es, q2))))"

definition drainTopN :: "int \<Rightarrow> Subsystem \<Rightarrow> (string list \<times> Subsystem) option" where
  "drainTopN n s = (if n < 0 then None
     else (case drain_loop (nat n) (sb_queue s) of (es, q) \<Rightarrow>
       Some (map (\<lambda>e. hex_encode (qe_consumer_id e)) es, s\<lparr>sb_queue := q\<rparr>)))"

definition ejectQueue :: "string \<Rightarrow> Subsystem \<Rightarrow> nat \<times> Subsystem" where
  "ejectQueue reqID s = (let q = sb_queue s; keep = filter (\<lambda>e. hex_encode (qe_request_id e) \<noteq> reqID) (qh_entries q) in
     (length (qh_entries q) - length keep, s\<lparr>sb_queue := Reheapify (q\<lparr>qh_entries := keep\<rparr>)\<rparr>))"

definition writeOperatorOverride :: "io_faults \<Rightarrow> bytes \<Rightarrow> bytes \<Rightarrow> bytes \<Rightarrow> time \<Rightarrow> Subsystem \<Rightarrow> bool \<times> Subsystem" where
  "writeOperatorOverride io operatorID action paramsJSON now s = (let st = sb_store s in
     case ad_tlog st of None \<Rightarrow> (True, s)
     | Some w \<Rightarrow> (let ts = unix now; sq = ad_next_seq st + 1;
          rec = \<lparr>tr_seq = sq, tr_ts = of_i64 ts, tr_kind = TLogKindOperatorOverride,
                 tr_payload = marshalOperatorOverridePayload \<lparr>oop_operator_id = (if operatorID = [] then str_bytes ''anonymous'' else operatorID),
                   oop_action = action, oop_params = paramsJSON, oop_ts = ts\<rparr>\<rparr> in
        (case Append io rec w of (ok, w') \<Rightarrow> (ok, s\<lparr>sb_store := st\<lparr>ad_next_seq := sq, ad_tlog := Some w'\<rparr>\<rparr>))))"

end
