(* ===== verification/TB_Score_Spec.thy ===== *)
theory TB_Score_Spec
  imports TB_Score
begin

text \<open>
  Bounds on the credit score: the signals are bounded whatever the wrapped bucket counters hold, and
  the composite score is a number between 0 and 1, never NaN, for usable weights.
\<close>

section \<open>Scores\<close>

definition weights_ok :: "AdmissionScoreWeights \<Rightarrow> bool" where
  "weights_ok w \<longleftrightarrow> f_bnd 2 (aw_settlement_reliability w) \<and> f_bnd 2 (aw_inverse_dispute_rate w) \<and> f_bnd 2 (aw_tenure w) \<and>
     f_bnd 2 (aw_net_credit_flow w) \<and> f_bnd 2 (aw_balance_cushion w) \<and>
     f_le (Fin (1 / 1024)) (f_add (f_add (aw_tenure w) (aw_net_credit_flow w)) (aw_balance_cushion w))"

text \<open>What is documented of \<open>math.Exp\<close>: it is never negative, and NaN only for NaN.\<close>

definition exp_ok :: "math_lib \<Rightarrow> bool" where
  "exp_ok lib \<longleftrightarrow> (\<forall>x. x \<noteq> NaN \<longrightarrow> f_le (Fin 0) (m_exp lib x))"

lemma exp_cases: "exp_ok lib \<Longrightarrow> x \<noteq> NaN \<Longrightarrow> m_exp lib x = PosInf \<or> (\<exists>r. m_exp lib x = Fin r \<and> 0 \<le> r)"
  by (cases "m_exp lib x") (force simp: exp_ok_def)+

lemma f_neg_not_NaN [simp]: "f_neg x = NaN \<longleftrightarrow> x = NaN"
  by (cases x) auto

lemma f_neg_neg [simp]: "f_neg (f_neg x) = x"
  by (cases x) auto

lemma sigmoid_bnd:
  assumes "exp_ok lib" "x \<noteq> NaN"
  shows "f_bnd 1 (sigmoid lib x)"
proof -
  consider "m_exp lib (f_neg x) = PosInf" | r where "m_exp lib (f_neg x) = Fin r" "0 \<le> r"
    using exp_cases [OF assms(1), of "f_neg x"] assms(2) by auto
  then show ?thesis
  proof cases
    case 1
    then show ?thesis by (simp add: sigmoid_def)
  next
    case 2
    then show ?thesis using round64_ge_1 [of "1 + r"] f_bnd_div [of 1 1 "Fin 1"] by (auto simp: sigmoid_def)
  qed
qed

lemma clamp01_unit: "x \<noteq> NaN \<Longrightarrow> f_in_unit (clamp01 x)"
  by (cases x) (auto simp: clamp01_def f_lt_def f_in_unit_def)

lemma f_of_int_nat: "0 \<le> n \<Longrightarrow> n < 2 ^ 53 \<Longrightarrow> f_bnd n (f_of_int n)"
  by (rule f_bnd_of_int) auto

lemma f_of_int_pos: "1 \<le> n \<Longrightarrow> f_of_int n = PosInf \<or> (\<exists>r. f_of_int n = Fin r \<and> 1 \<le> r)"
  unfolding f_of_int_def by (rule round64_ge_1) simp

lemma round64_neg: "round64 (- q) = f_neg (round64 q)"
  by (simp add: round64_def Let_def)

lemma f_of_int_small: "\<bar>n\<bar> < 2 ^ 53 \<Longrightarrow> \<exists>r. f_of_int n = Fin r"
proof (cases "0 \<le> n")
  case True
  assume "\<bar>n\<bar> < 2 ^ 53"
  then show ?thesis using f_of_int_nat [OF True] True by (auto simp: f_bnd_def)
next
  case False
  assume a: "\<bar>n\<bar> < 2 ^ 53"
  have "f_of_int n = f_neg (f_of_int (- n))" unfolding f_of_int_def by (simp add: round64_neg)
  then show ?thesis using f_of_int_nat [of "- n"] False a by (auto simp: f_bnd_def)
qed

lemma f_div_not_NaN: "x = Fin r \<Longrightarrow> y = PosInf \<or> (\<exists>s. y = Fin s \<and> 1 \<le> s) \<Longrightarrow> f_div x y \<noteq> NaN"
  by auto

lemma f_div_pos_bnd: "f_bnd n x \<Longrightarrow> y = PosInf \<or> (\<exists>s. y = Fin s \<and> 1 \<le> s) \<Longrightarrow> n < 2 ^ 53 \<Longrightarrow> 0 \<le> n \<Longrightarrow> f_bnd n (f_div x y)"
  using f_bnd_div [of 1 n x] by (auto simp: f_bnd_def)

lemma u32_bnd: "f_bnd (2 ^ 32) (f_of_int (uint (w :: u32)))"
  by (rule f_bnd_of_int) (use uint_lt2p [of w] in \<open>auto intro: order_less_imp_le\<close>)

lemma u32_pos: "(0 :: u32) < w \<Longrightarrow> 1 \<le> uint w"
  by (simp add: word_less_def)

lemma sdiv_day: "time_sub a b sdiv day_ns < 2 ^ 53"
proof -
  have "\<bar>x\<bar> div \<bar>day_ns\<bar> \<le> 106752" if "\<bar>x\<bar> \<le> 2 ^ 63" for x
    using zdiv_mono1 [OF that, of "\<bar>day_ns\<bar>"] by (simp add: day_ns_def seconds_def)
  moreover have "\<bar>time_sub a b\<bar> \<le> 2 ^ 63" by (auto simp: time_sub_def min_int_def)
  ultimately have "\<bar>time_sub a b\<bar> div \<bar>day_ns\<bar> \<le> 106752" "0 \<le> \<bar>time_sub a b\<bar> div \<bar>day_ns\<bar>" by (auto simp: day_ns_def seconds_def)
  then show ?thesis by (auto simp: signed_divide_int_def sgn_if)
qed

lemma signals_bnd:
  fixes st cfg now lib
  defines "s \<equiv> computeSignals lib st cfg now"
  shows "sg_settlement_reliability s = Fin (- 1) \<or> f_bnd (2 ^ 32) (sg_settlement_reliability s)"
    and "sg_settlement_reliability s \<noteq> Fin (- 1) \<Longrightarrow> f_bnd 1 (sg_dispute_rate s)"
    and "\<bar>sg_net_flow s\<bar> < 2 ^ 32"
    and "- 8 \<le> sg_balance_cushion_log2 s \<and> sg_balance_cushion_log2 s \<le> 8"
    and "0 \<le> ac_tenure_cap_days cfg \<Longrightarrow> 0 \<le> sg_tenure_days s \<and> sg_tenure_days s \<le> ac_tenure_cap_days cfg"
    and "sg_tenure_days s < 2 ^ 53"
    and "sg_dispute_rate s = Fin (- 1) \<or> f_bnd 1 (sg_dispute_rate s)"
proof -
  note D = s_def computeSignals_def Let_def
  define tot where "tot = fold (\<lambda>b n. n + db_total b) (cs_settlement_buckets st) 0"
  have q: "f_bnd (2 ^ 32) (f_div (f_of_int n) (f_of_int (uint tot)))" if "0 < tot" "0 \<le> n" "n \<le> 2 ^ 32" for n
    by (rule f_div_pos_bnd [OF f_bnd_of_int f_of_int_pos]) (use that u32_pos in auto)
  have rel: "sg_settlement_reliability s = (if tot > 0 then f_div (f_of_int (uint (fold (\<lambda>b n. n + db_a b) (cs_settlement_buckets st) (0 :: u32)))) (f_of_int (uint tot)) else Fin (- 1))"
    by (simp add: D tot_def)
  have u32: "uint (w :: u32) \<le> 2 ^ 32" for w using uint_lt2p [of w] by simp
  show "sg_settlement_reliability s = Fin (- 1) \<or> f_bnd (2 ^ 32) (sg_settlement_reliability s)"
    unfolding rel using q u32 by simp
  define net where "net = (let d = uint (fold (\<lambda>b n. n + db_a b) (cs_dispute_buckets st) (0 :: u32)) - uint (fold (\<lambda>b n. n + db_b b) (cs_dispute_buckets st) (0 :: u32)) in if d < 0 then 0 else d)"
  have n: "0 \<le> net" "net \<le> 2 ^ 32" unfolding net_def Let_def using u32 uint_ge_0 by (smt (verit))+
  have dr: "sg_dispute_rate s = (let rate = f_div (f_of_int net) (f_of_int (uint tot)) in if tot > 0 then (if f_lt (Fin 1) rate then Fin 1 else rate) else Fin (- 1))"
    by (simp add: D tot_def net_def)
  have db: "f_bnd 1 (sg_dispute_rate s)" if t: "0 < tot"
  proof -
    obtain r where "f_div (f_of_int net) (f_of_int (uint tot)) = Fin r" "0 \<le> r" using q [OF t n] by (auto simp: f_bnd_def)
    then show ?thesis using t by (auto simp: dr f_lt_def)
  qed
  show "f_bnd 1 (sg_dispute_rate s)" if "sg_settlement_reliability s \<noteq> Fin (- 1)"
    by (rule db) (use that in \<open>unfold rel, presburger\<close>)
  show "sg_dispute_rate s = Fin (- 1) \<or> f_bnd 1 (sg_dispute_rate s)"
    using db by (cases "0 < tot") (auto simp: dr Let_def)
  show "\<bar>sg_net_flow s\<bar> < 2 ^ 32"
  proof -
    have lt: "uint (w :: u32) < 2 ^ 32" for w using uint_lt2p [of w] by simp
    have "\<bar>uint (a :: u32) - uint (b :: u32)\<bar> < 2 ^ 32" for a b
      using lt [of a] lt [of b] uint_ge_0 [of a] uint_ge_0 [of b] by linarith
    then show ?thesis by (simp add: D)
  qed
  show "- 8 \<le> sg_balance_cushion_log2 s \<and> sg_balance_cushion_log2 s \<le> 8"
    by (simp add: D clampInt_def)
  show "0 \<le> ac_tenure_cap_days cfg \<Longrightarrow> 0 \<le> sg_tenure_days s \<and> sg_tenure_days s \<le> ac_tenure_cap_days cfg"
    by (simp add: D)
  show "sg_tenure_days s < 2 ^ 53"
    using sdiv_day [of now "cs_first_seen_at st"] by (simp add: D)
qed


lemma tenure_norm_bnd:
  assumes "0 \<le> d" "d < 2 ^ 53" "1 \<le> c"
  shows "f_bnd 1 (f_min (Fin 1) (f_div (f_of_int d) (f_of_int c)))"
proof -
  have "f_bnd d (f_div (f_of_int d) (f_of_int c))"
    by (rule f_div_pos_bnd [OF f_of_int_nat f_of_int_pos]) (use assms in auto)
  then show ?thesis by (auto simp: f_bnd_def [of d] f_min_def)
qed

lemma score_unit:
  assumes "weights_ok (ac_score_weights cfg)" "exp_ok lib" "f_in_unit (ac_trial_tier_score cfg)" 
  shows "f_in_unit (fst (ComputeLocalScore lib ost cfg now))"
proof (cases ost)
  case None
  then show ?thesis using assms by (simp add: ComputeLocalScore_def)
next
  case (Some st)
  let ?w = "ac_score_weights cfg"
  let ?s = "computeSignals lib st cfg now"
  define tn where "tn = (if ac_tenure_cap_days cfg > 0
           then f_min (Fin 1) (f_div (f_of_int (sg_tenure_days ?s)) (f_of_int (ac_tenure_cap_days cfg))) else Fin 0)"
  define nf where "nf = sigmoid lib (f_div (f_of_int (sg_net_flow ?s)) (f_of_int (maxInt 1 (ac_net_flow_normalization_constant cfg))))"
  define cn where "cn = f_div (f_of_int (sg_balance_cushion_log2 ?s + 8)) (Fin 16)"
  have w: "f_bnd 2 (aw_settlement_reliability ?w)" "f_bnd 2 (aw_inverse_dispute_rate ?w)" "f_bnd 2 (aw_tenure ?w)"
    "f_bnd 2 (aw_net_credit_flow ?w)" "f_bnd 2 (aw_balance_cushion ?w)"
    "f_le (Fin (1 / 1024)) (f_add (f_add (aw_tenure ?w) (aw_net_credit_flow ?w)) (aw_balance_cushion ?w))"
    using assms(1) by (auto simp: weights_ok_def)
  have tn: "f_bnd 1 tn" unfolding tn_def using signals_bnd(5) [of cfg lib st now] signals_bnd(6) [of lib st cfg now] tenure_norm_bnd by auto
  have nf: "f_bnd 1 nf" unfolding nf_def
  proof (rule sigmoid_bnd [OF assms(2)])
    obtain r where r: "f_of_int (sg_net_flow ?s) = Fin r" using f_of_int_small [of "sg_net_flow ?s"] signals_bnd(3) [of lib st cfg now] by auto
    show "f_div (f_of_int (sg_net_flow ?s)) (f_of_int (maxInt 1 (ac_net_flow_normalization_constant cfg))) \<noteq> NaN"
      by (rule f_div_not_NaN [OF r f_of_int_pos]) (simp add: maxInt_def)
  qed
  have cn: "f_bnd 1 cn" unfolding cn_def
    using f_bnd_div [of 16 1 _ 16] f_bnd_of_int [of "sg_balance_cushion_log2 ?s + 8" 16] signals_bnd(4) [of lib st cfg now] by auto
  have three: "f_bnd 2 (f_mul (aw_tenure ?w) tn)" "f_bnd 2 (f_mul (aw_net_credit_flow ?w) nf)" "f_bnd 2 (f_mul (aw_balance_cushion ?w) cn)"
    using f_bnd_mul [OF w(3) tn] f_bnd_mul [OF w(4) nf] f_bnd_mul [OF w(5) cn] by auto
  show ?thesis
  proof (cases "f_lt (sg_settlement_reliability ?s) (Fin 0)")
    case True
    let ?d = "f_add (f_add (aw_tenure ?w) (aw_net_credit_flow ?w)) (aw_balance_cushion ?w)"
    let ?u = "f_add (aw_settlement_reliability ?w) (aw_inverse_dispute_rate ?w)"
    have u: "f_bnd 4 ?u" using f_bnd_add [OF w(1,2)] by simp
    have d: "f_bnd 6 ?d" using f_bnd_add [OF f_bnd_add [OF w(3,4)] w(5)] by simp
    obtain dd where dd: "?d = Fin dd" "1 / 1024 \<le> dd" using d w(6) by (auto simp: f_bnd_def)
    obtain uu where uu: "?u = Fin uu" "0 \<le> uu" "uu \<le> 4" using u by (auto simp: f_bnd_def)
    have "f_bnd 4096 (f_div ?u ?d)"
    proof -
      have "uu / dd \<le> of_int 4096" using dd(2) uu by (simp add: pos_divide_le_eq)
      then show ?thesis using dd uu round64_bnd [of "uu / dd" 4096] by auto
    qed
    then have f: "f_bnd 4097 (f_add (Fin 1) (f_div ?u ?d))" using f_bnd_add [of 1 "Fin 1" 4096] by auto
    have "f_bnd 6 (f_add (f_add (f_mul (aw_tenure ?w) tn) (f_mul (aw_net_credit_flow ?w) nf)) (f_mul (aw_balance_cushion ?w) cn))"
      using f_bnd_add [OF f_bnd_add [OF three(1,2)] three(3)] by simp
    then have "f_mul (f_add (Fin 1) (f_div ?u ?d)) (f_add (f_add (f_mul (aw_tenure ?w) tn) (f_mul (aw_net_credit_flow ?w) nf)) (f_mul (aw_balance_cushion ?w) cn)) \<noteq> NaN"
      using f_bnd_not_NaN [OF f_bnd_mul [OF f]] by simp
    then show ?thesis using True assms(3) clamp01_unit
      by (simp add: ComputeLocalScore_def Some Let_def tn_def [symmetric] nf_def [symmetric] cn_def [symmetric])
  next
    case False
    then have ne: "sg_settlement_reliability ?s \<noteq> Fin (- 1)" by (auto simp: f_lt_def)
    have rel: "f_bnd (2 ^ 32) (sg_settlement_reliability ?s)" "f_bnd 1 (sg_dispute_rate ?s)"
      using signals_bnd(1,2) [of lib st cfg now] ne by blast+
    then obtain r where r: "sg_dispute_rate ?s = Fin r" "0 \<le> r" "r \<le> 1" by (auto simp: f_bnd_def)
    have inv: "f_bnd 1 (f_sub (Fin 1) (sg_dispute_rate ?s))" using r by (auto simp: f_sub_def intro!: round64_bnd)
    have a: "f_bnd (2 * 2 ^ 32) (f_mul (aw_settlement_reliability ?w) (sg_settlement_reliability ?s))" using f_bnd_mul [OF w(1) rel(1)] by simp
    have b: "f_bnd 2 (f_mul (aw_inverse_dispute_rate ?w) (f_sub (Fin 1) (sg_dispute_rate ?s)))" using f_bnd_mul [OF w(2) inv] by simp
    have "f_add (f_add (f_add (f_add (f_mul (aw_settlement_reliability ?w) (sg_settlement_reliability ?s))
        (f_mul (aw_inverse_dispute_rate ?w) (f_sub (Fin 1) (sg_dispute_rate ?s)))) (f_mul (aw_tenure ?w) tn))
        (f_mul (aw_net_credit_flow ?w) nf)) (f_mul (aw_balance_cushion ?w) cn) \<noteq> NaN"
      by (rule f_bnd_not_NaN, rule f_bnd_add [OF f_bnd_add [OF f_bnd_add [OF f_bnd_add [OF a b] three(1)] three(2)] three(3)]) simp_all
    then show ?thesis using False clamp01_unit
      by (simp add: ComputeLocalScore_def Some Let_def tn_def [symmetric] nf_def [symmetric] cn_def [symmetric])
  qed
qed

end
