(* ===== verification/TB_Admission_Spec.thy ===== *)
theory TB_Admission_Spec
  imports TB_Admission TB_Score_Spec
begin

text \<open>
  The admission subsystem: the queue as a multiset with a priority order, the invariant of all its
  operations, what a decision returns, attestations issued and imported, and the issuance limit.
\<close>

section \<open>The queue order\<close>

interpretation aging: weak_order "queue_Less now alpha" "{e. EffectivePriority e now alpha \<noteq> NaN}" for now alpha
proof unfold_locales
  fix a b c :: QueueEntry
  show "\<not> queue_Less now alpha b a" if "queue_Less now alpha a b"
    using that f_lt_irrefl [of "EffectivePriority a now alpha"] unfolding queue_Less_def by (blast intro: f_lt_trans)
  assume "a \<in> {e. EffectivePriority e now alpha \<noteq> NaN}" "b \<in> {e. EffectivePriority e now alpha \<noteq> NaN}"
    "c \<in> {e. EffectivePriority e now alpha \<noteq> NaN}" "\<not> queue_Less now alpha a b" "\<not> queue_Less now alpha b c"
  then show "\<not> queue_Less now alpha a c" by (auto simp: queue_Less_def f_lt_def intro: f_le_trans)
qed

definition score_ok :: "QueueEntry \<Rightarrow> bool" where
  "score_ok e \<longleftrightarrow> f_in_unit (qe_credit_score e)"

lemma minutes_bnd: "0 \<le> d \<Longrightarrow> d < 2 ^ 63 \<Longrightarrow> f_bnd (2 ^ 37) (dur_minutes d)"
proof -
  assume d: "0 \<le> d" "d < 2 ^ 63"
  have "d div minute_ns \<le> (2 ^ 63) div minute_ns" by (rule zdiv_mono1) (use d in \<open>auto simp: minute_ns_def\<close>)
  then have 1: "f_bnd (2 ^ 28) (f_of_int (d div minute_ns))"
    using d by (intro f_bnd_of_int) (auto simp: minute_ns_def)
  have 2: "f_bnd 60000000000 (f_div (f_of_int (d mod minute_ns)) (f_of_int minute_ns))"
    by (rule f_div_pos_bnd [OF f_bnd_of_int f_of_int_pos]) (simp_all add: minute_ns_def order_less_imp_le)
  show ?thesis unfolding dur_minutes_def by (rule f_bnd_mono [OF f_bnd_add [OF 1 2]]) simp_all
qed

lemma priority_bnd:
  assumes "score_ok e" "f_bnd 1000 alpha"
  shows "f_bnd (2 ^ 50) (EffectivePriority e now alpha)"
proof -
  define w where "w = (if time_sub now (qe_enqueued_at e) < 0 then 0 else time_sub now (qe_enqueued_at e))"
  have "f_bnd (2 ^ 37) (dur_minutes w)" by (rule minutes_bnd) (auto simp: w_def time_sub_def min_int_def)
  then have m: "f_bnd (1000 * 2 ^ 37) (f_mul alpha (dur_minutes w))" by (rule f_bnd_mul [OF assms(2)]) simp
  have c: "f_bnd 1 (qe_credit_score e)" using assms(1) by (simp add: score_ok_def f_bnd_unit)
  have "EffectivePriority e now alpha = f_add (qe_credit_score e) (f_mul alpha (dur_minutes w))"
    by (simp add: EffectivePriority_def Let_def w_def)
  then show ?thesis using f_bnd_mono [OF f_bnd_add [OF c m], of "2 ^ 50"] by simp
qed

lemma priority_carrier: "\<forall>e\<in>set es. score_ok e \<Longrightarrow> f_bnd 1000 alpha \<Longrightarrow> set es \<subseteq> {e. EffectivePriority e now alpha \<noteq> NaN}"
  using priority_bnd f_bnd_not_NaN by blast

lemma not_Less: "score_ok a \<Longrightarrow> score_ok b \<Longrightarrow> f_bnd 1000 alpha \<Longrightarrow> \<not> queue_Less now alpha a b \<Longrightarrow>
   f_le (EffectivePriority a now alpha) (EffectivePriority b now alpha)"
  using f_bnd_not_NaN priority_bnd by (fastforce simp: queue_Less_def f_lt_def)

section \<open>What an operation does to the queue, as a multiset\<close>

lemma queue_Push_mset [simp]: "mset (qh_entries (queue_Push e q)) = add_mset e (mset (qh_entries q))"
  by (simp add: queue_Push_def heap_Push_mset)

lemma heap_Pop_mset:
  assumes "xs \<noteq> []" "heap_Pop lt xs = (x, ys)"
  shows "mset xs = add_mset x (mset ys)"
proof -
  let ?n = "length xs - 1"
  let ?d = "heap_down lt (swap_at 0 ?n xs) 0 ?n"
  have n: "0 < length xs" "?n < length xs" using assms(1) by auto
  have d: "mset ?d = mset xs" "length ?d = length xs" using heap_down_mset [of ?n "swap_at 0 ?n xs" lt 0] mset_swap_at [OF n] by simp_all
  have "x = ?d ! ?n" "ys = take ?n ?d" using assms(2) by (auto simp: heap_Pop_def Let_def)
  moreover have "?d = take ?n ?d @ [?d ! ?n]" using d(2) n
    by (metis Suc_pred' order_refl take_Suc_conv_app_nth take_all_iff)
  ultimately show ?thesis using d(1) by (metis add_mset_add_single mset.simps mset_append)
qed

lemma queue_Pop_mset:
  assumes "qh_entries q \<noteq> []" "queue_Pop q = (e, q')"
  shows "mset (qh_entries q) = add_mset e (mset (qh_entries q'))" "qh_now q' = qh_now q" "qh_aging_alpha q' = qh_aging_alpha q"
  using assms heap_Pop_mset [OF assms(1)] by (auto simp: queue_Pop_def split: prod.splits)

lemma Reheapify_mset [simp]: "mset (qh_entries (Reheapify q)) = mset (qh_entries q)"
  by (simp add: Reheapify_def heap_Init_mset)

lemma AdvanceTime_simps [simp]: "qh_entries (AdvanceTime t q) = qh_entries q" "qh_now (AdvanceTime t q) = t"
  "qh_aging_alpha (AdvanceTime t q) = qh_aging_alpha q"
  by (simp_all add: AdvanceTime_def)

lemma alpha_simps [simp]: "qh_aging_alpha (queue_Push e q) = qh_aging_alpha q" "qh_aging_alpha (Reheapify q) = qh_aging_alpha q"
  "qh_now (queue_Push e q) = qh_now q"
  by (simp_all add: queue_Push_def Reheapify_def)

section \<open>Popping in priority order\<close>

text \<open>The heap order at the instant the queue was last advanced to.\<close>

definition queue_ordered :: "queueHeap \<Rightarrow> bool" where
  "queue_ordered q \<longleftrightarrow> is_heap (queue_Less (qh_now q) (qh_aging_alpha q)) (qh_entries q)"

text \<open>The priority without rounding.\<close>

definition exact_priority :: "QueueEntry \<Rightarrow> time \<Rightarrow> float64 \<Rightarrow> bool" where
  "exact_priority e now alpha \<longleftrightarrow> (case (qe_credit_score e, alpha) of
     (Fin c, Fin a) \<Rightarrow> EffectivePriority e now alpha = Fin (c + a * (of_int (now - qe_enqueued_at e) / of_int minute_ns))
   | _ \<Rightarrow> False)"

lemma exact_Less:
  assumes "exact_priority x t alpha" "exact_priority y t alpha" "exact_priority x t' alpha" "exact_priority y t' alpha"
  shows "queue_Less t alpha x y = queue_Less t' alpha x y"
proof -
  obtain c d a where "qe_credit_score x = Fin c" "qe_credit_score y = Fin d" "alpha = Fin a"
    using assms by (auto simp: exact_priority_def split: float64.splits)
  then show ?thesis using assms by (auto simp: exact_priority_def queue_Less_def f_lt_def diff_divide_distrib algebra_simps)
qed

lemma is_heap_cong:
  assumes "\<And>x y. x \<in> set xs \<Longrightarrow> y \<in> set xs \<Longrightarrow> lt x y = lt' x y"
  shows "is_heap lt xs = is_heap lt' xs"
proof -
  have "lt (xs ! k) (xs ! ((k - 1) div 2)) = lt' (xs ! k) (xs ! ((k - 1) div 2))" if "k < length xs" for k
    using assms that by simp
  then show ?thesis by (simp add: is_heap_def node_ok_def)
qed

lemma AdvanceTime_ordered:
  assumes "queue_ordered q" "\<forall>e\<in>set (qh_entries q). exact_priority e (qh_now q) (qh_aging_alpha q) \<and> exact_priority e now (qh_aging_alpha q)"
  shows "queue_ordered (AdvanceTime now q)"
proof -
  have "is_heap (queue_Less (qh_now q) (qh_aging_alpha q)) (qh_entries q) = is_heap (queue_Less now (qh_aging_alpha q)) (qh_entries q)"
    by (rule is_heap_cong) (use exact_Less assms(2) in blast)
  then show ?thesis using assms(1) by (simp add: queue_ordered_def)
qed

lemma queue_Pop_best:
  assumes "queue_ordered q" "\<forall>e\<in>set (qh_entries q). score_ok e" "f_bnd 1000 (qh_aging_alpha q)" "qh_entries q \<noteq> []" "queue_Pop q = (e, q')"
  shows "queue_ordered q' \<and> queue_Peek q = Some e \<and> (\<forall>z\<in>set (qh_entries q). f_le (EffectivePriority z (qh_now q) (qh_aging_alpha q)) (EffectivePriority e (qh_now q) (qh_aging_alpha q)))"
proof -
  let ?lt = "queue_Less (qh_now q) (qh_aging_alpha q)"
  obtain es where es: "heap_Pop ?lt (qh_entries q) = (e, es)" "q' = q\<lparr>qh_entries := es\<rparr>"
    using assms(4,5) by (auto simp: queue_Pop_def split: prod.splits)
  note P = aging.Pop_ok [OF priority_carrier [OF assms(2,3)] assms(1) [unfolded queue_ordered_def] assms(4) es(1)]
  have e: "e \<in> set (qh_entries q)" using P by (metis set_mset_mset union_single_eq_member)
  have "queue_Peek q = Some e" using P assms(4) by (auto simp: queue_Peek_def split: list.splits)
  moreover have "f_le (EffectivePriority z (qh_now q) (qh_aging_alpha q)) (EffectivePriority e (qh_now q) (qh_aging_alpha q))"
    if "z \<in> set (qh_entries q)" for z
    by (rule not_Less) (use that e assms(2,3) P in auto)
  ultimately show ?thesis using P es(2) by (simp add: queue_ordered_def)
qed

lemma queue_head_best:
  assumes "queue_ordered q" "\<forall>e\<in>set (qh_entries q). score_ok e" "f_bnd 1000 (qh_aging_alpha q)" "queue_Peek q = Some h" "z \<in> set (qh_entries q)"
  shows "f_le (EffectivePriority z (qh_now q) (qh_aging_alpha q)) (EffectivePriority h (qh_now q) (qh_aging_alpha q))"
proof -
  have ne: "qh_entries q \<noteq> []" using assms(5) by auto
  obtain e q' where "queue_Pop q = (e, q')" by fastforce
  from queue_Pop_best [OF assms(1-3) ne this] show ?thesis using assms(4,5) by auto
qed

section \<open>Resolved scores\<close>

definition adm_env_ok :: "adm_env \<Rightarrow> bool" where
  "adm_env_ok env \<longleftrightarrow> weights_ok (ac_score_weights (av_cfg env)) \<and> exp_ok (av_math env) \<and>
     f_in_unit (ac_trial_tier_score (av_cfg env)) \<and> f_in_unit (ac_max_attestation_score_imported (av_cfg env)) \<and>
     f_bnd 1000 (ac_aging_alpha_per_minute (av_cfg env)) \<and> 0 < ac_queue_cap (av_cfg env)"

lemma u32_le_uint: "(w :: u32) \<le> 10000 \<Longrightarrow> uint w \<le> 10000"
  by (simp add: word_le_def)

lemma attested_bnd: "(w :: u32) \<le> 10000 \<Longrightarrow> f_bnd 1 (f_div (f_of_int (uint w)) (Fin 10000))"
  using f_bnd_div [of 10000 1 "f_of_int (uint w)" 10000] f_bnd_of_int [of "uint w" 10000] u32_le_uint [of w] by simp

lemma tryAttestation_SomeD:
  assumes "tryAttestation cr enc peers cfg att now = Some score"
  obtains b where "sa_body att = Some b" "ValidateCreditAttestationBody (Some b) = None" "peers (cb_issuer_tracker_id b)"
    "0 \<le> unix now" "of_int (unix now) < cb_expires_at b" "VerifyCreditAttestation cr enc (cb_issuer_tracker_id b) (Some att)"
    "score = (let q = f_div (f_of_int (uint (cb_score b))) (Fin 10000) in
       if f_lt (ac_max_attestation_score_imported cfg) q then ac_max_attestation_score_imported cfg else q)"
  using assms by (auto simp: tryAttestation_def Let_def not_less not_le split: option.splits if_splits)

lemma tryAttestation_unit:
  assumes "tryAttestation cr enc peers cfg att now = Some score" "f_in_unit (ac_max_attestation_score_imported cfg)"
  shows "f_in_unit score \<and> f_le score (ac_max_attestation_score_imported cfg)"
proof -
  obtain b where b: "ValidateCreditAttestationBody (Some b) = None" and
    s: "score = (let q = f_div (f_of_int (uint (cb_score b))) (Fin 10000) in
       if f_lt (ac_max_attestation_score_imported cfg) q then ac_max_attestation_score_imported cfg else q)"
    using assms(1) by (rule tryAttestation_SomeD)
  have "f_bnd 1 (f_div (f_of_int (uint (cb_score b))) (Fin 10000))" using b attested_bnd by (simp add: valid_attestation)
  then show ?thesis using assms(2) unfolding s Let_def f_bnd_unit f_lt_def by (auto simp: f_bnd_def)
qed

lemma resolve_unit:
  assumes "weights_ok (ac_score_weights cfg)" "exp_ok lib" "f_in_unit (ac_trial_tier_score cfg)" "f_in_unit (ac_max_attestation_score_imported cfg)"
  shows "f_in_unit (fst (resolveCreditScore cr enc lib peers cfg m c oatt now))"
proof (cases "Option.bind oatt (\<lambda>att. tryAttestation cr enc peers cfg att now)")
  case None
  have "f_in_unit score" if "ComputeLocalScore lib (Some st) cfg now = (score, sigs)" for st score sigs
    using score_unit [OF assms(1-3), of "Some st" now] that by simp
  then show ?thesis using None assms(3) by (auto simp: resolveCreditScore_def split: option.splits prod.splits)
next
  case (Some score)
  then obtain att where "tryAttestation cr enc peers cfg att now = Some score" by (auto simp: bind_eq_Some_conv)
  from tryAttestation_unit [OF this assms(4)] show ?thesis using Some by (simp add: resolveCreditScore_def)
qed

section \<open>Steps of the subsystem\<close>

inductive adm_step :: "adm_env \<Rightarrow> Subsystem \<Rightarrow> Subsystem \<Rightarrow> bool" for env where
  decide: "Decide env rid jitter c att now s = (res, s') \<Longrightarrow> adm_step env s s'"
| pop: "PopReadyForBroker env now minp s = (r, s') \<Longrightarrow> adm_step env s s'"
| drain: "drainTopN n s = Some (out, s') \<Longrightarrow> adm_step env s s'"
| eject: "ejectQueue rid s = (k, s') \<Longrightarrow> adm_step env s s'"
| aggregate: "runAggregatorOnce env records now s = s' \<Longrightarrow> adm_step env s s'"
| issue: "IssueAttestation env c now s = (r, s') \<Longrightarrow> adm_step env s s'"
| ledger: "adm_step env s (s\<lparr>sb_store := OnLedgerEvent io ev (sb_store s)\<rparr>)"
| snapshot: "adm_step env s (s\<lparr>sb_store := snd (runSnapshotEmitOnce written io now retained path files (sb_store s))\<rparr>)"
| override: "writeOperatorOverride io op1 action params now s = (ok, s') \<Longrightarrow> adm_step env s s'"
| blocklist: "adm_step env s (s\<lparr>sb_blocklist := bl\<rparr>)"

definition queue_inv :: "AdmissionConfig \<Rightarrow> queueHeap \<Rightarrow> bool" where
  "queue_inv cfg q \<longleftrightarrow> qh_aging_alpha q = ac_aging_alpha_per_minute cfg \<and> int (length (qh_entries q)) \<le> ac_queue_cap cfg \<and>
     (\<forall>e\<in>set (qh_entries q). score_ok e)"

definition limiter_inv :: "AdmissionConfig \<Rightarrow> rateLimiter \<Rightarrow> bool" where
  "limiter_inv cfg rl \<longleftrightarrow> rl_cap rl = ac_attestation_issuance_per_consumer_per_hour cfg \<and> rl_window rl = seconds 3600 \<and>
     (0 < rl_cap rl \<longrightarrow> (\<forall>i. int (length (rl_events rl i)) \<le> rl_cap rl))"

definition adm_inv :: "adm_env \<Rightarrow> Subsystem \<Rightarrow> bool" where
  "adm_inv env s \<longleftrightarrow> (adm_env_ok env \<longrightarrow> queue_inv (av_cfg env) (sb_queue s)) \<and> limiter_inv (av_cfg env) (sb_attest_rl s)"

lemma mset_set_length: "mset xs = mset ys \<Longrightarrow> set xs = set ys \<and> length xs = length ys"
  using mset_eq_setD mset_eq_length by blast

lemma add_mset_set_length: "mset xs = add_mset e (mset ys) \<Longrightarrow> set xs = insert e (set ys) \<and> length xs = Suc (length ys)"
  using mset_set_length [of xs "e # ys"] by simp

lemma queue_inv_drop:
  assumes "queue_inv cfg q" "mset (qh_entries q) = add_mset e (mset (qh_entries q'))" "qh_aging_alpha q' = qh_aging_alpha q"
  shows "queue_inv cfg q'"
  using assms add_mset_set_length [OF assms(2)] by (auto simp: queue_inv_def)

lemma drain_inv: "drain_loop n q = (es, q') \<Longrightarrow> queue_inv cfg q \<Longrightarrow> queue_inv cfg q'"
proof (induction n arbitrary: q es)
  case (Suc n)
  show ?case
  proof (cases "qh_entries q = []")
    case False
    obtain e q1 where p: "queue_Pop q = (e, q1)" by fastforce
    obtain es2 where "drain_loop n q1 = (es2, q')" using Suc.prems(1) False p by (auto split: prod.splits)
    then show ?thesis using Suc.IH queue_inv_drop [OF Suc.prems(2) queue_Pop_mset(1) [OF False p] queue_Pop_mset(3) [OF False p]] by blast
  qed (use Suc.prems in simp)
qed simp

lemma queue_inv_Push:
  assumes "queue_inv cfg q" "score_ok e" "int (length (qh_entries q)) < ac_queue_cap cfg"
  shows "queue_inv cfg (queue_Push e q)"
  using assms add_mset_set_length [OF queue_Push_mset [of e q]] by (auto simp: queue_inv_def)

lemma queue_inv_Advance [simp]: "queue_inv cfg (AdvanceTime now q) = queue_inv cfg q"
  by (simp add: queue_inv_def)

lemma Decide_inv:
  assumes "Decide env rid jitter c att now s = (res, s')" "queue_inv (av_cfg env) (sb_queue s)" "adm_env_ok env"
  shows "queue_inv (av_cfg env) (sb_queue s')"
proof -
  have "f_in_unit (fst (resolveCreditScore (av_crypto env) (av_enc env) (av_math env) (av_peers env) (av_cfg env) (ad_consumers (sb_store s)) c att now))"
    by (rule resolve_unit) (use assms(3) in \<open>auto simp: adm_env_ok_def\<close>)
  then show ?thesis using assms by (auto simp: Decide_def Let_def score_ok_def split: if_splits intro!: queue_inv_Push)
qed

lemma Pop_cases:
  assumes "PopReadyForBroker env now minp s = (r, s')"
  obtains "r = None" "sb_queue s' = AdvanceTime now (sb_queue s)"
    "case queue_Peek (sb_queue s) of None \<Rightarrow> True | Some h \<Rightarrow> f_lt (EffectivePriority h now (ac_aging_alpha_per_minute (av_cfg env))) minp"
    "sb_attest_rl s' = sb_attest_rl s"
  | e h where "r = Some e" "qh_entries (sb_queue s) \<noteq> []" "queue_Pop (AdvanceTime now (sb_queue s)) = (e, sb_queue s')"
    "queue_Peek (sb_queue s) = Some h" "\<not> f_lt (EffectivePriority h now (ac_aging_alpha_per_minute (av_cfg env))) minp"
    "sb_attest_rl s' = sb_attest_rl s"
  using assms by (auto simp: PopReadyForBroker_def Let_def queue_Peek_def split: list.splits if_splits prod.splits)

lemma allow_inv: "allow i now rl = (ok, rl') \<Longrightarrow> limiter_inv cfg rl \<Longrightarrow> limiter_inv cfg rl'"
proof -
  assume a: "allow i now rl = (ok, rl')" "limiter_inv cfg rl"
  let ?p = "filter (\<lambda>t. t > now - rl_window rl) (rl_events rl i)"
  have p: "int (length ?p) \<le> int (length (rl_events rl i))" by simp
  have "rl' = rl \<or> (0 < rl_cap rl \<and> (\<exists>es. rl' = rl\<lparr>rl_events := (rl_events rl)(i := es)\<rparr> \<and>
      (es = ?p \<or> es = ?p @ [now] \<and> int (length ?p) < rl_cap rl)))"
    using a(1) by (auto simp: allow_def Let_def not_le split: if_splits)
  moreover have "int (length ?p) \<le> rl_cap rl" if "0 < rl_cap rl"
    using a(2) that p unfolding limiter_inv_def by (metis order_trans)
  ultimately show "limiter_inv cfg rl'" using a(2) unfolding limiter_inv_def by auto
qed

lemma Issue_state:
  assumes "IssueAttestation env c now s = (r, s')"
  shows "sb_queue s' = sb_queue s \<and> (sb_attest_rl s' = sb_attest_rl s \<or> (\<exists>ok. allow c now (sb_attest_rl s) = (ok, sb_attest_rl s')))"
  using assms by (auto simp: IssueAttestation_def Let_def split: option.splits prod.splits if_splits sum.splits)

lemma adm_step_inv: "adm_step env s s' \<Longrightarrow> adm_inv env s \<Longrightarrow> adm_inv env s'"
proof (induction rule: adm_step.induct)
  case (decide rid jitter c att now s res s')
  then have "sb_attest_rl s' = sb_attest_rl s" by (auto simp: Decide_def Let_def split: if_splits)
  then show ?case using decide Decide_inv by (auto simp: adm_inv_def)
next
  case (pop now minp s r s')
  from pop(1) show ?case
  proof (cases rule: Pop_cases)
    case (2 e h)
    have q: "queue_inv (av_cfg env) (sb_queue s')" if "queue_inv (av_cfg env) (AdvanceTime now (sb_queue s))"
      using queue_inv_drop [OF that queue_Pop_mset(1) [OF _ 2(3)] queue_Pop_mset(3) [OF _ 2(3)]] 2(2) by simp
    then show ?thesis using pop(2) 2 by (simp add: adm_inv_def)
  qed (use pop(2) in \<open>simp add: adm_inv_def\<close>)
next
  case (drain n s out s')
  then show ?case using drain_inv by (fastforce simp: adm_inv_def drainTopN_def split: if_splits prod.splits)
next
  case (eject rid s k s')
  have "queue_inv cfg (Reheapify (q\<lparr>qh_entries := filter P (qh_entries q)\<rparr>))" if "queue_inv cfg q" for cfg q P
    using that mset_set_length [OF Reheapify_mset [of "q\<lparr>qh_entries := filter P (qh_entries q)\<rparr>"]] length_filter_le [of P "qh_entries q"]
    by (auto simp: queue_inv_def simp del: length_filter_le)
  then show ?case using eject by (auto simp: ejectQueue_def adm_inv_def Let_def)
next
  case (aggregate records now s s')
  then show ?case by (auto simp: runAggregatorOnce_def adm_inv_def Let_def split: prod.splits)
next
  case (issue c now s r s')
  then show ?case using Issue_state [OF issue(1)] allow_inv by (fastforce simp: adm_inv_def)
next
  case (override io op1 action params now s ok s')
  then show ?case by (auto simp: writeOperatorOverride_def adm_inv_def Let_def split: option.splits prod.splits)
qed (simp_all add: adm_inv_def)

definition adm_start :: "adm_env \<Rightarrow> Subsystem" where
  "adm_start env = \<lparr>sb_store = \<lparr>ad_consumers = Map.empty, ad_next_seq = 0, ad_tlog = None, ad_replaying = False,
       ad_degraded = False, ad_tlog_corruptions = 0\<rparr>,
     sb_queue = newQueueHeap zero_time (ac_aging_alpha_per_minute (av_cfg env)), sb_supply = None,
     sb_demand = \<lparr>dt_rate_ewma = Fin 0, dt_last_tick = zero_time\<rparr>,
     sb_attest_rl = newRateLimiter (ac_attestation_issuance_per_consumer_per_hour (av_cfg env)), sb_blocklist = {}\<rparr>"

lemma Open_inv: "Admission_Open (av_cfg env) priv tlog = Inr s \<Longrightarrow> adm_inv env s"
  by (auto simp: Admission_Open_def adm_inv_def queue_inv_def newQueueHeap_def limiter_inv_def newRateLimiter_def adm_env_ok_def
      split: if_splits option.splits)

lemma adm_start_inv: "adm_inv env (adm_start env)"
  by (simp add: adm_start_def adm_inv_def queue_inv_def newQueueHeap_def limiter_inv_def newRateLimiter_def adm_env_ok_def)

interpretation admission: invariant_system "adm_start env" "adm_step env" "adm_inv env" for env
  by unfold_locales (fact adm_start_inv, rule adm_step_inv)

section \<open>Fixed-point fields of an issued attestation\<close>

lemma fixed_point_bnd:
  assumes "f_bnd 1 v"
  shows "f_to_u32 (f_round (f_mul v (Fin 10000))) \<le> 10000"
proof -
  have "f_bnd (1 * 10000) (f_mul v (Fin 10000))" by (rule f_bnd_mul [OF assms]) simp_all
  then obtain r where r: "f_mul v (Fin 10000) = Fin r" "0 \<le> r" "r \<le> 10000" by (auto simp: f_bnd_def)
  define n where "n = \<lfloor>r + 1 / 2\<rfloor>"
  have n: "0 \<le> n" "n \<le> 10000" unfolding n_def using r by linarith+
  have "f_to_u32 (f_round (f_mul v (Fin 10000))) = of_int n"
    using r n by (simp add: n_def [symmetric] f_to_u32_def Let_def is_i64_def)
  then show ?thesis using n by (simp add: word_le_def uint_word_of_int take_bit_int_eq_self)
qed

lemma fixed_point_signal: "v = Fin (- 1) \<or> f_bnd n v \<Longrightarrow> nonNegativeFixedPoint v \<le> 10000"
proof -
  assume v: "v = Fin (- 1) \<or> f_bnd n v"
  have "f_bnd 1 (if f_lt (Fin 1) v then Fin 1 else v)" if "\<not> f_lt v (Fin 0)"
    using v that by (auto simp: f_bnd_def f_lt_def)
  then show ?thesis using fixed_point_bnd by (simp add: nonNegativeFixedPoint_def Let_def)
qed

lemma unix_add_seconds: "unix (t + seconds n) = unix t + n"
  by (simp add: unix_def seconds_def)

lemma u64_of_int: "0 \<le> n \<Longrightarrow> n < 2 ^ 64 \<Longrightarrow> uint (of_int n :: u64) = n"
  by (simp add: uint_word_of_int take_bit_int_eq_self)

lemma issued_body_valid:
  assumes "adm_env_ok env" "length c = 32" "length (av_tracker_id env) = 32"
    "0 \<le> ac_tenure_cap_days (av_cfg env)" "ac_tenure_cap_days (av_cfg env) \<le> 365"
    "0 < ac_attestation_ttl_seconds (av_cfg env)" "ac_attestation_ttl_seconds (av_cfg env) \<le> 604800"
    "0 < unix now" "unix now < 2 ^ 62" "ComputeLocalScore (av_math env) (Some st) (av_cfg env) now = (score, sigs)"
  shows "ValidateCreditAttestationBody (Some (attestation_body env c now score sigs)) = None"
proof -
  let ?ttl = "ac_attestation_ttl_seconds (av_cfg env)"
  have sigs: "sigs = computeSignals (av_math env) st (av_cfg env) now"
    using assms(10) by (auto simp: ComputeLocalScore_def Let_def split: if_splits)
  note B = signals_bnd [where lib = "av_math env" and st = st and cfg = "av_cfg env" and now = now]
  have "f_in_unit score" using score_unit [of "av_cfg env" "av_math env" "Some st" now] assms(1,10) by (simp add: adm_env_ok_def)
  then have s: "f_to_u32 (f_round (f_mul score (Fin 10000))) \<le> 10000" using fixed_point_bnd by (simp add: f_bnd_unit)
  have rel: "nonNegativeFixedPoint (sg_settlement_reliability sigs) \<le> 10000" unfolding sigs by (rule fixed_point_signal) (rule B(1))
  have dis: "nonNegativeFixedPoint (sg_dispute_rate sigs) \<le> 10000" unfolding sigs by (rule fixed_point_signal) (rule B(7))
  have "0 \<le> sg_tenure_days sigs" "sg_tenure_days sigs \<le> 365" using B(5) assms(4,5) unfolding sigs by auto
  then have ten: "(of_int (sg_tenure_days sigs) :: u32) \<le> 365" by (simp add: word_le_def uint_word_of_int take_bit_int_eq_self)
  have u: "uint (of_int (unix now) :: u64) = unix now" "uint (of_int (unix now + ?ttl) :: u64) = unix now + ?ttl"
    by (rule u64_of_int; use assms(6-9) in simp)+
  have d: "(of_int (unix now + ?ttl) :: u64) - of_int (unix now) = of_int ?ttl" by simp
  have "uint (of_int ?ttl :: u64) = ?ttl" using assms(6,7) by (intro u64_of_int) auto
  then have ttl: "(of_int (unix now + ?ttl) :: u64) - of_int (unix now) \<le> 604800"
    unfolding d using assms(7) by (simp add: word_le_def)
  have lt: "(of_int (unix now) :: u64) < of_int (unix now + ?ttl)" unfolding word_less_def u using assms(6) by simp
  have nz: "(of_int (unix now) :: u64) \<noteq> 0"
  proof
    assume "(of_int (unix now) :: u64) = 0"
    then have "uint (of_int (unix now) :: u64) = 0" by simp
    then show False using u(1) assms(8) by simp
  qed
  show ?thesis
    unfolding valid_attestation attestation_body_def
    using assms(2,3) s rel dis ten B(4) ttl lt nz by (simp add: sigs [symmetric] unix_add_seconds)
qed

section \<open>Sliding windows\<close>

fun run_allow :: "(ident \<times> time) list \<Rightarrow> rateLimiter \<Rightarrow> (ident \<times> time) list" where
  "run_allow [] rl = []"
| "run_allow ((i, t) # calls) rl = (case allow i t rl of (ok, rl') \<Rightarrow> (if ok then [(i, t)] else []) @ run_allow calls rl')"

definition in_window :: "int \<Rightarrow> time \<Rightarrow> time \<Rightarrow> bool" where
  "in_window w t u \<longleftrightarrow> t - w < u \<and> u \<le> t"

lemma run_allow_sub: "set (run_allow calls rl) \<subseteq> set calls"
  by (induction calls rl rule: run_allow.induct) (auto split: prod.splits)

lemma allow_other: "allow j t rl = (ok, rl') \<Longrightarrow> i \<noteq> j \<Longrightarrow> rl_events rl' i = rl_events rl i"
  by (auto simp: allow_def Let_def split: if_splits)

lemma allow_keeps: "allow j t rl = (ok, rl') \<Longrightarrow> rl_cap rl' = rl_cap rl \<and> rl_window rl' = rl_window rl"
  by (auto simp: allow_def Let_def split: if_splits)

lemma allow_same:
  assumes "allow i t rl = (ok, rl')" "0 < rl_cap rl"
  shows "rl_events rl' i = filter (\<lambda>u. u > t - rl_window rl) (rl_events rl i) @ (if ok then [t] else [])"
    and "int (length (rl_events rl i)) \<le> rl_cap rl \<Longrightarrow> int (length (rl_events rl' i)) \<le> rl_cap rl"
proof -
  let ?p = "filter (\<lambda>u. u > t - rl_window rl) (rl_events rl i)"
  show e: "rl_events rl' i = ?p @ (if ok then [t] else [])"
    using assms by (auto simp: allow_def Let_def split: if_splits)
  have "ok \<Longrightarrow> int (length ?p) < rl_cap rl" using assms by (auto simp: allow_def Let_def split: if_splits)
  moreover have "int (length ?p) \<le> int (length (rl_events rl i))" by simp
  ultimately show "int (length (rl_events rl i)) \<le> rl_cap rl \<Longrightarrow> int (length (rl_events rl' i)) \<le> rl_cap rl"
    unfolding e by (cases ok) (auto simp del: length_filter_le)
qed

lemma int_length_filter: "int (length (filter P xs)) \<le> int (length xs)"
  by simp

lemma allow_window:
  assumes "0 < rl_cap rl" "int (length (rl_events rl i)) \<le> rl_cap rl" "sorted (map snd calls)"
  shows "int (length (filter (in_window (rl_window rl) t) (rl_events rl i)) +
    length (filter (\<lambda>(j, u). j = i \<and> in_window (rl_window rl) t u) (run_allow calls rl))) \<le> rl_cap rl"
  using assms
proof (induction calls rl rule: run_allow.induct)
  case (1 rl)
  then show ?case using order_trans [OF int_length_filter] by simp
next
  case (2 j n calls rl)
  obtain ok rl' where a: "allow j n rl = (ok, rl')" by fastforce
  note k = allow_keeps [OF a]
  have srt: "sorted (map snd calls)" "\<forall>(j', u)\<in>set calls. n \<le> u" using 2(4) by auto
  show ?case
  proof (cases "j = i")
    case False
    then have ev: "rl_events rl' i = rl_events rl i" using allow_other [OF a] by simp
    then show ?thesis using 2(1) [OF a [symmetric]] 2(2,3) srt(1) k False by (simp add: a)
  next
    case True
    note S = allow_same [OF a [unfolded True] 2(2)]
    show ?thesis
    proof (cases "t < n")
      case True
      have "\<forall>(j', u)\<in>set (run_allow ((j, n) # calls) rl). n \<le> u"
        using run_allow_sub [of "(j, n) # calls" rl] srt(2) by fastforce
      then have "filter (\<lambda>(j, u). j = i \<and> in_window (rl_window rl) t u) (run_allow ((j, n) # calls) rl) = []"
        using True by (fastforce simp: filter_empty_conv in_window_def simp del: run_allow.simps)
      then show ?thesis using order_trans [OF int_length_filter 2(3)] by (simp del: run_allow.simps)
    next
      case tn: False
      have w: "filter (in_window (rl_window rl) t) (filter (\<lambda>u. u > n - rl_window rl) (rl_events rl i)) =
          filter (in_window (rl_window rl) t) (rl_events rl i)"
        unfolding filter_filter by (rule filter_cong) (use tn in \<open>auto simp: in_window_def\<close>)
      have IH: "int (length (filter (in_window (rl_window rl) t) (rl_events rl' i)) +
          length (filter (\<lambda>(j, u). j = i \<and> in_window (rl_window rl) t u) (run_allow calls rl'))) \<le> rl_cap rl"
        using 2(1) [OF a [symmetric]] 2(2) S(2) [OF 2(3)] srt(1) k by simp
      show ?thesis using IH unfolding S(1) filter_append w by (auto simp: a [unfolded \<open>j = i\<close>] \<open>j = i\<close> split: if_splits)
    qed
  qed
qed

section \<open>Issued attestations\<close>

lemma issue_ok:
  assumes "adm_env_ok env" "length c = 32" "length (av_tracker_id env) = 32"
    "0 \<le> ac_tenure_cap_days (av_cfg env)" "ac_tenure_cap_days (av_cfg env) \<le> 365"
    "0 < ac_attestation_ttl_seconds (av_cfg env)" "ac_attestation_ttl_seconds (av_cfg env) \<le> 604800"
    "0 < unix now" "unix now < 2 ^ 62" "length (av_priv env) = PrivateKeySize" "\<And>b. av_enc env b \<noteq> None"
    "ad_consumers (sb_store s) c = Some st" "fst (allow c now (sb_attest_rl s))"
  shows "\<exists>att. fst (IssueAttestation env c now s) = Inr att"
proof -
  obtain score sigs where sc: "ComputeLocalScore (av_math env) (Some st) (av_cfg env) now = (score, sigs)" by fastforce
  note v = issued_body_valid [OF assms(1-9) sc]
  obtain buf where "av_enc env (attestation_body env c now score sigs) = Some buf" using assms(11) by blast
  then have "\<exists>sig. SignCreditAttestation (av_crypto env) (av_enc env) (av_priv env) (Some (attestation_body env c now score sigs)) = Inr sig"
    using assms(10) by (simp add: SignCreditAttestation_def DeterministicMarshal_def)
  then show ?thesis using assms(12,13) sc v by (auto simp: IssueAttestation_def Let_def split: prod.splits)
qed

lemma issue_then_try:
  assumes "IssueAttestation env c now s = (Inr att, s')" "length (av_tracker_id env) = 32"
    "\<And>m. ed_verify (av_crypto env) (av_tracker_id env) m (ed_sign (av_crypto env) (av_priv env) m)"
    "\<And>m. length (ed_sign (av_crypto env) (av_priv env) m) = SignatureSize"
    "peers (av_tracker_id env)" "0 \<le> unix later" "of_int (unix later) < cb_expires_at (the (sa_body att))"
  shows "\<exists>st b. ad_consumers (sb_store s) c = Some st \<and> sa_body att = Some b \<and> cb_identity_id b = c \<and>
    cb_score b = f_to_u32 (f_round (f_mul (fst (ComputeLocalScore (av_math env) (Some st) (av_cfg env) now)) (Fin 10000))) \<and>
    tryAttestation (av_crypto env) (av_enc env) peers cfg att later =
      Some (let q = f_div (f_of_int (uint (cb_score b))) (Fin 10000) in
        if f_lt (ac_max_attestation_score_imported cfg) q then ac_max_attestation_score_imported cfg else q)"
proof -
  obtain st score sigs sig where st: "ad_consumers (sb_store s) c = Some st"
    and sc: "ComputeLocalScore (av_math env) (Some st) (av_cfg env) now = (score, sigs)"
    and v: "ValidateCreditAttestationBody (Some (attestation_body env c now score sigs)) = None"
    and sg: "SignCreditAttestation (av_crypto env) (av_enc env) (av_priv env) (Some (attestation_body env c now score sigs)) = Inr sig"
    and att: "att = \<lparr>sa_body = Some (attestation_body env c now score sigs), sa_tracker_sig = sig\<rparr>"
    using assms(1) by (auto simp: IssueAttestation_def Let_def split: option.splits prod.splits if_splits sum.splits)
  let ?b = "attestation_body env c now score sigs"
  have iss: "cb_issuer_tracker_id ?b = av_tracker_id env" by (simp add: attestation_body_def)
  have "VerifyCreditAttestation (av_crypto env) (av_enc env) (av_tracker_id env) (Some att)"
    unfolding att by (rule sign_verify_attestation [OF _ assms(3,4) sg]) (simp add: key_sizes assms(2))
  then have "tryAttestation (av_crypto env) (av_enc env) peers cfg att later =
      Some (let q = f_div (f_of_int (uint (cb_score ?b))) (Fin 10000) in
        if f_lt (ac_max_attestation_score_imported cfg) q then ac_max_attestation_score_imported cfg else q)"
    using assms(2,5-7) v iss att by (simp add: tryAttestation_def Let_def)
  then show ?thesis using st att sc by (intro exI [of _ st] exI [of _ ?b]) (simp add: attestation_body_def)
qed

section \<open>Properties\<close>

text \<open>
  C21. From a successfully opened admission subsystem with a usable configuration, whatever
  sequence of decisions, pops, drains, ejections, aggregations, attestations, ledger events,
  snapshots and overrides runs, the queue never holds more than QueueCap entries, every queued
  score is between 0 and 1, and no consumer has more remembered attestations than the hourly
  cap.
\<close>

theorem admission_invariant:
  assumes "adm_env_ok env" "Admission_Open (av_cfg env) priv tlog = Inr s0" "(adm_step env)\<^sup>*\<^sup>* s0 s"
  shows "int (length (qh_entries (sb_queue s))) \<le> ac_queue_cap (av_cfg env) \<and>
    (\<forall>e\<in>set (qh_entries (sb_queue s)). f_in_unit (qe_credit_score e)) \<and>
    (0 < ac_attestation_issuance_per_consumer_per_hour (av_cfg env) \<longrightarrow>
       (\<forall>i. int (length (rl_events (sb_attest_rl s) i)) \<le> ac_attestation_issuance_per_consumer_per_hour (av_cfg env)))"
  using admission.steps_inv [OF assms(3) Open_inv [OF assms(2)]] assms(1)
  by (auto simp: adm_inv_def queue_inv_def limiter_inv_def score_ok_def)

lemma retry_bounds: "60 \<le> uint (computeRetryAfterS n avg jitter) \<and> uint (computeRetryAfterS n avg jitter) \<le> 600"
proof -
  have "uint (of_int v :: u32) = v" if "60 \<le> v" "v \<le> 600" for v :: int
    using that by (simp add: uint_word_of_int take_bit_int_eq_self)
  then show ?thesis by (simp add: computeRetryAfterS_def Let_def)
qed


text \<open>
  C23. While priorities are computed without rounding, PopReadyForBroker implements a priority
  queue over the multiset of waiting entries: it removes and returns an entry of maximal aged
  priority that reaches the threshold, or changes nothing when every entry is below it; the heap
  order survives the advance of the clock.
\<close>

theorem pop_serves_best:
  assumes "PopReadyForBroker env now minp s = (r, s')" "queue_inv (av_cfg env) (sb_queue s)" "adm_env_ok env" "queue_ordered (sb_queue s)"
    "\<forall>e\<in>set (qh_entries (sb_queue s)). exact_priority e (qh_now (sb_queue s)) (ac_aging_alpha_per_minute (av_cfg env)) \<and>
       exact_priority e now (ac_aging_alpha_per_minute (av_cfg env))"
  defines "prio \<equiv> \<lambda>e. EffectivePriority e now (ac_aging_alpha_per_minute (av_cfg env))"
  shows "queue_ordered (sb_queue s') \<and> (case r of
      Some e \<Rightarrow> mset (qh_entries (sb_queue s)) = add_mset e (mset (qh_entries (sb_queue s'))) \<and> \<not> f_lt (prio e) minp \<and>
        (\<forall>z\<in>set (qh_entries (sb_queue s)). f_le (prio z) (prio e))
    | None \<Rightarrow> qh_entries (sb_queue s') = qh_entries (sb_queue s) \<and> (\<forall>z\<in>set (qh_entries (sb_queue s)). f_lt (prio z) minp))"
proof -
  let ?q = "AdvanceTime now (sb_queue s)"
  have al: "qh_aging_alpha (sb_queue s) = ac_aging_alpha_per_minute (av_cfg env)" using assms(2) by (simp add: queue_inv_def)
  have ord: "queue_ordered ?q" by (rule AdvanceTime_ordered) (use assms(4,5) al in auto)
  have ok: "\<forall>e\<in>set (qh_entries ?q). score_ok e" using assms(2) by (simp add: queue_inv_def)
  have bnd: "f_bnd 1000 (qh_aging_alpha ?q)" using assms(3) al by (simp add: adm_env_ok_def)
  from assms(1) show ?thesis
  proof (cases rule: Pop_cases)
    case 1
    have "f_lt (prio z) minp" if z: "z \<in> set (qh_entries (sb_queue s))" for z
    proof -
      obtain h where h: "queue_Peek (sb_queue s) = Some h" using z by (cases "qh_entries (sb_queue s)") (auto simp: queue_Peek_def)
      then have "queue_Peek ?q = Some h" by (simp add: queue_Peek_def)
      from queue_head_best [OF ord ok bnd this] z have "f_le (prio z) (prio h)" by (simp add: prio_def al)
      moreover have "f_lt (prio h) minp" using 1(3) h by (simp add: prio_def)
      ultimately show ?thesis by (cases "prio z"; cases "prio h"; cases minp) (auto simp: f_lt_def)
    qed
    then show ?thesis using 1 ord by simp
  next
    case (2 e h)
    note P = queue_Pop_best [OF ord ok bnd _ 2(3)]
    have "h = e" using P 2(2,4) by (auto simp: queue_Peek_def)
    then show ?thesis using P queue_Pop_mset(1) [OF _ 2(3)] 2 by (simp add: prio_def al)
  qed
qed

text \<open>
  C24. For usable weights the composite local score and the resolved score are numbers between 0
  and 1, never NaN, whatever the wrapped counters of the buckets hold and however the rounding
  goes.
\<close>

theorem score_in_unit:
  assumes "adm_env_ok env"
  shows "f_in_unit (fst (ComputeLocalScore (av_math env) ost (av_cfg env) now)) \<and>
    f_in_unit (fst (resolveCreditScore (av_crypto env) (av_enc env) (av_math env) (av_peers env) (av_cfg env) m c att now))"
  using assms score_unit resolve_unit by (auto simp: adm_env_ok_def)

text \<open>
  A score taken from an attestation comes from a body that validates, is signed by its issuer,
  whose issuer is a federation peer, that has not expired and lives at most seven days; it is
  between 0 and 1 and at most the import ceiling.
\<close>

theorem imported_attestation:
  assumes "resolveCreditScore cr enc lib peers cfg m c oatt now = (score, ScoreSourceAttestation)" "f_in_unit (ac_max_attestation_score_imported cfg)"
  shows "\<exists>att b. oatt = Some att \<and> sa_body att = Some b \<and> peers (cb_issuer_tracker_id b) \<and>
    VerifyCreditAttestation cr enc (cb_issuer_tracker_id b) (Some att) \<and> cb_score b \<le> 10000 \<and>
    0 \<le> unix now \<and> of_int (unix now) < cb_expires_at b \<and> cb_expires_at b - cb_computed_at b \<le> 604800 \<and>
    f_in_unit score \<and> f_le score (ac_max_attestation_score_imported cfg)"
proof -
  obtain att where att: "oatt = Some att" "tryAttestation cr enc peers cfg att now = Some score"
    using assms(1) by (auto simp: resolveCreditScore_def bind_eq_Some_conv split: option.splits prod.splits if_splits)
  from att(2) obtain b where "sa_body att = Some b" "ValidateCreditAttestationBody (Some b) = None" "peers (cb_issuer_tracker_id b)"
    "0 \<le> unix now" "of_int (unix now) < cb_expires_at b" "VerifyCreditAttestation cr enc (cb_issuer_tracker_id b) (Some att)"
    by (rule tryAttestation_SomeD)
  then show ?thesis using att(1) tryAttestation_unit [OF att(2) assms(2)] by (auto simp: valid_attestation)
qed

text \<open>
  An attestation that is accepted at all is accepted for every consumer: the identity it was
  issued for is never compared with the consumer that presents it.
\<close>

theorem attestation_not_bound:
  assumes "tryAttestation cr enc peers cfg att now = Some score"
  shows "resolveCreditScore cr enc lib peers cfg m c (Some att) now = (score, ScoreSourceAttestation)"
  using assms by (simp add: resolveCreditScore_def)

text \<open>
  For calls in time order the limiter grants at most its cap per identity in every sliding
  window of one hour, not only in windows that end at a call.
\<close>

theorem rate_limit_window:
  assumes "0 < cap" "sorted (map snd calls)"
  shows "int (length (filter (\<lambda>(j, u). j = i \<and> t - seconds 3600 < u \<and> u \<le> t) (run_allow calls (newRateLimiter cap)))) \<le> cap"
  using allow_window [of "newRateLimiter cap" i calls t] assms by (simp add: newRateLimiter_def in_window_def)

text \<open>
  An attestation that one tracker issues is accepted by every tracker that has the issuer as a
  peer until it expires, with the fixed-point rounding of the local score as its score, cut at
  the import ceiling.
\<close>

theorem attestation_round_trip:
  assumes "IssueAttestation env c now s = (Inr att, s')" "length (av_tracker_id env) = 32"
    "\<And>m. ed_verify (av_crypto env) (av_tracker_id env) m (ed_sign (av_crypto env) (av_priv env) m)"
    "\<And>m. length (ed_sign (av_crypto env) (av_priv env) m) = SignatureSize"
    "peers (av_tracker_id env)" "0 \<le> unix later" "of_int (unix later) < cb_expires_at (the (sa_body att))"
  shows "\<exists>st b. ad_consumers (sb_store s) c = Some st \<and> sa_body att = Some b \<and> cb_identity_id b = c \<and>
    cb_score b = f_to_u32 (f_round (f_mul (fst (ComputeLocalScore (av_math env) (Some st) (av_cfg env) now)) (Fin 10000))) \<and>
    tryAttestation (av_crypto env) (av_enc env) peers cfg att later =
      Some (let q = f_div (f_of_int (uint (cb_score b))) (Fin 10000) in
        if f_lt (ac_max_attestation_score_imported cfg) q then ac_max_attestation_score_imported cfg else q)"
  by (rule issue_then_try [where peers = peers, OF assms])

lemma issue_attestation_succeeds:
  assumes "adm_env_ok env" "length c = 32" "length (av_tracker_id env) = 32"
    "0 \<le> ac_tenure_cap_days (av_cfg env)" "ac_tenure_cap_days (av_cfg env) \<le> 365"
    "0 < ac_attestation_ttl_seconds (av_cfg env)" "ac_attestation_ttl_seconds (av_cfg env) \<le> 604800"
    "0 < unix now" "unix now < 2 ^ 62" "length (av_priv env) = PrivateKeySize" "\<And>b. av_enc env b \<noteq> None"
    "ad_consumers (sb_store s) c = Some st" "fst (allow c now (sb_attest_rl s))"
  shows "\<exists>att. fst (IssueAttestation env c now s) = Inr att"
  by (rule issue_ok [OF assms])

section \<open>A concrete subsystem\<close>

definition demo_math :: math_lib where
  "demo_math = \<lparr>m_exp = (\<lambda>x. if f_le (Fin 0) x then Fin 1 else Fin 0), m_log2 = (\<lambda>x. Fin 0)\<rparr>"

definition toy_crypto :: crypto where
  "toy_crypto = \<lparr>ed_verify = (\<lambda>pub msg sig. sig = to_array 64 (pub @ msg)), ed_sign = (\<lambda>priv msg. to_array 64 (drop 32 priv @ msg)),
     sha256 = (\<lambda>m. to_array 32 m), pkix = (\<lambda>pub. Some pub), pb_entry = (\<lambda>_. None), pb_entry_dec = (\<lambda>_. None),
     pb_balance = (\<lambda>_. None), pb_envelope = (\<lambda>_. None), pb_transfer_req = (\<lambda>_. None)\<rparr>"

text \<open>The default configuration, and one with an aging rate that is exact in binary.\<close>

definition demo_adm_of :: "AdmissionConfig \<Rightarrow> adm_env" where
  "demo_adm_of cfg = \<lparr>av_cfg = cfg, av_priv = replicate 64 7, av_tracker_id = replicate 32 7, av_crypto = toy_crypto,
     av_enc = (\<lambda>b. Some (be64 (cb_expires_at b) @ cb_identity_id b)), av_math = demo_math, av_peers = (\<lambda>i. i = replicate 32 7)\<rparr>"

definition demo_adm :: adm_env where
  "demo_adm = demo_adm_of DefaultAdmissionConfig"

definition quarter_adm :: adm_env where
  "quarter_adm = demo_adm_of (DefaultAdmissionConfig\<lparr>ac_aging_alpha_per_minute := Fin (1 / 4)\<rparr>)"

lemma demo_weights: "weights_ok DefaultAdmissionWeights"
proof -
  have "f_le (Fin (1 / 1024)) (f_add (f_add (round64 (20 / 100)) (round64 (30 / 100))) (round64 (10 / 100)))" by code_simp
  then show ?thesis by (auto simp: weights_ok_def DefaultAdmissionWeights_def intro!: round64_bnd)
qed

lemma demo_exp: "exp_ok demo_math"
  by (simp add: exp_ok_def demo_math_def)

lemma unit_round: "0 \<le> q \<Longrightarrow> q \<le> 1 \<Longrightarrow> f_in_unit (round64 q)"
  unfolding f_bnd_unit by (rule round64_bnd) simp_all

lemma demo_adm_ok: "adm_env_ok demo_adm"
proof -
  have "f_bnd 1000 (round64 (5 / 100))" by (rule round64_bnd) simp_all
  then show ?thesis
    by (simp add: adm_env_ok_def demo_adm_def demo_adm_of_def DefaultAdmissionConfig_def demo_weights demo_exp unit_round)
qed

lemma quarter_adm_ok: "adm_env_ok quarter_adm"
  by (simp add: adm_env_ok_def quarter_adm_def demo_adm_of_def DefaultAdmissionConfig_def demo_weights demo_exp unit_round)

definition carol :: ident where "carol = replicate 32 3"
definition dave :: ident where "dave = replicate 32 4"

definition day0 :: time where "day0 = seconds 1700000000"

text \<open>A subsystem under medium pressure that knows one consumer with a settlement.\<close>

definition busy_supply :: SupplySnapshot where
  "busy_supply = emptySupplySnapshot\<lparr>ss_computed_at := day0, ss_total_headroom := Fin 1, ss_pressure := Fin 1\<rparr>"

definition carol_state :: ConsumerCreditState where
  "carol_state = (new_consumer (day0 - seconds 864000))\<lparr>cs_settlement_buckets :=
     replicate 30 \<lparr>db_total = 1, db_a = 1, db_b = 0, db_day_stamp = day0\<rparr>, cs_last_balance_seen := 4000\<rparr>"

definition demo_sub :: "adm_env \<Rightarrow> Subsystem" where
  "demo_sub env = (adm_start env)\<lparr>sb_store := (sb_store (adm_start env))\<lparr>ad_consumers := [carol \<mapsto> carol_state]\<rparr>,
     sb_supply := Some busy_supply\<rparr>"

theorem admission_invariant_witness:
  "\<exists>s0 s. Admission_Open (av_cfg demo_adm) (av_priv demo_adm) None = Inr s0 \<and> (adm_step demo_adm)\<^sup>*\<^sup>* s0 s \<and>
     int (length (qh_entries (sb_queue s))) \<le> ac_queue_cap (av_cfg demo_adm)"
proof -
  have v: "validateConfigForOpen DefaultAdmissionConfig = None" by code_simp
  have o: "Admission_Open (av_cfg demo_adm) (av_priv demo_adm) None = Inr (adm_start demo_adm)"
    using v by (simp add: Admission_Open_def adm_start_def demo_adm_def demo_adm_of_def key_sizes)
  obtain res s where "Decide demo_adm (zeros 16) 0 carol None day0 (adm_start demo_adm) = (res, s)" by fastforce
  then have "(adm_step demo_adm)\<^sup>*\<^sup>* (adm_start demo_adm) s" by (blast intro: adm_step.decide)
  with admission_invariant [OF demo_adm_ok o this] o show ?thesis by blast
qed


text \<open>Two waiting entries: one enqueued four minutes later with a higher score.\<close>

definition early_entry :: QueueEntry where
  "early_entry = \<lparr>qe_request_id = zeros 16, qe_consumer_id = carol, qe_envelope_hash = zeros 32, qe_credit_score = Fin (1 / 4), qe_enqueued_at = day0\<rparr>"

definition late_entry :: QueueEntry where
  "late_entry = \<lparr>qe_request_id = replicate 16 1, qe_consumer_id = dave, qe_envelope_hash = zeros 32, qe_credit_score = Fin (1 / 2),
     qe_enqueued_at = day0 + 4 * minute_ns\<rparr>"

definition waiting_sub :: Subsystem where
  "waiting_sub = (demo_sub quarter_adm)\<lparr>sb_queue := queue_Push late_entry (queue_Push early_entry
     (AdvanceTime (day0 + 4 * minute_ns) (sb_queue (demo_sub quarter_adm))))\<rparr>"

theorem pop_serves_best_witness:
  "\<exists>s'. PopReadyForBroker quarter_adm (day0 + 8 * minute_ns) (Fin 1) waiting_sub = (Some early_entry, s') \<and>
     f_le (EffectivePriority late_entry (day0 + 8 * minute_ns) (Fin (1 / 4))) (EffectivePriority early_entry (day0 + 8 * minute_ns) (Fin (1 / 4)))"
proof -
  have es: "qh_entries (sb_queue waiting_sub) = [early_entry, late_entry]" by code_simp
  have al: "ac_aging_alpha_per_minute (av_cfg quarter_adm) = Fin (1 / 4)" "qh_aging_alpha (sb_queue waiting_sub) = Fin (1 / 4)" by code_simp+
  have cap: "ac_queue_cap (av_cfg quarter_adm) = 512" by code_simp
  have inv: "queue_inv (av_cfg quarter_adm) (sb_queue waiting_sub)"
    by (simp add: queue_inv_def es al cap score_ok_def early_entry_def late_entry_def f_in_unit_def)
  have ord: "queue_ordered (sb_queue waiting_sub)" by code_simp
  have ex: "exact_priority e (qh_now (sb_queue waiting_sub)) (Fin (1 / 4)) \<and> exact_priority e (day0 + 8 * minute_ns) (Fin (1 / 4))"
    if "e \<in> set (qh_entries (sb_queue waiting_sub))" for e
  proof -
    have "exact_priority early_entry (qh_now (sb_queue waiting_sub)) (Fin (1 / 4))" "exact_priority early_entry (day0 + 8 * minute_ns) (Fin (1 / 4))"
      "exact_priority late_entry (qh_now (sb_queue waiting_sub)) (Fin (1 / 4))" "exact_priority late_entry (day0 + 8 * minute_ns) (Fin (1 / 4))"
      by code_simp+
    then show ?thesis using that es by auto
  qed
  obtain r s' where p: "PopReadyForBroker quarter_adm (day0 + 8 * minute_ns) (Fin 1) waiting_sub = (r, s')" by fastforce
  have r: "r = Some early_entry"
  proof -
    have "fst (PopReadyForBroker quarter_adm (day0 + 8 * minute_ns) (Fin 1) waiting_sub) = Some early_entry" by code_simp
    then show ?thesis using p by simp
  qed
  note P = pop_serves_best [OF p inv quarter_adm_ok ord, unfolded al]
  have "\<forall>z\<in>set (qh_entries (sb_queue waiting_sub)). f_le (EffectivePriority z (day0 + 8 * minute_ns) (Fin (1 / 4))) (EffectivePriority early_entry (day0 + 8 * minute_ns) (Fin (1 / 4)))"
    using P ex r by auto
  then show ?thesis using p r es by auto
qed

theorem score_in_unit_witness:
  "f_in_unit (fst (ComputeLocalScore (av_math demo_adm) (Some carol_state) (av_cfg demo_adm) day0))"
  using score_in_unit [OF demo_adm_ok, of "Some carol_state" day0] by blast

lemma demo_adm_simps: "length (av_tracker_id demo_adm) = 32" "av_cfg demo_adm = DefaultAdmissionConfig"
  "length (av_priv demo_adm) = PrivateKeySize" "av_enc demo_adm b \<noteq> None" "av_peers demo_adm (av_tracker_id demo_adm)"
  by (simp_all add: demo_adm_def demo_adm_of_def key_sizes)

lemma demo_keys: "ed_verify (av_crypto demo_adm) (av_tracker_id demo_adm) m (ed_sign (av_crypto demo_adm) (av_priv demo_adm) m)"
  "length (ed_sign (av_crypto demo_adm) (av_priv demo_adm) m) = SignatureSize"
  by (simp_all add: demo_adm_def demo_adm_of_def toy_crypto_def key_sizes)

lemma demo_unix: "unix day0 = 1700000000" "unix (day0 + seconds 60) = 1700000060"
  by (simp_all add: day0_def unix_add_seconds)

lemma demo_known: "ad_consumers (sb_store (demo_sub demo_adm)) carol = Some carol_state"
  by (simp add: demo_sub_def)

lemma demo_allow: "fst (allow carol day0 (sb_attest_rl (demo_sub demo_adm)))"
  by (simp add: demo_sub_def adm_start_def newRateLimiter_def allow_def demo_adm_simps DefaultAdmissionConfig_def Let_def)

lemma demo_limits: "ac_tenure_cap_days DefaultAdmissionConfig = 30" "ac_attestation_ttl_seconds DefaultAdmissionConfig = 86400"
  by (simp_all add: DefaultAdmissionConfig_def)

lemma demo_issue: obtains att s' where "IssueAttestation demo_adm carol day0 (demo_sub demo_adm) = (Inr att, s')"
proof -
  have "\<exists>att. fst (IssueAttestation demo_adm carol day0 (demo_sub demo_adm)) = Inr att"
    by (rule issue_ok [OF demo_adm_ok _ demo_adm_simps(1) _ _ _ _ _ _ demo_adm_simps(3,4) demo_known demo_allow])
      (simp_all add: demo_adm_simps demo_limits demo_unix carol_def)
  then show ?thesis using that by (metis prod.collapse)
qed

lemma issued_expiry: "IssueAttestation env c now s = (Inr att, s') \<Longrightarrow>
   cb_expires_at (the (sa_body att)) = of_int (unix (now + seconds (ac_attestation_ttl_seconds (av_cfg env))))"
  by (auto simp: IssueAttestation_def Let_def attestation_body_def split: option.splits prod.splits if_splits sum.splits)

lemma demo_fresh: "IssueAttestation demo_adm carol day0 (demo_sub demo_adm) = (Inr att, s') \<Longrightarrow>
   of_int (unix (day0 + seconds 60)) < cb_expires_at (the (sa_body att))"
  by (simp add: issued_expiry demo_adm_simps demo_limits unix_add_seconds demo_unix)

theorem attestation_round_trip_witness:
  "\<exists>att s' score. IssueAttestation demo_adm carol day0 (demo_sub demo_adm) = (Inr att, s') \<and>
     tryAttestation (av_crypto demo_adm) (av_enc demo_adm) (av_peers demo_adm) DefaultAdmissionConfig att (day0 + seconds 60) = Some score"
proof -
  obtain att s' where i: "IssueAttestation demo_adm carol day0 (demo_sub demo_adm) = (Inr att, s')" by (rule demo_issue)
  have "0 \<le> unix (day0 + seconds 60)" by (simp add: demo_unix)
  from attestation_round_trip [where peers = "av_peers demo_adm" and cfg = DefaultAdmissionConfig, OF i demo_adm_simps(1) demo_keys demo_adm_simps(5) this demo_fresh [OF i]] i
  show ?thesis by blast
qed

lemma issue_attestation_succeeds_witness:
  "\<exists>att. fst (IssueAttestation demo_adm carol day0 (demo_sub demo_adm)) = Inr att"
  by (rule issue_attestation_succeeds [OF demo_adm_ok _ demo_adm_simps(1) _ _ _ _ _ _ demo_adm_simps(3,4) demo_known demo_allow])
    (simp_all add: demo_adm_simps demo_limits demo_unix carol_def)

lemma demo_accepts: obtains att score where "tryAttestation (av_crypto demo_adm) (av_enc demo_adm) (av_peers demo_adm) DefaultAdmissionConfig att (day0 + seconds 60) = Some score"
  "map_option cb_identity_id (sa_body att) = Some carol"
proof -
  obtain att s' where i: "IssueAttestation demo_adm carol day0 (demo_sub demo_adm) = (Inr att, s')" by (rule demo_issue)
  have "0 \<le> unix (day0 + seconds 60)" by (simp add: demo_unix)
  from issue_then_try [where peers = "av_peers demo_adm" and cfg = DefaultAdmissionConfig, OF i demo_adm_simps(1) demo_keys demo_adm_simps(5) this demo_fresh [OF i]]
  show ?thesis using that by auto
qed

theorem attestation_not_bound_witness:
  "\<exists>att score. map_option cb_identity_id (sa_body att) = Some carol \<and> dave \<noteq> carol \<and>
     resolveCreditScore (av_crypto demo_adm) (av_enc demo_adm) demo_math (av_peers demo_adm) DefaultAdmissionConfig Map.empty dave (Some att)
       (day0 + seconds 60) = (score, ScoreSourceAttestation)"
proof -
  obtain att score where a: "tryAttestation (av_crypto demo_adm) (av_enc demo_adm) (av_peers demo_adm) DefaultAdmissionConfig att (day0 + seconds 60) = Some score"
    "map_option cb_identity_id (sa_body att) = Some carol" by (rule demo_accepts)
  have "dave \<noteq> carol" by (simp add: dave_def carol_def)
  with attestation_not_bound [OF a(1), of demo_math Map.empty dave] a(2) show ?thesis by blast
qed

theorem imported_attestation_witness:
  "\<exists>att score. resolveCreditScore (av_crypto demo_adm) (av_enc demo_adm) demo_math (av_peers demo_adm) DefaultAdmissionConfig Map.empty carol (Some att)
       (day0 + seconds 60) = (score, ScoreSourceAttestation) \<and> f_le score (ac_max_attestation_score_imported DefaultAdmissionConfig)"
proof -
  obtain att score where a: "tryAttestation (av_crypto demo_adm) (av_enc demo_adm) (av_peers demo_adm) DefaultAdmissionConfig att (day0 + seconds 60) = Some score"
    by (rule demo_accepts)
  then have r: "resolveCreditScore (av_crypto demo_adm) (av_enc demo_adm) demo_math (av_peers demo_adm) DefaultAdmissionConfig Map.empty carol (Some att)
       (day0 + seconds 60) = (score, ScoreSourceAttestation)" by (simp add: resolveCreditScore_def)
  have "f_in_unit (ac_max_attestation_score_imported DefaultAdmissionConfig)" by (simp add: DefaultAdmissionConfig_def unit_round)
  from imported_attestation [OF r this] r show ?thesis by blast
qed

theorem rate_limit_window_witness:
  "run_allow [(carol, 0), (carol, seconds 60), (carol, seconds 120)] (newRateLimiter 2) = [(carol, 0), (carol, seconds 60)] \<and>
   int (length (filter (\<lambda>(j, u). j = carol \<and> seconds 120 - seconds 3600 < u \<and> u \<le> seconds 120)
     (run_allow [(carol, 0), (carol, seconds 60), (carol, seconds 120)] (newRateLimiter 2)))) \<le> 2"
proof
  show "run_allow [(carol, 0), (carol, seconds 60), (carol, seconds 120)] (newRateLimiter 2) = [(carol, 0), (carol, seconds 60)]" by code_simp
qed (rule rate_limit_window; simp add: seconds_def)

end
