(* ===== verification/TB_Fed_Msgs.thy ===== *)
theory TB_Fed_Msgs
  imports TB_Signing
begin

text \<open>
  The messages trackers exchange (\<open>src/shared/federation\<close>): records with the fields of
  \<open>federation.proto\<close>, the validators, the canonical bytes that are signed, and the signed envelope around
  every message (\<open>src/tracker/internal/federation/envelope.go\<close>).

  The protobuf library is a parameter: a \<open>codec\<close> per message type holds its deterministic encoder, its
  ordinary encoder and its decoder. \<open>None\<close> is an error of the library.
\<close>

section \<open>Messages\<close>

datatype FedKind = KIND_UNSPECIFIED | KIND_HELLO | KIND_PEER_AUTH | KIND_PEERING_ACCEPT | KIND_PEERING_REJECT
  | KIND_ROOT_ATTESTATION | KIND_EQUIVOCATION_EVIDENCE | KIND_PING | KIND_PONG
  | KIND_TRANSFER_PROOF_REQUEST | KIND_TRANSFER_PROOF | KIND_TRANSFER_APPLIED | KIND_REVOCATION
  | KIND_PEER_EXCHANGE | KIND_TRANSFER_REJECT | KIND_TRANSFER_REVERSAL | KindOther int

record FedEnvelope =
  fe_sender_id :: bytes
  fe_kind :: FedKind
  fe_payload :: bytes
  fe_sender_sig :: bytes

record Hello =
  he_tracker_id :: bytes
  he_protocol_version :: u32
  he_nonce :: bytes
  he_features :: "string list"

record PeerAuth =
  pa_nonce_sig :: bytes

record PeeringAccept =
  ac_dedupe_ttl_s :: u32
  ac_gossip_rate_qps :: u32

record RootAttestation =
  ra_tracker_id :: bytes
  ra_hour :: u64
  ra_merkle_root :: bytes
  ra_tracker_sig :: bytes

record EquivocationEvidence =
  ee_tracker_id :: bytes
  ee_hour :: u64
  ee_root_a :: bytes
  ee_sig_a :: bytes
  ee_root_b :: bytes
  ee_sig_b :: bytes

record FedTransferProof =
  tp_source_tracker_id :: bytes
  tp_dest_tracker_id :: bytes
  tp_identity_id :: bytes
  tp_amount :: u64
  tp_nonce :: bytes
  tp_source_chain_tip_hash :: bytes
  tp_source_seq :: u64
  tp_timestamp :: u64
  tp_source_tracker_sig :: bytes

record TransferApplied =
  ta_source_tracker_id :: bytes
  ta_dest_tracker_id :: bytes
  ta_nonce :: bytes
  ta_timestamp :: u64
  ta_dest_tracker_sig :: bytes

record TransferReversal =
  tv_source_tracker_id :: bytes
  tv_dest_tracker_id :: bytes
  tv_nonce :: bytes
  tv_evidence :: string
  tv_timestamp :: u64
  tv_dest_tracker_sig :: bytes

record TransferReject =
  tj_source_tracker_id :: bytes
  tj_dest_tracker_id :: bytes
  tj_nonce :: bytes
  tj_reason :: string
  tj_timestamp :: u64
  tj_source_tracker_sig :: bytes

datatype RevocationReason = REVOCATION_REASON_UNSPECIFIED | REVOCATION_REASON_ABUSE
  | REVOCATION_REASON_MANUAL | REVOCATION_REASON_EXPIRED | RevocationReasonOther int

record Revocation =
  rv_tracker_id :: bytes
  rv_identity_id :: bytes
  rv_reason :: RevocationReason
  rv_revoked_at :: u64
  rv_tracker_sig :: bytes

record KnownPeerMsg =
  kp_tracker_id :: bytes
  kp_addr :: string
  kp_last_seen :: u64
  kp_region_hint :: string
  kp_health_score :: float64

record PeerExchange =
  px_peers :: "KnownPeerMsg option list"

section \<open>The protobuf library\<close>

record 'm codec =
  det :: "'m \<Rightarrow> bytes option"
  enc :: "'m \<Rightarrow> bytes option"
  dec :: "bytes \<Rightarrow> 'm option"

record fed_codec =
  c_env :: "FedEnvelope codec"
  c_hello :: "Hello codec"
  c_auth :: "PeerAuth codec"
  c_accept :: "PeeringAccept codec"
  c_root :: "RootAttestation codec"
  c_evidence :: "EquivocationEvidence codec"
  c_request :: "TransferProofRequest codec"
  c_proof :: "FedTransferProof codec"
  c_applied :: "TransferApplied codec"
  c_reversal :: "TransferReversal codec"
  c_reject :: "TransferReject codec"
  c_revocation :: "Revocation codec"
  c_exchange :: "PeerExchange codec"

text \<open>What the library documents: decoding undoes encoding.\<close>

definition codec_rt :: "'m codec \<Rightarrow> bool" where
  "codec_rt c \<longleftrightarrow> (\<forall>m b. enc c m = Some b \<longrightarrow> dec c b = Some m)"

lemma codec_rtD: "codec_rt c \<Longrightarrow> enc c m = Some b \<Longrightarrow> dec c b = Some m"
  by (simp add: codec_rt_def)

section \<open>Validators\<close>

definition TrackerIDLen :: nat where "TrackerIDLen = 32"
definition RootLen :: nat where "RootLen = 32"
definition SigLen :: nat where "SigLen = 64"
definition NonceLen :: nat where "NonceLen = 32"
definition Ed25519PubLen :: nat where "Ed25519PubLen = 32"
definition MaxTransferRejectReasonLen :: nat where "MaxTransferRejectReasonLen = 64"
definition MaxTransferReversalEvidenceLen :: nat where "MaxTransferReversalEvidenceLen = 512"
definition MaxPeerExchangeEntries :: nat where "MaxPeerExchangeEntries = 1024"
definition MaxKnownPeerAddrLen :: nat where "MaxKnownPeerAddrLen = 256"
definition MaxKnownPeerRegionHintLen :: nat where "MaxKnownPeerRegionHintLen = 64"

lemmas fed_lens = TrackerIDLen_def RootLen_def SigLen_def NonceLen_def Ed25519PubLen_def
  MaxTransferRejectReasonLen_def MaxTransferReversalEvidenceLen_def MaxPeerExchangeEntries_def
  MaxKnownPeerAddrLen_def MaxKnownPeerRegionHintLen_def

fun kind_num :: "FedKind \<Rightarrow> int" where
  "kind_num KIND_UNSPECIFIED = 0"
| "kind_num KIND_HELLO = 1"
| "kind_num KIND_PEER_AUTH = 2"
| "kind_num KIND_PEERING_ACCEPT = 3"
| "kind_num KIND_PEERING_REJECT = 4"
| "kind_num KIND_ROOT_ATTESTATION = 5"
| "kind_num KIND_EQUIVOCATION_EVIDENCE = 6"
| "kind_num KIND_PING = 7"
| "kind_num KIND_PONG = 8"
| "kind_num KIND_TRANSFER_PROOF_REQUEST = 9"
| "kind_num KIND_TRANSFER_PROOF = 10"
| "kind_num KIND_TRANSFER_APPLIED = 11"
| "kind_num KIND_REVOCATION = 12"
| "kind_num KIND_PEER_EXCHANGE = 13"
| "kind_num KIND_TRANSFER_REJECT = 14"
| "kind_num KIND_TRANSFER_REVERSAL = 15"
| "kind_num (KindOther n) = n"

definition ValidateFedEnvelope :: "FedEnvelope option \<Rightarrow> err" where
  "ValidateFedEnvelope oe = (case oe of None \<Rightarrow> Some ''federation: nil Envelope'' | Some e \<Rightarrow>
     if length (fe_sender_id e) \<noteq> TrackerIDLen then Some ''federation: sender_id len''
     else if kind_num (fe_kind e) \<le> 0 \<or> kind_num (fe_kind e) > 15 then Some ''federation: kind out of range''
     else if length (fe_payload e) = 0 then Some ''federation: payload empty''
     else if length (fe_sender_sig e) \<noteq> SigLen then Some ''federation: sender_sig len''
     else None)"

definition ValidateHello :: "Hello option \<Rightarrow> err" where
  "ValidateHello oh = (case oh of None \<Rightarrow> Some ''federation: nil Hello'' | Some h \<Rightarrow>
     if length (he_tracker_id h) \<noteq> TrackerIDLen then Some ''federation: hello.tracker_id len''
     else if length (he_nonce h) \<noteq> NonceLen then Some ''federation: hello.nonce len''
     else None)"

definition ValidatePeerAuth :: "PeerAuth option \<Rightarrow> err" where
  "ValidatePeerAuth op = (case op of None \<Rightarrow> Some ''federation: nil PeerAuth'' | Some p \<Rightarrow>
     if length (pa_nonce_sig p) \<noteq> SigLen then Some ''federation: peerauth.nonce_sig len'' else None)"

definition ValidateRootAttestation :: "RootAttestation option \<Rightarrow> err" where
  "ValidateRootAttestation om = (case om of None \<Rightarrow> Some ''federation: nil RootAttestation'' | Some m \<Rightarrow>
     if length (ra_tracker_id m) \<noteq> TrackerIDLen then Some ''federation: root_attestation.tracker_id len''
     else if allZero (ra_tracker_id m) then Some ''federation: root_attestation.tracker_id is all zero''
     else if ra_hour m = 0 then Some ''federation: root_attestation.hour must be > 0''
     else if length (ra_merkle_root m) \<noteq> RootLen then Some ''federation: root_attestation.merkle_root len''
     else if length (ra_tracker_sig m) \<noteq> SigLen then Some ''federation: root_attestation.tracker_sig len''
     else None)"

definition ValidateEquivocationEvidence :: "EquivocationEvidence option \<Rightarrow> err" where
  "ValidateEquivocationEvidence om = (case om of None \<Rightarrow> Some ''federation: nil EquivocationEvidence'' | Some m \<Rightarrow>
     if length (ee_tracker_id m) \<noteq> TrackerIDLen then Some ''federation: evidence.tracker_id len''
     else if length (ee_root_a m) \<noteq> RootLen then Some ''federation: evidence.root_a len''
     else if length (ee_root_b m) \<noteq> RootLen then Some ''federation: evidence.root_b len''
     else if length (ee_sig_a m) \<noteq> SigLen then Some ''federation: evidence.sig_a len''
     else if length (ee_sig_b m) \<noteq> SigLen then Some ''federation: evidence.sig_b len''
     else if ee_root_a m = ee_root_b m then Some ''federation: evidence.root_a == root_b (no equivocation)''
     else None)"

definition ValidateTransferProofRequest :: "TransferProofRequest option \<Rightarrow> err" where
  "ValidateTransferProofRequest om = (case om of None \<Rightarrow> Some ''federation: nil TransferProofRequest'' | Some m \<Rightarrow>
     if length (tq_source_tracker_id m) \<noteq> TrackerIDLen then Some ''federation: transfer_request.source_tracker_id len''
     else if length (tq_dest_tracker_id m) \<noteq> TrackerIDLen then Some ''federation: transfer_request.dest_tracker_id len''
     else if length (tq_identity_id m) \<noteq> TrackerIDLen then Some ''federation: transfer_request.identity_id len''
     else if tq_amount m = 0 then Some ''federation: transfer_request.amount must be > 0''
     else if length (tq_nonce m) \<noteq> NonceLen then Some ''federation: transfer_request.nonce len''
     else if length (tq_consumer_sig m) \<noteq> SigLen then Some ''federation: transfer_request.consumer_sig len''
     else if length (tq_consumer_pub m) \<noteq> Ed25519PubLen then Some ''federation: transfer_request.consumer_pub len''
     else if tq_source_tracker_id m = tq_dest_tracker_id m
       then Some ''federation: transfer_request.source_tracker_id == dest_tracker_id''
     else if allZero (tq_source_tracker_id m) then Some ''federation: transfer_request.source_tracker_id is all zero''
     else if allZero (tq_dest_tracker_id m) then Some ''federation: transfer_request.dest_tracker_id is all zero''
     else if allZero (tq_identity_id m) then Some ''federation: transfer_request.identity_id is all zero''
     else if allZero (tq_nonce m) then Some ''federation: transfer_request.nonce is all zero''
     else if tq_timestamp m = 0 then Some ''federation: transfer_request.timestamp must be > 0''
     else None)"

definition ValidateTransferProof :: "FedTransferProof option \<Rightarrow> err" where
  "ValidateTransferProof om = (case om of None \<Rightarrow> Some ''federation: nil TransferProof'' | Some m \<Rightarrow>
     if length (tp_source_tracker_id m) \<noteq> TrackerIDLen then Some ''federation: transfer_proof.source_tracker_id len''
     else if length (tp_dest_tracker_id m) \<noteq> TrackerIDLen then Some ''federation: transfer_proof.dest_tracker_id len''
     else if length (tp_identity_id m) \<noteq> TrackerIDLen then Some ''federation: transfer_proof.identity_id len''
     else if tp_amount m = 0 then Some ''federation: transfer_proof.amount must be > 0''
     else if length (tp_nonce m) \<noteq> NonceLen then Some ''federation: transfer_proof.nonce len''
     else if length (tp_source_chain_tip_hash m) \<noteq> RootLen then Some ''federation: transfer_proof.source_chain_tip_hash len''
     else if length (tp_source_tracker_sig m) \<noteq> SigLen then Some ''federation: transfer_proof.source_tracker_sig len''
     else if tp_source_tracker_id m = tp_dest_tracker_id m
       then Some ''federation: transfer_proof.source_tracker_id == dest_tracker_id''
     else if tp_timestamp m = 0 then Some ''federation: transfer_proof.timestamp must be > 0''
     else None)"

fun reason_num :: "RevocationReason \<Rightarrow> int" where
  "reason_num REVOCATION_REASON_UNSPECIFIED = 0"
| "reason_num REVOCATION_REASON_ABUSE = 1"
| "reason_num REVOCATION_REASON_MANUAL = 2"
| "reason_num REVOCATION_REASON_EXPIRED = 3"
| "reason_num (RevocationReasonOther n) = n"

definition ValidateRevocation :: "Revocation option \<Rightarrow> err" where
  "ValidateRevocation om = (case om of None \<Rightarrow> Some ''federation: nil Revocation'' | Some m \<Rightarrow>
     if length (rv_tracker_id m) \<noteq> TrackerIDLen then Some ''federation: revocation.tracker_id len''
     else if allZero (rv_tracker_id m) then Some ''federation: revocation.tracker_id is all zero''
     else if length (rv_identity_id m) \<noteq> TrackerIDLen then Some ''federation: revocation.identity_id len''
     else if allZero (rv_identity_id m) then Some ''federation: revocation.identity_id is all zero''
     else if length (rv_tracker_sig m) \<noteq> SigLen then Some ''federation: revocation.tracker_sig len''
     else if rv_revoked_at m = 0 then Some ''federation: revocation.revoked_at must be > 0''
     else if reason_num (rv_reason m) \<le> 0 \<or> reason_num (rv_reason m) > 3 then Some ''federation: revocation.reason out of range''
     else None)"

definition ValidateTransferApplied :: "TransferApplied option \<Rightarrow> err" where
  "ValidateTransferApplied om = (case om of None \<Rightarrow> Some ''federation: nil TransferApplied'' | Some m \<Rightarrow>
     if length (ta_source_tracker_id m) \<noteq> TrackerIDLen then Some ''federation: transfer_applied.source_tracker_id len''
     else if length (ta_dest_tracker_id m) \<noteq> TrackerIDLen then Some ''federation: transfer_applied.dest_tracker_id len''
     else if length (ta_nonce m) \<noteq> NonceLen then Some ''federation: transfer_applied.nonce len''
     else if length (ta_dest_tracker_sig m) \<noteq> SigLen then Some ''federation: transfer_applied.dest_tracker_sig len''
     else if ta_source_tracker_id m = ta_dest_tracker_id m
       then Some ''federation: transfer_applied.source_tracker_id == dest_tracker_id''
     else if ta_timestamp m = 0 then Some ''federation: transfer_applied.timestamp must be > 0''
     else None)"

definition ValidateTransferReversal :: "TransferReversal option \<Rightarrow> err" where
  "ValidateTransferReversal om = (case om of None \<Rightarrow> Some ''federation: nil TransferReversal'' | Some m \<Rightarrow>
     if length (tv_source_tracker_id m) \<noteq> TrackerIDLen then Some ''federation: transfer_reversal.source_tracker_id len''
     else if length (tv_dest_tracker_id m) \<noteq> TrackerIDLen then Some ''federation: transfer_reversal.dest_tracker_id len''
     else if length (tv_nonce m) \<noteq> NonceLen then Some ''federation: transfer_reversal.nonce len''
     else if tv_source_tracker_id m = tv_dest_tracker_id m
       then Some ''federation: transfer_reversal.source_tracker_id == dest_tracker_id''
     else if length (tv_evidence m) > MaxTransferReversalEvidenceLen then Some ''federation: transfer_reversal.evidence len''
     else if \<not> utf8_ValidString (tv_evidence m) then Some ''federation: transfer_reversal.evidence not valid UTF-8''
     else if tv_timestamp m = 0 then Some ''federation: transfer_reversal.timestamp must be > 0''
     else if length (tv_dest_tracker_sig m) \<noteq> SigLen then Some ''federation: transfer_reversal.dest_tracker_sig len''
     else None)"

definition ValidateTransferReject :: "TransferReject option \<Rightarrow> err" where
  "ValidateTransferReject om = (case om of None \<Rightarrow> Some ''federation: nil TransferReject'' | Some m \<Rightarrow>
     if length (tj_source_tracker_id m) \<noteq> TrackerIDLen then Some ''federation: transfer_reject.source_tracker_id len''
     else if length (tj_dest_tracker_id m) \<noteq> TrackerIDLen then Some ''federation: transfer_reject.dest_tracker_id len''
     else if length (tj_nonce m) \<noteq> NonceLen then Some ''federation: transfer_reject.nonce len''
     else if tj_source_tracker_id m = tj_dest_tracker_id m
       then Some ''federation: transfer_reject.source_tracker_id == dest_tracker_id''
     else if length (tj_reason m) = 0 then Some ''federation: transfer_reject.reason empty''
     else if length (tj_reason m) > MaxTransferRejectReasonLen then Some ''federation: transfer_reject.reason len''
     else if \<not> utf8_ValidString (tj_reason m) then Some ''federation: transfer_reject.reason not valid UTF-8''
     else if tj_timestamp m = 0 then Some ''federation: transfer_reject.timestamp must be > 0''
     else if length (tj_source_tracker_sig m) \<noteq> SigLen then Some ''federation: transfer_reject.source_tracker_sig len''
     else None)"

primrec check_known_peers :: "KnownPeerMsg option list \<Rightarrow> err" where
  "check_known_peers [] = None"
| "check_known_peers (op # ps) = (case op of None \<Rightarrow> Some ''federation: peer_exchange.peers is nil'' | Some p \<Rightarrow>
     if length (kp_tracker_id p) \<noteq> TrackerIDLen then Some ''federation: peer_exchange.peers.tracker_id len''
     else if allZero (kp_tracker_id p) then Some ''federation: peer_exchange.peers.tracker_id is all zero''
     else if length (kp_addr p) = 0 then Some ''federation: peer_exchange.peers.addr empty''
     else if length (kp_addr p) > MaxKnownPeerAddrLen then Some ''federation: peer_exchange.peers.addr len''
     else if \<not> utf8_ValidString (kp_addr p) then Some ''federation: peer_exchange.peers.addr invalid utf-8''
     else if length (kp_region_hint p) > MaxKnownPeerRegionHintLen then Some ''federation: peer_exchange.peers.region_hint len''
     else if \<not> utf8_ValidString (kp_region_hint p) then Some ''federation: peer_exchange.peers.region_hint invalid utf-8''
     else if kp_health_score p = NaN \<or> f_lt (kp_health_score p) (Fin 0) \<or> f_lt (Fin 1) (kp_health_score p)
       then Some ''federation: peer_exchange.peers.health_score out of [0,1]''
     else check_known_peers ps)"

definition ValidatePeerExchange :: "PeerExchange option \<Rightarrow> err" where
  "ValidatePeerExchange om = (case om of None \<Rightarrow> Some ''federation: nil PeerExchange'' | Some m \<Rightarrow>
     if length (px_peers m) > MaxPeerExchangeEntries then Some ''federation: peer_exchange.peers len''
     else check_known_peers (px_peers m))"

section \<open>Canonical bytes\<close>

definition CanonicalTransferProofPreSig :: "fed_codec \<Rightarrow> FedTransferProof option \<Rightarrow> string + bytes" where
  "CanonicalTransferProofPreSig cd om = (case om of None \<Rightarrow> Inl ''federation: nil TransferProof''
   | Some m \<Rightarrow> DeterministicMarshal (det (c_proof cd)) (Some (m\<lparr>tp_source_tracker_sig := []\<rparr>)))"

definition CanonicalTransferAppliedPreSig :: "fed_codec \<Rightarrow> TransferApplied option \<Rightarrow> string + bytes" where
  "CanonicalTransferAppliedPreSig cd om = (case om of None \<Rightarrow> Inl ''federation: nil TransferApplied''
   | Some m \<Rightarrow> DeterministicMarshal (det (c_applied cd)) (Some (m\<lparr>ta_dest_tracker_sig := []\<rparr>)))"

definition CanonicalTransferRejectPreSig :: "fed_codec \<Rightarrow> TransferReject option \<Rightarrow> string + bytes" where
  "CanonicalTransferRejectPreSig cd om = (case om of None \<Rightarrow> Inl ''federation: nil TransferReject''
   | Some m \<Rightarrow> DeterministicMarshal (det (c_reject cd)) (Some (m\<lparr>tj_source_tracker_sig := []\<rparr>)))"

definition CanonicalTransferReversalPreSig :: "fed_codec \<Rightarrow> TransferReversal option \<Rightarrow> string + bytes" where
  "CanonicalTransferReversalPreSig cd om = (case om of None \<Rightarrow> Inl ''federation: nil TransferReversal''
   | Some m \<Rightarrow> DeterministicMarshal (det (c_reversal cd)) (Some (m\<lparr>tv_dest_tracker_sig := []\<rparr>)))"

definition CanonicalRevocationPreSig :: "fed_codec \<Rightarrow> Revocation option \<Rightarrow> string + bytes" where
  "CanonicalRevocationPreSig cd om = (case om of None \<Rightarrow> Inl ''federation: nil Revocation''
   | Some m \<Rightarrow> DeterministicMarshal (det (c_revocation cd)) (Some (m\<lparr>rv_tracker_sig := []\<rparr>)))"

section \<open>Envelopes\<close>

datatype fed_err = ErrPeerUnknown | ErrPeerClosed | ErrSigInvalid | ErrFrameTooLarge | ErrHandshakeFailed string
  | ErrEquivocation | ErrPeerExists | ErrPeerNotConnected | ErrTransferTimeout | ErrTransferDisabled
  | ErrPeerExchangeDisabled | ErrTransferRejected string | FErr string

definition SignFedEnvelope :: "crypto \<Rightarrow> bytes \<Rightarrow> bytes \<Rightarrow> FedKind \<Rightarrow> bytes \<Rightarrow> fed_err + FedEnvelope" where
  "SignFedEnvelope cr priv senderID k payload =
     (if length priv \<noteq> PrivateKeySize then Inl (FErr ''federation: SignEnvelope requires Ed25519 private key'')
      else if length senderID \<noteq> TrackerIDLen then Inl (FErr ''federation: senderID must be 32 bytes'')
      else let env = \<lparr>fe_sender_id = senderID, fe_kind = k, fe_payload = payload, fe_sender_sig = ed_sign cr priv payload\<rparr>
        in (case ValidateFedEnvelope (Some env) of Some e \<Rightarrow> Inl (FErr e) | None \<Rightarrow> Inr env))"

definition VerifyFedEnvelope :: "crypto \<Rightarrow> bytes \<Rightarrow> FedEnvelope option \<Rightarrow> fed_err option" where
  "VerifyFedEnvelope cr pub oe = (case ValidateFedEnvelope oe of Some e \<Rightarrow> Some (FErr e)
     | None \<Rightarrow> if \<not> Verify cr pub (fe_payload (the oe)) (fe_sender_sig (the oe)) then Some ErrSigInvalid else None)"

definition MessageID :: "crypto \<Rightarrow> FedEnvelope \<Rightarrow> bytes" where
  "MessageID cr e = sha256 cr (fe_payload e)"

definition MaxFrameBytes :: nat where "MaxFrameBytes = 1048576"

definition MarshalFrame :: "fed_codec \<Rightarrow> FedEnvelope option \<Rightarrow> fed_err + bytes" where
  "MarshalFrame cd oe = (case ValidateFedEnvelope oe of Some e \<Rightarrow> Inl (FErr e)
     | None \<Rightarrow> (case enc (c_env cd) (the oe) of None \<Rightarrow> Inl (FErr ''federation: marshal frame'') | Some b \<Rightarrow> Inr b))"

definition UnmarshalFrame :: "fed_codec \<Rightarrow> bytes \<Rightarrow> fed_err + FedEnvelope" where
  "UnmarshalFrame cd frame = (if length frame > MaxFrameBytes then Inl ErrFrameTooLarge
     else (case dec (c_env cd) frame of None \<Rightarrow> Inl (FErr ''federation: unmarshal frame'')
       | Some e \<Rightarrow> (case ValidateFedEnvelope (Some e) of Some x \<Rightarrow> Inl (FErr x) | None \<Rightarrow> Inr e)))"

lemma SignFedEnvelope_Inr:
  "SignFedEnvelope cr priv i k payload = Inr e \<longleftrightarrow>
     length priv = PrivateKeySize \<and> length i = TrackerIDLen \<and> ValidateFedEnvelope (Some e) = None \<and>
     e = \<lparr>fe_sender_id = i, fe_kind = k, fe_payload = payload, fe_sender_sig = ed_sign cr priv payload\<rparr>"
  by (auto simp: SignFedEnvelope_def Let_def split: option.splits)

lemma MarshalFrame_Inr:
  "MarshalFrame cd (Some e) = Inr b \<longleftrightarrow> ValidateFedEnvelope (Some e) = None \<and> enc (c_env cd) e = Some b"
  by (auto simp: MarshalFrame_def split: option.splits)

text \<open>A frame that was marshalled and is not too long is unmarshalled to the same envelope.\<close>

lemma frame_round_trip:
  assumes "codec_rt (c_env cd)" "MarshalFrame cd (Some e) = Inr b" "length b \<le> MaxFrameBytes"
  shows "UnmarshalFrame cd b = Inr e"
  using assms by (auto simp: MarshalFrame_Inr UnmarshalFrame_def dest: codec_rtD)

end
