(* ===== verification/TB_Gossip.thy ===== *)
theory TB_Gossip
  imports TB_Fed_Msgs TB_Float_Bounds
begin

text \<open>
  The gossip core of a tracker (\<open>src/tracker/internal/federation\<close>: \<open>dedupe.go\<close>, \<open>ratelimit.go\<close>,
  \<open>registry.go\<close>, \<open>gossip.go\<close>, \<open>health.go\<close>): the set of recently seen message ids, the token buckets, the
  table of peers, the broadcast, and the health score of a peer.

  A reading of the clock is an argument, one per reading where an operation reads it more than once.
\<close>

section \<open>Recently seen messages\<close>

record dedupeEntry =
  de_id :: bytes
  de_expiry :: time

text \<open>\<open>dd_order\<close> is the linked list from front (newest) to back, \<open>dd_idx\<close> the index into it.\<close>

record Dedupe =
  dd_ttl :: int
  dd_cap :: int
  dd_order :: "dedupeEntry list"
  dd_idx :: "bytes \<rightharpoonup> dedupeEntry"

definition NewDedupe :: "int \<Rightarrow> int \<Rightarrow> Dedupe" where
  "NewDedupe ttl capacity = \<lparr>dd_ttl = ttl, dd_cap = (if capacity \<le> 0 then 1024 else capacity),
     dd_order = [], dd_idx = Map.empty\<rparr>"

text \<open>The two eviction loops, on the list from back to front.\<close>

fun evict_expired :: "time \<Rightarrow> dedupeEntry list \<Rightarrow> (bytes \<rightharpoonup> dedupeEntry) \<Rightarrow> dedupeEntry list \<times> (bytes \<rightharpoonup> dedupeEntry)" where
  "evict_expired now [] ix = ([], ix)"
| "evict_expired now (e # es) ix = (if now < de_expiry e then (e # es, ix)
     else evict_expired now es (ix(de_id e := None)))"

fun evict_over_cap :: "int \<Rightarrow> dedupeEntry list \<Rightarrow> (bytes \<rightharpoonup> dedupeEntry) \<Rightarrow> dedupeEntry list \<times> (bytes \<rightharpoonup> dedupeEntry)" where
  "evict_over_cap cp [] ix = ([], ix)"
| "evict_over_cap cp (e # es) ix = (if int (length (e # es)) \<ge> cp then evict_over_cap cp es (ix(de_id e := None))
     else (e # es, ix))"

definition evictExpiredLocked :: "time \<Rightarrow> Dedupe \<Rightarrow> Dedupe" where
  "evictExpiredLocked now d = (case evict_expired now (rev (dd_order d)) (dd_idx d) of
     (es, ix) \<Rightarrow> d\<lparr>dd_order := rev es, dd_idx := ix\<rparr>)"

definition Dedupe_Mark :: "time \<Rightarrow> time \<Rightarrow> bytes \<Rightarrow> Dedupe \<Rightarrow> Dedupe" where
  "Dedupe_Mark now now' i d0 =
     (let d = evictExpiredLocked now d0; new = \<lparr>de_id = i, de_expiry = now' + dd_ttl d\<rparr> in
      case dd_idx d i of
        Some el \<Rightarrow> d\<lparr>dd_order := new # remove1 el (dd_order d), dd_idx := (dd_idx d)(i \<mapsto> new)\<rparr>
      | None \<Rightarrow> (case evict_over_cap (dd_cap d) (rev (dd_order d)) (dd_idx d) of
          (es, ix) \<Rightarrow> d\<lparr>dd_order := new # rev es, dd_idx := ix(i \<mapsto> new)\<rparr>))"

definition Dedupe_Seen :: "time \<Rightarrow> time \<Rightarrow> bytes \<Rightarrow> Dedupe \<Rightarrow> bool \<times> Dedupe" where
  "Dedupe_Seen now now' i d0 =
     (let d = evictExpiredLocked now d0 in
      case dd_idx d i of None \<Rightarrow> (False, d)
      | Some el \<Rightarrow> if \<not> now' < de_expiry el
          then (False, d\<lparr>dd_order := remove1 el (dd_order d), dd_idx := (dd_idx d)(i := None)\<rparr>)
          else (True, d))"

definition Dedupe_Size :: "time \<Rightarrow> Dedupe \<Rightarrow> int \<times> Dedupe" where
  "Dedupe_Size now d0 = (let d = evictExpiredLocked now d0 in (int (length (dd_order d)), d))"

section \<open>Rate limits\<close>

text \<open>Division and remainder of signed integers cut towards zero; \<open>Duration.Seconds\<close> of a duration of either sign.\<close>

definition go_div :: "int \<Rightarrow> int \<Rightarrow> int" where
  "go_div a b = sgn a * sgn b * (\<bar>a\<bar> div \<bar>b\<bar>)"

definition go_rem :: "int \<Rightarrow> int \<Rightarrow> int" where
  "go_rem a b = a - b * go_div a b"

definition Duration_Seconds :: "int \<Rightarrow> float64" where
  "Duration_Seconds d = f_add (f_of_int (go_div d second_ns)) (f_div (f_of_int (go_rem d second_ns)) (f_of_int second_ns))"

record RateBucket =
  rb_rate :: float64
  rb_burst :: int

record RateLimitConfig =
  rl_root_attestation :: RateBucket
  rl_revocation :: RateBucket
  rl_peer_exchange :: RateBucket
  rl_equivocation_evidence :: RateBucket
  rl_transfer :: RateBucket

record tokenBucket =
  tb_tokens :: float64
  tb_last :: time
  tb_rate :: float64
  tb_cap :: float64

type_synonym buckets = "bytes \<times> FedKind \<rightharpoonup> tokenBucket"

fun bucketCfg :: "RateLimitConfig \<Rightarrow> FedKind \<Rightarrow> RateBucket option" where
  "bucketCfg cfg KIND_ROOT_ATTESTATION = Some (rl_root_attestation cfg)"
| "bucketCfg cfg KIND_REVOCATION = Some (rl_revocation cfg)"
| "bucketCfg cfg KIND_PEER_EXCHANGE = Some (rl_peer_exchange cfg)"
| "bucketCfg cfg KIND_EQUIVOCATION_EVIDENCE = Some (rl_equivocation_evidence cfg)"
| "bucketCfg cfg KIND_TRANSFER_PROOF_REQUEST = Some (rl_transfer cfg)"
| "bucketCfg cfg KIND_TRANSFER_PROOF = Some (rl_transfer cfg)"
| "bucketCfg cfg KIND_TRANSFER_APPLIED = Some (rl_transfer cfg)"
| "bucketCfg cfg _ = None"

definition take_token :: "time \<Rightarrow> tokenBucket \<Rightarrow> bool \<times> tokenBucket" where
  "take_token now tb =
     (let elapsed = Duration_Seconds (time_sub now (tb_last tb));
          t0 = f_add (tb_tokens tb) (f_mul elapsed (tb_rate tb));
          t = (if f_lt (tb_cap tb) t0 then tb_cap tb else t0)
      in if f_lt t (Fin 1) then (False, tb\<lparr>tb_last := now, tb_tokens := t\<rparr>)
         else (True, tb\<lparr>tb_last := now, tb_tokens := f_sub t (Fin 1)\<rparr>))"

definition Limiter_Allow :: "RateLimitConfig \<Rightarrow> time \<Rightarrow> time \<Rightarrow> bytes \<Rightarrow> FedKind \<Rightarrow> buckets \<Rightarrow> bool \<times> buckets" where
  "Limiter_Allow cfg now now' peer k bs = (case bucketCfg cfg k of None \<Rightarrow> (True, bs) | Some c \<Rightarrow>
     if f_le (rb_rate c) (Fin 0) then (True, bs)
     else let fresh = \<lparr>tb_tokens = f_of_int (rb_burst c), tb_last = now, tb_rate = rb_rate c, tb_cap = f_of_int (rb_burst c)\<rparr>;
              tb = (case bs (peer, k) of Some t \<Rightarrow> t | None \<Rightarrow> fresh)
       in (case take_token now' tb of (ok, tb') \<Rightarrow> (ok, bs((peer, k) \<mapsto> tb'))))"

section \<open>Peers\<close>

datatype DepeerReason = ReasonOperator | ReasonEquivocation | ReasonHandshakeFailed | ReasonInvalidSignature
  | ReasonDisconnected | ReasonLowHealth | ReasonLocalChainCorrupt

datatype PeerState = PeerStatePending | PeerStateDialing | PeerStateHandshake | PeerStateSteady | PeerStateClosed

text \<open>A connection is named by a number.\<close>

record PeerInfo =
  pi_tracker_id :: bytes
  pi_pub_key :: bytes
  pi_addr :: string
  pi_region :: string
  pi_state :: PeerState
  pi_conn :: "nat option"
  pi_since :: time

type_synonym peer_reg = "bytes \<rightharpoonup> PeerInfo"

definition Reg_Add :: "PeerInfo \<Rightarrow> peer_reg \<Rightarrow> fed_err option \<times> peer_reg" where
  "Reg_Add p r = (if length (pi_pub_key p) \<noteq> PublicKeySize then (Some (FErr ''registry: PubKey must be 32 bytes''), r)
     else if r (pi_tracker_id p) \<noteq> None then (Some ErrPeerExists, r)
     else (None, r(pi_tracker_id p \<mapsto> p)))"

definition Reg_Update :: "PeerInfo \<Rightarrow> peer_reg \<Rightarrow> fed_err option \<times> peer_reg" where
  "Reg_Update p r = (if r (pi_tracker_id p) = None then (Some ErrPeerUnknown, r) else (None, r(pi_tracker_id p \<mapsto> p)))"

definition Reg_IsActive :: "bytes \<Rightarrow> peer_reg \<Rightarrow> bool" where
  "Reg_IsActive i r = (case r i of None \<Rightarrow> False | Some p \<Rightarrow> pi_state p = PeerStateSteady)"

text \<open>The snapshot, in the order \<open>ord\<close> in which the map is traversed.\<close>

definition Reg_All :: "bytes list \<Rightarrow> peer_reg \<Rightarrow> PeerInfo list" where
  "Reg_All ord r = map (\<lambda>p. p\<lparr>pi_conn := None\<rparr>) (List.map_filter r ord)"

text \<open>\<open>Depeer\<close> also returns the connection that it closes.\<close>

definition Reg_Depeer :: "bytes \<Rightarrow> peer_reg \<Rightarrow> fed_err option \<times> nat option \<times> peer_reg" where
  "Reg_Depeer i r = (case r i of None \<Rightarrow> (Some ErrPeerUnknown, None, r)
     | Some p \<Rightarrow> (None, pi_conn p, r(i := None)))"

section \<open>Broadcast\<close>

text \<open>
  \<open>Forward\<close> returns the frames it hands to the active peers, in order; a failing \<open>Send\<close> is ignored by the code.
\<close>

definition Gossip_Forward :: "crypto \<Rightarrow> fed_codec \<Rightarrow> bytes \<Rightarrow> bytes \<Rightarrow> bytes list \<Rightarrow> FedKind \<Rightarrow> bytes \<Rightarrow> bytes option
    \<Rightarrow> fed_err + (bytes \<times> bytes) list" where
  "Gossip_Forward cr cd priv myID peers k payload exclude = (case SignFedEnvelope cr priv myID k payload of
     Inl e \<Rightarrow> Inl e
   | Inr env \<Rightarrow> (case MarshalFrame cd (Some env) of Inl e \<Rightarrow> Inl e
     | Inr frame \<Rightarrow> Inr (map (\<lambda>p. (p, frame)) (filter (\<lambda>p. Some p \<noteq> exclude) peers))))"

section \<open>Health of a peer\<close>

record HealthConfig =
  hc_uptime_window :: int
  hc_rev_gossip_window :: int
  hc_latency_target :: int
  hc_uptime_weight :: float64
  hc_rev_gossip_weight :: float64
  hc_latency_weight :: float64

text \<open>A ring buffer of 16 delays: the array, the number of valid samples and the next write position.\<close>

record ringBuf16 =
  rg_xs :: "int list"
  rg_n :: nat
  rg_head :: nat

definition new_ring :: ringBuf16 where
  "new_ring = \<lparr>rg_xs = replicate 16 0, rg_n = 0, rg_head = 0\<rparr>"

definition ring_push :: "int \<Rightarrow> ringBuf16 \<Rightarrow> ringBuf16" where
  "ring_push d rb = rb\<lparr>rg_xs := (rg_xs rb)[rg_head rb := d], rg_head := (rg_head rb + 1) mod 16,
     rg_n := (if rg_n rb < 16 then rg_n rb + 1 else rg_n rb)\<rparr>"

definition ring_mean :: "ringBuf16 \<Rightarrow> int" where
  "ring_mean rb = (if rg_n rb = 0 then 0
     else go_div (fold (\<lambda>i s. i64_add s (rg_xs rb ! i)) [0..<rg_n rb] 0) (int (rg_n rb)))"

record PeerHealth =
  ph_last_root :: "bytes \<rightharpoonup> time"
  ph_rev_delays :: "bytes \<rightharpoonup> ringBuf16"
  ph_equivocated :: "bytes set"
  ph_latency :: "bytes \<rightharpoonup> int"

definition NewPeerHealth :: PeerHealth where
  "NewPeerHealth = \<lparr>ph_last_root = Map.empty, ph_rev_delays = Map.empty, ph_equivocated = {}, ph_latency = Map.empty\<rparr>"

text \<open>The constants \<open>0.3\<close> and \<open>1 - 0.3\<close> are converted to \<open>float64\<close>; a conversion to \<open>Duration\<close> truncates.\<close>

definition OnLatencySample :: "bytes \<Rightarrow> int \<Rightarrow> PeerHealth \<Rightarrow> PeerHealth" where
  "OnLatencySample peer rtt0 h = (let rtt = max rtt0 0 in
     case ph_latency h peer of None \<Rightarrow> h\<lparr>ph_latency := (ph_latency h)(peer \<mapsto> rtt)\<rparr>
     | Some prev \<Rightarrow> h\<lparr>ph_latency := (ph_latency h)(peer \<mapsto>
         f_to_int (f_add (f_mul (f_of_int prev) (round64 (7/10))) (f_mul (f_of_int rtt) (round64 (3/10)))))\<rparr>)"

definition OnRootAttestation :: "bytes \<Rightarrow> time \<Rightarrow> PeerHealth \<Rightarrow> PeerHealth" where
  "OnRootAttestation peer recvAt h = h\<lparr>ph_last_root := (ph_last_root h)(peer \<mapsto> recvAt)\<rparr>"

definition OnRevocation :: "bytes \<Rightarrow> time \<Rightarrow> time \<Rightarrow> PeerHealth \<Rightarrow> PeerHealth" where
  "OnRevocation peer revokedAt recvAt h =
     (let delay = max (time_sub recvAt revokedAt) 0;
          rb = (case ph_rev_delays h peer of None \<Rightarrow> new_ring | Some rb \<Rightarrow> rb)
      in h\<lparr>ph_rev_delays := (ph_rev_delays h)(peer \<mapsto> ring_push delay rb)\<rparr>)"

definition OnEquivocation :: "bytes \<Rightarrow> PeerHealth \<Rightarrow> PeerHealth" where
  "OnEquivocation peer h = h\<lparr>ph_equivocated := insert peer (ph_equivocated h)\<rparr>"

definition ClearEquivocation :: "bytes \<Rightarrow> PeerHealth \<Rightarrow> bool \<times> PeerHealth" where
  "ClearEquivocation peer h = (peer \<in> ph_equivocated h, h\<lparr>ph_equivocated := ph_equivocated h - {peer}\<rparr>)"

definition health_clamp01 :: "float64 \<Rightarrow> float64" where
  "health_clamp01 v = (if f_lt v (Fin 0) then Fin 0 else if f_lt (Fin 1) v then Fin 1 else v)"

text \<open>\<open>frac_sub a w\<close> is \<open>clamp01(1.0 - float64(a)/float64(w))\<close>.\<close>

definition frac_sub :: "int \<Rightarrow> int \<Rightarrow> float64" where
  "frac_sub a w = health_clamp01 (f_sub (Fin 1) (f_div (f_of_int a) (f_of_int w)))"

definition Health_Score :: "HealthConfig \<Rightarrow> bytes \<Rightarrow> time \<Rightarrow> PeerHealth \<Rightarrow> float64" where
  "Health_Score cfg peer now h = (if peer \<in> ph_equivocated h then Fin 0 else
     let uptimeSub = (case ph_last_root h peer of None \<Rightarrow> Fin 0
           | Some lst \<Rightarrow> frac_sub (max (time_sub now lst) 0) (hc_uptime_window cfg));
         revgossSub = (case ph_rev_delays h peer of None \<Rightarrow> Fin 1
           | Some rb \<Rightarrow> if rg_n rb > 0 then frac_sub (ring_mean rb) (hc_rev_gossip_window cfg) else Fin 1);
         latencySub = (case ph_latency h peer of None \<Rightarrow> Fin 1
           | Some rtt \<Rightarrow> if hc_latency_target cfg > 0 then frac_sub rtt (hc_latency_target cfg) else Fin 1)
     in f_add (f_add (f_mul (hc_uptime_weight cfg) uptimeSub) (f_mul (hc_rev_gossip_weight cfg) revgossSub))
         (f_mul (hc_latency_weight cfg) latencySub))"

end
