(* ===== verification/TB_Transfer.thy ===== *)
theory TB_Transfer
  imports TB_Gossip TB_Ledger TB_Credit
begin

text \<open>
  Credit transfers between trackers: the coordinator (\<open>src/tracker/internal/federation/transfer.go\<close>), the
  ledger it writes through (\<open>ledgerHooksAdapter\<close> in \<open>src/tracker/cmd/token-bay-tracker\<close>), and the handler of
  the consumer's request (\<open>src/tracker/internal/api/transfer_request.go\<close>).

  A handler is split at the points where it gives up its lock: \<open>OnRequest\<close> into the checks, the debit and the
  issue of the proof, \<open>StartTransfer\<close> into the request, the wait, the credit and the completion, so that other
  goroutines can run in between. A handler returns the name of the metric it counts as its outcome. \<open>net\<close>
  tells which calls of \<open>Send\<close> fail.
\<close>

section \<open>Ledger hooks\<close>

record TransferOutHookIn =
  oh_identity_id :: bytes
  oh_amount :: u64
  oh_timestamp :: u64
  oh_transfer_ref :: bytes
  oh_source_tracker_id :: bytes
  oh_dest_tracker_id :: bytes
  oh_consumer_sig :: bytes
  oh_consumer_pub :: bytes

record TransferOutHookOut =
  oo_chain_tip_hash :: bytes
  oo_seq :: u64

record TransferInHookIn =
  ih_identity_id :: bytes
  ih_amount :: u64
  ih_timestamp :: u64
  ih_transfer_ref :: bytes

text \<open>
  The ledger behind the adapter. Between the \<open>k\<close>-th reading of the tip and the append that uses it, other
  writers turn the store into \<open>hk_others k\<close> of it; \<open>hk_flt k\<close> tells which database calls of that attempt fail.
\<close>

record hooks =
  hk_env :: ledger_env
  hk_flt :: "nat \<Rightarrow> faults"
  hk_others :: "nat \<Rightarrow> store \<Rightarrow> store"
  hk_adm :: bool

definition staleTipRetries :: nat where "staleTipRetries = 8"

definition emitTransfer :: "hooks \<Rightarrow> LedgerEventKind \<Rightarrow> bytes \<Rightarrow> u64 \<Rightarrow> u64 \<Rightarrow> AdmEvent list" where
  "emitTransfer hk k i amount ts = (if \<not> hk_adm hk then [] else
     [\<lparr>ae_kind = k, ae_consumer_id = i, ae_seeder_id = zero_id, ae_cost_credits = amount, ae_flags = 0,
       ae_dispute_upheld = False, ae_timestamp = seconds (sint ts)\<rparr>])"

definition nextTip :: "faults \<Rightarrow> store \<Rightarrow> ledger_err + (bytes \<times> u64)" where
  "nextTip flt s = (case Tip flt s of Inl e \<Rightarrow> Inl (LStore '''' e)
     | Inr (tipSeq, tipHash, hasTip) \<Rightarrow> if \<not> hasTip then Inr (zeros 32, 1) else Inr (tipHash, tipSeq + 1))"

definition out_record :: "bytes \<Rightarrow> u64 \<Rightarrow> TransferOutHookIn \<Rightarrow> TransferOutRecord" where
  "out_record prev sq inp = \<lparr>tor_prev_hash = prev, tor_seq = sq, tor_consumer_id = oh_identity_id inp,
     tor_amount = oh_amount inp, tor_timestamp = oh_timestamp inp, tor_transfer_ref = oh_transfer_ref inp,
     tor_source_tracker_id = oh_source_tracker_id inp, tor_dest_tracker_id = oh_dest_tracker_id inp,
     tor_consumer_sig = oh_consumer_sig inp, tor_consumer_pub = oh_consumer_pub inp\<rparr>"

fun out_attempts :: "hooks \<Rightarrow> nat \<Rightarrow> nat \<Rightarrow> TransferOutHookIn \<Rightarrow> store \<Rightarrow> (ledger_err + TransferOutHookOut) \<times> AdmEvent list \<times> store" where
  "out_attempts hk 0 k inp s = (Inl ErrStaleTip, [], s)"
| "out_attempts hk (Suc n) k inp s = (case nextTip (hk_flt hk k) s of Inl e \<Rightarrow> (Inl e, [], s)
     | Inr (prev, sq) \<Rightarrow> (case AppendTransferOut (hk_env hk) (hk_flt hk k) (out_record prev sq inp) (hk_others hk k s) of
         (Inl x, s1) \<Rightarrow> if x = ErrStaleTip then out_attempts hk n (k + 1) inp s1 else (Inl x, [], s1)
       | (Inr e, s1) \<Rightarrow> (case Hash (le_crypto (hk_env hk)) (en_body e) of Inl x \<Rightarrow> (Inl (LErr x), [], s1)
           | Inr h \<Rightarrow> (Inr \<lparr>oo_chain_tip_hash = h, oo_seq = eb_seq (the (en_body e))\<rparr>,
               emitTransfer hk LedgerEventTransferOut (oh_identity_id inp) (oh_amount inp) (oh_timestamp inp), s1))))"

definition in_record :: "bytes \<Rightarrow> u64 \<Rightarrow> TransferInHookIn \<Rightarrow> TransferInRecord" where
  "in_record prev sq inp = \<lparr>tir_prev_hash = prev, tir_seq = sq, tir_identity_id = ih_identity_id inp,
     tir_amount = ih_amount inp, tir_timestamp = ih_timestamp inp, tir_transfer_ref = ih_transfer_ref inp\<rparr>"

fun in_attempts :: "hooks \<Rightarrow> nat \<Rightarrow> nat \<Rightarrow> TransferInHookIn \<Rightarrow> store \<Rightarrow> ledger_err option \<times> AdmEvent list \<times> store" where
  "in_attempts hk 0 k inp s = (Some ErrStaleTip, [], s)"
| "in_attempts hk (Suc n) k inp s = (case nextTip (hk_flt hk k) s of Inl e \<Rightarrow> (Some e, [], s)
     | Inr (prev, sq) \<Rightarrow> (case AppendTransferIn (hk_env hk) (hk_flt hk k) (in_record prev sq inp) (hk_others hk k s) of
         (Inl x, s1) \<Rightarrow> if x = ErrStaleTip then in_attempts hk n (k + 1) inp s1 else (Some x, [], s1)
       | (Inr e, s1) \<Rightarrow> (None, emitTransfer hk LedgerEventTransferIn (ih_identity_id inp) (ih_amount inp) (ih_timestamp inp), s1)))"

definition Hook_AppendTransferOut :: "hooks \<Rightarrow> TransferOutHookIn \<Rightarrow> store \<Rightarrow> (ledger_err + TransferOutHookOut) \<times> AdmEvent list \<times> store" where
  "Hook_AppendTransferOut hk inp s = out_attempts hk staleTipRetries 0 inp s"

definition Hook_AppendTransferIn :: "hooks \<Rightarrow> TransferInHookIn \<Rightarrow> store \<Rightarrow> ledger_err option \<times> AdmEvent list \<times> store" where
  "Hook_AppendTransferIn hk inp s = in_attempts hk staleTipRetries 0 inp s"

text \<open>The text of a ledger error, as far as it is constant.\<close>

fun st_err_msg :: "st_err \<Rightarrow> string" where
  "st_err_msg ErrAlreadyExists = ''storage: entry with this seq or hash already exists''"
| "st_err_msg ErrDuplicateMerkleRoot = ''storage: merkle root for this hour already exists''"
| "st_err_msg ErrPeerRootConflict = ''storage: peer root conflict''"
| "st_err_msg (StErr m) = m"

fun ledger_err_msg :: "ledger_err \<Rightarrow> string" where
  "ledger_err_msg ErrStaleTip = ''ledger: entry prev_hash / seq does not match current tip''"
| "ledger_err_msg ErrInsufficientBalance = ''ledger: balance would go below permitted floor''"
| "ledger_err_msg ErrUsageRequestExists = ''ledger: usage entry with this request_id already exists''"
| "ledger_err_msg ErrTransferRefExists = ''ledger: transfer ref already on chain''"
| "ledger_err_msg ErrTransferIdentityMismatch = ''ledger: consumer pubkey does not match debited identity (sha256 of DER SPKI)''"
| "ledger_err_msg (LStore m e) = (if m = [] then st_err_msg e else m @ '': '' @ st_err_msg e)"
| "ledger_err_msg (LErr m) = m"

definition isLedgerTransferRefExists :: "ledger_err option \<Rightarrow> bool" where
  "isLedgerTransferRefExists oe = (case oe of None \<Rightarrow> False
     | Some e \<Rightarrow> ledger_err_msg e = ''ledger: transfer ref already on chain'')"

section \<open>The coordinator\<close>

record tc_cfg =
  cfg_my_id :: bytes
  cfg_priv :: bytes
  cfg_ledger :: bool
  cfg_issued_cap :: int
  cfg_cr :: crypto
  cfg_cd :: fed_codec

record issuedProof =
  ip_payload :: bytes
  ip_at :: time

record StartTransferOutput =
  so_source_chain_tip_hash :: bytes
  so_source_seq :: u64
  so_source_tracker_sig :: bytes

record completedTransfer =
  ct_out :: StartTransferOutput
  ct_at :: time

text \<open>The two channels of a pending request, each with room for one message.\<close>

record pendingResp =
  pd_ch :: "FedTransferProof option"
  pd_rej :: "TransferReject option"

record transferCoordinator =
  tc_issued :: "bytes \<rightharpoonup> issuedProof"
  tc_pending :: "bytes \<rightharpoonup> pendingResp"
  tc_completed :: "bytes \<rightharpoonup> completedTransfer"

definition newTransferCoordinator :: "tc_cfg \<Rightarrow> tc_cfg \<times> transferCoordinator" where
  "newTransferCoordinator cfg =
     ((if cfg_issued_cap cfg \<le> 0 then cfg\<lparr>cfg_issued_cap := 4096\<rparr> else cfg),
      \<lparr>tc_issued = Map.empty, tc_pending = Map.empty, tc_completed = Map.empty\<rparr>)"

record StartTransferInput =
  si_source_tracker_id :: bytes
  si_identity_id :: bytes
  si_amount :: u64
  si_nonce :: bytes
  si_consumer_sig :: bytes
  si_consumer_pub :: bytes
  si_timestamp :: u64

type_synonym msg = "bytes \<times> FedKind \<times> bytes"
type_synonym net = "bytes \<Rightarrow> FedKind \<Rightarrow> bytes \<Rightarrow> fed_err option"

definition send :: "net \<Rightarrow> bytes \<Rightarrow> FedKind \<Rightarrow> bytes \<Rightarrow> msg list" where
  "send net to k p = (if net to k p = None then [(to, k, p)] else [])"

text \<open>\<open>evict_oldest\<close> drops the entry with the least time among the keys of the map, listed by \<open>ord\<close>, once the cap is reached.\<close>

definition oldest_key :: "('v \<Rightarrow> time) \<Rightarrow> bytes list \<Rightarrow> (bytes \<rightharpoonup> 'v) \<Rightarrow> bytes" where
  "oldest_key stamp ord m = fst (fold (\<lambda>k (old, oldAt, first).
      (case m k of None \<Rightarrow> (old, oldAt, first)
       | Some v \<Rightarrow> if first \<or> stamp v < oldAt then (k, stamp v, False) else (old, oldAt, first))) ord (zeros 32, zero_time, True))"

definition evict_oldest :: "('v \<Rightarrow> time) \<Rightarrow> int \<Rightarrow> bytes list \<Rightarrow> (bytes \<rightharpoonup> 'v) \<Rightarrow> (bytes \<rightharpoonup> 'v)" where
  "evict_oldest stamp cp ord m = (if int (length ord) \<ge> cp then m(oldest_key stamp ord m := None) else m)"

definition cacheIssuedLocked :: "tc_cfg \<Rightarrow> time \<Rightarrow> bytes list \<Rightarrow> bytes \<Rightarrow> bytes \<Rightarrow> transferCoordinator \<Rightarrow> transferCoordinator" where
  "cacheIssuedLocked cfg now ord nonce payload tc = tc\<lparr>tc_issued :=
     (evict_oldest ip_at (cfg_issued_cap cfg) ord (tc_issued tc))(nonce \<mapsto> \<lparr>ip_payload = payload, ip_at = now\<rparr>)\<rparr>"

definition cacheCompletedLocked :: "tc_cfg \<Rightarrow> time \<Rightarrow> bytes list \<Rightarrow> bytes \<Rightarrow> StartTransferOutput \<Rightarrow> transferCoordinator \<Rightarrow> transferCoordinator" where
  "cacheCompletedLocked cfg now ord nonce out tc = tc\<lparr>tc_completed :=
     (evict_oldest ct_at (cfg_issued_cap cfg) ord (tc_completed tc))(nonce \<mapsto> \<lparr>ct_out = out, ct_at = now\<rparr>)\<rparr>"

section \<open>The source: requests\<close>

definition parse_request :: "tc_cfg \<Rightarrow> FedEnvelope \<Rightarrow> bytes \<Rightarrow> string + TransferProofRequest" where
  "parse_request cfg env fromPeer =
     (if \<not> cfg_ledger cfg then Inl ''transfer_request_received_disabled''
      else (case dec (c_request (cfg_cd cfg)) (fe_payload env) of None \<Rightarrow> Inl ''transfer_request_shape'' | Some req \<Rightarrow>
        if ValidateTransferProofRequest (Some req) \<noteq> None then Inl ''transfer_request_shape''
        else if tq_source_tracker_id req \<noteq> cfg_my_id cfg then Inl ''transfer_request_misrouted''
        else if tq_dest_tracker_id req \<noteq> fromPeer then Inl ''transfer_request_dest_mismatch''
        else (case CanonicalTransferProofRequestPreSig (cfg_cr cfg) (Some req) of
          Inl e \<Rightarrow> Inl ''transfer_request_canonical''
        | Inr canonical \<Rightarrow>
            if \<not> ed_verify (cfg_cr cfg) (tq_consumer_pub req) canonical (tq_consumer_sig req)
              then Inl ''transfer_request_consumer_sig'' else Inr req)))"

definition hook_input :: "TransferProofRequest \<Rightarrow> TransferOutHookIn" where
  "hook_input req = \<lparr>oh_identity_id = to_array 32 (tq_identity_id req), oh_amount = tq_amount req,
     oh_timestamp = tq_timestamp req, oh_transfer_ref = to_array 32 (tq_nonce req),
     oh_source_tracker_id = to_array 32 (tq_source_tracker_id req), oh_dest_tracker_id = to_array 32 (tq_dest_tracker_id req),
     oh_consumer_sig = tq_consumer_sig req, oh_consumer_pub = tq_consumer_pub req\<rparr>"

definition request_proof :: "TransferProofRequest \<Rightarrow> TransferOutHookOut \<Rightarrow> FedTransferProof" where
  "request_proof req out = \<lparr>tp_source_tracker_id = tq_source_tracker_id req, tp_dest_tracker_id = tq_dest_tracker_id req,
     tp_identity_id = tq_identity_id req, tp_amount = tq_amount req, tp_nonce = tq_nonce req,
     tp_source_chain_tip_hash = oo_chain_tip_hash out, tp_source_seq = oo_seq out, tp_timestamp = tq_timestamp req,
     tp_source_tracker_sig = []\<rparr>"

definition build_proof :: "tc_cfg \<Rightarrow> TransferProofRequest \<Rightarrow> TransferOutHookOut \<Rightarrow> string + bytes" where
  "build_proof cfg req out = (case CanonicalTransferProofPreSig (cfg_cd cfg) (Some (request_proof req out)) of
     Inl e \<Rightarrow> Inl ''transfer_proof_canonical''
   | Inr cb \<Rightarrow> (case enc (c_proof (cfg_cd cfg)) ((request_proof req out)\<lparr>tp_source_tracker_sig := ed_sign (cfg_cr cfg) (cfg_priv cfg) cb\<rparr>) of
       None \<Rightarrow> Inl ''transfer_proof_marshal'' | Some payload \<Rightarrow> Inr payload))"

definition emitTransferReject :: "tc_cfg \<Rightarrow> time \<Rightarrow> net \<Rightarrow> bytes \<Rightarrow> TransferProofRequest \<Rightarrow> string \<Rightarrow> string \<times> msg list" where
  "emitTransferReject cfg now net dest req reason0 =
     (let rej = \<lparr>tj_source_tracker_id = tq_source_tracker_id req, tj_dest_tracker_id = tq_dest_tracker_id req,
           tj_nonce = tq_nonce req, tj_reason = take MaxTransferRejectReasonLen reason0,
           tj_timestamp = word_of_int (unix now), tj_source_tracker_sig = []\<rparr>
      in case CanonicalTransferRejectPreSig (cfg_cd cfg) (Some rej) of Inl e \<Rightarrow> (''transfer_reject_canonical'', [])
       | Inr cb \<Rightarrow> (let rej' = rej\<lparr>tj_source_tracker_sig := ed_sign (cfg_cr cfg) (cfg_priv cfg) cb\<rparr> in
           if ValidateTransferReject (Some rej') \<noteq> None then (''transfer_reject_validate'', [])
           else (case enc (c_reject (cfg_cd cfg)) rej' of None \<Rightarrow> (''transfer_reject_marshal'', [])
             | Some payload \<Rightarrow> if net dest KIND_TRANSFER_REJECT payload \<noteq> None then (''transfer_reject_send_err'', [])
                 else (''transfer_reject_sent'', send net dest KIND_TRANSFER_REJECT payload))))"

text \<open>The three sections of \<open>OnRequest\<close> after the checks: the cache, the debit, the issue of the proof.\<close>

definition request_replay :: "net \<Rightarrow> bytes \<Rightarrow> TransferProofRequest \<Rightarrow> transferCoordinator \<Rightarrow> msg list option" where
  "request_replay net fromPeer req tc = (case tc_issued tc (to_array 32 (tq_nonce req)) of None \<Rightarrow> None
     | Some cached \<Rightarrow> Some (send net fromPeer KIND_TRANSFER_PROOF (ip_payload cached)))"

definition request_debit :: "hooks \<Rightarrow> TransferProofRequest \<Rightarrow> store \<Rightarrow> (ledger_err + TransferOutHookOut) \<times> AdmEvent list \<times> store" where
  "request_debit hk req s = Hook_AppendTransferOut hk (hook_input req) s"

definition request_issue :: "tc_cfg \<Rightarrow> time \<Rightarrow> bytes list \<Rightarrow> net \<Rightarrow> bytes \<Rightarrow> TransferProofRequest \<Rightarrow> TransferOutHookOut
    \<Rightarrow> transferCoordinator \<Rightarrow> string \<times> msg list \<times> transferCoordinator" where
  "request_issue cfg now ord net fromPeer req out tc = (case build_proof cfg req out of Inl l \<Rightarrow> (l, [], tc)
     | Inr payload \<Rightarrow> (let tc1 = cacheIssuedLocked cfg now ord (to_array 32 (tq_nonce req)) payload tc in
         if net fromPeer KIND_TRANSFER_PROOF payload \<noteq> None then (''transfer_proof_send_err'', [], tc1)
         else (''transfers_minted'', send net fromPeer KIND_TRANSFER_PROOF payload, tc1)))"

definition OnRequest :: "tc_cfg \<Rightarrow> hooks \<Rightarrow> time \<Rightarrow> bytes list \<Rightarrow> net \<Rightarrow> FedEnvelope \<Rightarrow> bytes \<Rightarrow> transferCoordinator \<Rightarrow> store
    \<Rightarrow> string \<times> msg list \<times> AdmEvent list \<times> transferCoordinator \<times> store" where
  "OnRequest cfg hk now ord net env fromPeer tc s = (case parse_request cfg env fromPeer of Inl l \<Rightarrow> (l, [], [], tc, s)
     | Inr req \<Rightarrow> (case request_replay net fromPeer req tc of
         Some ms \<Rightarrow> (''transfer_request_replayed'', ms, [], tc, s)
       | None \<Rightarrow> (case request_debit hk req s of
           (Inl e, evs, s1) \<Rightarrow> (''transfer_request_ledger_err'',
             snd (emitTransferReject cfg now net fromPeer req (ledger_err_msg e)), evs, tc, s1)
         | (Inr out, evs, s1) \<Rightarrow> (case request_issue cfg now ord net fromPeer req out tc of
             (l, ms, tc1) \<Rightarrow> (l, ms, evs, tc1, s1)))))"

section \<open>The destination: transfers\<close>

definition start_request :: "tc_cfg \<Rightarrow> StartTransferInput \<Rightarrow> TransferProofRequest" where
  "start_request cfg inp = \<lparr>tq_source_tracker_id = si_source_tracker_id inp, tq_dest_tracker_id = cfg_my_id cfg,
     tq_identity_id = si_identity_id inp, tq_amount = si_amount inp, tq_nonce = si_nonce inp,
     tq_consumer_sig = si_consumer_sig inp, tq_consumer_pub = si_consumer_pub inp, tq_timestamp = si_timestamp inp\<rparr>"

datatype start_res = StReturn "fed_err + StartTransferOutput" | StWaiting

text \<open>\<open>StartTransfer\<close> up to its \<open>select\<close>.\<close>

definition start_begin :: "tc_cfg \<Rightarrow> net \<Rightarrow> StartTransferInput \<Rightarrow> transferCoordinator \<Rightarrow> start_res \<times> msg list \<times> transferCoordinator" where
  "start_begin cfg net inp tc =
     (if \<not> cfg_ledger cfg then (StReturn (Inl ErrTransferDisabled), [], tc)
      else (case tc_completed tc (si_nonce inp) of Some c \<Rightarrow> (StReturn (Inr (ct_out c)), [], tc)
      | None \<Rightarrow> (case ValidateTransferProofRequest (Some (start_request cfg inp)) of
          Some e \<Rightarrow> (StReturn (Inl (FErr e)), [], tc)
        | None \<Rightarrow> (case enc (c_request (cfg_cd cfg)) (start_request cfg inp) of
            None \<Rightarrow> (StReturn (Inl (FErr ''federation: marshal request'')), [], tc)
          | Some payload \<Rightarrow>
              if tc_pending tc (si_nonce inp) \<noteq> None
                then (StReturn (Inl (FErr ''federation: duplicate StartTransfer nonce in flight'')), [], tc)
              else (case net (si_source_tracker_id inp) KIND_TRANSFER_PROOF_REQUEST payload of
                Some e \<Rightarrow> (StReturn (Inl e), [], tc)
              | None \<Rightarrow> (StWaiting, send net (si_source_tracker_id inp) KIND_TRANSFER_PROOF_REQUEST payload,
                  tc\<lparr>tc_pending := (tc_pending tc)(si_nonce inp \<mapsto> \<lparr>pd_ch = None, pd_rej = None\<rparr>)\<rparr>))))))"

text \<open>The code between the receipt of a proof and the \<open>TransferApplied\<close> message: verification and credit.\<close>

definition credit_input :: "StartTransferInput \<Rightarrow> FedTransferProof \<Rightarrow> TransferInHookIn" where
  "credit_input inp proof = \<lparr>ih_identity_id = si_identity_id inp, ih_amount = tp_amount proof,
     ih_timestamp = tp_timestamp proof, ih_transfer_ref = si_nonce inp\<rparr>"

definition start_credit :: "tc_cfg \<Rightarrow> hooks \<Rightarrow> bytes option \<Rightarrow> StartTransferInput \<Rightarrow> FedTransferProof \<Rightarrow> store
    \<Rightarrow> fed_err option \<times> AdmEvent list \<times> store" where
  "start_credit cfg hk srcPub inp proof s = (case srcPub of None \<Rightarrow> (Some ErrPeerNotConnected, [], s)
     | Some pub \<Rightarrow> (case CanonicalTransferProofPreSig (cfg_cd cfg) (Some proof) of
         Inl e \<Rightarrow> (Some (FErr (''federation: canonical proof: '' @ e)), [], s)
       | Inr cb \<Rightarrow> if \<not> ed_verify (cfg_cr cfg) pub cb (tp_source_tracker_sig proof)
             then (Some (FErr ''federation: source_tracker_sig invalid''), [], s)
           else (case Hook_AppendTransferIn hk (credit_input inp proof) s of (err, evs, s1) \<Rightarrow>
             if err \<noteq> None \<and> \<not> isLedgerTransferRefExists err
               then (Some (FErr (''federation: append transfer_in: '' @ ledger_err_msg (the err))), evs, s1)
             else (None, evs, s1))))"

definition applied_msg :: "tc_cfg \<Rightarrow> time \<Rightarrow> net \<Rightarrow> StartTransferInput \<Rightarrow> msg list" where
  "applied_msg cfg now net inp =
     (let a = \<lparr>ta_source_tracker_id = si_source_tracker_id inp, ta_dest_tracker_id = cfg_my_id cfg, ta_nonce = si_nonce inp,
           ta_timestamp = word_of_int (unix now), ta_dest_tracker_sig = []\<rparr>
      in case CanonicalTransferAppliedPreSig (cfg_cd cfg) (Some a) of Inl e \<Rightarrow> []
       | Inr ab \<Rightarrow> (case enc (c_applied (cfg_cd cfg)) (a\<lparr>ta_dest_tracker_sig := ed_sign (cfg_cr cfg) (cfg_priv cfg) ab\<rparr>) of
           None \<Rightarrow> [] | Some payload \<Rightarrow> send net (si_source_tracker_id inp) KIND_TRANSFER_APPLIED payload))"

definition proof_output :: "FedTransferProof \<Rightarrow> StartTransferOutput" where
  "proof_output proof = \<lparr>so_source_chain_tip_hash = to_array 32 (tp_source_chain_tip_hash proof),
     so_source_seq = tp_source_seq proof, so_source_tracker_sig = tp_source_tracker_sig proof\<rparr>"

text \<open>The end of \<open>StartTransfer\<close>: completion is recorded, and the deferred function removes the pending entry.\<close>

definition drop_pending :: "bytes \<Rightarrow> transferCoordinator \<Rightarrow> transferCoordinator" where
  "drop_pending nonce tc = tc\<lparr>tc_pending := (tc_pending tc)(nonce := None)\<rparr>"

definition start_finish :: "tc_cfg \<Rightarrow> time \<Rightarrow> bytes list \<Rightarrow> bytes \<Rightarrow> StartTransferOutput \<Rightarrow> transferCoordinator \<Rightarrow> transferCoordinator" where
  "start_finish cfg now ord nonce out tc = drop_pending nonce (cacheCompletedLocked cfg now ord nonce out tc)"

text \<open>What the \<open>select\<close> receives; \<open>WaitDone\<close> tells whether the context ended by its deadline.\<close>

datatype wait_event = GotProof FedTransferProof | GotReject TransferReject | WaitDone bool

definition ctxDeadlineExceeded :: fed_err where "ctxDeadlineExceeded = FErr ''context deadline exceeded''"
definition ctxCanceled :: fed_err where "ctxCanceled = FErr ''context canceled''"

text \<open>\<open>StartTransfer\<close> from the moment its \<open>select\<close> fires, when no other goroutine runs in between.\<close>

definition start_resume :: "tc_cfg \<Rightarrow> hooks \<Rightarrow> time \<Rightarrow> bytes list \<Rightarrow> net \<Rightarrow> bytes option \<Rightarrow> StartTransferInput \<Rightarrow> wait_event
    \<Rightarrow> transferCoordinator \<Rightarrow> store \<Rightarrow> (fed_err + StartTransferOutput) \<times> msg list \<times> AdmEvent list \<times> transferCoordinator \<times> store" where
  "start_resume cfg hk now ord net srcPub inp event tc s = (case event of
     WaitDone deadline \<Rightarrow> (Inl (if deadline then ctxDeadlineExceeded else ctxCanceled), [], [], drop_pending (si_nonce inp) tc, s)
   | GotReject rej \<Rightarrow> (Inl (ErrTransferRejected (tj_reason rej)), [], [], drop_pending (si_nonce inp) tc, s)
   | GotProof proof \<Rightarrow> (case start_credit cfg hk srcPub inp proof s of
       (Some e, evs, s1) \<Rightarrow> (Inl e, [], evs, drop_pending (si_nonce inp) tc, s1)
     | (None, evs, s1) \<Rightarrow> (Inr (proof_output proof), applied_msg cfg now net inp, evs,
         start_finish cfg now ord (si_nonce inp) (proof_output proof) tc, s1)))"

section \<open>The destination: answers of the source\<close>

definition OnProof :: "tc_cfg \<Rightarrow> FedEnvelope \<Rightarrow> bytes \<Rightarrow> transferCoordinator \<Rightarrow> string \<times> transferCoordinator" where
  "OnProof cfg env fromPeer tc = (case dec (c_proof (cfg_cd cfg)) (fe_payload env) of None \<Rightarrow> (''transfer_proof_shape'', tc)
     | Some proof \<Rightarrow>
       if ValidateTransferProof (Some proof) \<noteq> None then (''transfer_proof_shape'', tc)
       else if tp_dest_tracker_id proof \<noteq> cfg_my_id cfg then (''transfer_proof_misrouted'', tc)
       else if tp_source_tracker_id proof \<noteq> fromPeer then (''transfer_proof_source_mismatch'', tc)
       else (let n = to_array 32 (tp_nonce proof) in case tc_pending tc n of None \<Rightarrow> (''transfer_proof_orphan'', tc)
         | Some p \<Rightarrow> if pd_ch p \<noteq> None then (''transfer_proof_buffer_full'', tc)
             else (''transfer_proof_delivered'', tc\<lparr>tc_pending := (tc_pending tc)(n \<mapsto> p\<lparr>pd_ch := Some proof\<rparr>)\<rparr>)))"

definition OnReject :: "tc_cfg \<Rightarrow> bytes option \<Rightarrow> FedEnvelope \<Rightarrow> transferCoordinator \<Rightarrow> string \<times> transferCoordinator" where
  "OnReject cfg srcPub env tc = (case dec (c_reject (cfg_cd cfg)) (fe_payload env) of None \<Rightarrow> (''transfer_reject_shape'', tc)
     | Some rej \<Rightarrow>
       if ValidateTransferReject (Some rej) \<noteq> None then (''transfer_reject_shape'', tc)
       else (case srcPub of None \<Rightarrow> (''transfer_reject_unknown_issuer'', tc)
       | Some pub \<Rightarrow> (case CanonicalTransferRejectPreSig (cfg_cd cfg) (Some rej) of
           Inl e \<Rightarrow> (''transfer_reject_canonical'', tc)
         | Inr cb \<Rightarrow> if \<not> ed_verify (cfg_cr cfg) pub cb (tj_source_tracker_sig rej) then (''transfer_reject_sig'', tc)
             else (let n = to_array 32 (tj_nonce rej) in case tc_pending tc n of None \<Rightarrow> (''transfer_reject_no_pending'', tc)
               | Some p \<Rightarrow> if pd_rej p \<noteq> None then ('''', tc)
                   else (''transfer_reject_delivered'', tc\<lparr>tc_pending := (tc_pending tc)(n \<mapsto> p\<lparr>pd_rej := Some rej\<rparr>)\<rparr>)))))"

section \<open>Confirmations\<close>

definition OnApplied :: "tc_cfg \<Rightarrow> bytes option \<Rightarrow> FedEnvelope \<Rightarrow> string" where
  "OnApplied cfg dstPub env = (case dec (c_applied (cfg_cd cfg)) (fe_payload env) of None \<Rightarrow> ''transfer_applied_shape''
     | Some a \<Rightarrow>
       if ValidateTransferApplied (Some a) \<noteq> None then ''transfer_applied_shape''
       else if ta_source_tracker_id a \<noteq> cfg_my_id cfg then ''transfer_applied_misrouted''
       else (case dstPub of None \<Rightarrow> ''transfer_applied_unknown_peer''
       | Some pub \<Rightarrow> (case CanonicalTransferAppliedPreSig (cfg_cd cfg) (Some a) of Inl e \<Rightarrow> ''transfer_applied_canonical''
         | Inr cb \<Rightarrow> if \<not> ed_verify (cfg_cr cfg) pub cb (ta_dest_tracker_sig a) then ''transfer_applied_sig''
             else ''transfer_applied_received_ok'')))"

definition OnTransferReversal :: "tc_cfg \<Rightarrow> bytes option \<Rightarrow> FedEnvelope \<Rightarrow> string" where
  "OnTransferReversal cfg pub0 env = (case dec (c_reversal (cfg_cd cfg)) (fe_payload env) of None \<Rightarrow> ''transfer_reversal_shape''
     | Some r \<Rightarrow>
       if ValidateTransferReversal (Some r) \<noteq> None then ''transfer_reversal_shape''
       else (case pub0 of None \<Rightarrow> ''transfer_reversal_unknown_issuer''
       | Some pub \<Rightarrow> (case CanonicalTransferReversalPreSig (cfg_cd cfg) (Some r) of Inl e \<Rightarrow> ''transfer_reversal_canonical''
         | Inr cb \<Rightarrow> if \<not> ed_verify (cfg_cr cfg) pub cb (tv_dest_tracker_sig r) then ''transfer_reversal_sig''
             else ''transfer_reversal_received'')))"

definition IssueTransferReversal :: "tc_cfg \<Rightarrow> time \<Rightarrow> net \<Rightarrow> bytes \<Rightarrow> bytes \<Rightarrow> string \<Rightarrow> (fed_err + bytes) \<times> msg list" where
  "IssueTransferReversal cfg now net source nonce evidence =
     (let r = \<lparr>tv_source_tracker_id = source, tv_dest_tracker_id = cfg_my_id cfg, tv_nonce = nonce, tv_evidence = evidence,
           tv_timestamp = word_of_int (unix now), tv_dest_tracker_sig = []\<rparr>
      in case CanonicalTransferReversalPreSig (cfg_cd cfg) (Some r) of
         Inl e \<Rightarrow> (Inl (FErr (''federation: canonical reversal: '' @ e)), [])
       | Inr cb \<Rightarrow> (let r' = r\<lparr>tv_dest_tracker_sig := ed_sign (cfg_cr cfg) (cfg_priv cfg) cb\<rparr> in
           case ValidateTransferReversal (Some r') of Some e \<Rightarrow> (Inl (FErr (''federation: validate reversal: '' @ e)), [])
           | None \<Rightarrow> (case enc (c_reversal (cfg_cd cfg)) r' of None \<Rightarrow> (Inl (FErr ''federation: marshal reversal''), [])
             | Some payload \<Rightarrow> (case net source KIND_TRANSFER_REVERSAL payload of
                 Some e \<Rightarrow> (Inl (FErr ''federation: send reversal''), [])
               | None \<Rightarrow> (Inr payload, send net source KIND_TRANSFER_REVERSAL payload)))))"

section \<open>The consumer's request\<close>

record TransferRequest =
  xr_identity_id :: bytes
  xr_amount :: u64
  xr_nonce :: bytes
  xr_source_tracker_id :: bytes
  xr_consumer_sig :: bytes
  xr_consumer_pub :: bytes
  xr_timestamp :: u64

datatype api_err = ApiInvalid string | ApiUnauthenticated string | ApiInternal string

text \<open>The checks of the handler; a request that passes them goes to \<open>StartTransfer\<close> as \<open>api_input\<close>.\<close>

definition transfer_request_check :: "crypto \<Rightarrow> bytes \<Rightarrow> TransferRequest \<Rightarrow> api_err option" where
  "transfer_request_check cr trackerPub req =
     (if length (xr_identity_id req) \<noteq> 32 then Some (ApiInvalid ''identity_id length'')
      else if length (xr_nonce req) \<noteq> 32 then Some (ApiInvalid ''nonce length'')
      else if length (xr_source_tracker_id req) \<noteq> 32 then Some (ApiInvalid ''source_tracker_id length'')
      else if length (xr_consumer_pub req) \<noteq> PublicKeySize then Some (ApiInvalid ''consumer_pub length'')
      else if length (xr_consumer_sig req) \<noteq> SignatureSize then Some (ApiInvalid ''consumer_sig length'')
      else if xr_amount req = 0 then Some (ApiInvalid ''amount must be > 0'')
      else if xr_timestamp req = 0 then Some (ApiInvalid ''timestamp must be > 0'')
      else (case CanonicalTransferProofRequestPreSig cr (Some \<lparr>tq_source_tracker_id = xr_source_tracker_id req,
            tq_dest_tracker_id = sha256 cr trackerPub, tq_identity_id = xr_identity_id req, tq_amount = xr_amount req,
            tq_nonce = xr_nonce req, tq_consumer_sig = [], tq_consumer_pub = xr_consumer_pub req,
            tq_timestamp = xr_timestamp req\<rparr>) of
          Inl e \<Rightarrow> Some (ApiInternal (''transfer_request: canonical: '' @ e))
        | Inr canonical \<Rightarrow> if \<not> ed_verify cr (xr_consumer_pub req) canonical (xr_consumer_sig req)
            then Some (ApiUnauthenticated ''consumer_sig invalid'') else None))"

definition api_input :: "TransferRequest \<Rightarrow> StartTransferInput" where
  "api_input req = \<lparr>si_source_tracker_id = to_array 32 (xr_source_tracker_id req), si_identity_id = to_array 32 (xr_identity_id req),
     si_amount = xr_amount req, si_nonce = to_array 32 (xr_nonce req), si_consumer_sig = xr_consumer_sig req,
     si_consumer_pub = xr_consumer_pub req, si_timestamp = xr_timestamp req\<rparr>"

end
