(* ===== verification/TB_Federation.thy ===== *)
theory TB_Federation
  imports TB_Transfer
begin

text \<open>
  The federation subsystem of a tracker (\<open>src/tracker/internal/federation\<close>): the archives of peer roots,
  revocations and known peers (\<open>src/tracker/internal/ledger/storage\<close>), the handlers of the gossip messages, and
  the dispatcher of received frames.

  \<open>fed_state\<close> is everything the subsystem keeps; \<open>fs_out\<close> collects the frames it has handed to the peers'
  connections. The inputs of one call are in \<open>fed_io\<close>: the instant of the call, the traversal orders of the
  maps, the failures of the database, and whether a connection accepts a frame. A handler returns the name of
  the metric that it counts as its outcome.
\<close>

section \<open>Archives\<close>

record PeerRevocation =
  vr_tracker_id :: bytes
  vr_identity_id :: bytes
  vr_reason :: int
  vr_revoked_at :: u64
  vr_tracker_sig :: bytes
  vr_received_at :: u64

type_synonym revocations = "bytes \<times> bytes \<rightharpoonup> PeerRevocation"

definition PutPeerRevocation :: "bool \<Rightarrow> PeerRevocation \<Rightarrow> revocations \<Rightarrow> st_err option \<times> revocations" where
  "PutPeerRevocation flt r m =
     (if length (vr_tracker_id r) = 0 \<or> length (vr_identity_id r) = 0 \<or> length (vr_tracker_sig r) = 0
        then (Some (StErr ''storage: PutPeerRevocation requires non-empty tracker_id, identity_id, tracker_sig''), m)
      else if flt \<or> \<not> sql_u64 (vr_revoked_at r) \<or> \<not> sql_u64 (vr_received_at r)
        then (Some (StErr ''storage: PutPeerRevocation insert''), m)
      else (None, if m (vr_tracker_id r, vr_identity_id r) = None
        then m((vr_tracker_id r, vr_identity_id r) \<mapsto> r) else m))"

text \<open>The issuers are those listed in \<open>issuers\<close>, an enumeration of the issuers in the table.\<close>

definition IsIdentityRevoked :: "bool \<Rightarrow> bytes list \<Rightarrow> bytes \<Rightarrow> revocations \<Rightarrow> st_err + bool" where
  "IsIdentityRevoked flt issuers i m = (if flt then Inl (StErr ''storage: IsIdentityRevoked'')
     else Inr (list_ex (\<lambda>t. m (t, i) \<noteq> None) issuers))"

definition GetPeerRevocation :: "bool \<Rightarrow> bytes \<Rightarrow> bytes \<Rightarrow> revocations \<Rightarrow> st_err + PeerRevocation option" where
  "GetPeerRevocation flt t i m = (if flt then Inl (StErr ''storage: GetPeerRevocation'') else Inr (m (t, i)))"

record KnownPeer =
  kn_tracker_id :: bytes
  kn_addr :: string
  kn_last_seen :: int
  kn_region_hint :: string
  kn_health_score :: float64
  kn_source :: string

type_synonym known_peers = "bytes \<rightharpoonup> KnownPeer"

definition UpsertKnownPeer :: "bool \<Rightarrow> KnownPeer \<Rightarrow> known_peers \<Rightarrow> st_err option \<times> known_peers" where
  "UpsertKnownPeer flt p m =
     (if length (kn_tracker_id p) = 0 then (Some (StErr ''storage: UpsertKnownPeer requires non-empty tracker_id''), m)
      else if kn_addr p = [] then (Some (StErr ''storage: UpsertKnownPeer requires non-empty addr''), m)
      else if kn_source p \<noteq> ''allowlist'' \<and> kn_source p \<noteq> ''gossip'' then (Some (StErr ''storage: UpsertKnownPeer invalid source''), m)
      else if flt then (Some (StErr ''storage: UpsertKnownPeer''), m)
      else (None, case m (kn_tracker_id p) of None \<Rightarrow> m(kn_tracker_id p \<mapsto> p)
        | Some old \<Rightarrow>
          if kn_last_seen p \<ge> kn_last_seen old \<or> kn_source old = ''allowlist'' then
            (let pinned = kn_source old = ''allowlist'' \<and> kn_source p = ''gossip'' in
             m(kn_tracker_id p \<mapsto> old\<lparr>kn_addr := (if pinned then kn_addr old else kn_addr p),
               kn_last_seen := max (kn_last_seen old) (kn_last_seen p),
               kn_region_hint := (if pinned then kn_region_hint old else kn_region_hint p),
               kn_health_score := (if kn_last_seen p \<ge> kn_last_seen old then kn_health_score p else kn_health_score old)\<rparr>))
          else m))"

definition UpdateKnownPeerHealth :: "bool \<Rightarrow> bytes \<Rightarrow> float64 \<Rightarrow> known_peers \<Rightarrow> st_err option \<times> known_peers" where
  "UpdateKnownPeerHealth flt t score m =
     (if length t = 0 then (Some (StErr ''storage: UpdateKnownPeerHealth requires non-empty tracker_id''), m)
      else if flt then (Some (StErr ''storage: UpdateKnownPeerHealth''), m)
      else (None, case m t of None \<Rightarrow> m | Some old \<Rightarrow> m(t \<mapsto> old\<lparr>kn_health_score := score\<rparr>)))"

definition DeleteStaleKnownPeers :: "bool \<Rightarrow> time \<Rightarrow> known_peers \<Rightarrow> st_err option \<times> known_peers" where
  "DeleteStaleKnownPeers flt cutoff m = (if flt then (Some (StErr ''storage: DeleteStaleKnownPeers''), m)
     else (None, \<lambda>t. case m t of None \<Rightarrow> None
       | Some p \<Rightarrow> if kn_source p = ''gossip'' \<and> kn_last_seen p < unix cutoff then None else Some p))"

text \<open>\<open>ORDER BY health_score DESC, tracker_id ASC\<close>, on the rows that \<open>ord\<close> enumerates.\<close>

fun blob_less :: "bytes \<Rightarrow> bytes \<Rightarrow> bool" where
  "blob_less [] [] = False"
| "blob_less [] (_ # _) = True"
| "blob_less (_ # _) [] = False"
| "blob_less (a # as) (b # bs) = (if a < b then True else if b < a then False else blob_less as bs)"

fun insert_row :: "(KnownPeer \<Rightarrow> KnownPeer \<Rightarrow> bool) \<Rightarrow> KnownPeer \<Rightarrow> KnownPeer list \<Rightarrow> KnownPeer list" where
  "insert_row lt x [] = [x]"
| "insert_row lt x (y # ys) = (if lt y x then y # insert_row lt x ys else x # y # ys)"

definition health_before :: "KnownPeer \<Rightarrow> KnownPeer \<Rightarrow> bool" where
  "health_before a b = (f_lt (kn_health_score b) (kn_health_score a) \<or>
     (\<not> f_lt (kn_health_score a) (kn_health_score b) \<and> blob_less (kn_tracker_id a) (kn_tracker_id b)))"

definition id_before :: "KnownPeer \<Rightarrow> KnownPeer \<Rightarrow> bool" where
  "id_before a b = blob_less (kn_tracker_id a) (kn_tracker_id b)"

definition ListKnownPeers :: "bool \<Rightarrow> bytes list \<Rightarrow> int \<Rightarrow> bool \<Rightarrow> known_peers \<Rightarrow> st_err + KnownPeer list" where
  "ListKnownPeers flt ord limit byHealthDesc m = (if limit \<le> 0 then Inr []
     else if flt then Inl (StErr ''storage: ListKnownPeers'')
     else Inr (take (nat limit) (foldr (insert_row (if byHealthDesc then health_before else id_before))
       (List.map_filter m ord) [])))"

section \<open>State\<close>

record fed_cfg =
  fc_cr :: crypto
  fc_cd :: fed_codec
  fc_my_id :: bytes
  fc_priv :: bytes
  fc_rate :: RateLimitConfig
  fc_health :: HealthConfig
  fc_tc :: tc_cfg
  fc_rev_archive :: bool
  fc_known_archive :: bool
  fc_low_threshold :: float64
  fc_low_window :: int

record fed_state =
  fs_reg :: peer_reg
  fs_peers :: "bytes \<rightharpoonup> nat"
  fs_closed :: bool
  fs_dedupe :: Dedupe
  fs_buckets :: buckets
  fs_health :: PeerHealth
  fs_self_equiv :: int
  fs_store :: store
  fs_revs :: revocations
  fs_known :: known_peers
  fs_tc :: transferCoordinator
  fs_events :: "AdmEvent list"
  fs_out :: "(bytes \<times> bytes) list"

record fed_io =
  io_now :: time
  io_peers :: "bytes list"
  io_keys :: "bytes list"
  io_flt :: faults
  io_rev_fault :: bool
  io_known_fault :: bool
  io_send :: "bytes \<Rightarrow> bytes \<Rightarrow> fed_err option"
  io_hk :: hooks

section \<open>Sending\<close>

definition ActivePeers :: "fed_io \<Rightarrow> fed_state \<Rightarrow> bytes list" where
  "ActivePeers io st = filter (\<lambda>p. fs_peers st p \<noteq> None) (io_peers io)"

text \<open>The closure that \<open>Open\<close> hands to all handlers.\<close>

definition forward :: "fed_cfg \<Rightarrow> fed_io \<Rightarrow> FedKind \<Rightarrow> bytes \<Rightarrow> fed_state \<Rightarrow> fed_state" where
  "forward cfg io k payload st =
     (let st1 = st\<lparr>fs_dedupe := Dedupe_Mark (io_now io) (io_now io) (sha256 (fc_cr cfg) payload) (fs_dedupe st)\<rparr> in
      case Gossip_Forward (fc_cr cfg) (fc_cd cfg) (fc_priv cfg) (fc_my_id cfg) (ActivePeers io st1) k payload None of
        Inl e \<Rightarrow> st1
      | Inr frames \<Rightarrow> st1\<lparr>fs_out := fs_out st1 @ filter (\<lambda>(p, f). io_send io p f = None) frames\<rparr>)"

definition SendToPeer :: "fed_cfg \<Rightarrow> fed_io \<Rightarrow> fed_state \<Rightarrow> bytes \<Rightarrow> FedKind \<Rightarrow> bytes \<Rightarrow> fed_err + bytes" where
  "SendToPeer cfg io st to k payload = (if fs_peers st to = None then Inl ErrPeerNotConnected
     else (case SignFedEnvelope (fc_cr cfg) (fc_priv cfg) (fc_my_id cfg) k payload of
       Inl e \<Rightarrow> Inl (FErr ''federation: sign envelope'')
     | Inr env \<Rightarrow> (case MarshalFrame (fc_cd cfg) (Some env) of Inl e \<Rightarrow> Inl e
       | Inr frame \<Rightarrow> (case io_send io to frame of Some e \<Rightarrow> Inl e | None \<Rightarrow> Inr frame))))"

definition fed_net :: "fed_cfg \<Rightarrow> fed_io \<Rightarrow> fed_state \<Rightarrow> net" where
  "fed_net cfg io st = (\<lambda>to k p. case SendToPeer cfg io st to k p of Inl e \<Rightarrow> Some e | Inr _ \<Rightarrow> None)"

definition post :: "fed_cfg \<Rightarrow> fed_io \<Rightarrow> msg list \<Rightarrow> fed_state \<Rightarrow> fed_state" where
  "post cfg io ms st = st\<lparr>fs_out := fs_out st @ concat (map (\<lambda>(to, k, p).
     case SendToPeer cfg io st to k p of Inl e \<Rightarrow> [] | Inr frame \<Rightarrow> [(to, frame)]) ms)\<rparr>"

definition PeerPubKey :: "fed_state \<Rightarrow> bytes \<Rightarrow> bytes option" where
  "PeerPubKey st i = map_option pi_pub_key (fs_reg st i)"

section \<open>Equivocation\<close>

definition reg_depeer :: "bytes \<Rightarrow> fed_state \<Rightarrow> fed_state" where
  "reg_depeer i st = st\<lparr>fs_reg := snd (snd (Reg_Depeer i (fs_reg st)))\<rparr>"

definition flag_offender :: "bytes \<Rightarrow> fed_state \<Rightarrow> fed_state" where
  "flag_offender i st = (let st1 = reg_depeer i st in st1\<lparr>fs_health := OnEquivocation i (fs_health st1)\<rparr>)"

definition OnLocalConflict :: "fed_cfg \<Rightarrow> fed_io \<Rightarrow> RootAttestation \<Rightarrow> fed_state \<Rightarrow> fed_state" where
  "OnLocalConflict cfg io m st = (case GetPeerRoot (io_flt io) (ra_tracker_id m) (ra_hour m) (fs_store st) of
     Inl e \<Rightarrow> st | Inr None \<Rightarrow> st
   | Inr (Some old) \<Rightarrow>
      (let evi = \<lparr>ee_tracker_id = ra_tracker_id m, ee_hour = ra_hour m, ee_root_a = pr_root old, ee_sig_a = pr_sig old,
            ee_root_b = ra_merkle_root m, ee_sig_b = ra_tracker_sig m\<rparr>
       in if ValidateEquivocationEvidence (Some evi) \<noteq> None then st
          else flag_offender (to_array 32 (ra_tracker_id m))
            (forward cfg io KIND_EQUIVOCATION_EVIDENCE
              (case enc (c_evidence (fc_cd cfg)) evi of None \<Rightarrow> [] | Some b \<Rightarrow> b) st)))"

definition OnIncomingEvidence :: "fed_cfg \<Rightarrow> fed_io \<Rightarrow> FedEnvelope \<Rightarrow> fed_state \<Rightarrow> fed_state" where
  "OnIncomingEvidence cfg io env st = (case dec (c_evidence (fc_cd cfg)) (fe_payload env) of None \<Rightarrow> st
     | Some evi \<Rightarrow>
       if ValidateEquivocationEvidence (Some evi) \<noteq> None then st
       else if ee_tracker_id evi = fc_my_id cfg then st\<lparr>fs_self_equiv := i64_add (fs_self_equiv st) 1\<rparr>
       else flag_offender (to_array 32 (ee_tracker_id evi)) (forward cfg io KIND_EQUIVOCATION_EVIDENCE (fe_payload env) st))"

section \<open>Root attestations\<close>

definition root_row :: "time \<Rightarrow> RootAttestation \<Rightarrow> PeerRoot" where
  "root_row now m = \<lparr>pr_tracker_id = ra_tracker_id m, pr_hour = ra_hour m, pr_root = ra_merkle_root m,
     pr_sig = ra_tracker_sig m, pr_received_at = word_of_int (unix now)\<rparr>"

definition Root_Apply :: "fed_cfg \<Rightarrow> fed_io \<Rightarrow> FedEnvelope \<Rightarrow> fed_state \<Rightarrow> fed_err option \<times> fed_state" where
  "Root_Apply cfg io env st = (case dec (c_root (fc_cd cfg)) (fe_payload env) of
     None \<Rightarrow> (Some (FErr ''federation: rootattest unmarshal''), st)
   | Some m \<Rightarrow> (case ValidateRootAttestation (Some m) of Some e \<Rightarrow> (Some (FErr e), st)
     | None \<Rightarrow> if ra_tracker_id m \<noteq> fe_sender_id env
           then (Some (FErr ''federation: rootattest tracker_id != envelope.sender_id''), st)
         else (case PutPeerRoot (io_flt io) (root_row (io_now io) m) (fs_store st) of
             (None, s1) \<Rightarrow> (None, forward cfg io KIND_ROOT_ATTESTATION (fe_payload env) (st\<lparr>fs_store := s1\<rparr>))
           | (Some e, s1) \<Rightarrow> if e = ErrPeerRootConflict
               then (Some ErrEquivocation, OnLocalConflict cfg io m (st\<lparr>fs_store := s1\<rparr>))
               else (Some (FErr ''federation: archive put''), st\<lparr>fs_store := s1\<rparr>))))"

text \<open>\<open>PublishHour\<close> with the answer of the root source: an error, no root yet, or root and signature.\<close>

definition PublishHour :: "fed_cfg \<Rightarrow> fed_io \<Rightarrow> u64 \<Rightarrow> ledger_err + (bytes \<times> bytes) option \<Rightarrow> fed_state \<Rightarrow> fed_err option \<times> fed_state" where
  "PublishHour cfg io hour src st = (case src of Inl e \<Rightarrow> (Some (FErr ''federation: RootSource''), st)
     | Inr None \<Rightarrow> (None, st)
     | Inr (Some (rt, sig)) \<Rightarrow>
       (let m = \<lparr>ra_tracker_id = fc_my_id cfg, ra_hour = hour, ra_merkle_root = rt, ra_tracker_sig = sig\<rparr> in
        case ValidateRootAttestation (Some m) of Some e \<Rightarrow> (Some (FErr e), st)
        | None \<Rightarrow> (None, forward cfg io KIND_ROOT_ATTESTATION
            (case enc (c_root (fc_cd cfg)) m of None \<Rightarrow> [] | Some b \<Rightarrow> b) st)))"

section \<open>Revocations\<close>

definition mapReputationReasonToProto :: "string \<Rightarrow> RevocationReason" where
  "mapReputationReasonToProto s = (if s = ''freeze_repeat'' then REVOCATION_REASON_ABUSE
     else if s = ''operator'' then REVOCATION_REASON_MANUAL else REVOCATION_REASON_ABUSE)"

definition revocation_row :: "time \<Rightarrow> Revocation \<Rightarrow> PeerRevocation" where
  "revocation_row now r = \<lparr>vr_tracker_id = rv_tracker_id r, vr_identity_id = rv_identity_id r, vr_reason = reason_num (rv_reason r),
     vr_revoked_at = rv_revoked_at r, vr_tracker_sig = rv_tracker_sig r, vr_received_at = word_of_int (unix now)\<rparr>"

definition OnFreeze :: "fed_cfg \<Rightarrow> fed_io \<Rightarrow> bytes \<Rightarrow> string \<Rightarrow> time \<Rightarrow> fed_state \<Rightarrow> string \<times> fed_state" where
  "OnFreeze cfg io identity reason revokedAt st =
     (if \<not> fc_rev_archive cfg then (''revocation_emit_disabled'', st)
      else let rev0 = \<lparr>rv_tracker_id = fc_my_id cfg, rv_identity_id = identity, rv_reason = mapReputationReasonToProto reason,
             rv_revoked_at = word_of_int (unix revokedAt), rv_tracker_sig = []\<rparr>
        in (case CanonicalRevocationPreSig (fc_cd cfg) (Some rev0) of Inl e \<Rightarrow> (''revocation_canonical'', st)
         | Inr canonical \<Rightarrow>
           (let r = rev0\<lparr>rv_tracker_sig := ed_sign (fc_cr cfg) (fc_priv cfg) canonical\<rparr> in
            if ValidateRevocation (Some r) \<noteq> None then (''revocation_self_shape'', st)
            else (case enc (c_revocation (fc_cd cfg)) r of None \<Rightarrow> (''revocation_marshal'', st)
              | Some payload \<Rightarrow> (''emitted'', forward cfg io KIND_REVOCATION payload
                  (st\<lparr>fs_revs := snd (PutPeerRevocation (io_rev_fault io) (revocation_row (io_now io) r) (fs_revs st))\<rparr>))))))"

definition Revocation_OnIncoming :: "fed_cfg \<Rightarrow> fed_io \<Rightarrow> FedEnvelope \<Rightarrow> fed_state \<Rightarrow> string \<times> fed_state" where
  "Revocation_OnIncoming cfg io env st =
     (if \<not> fc_rev_archive cfg then (''disabled'', st)
      else (case dec (c_revocation (fc_cd cfg)) (fe_payload env) of None \<Rightarrow> (''shape'', st)
       | Some r \<Rightarrow>
         if ValidateRevocation (Some r) \<noteq> None then (''shape'', st)
         else (case PeerPubKey st (to_array 32 (rv_tracker_id r)) of None \<Rightarrow> (''unknown_issuer'', st)
          | Some issuerPub \<Rightarrow> (case CanonicalRevocationPreSig (fc_cd cfg) (Some r) of Inl e \<Rightarrow> (''canonical'', st)
            | Inr canonical \<Rightarrow>
              if \<not> ed_verify (fc_cr cfg) issuerPub canonical (rv_tracker_sig r) then (''sig'', st)
              else (case PutPeerRevocation (io_rev_fault io) (revocation_row (io_now io) r) (fs_revs st) of
                  (Some e, m) \<Rightarrow> (''storage_err'', st\<lparr>fs_revs := m\<rparr>)
                | (None, m) \<Rightarrow> (''archived'', forward cfg io KIND_REVOCATION (fe_payload env)
                    (st\<lparr>fs_revs := m, fs_health := OnRevocation (to_array 32 (rv_tracker_id r))
                      (seconds (sint (rv_revoked_at r))) (io_now io) (fs_health st)\<rparr>)))))))"

section \<open>Peer exchange\<close>

definition defaultPeerExchangeEmitCap :: int where "defaultPeerExchangeEmitCap = 256"

fun emit_rows :: "fed_cfg \<Rightarrow> fed_io \<Rightarrow> PeerHealth \<Rightarrow> KnownPeer list \<Rightarrow> known_peers \<Rightarrow> KnownPeerMsg option list \<times> known_peers" where
  "emit_rows cfg io h [] m = ([], m)"
| "emit_rows cfg io h (r # rs) m =
     (let score = Health_Score (fc_health cfg) (to_array 32 (kn_tracker_id r)) (io_now io) h;
          m1 = snd (UpdateKnownPeerHealth (io_known_fault io) (kn_tracker_id r) score m);
          p = \<lparr>kp_tracker_id = kn_tracker_id r, kp_addr = kn_addr r, kp_last_seen = word_of_int (kn_last_seen r),
            kp_region_hint = kn_region_hint r, kp_health_score = score\<rparr>
      in case emit_rows cfg io h rs m1 of (ps, m2) \<Rightarrow> (Some p # ps, m2))"

definition EmitNow :: "fed_cfg \<Rightarrow> fed_io \<Rightarrow> fed_state \<Rightarrow> fed_err option \<times> fed_state" where
  "EmitNow cfg io st = (case ListKnownPeers (io_known_fault io) (io_keys io) defaultPeerExchangeEmitCap True (fs_known st) of
     Inl e \<Rightarrow> (Some (FErr (st_err_msg e)), st)
   | Inr rows \<Rightarrow> (case emit_rows cfg io (fs_health st) rows (fs_known st) of (ps, m) \<Rightarrow>
       (case enc (c_exchange (fc_cd cfg)) \<lparr>px_peers = ps\<rparr> of None \<Rightarrow> (Some (FErr ''marshal''), st\<lparr>fs_known := m\<rparr>)
        | Some payload \<Rightarrow> (None, forward cfg io KIND_PEER_EXCHANGE payload (st\<lparr>fs_known := m\<rparr>)))))"

definition gossip_row :: "KnownPeerMsg \<Rightarrow> KnownPeer" where
  "gossip_row p = \<lparr>kn_tracker_id = kp_tracker_id p, kn_addr = kp_addr p, kn_last_seen = sint (kp_last_seen p),
     kn_region_hint = kp_region_hint p, kn_health_score = kp_health_score p, kn_source = ''gossip''\<rparr>"

definition merge_known :: "bytes \<Rightarrow> bool \<Rightarrow> KnownPeerMsg option list \<Rightarrow> known_peers \<Rightarrow> known_peers" where
  "merge_known myID flt ps m = fold (\<lambda>op m. case op of None \<Rightarrow> m
     | Some p \<Rightarrow> if kp_tracker_id p = myID then m else snd (UpsertKnownPeer flt (gossip_row p) m)) ps m"

definition Exchange_OnIncoming :: "fed_cfg \<Rightarrow> fed_io \<Rightarrow> FedEnvelope \<Rightarrow> PeerExchange \<Rightarrow> fed_state \<Rightarrow> fed_state" where
  "Exchange_OnIncoming cfg io env m st = forward cfg io KIND_PEER_EXCHANGE (fe_payload env)
     (st\<lparr>fs_known := merge_known (fc_my_id cfg) (io_known_fault io) (px_peers m) (fs_known st)\<rparr>)"

definition PublishPeerExchange :: "fed_cfg \<Rightarrow> fed_io \<Rightarrow> fed_state \<Rightarrow> fed_err option \<times> fed_state" where
  "PublishPeerExchange cfg io st = (if \<not> fc_known_archive cfg then (Some ErrPeerExchangeDisabled, st) else EmitNow cfg io st)"

definition prune_known_peers :: "fed_io \<Rightarrow> int \<Rightarrow> fed_state \<Rightarrow> fed_state" where
  "prune_known_peers io maxAge st =
     st\<lparr>fs_known := snd (DeleteStaleKnownPeers (io_known_fault io) (io_now io - maxAge) (fs_known st))\<rparr>"

section \<open>The dispatcher\<close>

definition handle :: "fed_cfg \<Rightarrow> fed_io \<Rightarrow> bytes \<Rightarrow> FedEnvelope \<Rightarrow> fed_state \<Rightarrow> string \<times> fed_state" where
  "handle cfg io peerID env st = (case fe_kind env of
     KIND_ROOT_ATTESTATION \<Rightarrow> (case Root_Apply cfg io env st of
         (Some e, st1) \<Rightarrow> (if e = ErrEquivocation then ''conflict'' else ''error'', st1)
       | (None, st1) \<Rightarrow> (''archived'', st1\<lparr>fs_health := OnRootAttestation peerID (io_now io) (fs_health st1)\<rparr>))
   | KIND_EQUIVOCATION_EVIDENCE \<Rightarrow> (''evidence'', OnIncomingEvidence cfg io env st)
   | KIND_PING \<Rightarrow> (''keepalive'', st)
   | KIND_PONG \<Rightarrow> (''keepalive'', st)
   | KIND_TRANSFER_PROOF_REQUEST \<Rightarrow>
       (case OnRequest (fc_tc cfg) (io_hk io) (io_now io) (io_keys io) (fed_net cfg io st) env peerID (fs_tc st) (fs_store st) of
         (l, ms, evs, tc, s) \<Rightarrow> (l, post cfg io ms (st\<lparr>fs_tc := tc, fs_store := s, fs_events := fs_events st @ evs\<rparr>)))
   | KIND_TRANSFER_PROOF \<Rightarrow> (case OnProof (fc_tc cfg) env peerID (fs_tc st) of (l, tc) \<Rightarrow> (l, st\<lparr>fs_tc := tc\<rparr>))
   | KIND_TRANSFER_APPLIED \<Rightarrow> (OnApplied (fc_tc cfg) (PeerPubKey st peerID) env, st)
   | KIND_TRANSFER_REJECT \<Rightarrow> (case OnReject (fc_tc cfg) (PeerPubKey st peerID) env (fs_tc st) of (l, tc) \<Rightarrow> (l, st\<lparr>fs_tc := tc\<rparr>))
   | KIND_TRANSFER_REVERSAL \<Rightarrow> (OnTransferReversal (fc_tc cfg) (PeerPubKey st peerID) env, st)
   | KIND_REVOCATION \<Rightarrow> Revocation_OnIncoming cfg io env st
   | KIND_PEER_EXCHANGE \<Rightarrow>
       (if \<not> fc_known_archive cfg then (''peer_exchange_disabled'', st)
        else (case dec (c_exchange (fc_cd cfg)) (fe_payload env) of None \<Rightarrow> (''peer_exchange_unmarshal'', st)
         | Some m \<Rightarrow> if ValidatePeerExchange (Some m) \<noteq> None then (''peer_exchange_shape'', st)
             else (''merged'', Exchange_OnIncoming cfg io env m st)))
   | _ \<Rightarrow> (''kind'', st))"

text \<open>\<open>pub\<close> is the key that the transport has authenticated for the connection.\<close>

definition dispatch :: "fed_cfg \<Rightarrow> fed_io \<Rightarrow> bytes \<Rightarrow> bytes \<Rightarrow> FedEnvelope \<Rightarrow> fed_state \<Rightarrow> string \<times> fed_state" where
  "dispatch cfg io pub peerID env st =
     (if VerifyFedEnvelope (fc_cr cfg) pub (Some env) \<noteq> None then (''sig'', st)
      else (case Limiter_Allow (fc_rate cfg) (io_now io) (io_now io) peerID (fe_kind env) (fs_buckets st) of (ok, bs) \<Rightarrow>
        (let st1 = st\<lparr>fs_buckets := bs\<rparr>; mid = MessageID (fc_cr cfg) env in
         if \<not> ok then (''rate_limited'', st1)
         else (case Dedupe_Seen (io_now io) (io_now io) mid (fs_dedupe st1) of (seen, d) \<Rightarrow>
           (let st2 = st1\<lparr>fs_dedupe := d\<rparr> in
            if seen then (''dedupe_replay'', st2)
            else handle cfg io peerID env (st2\<lparr>fs_dedupe := Dedupe_Mark (io_now io) (io_now io) mid d\<rparr>))))))"

definition recv_frame :: "fed_cfg \<Rightarrow> fed_io \<Rightarrow> bytes \<Rightarrow> bytes \<Rightarrow> bytes \<Rightarrow> fed_state \<Rightarrow> string \<times> fed_state" where
  "recv_frame cfg io pub peerID frame st = (case UnmarshalFrame (fc_cd cfg) frame of Inl e \<Rightarrow> (''frame'', st)
     | Inr env \<Rightarrow> dispatch cfg io pub peerID env st)"

section \<open>Peers and transfers\<close>

text \<open>An accepted connection \<open>c\<close> with the remote address \<open>addr\<close> after a handshake that named \<open>peerID\<close> and \<open>pub\<close>.\<close>

definition attachPeerLocked :: "bytes \<Rightarrow> bytes \<Rightarrow> nat \<Rightarrow> string \<Rightarrow> fed_state \<Rightarrow> bool \<times> fed_state" where
  "attachPeerLocked peerID pub c addr st = (if fs_closed st then (False, st)
     else (True, st\<lparr>fs_peers := (fs_peers st)(peerID \<mapsto> c),
       fs_reg := snd (Reg_Update \<lparr>pi_tracker_id = peerID, pi_pub_key = pub, pi_addr = addr, pi_region = [],
         pi_state = PeerStateSteady, pi_conn = Some c, pi_since = zero_time\<rparr> (fs_reg st))\<rparr>))"

definition Federation_Depeer :: "bytes \<Rightarrow> fed_state \<Rightarrow> fed_err option \<times> fed_state" where
  "Federation_Depeer i st = (let st1 = st\<lparr>fs_peers := (fs_peers st)(i := None)\<rparr> in
     case Reg_Depeer i (fs_reg st1) of (e, _, r) \<Rightarrow> (e, st1\<lparr>fs_reg := r\<rparr>))"

definition AddPeer :: "bytes \<Rightarrow> bytes \<Rightarrow> string \<Rightarrow> string \<Rightarrow> fed_state \<Rightarrow> fed_err option \<times> fed_state" where
  "AddPeer i pub addr region st = (case Reg_Add \<lparr>pi_tracker_id = i, pi_pub_key = pub, pi_addr = addr, pi_region = region,
       pi_state = PeerStatePending, pi_conn = None, pi_since = zero_time\<rparr> (fs_reg st) of
     (e, r) \<Rightarrow> (e, st\<lparr>fs_reg := r\<rparr>))"

definition Federation_Close :: "fed_state \<Rightarrow> fed_state" where
  "Federation_Close st = (if fs_closed st then st else st\<lparr>fs_closed := True, fs_peers := Map.empty\<rparr>)"

text \<open>The wrapper of \<open>StartTransfer\<close> up to the wait, and the translation of its result.\<close>

definition timeout_err :: "fed_err + StartTransferOutput \<Rightarrow> fed_err + StartTransferOutput" where
  "timeout_err r = (if r = Inl ctxDeadlineExceeded then Inl ErrTransferTimeout else r)"

definition Federation_StartTransfer :: "fed_cfg \<Rightarrow> fed_io \<Rightarrow> StartTransferInput \<Rightarrow> fed_state \<Rightarrow> start_res \<times> fed_state" where
  "Federation_StartTransfer cfg io inp st =
     (if \<not> cfg_ledger (fc_tc cfg) then (StReturn (Inl ErrTransferDisabled), st)
      else if \<not> Reg_IsActive (si_source_tracker_id inp) (fs_reg st) then (StReturn (Inl ErrPeerNotConnected), st)
      else (case start_begin (fc_tc cfg) (fed_net cfg io st) inp (fs_tc st) of
        (r, ms, tc) \<Rightarrow> ((case r of StReturn x \<Rightarrow> StReturn (timeout_err x) | StWaiting \<Rightarrow> StWaiting),
          post cfg io ms (st\<lparr>fs_tc := tc\<rparr>))))"

definition Federation_resume :: "fed_cfg \<Rightarrow> fed_io \<Rightarrow> StartTransferInput \<Rightarrow> wait_event \<Rightarrow> fed_state \<Rightarrow> (fed_err + StartTransferOutput) \<times> fed_state" where
  "Federation_resume cfg io inp event st =
     (case start_resume (fc_tc cfg) (io_hk io) (io_now io) (io_keys io) (fed_net cfg io st)
        (PeerPubKey st (si_source_tracker_id inp)) inp event (fs_tc st) (fs_store st) of
      (r, ms, evs, tc, s) \<Rightarrow> (timeout_err r,
        post cfg io ms (st\<lparr>fs_tc := tc, fs_store := s, fs_events := fs_events st @ evs\<rparr>)))"

section \<open>The health watcher\<close>

type_synonym below_since = "bytes \<rightharpoonup> time"

definition watch_peer :: "fed_cfg \<Rightarrow> time \<Rightarrow> PeerInfo \<Rightarrow> below_since \<times> fed_state \<Rightarrow> below_since \<times> fed_state" where
  "watch_peer cfg now p w = (case w of (b, st) \<Rightarrow> let i = pi_tracker_id p in
     if pi_state p \<noteq> PeerStateSteady then (b(i := None), st)
     else if f_lt (Health_Score (fc_health cfg) i now (fs_health st)) (fc_low_threshold cfg) then
       (case b i of None \<Rightarrow> (b(i \<mapsto> now), st)
        | Some since \<Rightarrow> if time_sub now since \<ge> fc_low_window cfg then (b(i := None), snd (Federation_Depeer i st)) else (b, st))
     else (b(i := None), st))"

definition runHealthWatcherTick :: "fed_cfg \<Rightarrow> bytes list \<Rightarrow> time \<Rightarrow> below_since \<times> fed_state \<Rightarrow> below_since \<times> fed_state" where
  "runHealthWatcherTick cfg ord now w = fold (watch_peer cfg now) (Reg_All ord (fs_reg (snd w))) w"

end
