(* ===== verification/TB_Peering.thy ===== *)
theory TB_Peering
  imports TB_Federation
begin

text \<open>
  How two trackers become peers (\<open>src/tracker/internal/federation\<close>: \<open>handshake.go\<close>, \<open>dialer.go\<close>, and the
  callers in \<open>subsystem.go\<close>): the two sides of the handshake, the redial loop, and what a finished handshake
  attaches.

  One run of a handshake is a function of \<open>hs_io\<close>: the random nonce that is drawn (\<open>None\<close> when the generator
  fails), the outcomes of the successive \<open>Recv\<close> and the outcomes of the successive \<open>Send\<close>. It returns its result and the
  frames that it has sent. A timeout is an error of \<open>Recv\<close> or \<open>Send\<close>.
\<close>

section \<open>Messages of the handshake\<close>

definition protocolVersion :: u32 where "protocolVersion = 1"

record HandshakeResult =
  hr_peer_tracker_id :: bytes
  hr_peer_pub_key :: bytes
  hr_dedupe_ttl :: int
  hr_gossip_rate_qps :: u32
  hr_peer_features :: "string list"

record hs_io =
  hs_nonce :: "bytes option"
  hs_recv :: "nat \<Rightarrow> fed_err + bytes"
  hs_send :: "nat \<Rightarrow> fed_err option"

definition SupportedFeatures :: "string list" where
  "SupportedFeatures = [''transfer_reject'', ''peer_health_v1'', ''signed_bootstrap_list'', ''peer_exchange_v1'']"

text \<open>Signing, framing and sending of one message, the common tail of the three send functions.\<close>

definition send_signed :: "crypto \<Rightarrow> fed_codec \<Rightarrow> bytes \<Rightarrow> bytes \<Rightarrow> FedKind \<Rightarrow> bytes option \<Rightarrow> fed_err option \<Rightarrow> fed_err option \<times> bytes list" where
  "send_signed cr cd priv myID k op res = (case op of None \<Rightarrow> (Some (ErrHandshakeFailed ''marshal''), [])
     | Some payload \<Rightarrow> (case SignFedEnvelope cr priv myID k payload of Inl e \<Rightarrow> (Some (ErrHandshakeFailed ''sign''), [])
       | Inr env \<Rightarrow> (case MarshalFrame cd (Some env) of Inl e \<Rightarrow> (Some (ErrHandshakeFailed ''frame''), [])
         | Inr frame \<Rightarrow> (case res of Some e \<Rightarrow> (Some (ErrHandshakeFailed ''send''), []) | None \<Rightarrow> (None, [frame])))))"

definition my_hello :: "bytes \<Rightarrow> bytes \<Rightarrow> Hello" where
  "my_hello myID nonce = \<lparr>he_tracker_id = myID, he_protocol_version = protocolVersion, he_nonce = nonce,
     he_features = SupportedFeatures\<rparr>"

definition sendHello :: "crypto \<Rightarrow> fed_codec \<Rightarrow> bytes \<Rightarrow> bytes \<Rightarrow> bytes option \<Rightarrow> fed_err option \<Rightarrow> (fed_err + bytes) \<times> bytes list" where
  "sendHello cr cd priv myID rnd res = (case rnd of None \<Rightarrow> (Inl (ErrHandshakeFailed ''nonce''), [])
     | Some nonce \<Rightarrow> (case ValidateHello (Some (my_hello myID nonce)) of Some e \<Rightarrow> (Inl (ErrHandshakeFailed e), [])
       | None \<Rightarrow> (case send_signed cr cd priv myID KIND_HELLO (enc (c_hello cd) (my_hello myID nonce)) res of
           (Some e, fs) \<Rightarrow> (Inl e, fs) | (None, fs) \<Rightarrow> (Inr nonce, fs))))"

definition recvKind :: "fed_codec \<Rightarrow> fed_err + bytes \<Rightarrow> FedKind \<Rightarrow> fed_err + FedEnvelope" where
  "recvKind cd r want = (case r of Inl e \<Rightarrow> Inl (ErrHandshakeFailed ''recv'')
     | Inr frame \<Rightarrow> (case UnmarshalFrame cd frame of Inl e \<Rightarrow> Inl (ErrHandshakeFailed ''unmarshal'')
       | Inr env \<Rightarrow> if fe_kind env \<noteq> want then Inl (ErrHandshakeFailed ''got kind'') else Inr env))"

definition sendPeerAuth :: "crypto \<Rightarrow> fed_codec \<Rightarrow> bytes \<Rightarrow> bytes \<Rightarrow> bytes \<Rightarrow> fed_err option \<Rightarrow> fed_err option \<times> bytes list" where
  "sendPeerAuth cr cd priv myID theirNonce res =
     (let auth = \<lparr>pa_nonce_sig = ed_sign cr priv theirNonce\<rparr> in
      case ValidatePeerAuth (Some auth) of Some e \<Rightarrow> (Some (ErrHandshakeFailed e), [])
      | None \<Rightarrow> send_signed cr cd priv myID KIND_PEER_AUTH (enc (c_auth cd) auth) res)"

definition validatePeerHello :: "crypto \<Rightarrow> fed_codec \<Rightarrow> FedEnvelope \<Rightarrow> (bytes \<rightharpoonup> bytes) \<Rightarrow> fed_err + (bytes \<times> bytes \<times> bytes \<times> string list)" where
  "validatePeerHello cr cd env expected = (case dec (c_hello cd) (fe_payload env) of
     None \<Rightarrow> Inl (ErrHandshakeFailed ''hello unmarshal'')
   | Some hello \<Rightarrow> (case ValidateHello (Some hello) of Some e \<Rightarrow> Inl (ErrHandshakeFailed e)
     | None \<Rightarrow> if he_protocol_version hello \<noteq> protocolVersion then Inl (ErrHandshakeFailed ''protocol_version'')
         else let tid = to_array 32 (he_tracker_id hello) in
           (case expected tid of None \<Rightarrow> Inl (ErrHandshakeFailed ''not in allowlist'')
            | Some pub \<Rightarrow>
              if \<not> Verify cr pub (fe_payload env) (fe_sender_sig env) then Inl (ErrHandshakeFailed ''hello envelope sig'')
              else if sha256 cr pub \<noteq> tid then Inl (ErrHandshakeFailed ''hello tracker_id != hash(pubkey)'')
              else Inr (tid, pub, he_nonce hello, he_features hello))))"

text \<open>The loop of \<open>NegotiateFeatures\<close>: \<open>theirs\<close> as the set that is built from it, \<open>seen\<close> the features already put out.\<close>

fun negotiate_loop :: "string set \<Rightarrow> string set \<Rightarrow> string list \<Rightarrow> string list" where
  "negotiate_loop theirs seen [] = []"
| "negotiate_loop theirs seen (m # ms) = (if m \<notin> theirs then negotiate_loop theirs seen ms
     else if m \<in> seen then negotiate_loop theirs seen ms
     else m # negotiate_loop theirs (insert m seen) ms)"

definition NegotiateFeatures :: "string list \<Rightarrow> string list \<Rightarrow> string list" where
  "NegotiateFeatures mine theirs = negotiate_loop (set theirs) {} mine"

definition validatePeerAuth :: "crypto \<Rightarrow> fed_codec \<Rightarrow> FedEnvelope \<Rightarrow> bytes \<Rightarrow> bytes \<Rightarrow> fed_err option" where
  "validatePeerAuth cr cd env pub myNonce = (case dec (c_auth cd) (fe_payload env) of
     None \<Rightarrow> Some (ErrHandshakeFailed ''peer_auth unmarshal'')
   | Some auth \<Rightarrow> (case ValidatePeerAuth (Some auth) of Some e \<Rightarrow> Some (ErrHandshakeFailed e)
     | None \<Rightarrow>
         if \<not> Verify cr pub (fe_payload env) (fe_sender_sig env) then Some (ErrHandshakeFailed ''peer_auth envelope sig'')
         else if \<not> Verify cr pub myNonce (pa_nonce_sig auth) then Some (ErrHandshakeFailed ''peer_auth nonce sig'')
         else None))"

definition sendAccept :: "crypto \<Rightarrow> fed_codec \<Rightarrow> bytes \<Rightarrow> bytes \<Rightarrow> int \<Rightarrow> u32 \<Rightarrow> fed_err option \<Rightarrow> fed_err option \<times> bytes list" where
  "sendAccept cr cd priv myID ttl qps res =
     send_signed cr cd priv myID KIND_PEERING_ACCEPT
       (enc (c_accept cd) \<lparr>ac_dedupe_ttl_s = word_of_int (go_div ttl second_ns), ac_gossip_rate_qps = qps\<rparr>) res"

section \<open>The two sides\<close>

definition RunHandshakeDialer :: "crypto \<Rightarrow> fed_codec \<Rightarrow> bytes \<Rightarrow> bytes \<Rightarrow> bytes \<Rightarrow> bytes \<Rightarrow> hs_io \<Rightarrow> (fed_err + HandshakeResult) \<times> bytes list" where
  "RunHandshakeDialer cr cd myID priv peerID peerPub io = (case sendHello cr cd priv myID (hs_nonce io) (hs_send io 0) of
     (Inl e, fs) \<Rightarrow> (Inl e, fs)
   | (Inr myNonce, fs) \<Rightarrow> (case recvKind cd (hs_recv io 0) KIND_HELLO of Inl e \<Rightarrow> (Inl e, fs)
     | Inr helloEnv \<Rightarrow> (case validatePeerHello cr cd helloEnv [peerID \<mapsto> peerPub] of Inl e \<Rightarrow> (Inl e, fs)
       | Inr (gotID, gotPub, theirNonce, feats) \<Rightarrow> (case sendPeerAuth cr cd priv myID theirNonce (hs_send io 1) of
           (Some e, fs1) \<Rightarrow> (Inl e, fs @ fs1)
         | (None, fs1) \<Rightarrow> (case recvKind cd (hs_recv io 1) KIND_PEER_AUTH of Inl e \<Rightarrow> (Inl e, fs @ fs1)
           | Inr authEnv \<Rightarrow> (case validatePeerAuth cr cd authEnv gotPub myNonce of Some e \<Rightarrow> (Inl e, fs @ fs1)
             | None \<Rightarrow> (case recvKind cd (hs_recv io 2) KIND_PEERING_ACCEPT of Inl e \<Rightarrow> (Inl e, fs @ fs1)
               | Inr accEnv \<Rightarrow>
                 if \<not> Verify cr gotPub (fe_payload accEnv) (fe_sender_sig accEnv)
                   then (Inl (ErrHandshakeFailed ''accept envelope sig''), fs @ fs1)
                 else (case dec (c_accept cd) (fe_payload accEnv) of
                     None \<Rightarrow> (Inl (ErrHandshakeFailed ''unmarshal accept''), fs @ fs1)
                   | Some acc \<Rightarrow> (Inr \<lparr>hr_peer_tracker_id = gotID, hr_peer_pub_key = gotPub,
                       hr_dedupe_ttl = uint (ac_dedupe_ttl_s acc) * second_ns, hr_gossip_rate_qps = ac_gossip_rate_qps acc,
                       hr_peer_features = NegotiateFeatures SupportedFeatures feats\<rparr>, fs @ fs1)))))))))"

definition RunHandshakeListener :: "crypto \<Rightarrow> fed_codec \<Rightarrow> bytes \<Rightarrow> bytes \<Rightarrow> (bytes \<rightharpoonup> bytes) \<Rightarrow> hs_io \<Rightarrow> (fed_err + HandshakeResult) \<times> bytes list" where
  "RunHandshakeListener cr cd myID priv expected io = (case recvKind cd (hs_recv io 0) KIND_HELLO of Inl e \<Rightarrow> (Inl e, [])
     | Inr helloEnv \<Rightarrow> (case validatePeerHello cr cd helloEnv expected of Inl e \<Rightarrow> (Inl e, [])
       | Inr (gotID, gotPub, theirNonce, feats) \<Rightarrow> (case sendHello cr cd priv myID (hs_nonce io) (hs_send io 0) of
           (Inl e, fs) \<Rightarrow> (Inl e, fs)
         | (Inr myNonce, fs) \<Rightarrow> (case recvKind cd (hs_recv io 1) KIND_PEER_AUTH of Inl e \<Rightarrow> (Inl e, fs)
           | Inr authEnv \<Rightarrow> (case validatePeerAuth cr cd authEnv gotPub myNonce of Some e \<Rightarrow> (Inl e, fs)
             | None \<Rightarrow> (case sendPeerAuth cr cd priv myID theirNonce (hs_send io 1) of (Some e, fs1) \<Rightarrow> (Inl e, fs @ fs1)
               | (None, fs1) \<Rightarrow> (case sendAccept cr cd priv myID (3600 * second_ns) 100 (hs_send io 2) of
                   (Some e, fs2) \<Rightarrow> (Inl e, fs @ fs1 @ fs2)
                 | (None, fs2) \<Rightarrow> (Inr \<lparr>hr_peer_tracker_id = gotID, hr_peer_pub_key = gotPub,
                     hr_dedupe_ttl = 3600 * second_ns, hr_gossip_rate_qps = 100,
                     hr_peer_features = NegotiateFeatures SupportedFeatures feats\<rparr>, fs @ fs1 @ fs2))))))))"

section \<open>Attaching a peer\<close>

text \<open>
  The callbacks of the listener and of the dialer: \<open>c\<close> and \<open>addr\<close> name the connection. The key that the transport has
  authenticated for \<open>c\<close> is not an input of either.
\<close>

definition acceptInbound :: "fed_cfg \<Rightarrow> hs_io \<Rightarrow> nat \<Rightarrow> string \<Rightarrow> fed_state \<Rightarrow> bytes list \<times> fed_state" where
  "acceptInbound cfg io c addr st =
     (case RunHandshakeListener (fc_cr cfg) (fc_cd cfg) (fc_my_id cfg) (fc_priv cfg) (\<lambda>i. map_option pi_pub_key (fs_reg st i)) io of
       (Inl e, fs) \<Rightarrow> (fs, st)
     | (Inr res, fs) \<Rightarrow> (fs, snd (attachPeerLocked (hr_peer_tracker_id res) (hr_peer_pub_key res) c addr st)))"

definition attachAndWait :: "fed_cfg \<Rightarrow> bytes \<Rightarrow> bytes \<Rightarrow> hs_io \<Rightarrow> nat \<Rightarrow> string \<Rightarrow> fed_state \<Rightarrow> bytes list \<times> fed_state" where
  "attachAndWait cfg peerID peerPub io c addr st =
     (case RunHandshakeDialer (fc_cr cfg) (fc_cd cfg) (fc_my_id cfg) (fc_priv cfg) peerID peerPub io of
       (Inl e, fs) \<Rightarrow> (fs, st)
     | (Inr res, fs) \<Rightarrow> (fs, snd (attachPeerLocked (hr_peer_tracker_id res) (hr_peer_pub_key res) c addr st)))"

section \<open>The redial loop\<close>

text \<open>\<open>min_wait\<close> is the wait after a reset; the doubling is 64-bit arithmetic.\<close>

definition min_wait :: "int \<Rightarrow> int" where
  "min_wait base = (if base \<le> 0 then second_ns else base)"

definition max_wait :: "int \<Rightarrow> int \<Rightarrow> int" where
  "max_wait base bmax = (if bmax < min_wait base then min_wait base else bmax)"

definition dial_round :: "int \<Rightarrow> int \<Rightarrow> bool \<Rightarrow> int \<Rightarrow> int" where
  "dial_round base bmax dialed wait = (if dialed then min_wait base
     else let w = i64_add wait wait in if w > max_wait base bmax then max_wait base bmax else w)"

text \<open>The wait before the next dial after \<open>n\<close> outcomes; the bound of \<open>sleepWithJitter\<close>, with \<open>r\<close> the random draw.\<close>

definition Dialer_Run :: "int \<Rightarrow> int \<Rightarrow> bool list \<Rightarrow> int" where
  "Dialer_Run base bmax outcomes = fold (dial_round base bmax) outcomes (min_wait base)"

definition sleepWithJitter :: "int \<Rightarrow> int \<Rightarrow> int" where
  "sleepWithJitter base r = (if base \<le> 0 then 0 else let j = r mod (base + 1) in if j \<le> 0 then 1000000 else j)"

section \<open>Opening the subsystem\<close>

record AllowlistedPeer =
  al_tracker_id :: bytes
  al_pub_key :: bytes
  al_addr :: string
  al_region :: string

record FedConfig =
  fg_my_tracker_id :: bytes
  fg_my_priv :: bytes
  fg_handshake_timeout :: int
  fg_dedupe_ttl :: int
  fg_dedupe_cap :: int
  fg_gossip_rate_qps :: int
  fg_send_queue_depth :: int
  fg_publish_cadence :: int
  fg_idle_timeout :: int
  fg_redial_base :: int
  fg_redial_max :: int
  fg_transfer_timeout :: int
  fg_issued_proof_cap :: int
  fg_peers :: "AllowlistedPeer list"
  fg_health :: HealthConfig
  fg_peer_exchange_cadence :: int
  fg_rate_limit :: RateLimitConfig
  fg_known_peers_prune_interval :: int
  fg_known_peers_max_age :: int
  fg_low_health_threshold :: float64
  fg_low_health_window :: int
  fg_health_watch_interval :: int

definition dflt :: "int \<Rightarrow> int \<Rightarrow> int" where
  "dflt d x = (if x = 0 then d else x)"

definition hour_ns :: int where "hour_ns = 3600 * second_ns"

text \<open>The assignments of the method, in its order; the clamp of \<open>RedialMax\<close> follows the two redial defaults.\<close>

definition withDefaults :: "FedConfig \<Rightarrow> FedConfig" where
  "withDefaults c0 =
     (let c = c0\<lparr>fg_handshake_timeout := dflt (5 * second_ns) (fg_handshake_timeout c0),
           fg_dedupe_ttl := dflt hour_ns (fg_dedupe_ttl c0), fg_dedupe_cap := dflt (64 * 1024) (fg_dedupe_cap c0),
           fg_gossip_rate_qps := dflt 100 (fg_gossip_rate_qps c0), fg_send_queue_depth := dflt 256 (fg_send_queue_depth c0),
           fg_publish_cadence := dflt hour_ns (fg_publish_cadence c0), fg_idle_timeout := dflt (60 * second_ns) (fg_idle_timeout c0),
           fg_redial_base := dflt second_ns (fg_redial_base c0), fg_redial_max := dflt (30 * second_ns) (fg_redial_max c0)\<rparr>
      in c\<lparr>fg_redial_max := (if fg_redial_max c < fg_redial_base c then fg_redial_base c else fg_redial_max c),
           fg_transfer_timeout := dflt (30 * second_ns) (fg_transfer_timeout c),
           fg_issued_proof_cap := dflt 4096 (fg_issued_proof_cap c),
           fg_peer_exchange_cadence := dflt hour_ns (fg_peer_exchange_cadence c),
           fg_known_peers_prune_interval := dflt hour_ns (fg_known_peers_prune_interval c),
           fg_known_peers_max_age := dflt (7 * 24 * hour_ns) (fg_known_peers_max_age c),
           fg_low_health_threshold := (if fg_low_health_threshold c = Fin 0 then round64 (1/5) else fg_low_health_threshold c),
           fg_low_health_window := dflt (30 * 60 * second_ns) (fg_low_health_window c),
           fg_health_watch_interval := dflt (5 * 60 * second_ns) (fg_health_watch_interval c)\<rparr>)"

text \<open>Which collaborators are wired in.\<close>

record Deps =
  dp_transport :: bool
  dp_root_src :: bool
  dp_archive :: bool
  dp_metrics :: bool
  dp_ledger :: bool
  dp_revocations :: bool
  dp_known_peers :: bool

definition open_tc_cfg :: "crypto \<Rightarrow> fed_codec \<Rightarrow> FedConfig \<Rightarrow> Deps \<Rightarrow> tc_cfg" where
  "open_tc_cfg cr cd cfg dep = \<lparr>cfg_my_id = fg_my_tracker_id cfg, cfg_priv = fg_my_priv cfg, cfg_ledger = dp_ledger dep,
     cfg_issued_cap = fg_issued_proof_cap cfg, cfg_cr = cr, cfg_cd = cd\<rparr>"

definition open_cfg :: "crypto \<Rightarrow> fed_codec \<Rightarrow> FedConfig \<Rightarrow> Deps \<Rightarrow> fed_cfg" where
  "open_cfg cr cd cfg dep = \<lparr>fc_cr = cr, fc_cd = cd, fc_my_id = fg_my_tracker_id cfg, fc_priv = fg_my_priv cfg,
     fc_rate = fg_rate_limit cfg, fc_health = fg_health cfg,
     fc_tc = fst (newTransferCoordinator (open_tc_cfg cr cd cfg dep)),
     fc_rev_archive = dp_revocations dep, fc_known_archive = dp_known_peers dep,
     fc_low_threshold = fg_low_health_threshold cfg, fc_low_window = fg_low_health_window cfg\<rparr>"

definition pending_peer :: "AllowlistedPeer \<Rightarrow> PeerInfo" where
  "pending_peer p = \<lparr>pi_tracker_id = al_tracker_id p, pi_pub_key = al_pub_key p, pi_addr = al_addr p, pi_region = al_region p,
     pi_state = PeerStatePending, pi_conn = None, pi_since = zero_time\<rparr>"

definition seed_registry :: "AllowlistedPeer list \<Rightarrow> peer_reg" where
  "seed_registry ps = fold (\<lambda>p r. snd (Reg_Add (pending_peer p) r)) ps Map.empty"

definition seed_known :: "time \<Rightarrow> bool \<Rightarrow> AllowlistedPeer list \<Rightarrow> known_peers \<Rightarrow> known_peers" where
  "seed_known now flt ps m = fold (\<lambda>p m. snd (UpsertKnownPeer flt \<lparr>kn_tracker_id = al_tracker_id p, kn_addr = al_addr p,
     kn_last_seen = unix now, kn_region_hint = al_region p, kn_health_score = Fin (1/2), kn_source = ''allowlist''\<rparr> m)) ps m"

text \<open>\<open>Open\<close> on the databases \<open>s\<close>, \<open>revs\<close> and \<open>known\<close>.\<close>

definition Federation_Open :: "crypto \<Rightarrow> fed_codec \<Rightarrow> FedConfig \<Rightarrow> Deps \<Rightarrow> time \<Rightarrow> bool \<Rightarrow> store \<Rightarrow> revocations \<Rightarrow> known_peers
    \<Rightarrow> string + fed_cfg \<times> fed_state" where
  "Federation_Open cr cd cfg0 dep now flt s revs known =
     (let cfg = withDefaults cfg0 in
      if \<not> dp_transport dep then Inl ''federation: Transport required''
      else if \<not> dp_root_src dep then Inl ''federation: RootSource required''
      else if \<not> dp_archive dep then Inl ''federation: Archive required''
      else if \<not> dp_metrics dep then Inl ''federation: Metrics required''
      else Inr (open_cfg cr cd cfg dep,
        \<lparr>fs_reg = seed_registry (fg_peers cfg), fs_peers = Map.empty, fs_closed = False,
         fs_dedupe = NewDedupe (fg_dedupe_ttl cfg) (fg_dedupe_cap cfg), fs_buckets = Map.empty, fs_health = NewPeerHealth,
         fs_self_equiv = 0, fs_store = s, fs_revs = revs,
         fs_known = (if dp_known_peers dep then seed_known now flt (fg_peers cfg) known else known),
         fs_tc = snd (newTransferCoordinator (open_tc_cfg cr cd cfg dep)), fs_events = [], fs_out = []\<rparr>))"

text \<open>The guards of the periodic tasks.\<close>

definition exchange_ticks :: "FedConfig \<Rightarrow> Deps \<Rightarrow> bool" where
  "exchange_ticks cfg0 dep = (dp_known_peers dep \<and> fg_peer_exchange_cadence (withDefaults cfg0) > 0)"

definition pruner_runs :: "FedConfig \<Rightarrow> Deps \<Rightarrow> bool" where
  "pruner_runs cfg0 dep = (let cfg = withDefaults cfg0 in
     dp_known_peers dep \<and> \<not> (fg_known_peers_prune_interval cfg \<le> 0 \<or> fg_known_peers_max_age cfg \<le> 0))"

definition watcher_runs :: "FedConfig \<Rightarrow> bool" where
  "watcher_runs cfg0 = (let cfg = withDefaults cfg0 in
     \<not> (f_le (fg_low_health_threshold cfg) (Fin 0) \<or> fg_low_health_window cfg \<le> 0))"

end
