(* ===== verification/TB_Handshake_Spec.thy ===== *)
theory TB_Handshake_Spec
  imports TB_Peering
begin

text \<open>
  What a finished handshake proves to each side, and what the messages of one side make the other do.
\<close>

section \<open>What a finished handshake proves\<close>

lemma validatePeerHello_Inr:
  "validatePeerHello cr cd env expected = Inr (tid, pub, n, fs) \<Longrightarrow>
     expected tid = Some pub \<and> sha256 cr pub = tid \<and> Verify cr pub (fe_payload env) (fe_sender_sig env) \<and>
     (\<exists>h. dec (c_hello cd) (fe_payload env) = Some h \<and> he_tracker_id h = tid \<and> he_nonce h = n)"
  by (auto simp: validatePeerHello_def Let_def ValidateHello_def fed_lens split: option.splits if_splits)

lemma validatePeerAuth_None:
  "validatePeerAuth cr cd env pub nonce = None \<Longrightarrow>
     Verify cr pub (fe_payload env) (fe_sender_sig env) \<and>
     (\<exists>a. dec (c_auth cd) (fe_payload env) = Some a \<and> Verify cr pub nonce (pa_nonce_sig a))"
  by (auto simp: validatePeerAuth_def split: option.splits if_splits)

lemma sendHello_Inr: "sendHello cr cd priv i rnd r = (Inr n, fs) \<Longrightarrow> rnd = Some n"
  by (auto simp: sendHello_def split: option.splits prod.splits)

lemma listener_result:
  assumes "RunHandshakeListener cr cd i priv expected io = (Inr res, fs)"
  shows "expected (hr_peer_tracker_id res) = Some (hr_peer_pub_key res)" "sha256 cr (hr_peer_pub_key res) = hr_peer_tracker_id res"
    "\<exists>n sig. hs_nonce io = Some n \<and> Verify cr (hr_peer_pub_key res) n sig"
  using assms unfolding RunHandshakeListener_def
  by (auto split: sum.splits prod.splits option.splits
      dest!: validatePeerHello_Inr validatePeerAuth_None sendHello_Inr)

lemma dialer_result:
  assumes "RunHandshakeDialer cr cd i priv peerID peerPub io = (Inr res, fs)"
  shows "hr_peer_tracker_id res = peerID" "hr_peer_pub_key res = peerPub" "sha256 cr peerPub = peerID"
    "\<exists>n sig. hs_nonce io = Some n \<and> Verify cr peerPub n sig"
  using assms unfolding RunHandshakeDialer_def
  by (auto split: sum.splits prod.splits option.splits if_splits
      dest!: validatePeerHello_Inr validatePeerAuth_None sendHello_Inr)

section \<open>The handshake\<close>

text \<open>A key pair: keys of the right length, and signatures that verify and have the right length.\<close>

definition key_pair :: "crypto \<Rightarrow> bytes \<Rightarrow> bytes \<Rightarrow> bool" where
  "key_pair cr priv pub \<longleftrightarrow> length priv = PrivateKeySize \<and> length pub = PublicKeySize \<and>
     (\<forall>m. ed_verify cr pub m (ed_sign cr priv m) \<and> length (ed_sign cr priv m) = SignatureSize)"

text \<open>A message that the codec can put into a frame that is not too long.\<close>

definition carried :: "crypto \<Rightarrow> fed_codec \<Rightarrow> bytes \<Rightarrow> bytes \<Rightarrow> FedKind \<Rightarrow> bytes option \<Rightarrow> bool" where
  "carried cr cd priv i k op \<longleftrightarrow> (\<exists>payload frame. op = Some payload \<and>
     send_signed cr cd priv i k op None = (None, [frame]) \<and> length frame \<le> MaxFrameBytes)"

definition frame_of :: "crypto \<Rightarrow> fed_codec \<Rightarrow> bytes \<Rightarrow> bytes \<Rightarrow> FedKind \<Rightarrow> bytes option \<Rightarrow> bytes" where
  "frame_of cr cd priv i k op = hd (snd (send_signed cr cd priv i k op None))"

definition env_of :: "crypto \<Rightarrow> bytes \<Rightarrow> bytes \<Rightarrow> FedKind \<Rightarrow> bytes \<Rightarrow> FedEnvelope" where
  "env_of cr priv i k payload = \<lparr>fe_sender_id = i, fe_kind = k, fe_payload = payload, fe_sender_sig = ed_sign cr priv payload\<rparr>"

lemma env_of_sel [simp]:
  "fe_sender_id (env_of cr priv i k b) = i" "fe_kind (env_of cr priv i k b) = k" "fe_payload (env_of cr priv i k b) = b"
  "fe_sender_sig (env_of cr priv i k b) = ed_sign cr priv b"
  by (simp_all add: env_of_def)

lemma carriedD:
  assumes "carried cr cd priv i k op" "codec_rt (c_env cd)"
  shows "send_signed cr cd priv i k op None = (None, [frame_of cr cd priv i k op])"
    "recvKind cd (Inr (frame_of cr cd priv i k op)) k = Inr (env_of cr priv i k (the op))" "op \<noteq> None"
proof -
  from assms(1) obtain payload frame where o: "op = Some payload" and s: "send_signed cr cd priv i k op None = (None, [frame])"
    and l: "length frame \<le> MaxFrameBytes" by (auto simp: carried_def)
  then have f: "frame_of cr cd priv i k op = frame" by (simp add: frame_of_def)
  from s o have m: "MarshalFrame cd (Some (env_of cr priv i k payload)) = Inr frame"
    by (auto simp: send_signed_def env_of_def SignFedEnvelope_Inr split: sum.splits)
  show "send_signed cr cd priv i k op None = (None, [frame_of cr cd priv i k op])" "op \<noteq> None" using s f o by simp_all
  show "recvKind cd (Inr (frame_of cr cd priv i k op)) k = Inr (env_of cr priv i k (the op))"
    using frame_round_trip [OF assms(2) m l] o unfolding f by (simp add: recvKind_def)
qed

lemma key_pair_Verify: "key_pair cr priv pub \<Longrightarrow> Verify cr pub b (ed_sign cr priv b)"
  by (simp add: key_pair_def Verify_def)

definition hello_op :: "fed_codec \<Rightarrow> bytes \<Rightarrow> bytes \<Rightarrow> bytes option" where
  "hello_op cd i nonce = enc (c_hello cd) (my_hello i nonce)"

definition auth_op :: "crypto \<Rightarrow> fed_codec \<Rightarrow> bytes \<Rightarrow> bytes \<Rightarrow> bytes option" where
  "auth_op cr cd priv nonce = enc (c_auth cd) \<lparr>pa_nonce_sig = ed_sign cr priv nonce\<rparr>"

definition accept_op :: "fed_codec \<Rightarrow> bytes option" where
  "accept_op cd = enc (c_accept cd) \<lparr>ac_dedupe_ttl_s = word_of_int (go_div (3600 * second_ns) second_ns), ac_gossip_rate_qps = 100\<rparr>"

abbreviation "hello_frame cr cd priv i n \<equiv> frame_of cr cd priv i KIND_HELLO (hello_op cd i n)"
abbreviation "auth_frame cr cd priv i n \<equiv> frame_of cr cd priv i KIND_PEER_AUTH (auth_op cr cd priv n)"
abbreviation "accept_frame cr cd priv i \<equiv> frame_of cr cd priv i KIND_PEERING_ACCEPT (accept_op cd)"

text \<open>What one side can do: its id is the hash of its key, and its messages reach the other side.\<close>

definition speaker :: "crypto \<Rightarrow> fed_codec \<Rightarrow> bytes \<Rightarrow> bytes \<Rightarrow> bytes \<Rightarrow> bytes \<Rightarrow> bytes \<Rightarrow> bool" where
  "speaker cr cd i priv pub mine theirs \<longleftrightarrow> key_pair cr priv pub \<and> sha256 cr pub = i \<and> length i = 32 \<and> length mine = 32 \<and>
     carried cr cd priv i KIND_HELLO (hello_op cd i mine) \<and> carried cr cd priv i KIND_PEER_AUTH (auth_op cr cd priv theirs)"

definition hs_codecs :: "fed_codec \<Rightarrow> bool" where
  "hs_codecs cd \<longleftrightarrow> codec_rt (c_env cd) \<and> codec_rt (c_hello cd) \<and> codec_rt (c_auth cd) \<and> codec_rt (c_accept cd)"

definition io_fine :: "hs_io \<Rightarrow> bytes \<Rightarrow> bool" where
  "io_fine io n \<longleftrightarrow> hs_nonce io = Some n \<and> (\<forall>k. hs_send io k = None)"

lemma sendHello_fine:
  assumes "speaker cr cd i priv pub n m" "hs_codecs cd"
  shows "sendHello cr cd priv i (Some n) None = (Inr n, [hello_frame cr cd priv i n])"
  using assms carriedD(1) [of cr cd priv i KIND_HELLO "hello_op cd i n"]
  by (simp add: sendHello_def speaker_def hs_codecs_def ValidateHello_def fed_lens my_hello_def hello_op_def)

lemma sendPeerAuth_fine:
  assumes "speaker cr cd i priv pub n m" "hs_codecs cd"
  shows "sendPeerAuth cr cd priv i m None = (None, [auth_frame cr cd priv i m])"
  using assms carriedD(1) [of cr cd priv i KIND_PEER_AUTH "auth_op cr cd priv m"]
  by (simp add: sendPeerAuth_def speaker_def hs_codecs_def ValidatePeerAuth_def fed_lens key_pair_def auth_op_def SignatureSize_def Let_def)

lemma hello_accepted:
  assumes "speaker cr cd i priv pub n m" "hs_codecs cd" "expected i = Some pub"
  shows "\<exists>env. recvKind cd (Inr (hello_frame cr cd priv i n)) KIND_HELLO = Inr env \<and>
    validatePeerHello cr cd env expected = Inr (i, pub, n, SupportedFeatures)"
proof -
  have c: "carried cr cd priv i KIND_HELLO (hello_op cd i n)" and e: "codec_rt (c_env cd)" "codec_rt (c_hello cd)"
    using assms by (auto simp: speaker_def hs_codecs_def)
  obtain b where b: "enc (c_hello cd) (my_hello i n) = Some b" using carriedD(3) [OF c e(1)] by (auto simp: hello_op_def)
  have "dec (c_hello cd) b = Some (my_hello i n)" by (rule codec_rtD [OF e(2) b])
  moreover have "ValidateHello (Some (my_hello i n)) = None"
    using assms(1) by (simp add: speaker_def ValidateHello_def fed_lens my_hello_def)
  moreover have "Verify cr pub b (ed_sign cr priv b)" "to_array 32 i = i" "sha256 cr pub = i"
    using assms(1) by (auto simp: speaker_def intro: key_pair_Verify)
  ultimately have "validatePeerHello cr cd (env_of cr priv i KIND_HELLO b) expected = Inr (i, pub, n, SupportedFeatures)"
    using assms(3) by (simp add: validatePeerHello_def my_hello_def)
  then show ?thesis using carriedD(2) [OF c e(1)] b by (simp add: hello_op_def)
qed

lemma auth_accepted:
  assumes "speaker cr cd i priv pub n m" "hs_codecs cd"
  shows "\<exists>env. recvKind cd (Inr (auth_frame cr cd priv i m)) KIND_PEER_AUTH = Inr env \<and> validatePeerAuth cr cd env pub m = None"
proof -
  have c: "carried cr cd priv i KIND_PEER_AUTH (auth_op cr cd priv m)" and e: "codec_rt (c_env cd)" "codec_rt (c_auth cd)"
    and k: "key_pair cr priv pub" using assms by (auto simp: speaker_def hs_codecs_def)
  obtain b where b: "enc (c_auth cd) \<lparr>pa_nonce_sig = ed_sign cr priv m\<rparr> = Some b" using carriedD(3) [OF c e(1)] by (auto simp: auth_op_def)
  have "validatePeerAuth cr cd (env_of cr priv i KIND_PEER_AUTH b) pub m = None"
    using key_pair_Verify [OF k] codec_rtD [OF e(2) b] k
    by (simp add: validatePeerAuth_def ValidatePeerAuth_def fed_lens key_pair_def SignatureSize_def)
  then show ?thesis using carriedD(2) [OF c e(1)] b by (simp add: auth_op_def)
qed

text \<open>
  The listener accepts whoever delivers a hello of \<open>i\<close> and an answer of \<open>i\<close> to its nonce; the dialer answers any nonce in a
  hello of the peer that it dialled.
\<close>

lemma listener_accepts:
  assumes me: "speaker cr cd i priv pub n m" and peer: "speaker cr cd j jpriv jpub m n" and cd: "hs_codecs cd"
    and io: "io_fine io n" "hs_recv io 0 = Inr (hello_frame cr cd jpriv j m)" "hs_recv io 1 = Inr (auth_frame cr cd jpriv j n)"
    and ex: "expected j = Some jpub" and acc: "carried cr cd priv i KIND_PEERING_ACCEPT (accept_op cd)"
  shows "RunHandshakeListener cr cd i priv expected io = (Inr \<lparr>hr_peer_tracker_id = j, hr_peer_pub_key = jpub,
    hr_dedupe_ttl = 3600 * second_ns, hr_gossip_rate_qps = 100, hr_peer_features = NegotiateFeatures SupportedFeatures SupportedFeatures\<rparr>,
    [hello_frame cr cd priv i n, auth_frame cr cd priv i m, accept_frame cr cd priv i])"
proof -
  obtain he ae where h: "recvKind cd (Inr (hello_frame cr cd jpriv j m)) KIND_HELLO = Inr he"
      "validatePeerHello cr cd he expected = Inr (j, jpub, m, SupportedFeatures)"
    and a: "recvKind cd (Inr (auth_frame cr cd jpriv j n)) KIND_PEER_AUTH = Inr ae" "validatePeerAuth cr cd ae jpub n = None"
    using hello_accepted [where expected = expected, OF peer cd ex] auth_accepted [OF peer cd] by blast
  have "sendAccept cr cd priv i (3600 * second_ns) 100 None = (None, [accept_frame cr cd priv i])"
    using carriedD(1) [OF acc] cd by (simp add: sendAccept_def accept_op_def hs_codecs_def)
  then show ?thesis using io h a sendHello_fine [OF me cd] sendPeerAuth_fine [OF me cd]
    by (simp add: RunHandshakeListener_def io_fine_def)
qed

lemma dialer_sends:
  assumes me: "speaker cr cd i priv pub n m" and peer: "speaker cr cd j jpriv jpub m n'" and cd: "hs_codecs cd"
    and io: "io_fine io n" "hs_recv io 0 = Inr (hello_frame cr cd jpriv j m)"
  shows "snd (RunHandshakeDialer cr cd i priv j jpub io) = [hello_frame cr cd priv i n, auth_frame cr cd priv i m]"
proof -
  obtain he where h: "recvKind cd (Inr (hello_frame cr cd jpriv j m)) KIND_HELLO = Inr he"
      "validatePeerHello cr cd he [j \<mapsto> jpub] = Inr (j, jpub, m, SupportedFeatures)"
    using hello_accepted [OF peer cd, of "[j \<mapsto> jpub]"] by auto
  show ?thesis using io h sendHello_fine [OF me cd] sendPeerAuth_fine [OF me cd]
    by (auto simp: RunHandshakeDialer_def io_fine_def split: sum.splits option.splits)
qed

lemma dialer_hello_first:
  assumes "speaker cr cd i priv pub n m" "hs_codecs cd" "io_fine io n"
  shows "\<exists>rest. snd (RunHandshakeDialer cr cd i priv j jpub io) = hello_frame cr cd priv i n # rest"
  using assms(3) sendHello_fine [OF assms(1,2)]
  by (auto simp: RunHandshakeDialer_def io_fine_def split: sum.splits option.splits prod.splits)

lemma listener_hello_first:
  assumes me: "speaker cr cd i priv pub n m" and peer: "speaker cr cd j jpriv jpub m n" and cd: "hs_codecs cd"
    and io: "io_fine io n" "hs_recv io 0 = Inr (hello_frame cr cd jpriv j m)" and ex: "expected j = Some jpub"
  shows "\<exists>rest. snd (RunHandshakeListener cr cd i priv expected io) = hello_frame cr cd priv i n # rest"
proof -
  obtain he where h: "recvKind cd (Inr (hello_frame cr cd jpriv j m)) KIND_HELLO = Inr he"
      "validatePeerHello cr cd he expected = Inr (j, jpub, m, SupportedFeatures)"
    using hello_accepted [where expected = expected, OF peer cd ex] by blast
  show ?thesis using io h sendHello_fine [OF me cd]
    by (auto simp: RunHandshakeListener_def io_fine_def split: sum.splits option.splits prod.splits)
qed

end
