(* ===== verification/TB_Gossip_Spec.thy ===== *)
theory TB_Gossip_Spec
  imports TB_Gossip
begin

text \<open>
  The set of recently seen messages as an abstract set of live ids, and the contract that the dispatcher relies
  on: within its time to live a message passes the filter at most once, as long as the set does not overflow.
\<close>


section \<open>The set of seen messages\<close>

text \<open>The index finds exactly the entries of the list, which carry different ids.\<close>

definition indexed :: "dedupeEntry list \<Rightarrow> (bytes \<rightharpoonup> dedupeEntry) \<Rightarrow> bool" where
  "indexed es ix \<longleftrightarrow> distinct (map de_id es) \<and> (\<forall>i e. ix i = Some e \<longleftrightarrow> e \<in> set es \<and> de_id e = i)"

definition dedupe_ok :: "Dedupe \<Rightarrow> bool" where
  "dedupe_ok d \<longleftrightarrow> 0 < dd_cap d \<and> indexed (dd_order d) (dd_idx d) \<and> int (length (dd_order d)) \<le> dd_cap d"

text \<open>The abstract set: an id is live until its expiry.\<close>

definition live :: "Dedupe \<Rightarrow> time \<Rightarrow> bytes \<Rightarrow> bool" where
  "live d t i \<longleftrightarrow> (\<exists>e\<in>set (dd_order d). de_id e = i \<and> t < de_expiry e)"

lemma indexed_rev [simp]: "indexed (rev es) ix = indexed es ix"
  by (simp add: indexed_def rev_map [symmetric])

lemma indexed_tl: "indexed (e # es) ix \<Longrightarrow> indexed es (ix(de_id e := None))"
  by (auto simp: indexed_def image_iff)

lemma indexed_distinct: "indexed es ix \<Longrightarrow> distinct es"
  by (simp add: indexed_def distinct_map)

lemma indexed_remove1:
  assumes "indexed es ix" "ix i = Some el"
  shows "indexed (remove1 el es) (ix(i := None))"
proof -
  have e: "el \<in> set es" "de_id el = i" and d: "distinct es" "inj_on de_id (set es)"
    using assms by (auto simp: indexed_def distinct_map)
  have r: "set (remove1 el es) = set es - {el}" using d(1) by (rule set_remove1_eq)
  have "distinct (map de_id (remove1 el es))"
    using d r by (simp add: distinct_map distinct_remove1) (blast intro: inj_on_subset)
  moreover have "x = el" if "x \<in> set es" "de_id x = i" for x
    using inj_onD [OF d(2) _ that(1) e(1)] that(2) e(2) by simp
  ultimately show ?thesis using assms(1) e(2) unfolding indexed_def r by (metis DiffE DiffI fun_upd_apply option.distinct(1) singletonD singletonI)
qed

lemma indexed_None: "indexed es ix \<Longrightarrow> ix i = None \<longleftrightarrow> i \<notin> de_id ` set es"
  unfolding indexed_def by (metis (no_types, lifting) image_iff not_None_eq)

lemma indexed_Cons:
  assumes "indexed es ix" "ix (de_id e) = None"
  shows "indexed (e # es) (ix(de_id e \<mapsto> e))"
proof -
  have "de_id e \<notin> de_id ` set es" using assms by (simp add: indexed_None)
  then have "de_id x \<noteq> de_id e" if "x \<in> set es" for x using that by (metis image_eqI)
  then have "(ix(de_id e \<mapsto> e)) i = Some x \<longleftrightarrow> x \<in> set (e # es) \<and> de_id x = i" for i x
    using assms(1) by (cases "i = de_id e") (auto simp: indexed_def)
  moreover have "distinct (map de_id (e # es))" using assms(1) \<open>de_id e \<notin> _\<close> by (simp add: indexed_def)
  ultimately show ?thesis unfolding indexed_def by blast
qed

lemma evict_expired_spec:
  "indexed es ix \<Longrightarrow> evict_expired now es ix = (es', ix') \<Longrightarrow>
     indexed es' ix' \<and> es' = dropWhile (\<lambda>e. \<not> now < de_expiry e) es"
  by (induction es arbitrary: ix) (auto split: if_splits dest: indexed_tl)

lemma evict_over_cap_spec:
  "0 < cp \<Longrightarrow> indexed es ix \<Longrightarrow> evict_over_cap cp es ix = (es', ix') \<Longrightarrow>
     indexed es' ix' \<and> int (length es') < cp \<and> (\<exists>n. es' = drop n es) \<and> (int (length es) < cp \<longrightarrow> es' = es)"
proof (induction es arbitrary: ix)
  case (Cons e es)
  show ?case
  proof (cases "int (length (e # es)) \<ge> cp")
    case True
    then have "evict_over_cap cp es (ix(de_id e := None)) = (es', ix')" using Cons.prems(3) by simp
    from Cons.IH [OF Cons.prems(1) indexed_tl [OF Cons.prems(2)] this] obtain n where
      n: "es' = drop n es" and "indexed es' ix'" "int (length es') < cp" by blast
    moreover have "es' = drop (Suc n) (e # es)" using n by simp
    ultimately show ?thesis using True by (intro conjI exI [of _ "Suc n"]) simp_all
  next
    case False
    with Cons.prems have "es' = drop 0 (e # es)" "ix' = ix" by auto
    with Cons.prems(2) False show ?thesis by (simp del: drop_0) (metis drop_0)
  qed
qed auto

lemma evictExpiredLocked_spec:
  assumes "dedupe_ok d"
  shows "dedupe_ok (evictExpiredLocked now d)" "now \<le> t \<Longrightarrow> live (evictExpiredLocked now d) t = live d t"
    "set (dd_order (evictExpiredLocked now d)) \<subseteq> set (dd_order d)"
    "dd_ttl (evictExpiredLocked now d) = dd_ttl d" "dd_cap (evictExpiredLocked now d) = dd_cap d"
    "length (dd_order (evictExpiredLocked now d)) \<le> length (dd_order d)"
proof -
  obtain es ix where e: "evict_expired now (rev (dd_order d)) (dd_idx d) = (es, ix)" by fastforce
  have i: "indexed (rev (dd_order d)) (dd_idx d)" using assms by (simp add: dedupe_ok_def)
  note s = evict_expired_spec [OF i e]
  let ?p = "\<lambda>e. \<not> now < de_expiry e"
  have len: "length es \<le> length (dd_order d)" using s length_dropWhile_le [of ?p "rev (dd_order d)"] by simp
  show "dedupe_ok (evictExpiredLocked now d)"
    using assms len indexed_rev [THEN iffD2, OF conjunct1 [OF s]] by (simp add: evictExpiredLocked_def e dedupe_ok_def)
  show sub: "set (dd_order (evictExpiredLocked now d)) \<subseteq> set (dd_order d)"
    using s set_dropWhileD [of _ ?p "rev (dd_order d)"] by (auto simp: evictExpiredLocked_def e)
  show "length (dd_order (evictExpiredLocked now d)) \<le> length (dd_order d)"
    using len by (simp add: evictExpiredLocked_def e)
  show "live (evictExpiredLocked now d) t = live d t" if "now \<le> t"
  proof
    fix i
    have "x \<in> set es" if "x \<in> set (dd_order d)" "t < de_expiry x" for x
    proof -
      have "x \<in> set (takeWhile ?p (rev (dd_order d))) \<union> set (dropWhile ?p (rev (dd_order d)))"
        using that(1) by (metis set_append set_rev takeWhile_dropWhile_id)
      moreover have "x \<notin> set (takeWhile ?p (rev (dd_order d)))"
        using that(2) \<open>now \<le> t\<close> by (auto dest!: set_takeWhileD)
      ultimately show ?thesis using s by auto
    qed
    then show "live (evictExpiredLocked now d) t i = live d t i"
      using sub by (auto simp: live_def evictExpiredLocked_def e)
  qed
qed (simp_all add: evictExpiredLocked_def split: prod.splits)

lemma NewDedupe_ok: "dedupe_ok (NewDedupe ttl cp)"
  by (simp add: NewDedupe_def dedupe_ok_def indexed_def)

lemma Dedupe_Seen_spec:
  assumes "dedupe_ok d" "Dedupe_Seen now now i d = (b, d')"
  shows "dedupe_ok d'" "b = live d now i" "now \<le> t \<Longrightarrow> live d' t = live d t"
    "dd_ttl d' = dd_ttl d" "dd_cap d' = dd_cap d" "length (dd_order d') \<le> length (dd_order d)"
proof -
  let ?e = "evictExpiredLocked now d"
  note ev = evictExpiredLocked_spec [OF assms(1), of now]
  have ix: "indexed (dd_order ?e) (dd_idx ?e)" using ev(1) by (simp add: dedupe_ok_def)
  have pos: "dd_idx ?e i = Some el \<Longrightarrow> el \<in> set (dd_order ?e) \<and> de_id el = i" for el
    using ix by (simp add: indexed_def)
  have uniq: "dd_idx ?e i = Some el \<Longrightarrow> x \<in> set (dd_order ?e) \<Longrightarrow> de_id x = i \<Longrightarrow> x = el" for el x
    using ix by (auto simp: indexed_def) (metis option.inject)
  consider (none) "dd_idx ?e i = None" "b = False" "d' = ?e"
    | (live) el where "dd_idx ?e i = Some el" "now < de_expiry el" "b = True" "d' = ?e"
    | (dead) el where "dd_idx ?e i = Some el" "\<not> now < de_expiry el" "b = False"
        "d' = ?e\<lparr>dd_order := remove1 el (dd_order ?e), dd_idx := (dd_idx ?e)(i := None)\<rparr>"
    using assms(2) by (auto simp: Dedupe_Seen_def Let_def split: option.splits if_splits)
  then have "dedupe_ok d' \<and> b = live ?e now i \<and> (now \<le> t \<longrightarrow> live d' t = live ?e t) \<and>
    dd_ttl d' = dd_ttl d \<and> dd_cap d' = dd_cap d \<and> length (dd_order d') \<le> length (dd_order d)"
  proof cases
    case none
    then have "\<not> live ?e now i" using ix by (auto simp: live_def indexed_def) (metis option.distinct(1))
    with none ev show ?thesis by simp
  next
    case live
    then show ?thesis using ev pos [OF live(1)] by (auto simp: live_def)
  next
    case dead
    have "\<not> live ?e now i" using uniq [OF dead(1)] dead(2) by (auto simp: live_def)
    moreover have "live d' t = live ?e t" if "now \<le> t"
    proof
      fix j
      have "x \<in> set (remove1 el (dd_order ?e))" if "x \<in> set (dd_order ?e)" "t < de_expiry x" for x
      proof -
        have "x \<noteq> el" using that(2) dead(2) \<open>now \<le> t\<close> by fastforce
        then show ?thesis by (rule in_set_remove1 [THEN iffD2]) (rule that(1))
      qed
      then show "live d' t j = live ?e t j"
        using dead(4) set_remove1_subset [of el "dd_order ?e"] by (auto simp: live_def)
    qed
    moreover have len: "length (remove1 el (dd_order ?e)) \<le> length (dd_order d)"
      using ev(6) by (simp add: length_remove1) linarith
    moreover have "dedupe_ok d'"
      using assms(1) ev(5) len indexed_remove1 [OF ix dead(1)] by (simp add: dead(4) dedupe_ok_def)
    ultimately show ?thesis using dead(3,4) ev(4,5) by (intro conjI impI) simp_all
  qed
  then show "dedupe_ok d'" "b = live d now i" "now \<le> t \<Longrightarrow> live d' t = live d t"
    "dd_ttl d' = dd_ttl d" "dd_cap d' = dd_cap d" "length (dd_order d') \<le> length (dd_order d)"
    using ev(2) [of now] ev(2) [of t] by auto
qed

text \<open>
  \<open>Mark\<close> makes one id live for the time to live. It forgets other live ids only when the set is full; it
  never makes another id live.
\<close>

lemma Dedupe_Mark_spec:
  assumes "dedupe_ok d" and t: "now \<le> t"
  shows "dedupe_ok (Dedupe_Mark now now i d)"
    "live (Dedupe_Mark now now i d) t i \<longleftrightarrow> t < now + dd_ttl d"
    "j \<noteq> i \<Longrightarrow> live (Dedupe_Mark now now i d) t j \<Longrightarrow> live d t j"
    "j \<noteq> i \<Longrightarrow> int (length (dd_order d)) < dd_cap d \<Longrightarrow> live (Dedupe_Mark now now i d) t j = live d t j"
    "dd_ttl (Dedupe_Mark now now i d) = dd_ttl d" "dd_cap (Dedupe_Mark now now i d) = dd_cap d"
    "length (dd_order (Dedupe_Mark now now i d)) \<le> length (dd_order d) + 1"
proof -
  let ?e = "evictExpiredLocked now d" and ?m = "Dedupe_Mark now now i d"
  let ?new = "\<lparr>de_id = i, de_expiry = now + dd_ttl ?e\<rparr>"
  note ev = evictExpiredLocked_spec [OF assms(1), of now]
  have ix: "indexed (dd_order ?e) (dd_idx ?e)" and cp: "0 < dd_cap ?e" using ev(1) by (simp_all add: dedupe_ok_def)
  obtain rest ix' where m: "?m = ?e\<lparr>dd_order := ?new # rest, dd_idx := ix'(i \<mapsto> ?new)\<rparr>"
    and r: "indexed rest ix'" "ix' i = None" "int (length rest) < dd_cap ?e" "set rest \<subseteq> set (dd_order ?e)"
    and all: "int (length (dd_order ?e)) < dd_cap ?e \<Longrightarrow> x \<in> set (dd_order ?e) \<Longrightarrow> de_id x \<noteq> i \<Longrightarrow> x \<in> set rest"
    and len: "length rest \<le> length (dd_order ?e)" for x
  proof (cases "dd_idx ?e i")
    case None
    obtain es ix1 where c: "evict_over_cap (dd_cap ?e) (rev (dd_order ?e)) (dd_idx ?e) = (es, ix1)" by fastforce
    have "indexed (rev (dd_order ?e)) (dd_idx ?e)" using ix by simp
    note s = evict_over_cap_spec [OF cp this c]
    then have sub: "set es \<subseteq> set (dd_order ?e)" by (metis set_drop_subset set_rev)
    have "indexed (rev es) ix1" using s by (simp only: indexed_rev)
    moreover have "ix1 i = None"
      using None indexed_None [OF conjunct1 [OF s]] indexed_None [OF ix] sub by (meson image_mono subsetD)
    moreover have "length es \<le> length (dd_order ?e)" using s by (metis length_drop length_rev diff_le_self)
    ultimately show ?thesis using s sub
      by (intro that [where rest = "rev es" and ix' = ix1]) (simp_all add: Dedupe_Mark_def Let_def None c)
  next
    case (Some el)
    let ?r = "remove1 el (dd_order ?e)"
    have el: "el \<in> set (dd_order ?e)" "de_id el = i" using ix Some by (auto simp: indexed_def)
    have "x \<in> set ?r" if "x \<in> set (dd_order ?e)" "de_id x \<noteq> i" for x
      using that el by (intro in_set_remove1 [THEN iffD2]) auto
    moreover have "int (length ?r) < dd_cap ?e"
      using ev(1) el(1) Suc_leI [OF length_pos_if_in_set [OF el(1)]] by (simp add: dedupe_ok_def length_remove1 of_nat_diff)
    moreover have "length ?r \<le> length (dd_order ?e)" by (simp add: length_remove1)
    ultimately show ?thesis using indexed_remove1 [OF ix Some] set_remove1_subset [of el "dd_order ?e"]
      by (intro that [where rest = ?r and ix' = "(dd_idx ?e)(i := None)"]) (simp_all add: Dedupe_Mark_def Let_def Some)
  qed
  have new: "indexed (?new # rest) (ix'(i \<mapsto> ?new))" using indexed_Cons [OF r(1), of ?new] r(2) by simp
  have notin: "i \<notin> de_id ` set rest" using r(1,2) by (simp add: indexed_None)
  show "dedupe_ok ?m" using new r(3) cp by (simp add: m dedupe_ok_def)
  show "live ?m t i \<longleftrightarrow> t < now + dd_ttl d" using notin ev(4) by (auto simp: m live_def)
  show "dd_ttl ?m = dd_ttl d" "dd_cap ?m = dd_cap d" using ev(4,5) by (simp_all add: m)
  show "length (dd_order ?m) \<le> length (dd_order d) + 1" using len ev(6) by (simp add: m)
  { assume "j \<noteq> i"
    then have "live ?m t j \<longleftrightarrow> (\<exists>x\<in>set rest. de_id x = j \<and> t < de_expiry x)" by (auto simp: m live_def)
    moreover have "live ?e t j = live d t j" using ev(2) [OF t] by simp
    ultimately show "live ?m t j \<Longrightarrow> live d t j"
      and "int (length (dd_order d)) < dd_cap d \<Longrightarrow> live ?m t j = live d t j"
      using r(4) all ev(5,6) \<open>j \<noteq> i\<close> by (force simp: live_def)+ }
qed

section \<open>The contract of the filter\<close>

text \<open>
  A filter holds live keys. \<open>roomy\<close> says that marking a key does not forget another one.
\<close>

locale seen_set =
  fixes ok :: "'s \<Rightarrow> bool" and alive :: "'s \<Rightarrow> int \<Rightarrow> 'k \<Rightarrow> bool" and roomy :: "'s \<Rightarrow> bool" and ttl :: "'s \<Rightarrow> int"
    and mark :: "int \<Rightarrow> 'k \<Rightarrow> 's \<Rightarrow> 's" and seen :: "int \<Rightarrow> 'k \<Rightarrow> 's \<Rightarrow> bool \<times> 's"
  assumes mark_ok: "ok s \<Longrightarrow> ok (mark now i s)"
    and mark_self: "ok s \<Longrightarrow> now \<le> t \<Longrightarrow> alive (mark now i s) t i \<longleftrightarrow> t < now + ttl s"
    and mark_other: "ok s \<Longrightarrow> roomy s \<Longrightarrow> now \<le> t \<Longrightarrow> j \<noteq> i \<Longrightarrow> alive (mark now i s) t j = alive s t j"
    and mark_ttl: "ok s \<Longrightarrow> ttl (mark now i s) = ttl s"
    and seen_ok: "ok s \<Longrightarrow> ok (snd (seen now i s))"
    and seen_iff: "ok s \<Longrightarrow> fst (seen now i s) = alive s now i"
    and seen_alive: "ok s \<Longrightarrow> now \<le> t \<Longrightarrow> alive (snd (seen now i s)) t j = alive s t j"
    and seen_ttl: "ok s \<Longrightarrow> ttl (snd (seen now i s)) = ttl s"
begin

text \<open>What users of the filter do to it, at instants that do not go back.\<close>

inductive touch :: "int \<Rightarrow> 's \<Rightarrow> 's \<Rightarrow> bool" where
  touch_seen: "touch now s (snd (seen now i s))"
| touch_mark: "roomy s \<Longrightarrow> touch now s (mark now i s)"

inductive touches :: "int \<Rightarrow> 's \<Rightarrow> int \<Rightarrow> 's \<Rightarrow> bool" where
  touches_refl: "t \<le> t' \<Longrightarrow> touches t s t' s"
| touches_step: "touches t s u s' \<Longrightarrow> touch u s' s'' \<Longrightarrow> u \<le> t' \<Longrightarrow> touches t s t' s''"

lemma touch_keeps:
  assumes "touch now s s'" "ok s"
  shows "ok s'" "ttl s' = ttl s" "now \<le> t \<Longrightarrow> t < now + ttl s \<Longrightarrow> alive s t i \<Longrightarrow> alive s' t i"
  using assms
proof (induction rule: touch.induct)
  case (touch_mark s now j)
  { case 1 then show ?case by (rule mark_ok) }
  { case 2 then show ?case by (rule mark_ttl) }
  { case 3 then show ?case using touch_mark by (cases "j = i") (simp_all add: mark_self mark_other) }
qed (simp_all add: seen_ok seen_ttl seen_alive)

lemma touches_keep:
  assumes "touches u s t s'" "ok s"
  shows "ok s' \<and> ttl s' = ttl s \<and> u \<le> t \<and> (\<forall>x. t \<le> x \<longrightarrow> x < u + ttl s \<longrightarrow> alive s x i \<longrightarrow> alive s' x i)"
  using assms
proof (induction rule: touches.induct)
  case (touches_step t s u s' s'' t')
  then have "ok s'" "ttl s' = ttl s" "t \<le> u" by auto
  with touches_step show ?case using touch_keeps [OF touches_step.hyps(2)] by (auto intro!: touch_keeps(3) [OF touches_step.hyps(2)])
qed auto

text \<open>A key that was marked is seen, until its time is over.\<close>

lemma marked_is_seen:
  assumes "ok s" "touches now (mark now i s) t s'" "t < now + ttl s"
  shows "fst (seen t i s')"
proof -
  note k = touches_keep [OF assms(2) mark_ok [OF assms(1)], of i]
  then have "alive (mark now i s) t i" using assms by (simp add: mark_self)
  then have "alive s' t i" using k assms(3) by (simp add: mark_ttl [OF assms(1)])
  then show ?thesis using k seen_iff by blast
qed

end

interpretation dedupe: seen_set dedupe_ok live "\<lambda>d. int (length (dd_order d)) < dd_cap d" dd_ttl
  "\<lambda>now. Dedupe_Mark now now" "\<lambda>now. Dedupe_Seen now now"
proof unfold_locales
  fix d now t i j
  assume ok: "dedupe_ok d"
  show "dedupe_ok (Dedupe_Mark now now i d)" "dd_ttl (Dedupe_Mark now now i d) = dd_ttl d"
    using Dedupe_Mark_spec(1,5) [OF ok order_refl] by auto
  show "now \<le> t \<Longrightarrow> live (Dedupe_Mark now now i d) t i \<longleftrightarrow> t < now + dd_ttl d" using Dedupe_Mark_spec(2) [OF ok] by blast
  show "int (length (dd_order d)) < dd_cap d \<Longrightarrow> now \<le> t \<Longrightarrow> j \<noteq> i \<Longrightarrow> live (Dedupe_Mark now now i d) t j = live d t j"
    using Dedupe_Mark_spec(4) [OF ok] by blast
  obtain b d' where s: "Dedupe_Seen now now i d = (b, d')" by fastforce
  show "dedupe_ok (snd (Dedupe_Seen now now i d))" "fst (Dedupe_Seen now now i d) = live d now i"
    "dd_ttl (snd (Dedupe_Seen now now i d)) = dd_ttl d"
    "now \<le> t \<Longrightarrow> live (snd (Dedupe_Seen now now i d)) t j = live d t j"
    using Dedupe_Seen_spec [OF ok s] s by auto
qed

end
