(* ===== verification/TB_Federation_Spec.thy ===== *)
theory TB_Federation_Spec
  imports TB_Handshake_Spec TB_Gossip_Spec
begin

text \<open>
  The federation subsystem as a step relation over everything that can happen to its state, and its invariants: the keys of
  the table of peers and the signatures of the archived revocations, the pinned rows of the operator, and the filter
  of repeated messages.
\<close>

section \<open>What a broadcast leaves alone\<close>

lemma forward_sel [simp]:
  "fs_reg (forward cfg io k p st) = fs_reg st" "fs_peers (forward cfg io k p st) = fs_peers st"
  "fs_closed (forward cfg io k p st) = fs_closed st" "fs_buckets (forward cfg io k p st) = fs_buckets st"
  "fs_health (forward cfg io k p st) = fs_health st" "fs_self_equiv (forward cfg io k p st) = fs_self_equiv st"
  "fs_store (forward cfg io k p st) = fs_store st" "fs_revs (forward cfg io k p st) = fs_revs st"
  "fs_known (forward cfg io k p st) = fs_known st" "fs_tc (forward cfg io k p st) = fs_tc st"
  "fs_events (forward cfg io k p st) = fs_events st"
  "fs_dedupe (forward cfg io k p st) = Dedupe_Mark (io_now io) (io_now io) (sha256 (fc_cr cfg) p) (fs_dedupe st)"
  by (simp_all add: forward_def Let_def split: sum.splits)

lemma post_sel [simp]:
  "fs_reg (post cfg io ms st) = fs_reg st" "fs_peers (post cfg io ms st) = fs_peers st"
  "fs_closed (post cfg io ms st) = fs_closed st" "fs_buckets (post cfg io ms st) = fs_buckets st"
  "fs_health (post cfg io ms st) = fs_health st" "fs_self_equiv (post cfg io ms st) = fs_self_equiv st"
  "fs_store (post cfg io ms st) = fs_store st" "fs_revs (post cfg io ms st) = fs_revs st"
  "fs_known (post cfg io ms st) = fs_known st" "fs_tc (post cfg io ms st) = fs_tc st"
  "fs_events (post cfg io ms st) = fs_events st" "fs_dedupe (post cfg io ms st) = fs_dedupe st"
  by (simp_all add: post_def)

lemma flag_offender_sel [simp]:
  "fs_reg (flag_offender i st) = (fs_reg st)(i := None)" "fs_peers (flag_offender i st) = fs_peers st"
  "fs_store (flag_offender i st) = fs_store st" "fs_revs (flag_offender i st) = fs_revs st"
  "fs_known (flag_offender i st) = fs_known st" "fs_tc (flag_offender i st) = fs_tc st"
  "fs_dedupe (flag_offender i st) = fs_dedupe st" "fs_closed (flag_offender i st) = fs_closed st"
  by (auto simp: flag_offender_def reg_depeer_def Reg_Depeer_def Let_def split: option.splits)

section \<open>Steps of the subsystem\<close>

text \<open>
  Everything that happens to a tracker's federation state at the instant \<open>t\<close>. The keys of frames and the frames are
  arbitrary; \<open>allow\<close> holds the pairs of id and key that the operator has configured.
\<close>

inductive fed_step :: "(bytes \<times> bytes) set \<Rightarrow> fed_cfg \<Rightarrow> time \<Rightarrow> fed_state \<Rightarrow> fed_state \<Rightarrow> bool" for allow cfg where
  fd_recv: "fed_step allow cfg (io_now io) st (snd (recv_frame cfg io pub peerID frame st))"
| fd_freeze: "fed_step allow cfg (io_now io) st (snd (OnFreeze cfg io i reason ra st))"
| fd_publish: "fed_step allow cfg (io_now io) st (snd (PublishHour cfg io hour src st))"
| fd_exchange: "fed_step allow cfg (io_now io) st (snd (PublishPeerExchange cfg io st))"
| fd_prune: "fed_step allow cfg (io_now io) st (prune_known_peers io age st)"
| fd_start: "fed_step allow cfg (io_now io) st (snd (Federation_StartTransfer cfg io inp st))"
| fd_resume: "fed_step allow cfg (io_now io) st (snd (Federation_resume cfg io inp event st))"
| fd_accept: "fed_step allow cfg t st (snd (acceptInbound cfg hio c addr st))"
| fd_dial: "(i, pub) \<in> allow \<Longrightarrow> fed_step allow cfg t st (snd (attachAndWait cfg i pub hio c addr st))"
| fd_add: "(i, pub) \<in> allow \<Longrightarrow> fed_step allow cfg t st (snd (AddPeer i pub addr region st))"
| fd_depeer: "fed_step allow cfg t st (snd (Federation_Depeer i st))"
| fd_watch: "fed_step allow cfg t st (snd (runHealthWatcherTick cfg ord t (below, st)))"
| fd_clear: "fed_step allow cfg t st (st\<lparr>fs_health := snd (ClearEquivocation i (fs_health st))\<rparr>)"
| fd_latency: "fed_step allow cfg t st (st\<lparr>fs_health := OnLatencySample i rtt (fs_health st)\<rparr>)"
| fd_close: "fed_step allow cfg t st (Federation_Close st)"

text \<open>A history: steps at instants that do not go back.\<close>

inductive fed_run :: "(bytes \<times> bytes) set \<Rightarrow> fed_cfg \<Rightarrow> time \<Rightarrow> fed_state \<Rightarrow> time \<Rightarrow> fed_state \<Rightarrow> bool" for allow cfg where
  run_wait: "t \<le> t' \<Longrightarrow> fed_run allow cfg t st t' st"
| run_step: "fed_run allow cfg t st u st' \<Longrightarrow> fed_step allow cfg u st' st'' \<Longrightarrow> u \<le> t' \<Longrightarrow> fed_run allow cfg t st t' st''"

section \<open>Archived revocations are authentic\<close>

definition reg_ok :: "(bytes \<times> bytes) set \<Rightarrow> peer_reg \<Rightarrow> bool" where
  "reg_ok allow r \<longleftrightarrow> (\<forall>i p. r i = Some p \<longrightarrow> pi_tracker_id p = i \<and> (i, pi_pub_key p) \<in> allow)"

text \<open>The row is what the issuer signed: there is a revocation message with its fields whose canonical bytes carry its signature.\<close>

definition row_signed :: "fed_cfg \<Rightarrow> bytes \<Rightarrow> PeerRevocation \<Rightarrow> bool" where
  "row_signed cfg pub v \<longleftrightarrow> (\<exists>r canonical. CanonicalRevocationPreSig (fc_cd cfg) (Some r) = Inr canonical \<and>
     ed_verify (fc_cr cfg) pub canonical (vr_tracker_sig v) \<and> rv_tracker_id r = vr_tracker_id v \<and>
     rv_identity_id r = vr_identity_id v \<and> reason_num (rv_reason r) = vr_reason v \<and> rv_revoked_at r = vr_revoked_at v)"

definition revs_ok :: "(bytes \<times> bytes) set \<Rightarrow> bytes \<Rightarrow> fed_cfg \<Rightarrow> revocations \<Rightarrow> bool" where
  "revs_ok allow mypub cfg m \<longleftrightarrow> (\<forall>t i v. m (t, i) = Some v \<longrightarrow> vr_tracker_id v = t \<and> vr_identity_id v = i \<and>
     (\<exists>pub. ((t, pub) \<in> allow \<or> t = fc_my_id cfg \<and> pub = mypub) \<and> row_signed cfg pub v))"

definition signs :: "crypto \<Rightarrow> bytes \<Rightarrow> bytes \<Rightarrow> bool" where
  "signs cr priv pub \<longleftrightarrow> (\<forall>m. ed_verify cr pub m (ed_sign cr priv m))"

definition fed_auth_inv :: "(bytes \<times> bytes) set \<Rightarrow> bytes \<Rightarrow> fed_cfg \<Rightarrow> fed_state \<Rightarrow> bool" where
  "fed_auth_inv allow mypub cfg st \<longleftrightarrow> reg_ok allow (fs_reg st) \<and> revs_ok allow mypub cfg (fs_revs st)"

lemma reg_ok_del: "reg_ok allow r \<Longrightarrow> reg_ok allow (r(i := None))"
  by (auto simp: reg_ok_def)

lemma Reg_Update_ok: "reg_ok allow r \<Longrightarrow> (pi_tracker_id p, pi_pub_key p) \<in> allow \<Longrightarrow> reg_ok allow (snd (Reg_Update p r))"
  by (auto simp: reg_ok_def Reg_Update_def)

lemma Reg_Add_ok: "reg_ok allow r \<Longrightarrow> (pi_tracker_id p, pi_pub_key p) \<in> allow \<Longrightarrow> reg_ok allow (snd (Reg_Add p r))"
  by (auto simp: reg_ok_def Reg_Add_def)

lemma PutPeerRevocation_ok:
  assumes "revs_ok allow mypub cfg m" "PutPeerRevocation flt (revocation_row now r) m = (e, m')"
    "CanonicalRevocationPreSig (fc_cd cfg) (Some r) = Inr canonical" "ed_verify (fc_cr cfg) pub canonical (rv_tracker_sig r)"
    "(rv_tracker_id r, pub) \<in> allow \<or> rv_tracker_id r = fc_my_id cfg \<and> pub = mypub"
  shows "revs_ok allow mypub cfg m'"
proof -
  have "row_signed cfg pub (revocation_row now r)" using assms(3,4) by (auto simp: row_signed_def revocation_row_def)
  then show ?thesis using assms(1,2,5)
    by (auto simp: revs_ok_def PutPeerRevocation_def revocation_row_def split: if_splits)
qed

lemma Revocation_OnIncoming_ok:
  assumes "fed_auth_inv allow mypub cfg st"
  shows "fed_auth_inv allow mypub cfg (snd (Revocation_OnIncoming cfg io env st))"
proof -
  have len: "ValidateRevocation (Some r) = None \<Longrightarrow> to_array 32 (rv_tracker_id r) = rv_tracker_id r" for r
    by (auto simp: ValidateRevocation_def fed_lens split: if_splits)
  have "revs_ok allow mypub cfg m" if "dec (c_revocation (fc_cd cfg)) (fe_payload env) = Some r" "ValidateRevocation (Some r) = None"
    "PeerPubKey st (to_array 32 (rv_tracker_id r)) = Some pub" "CanonicalRevocationPreSig (fc_cd cfg) (Some r) = Inr canonical"
    "ed_verify (fc_cr cfg) pub canonical (rv_tracker_sig r)"
    "PutPeerRevocation (io_rev_fault io) (revocation_row (io_now io) r) (fs_revs st) = (e, m)" for r pub canonical e m
    by (rule PutPeerRevocation_ok [OF _ that(6,4,5)])
      (use assms that(3) len [OF that(2)] in \<open>auto simp: fed_auth_inv_def PeerPubKey_def reg_ok_def\<close>)
  then show ?thesis using assms
    by (auto simp: Revocation_OnIncoming_def fed_auth_inv_def split: option.splits sum.splits prod.splits)
qed

lemma OnFreeze_ok:
  assumes "fed_auth_inv allow mypub cfg st" "signs (fc_cr cfg) (fc_priv cfg) mypub"
  shows "fed_auth_inv allow mypub cfg (snd (OnFreeze cfg io i reason ra st))"
proof -
  let ?r = "\<lparr>rv_tracker_id = fc_my_id cfg, rv_identity_id = i, rv_reason = mapReputationReasonToProto reason,
             rv_revoked_at = word_of_int (unix ra), rv_tracker_sig = []\<rparr>"
  have "revs_ok allow mypub cfg (snd (PutPeerRevocation (io_rev_fault io)
      (revocation_row (io_now io) (?r\<lparr>rv_tracker_sig := ed_sign (fc_cr cfg) (fc_priv cfg) canonical\<rparr>)) (fs_revs st)))"
    if "CanonicalRevocationPreSig (fc_cd cfg) (Some ?r) = Inr canonical" for canonical
    by (rule PutPeerRevocation_ok [OF _ prod.collapse [symmetric], where canonical = canonical and pub = mypub])
      (use assms that in \<open>auto simp: fed_auth_inv_def signs_def CanonicalRevocationPreSig_def\<close>)
  then show ?thesis using assms(1)
    by (auto simp: OnFreeze_def Let_def fed_auth_inv_def split: option.splits sum.splits)
qed

section \<open>The invariant, step by step\<close>

lemma attach_ok:
  assumes "fed_auth_inv allow mypub cfg st" "(i, pub) \<in> allow"
  shows "fed_auth_inv allow mypub cfg (snd (attachPeerLocked i pub c addr st))"
  using assms by (auto simp: attachPeerLocked_def fed_auth_inv_def intro: Reg_Update_ok)

lemma acceptInbound_ok:
  assumes "fed_auth_inv allow mypub cfg st"
  shows "fed_auth_inv allow mypub cfg (snd (acceptInbound cfg hio c addr st))"
proof (cases "RunHandshakeListener (fc_cr cfg) (fc_cd cfg) (fc_my_id cfg) (fc_priv cfg) (\<lambda>i. map_option pi_pub_key (fs_reg st i)) hio")
  case (Pair r fs)
  show ?thesis
  proof (cases r)
    case (Inr res)
    have "(hr_peer_tracker_id res, hr_peer_pub_key res) \<in> allow"
      using listener_result(1) [OF Pair [unfolded Inr]] assms by (auto simp: fed_auth_inv_def reg_ok_def) metis
    then show ?thesis using attach_ok [OF assms] by (simp add: acceptInbound_def Pair Inr)
  qed (simp add: acceptInbound_def Pair assms)
qed

lemma attachAndWait_ok:
  assumes "fed_auth_inv allow mypub cfg st" "(i, pub) \<in> allow"
  shows "fed_auth_inv allow mypub cfg (snd (attachAndWait cfg i pub hio c addr st))"
  using attach_ok [OF assms(1)] assms dialer_result(1,2) [of "fc_cr cfg" "fc_cd cfg" "fc_my_id cfg" "fc_priv cfg" i pub hio]
  by (auto simp: attachAndWait_def split: prod.splits sum.splits)

lemma handle_sel:
  shows "fs_reg (snd (handle cfg io p env st)) = fs_reg st \<or> (\<exists>i. fs_reg (snd (handle cfg io p env st)) = (fs_reg st)(i := None))"
    "fe_kind env \<noteq> KIND_REVOCATION \<Longrightarrow> fs_revs (snd (handle cfg io p env st)) = fs_revs st"
    "fe_kind env \<noteq> KIND_PEER_EXCHANGE \<Longrightarrow> fs_known (snd (handle cfg io p env st)) = fs_known st"
    "fs_peers (snd (handle cfg io p env st)) = fs_peers st"
  by (cases "fe_kind env"; auto simp: handle_def Root_Apply_def OnLocalConflict_def OnIncomingEvidence_def Let_def
      Revocation_OnIncoming_def Exchange_OnIncoming_def split: option.splits prod.splits sum.splits)+

lemma handle_ok:
  assumes "fed_auth_inv allow mypub cfg st"
  shows "fed_auth_inv allow mypub cfg (snd (handle cfg io p env st))"
proof (cases "fe_kind env = KIND_REVOCATION")
  case True
  then show ?thesis using Revocation_OnIncoming_ok [OF assms] by (simp add: handle_def)
next
  case False
  then show ?thesis using assms handle_sel(1) [of cfg io p env st] handle_sel(2) [OF False, of cfg io p st]
    by (auto simp: fed_auth_inv_def reg_ok_del)
qed

text \<open>What \<open>recv_frame\<close> does outside \<open>handle\<close> touches only the buckets and the filter.\<close>

lemma recv_frame_cases:
  obtains "snd (recv_frame cfg io pub p frame st) = st"
  | bs d where "snd (recv_frame cfg io pub p frame st) = st\<lparr>fs_buckets := bs, fs_dedupe := d\<rparr>"
  | bs d env where "UnmarshalFrame (fc_cd cfg) frame = Inr env" "VerifyFedEnvelope (fc_cr cfg) pub (Some env) = None"
      "snd (recv_frame cfg io pub p frame st) = snd (handle cfg io p env (st\<lparr>fs_buckets := bs, fs_dedupe := d\<rparr>))"
proof (cases "UnmarshalFrame (fc_cd cfg) frame")
  case (Inr env)
  show ?thesis
  proof (cases "VerifyFedEnvelope (fc_cr cfg) pub (Some env)")
    case None
    obtain ok bs where l: "Limiter_Allow (fc_rate cfg) (io_now io) (io_now io) p (fe_kind env) (fs_buckets st) = (ok, bs)" by fastforce
    obtain seen d where s: "Dedupe_Seen (io_now io) (io_now io) (MessageID (fc_cr cfg) env) (fs_dedupe st) = (seen, d)" by fastforce
    show ?thesis using None that(2) [where bs = bs and d = "fs_dedupe st"] that(2) [where bs = bs and d = d]
        that(3) [OF Inr None, where bs = bs and d = "Dedupe_Mark (io_now io) (io_now io) (MessageID (fc_cr cfg) env) d"]
      by (cases ok; cases seen) (simp_all add: recv_frame_def Inr dispatch_def l s Let_def)
  qed (use that(1) in \<open>simp add: recv_frame_def Inr dispatch_def\<close>)
qed (use that(1) in \<open>simp add: recv_frame_def\<close>)

lemma recv_frame_ok:
  assumes "fed_auth_inv allow mypub cfg st"
  shows "fed_auth_inv allow mypub cfg (snd (recv_frame cfg io pub p frame st))"
proof (rule recv_frame_cases [of cfg io pub p frame st])
  fix bs d env
  assume e: "snd (recv_frame cfg io pub p frame st) = snd (handle cfg io p env (st\<lparr>fs_buckets := bs, fs_dedupe := d\<rparr>))"
  show ?thesis unfolding e by (rule handle_ok) (use assms in \<open>simp add: fed_auth_inv_def\<close>)
qed (use assms in \<open>simp_all add: fed_auth_inv_def\<close>)

lemma watch_peer_sel:
  "fs_revs (snd (watch_peer cfg now p w)) = fs_revs (snd w) \<and> fs_known (snd (watch_peer cfg now p w)) = fs_known (snd w) \<and>
   fs_dedupe (snd (watch_peer cfg now p w)) = fs_dedupe (snd w) \<and>
   (fs_reg (snd (watch_peer cfg now p w)) = fs_reg (snd w) \<or> (\<exists>i. fs_reg (snd (watch_peer cfg now p w)) = (fs_reg (snd w))(i := None)))"
  by (cases w) (auto simp: watch_peer_def Let_def Federation_Depeer_def Reg_Depeer_def split: option.splits prod.splits)

lemma watch_fold:
  "fs_revs (snd (fold (watch_peer cfg now) ps w)) = fs_revs (snd w) \<and> fs_known (snd (fold (watch_peer cfg now) ps w)) = fs_known (snd w) \<and>
   fs_dedupe (snd (fold (watch_peer cfg now) ps w)) = fs_dedupe (snd w) \<and>
   (reg_ok allow (fs_reg (snd w)) \<longrightarrow> reg_ok allow (fs_reg (snd (fold (watch_peer cfg now) ps w))))"
proof (induction ps arbitrary: w)
  case (Cons p ps)
  have "reg_ok allow (fs_reg (snd w)) \<Longrightarrow> reg_ok allow (fs_reg (snd (watch_peer cfg now p w)))"
    using watch_peer_sel [of cfg now p w] reg_ok_del by auto
  then show ?case using Cons [of "watch_peer cfg now p w"] watch_peer_sel [of cfg now p w] by simp
qed simp

lemma step_others:
  shows "fs_revs (snd (PublishHour cfg io hour src st)) = fs_revs st" "fs_reg (snd (PublishHour cfg io hour src st)) = fs_reg st"
    "fs_revs (snd (PublishPeerExchange cfg io st)) = fs_revs st" "fs_reg (snd (PublishPeerExchange cfg io st)) = fs_reg st"
    "fs_revs (snd (Federation_StartTransfer cfg io inp st)) = fs_revs st" "fs_reg (snd (Federation_StartTransfer cfg io inp st)) = fs_reg st"
    "fs_revs (snd (Federation_resume cfg io inp event st)) = fs_revs st" "fs_reg (snd (Federation_resume cfg io inp event st)) = fs_reg st"
  by (auto simp: PublishHour_def PublishPeerExchange_def EmitNow_def Federation_StartTransfer_def Federation_resume_def Let_def
      split: option.splits prod.splits sum.splits)

lemma fed_step_auth:
  assumes "fed_step allow cfg t st st'" "fed_auth_inv allow mypub cfg st" "signs (fc_cr cfg) (fc_priv cfg) mypub"
  shows "fed_auth_inv allow mypub cfg st'"
  using assms(1)
proof cases
  case fd_recv
  then show ?thesis using recv_frame_ok [OF assms(2)] by simp
next
  case fd_freeze
  then show ?thesis using OnFreeze_ok [OF assms(2,3)] by simp
next
  case fd_accept
  then show ?thesis using acceptInbound_ok [OF assms(2)] by simp
next
  case fd_dial
  then show ?thesis using attachAndWait_ok [OF assms(2)] by simp
next
  case (fd_add i pub addr region)
  then show ?thesis using assms(2) Reg_Add_ok [of allow "fs_reg st" "\<lparr>pi_tracker_id = i, pi_pub_key = pub, pi_addr = addr, pi_region = region,
       pi_state = PeerStatePending, pi_conn = None, pi_since = zero_time\<rparr>"] by (auto simp: AddPeer_def fed_auth_inv_def split: prod.splits)
next
  case (fd_watch ord below)
  then show ?thesis using assms(2) watch_fold [of cfg t "Reg_All ord (fs_reg st)" "(below, st)" allow]
    by (simp add: runHealthWatcherTick_def fed_auth_inv_def)
qed (use assms(2) in \<open>simp_all add: fed_auth_inv_def step_others prune_known_peers_def Federation_Close_def
      Federation_Depeer_def Reg_Depeer_def reg_ok_del Let_def split: option.splits prod.splits\<close>)

lemma fed_run_auth:
  "fed_run allow cfg t st t' st' \<Longrightarrow> signs (fc_cr cfg) (fc_priv cfg) mypub \<Longrightarrow> fed_auth_inv allow mypub cfg st \<Longrightarrow> fed_auth_inv allow mypub cfg st'"
  by (induction rule: fed_run.induct) (auto intro: fed_step_auth)

text \<open>The life of a tracker: steps of the running subsystem and restarts with the same configuration on the same databases.\<close>

definition in_allow :: "(bytes \<times> bytes) set \<Rightarrow> FedConfig \<Rightarrow> bool" where
  "in_allow allow cfg0 \<longleftrightarrow> (\<forall>p\<in>set (fg_peers cfg0). (al_tracker_id p, al_pub_key p) \<in> allow)"

inductive fed_life :: "(bytes \<times> bytes) set \<Rightarrow> crypto \<Rightarrow> fed_codec \<Rightarrow> FedConfig \<Rightarrow> Deps \<Rightarrow> fed_cfg \<Rightarrow> fed_state \<Rightarrow> bool"
  for allow cr cd cfg0 dep where
  life_open: "Federation_Open cr cd cfg0 dep now flt s Map.empty Map.empty = Inr (cfg, st) \<Longrightarrow> fed_life allow cr cd cfg0 dep cfg st"
| life_step: "fed_life allow cr cd cfg0 dep cfg st \<Longrightarrow> fed_step allow cfg t st st' \<Longrightarrow> fed_life allow cr cd cfg0 dep cfg st'"
| life_restart: "fed_life allow cr cd cfg0 dep cfg st \<Longrightarrow>
    Federation_Open cr cd cfg0 dep now flt (fs_store st) (fs_revs st) (fs_known st) = Inr (cfg', st') \<Longrightarrow> fed_life allow cr cd cfg0 dep cfg' st'"

lemma Federation_Open_Inr:
  assumes "Federation_Open cr cd cfg0 dep now flt s revs known = Inr (cfg, st)"
  shows "cfg = open_cfg cr cd (withDefaults cfg0) dep" "fs_reg st = seed_registry (fg_peers cfg0)" "fs_revs st = revs"
    "fs_known st = (if dp_known_peers dep then seed_known now flt (fg_peers cfg0) known else known)"
    "fs_dedupe st = NewDedupe (fg_dedupe_ttl (withDefaults cfg0)) (fg_dedupe_cap (withDefaults cfg0))"
  using assms by (auto simp: Federation_Open_def Let_def withDefaults_def split: if_splits)

lemma seed_registry_ok: "in_allow allow cfg0 \<Longrightarrow> reg_ok allow (seed_registry (fg_peers cfg0))"
proof -
  have "reg_ok allow (fold (\<lambda>p r. snd (Reg_Add (pending_peer p) r)) ps r)"
    if "\<forall>p\<in>set ps. (al_tracker_id p, al_pub_key p) \<in> allow" "reg_ok allow r" for ps r
    using that
  proof (induction ps arbitrary: r)
    case (Cons p ps)
    have "reg_ok allow (snd (Reg_Add (pending_peer p) r))" using Cons.prems by (intro Reg_Add_ok) (simp_all add: pending_peer_def)
    then show ?case using Cons by simp
  qed simp
  moreover have "reg_ok allow Map.empty" by (simp add: reg_ok_def)
  ultimately show "in_allow allow cfg0 \<Longrightarrow> ?thesis" unfolding seed_registry_def in_allow_def by blast
qed

lemma fed_life_auth:
  assumes "fed_life allow cr cd cfg0 dep cfg st" "in_allow allow cfg0" "signs cr (fg_my_priv cfg0) mypub"
  shows "fed_auth_inv allow mypub cfg st \<and> cfg = open_cfg cr cd (withDefaults cfg0) dep"
  using assms(1)
proof (induction rule: fed_life.induct)
  case (life_open now flt s cfg st)
  then show ?case using Federation_Open_Inr [OF life_open] seed_registry_ok [OF assms(2)]
    by (simp add: fed_auth_inv_def revs_ok_def)
next
  case (life_step cfg st t st')
  then have "signs (fc_cr cfg) (fc_priv cfg) mypub" using assms(3) by (simp add: open_cfg_def withDefaults_def Let_def)
  then show ?case using life_step fed_step_auth by blast
next
  case (life_restart cfg st now flt cfg' st')
  then show ?case using Federation_Open_Inr [OF life_restart.hyps(2)] seed_registry_ok [OF assms(2)]
    by (auto simp: fed_auth_inv_def)
qed

section \<open>Rows of the operator are pinned\<close>

definition pinned :: "AllowlistedPeer \<Rightarrow> known_peers \<Rightarrow> bool" where
  "pinned p m \<longleftrightarrow> (\<exists>row. m (al_tracker_id p) = Some row \<and> kn_addr row = al_addr p \<and> kn_region_hint row = al_region p \<and>
     kn_source row = ''allowlist'')"

lemma upsert_gossip_pinned:
  "pinned p m \<Longrightarrow> kn_source r = ''gossip'' \<Longrightarrow> pinned p (snd (UpsertKnownPeer flt r m))"
  by (auto simp: pinned_def UpsertKnownPeer_def Let_def split: option.splits)

lemma merge_known_pinned: "pinned p m \<Longrightarrow> pinned p (merge_known myID flt ps m)"
proof -
  have "kn_source (gossip_row q) = ''gossip''" for q by (simp add: gossip_row_def)
  then show "pinned p m \<Longrightarrow> ?thesis" unfolding merge_known_def
    by (induction ps arbitrary: m) (auto intro: upsert_gossip_pinned split: option.splits)
qed

lemma update_health_pinned: "pinned p m \<Longrightarrow> pinned p (snd (UpdateKnownPeerHealth flt t score m))"
  by (auto simp: pinned_def UpdateKnownPeerHealth_def split: option.splits)

lemma emit_rows_pinned: "emit_rows cfg io h rs m = (ps, m') \<Longrightarrow> pinned p m \<Longrightarrow> pinned p m'"
  by (induction rs arbitrary: m ps) (auto simp: Let_def split: prod.splits dest: update_health_pinned)

lemma prune_pinned: "pinned p m \<Longrightarrow> pinned p (snd (DeleteStaleKnownPeers flt cutoff m))"
  by (auto simp: pinned_def DeleteStaleKnownPeers_def)

lemma seed_row_pinned:
  fixes now
  defines "row p \<equiv> \<lparr>kn_tracker_id = al_tracker_id p, kn_addr = al_addr p, kn_last_seen = unix now, kn_region_hint = al_region p,
     kn_health_score = Fin (1/2), kn_source = ''allowlist''\<rparr>"
  shows "pinned p m \<Longrightarrow> al_tracker_id q \<noteq> al_tracker_id p \<or> q = p \<Longrightarrow> pinned p (snd (UpsertKnownPeer flt (row q) m))"
    "m (al_tracker_id p) = None \<Longrightarrow> al_tracker_id p \<noteq> [] \<Longrightarrow> al_addr p \<noteq> [] \<Longrightarrow> pinned p (snd (UpsertKnownPeer False (row p) m))"
    "m (al_tracker_id p) = None \<Longrightarrow> al_tracker_id q \<noteq> al_tracker_id p \<Longrightarrow> snd (UpsertKnownPeer flt (row q) m) (al_tracker_id p) = None"
  by (auto simp: pinned_def UpsertKnownPeer_def row_def Let_def split: option.splits)

lemma seed_known_pinned:
  assumes "distinct (map al_tracker_id ps)" "p \<in> set ps"
  shows "pinned p m \<Longrightarrow> pinned p (seed_known now flt ps m)"
    "m (al_tracker_id p) = None \<Longrightarrow> al_tracker_id p \<noteq> [] \<Longrightarrow> al_addr p \<noteq> [] \<Longrightarrow> pinned p (seed_known now False ps m)"
proof -
  have keep: "pinned p (seed_known now flt qs m)" if "pinned p m" "\<forall>q\<in>set qs. al_tracker_id q \<noteq> al_tracker_id p \<or> q = p" for qs m flt
    using that by (induction qs arbitrary: m) (auto simp: seed_known_def intro!: seed_row_pinned(1))
  have same: "\<forall>q\<in>set ps. al_tracker_id q \<noteq> al_tracker_id p \<or> q = p"
    using assms by (auto simp: distinct_map inj_on_def)
  show "pinned p m \<Longrightarrow> pinned p (seed_known now flt ps m)" using keep same by blast
  show "pinned p (seed_known now False ps m)" if "m (al_tracker_id p) = None" "al_tracker_id p \<noteq> []" "al_addr p \<noteq> []"
    using that assms same
  proof (induction ps arbitrary: m)
    case (Cons q qs)
    show ?case
    proof (cases "q = p")
      case True
      then show ?thesis using keep [OF seed_row_pinned(2) [where now = now and m = m and p = p, OF Cons.prems(1-3)], of qs False] Cons.prems(6)
        by (simp add: seed_known_def)
    next
      case False
      let ?row = "\<lparr>kn_tracker_id = al_tracker_id q, kn_addr = al_addr q, kn_last_seen = unix now, kn_region_hint = al_region q,
        kn_health_score = Fin (1/2), kn_source = ''allowlist''\<rparr>"
      have "al_tracker_id q \<noteq> al_tracker_id p" using False Cons.prems(6) by auto
      then have "snd (UpsertKnownPeer False ?row m) (al_tracker_id p) = None"
        by (rule seed_row_pinned(3) [where m = m and p = p and now = now and flt = False and q = q, OF Cons.prems(1)])
      then show ?thesis using Cons.IH [where m = "snd (UpsertKnownPeer False ?row m)"] Cons.prems False by (simp add: seed_known_def)
    qed
  qed simp
qed

lemma fed_step_pinned:
  assumes "fed_step allow cfg t st st'" "pinned p (fs_known st)"
  shows "pinned p (fs_known st')"
  using assms(1)
proof cases
  case (fd_recv io pub peerID frame)
  have "pinned p (fs_known (snd (handle cfg io q env s)))" if "fs_known s = fs_known st" for q env s
  proof (cases "fe_kind env = KIND_PEER_EXCHANGE")
    case True
    then show ?thesis using assms(2) that by (auto simp: handle_def Exchange_OnIncoming_def split: option.splits intro: merge_known_pinned)
  qed (use handle_sel(3) assms(2) that in simp)
  then show ?thesis unfolding fd_recv(2) using assms(2) by (cases rule: recv_frame_cases [of cfg io pub peerID frame st]) simp_all
next
  case fd_exchange
  then show ?thesis using assms(2)
    by (auto simp: PublishPeerExchange_def EmitNow_def split: sum.splits prod.splits option.splits dest: emit_rows_pinned)
next
  case (fd_watch ord below)
  then show ?thesis using assms(2) watch_fold [of cfg t "Reg_All ord (fs_reg st)" "(below, st)"]
    by (simp add: runHealthWatcherTick_def)
qed (use assms(2) prune_pinned in \<open>auto simp: prune_known_peers_def Federation_Close_def OnFreeze_def PublishHour_def
      Federation_Depeer_def Federation_StartTransfer_def Federation_resume_def acceptInbound_def attachAndWait_def attachPeerLocked_def
      AddPeer_def Let_def split: option.splits prod.splits sum.splits\<close>)

section \<open>A message is handled once\<close>

text \<open>One call marks at most two ids, its own message and the one it broadcasts.\<close>

definition room :: "fed_state \<Rightarrow> bool" where
  "room st \<longleftrightarrow> int (length (dd_order (fs_dedupe st))) + 2 \<le> dd_cap (fs_dedupe st)"

inductive calm_run :: "(bytes \<times> bytes) set \<Rightarrow> fed_cfg \<Rightarrow> time \<Rightarrow> fed_state \<Rightarrow> time \<Rightarrow> fed_state \<Rightarrow> bool" for allow cfg where
  calm_wait: "t \<le> t' \<Longrightarrow> calm_run allow cfg t st t' st"
| calm_step: "calm_run allow cfg t st u st' \<Longrightarrow> room st' \<Longrightarrow> fed_step allow cfg u st' st'' \<Longrightarrow> u \<le> t' \<Longrightarrow> calm_run allow cfg t st t' st''"

lemma touches_one:
  assumes "int (length (dd_order d)) < dd_cap d"
  shows "dedupe.touches t d t (Dedupe_Mark t t i d)"
  using dedupe.touches_step [OF dedupe.touches_refl [of t t d] dedupe.touch_mark [of d t i]] assms by simp

lemma touches_seen_mark:
  fixes t :: time and i :: bytes
  assumes "dedupe_ok d" "int (length (dd_order d)) + 2 \<le> dd_cap d"
  defines "s \<equiv> snd (Dedupe_Seen t t i d)"
  shows "dedupe.touches t d t s" "dedupe.touches t d t (Dedupe_Mark t t i s)" "dedupe.touches t d t (Dedupe_Mark t t j (Dedupe_Mark t t i s))"
proof -
  obtain b where sd: "Dedupe_Seen t t i d = (b, s)" unfolding s_def by (metis prod.collapse)
  note sp = Dedupe_Seen_spec [OF assms(1) sd]
  note mk = Dedupe_Mark_spec [OF sp(1) order_refl, where i = i]
  show 1: "dedupe.touches t d t s"
    unfolding s_def using dedupe.touches_step [OF dedupe.touches_refl [of t t d] dedupe.touch_seen [of t d i]] by simp
  show 2: "dedupe.touches t d t (Dedupe_Mark t t i s)"
    using dedupe.touches_step [OF 1 dedupe.touch_mark [of s t i]] sp(5,6) assms(2) by simp
  have "int (length (dd_order (Dedupe_Mark t t i s))) < dd_cap (Dedupe_Mark t t i s)"
    using sp(5,6) mk(6,7) [of t] assms(2) by simp
  then show "dedupe.touches t d t (Dedupe_Mark t t j (Dedupe_Mark t t i s))"
    using dedupe.touches_step [OF 2 dedupe.touch_mark [of _ t j] order_refl] by simp
qed

lemma handle_dedupe:
  "fs_dedupe (snd (handle cfg io p env st)) = fs_dedupe st \<or>
   (\<exists>i. fs_dedupe (snd (handle cfg io p env st)) = Dedupe_Mark (io_now io) (io_now io) i (fs_dedupe st))"
  by (cases "fe_kind env"; auto simp: handle_def Root_Apply_def OnLocalConflict_def OnIncomingEvidence_def Let_def
      Revocation_OnIncoming_def Exchange_OnIncoming_def split: option.splits prod.splits sum.splits)

lemma fed_step_touches:
  assumes "fed_step allow cfg t st st'" "dedupe_ok (fs_dedupe st)" "room st"
  shows "dedupe.touches t (fs_dedupe st) t (fs_dedupe st')"
proof -
  have r: "int (length (dd_order (fs_dedupe st))) + 2 \<le> dd_cap (fs_dedupe st)" using assms(3) by (simp add: room_def)
  then have lt: "int (length (dd_order (fs_dedupe st))) < dd_cap (fs_dedupe st)" by simp
  note refl = dedupe.touches_refl [OF order_refl, of t "fs_dedupe st"]
  note one = touches_one [OF lt, of t]
  show ?thesis using assms(1)
  proof cases
    case (fd_recv io pub p frame)
    show ?thesis
    proof (cases "UnmarshalFrame (fc_cd cfg) frame")
      case (Inr env)
      let ?i = "MessageID (fc_cr cfg) env" and ?s = "snd (Dedupe_Seen t t (MessageID (fc_cr cfg) env) (fs_dedupe st))"
      note tm = touches_seen_mark [OF assms(2) r, where t = t and i = ?i]
      have h: "dedupe.touches t (fs_dedupe st) t (fs_dedupe (snd (handle cfg io p env (st\<lparr>fs_buckets := bs, fs_dedupe := Dedupe_Mark t t ?i ?s\<rparr>))))" for bs
        using handle_dedupe [of cfg io p env "st\<lparr>fs_buckets := bs, fs_dedupe := Dedupe_Mark t t ?i ?s\<rparr>"] tm(2,3) fd_recv(1) by auto
      show ?thesis using refl tm(1) h unfolding fd_recv
        by (cases "Dedupe_Seen t t ?i (fs_dedupe st)") (auto simp: recv_frame_def Inr dispatch_def Let_def fd_recv(1) split: prod.splits)
    qed (use refl in \<open>simp add: recv_frame_def fd_recv\<close>)
  next
    case (fd_watch ord below)
    then show ?thesis using refl watch_fold [of cfg t "Reg_All ord (fs_reg st)" "(below, st)"]
      by (simp add: runHealthWatcherTick_def)
  qed (use refl one in \<open>auto simp: prune_known_peers_def Federation_Close_def OnFreeze_def PublishHour_def PublishPeerExchange_def EmitNow_def
        Federation_Depeer_def Federation_StartTransfer_def Federation_resume_def acceptInbound_def attachAndWait_def attachPeerLocked_def
        AddPeer_def Let_def split: option.splits prod.splits sum.splits\<close>)
qed

lemma touches_trans:
  assumes "dedupe.touches u d' t d''" "dedupe.touches s d u d'"
  shows "dedupe.touches s d t d''"
  using assms
proof (induction rule: dedupe.touches.induct)
  case (touches_refl t t' x)
  from touches_refl.prems touches_refl.hyps show ?case
    by (induction rule: dedupe.touches.induct) (auto intro: dedupe.touches.intros)
qed (auto intro: dedupe.touches_step)

lemma calm_run_touches:
  assumes "calm_run allow cfg t st t' st'" "dedupe_ok (fs_dedupe st)"
  shows "dedupe.touches t (fs_dedupe st) t' (fs_dedupe st')"
  using assms
proof (induction rule: calm_run.induct)
  case (calm_step t st u st' st'' t')
  then have o: "dedupe_ok (fs_dedupe st')" using dedupe.touches_keep by blast
  have "dedupe.touches u (fs_dedupe st') t' (fs_dedupe st'')"
    using touches_trans [OF dedupe.touches_refl [OF calm_step.hyps(4)] fed_step_touches [OF calm_step.hyps(3) o calm_step.hyps(2)]] .
  then show ?case using touches_trans calm_step by blast
qed (rule dedupe.touches_refl)

text \<open>A message that passes all checks of the dispatcher.\<close>

definition admitted :: "fed_cfg \<Rightarrow> fed_io \<Rightarrow> bytes \<Rightarrow> bytes \<Rightarrow> FedEnvelope \<Rightarrow> fed_state \<Rightarrow> bool" where
  "admitted cfg io pub p env st \<longleftrightarrow> VerifyFedEnvelope (fc_cr cfg) pub (Some env) = None \<and>
     fst (Limiter_Allow (fc_rate cfg) (io_now io) (io_now io) p (fe_kind env) (fs_buckets st)) \<and>
     \<not> fst (Dedupe_Seen (io_now io) (io_now io) (MessageID (fc_cr cfg) env) (fs_dedupe st))"

lemma not_admitted:
  "\<not> admitted cfg io pub p env st \<Longrightarrow> \<exists>bs d. snd (dispatch cfg io pub p env st) = st\<lparr>fs_buckets := bs, fs_dedupe := d\<rparr>"
proof -
  have e: "st = st\<lparr>fs_buckets := fs_buckets st, fs_dedupe := fs_dedupe st\<rparr>"
    "st\<lparr>fs_buckets := bs\<rparr> = st\<lparr>fs_buckets := bs, fs_dedupe := fs_dedupe st\<rparr>" for bs by simp_all
  assume "\<not> admitted cfg io pub p env st"
  then show ?thesis
    by (auto simp: admitted_def dispatch_def Let_def split: prod.splits) (metis e)+
qed

lemma admitted_marks:
  assumes "admitted cfg io pub p env st"
  shows "\<exists>bs. dispatch cfg io pub p env st = handle cfg io p env (st\<lparr>fs_buckets := bs,
    fs_dedupe := Dedupe_Mark (io_now io) (io_now io) (MessageID (fc_cr cfg) env)
      (snd (Dedupe_Seen (io_now io) (io_now io) (MessageID (fc_cr cfg) env) (fs_dedupe st)))\<rparr>)"
  using assms by (auto simp: admitted_def dispatch_def Let_def split: prod.splits)

lemma admitted_once:
  assumes ok: "dedupe_ok (fs_dedupe st)" "room st" and a: "admitted cfg io pub p env st"
    and run: "calm_run allow cfg (io_now io) (snd (dispatch cfg io pub p env st)) t st'"
    and t: "t < io_now io + dd_ttl (fs_dedupe st)" "io_now io' = t" and m: "MessageID (fc_cr cfg) env' = MessageID (fc_cr cfg) env"
  shows "\<not> admitted cfg io' pub' p' env' st'"
proof -
  let ?i = "MessageID (fc_cr cfg) env" and ?n = "io_now io"
  let ?s = "snd (Dedupe_Seen ?n ?n ?i (fs_dedupe st))"
  obtain b where sd: "Dedupe_Seen ?n ?n ?i (fs_dedupe st) = (b, ?s)" by (metis prod.collapse)
  note sp = Dedupe_Seen_spec [OF ok(1) sd]
  note mk = Dedupe_Mark_spec [OF sp(1) order_refl, where i = ?i]
  obtain bs where d: "dispatch cfg io pub p env st = handle cfg io p env (st\<lparr>fs_buckets := bs, fs_dedupe := Dedupe_Mark ?n ?n ?i ?s\<rparr>)"
    using admitted_marks [OF a] by blast
  have lt: "int (length (dd_order (Dedupe_Mark ?n ?n ?i ?s))) < dd_cap (Dedupe_Mark ?n ?n ?i ?s)"
    using ok(2) sp(5,6) mk(6,7) [of ?n] by (simp add: room_def)
  have h: "dedupe.touches ?n (Dedupe_Mark ?n ?n ?i ?s) ?n (fs_dedupe (snd (dispatch cfg io pub p env st)))"
    unfolding d using handle_dedupe [of cfg io p env "st\<lparr>fs_buckets := bs, fs_dedupe := Dedupe_Mark ?n ?n ?i ?s\<rparr>"]
      touches_one [OF lt] dedupe.touches_refl [OF order_refl] by auto
  then have "dedupe_ok (fs_dedupe (snd (dispatch cfg io pub p env st)))" using dedupe.touches_keep mk(1) by blast
  from touches_trans [OF calm_run_touches [OF run this] h] have "fst (Dedupe_Seen t t ?i (fs_dedupe st'))"
    using dedupe.marked_is_seen [OF sp(1)] t(1) sp(4) by simp
  then show ?thesis using t(2) m by (simp add: admitted_def)
qed

section \<open>Relayed roots\<close>

lemma forward_frames:
  assumes "(q, frame) \<in> set (drop (length (fs_out st)) (fs_out (forward cfg io k payload st)))"
  shows "\<exists>env. MarshalFrame (fc_cd cfg) (Some env) = Inr frame \<and> fe_sender_id env = fc_my_id cfg \<and> fe_kind env = k \<and> fe_payload env = payload"
  using assms
  by (auto simp: forward_def Let_def Gossip_Forward_def SignFedEnvelope_Inr split: sum.splits)

lemma Root_Apply_None:
  assumes "Root_Apply cfg io env st = (None, st')"
  shows "\<exists>m s1. dec (c_root (fc_cd cfg)) (fe_payload env) = Some m \<and> ra_tracker_id m = fe_sender_id env \<and>
    st' = forward cfg io KIND_ROOT_ATTESTATION (fe_payload env) (st\<lparr>fs_store := s1\<rparr>)"
  using assms by (auto simp: Root_Apply_def split: option.splits if_splits prod.splits)

text \<open>A root attestation whose issuer is not the sender of the envelope is not archived.\<close>

lemma foreign_root_refused:
  assumes "dec (c_root (fc_cd cfg)) (fe_payload env) = Some m" "ra_tracker_id m \<noteq> fe_sender_id env" "fe_kind env = KIND_ROOT_ATTESTATION"
  shows "fs_store (snd (dispatch cfg io pub p env st)) = fs_store st"
proof -
  have h: "fs_store (snd (handle cfg io p env s)) = fs_store s" for s
    using assms by (simp add: handle_def Root_Apply_def split: option.splits)
  show ?thesis using h by (simp add: dispatch_def Let_def split: prod.splits)
qed

end
