(* ===== verification/TB_Transfer_Spec.thy ===== *)
theory TB_Transfer_Spec
  imports TB_Transfer TB_Concrete
begin

text \<open>
  Credit transfers between trackers, as a system of nodes: every interleaving of the sections of the handlers
  on honest trackers, with dishonest trackers that send anything, lost and repeated messages, restarts, and other
  writers of the ledgers. The invariant ties every credit to the debit that backs it. The whole handlers are
  shown to be runs of the system.
\<close>

section \<open>Transfer rows of a chain\<close>

definition out_rows :: "store \<Rightarrow> (bytes \<times> u64) list" where
  "out_rows s = map (\<lambda>r. (er_ref r, er_cost_credits r)) (filter (\<lambda>r. er_kind r = ENTRY_KIND_TRANSFER_OUT) (st_entries s))"

definition in_rows :: "store \<Rightarrow> (bytes \<times> u64) list" where
  "in_rows s = map (\<lambda>r. (er_ref r, er_cost_credits r)) (filter (\<lambda>r. er_kind r = ENTRY_KIND_TRANSFER_IN) (st_entries s))"

lemma rows_refs:
  "map fst (out_rows s) = refs_of ENTRY_KIND_TRANSFER_OUT (st_entries s)"
  "map fst (in_rows s) = refs_of ENTRY_KIND_TRANSFER_IN (st_entries s)"
  by (simp_all add: out_rows_def in_rows_def refs_of_def comp_def)

lemma chain_inv_rows:
  "chain_inv env s \<Longrightarrow> distinct (map fst (out_rows s))" "chain_inv env s \<Longrightarrow> distinct (map fst (in_rows s))"
  by (simp_all add: rows_refs chain_inv_def)

lemma append_out_rows:
  assumes "AppendTransferOut env flt r s = (Inr e, s')" "chain_inv env s"
  shows "out_rows s' = out_rows s @ [(tor_transfer_ref r, tor_amount r)]" "in_rows s' = in_rows s" "chain_inv env s'"
    "\<exists>h. Hash (le_crypto env) (en_body e) = Inr h"
proof -
  from AppendTransferOut_cases [OF assms(1)] obtain inp body where
    a: "appended env flt inp s body e s'" and u: "tout_input r inp body" by auto
  then show "out_rows s' = out_rows s @ [(tor_transfer_ref r, tor_amount r)]" "in_rows s' = in_rows s"
    by (auto simp: appended_def tout_input_def out_rows_def in_rows_def)
  show "chain_inv env s'" using ledger_step_inv [OF step_transfer_out [OF assms(1)] assms(2)] .
  show "\<exists>h. Hash (le_crypto env) (en_body e) = Inr h" using a by (auto simp: appended_def Hash_Inr)
qed

lemma append_in_rows:
  assumes "AppendTransferIn env flt r s = (Inr e, s')" "chain_inv env s"
  shows "in_rows s' = in_rows s @ [(tir_transfer_ref r, tir_amount r)]" "out_rows s' = out_rows s" "chain_inv env s'"
proof -
  from AppendTransferIn_cases [OF assms(1)] obtain inp body where
    a: "appended env flt inp s body e s'" and u: "tin_input r inp body" by auto
  then show "in_rows s' = in_rows s @ [(tir_transfer_ref r, tir_amount r)]" "out_rows s' = out_rows s"
    by (auto simp: appended_def tin_input_def out_rows_def in_rows_def)
  show "chain_inv env s'" using ledger_step_inv [OF step_transfer_in [OF assms(1)] assms(2)] .
qed

text \<open>What the rest of a tracker does to the store: settlements, grants, rollups, roots of peers.\<close>

inductive writer_step :: "ledger_env \<Rightarrow> store \<Rightarrow> store \<Rightarrow> bool" for env where
  writer_usage: "AppendUsage env flt r s = (res, s') \<Longrightarrow> writer_step env s s'"
| writer_grant: "IssueStarterGrant env flt now i amount s = (res, s') \<Longrightarrow> writer_step env s s'"
| writer_rollup: "RunRollupOnce env flt hour s = (err, s') \<Longrightarrow> writer_step env s s'"
| writer_peer_root: "PutPeerRoot flt p s = (res, s') \<Longrightarrow> writer_step env s s'"

lemma PutPeerRoot_entries:
  "PutPeerRoot flt p s = (res, s') \<Longrightarrow> st_entries s' = st_entries s \<and> st_balances s' = st_balances s"
  by (auto simp: PutPeerRoot_def split: if_splits option.splits)

lemma writer_step_rows:
  assumes "writer_step env s s'" "chain_inv env s"
  shows "out_rows s' = out_rows s" "in_rows s' = in_rows s" "chain_inv env s'"
proof -
  have seqs: "seqs_ok (st_entries s)" using assms(2) by (simp add: chain_inv_def)
  from assms(1) have "out_rows s' = out_rows s \<and> in_rows s' = in_rows s \<and> chain_inv env s'"
  proof cases
    case writer_usage
    then have "chain_inv env s'" using ledger_step_inv [OF step_usage assms(2)] by blast
    then show ?thesis using AppendUsage_cases [OF writer_usage]
      by (auto simp: appended_def usage_input_def out_rows_def in_rows_def)
  next
    case writer_grant
    then have "chain_inv env s'" using ledger_step_inv [OF step_grant assms(2)] by blast
    then show ?thesis using IssueStarterGrant_cases [OF writer_grant seqs]
      by (auto simp: appended_def grant_input_def out_rows_def in_rows_def)
  next
    case writer_rollup
    then have "chain_inv env s'" using ledger_step_inv [OF step_rollup assms(2)] by blast
    then show ?thesis using RunRollupOnce_cases [OF writer_rollup] by (auto simp: out_rows_def in_rows_def)
  next
    case writer_peer_root
    then show ?thesis using PutPeerRoot_entries [OF writer_peer_root] assms(2)
      by (simp add: chain_inv_def out_rows_def in_rows_def)
  qed
  then show "out_rows s' = out_rows s" "in_rows s' = in_rows s" "chain_inv env s'" by auto
qed

section \<open>Trackers and their network\<close>

text \<open>
  A node is one tracker: its coordinator and store, the local state of its goroutines (\<open>nd_wait\<close>: calls of
  \<open>StartTransfer\<close> that wait; \<open>nd_debited\<close>: requests that were debited and whose proof is not yet sent;
  \<open>nd_done\<close>: calls that have credited and are about to return), and two logs of what it did: \<open>nd_outs\<close> the
  nonce, destination and amount of every debit, \<open>nd_ins\<close> the nonce, delivering peer and amount of every credit.
  \<open>wd_net\<close> holds every message ever sent, with its sender.
\<close>

record party =
  pt_cfg :: tc_cfg
  pt_env :: ledger_env

record node =
  nd_tc :: transferCoordinator
  nd_store :: store
  nd_wait :: "bytes \<rightharpoonup> StartTransferInput"
  nd_debited :: "(bytes \<times> TransferProofRequest \<times> TransferOutHookOut) list"
  nd_done :: "(StartTransferInput \<times> StartTransferOutput) list"
  nd_outs :: "(bytes \<times> bytes \<times> u64) list"
  nd_ins :: "(bytes \<times> bytes \<times> u64) list"

record world =
  wd_node :: "bytes \<Rightarrow> node"
  wd_net :: "(bytes \<times> msg) set"

definition upd_node :: "bytes \<Rightarrow> (node \<Rightarrow> node) \<Rightarrow> world \<Rightarrow> world" where
  "upd_node t f w = w\<lparr>wd_node := (wd_node w)(t := f (wd_node w t))\<rparr>"

definition emit :: "bytes \<Rightarrow> msg list \<Rightarrow> world \<Rightarrow> world" where
  "emit t ms w = w\<lparr>wd_net := wd_net w \<union> {t} \<times> set ms\<rparr>"

definition empty_tc :: transferCoordinator where
  "empty_tc = \<lparr>tc_issued = Map.empty, tc_pending = Map.empty, tc_completed = Map.empty\<rparr>"

definition new_node :: node where
  "new_node = \<lparr>nd_tc = empty_tc, nd_store = empty_store, nd_wait = Map.empty, nd_debited = [], nd_done = [],
     nd_outs = [], nd_ins = []\<rparr>"

definition new_world :: world where
  "new_world = \<lparr>wd_node = (\<lambda>_. new_node), wd_net = {}\<rparr>"

text \<open>
  The connection of an honest tracker \<open>f\<close> carries what \<open>f\<close> has sent to \<open>t\<close>, any number of times and in any order;
  the connection of a tracker in \<open>bad\<close> carries anything.
\<close>

definition delivered :: "bytes set \<Rightarrow> world \<Rightarrow> bytes \<Rightarrow> bytes \<Rightarrow> FedKind \<Rightarrow> FedEnvelope \<Rightarrow> bool" where
  "delivered bad w f t k env \<longleftrightarrow> f \<in> bad \<or> (f, t, k, fe_payload env) \<in> wd_net w"

definition proof_verified :: "tc_cfg \<Rightarrow> bytes \<Rightarrow> FedTransferProof \<Rightarrow> bool" where
  "proof_verified cfg pub p \<longleftrightarrow> (\<exists>cb. CanonicalTransferProofPreSig (cfg_cd cfg) (Some p) = Inr cb \<and>
     ed_verify (cfg_cr cfg) pub cb (tp_source_tracker_sig p))"

inductive world_step :: "(bytes \<Rightarrow> party) \<Rightarrow> bytes set \<Rightarrow> world \<Rightarrow> world \<Rightarrow> bool" for ps bad where
  ws_writer: "t \<notin> bad \<Longrightarrow> writer_step (pt_env (ps t)) (nd_store (wd_node w t)) s' \<Longrightarrow>
    world_step ps bad w (upd_node t (nd_store_update (\<lambda>_. s')) w)"
| ws_replay: "t \<notin> bad \<Longrightarrow> delivered bad w f t KIND_TRANSFER_PROOF_REQUEST env \<Longrightarrow>
    parse_request (pt_cfg (ps t)) env f = Inr req \<Longrightarrow>
    request_replay net f req (nd_tc (wd_node w t)) = Some ms \<Longrightarrow> world_step ps bad w (emit t ms w)"
| ws_refuse: "t \<notin> bad \<Longrightarrow> delivered bad w f t KIND_TRANSFER_PROOF_REQUEST env \<Longrightarrow>
    parse_request (pt_cfg (ps t)) env f = Inr req \<Longrightarrow>
    world_step ps bad w (emit t (snd (emitTransferReject (pt_cfg (ps t)) now net f req reason)) w)"
| ws_debit: "t \<notin> bad \<Longrightarrow> delivered bad w f t KIND_TRANSFER_PROOF_REQUEST env \<Longrightarrow>
    parse_request (pt_cfg (ps t)) env f = Inr req \<Longrightarrow>
    AppendTransferOut (pt_env (ps t)) flt (out_record prev sq (hook_input req)) (nd_store (wd_node w t)) = (Inr e, s') \<Longrightarrow>
    Hash (le_crypto (pt_env (ps t))) (en_body e) = Inr h \<Longrightarrow>
    world_step ps bad w (upd_node t (\<lambda>n. n\<lparr>nd_store := s',
      nd_debited := nd_debited n @ [(f, req, \<lparr>oo_chain_tip_hash = h, oo_seq = eb_seq (the (en_body e))\<rparr>)],
      nd_outs := nd_outs n @ [(tq_nonce req, f, tq_amount req)]\<rparr>) w)"
| ws_issue: "t \<notin> bad \<Longrightarrow> (f, req, out) \<in> set (nd_debited (wd_node w t)) \<Longrightarrow>
    request_issue (pt_cfg (ps t)) now ord net f req out (nd_tc (wd_node w t)) = (l, ms, tc') \<Longrightarrow>
    world_step ps bad w (emit t ms (upd_node t (\<lambda>n. n\<lparr>nd_tc := tc', nd_debited := remove1 (f, req, out) (nd_debited n)\<rparr>) w))"
| ws_begin: "t \<notin> bad \<Longrightarrow> start_begin (pt_cfg (ps t)) net inp (nd_tc (wd_node w t)) = (StWaiting, ms, tc') \<Longrightarrow>
    world_step ps bad w (emit t ms (upd_node t (\<lambda>n. n\<lparr>nd_tc := tc', nd_wait := (nd_wait n)(si_nonce inp \<mapsto> inp)\<rparr>) w))"
| ws_proof: "t \<notin> bad \<Longrightarrow> delivered bad w f t KIND_TRANSFER_PROOF env \<Longrightarrow>
    OnProof (pt_cfg (ps t)) env f (nd_tc (wd_node w t)) = (l, tc') \<Longrightarrow>
    world_step ps bad w (upd_node t (nd_tc_update (\<lambda>_. tc')) w)"
| ws_reject: "t \<notin> bad \<Longrightarrow> delivered bad w f t KIND_TRANSFER_REJECT env \<Longrightarrow>
    OnReject (pt_cfg (ps t)) pub env (nd_tc (wd_node w t)) = (l, tc') \<Longrightarrow>
    world_step ps bad w (upd_node t (nd_tc_update (\<lambda>_. tc')) w)"
| ws_credit: "t \<notin> bad \<Longrightarrow> nd_wait (wd_node w t) (si_nonce inp) = Some inp \<Longrightarrow>
    tc_pending (nd_tc (wd_node w t)) (si_nonce inp) = Some p \<Longrightarrow> pd_ch p = Some pr \<Longrightarrow>
    proof_verified (pt_cfg (ps t)) pub pr \<Longrightarrow>
    AppendTransferIn (pt_env (ps t)) flt (in_record prev sq (credit_input inp pr)) (nd_store (wd_node w t)) = (Inr e, s') \<Longrightarrow>
    world_step ps bad w (upd_node t (\<lambda>n. n\<lparr>nd_store := s', nd_wait := (nd_wait n)(si_nonce inp := None),
      nd_done := nd_done n @ [(inp, proof_output pr)],
      nd_ins := nd_ins n @ [(si_nonce inp, tp_source_tracker_id pr, tp_amount pr)]\<rparr>) w)"
| ws_known: "t \<notin> bad \<Longrightarrow> nd_wait (wd_node w t) (si_nonce inp) = Some inp \<Longrightarrow>
    world_step ps bad w (upd_node t (\<lambda>n. n\<lparr>nd_wait := (nd_wait n)(si_nonce inp := None),
      nd_done := nd_done n @ [(inp, out)]\<rparr>) w)"
| ws_finish: "t \<notin> bad \<Longrightarrow> (inp, out) \<in> set (nd_done (wd_node w t)) \<Longrightarrow>
    world_step ps bad w (emit t (applied_msg (pt_cfg (ps t)) now net inp) (upd_node t
      (\<lambda>n. n\<lparr>nd_tc := start_finish (pt_cfg (ps t)) now ord (si_nonce inp) out (nd_tc n), nd_done := remove1 (inp, out) (nd_done n)\<rparr>) w))"
| ws_abandon: "t \<notin> bad \<Longrightarrow> nd_wait (wd_node w t) (si_nonce inp) = Some inp \<Longrightarrow>
    world_step ps bad w (upd_node t (\<lambda>n. n\<lparr>nd_tc := drop_pending (si_nonce inp) (nd_tc n),
      nd_wait := (nd_wait n)(si_nonce inp := None)\<rparr>) w)"
| ws_restart: "t \<notin> bad \<Longrightarrow> world_step ps bad w (upd_node t
      (\<lambda>n. n\<lparr>nd_tc := empty_tc, nd_wait := Map.empty, nd_debited := [], nd_done := []\<rparr>) w)"


section \<open>The invariant\<close>

definition parties_ok :: "(bytes \<Rightarrow> party) \<Rightarrow> fed_codec \<Rightarrow> bool" where
  "parties_ok ps cd \<longleftrightarrow> codec_rt (c_proof cd) \<and> (\<forall>t. cfg_my_id (pt_cfg (ps t)) = t \<and> cfg_cd (pt_cfg (ps t)) = cd)"

text \<open>A payload that decodes to a proof of \<open>t\<close> for one of the debits in \<open>outs\<close>.\<close>

definition backed :: "fed_codec \<Rightarrow> bytes \<Rightarrow> (bytes \<times> bytes \<times> u64) list \<Rightarrow> bytes \<Rightarrow> bool" where
  "backed cd t outs payload \<longleftrightarrow> (\<exists>p. dec (c_proof cd) payload = Some p \<and> tp_source_tracker_id p = t \<and>
     (tp_nonce p, tp_dest_tracker_id p, tp_amount p) \<in> set outs)"

definition strip :: "bytes \<times> bytes \<times> u64 \<Rightarrow> bytes \<times> u64" where
  "strip x = (case x of (n, f, a) \<Rightarrow> (n, a))"

definition node_inv :: "party \<Rightarrow> fed_codec \<Rightarrow> bytes \<Rightarrow> node \<Rightarrow> bool" where
  "node_inv p cd t n \<longleftrightarrow> chain_inv (pt_env p) (nd_store n) \<and>
     map strip (nd_outs n) = out_rows (nd_store n) \<and> map strip (nd_ins n) = in_rows (nd_store n) \<and>
     (\<forall>(f, req, out)\<in>set (nd_debited n). tq_source_tracker_id req = t \<and> tq_dest_tracker_id req = f \<and>
        (tq_nonce req, f, tq_amount req) \<in> set (nd_outs n)) \<and>
     (\<forall>k c. tc_issued (nd_tc n) k = Some c \<longrightarrow> backed cd t (nd_outs n) (ip_payload c))"

text \<open>What \<open>t\<close> holds or has booked on the word of an honest peer, that peer has debited for \<open>t\<close>.\<close>

definition link_inv :: "bytes set \<Rightarrow> world \<Rightarrow> bytes \<Rightarrow> bool" where
  "link_inv bad w t \<longleftrightarrow>
     (\<forall>k p pr. tc_pending (nd_tc (wd_node w t)) k = Some p \<and> pd_ch p = Some pr \<longrightarrow>
        tp_nonce pr = k \<and> (tp_source_tracker_id pr \<notin> bad \<longrightarrow>
          (k, t, tp_amount pr) \<in> set (nd_outs (wd_node w (tp_source_tracker_id pr))))) \<and>
     (\<forall>(k, f, a)\<in>set (nd_ins (wd_node w t)). f \<notin> bad \<longrightarrow> (k, t, a) \<in> set (nd_outs (wd_node w f)))"

definition world_inv :: "(bytes \<Rightarrow> party) \<Rightarrow> fed_codec \<Rightarrow> bytes set \<Rightarrow> world \<Rightarrow> bool" where
  "world_inv ps cd bad w \<longleftrightarrow> (\<forall>t. t \<notin> bad \<longrightarrow> node_inv (ps t) cd t (wd_node w t) \<and> link_inv bad w t \<and>
     (\<forall>to payload. (t, to, KIND_TRANSFER_PROOF, payload) \<in> wd_net w \<longrightarrow> backed cd t (nd_outs (wd_node w t)) payload))"

lemma backed_mono: "backed cd t outs b \<Longrightarrow> set outs \<subseteq> set outs' \<Longrightarrow> backed cd t outs' b"
  by (auto simp: backed_def)

lemma backed_append: "backed cd t outs b \<Longrightarrow> backed cd t (outs @ xs) b"
  by (auto simp: backed_def)

lemma parse_request_Inr:
  assumes "parse_request cfg env f = Inr req"
  shows "tq_source_tracker_id req = cfg_my_id cfg" "tq_dest_tracker_id req = f" "length (tq_nonce req) = 32"
    "length (tq_identity_id req) = 32" "tq_amount req \<noteq> 0"
  using assms by (auto simp: parse_request_def ValidateTransferProofRequest_def fed_lens
      split: if_splits option.splits sum.splits)

lemma build_proof_Inr:
  assumes "build_proof cfg req out = Inr b" "codec_rt (c_proof (cfg_cd cfg))"
  shows "\<exists>sig. dec (c_proof (cfg_cd cfg)) b = Some ((request_proof req out)\<lparr>tp_source_tracker_sig := sig\<rparr>)"
  using assms by (auto simp: build_proof_def split: sum.splits option.splits dest: codec_rtD)

lemma evict_oldest_sub: "evict_oldest st cp ord m k = Some v \<Longrightarrow> m k = Some v"
  by (auto simp: evict_oldest_def split: if_splits)

text \<open>Only a node's own debits and credits change its logs, and they only grow.\<close>

lemma upd_node_sel [simp]:
  "wd_node (upd_node t f w) u = (if u = t then f (wd_node w t) else wd_node w u)" "wd_net (upd_node t f w) = wd_net w"
  "wd_node (emit t ms w) = wd_node w" "wd_net (emit t ms w) = wd_net w \<union> {t} \<times> set ms"
  by (simp_all add: upd_node_def emit_def)

lemma link_inv_mono:
  assumes l: "link_inv bad w t" and o: "\<And>u. set (nd_outs (wd_node w u)) \<subseteq> set (nd_outs (wd_node w' u))"
    and i: "\<And>k f a. (k, f, a) \<in> set (nd_ins (wd_node w' t)) \<Longrightarrow> (k, f, a) \<in> set (nd_ins (wd_node w t)) \<or>
      (f \<notin> bad \<longrightarrow> (k, t, a) \<in> set (nd_outs (wd_node w f)))"
    and p: "\<And>k p pr. tc_pending (nd_tc (wd_node w' t)) k = Some p \<Longrightarrow> pd_ch p = Some pr \<Longrightarrow>
      (\<exists>q. tc_pending (nd_tc (wd_node w t)) k = Some q \<and> pd_ch q = Some pr) \<or>
      (tp_nonce pr = k \<and> (tp_source_tracker_id pr \<notin> bad \<longrightarrow>
        (k, t, tp_amount pr) \<in> set (nd_outs (wd_node w (tp_source_tracker_id pr)))))"
  shows "link_inv bad w' t"
proof -
  have a: "tp_nonce pr = k \<and> (tp_source_tracker_id pr \<notin> bad \<longrightarrow>
      (k, t, tp_amount pr) \<in> set (nd_outs (wd_node w' (tp_source_tracker_id pr))))"
    if "tc_pending (nd_tc (wd_node w' t)) k = Some q" "pd_ch q = Some pr" for k q pr
    using p [OF that] l o unfolding link_inv_def by blast
  have b: "(k, t, x) \<in> set (nd_outs (wd_node w' f))" if "(k, f, x) \<in> set (nd_ins (wd_node w' t))" "f \<notin> bad" for k f x
    using i [OF that(1)] that(2) l o [of f] unfolding link_inv_def by blast
  show ?thesis unfolding link_inv_def using a b by blast
qed

lemma world_invI:
  assumes inv: "world_inv ps cd bad w" and t: "t \<notin> bad"
    and same: "\<And>u. u \<noteq> t \<Longrightarrow> wd_node w' u = wd_node w u"
    and net: "\<And>m. m \<in> wd_net w' \<Longrightarrow> m \<in> wd_net w \<or> fst m = t"
    and outs: "set (nd_outs (wd_node w t)) \<subseteq> set (nd_outs (wd_node w' t))"
    and node: "node_inv (ps t) cd t (wd_node w' t)"
    and sent: "\<And>to b. (t, to, KIND_TRANSFER_PROOF, b) \<in> wd_net w' \<Longrightarrow> backed cd t (nd_outs (wd_node w' t)) b"
    and link: "link_inv bad w' t"
  shows "world_inv ps cd bad w'"
  unfolding world_inv_def
proof (intro allI impI conjI)
  fix u assume u: "u \<notin> bad"
  have grow: "set (nd_outs (wd_node w v)) \<subseteq> set (nd_outs (wd_node w' v))" for v
    using outs same [of v] by (cases "v = t") auto
  show "node_inv (ps u) cd u (wd_node w' u)"
    using node inv u same [of u] by (cases "u = t") (auto simp: world_inv_def)
  show "link_inv bad w' u"
  proof (cases "u = t")
    case False
    have "link_inv bad w u" using inv u by (simp add: world_inv_def)
    then show ?thesis by (rule link_inv_mono) (use grow same [OF False] in auto)
  qed (simp add: link)
  fix to b assume "(u, to, KIND_TRANSFER_PROOF, b) \<in> wd_net w'"
  then show "backed cd u (nd_outs (wd_node w' u)) b"
    using sent net [of "(u, to, KIND_TRANSFER_PROOF, b)"] inv u grow [of u]
    by (cases "u = t") (simp, metis backed_mono fst_conv world_inv_def)
qed


lemma world_invD:
  assumes "world_inv ps cd bad w" "t \<notin> bad"
  shows "node_inv (ps t) cd t (wd_node w t)" "link_inv bad w t"
    "(t, to, KIND_TRANSFER_PROOF, b) \<in> wd_net w \<Longrightarrow> backed cd t (nd_outs (wd_node w t)) b"
  using assms by (auto simp: world_inv_def)

text \<open>A step that leaves store, logs and debits of \<open>t\<close> alone, and does not add to its caches or send proofs.\<close>

lemma world_inv_quiet:
  assumes inv: "world_inv ps cd bad w" and t: "t \<notin> bad"
    and n: "nd_store n' = nd_store (wd_node w t)" "nd_outs n' = nd_outs (wd_node w t)" "nd_ins n' = nd_ins (wd_node w t)"
      "set (nd_debited n') \<subseteq> set (nd_debited (wd_node w t))" "tc_issued (nd_tc n') \<subseteq>\<^sub>m tc_issued (nd_tc (wd_node w t))"
    and pend: "\<And>k p pr. tc_pending (nd_tc n') k = Some p \<Longrightarrow> pd_ch p = Some pr \<Longrightarrow>
      (\<exists>q. tc_pending (nd_tc (wd_node w t)) k = Some q \<and> pd_ch q = Some pr) \<or>
      (tp_nonce pr = k \<and> (tp_source_tracker_id pr \<notin> bad \<longrightarrow>
        (k, t, tp_amount pr) \<in> set (nd_outs (wd_node w (tp_source_tracker_id pr)))))"
    and ms: "\<forall>(to, k, b)\<in>set ms. k \<noteq> KIND_TRANSFER_PROOF"
  shows "world_inv ps cd bad (emit t ms (upd_node t (\<lambda>_. n') w))"
proof (rule world_invI [OF inv t])
  note d = world_invD [OF inv t]
  show "node_inv (ps t) cd t (wd_node (emit t ms (upd_node t (\<lambda>_. n') w)) t)"
  proof -
    have i: "tc_issued (nd_tc n') k = Some c \<Longrightarrow> tc_issued (nd_tc (wd_node w t)) k = Some c" for k c
      using n(5) by (auto simp: map_le_def dom_def)
    show ?thesis using d(1) n(4) by (auto simp: node_inv_def n(1-3) dest: i)
  qed
  show "link_inv bad (emit t ms (upd_node t (\<lambda>_. n') w)) t"
    by (rule link_inv_mono [OF d(2)]) (use pend n(2,3) in auto)
qed (use world_invD [OF inv t] n(2) ms in auto)

lemma start_begin_waiting:
  assumes "start_begin cfg net inp tc = (StWaiting, ms, tc')"
  shows "tc' = tc\<lparr>tc_pending := (tc_pending tc)(si_nonce inp \<mapsto> \<lparr>pd_ch = None, pd_rej = None\<rparr>)\<rparr>"
    "\<forall>(to, k, b)\<in>set ms. k = KIND_TRANSFER_PROOF_REQUEST"
  using assms by (auto simp: start_begin_def send_def split: if_splits option.splits)

lemma OnProof_pending:
  assumes "OnProof cfg env f tc = (l, tc')" "tc_pending tc' k = Some p" "pd_ch p = Some pr"
  shows "(\<exists>q. tc_pending tc k = Some q \<and> pd_ch q = Some pr) \<or>
    (dec (c_proof (cfg_cd cfg)) (fe_payload env) = Some pr \<and> tp_dest_tracker_id pr = cfg_my_id cfg \<and>
     tp_source_tracker_id pr = f \<and> tp_nonce pr = k)"
  using assms by (auto simp: OnProof_def Let_def ValidateTransferProof_def fed_lens split: if_splits option.splits)

lemma OnReject_pending:
  assumes "OnReject cfg pub env tc = (l, tc')" "tc_pending tc' k = Some p" "pd_ch p = Some pr"
  shows "\<exists>q. tc_pending tc k = Some q \<and> pd_ch q = Some pr"
  using assms by (auto simp: OnReject_def Let_def split: if_splits option.splits sum.splits)

lemma handler_caches [simp]:
  "OnProof cfg env f tc = (l, tc') \<Longrightarrow> tc_issued tc' = tc_issued tc"
  "OnReject cfg pub env tc = (l, tc') \<Longrightarrow> tc_issued tc' = tc_issued tc"
  by (auto simp: OnProof_def OnReject_def Let_def split: if_splits option.splits sum.splits)

lemma sent_kinds:
  "\<forall>(to, k, b)\<in>set (snd (emitTransferReject cfg now net f req reason)). k \<noteq> KIND_TRANSFER_PROOF"
  "\<forall>(to, k, b)\<in>set (applied_msg cfg now net inp). k \<noteq> KIND_TRANSFER_PROOF"
  by (auto simp: emitTransferReject_def applied_msg_def send_def Let_def split: sum.splits option.splits if_splits)


lemma upd_node_const: "upd_node t f w = upd_node t (\<lambda>_. f (wd_node w t)) w"
  by (simp add: upd_node_def)

lemma emit_Nil: "emit t [] w = w"
  by (simp add: emit_def)

lemma world_inv_silent:
  assumes "world_inv ps cd bad w" "t \<notin> bad" "nd_store (f (wd_node w t)) = nd_store (wd_node w t)"
    "nd_outs (f (wd_node w t)) = nd_outs (wd_node w t)" "nd_ins (f (wd_node w t)) = nd_ins (wd_node w t)"
    "set (nd_debited (f (wd_node w t))) \<subseteq> set (nd_debited (wd_node w t))"
    "tc_issued (nd_tc (f (wd_node w t))) \<subseteq>\<^sub>m tc_issued (nd_tc (wd_node w t))"
    "\<And>k p pr. tc_pending (nd_tc (f (wd_node w t))) k = Some p \<Longrightarrow> pd_ch p = Some pr \<Longrightarrow>
      (\<exists>q. tc_pending (nd_tc (wd_node w t)) k = Some q \<and> pd_ch q = Some pr) \<or>
      (tp_nonce pr = k \<and> (tp_source_tracker_id pr \<notin> bad \<longrightarrow>
        (k, t, tp_amount pr) \<in> set (nd_outs (wd_node w (tp_source_tracker_id pr)))))"
  shows "world_inv ps cd bad (upd_node t f w)"
  using world_inv_quiet [OF assms, where ms = "[]"] by (simp add: emit_Nil upd_node_const [of t f])

lemma ws_writer_inv:
  assumes inv: "world_inv ps cd bad w" and t: "t \<notin> bad"
    and s: "writer_step (pt_env (ps t)) (nd_store (wd_node w t)) s'"
  shows "world_inv ps cd bad (upd_node t (nd_store_update (\<lambda>_. s')) w)"
proof (rule world_invI [OF inv t])
  note d = world_invD [OF inv t]
  have "chain_inv (pt_env (ps t)) (nd_store (wd_node w t))" using d(1) by (simp add: node_inv_def)
  note r = writer_step_rows [OF s this]
  show "node_inv (ps t) cd t (wd_node (upd_node t (nd_store_update (\<lambda>_. s')) w) t)"
    using d(1) r by (simp add: node_inv_def)
  show "link_inv bad (upd_node t (nd_store_update (\<lambda>_. s')) w) t" by (rule link_inv_mono [OF d(2)]) auto
qed (use world_invD [OF inv t] in auto)

lemma ws_debit_inv:
  assumes ok: "parties_ok ps cd" and inv: "world_inv ps cd bad w" and t: "t \<notin> bad"
    and p: "parse_request (pt_cfg (ps t)) env f = Inr req"
    and a: "AppendTransferOut (pt_env (ps t)) flt (out_record prev sq (hook_input req)) (nd_store (wd_node w t)) = (Inr e, s')"
  shows "world_inv ps cd bad (upd_node t (\<lambda>n. n\<lparr>nd_store := s', nd_debited := nd_debited n @ [(f, req, out)],
      nd_outs := nd_outs n @ [(tq_nonce req, f, tq_amount req)]\<rparr>) w)" (is "world_inv ps cd bad ?w")
proof (rule world_invI [OF inv t])
  note d = world_invD [OF inv t]
  have c: "chain_inv (pt_env (ps t)) (nd_store (wd_node w t))" using d(1) by (simp add: node_inv_def)
  note r = append_out_rows [OF a c] and q = parse_request_Inr [OF p]
  have my: "cfg_my_id (pt_cfg (ps t)) = t" using ok by (simp add: parties_ok_def)
  show "node_inv (ps t) cd t (wd_node ?w t)"
    using d(1) r q by (auto simp: node_inv_def my out_record_def hook_input_def strip_def intro: backed_append)
  show "link_inv bad ?w t" by (rule link_inv_mono [OF d(2)]) auto
  show "(t, to, KIND_TRANSFER_PROOF, b) \<in> wd_net ?w \<Longrightarrow> backed cd t (nd_outs (wd_node ?w t)) b" for to b
    using d(3) by (auto intro: backed_append)
qed auto


lemma ws_replay_inv:
  assumes inv: "world_inv ps cd bad w" and t: "t \<notin> bad" and r: "request_replay net f req (nd_tc (wd_node w t)) = Some ms"
  shows "world_inv ps cd bad (emit t ms w)"
proof (rule world_invI [OF inv t])
  note d = world_invD [OF inv t]
  show "node_inv (ps t) cd t (wd_node (emit t ms w) t)" using d(1) by simp
  show "link_inv bad (emit t ms w) t" by (rule link_inv_mono [OF d(2)]) auto
  from r obtain k c where "tc_issued (nd_tc (wd_node w t)) k = Some c" "ms = send net f KIND_TRANSFER_PROOF (ip_payload c)"
    by (auto simp: request_replay_def split: option.splits)
  with d(1) have "(to, KIND_TRANSFER_PROOF, b) \<in> set ms \<Longrightarrow> backed cd t (nd_outs (wd_node w t)) b" for to b
    by (auto simp: send_def node_inv_def split: if_splits)
  then show "(t, to, KIND_TRANSFER_PROOF, b) \<in> wd_net (emit t ms w) \<Longrightarrow> backed cd t (nd_outs (wd_node (emit t ms w) t)) b" for to b
    using d(3) by auto
qed auto

lemma ws_issue_inv:
  assumes ok: "parties_ok ps cd" and inv: "world_inv ps cd bad w" and t: "t \<notin> bad"
    and m: "(f, req, out) \<in> set (nd_debited (wd_node w t))"
    and i: "request_issue (pt_cfg (ps t)) now ord net f req out (nd_tc (wd_node w t)) = (l, ms, tc')"
  shows "world_inv ps cd bad (emit t ms (upd_node t (\<lambda>n. n\<lparr>nd_tc := tc', nd_debited := remove1 (f, req, out) (nd_debited n)\<rparr>) w))"
    (is "world_inv ps cd bad (emit t ms ?w)")
proof (rule world_invI [OF inv t])
  note d = world_invD [OF inv t]
  let ?o = "nd_outs (wd_node w t)"
  have cd: "cfg_cd (pt_cfg (ps t)) = cd" "codec_rt (c_proof cd)" using ok by (auto simp: parties_ok_def)
  have q: "tq_source_tracker_id req = t" "tq_dest_tracker_id req = f" "(tq_nonce req, f, tq_amount req) \<in> set ?o"
    using d(1) m by (auto simp: node_inv_def)
  have new: "backed cd t ?o b" if "build_proof (pt_cfg (ps t)) req out = Inr b" for b
    using build_proof_Inr [OF that] q by (auto simp: cd backed_def request_proof_def)
  have tc: "tc_issued tc' k = Some c \<Longrightarrow> tc_issued (nd_tc (wd_node w t)) k = Some c \<or> backed cd t ?o (ip_payload c)"
    "tc_pending tc' = tc_pending (nd_tc (wd_node w t))"
    "(to, k', b) \<in> set ms \<Longrightarrow> backed cd t ?o b" for k c to k' b
    using i new by (auto simp: request_issue_def cacheIssuedLocked_def send_def Let_def split: sum.splits if_splits
        dest: evict_oldest_sub)
  show "node_inv (ps t) cd t (wd_node (emit t ms ?w) t)"
    using d(1) unfolding node_inv_def by (auto dest: notin_set_remove1 tc(1) dest!: set_remove1_subset [THEN subsetD])
  show "link_inv bad (emit t ms ?w) t" by (rule link_inv_mono [OF d(2)]) (auto simp: tc(2))
  show "(t, to, KIND_TRANSFER_PROOF, b) \<in> wd_net (emit t ms ?w) \<Longrightarrow> backed cd t (nd_outs (wd_node (emit t ms ?w) t)) b" for to b
    using d(3) tc(3) by auto
qed auto

lemma ws_proof_inv:
  assumes ok: "parties_ok ps cd" and inv: "world_inv ps cd bad w" and t: "t \<notin> bad"
    and del: "delivered bad w f t KIND_TRANSFER_PROOF env"
    and p: "OnProof (pt_cfg (ps t)) env f (nd_tc (wd_node w t)) = (l, tc')"
  shows "world_inv ps cd bad (upd_node t (nd_tc_update (\<lambda>_. tc')) w)"
proof (rule world_inv_silent [OF inv t])
  have my: "cfg_cd (pt_cfg (ps t)) = cd" "cfg_my_id (pt_cfg (ps t)) = t" using ok by (auto simp: parties_ok_def)
  fix k q pr
  assume a: "tc_pending (nd_tc (nd_tc_update (\<lambda>_. tc') (wd_node w t))) k = Some q" "pd_ch q = Some pr"
  have "(k, t, tp_amount pr) \<in> set (nd_outs (wd_node w f))"
    if "dec (c_proof cd) (fe_payload env) = Some pr" "tp_dest_tracker_id pr = t" "tp_nonce pr = k" "f \<notin> bad"
  proof -
    have "(f, t, KIND_TRANSFER_PROOF, fe_payload env) \<in> wd_net w" using del that(4) by (simp add: delivered_def)
    from world_invD(3) [OF inv that(4) this] that show ?thesis by (auto simp: backed_def)
  qed
  with OnProof_pending [OF p, of k q pr] a show "(\<exists>q. tc_pending (nd_tc (wd_node w t)) k = Some q \<and> pd_ch q = Some pr) \<or>
      (tp_nonce pr = k \<and> (tp_source_tracker_id pr \<notin> bad \<longrightarrow>
        (k, t, tp_amount pr) \<in> set (nd_outs (wd_node w (tp_source_tracker_id pr)))))"
    by (auto simp: my)
qed (use p in auto)

lemma ws_credit_inv:
  assumes inv: "world_inv ps cd bad w" and t: "t \<notin> bad"
    and p: "tc_pending (nd_tc (wd_node w t)) (si_nonce inp) = Some p" "pd_ch p = Some pr"
    and a: "AppendTransferIn (pt_env (ps t)) flt (in_record prev sq (credit_input inp pr)) (nd_store (wd_node w t)) = (Inr e, s')"
  shows "world_inv ps cd bad (upd_node t (\<lambda>n. n\<lparr>nd_store := s', nd_wait := (nd_wait n)(si_nonce inp := None),
      nd_done := nd_done n @ [(inp, proof_output pr)],
      nd_ins := nd_ins n @ [(si_nonce inp, tp_source_tracker_id pr, tp_amount pr)]\<rparr>) w)" (is "world_inv ps cd bad ?w")
proof (rule world_invI [OF inv t])
  note d = world_invD [OF inv t]
  have c: "chain_inv (pt_env (ps t)) (nd_store (wd_node w t))" using d(1) by (simp add: node_inv_def)
  note r = append_in_rows [OF a c]
  show "node_inv (ps t) cd t (wd_node ?w t)"
    using d(1) r by (auto simp: node_inv_def in_record_def credit_input_def strip_def)
  have "tp_source_tracker_id pr \<notin> bad \<Longrightarrow>
      (si_nonce inp, t, tp_amount pr) \<in> set (nd_outs (wd_node w (tp_source_tracker_id pr)))"
    using d(2) p unfolding link_inv_def by blast
  then show "link_inv bad ?w t" by (intro link_inv_mono [OF d(2)]) auto
qed (use world_invD [OF inv t] in auto)

lemma world_step_inv [inv_rules]:
  assumes ok: "parties_ok ps cd" and "world_step ps bad w w'" and inv: "world_inv ps cd bad w"
  shows "world_inv ps cd bad w'"
  using assms(2)
proof cases
  case ws_writer
  then show ?thesis using ws_writer_inv [OF inv] by simp
next
  case ws_replay
  then show ?thesis using ws_replay_inv [OF inv] by simp
next
  case (ws_refuse t f env req now net reason)
  then show ?thesis using world_inv_quiet [OF inv ws_refuse(2) refl refl refl subset_refl map_le_refl _ sent_kinds(1)]
    by (simp add: upd_node_def)
next
  case ws_debit
  then show ?thesis using ws_debit_inv [OF ok inv] by simp
next
  case ws_issue
  then show ?thesis using ws_issue_inv [OF ok inv] by simp
next
  case (ws_begin t net inp ms tc')
  have "\<forall>(to, k, b)\<in>set ms. k \<noteq> KIND_TRANSFER_PROOF" using start_begin_waiting(2) [OF ws_begin(3)] by auto
  then show ?thesis unfolding ws_begin(1) using start_begin_waiting(1) [OF ws_begin(3)]
    by (subst upd_node_const, intro world_inv_quiet [OF inv ws_begin(2)]) (auto split: if_splits)
next
  case ws_proof
  then show ?thesis using ws_proof_inv [OF ok inv] by simp
next
  case (ws_reject t f env pub l tc')
  show ?thesis unfolding ws_reject(1)
    by (rule world_inv_silent [OF inv ws_reject(2)]) (use ws_reject OnReject_pending [OF ws_reject(4)] in auto)
next
  case ws_credit
  then show ?thesis using ws_credit_inv [OF inv] by simp
next
  case (ws_known t inp out)
  show ?thesis unfolding ws_known(1) by (rule world_inv_silent [OF inv ws_known(2)]) auto
next
  case (ws_finish t inp out now net ord)
  show ?thesis unfolding ws_finish(1)
    by (subst upd_node_const, intro world_inv_quiet [OF inv ws_finish(2) _ _ _ _ _ _ sent_kinds(2)])
      (auto simp: start_finish_def drop_pending_def cacheCompletedLocked_def split: if_splits)
next
  case (ws_abandon t inp)
  show ?thesis unfolding ws_abandon(1)
    by (rule world_inv_silent [OF inv ws_abandon(2)]) (auto simp: drop_pending_def split: if_splits)
next
  case (ws_restart t)
  show ?thesis unfolding ws_restart(1) by (rule world_inv_silent [OF inv ws_restart(2)]) (auto simp: empty_tc_def)
qed

lemma new_world_inv: "world_inv ps cd bad new_world"
proof -
  have "out_rows empty_store = []" "in_rows empty_store = []" by (simp_all add: out_rows_def in_rows_def empty_store_def)
  then show ?thesis
    by (simp add: world_inv_def new_world_def node_inv_def link_inv_def new_node_def chain_inv_empty empty_tc_def)
qed

interpretation transfers: invariant_system new_world "world_step ps bad" "\<lambda>w. parties_ok ps cd \<longrightarrow> world_inv ps cd bad w"
  for ps bad cd
  by unfold_locales (auto intro: new_world_inv world_step_inv)

section \<open>Conservation\<close>

definition credited_from :: "bytes \<Rightarrow> node \<Rightarrow> int" where
  "credited_from f n = (\<Sum>(k, g, a)\<leftarrow>filter (\<lambda>(k, g, a). g = f) (nd_ins n). uint a)"

definition rows_total :: "(bytes \<times> u64) list \<Rightarrow> int" where
  "rows_total rs = (\<Sum>(k, a)\<leftarrow>rs. uint a)"

lemma logs_distinct:
  assumes "node_inv p cd t n"
  shows "distinct (nd_outs n)" "distinct (nd_ins n)" "inj_on fst (set (nd_ins n))"
proof -
  from assms have e: "map strip (nd_outs n) = out_rows (nd_store n)" "map strip (nd_ins n) = in_rows (nd_store n)"
    and c: "chain_inv (pt_env p) (nd_store n)" by (auto simp: node_inv_def)
  have "map fst (nd_outs n) = map fst (out_rows (nd_store n))" "map fst (nd_ins n) = map fst (in_rows (nd_store n))"
    unfolding e [symmetric] by (auto simp: strip_def)
  with chain_inv_rows [OF c] have "distinct (map fst (nd_outs n))" "distinct (map fst (nd_ins n))" by simp_all
  then show "distinct (nd_outs n)" "distinct (nd_ins n)" "inj_on fst (set (nd_ins n))"
    by (auto simp: distinct_map)
qed

lemma conservation_sum:
  assumes inv: "world_inv ps cd bad w" and T: "finite T" "T \<inter> bad = {}" and f: "f \<notin> bad"
  shows "(\<Sum>d\<in>T. credited_from f (wd_node w d)) \<le> rows_total (out_rows (nd_store (wd_node w f)))"
proof -
  let ?in = "\<lambda>d. set (filter (\<lambda>(k, g, a). g = f) (nd_ins (wd_node w d)))"
  let ?out = "set (nd_outs (wd_node w f))" and ?amt = "\<lambda>(k, d, a). uint a :: int"
  note nf = world_invD(1) [OF inv f]
  have h: "d \<in> T \<Longrightarrow> d \<notin> bad" for d using T(2) by auto
  have one: "credited_from f (wd_node w d) = sum ?amt (?in d)" if "d \<in> T" for d
    using logs_distinct(2) [OF world_invD(1) [OF inv h [OF that]]]
    by (simp add: credited_from_def sum_list_distinct_conv_sum_set del: set_filter)
  let ?im = "\<lambda>d. (\<lambda>(k, g, a). (k, d, a)) ` ?in d"
  have img: "sum ?amt (?in d) = sum ?amt (?im d)" for d
    by (subst sum.reindex) (auto simp: inj_on_def comp_def intro!: sum.cong)
  have "(\<Sum>d\<in>T. credited_from f (wd_node w d)) = (\<Sum>d\<in>T. sum ?amt (?im d))"
    by (rule sum.cong [OF refl]) (simp only: one img)
  also have "\<dots> = sum ?amt (\<Union>d\<in>T. ?im d)"
    using T(1) by (subst sum.UNION_disjoint) auto
  also have "\<dots> \<le> sum ?amt ?out"
  proof (rule sum_mono2)
    show "(\<Union>d\<in>T. ?im d) \<subseteq> ?out"
    proof clarsimp
      fix d k a assume "d \<in> T" "(k, f, a) \<in> set (nd_ins (wd_node w d))"
      then show "(k, d, a) \<in> ?out" using world_invD(2) [OF inv h] f unfolding link_inv_def by blast
    qed
  qed auto
  also have "\<dots> = (\<Sum>x\<leftarrow>nd_outs (wd_node w f). ?amt x)"
    using logs_distinct(1) [OF nf] by (simp add: sum_list_distinct_conv_sum_set)
  also have "\<dots> = rows_total (map strip (nd_outs (wd_node w f)))"
    by (simp add: rows_total_def comp_def strip_def split_def)
  finally show ?thesis using nf by (simp add: node_inv_def)
qed

section \<open>The handlers are runs of the system\<close>

definition quiet_hooks :: "hooks \<Rightarrow> bool" where
  "quiet_hooks hk \<longleftrightarrow> (\<forall>k s. (writer_step (hk_env hk))\<^sup>*\<^sup>* s (hk_others hk k s))"

lemma writer_steps_inv: "(writer_step env)\<^sup>*\<^sup>* s s' \<Longrightarrow> chain_inv env s \<Longrightarrow> chain_inv env s'"
  by (induction rule: rtranclp_induct) (auto dest: writer_step_rows(3))

lemma out_attempts_cases:
  assumes "quiet_hooks hk" "out_attempts hk n k inp s = (res, evs, s')" "chain_inv (hk_env hk) s"
  shows "\<exists>s0. (writer_step (hk_env hk))\<^sup>*\<^sup>* s s0 \<and> ((\<exists>x. res = Inl x) \<and> s' = s0 \<or>
    (\<exists>flt prev sq e h. AppendTransferOut (hk_env hk) flt (out_record prev sq inp) s0 = (Inr e, s') \<and>
       Hash (le_crypto (hk_env hk)) (en_body e) = Inr h \<and> res = Inr \<lparr>oo_chain_tip_hash = h, oo_seq = eb_seq (the (en_body e))\<rparr>))"
  using assms(2,3)
proof (induction n arbitrary: k s)
  case (Suc n)
  show ?case
  proof (cases "nextTip (hk_flt hk k) s")
    case (Inl x)
    then show ?thesis using Suc.prems by auto
  next
    case (Inr pr)
    obtain prev sq where pr: "pr = (prev, sq)" by fastforce
    let ?s0 = "hk_others hk k s" and ?r = "out_record prev sq inp"
    have w: "(writer_step (hk_env hk))\<^sup>*\<^sup>* s ?s0" using assms(1) by (simp add: quiet_hooks_def)
    note c = writer_steps_inv [OF w Suc.prems(2)]
    obtain y s1 where a: "AppendTransferOut (hk_env hk) (hk_flt hk k) ?r ?s0 = (y, s1)" by fastforce
    show ?thesis
    proof (cases y)
      case (Inl x)
      then have s1: "s1 = ?s0" using AppendTransferOut_cases [OF a] by auto
      show ?thesis
      proof (cases "x = ErrStaleTip")
        case True
        then have "out_attempts hk n (k + 1) inp ?s0 = (res, evs, s')"
          using Suc.prems(1) Inr pr a Inl s1 by simp
        from Suc.IH [OF this c] show ?thesis by (elim exE conjE) (rule exI, rule conjI, erule rtranclp_trans [OF w])
      next
        case False
        then show ?thesis using Suc.prems(1) Inr pr a Inl s1 w by auto
      qed
    next
      case (Inr e)
      from append_out_rows(4) [OF a [unfolded Inr] c] obtain h where "Hash (le_crypto (hk_env hk)) (en_body e) = Inr h" by blast
      then show ?thesis using Suc.prems(1) \<open>nextTip _ _ = _\<close> pr a Inr w by simp blast
    qed
  qed
qed auto

lemma in_attempts_cases:
  assumes "quiet_hooks hk" "in_attempts hk n k inp s = (err, evs, s')"
  shows "\<exists>s0. (writer_step (hk_env hk))\<^sup>*\<^sup>* s s0 \<and> (err \<noteq> None \<and> s' = s0 \<or>
    err = None \<and> (\<exists>flt prev sq e. AppendTransferIn (hk_env hk) flt (in_record prev sq inp) s0 = (Inr e, s')))"
  using assms(2)
proof (induction n arbitrary: k s)
  case (Suc n)
  show ?case
  proof (cases "nextTip (hk_flt hk k) s")
    case (Inl x)
    then show ?thesis using Suc.prems by auto
  next
    case (Inr pr)
    obtain prev sq where pr: "pr = (prev, sq)" by fastforce
    let ?s0 = "hk_others hk k s" and ?r = "in_record prev sq inp"
    have w: "(writer_step (hk_env hk))\<^sup>*\<^sup>* s ?s0" using assms(1) by (simp add: quiet_hooks_def)
    obtain y s1 where a: "AppendTransferIn (hk_env hk) (hk_flt hk k) ?r ?s0 = (y, s1)" by fastforce
    show ?thesis
    proof (cases y)
      case (Inl x)
      then have s1: "s1 = ?s0" using AppendTransferIn_cases [OF a] by auto
      show ?thesis
      proof (cases "x = ErrStaleTip")
        case True
        then have "in_attempts hk n (k + 1) inp ?s0 = (err, evs, s')"
          using Suc.prems(1) Inr pr a Inl s1 by simp
        from Suc.IH [OF this] show ?thesis by (elim exE conjE) (rule exI, rule conjI, erule rtranclp_trans [OF w])
      next
        case False
        then show ?thesis using Suc.prems(1) Inr pr a Inl s1 w by auto
      qed
    next
      case (Inr e)
      then show ?thesis using Suc.prems(1) \<open>nextTip _ _ = _\<close> pr a w by simp blast
    qed
  qed
qed auto

lemma ws_writers:
  assumes "(writer_step (pt_env (ps t)))\<^sup>*\<^sup>* (nd_store (wd_node w t)) s'" "t \<notin> bad"
  shows "(world_step ps bad)\<^sup>*\<^sup>* w (upd_node t (nd_store_update (\<lambda>_. s')) w)"
  using assms(1)
proof (induction rule: rtranclp_induct)
  case base
  have "upd_node t (nd_store_update (\<lambda>_. nd_store (wd_node w t))) w = w" by (simp add: upd_node_def)
  then show ?case by simp
next
  case (step y z)
  let ?w = "upd_node t (nd_store_update (\<lambda>_. y)) w"
  have "world_step ps bad ?w (upd_node t (nd_store_update (\<lambda>_. z)) ?w)"
    using ws_writer [OF assms(2), of ps ?w z] step(2) by simp
  also have "upd_node t (nd_store_update (\<lambda>_. z)) ?w = upd_node t (nd_store_update (\<lambda>_. z)) w" by (simp add: upd_node_def)
  finally show ?case using step(3) by simp
qed


text \<open>
  A whole call of a handler, with other writers of the ledger running inside it, is a run of the system, with
  the same effect on the coordinator, the store and the network.
\<close>

lemma request_runs:
  assumes ok: "parties_ok ps cd" and inv: "world_inv ps cd bad w" and t: "t \<notin> bad"
    and hk: "quiet_hooks hk" "hk_env hk = pt_env (ps t)"
    and del: "delivered bad w f t KIND_TRANSFER_PROOF_REQUEST env"
    and r: "OnRequest (pt_cfg (ps t)) hk now ord net env f (nd_tc (wd_node w t)) (nd_store (wd_node w t)) = (l, ms, evs, tc', s')"
  shows "\<exists>w'. (world_step ps bad)\<^sup>*\<^sup>* w w' \<and> nd_tc (wd_node w' t) = tc' \<and> nd_store (wd_node w' t) = s' \<and>
    wd_net w' = wd_net w \<union> {t} \<times> set ms"
proof (cases "parse_request (pt_cfg (ps t)) env f")
  case (Inl x)
  then show ?thesis using r by (auto simp: OnRequest_def)
next
  case (Inr req)
  note p = this
  have del': "delivered bad (upd_node t g w) f t KIND_TRANSFER_PROOF_REQUEST env" for g using del by (simp add: delivered_def)
  show ?thesis
  proof (cases "request_replay net f req (nd_tc (wd_node w t))")
    case (Some ms')
    then have "ms' = ms" "tc' = nd_tc (wd_node w t)" "s' = nd_store (wd_node w t)" using r p by (auto simp: OnRequest_def)
    moreover have "world_step ps bad w (emit t ms' w)" by (rule ws_replay [where ps = ps, OF t del p Some])
    ultimately show ?thesis by (intro exI [of _ "emit t ms w"]) auto
  next
    case None
    obtain res evs1 s1 where d: "request_debit hk req (nd_store (wd_node w t)) = (res, evs1, s1)" by (metis prod_cases3)
    have c: "chain_inv (hk_env hk) (nd_store (wd_node w t))" using world_invD(1) [OF inv t] hk(2) by (simp add: node_inv_def)
    from out_attempts_cases [OF hk(1) d [unfolded request_debit_def Hook_AppendTransferOut_def] c] obtain s0 where
      w0: "(writer_step (hk_env hk))\<^sup>*\<^sup>* (nd_store (wd_node w t)) s0" and
      cases: "(\<exists>x. res = Inl x) \<and> s1 = s0 \<or>
        (\<exists>flt prev sq e h. AppendTransferOut (hk_env hk) flt (out_record prev sq (hook_input req)) s0 = (Inr e, s1) \<and>
         Hash (le_crypto (hk_env hk)) (en_body e) = Inr h \<and> res = Inr \<lparr>oo_chain_tip_hash = h, oo_seq = eb_seq (the (en_body e))\<rparr>)"
      by blast
    let ?w0 = "upd_node t (nd_store_update (\<lambda>_. s0)) w"
    have run: "(world_step ps bad)\<^sup>*\<^sup>* w ?w0" by (rule ws_writers [where ps = ps]) (use w0 hk(2) t in simp_all)
    from cases show ?thesis
    proof (elim disjE exE conjE)
      fix x assume x: "res = Inl x" "s1 = s0"
      let ?ms = "snd (emitTransferReject (pt_cfg (ps t)) now net f req (ledger_err_msg x))"
      have e: "ms = ?ms" "tc' = nd_tc (wd_node w t)" "s' = s0" using r p None d x by (auto simp: OnRequest_def)
      have "world_step ps bad ?w0 (emit t ?ms ?w0)" by (rule ws_refuse [where ps = ps, OF t del' p])
      with run e show ?thesis by (intro exI [of _ "emit t ?ms ?w0"]) auto
    next
      fix flt prev sq h and e :: Entry
      let ?out = "\<lparr>oo_chain_tip_hash = h, oo_seq = eb_seq (the (en_body e))\<rparr>"
      assume a: "AppendTransferOut (hk_env hk) flt (out_record prev sq (hook_input req)) s0 = (Inr e, s1)"
        "Hash (le_crypto (hk_env hk)) (en_body e) = Inr h" "res = Inr ?out"
      obtain l' ms' tc1 where i: "request_issue (pt_cfg (ps t)) now ord net f req ?out (nd_tc (wd_node w t)) = (l', ms', tc1)"
        by (metis prod_cases3)
      then have e: "ms = ms'" "tc' = tc1" "s' = s1" using r p None d a(3) by (auto simp: OnRequest_def)
      let ?w1 = "upd_node t (\<lambda>n. n\<lparr>nd_store := s1, nd_debited := nd_debited n @ [(f, req, ?out)],
          nd_outs := nd_outs n @ [(tq_nonce req, f, tq_amount req)]\<rparr>) ?w0"
      let ?w2 = "emit t ms' (upd_node t (\<lambda>n. n\<lparr>nd_tc := tc1, nd_debited := remove1 (f, req, ?out) (nd_debited n)\<rparr>) ?w1)"
      have "world_step ps bad ?w0 ?w1" by (rule ws_debit [where ps = ps, OF t del' p]) (use a hk(2) in auto)
      moreover have "world_step ps bad ?w1 ?w2" by (rule ws_issue [where ps = ps and now = now and ord = ord and net = net, OF t]) (use i in auto)
      ultimately have "(world_step ps bad)\<^sup>*\<^sup>* w ?w2" using run by auto
      with e show ?thesis by (intro exI [of _ ?w2]) simp
    qed
  qed
qed


lemma resume_runs:
  assumes t: "t \<notin> bad" and hk: "quiet_hooks hk" "hk_env hk = pt_env (ps t)"
    and wait: "nd_wait (wd_node w t) (si_nonce inp) = Some inp"
    and chan: "\<And>pr. event = GotProof pr \<Longrightarrow> \<exists>p. tc_pending (nd_tc (wd_node w t)) (si_nonce inp) = Some p \<and> pd_ch p = Some pr"
    and r: "start_resume (pt_cfg (ps t)) hk now ord net pub inp event (nd_tc (wd_node w t)) (nd_store (wd_node w t)) =
      (res, ms, evs, tc', s')"
  shows "\<exists>w'. (world_step ps bad)\<^sup>*\<^sup>* w w' \<and> nd_tc (wd_node w' t) = tc' \<and> nd_store (wd_node w' t) = s' \<and>
    wd_net w' = wd_net w \<union> {t} \<times> set ms"
proof -
  let ?n = "si_nonce inp" and ?drop = "\<lambda>n. n\<lparr>nd_tc := drop_pending (si_nonce inp) (nd_tc n), nd_wait := (nd_wait n)(si_nonce inp := None)\<rparr>"
  have abandon: "world_step ps bad (upd_node t (nd_store_update (\<lambda>_. s)) w) (upd_node t ?drop (upd_node t (nd_store_update (\<lambda>_. s)) w))" for s
    by (rule ws_abandon [OF t]) (simp add: wait)
  have writers: "(world_step ps bad)\<^sup>*\<^sup>* w (upd_node t (nd_store_update (\<lambda>_. s)) w)"
    if "(writer_step (hk_env hk))\<^sup>*\<^sup>* (nd_store (wd_node w t)) s" for s
    by (rule ws_writers [where ps = ps]) (use that hk(2) t in simp_all)
  have drop: ?thesis if "(writer_step (hk_env hk))\<^sup>*\<^sup>* (nd_store (wd_node w t)) s'" "tc' = drop_pending ?n (nd_tc (wd_node w t))" "ms = []"
    using that rtranclp.rtrancl_into_rtrancl [OF writers [OF that(1)] abandon]
    by (intro exI [of _ "upd_node t ?drop (upd_node t (nd_store_update (\<lambda>_. s')) w)"]) simp
  show ?thesis
  proof (cases event)
    case (GotProof pr)
    obtain p where p: "tc_pending (nd_tc (wd_node w t)) ?n = Some p" "pd_ch p = Some pr" using chan [OF GotProof] by blast
    obtain e1 evs1 s1 where c: "start_credit (pt_cfg (ps t)) hk pub inp pr (nd_store (wd_node w t)) = (e1, evs1, s1)"
      by (metis prod_cases3)
    have fin: ?thesis if "(world_step ps bad)\<^sup>*\<^sup>* w w1" "(inp, proof_output pr) \<in> set (nd_done (wd_node w1 t))"
      "nd_tc (wd_node w1 t) = nd_tc (wd_node w t)" "nd_store (wd_node w1 t) = s'" "wd_net w1 = wd_net w" "e1 = None" for w1
    proof -
      let ?w2 = "emit t (applied_msg (pt_cfg (ps t)) now net inp) (upd_node t (\<lambda>n. n\<lparr>nd_tc := start_finish (pt_cfg (ps t)) now ord
        ?n (proof_output pr) (nd_tc n), nd_done := remove1 (inp, proof_output pr) (nd_done n)\<rparr>) w1)"
      have "world_step ps bad w1 ?w2" by (rule ws_finish [OF t that(2)])
      moreover have "ms = applied_msg (pt_cfg (ps t)) now net inp"
        "tc' = start_finish (pt_cfg (ps t)) now ord ?n (proof_output pr) (nd_tc (wd_node w t))"
        using r GotProof c that(6) by (auto simp: start_resume_def)
      ultimately show ?thesis using that by (intro exI [of _ ?w2]) auto
    qed
    show ?thesis
    proof (cases e1)
      case (Some x)
      then have "tc' = drop_pending ?n (nd_tc (wd_node w t))" "ms = []" "s1 = s'" using r GotProof c by (auto simp: start_resume_def)
      moreover have "(writer_step (hk_env hk))\<^sup>*\<^sup>* (nd_store (wd_node w t)) s1"
        using c Some in_attempts_cases [OF hk(1)]
        by (fastforce simp: start_credit_def Hook_AppendTransferIn_def split: option.splits sum.splits if_splits prod.splits)
      ultimately show ?thesis using drop by simp
    next
      case None
      then obtain key err where v: "proof_verified (pt_cfg (ps t)) key pr"
        and h: "in_attempts hk staleTipRetries 0 (credit_input inp pr) (nd_store (wd_node w t)) = (err, evs1, s1)"
        using c by (auto simp: start_credit_def Hook_AppendTransferIn_def proof_verified_def
            split: option.splits sum.splits if_splits prod.splits)
      have s1: "s1 = s'" using r GotProof c None by (auto simp: start_resume_def)
      from in_attempts_cases [OF hk(1) h] obtain s0 where w0: "(writer_step (hk_env hk))\<^sup>*\<^sup>* (nd_store (wd_node w t)) s0"
        and cs: "s1 = s0 \<or> (\<exists>flt prev sq e. AppendTransferIn (hk_env hk) flt (in_record prev sq (credit_input inp pr)) s0 = (Inr e, s1))"
        by blast
      let ?w0 = "upd_node t (nd_store_update (\<lambda>_. s0)) w"
      from cs show ?thesis
      proof (elim disjE exE)
        assume "s1 = s0"
        let ?w1 = "upd_node t (\<lambda>n. n\<lparr>nd_wait := (nd_wait n)(?n := None), nd_done := nd_done n @ [(inp, proof_output pr)]\<rparr>) ?w0"
        have "world_step ps bad ?w0 ?w1" by (rule ws_known [OF t]) (simp add: wait)
        with writers [OF w0] \<open>s1 = s0\<close> s1 None show ?thesis by (intro fin [of ?w1]) auto
      next
        fix flt prev sq e
        assume a: "AppendTransferIn (hk_env hk) flt (in_record prev sq (credit_input inp pr)) s0 = (Inr e, s1)"
        let ?w1 = "upd_node t (\<lambda>n. n\<lparr>nd_store := s1, nd_wait := (nd_wait n)(?n := None),
          nd_done := nd_done n @ [(inp, proof_output pr)],
          nd_ins := nd_ins n @ [(?n, tp_source_tracker_id pr, tp_amount pr)]\<rparr>) ?w0"
        have "world_step ps bad ?w0 ?w1"
          by (rule ws_credit [where ps = ps and p = p, OF t _ _ p(2) v]) (use a p(1) wait hk(2) in auto)
        with writers [OF w0] s1 None show ?thesis by (intro fin [of ?w1]) auto
      qed
    qed
  qed (use r drop in \<open>auto simp: start_resume_def\<close>)
qed

end
