(* ===== verification/TB_Fed_Demo.thy ===== *)
theory TB_Fed_Demo
  imports TB_Transfer_Spec TB_Codec
begin

text \<open>
  A concrete codec for the federation messages and a concrete run of a transfer between two trackers, on which
  the hypotheses of the theorems are discharged by evaluation.
\<close>

section \<open>A concrete codec\<close>

definition mk_codec :: "('m \<Rightarrow> bytes list option) \<Rightarrow> (bytes list \<Rightarrow> 'm option) \<Rightarrow> 'm codec" where
  "mk_codec f g = (let e = (\<lambda>m. case f m of None \<Rightarrow> None
       | Some fs \<Rightarrow> if list_all (\<lambda>x. length x < 256) fs then Some (enc_fields fs) else None)
     in \<lparr>det = e, enc = e, dec = (\<lambda>b. g (dec_fields b))\<rparr>)"

lemma mk_codec_rt: "(\<And>m fs. f m = Some fs \<Longrightarrow> g fs = Some m) \<Longrightarrow> codec_rt (mk_codec f g)"
  by (auto simp: codec_rt_def mk_codec_def Let_def dec_enc_fields split: option.splits if_splits)

fun enc_fed_kind :: "FedKind \<Rightarrow> byte option" where
  "enc_fed_kind (FedKind.KindOther n) = None"
| "enc_fed_kind k = Some (word_of_int (kind_num k))"

definition fed_kinds :: "FedKind list" where
  "fed_kinds = [KIND_UNSPECIFIED, KIND_HELLO, KIND_PEER_AUTH, KIND_PEERING_ACCEPT, KIND_PEERING_REJECT,
     KIND_ROOT_ATTESTATION, KIND_EQUIVOCATION_EVIDENCE, KIND_PING, KIND_PONG, KIND_TRANSFER_PROOF_REQUEST,
     KIND_TRANSFER_PROOF, KIND_TRANSFER_APPLIED, KIND_REVOCATION, KIND_PEER_EXCHANGE, KIND_TRANSFER_REJECT,
     KIND_TRANSFER_REVERSAL]"

definition dec_fed_kind :: "byte \<Rightarrow> FedKind" where
  "dec_fed_kind b = (case find (\<lambda>k. enc_fed_kind k = Some b) fed_kinds of None \<Rightarrow> KIND_UNSPECIFIED | Some k \<Rightarrow> k)"

lemma dec_enc_fed_kind: "enc_fed_kind k = Some b \<Longrightarrow> dec_fed_kind b = k"
  by (cases k) (auto simp: dec_fed_kind_def fed_kinds_def)

definition demo_env_codec :: "FedEnvelope codec" where
  "demo_env_codec = mk_codec
     (\<lambda>e. case enc_fed_kind (fe_kind e) of None \<Rightarrow> None
        | Some k \<Rightarrow> Some [fe_sender_id e, [k], fe_payload e, fe_sender_sig e])
     (\<lambda>fs. case fs of [s, [k], p, sig] \<Rightarrow>
        Some \<lparr>fe_sender_id = s, fe_kind = dec_fed_kind k, fe_payload = p, fe_sender_sig = sig\<rparr> | _ \<Rightarrow> None)"

definition demo_root_codec :: "RootAttestation codec" where
  "demo_root_codec = mk_codec
     (\<lambda>m. Some [ra_tracker_id m, be64 (ra_hour m), ra_merkle_root m, ra_tracker_sig m])
     (\<lambda>fs. case fs of [t, h, r, s] \<Rightarrow>
        Some \<lparr>ra_tracker_id = t, ra_hour = be_word h, ra_merkle_root = r, ra_tracker_sig = s\<rparr> | _ \<Rightarrow> None)"

definition demo_evidence_codec :: "EquivocationEvidence codec" where
  "demo_evidence_codec = mk_codec
     (\<lambda>m. Some [ee_tracker_id m, be64 (ee_hour m), ee_root_a m, ee_sig_a m, ee_root_b m, ee_sig_b m])
     (\<lambda>fs. case fs of [t, h, ra, sa, rb, sb] \<Rightarrow>
        Some \<lparr>ee_tracker_id = t, ee_hour = be_word h, ee_root_a = ra, ee_sig_a = sa, ee_root_b = rb, ee_sig_b = sb\<rparr> | _ \<Rightarrow> None)"

definition demo_request_codec :: "TransferProofRequest codec" where
  "demo_request_codec = mk_codec
     (\<lambda>m. Some [tq_source_tracker_id m, tq_dest_tracker_id m, tq_identity_id m, be64 (tq_amount m), tq_nonce m,
        tq_consumer_sig m, tq_consumer_pub m, be64 (tq_timestamp m)])
     (\<lambda>fs. case fs of [s, d, i, a, n, sig, pub, ts] \<Rightarrow>
        Some \<lparr>tq_source_tracker_id = s, tq_dest_tracker_id = d, tq_identity_id = i, tq_amount = be_word a, tq_nonce = n,
          tq_consumer_sig = sig, tq_consumer_pub = pub, tq_timestamp = be_word ts\<rparr> | _ \<Rightarrow> None)"

definition demo_proof_codec :: "FedTransferProof codec" where
  "demo_proof_codec = mk_codec
     (\<lambda>m. Some [tp_source_tracker_id m, tp_dest_tracker_id m, tp_identity_id m, be64 (tp_amount m), tp_nonce m,
        tp_source_chain_tip_hash m, be64 (tp_source_seq m), be64 (tp_timestamp m), tp_source_tracker_sig m])
     (\<lambda>fs. case fs of [s, d, i, a, n, h, sq, ts, sig] \<Rightarrow>
        Some \<lparr>tp_source_tracker_id = s, tp_dest_tracker_id = d, tp_identity_id = i, tp_amount = be_word a, tp_nonce = n,
          tp_source_chain_tip_hash = h, tp_source_seq = be_word sq, tp_timestamp = be_word ts, tp_source_tracker_sig = sig\<rparr>
        | _ \<Rightarrow> None)"

definition demo_revocation_codec :: "Revocation codec" where
  "demo_revocation_codec = mk_codec
     (\<lambda>m. if rv_reason m = REVOCATION_REASON_ABUSE
        then Some [rv_tracker_id m, rv_identity_id m, be64 (rv_revoked_at m), rv_tracker_sig m] else None)
     (\<lambda>fs. case fs of [t, i, r, s] \<Rightarrow>
        Some \<lparr>rv_tracker_id = t, rv_identity_id = i, rv_reason = REVOCATION_REASON_ABUSE, rv_revoked_at = be_word r,
          rv_tracker_sig = s\<rparr> | _ \<Rightarrow> None)"

definition demo_hello_codec :: "Hello codec" where
  "demo_hello_codec = mk_codec
     (\<lambda>m. Some (he_tracker_id m # be32 (he_protocol_version m) # he_nonce m # map enc_str (he_features m)))
     (\<lambda>fs. case fs of t # v # n # es \<Rightarrow>
        Some \<lparr>he_tracker_id = t, he_protocol_version = be_word v, he_nonce = n, he_features = map dec_str es\<rparr> | _ \<Rightarrow> None)"

definition demo_auth_codec :: "PeerAuth codec" where
  "demo_auth_codec = mk_codec (\<lambda>m. Some [pa_nonce_sig m]) (\<lambda>fs. case fs of [s] \<Rightarrow> Some \<lparr>pa_nonce_sig = s\<rparr> | _ \<Rightarrow> None)"

definition demo_accept_codec :: "PeeringAccept codec" where
  "demo_accept_codec = mk_codec (\<lambda>m. Some [be32 (ac_dedupe_ttl_s m), be32 (ac_gossip_rate_qps m)])
     (\<lambda>fs. case fs of [t, q] \<Rightarrow> Some \<lparr>ac_dedupe_ttl_s = be_word t, ac_gossip_rate_qps = be_word q\<rparr> | _ \<Rightarrow> None)"

definition no_codec :: "'m codec" where
  "no_codec = \<lparr>det = (\<lambda>_. None), enc = (\<lambda>_. None), dec = (\<lambda>_. None)\<rparr>"

definition demo_cd :: fed_codec where
  "demo_cd = \<lparr>c_env = demo_env_codec, c_hello = demo_hello_codec, c_auth = demo_auth_codec, c_accept = demo_accept_codec, c_root = demo_root_codec,
     c_evidence = demo_evidence_codec, c_request = demo_request_codec, c_proof = demo_proof_codec, c_applied = no_codec,
     c_reversal = no_codec, c_reject = no_codec, c_revocation = demo_revocation_codec, c_exchange = no_codec\<rparr>"

lemma demo_cd_rt: "codec_rt (c_proof demo_cd)" "codec_rt (c_env demo_cd)" "codec_rt (c_root demo_cd)"
  "codec_rt (c_hello demo_cd)" "codec_rt (c_auth demo_cd)" "codec_rt (c_accept demo_cd)"
  unfolding demo_cd_def demo_proof_codec_def demo_env_codec_def demo_root_codec_def demo_hello_codec_def demo_auth_codec_def demo_accept_codec_def
  by (auto intro!: mk_codec_rt simp: dec_enc_fed_kind comp_def split: option.splits)

section \<open>A concrete transfer\<close>

definition demo_src :: bytes where "demo_src = replicate 32 8"
definition demo_dst :: bytes where "demo_dst = replicate 32 9"

definition demo_tc_cfg :: "bytes \<Rightarrow> tc_cfg" where
  "demo_tc_cfg t = \<lparr>cfg_my_id = t, cfg_priv = zeros 32 @ t, cfg_ledger = True, cfg_issued_cap = 16, cfg_cr = demo_crypto,
     cfg_cd = demo_cd\<rparr>"

definition demo_ps :: "bytes \<Rightarrow> party" where
  "demo_ps t = \<lparr>pt_cfg = demo_tc_cfg t, pt_env = demo_env\<rparr>"

lemma demo_parties_ok: "parties_ok demo_ps demo_cd"
  by (simp add: parties_ok_def demo_ps_def demo_tc_cfg_def demo_cd_rt)

definition demo_start :: StartTransferInput where
  "demo_start = \<lparr>si_source_tracker_id = demo_src, si_identity_id = alice, si_amount = 60, si_nonce = replicate 32 5,
     si_consumer_sig = to_array 64 (alice @ alice @ be64 60 @ replicate 32 5), si_consumer_pub = alice, si_timestamp = 7300\<rparr>"

definition all_sends :: net where "all_sends = (\<lambda>_ _ _. None)"

definition demo_req :: TransferProofRequest where
  "demo_req = start_request (demo_tc_cfg demo_dst) demo_start"

definition demo_req_bytes :: bytes where
  "demo_req_bytes = the (enc demo_request_codec demo_req)"

definition demo_req_env :: FedEnvelope where
  "demo_req_env = \<lparr>fe_sender_id = demo_dst, fe_kind = KIND_TRANSFER_PROOF_REQUEST, fe_payload = demo_req_bytes, fe_sender_sig = []\<rparr>"

text \<open>The hash of the second entry of \<open>demo_s3\<close>, written out.\<close>

definition demo_tip :: bytes where
  "demo_tip = [11, 206, 210, 139, 11, 171, 174, 243, 14, 173, 113, 65, 30, 73, 187, 236, 14, 108, 167, 15, 221, 253, 191, 191,
     241, 241, 241, 191, 191, 95, 186, 186]"

definition demo_out :: TransferOutHookOut where
  "demo_out = \<lparr>oo_chain_tip_hash = demo_tip, oo_seq = 2\<rparr>"

definition demo_proof_bytes :: bytes where
  "demo_proof_bytes = (case build_proof (demo_tc_cfg demo_src) demo_req demo_out of Inr b \<Rightarrow> b | Inl _ \<Rightarrow> [])"

definition demo_proof_env :: FedEnvelope where
  "demo_proof_env = \<lparr>fe_sender_id = demo_src, fe_kind = KIND_TRANSFER_PROOF, fe_payload = demo_proof_bytes, fe_sender_sig = []\<rparr>"

lemma demo_parse: "parse_request (demo_tc_cfg demo_src) demo_req_env demo_dst = Inr demo_req"
  by code_simp

lemma demo_begin: "start_begin (demo_tc_cfg demo_dst) all_sends demo_start empty_tc =
    (StWaiting, [(demo_src, KIND_TRANSFER_PROOF_REQUEST, demo_req_bytes)],
     empty_tc\<lparr>tc_pending := [replicate 32 5 \<mapsto> \<lparr>pd_ch = None, pd_rej = None\<rparr>]\<rparr>)"
proof -
  let ?r = "start_begin (demo_tc_cfg demo_dst) all_sends demo_start empty_tc"
  have "fst ?r = StWaiting" "fst (snd ?r) = [(demo_src, KIND_TRANSFER_PROOF_REQUEST, demo_req_bytes)]" by code_simp+
  moreover obtain a b c where r: "?r = (a, b, c)" by (metis prod_cases3)
  ultimately have e: "?r = (StWaiting, [(demo_src, KIND_TRANSFER_PROOF_REQUEST, demo_req_bytes)], c)" by simp
  from start_begin_waiting(1) [OF e] show ?thesis unfolding e by (simp add: empty_tc_def demo_start_def)
qed

definition demo_w1 :: world where
  "demo_w1 = upd_node demo_src (nd_store_update (\<lambda>_. demo_s1)) new_world"

definition demo_w2 :: world where
  "demo_w2 = emit demo_dst [(demo_src, KIND_TRANSFER_PROOF_REQUEST, demo_req_bytes)] (upd_node demo_dst
     (\<lambda>n. n\<lparr>nd_tc := empty_tc\<lparr>tc_pending := [replicate 32 5 \<mapsto> \<lparr>pd_ch = None, pd_rej = None\<rparr>]\<rparr>,
        nd_wait := (nd_wait n)(si_nonce demo_start \<mapsto> demo_start)\<rparr>) demo_w1)"

definition demo_w3 :: world where
  "demo_w3 = upd_node demo_src (\<lambda>n. n\<lparr>nd_store := demo_s3, nd_debited := nd_debited n @ [(demo_dst, demo_req, demo_out)],
     nd_outs := nd_outs n @ [(tq_nonce demo_req, demo_dst, tq_amount demo_req)]\<rparr>) demo_w2"

definition demo_issued :: "string \<times> msg list \<times> transferCoordinator" where
  "demo_issued = request_issue (demo_tc_cfg demo_src) 0 [] all_sends demo_dst demo_req demo_out empty_tc"

definition demo_w4 :: world where
  "demo_w4 = emit demo_src (fst (snd demo_issued)) (upd_node demo_src (\<lambda>n. n\<lparr>nd_tc := snd (snd demo_issued),
     nd_debited := remove1 (demo_dst, demo_req, demo_out) (nd_debited n)\<rparr>) demo_w3)"

definition demo_proof :: FedTransferProof where
  "demo_proof = (let p = request_proof demo_req demo_out in p\<lparr>tp_source_tracker_sig :=
     (case CanonicalTransferProofPreSig demo_cd (Some p) of Inl e \<Rightarrow> [] | Inr cb \<Rightarrow> to_array 64 (demo_src @ cb))\<rparr>)"

definition demo_got :: transferCoordinator where
  "demo_got = snd (OnProof (demo_tc_cfg demo_dst) demo_proof_env demo_src
     (empty_tc\<lparr>tc_pending := [replicate 32 5 \<mapsto> \<lparr>pd_ch = None, pd_rej = None\<rparr>]\<rparr>))"

definition demo_w5 :: world where
  "demo_w5 = upd_node demo_dst (nd_tc_update (\<lambda>_. demo_got)) demo_w4"

definition demo_s4 :: store where
  "demo_s4 = snd (AppendTransferIn demo_env no_faults (in_record (zeros 32) 1 (credit_input demo_start demo_proof)) empty_store)"

definition demo_w6 :: world where
  "demo_w6 = upd_node demo_dst (\<lambda>n. n\<lparr>nd_store := demo_s4, nd_wait := (nd_wait n)(si_nonce demo_start := None),
      nd_done := nd_done n @ [(demo_start, proof_output demo_proof)],
      nd_ins := nd_ins n @ [(si_nonce demo_start, tp_source_tracker_id demo_proof, tp_amount demo_proof)]\<rparr>) demo_w5"

lemma demo_src_dst: "demo_src \<noteq> demo_dst" by code_simp

lemma demo_step1: "world_step demo_ps {} new_world demo_w1"
proof -
  have "writer_step demo_env empty_store demo_s1" unfolding demo_s1_def by (rule writer_grant) (rule prod.collapse [symmetric])
  then show ?thesis unfolding demo_w1_def by (intro ws_writer) (simp_all add: demo_ps_def new_world_def new_node_def)
qed

lemma demo_step2: "world_step demo_ps {} demo_w1 demo_w2"
  unfolding demo_w2_def
  by (rule ws_begin [where net = all_sends]) (use demo_begin demo_src_dst in \<open>simp_all add: demo_ps_def demo_w1_def new_world_def new_node_def\<close>)

lemma demo_debit: "\<exists>e. AppendTransferOut demo_env no_faults (out_record (er_hash (last (st_entries demo_s1))) 2 (hook_input demo_req)) demo_s1
    = (Inr e, demo_s3) \<and> Hash demo_crypto (en_body e) = Inr (oo_chain_tip_hash demo_out) \<and> eb_seq (the (en_body e)) = oo_seq demo_out"
proof -
  let ?a = "AppendTransferOut demo_env no_faults demo_tout demo_s1"
  have t: "out_record (er_hash (last (st_entries demo_s1))) 2 (hook_input demo_req) = demo_tout" by code_simp
  obtain e where e: "?a = (Inr e, demo_s3)" using demo_tout_ok by blast
  have "Hash demo_crypto (en_body (projr (fst ?a))) = Inr (oo_chain_tip_hash demo_out)"
    "eb_seq (the (en_body (projr (fst ?a)))) = oo_seq demo_out" by code_simp+
  then show ?thesis unfolding t e by simp
qed

lemma demo_step3: "world_step demo_ps {} demo_w2 demo_w3"
proof -
  obtain e where e: "AppendTransferOut demo_env no_faults (out_record (er_hash (last (st_entries demo_s1))) 2 (hook_input demo_req)) demo_s1
    = (Inr e, demo_s3)" "Hash demo_crypto (en_body e) = Inr (oo_chain_tip_hash demo_out)" "eb_seq (the (en_body e)) = oo_seq demo_out"
    using demo_debit by blast
  have out: "demo_out = \<lparr>oo_chain_tip_hash = oo_chain_tip_hash demo_out, oo_seq = eb_seq (the (en_body e))\<rparr>"
    using e(3) by simp
  show ?thesis unfolding demo_w3_def
    apply (subst out)
    apply (rule ws_debit [where env = demo_req_env])
    using demo_parse e demo_src_dst by (simp_all add: demo_ps_def demo_tc_cfg_def demo_env_def delivered_def demo_w2_def demo_w1_def demo_req_env_def)
qed

lemma demo_issued_eval: "fst (snd demo_issued) = [(demo_dst, KIND_TRANSFER_PROOF, demo_proof_bytes)]"
  by code_simp

lemma demo_proof_dec: "dec demo_proof_codec demo_proof_bytes = Some demo_proof"
  by code_simp

lemma demo_proof_sel: "tp_source_tracker_id demo_proof = demo_src" "tp_amount demo_proof = 60" "tp_nonce demo_proof = replicate 32 5"
  by (simp_all add: demo_proof_def Let_def request_proof_def demo_req_def start_request_def demo_start_def)

lemma demo_got_eval: "tc_pending demo_got (replicate 32 5) = Some \<lparr>pd_ch = Some demo_proof, pd_rej = None\<rparr>"
proof -
  have v: "ValidateTransferProof (Some demo_proof) = None" "tp_dest_tracker_id demo_proof = demo_dst" "to_array 32 (tp_nonce demo_proof) = replicate 32 5"
    by code_simp+
  show ?thesis by (simp add: demo_got_def OnProof_def demo_proof_env_def demo_tc_cfg_def demo_cd_def demo_proof_dec v demo_proof_sel Let_def)
qed

lemma demo_step4: "world_step demo_ps {} demo_w3 demo_w4"
  unfolding demo_w4_def
  by (rule ws_issue [where now = 0 and ord = "[]" and net = all_sends and l = "fst demo_issued" and f = demo_dst and req = demo_req and out = demo_out])
    (use demo_src_dst in \<open>simp_all add: demo_ps_def demo_w3_def demo_w2_def demo_w1_def new_world_def new_node_def demo_issued_def\<close>)

lemma demo_step5: "world_step demo_ps {} demo_w4 demo_w5"
  unfolding demo_w5_def
  by (rule ws_proof [where f = demo_src and env = demo_proof_env and l = "fst (OnProof (demo_tc_cfg demo_dst) demo_proof_env demo_src
     (empty_tc\<lparr>tc_pending := [replicate 32 5 \<mapsto> \<lparr>pd_ch = None, pd_rej = None\<rparr>]\<rparr>))"])
    (use demo_src_dst demo_issued_eval demo_proof_dec in \<open>simp_all add: demo_ps_def delivered_def demo_proof_env_def demo_w4_def demo_w3_def demo_w2_def demo_w1_def new_world_def new_node_def demo_got_def\<close>)

lemma demo_verified: "proof_verified (demo_tc_cfg demo_dst) demo_src demo_proof"
proof -
  have "case CanonicalTransferProofPreSig demo_cd (Some demo_proof) of Inl e \<Rightarrow> False
    | Inr cb \<Rightarrow> ed_verify demo_crypto demo_src cb (tp_source_tracker_sig demo_proof)"
    by code_simp
  then show ?thesis by (simp add: proof_verified_def demo_tc_cfg_def split: sum.splits)
qed

lemma demo_credit: "\<exists>e. AppendTransferIn demo_env no_faults (in_record (zeros 32) 1 (credit_input demo_start demo_proof)) empty_store = (Inr e, demo_s4)"
proof -
  have "(case fst (AppendTransferIn demo_env no_faults (in_record (zeros 32) 1 (credit_input demo_start demo_proof)) empty_store)
    of Inr e \<Rightarrow> True | _ \<Rightarrow> False)"
    by code_simp
  then show ?thesis by (auto simp: demo_s4_def prod_eq_iff split: sum.splits)
qed

lemma demo_step6: "world_step demo_ps {} demo_w5 demo_w6"
proof -
  obtain e where e: "AppendTransferIn demo_env no_faults (in_record (zeros 32) 1 (credit_input demo_start demo_proof)) empty_store = (Inr e, demo_s4)"
    using demo_credit by blast
  obtain p where p: "tc_pending demo_got (replicate 32 5) = Some p" "pd_ch p = Some demo_proof" using demo_got_eval by auto
  have n: "si_nonce demo_start = replicate 32 5" by (simp add: demo_start_def)
  show ?thesis unfolding demo_w6_def
    by (rule ws_credit [where p = p and pub = demo_src])
      (use e p demo_src_dst demo_verified in \<open>simp_all add: n demo_ps_def demo_w5_def demo_w4_def demo_w3_def demo_w2_def demo_w1_def new_world_def new_node_def\<close>)
qed

lemma demo_run: "(world_step demo_ps {})\<^sup>*\<^sup>* new_world demo_w6"
  by (rule converse_rtranclp_into_rtranclp, rule demo_step1, rule converse_rtranclp_into_rtranclp, rule demo_step2,
      rule converse_rtranclp_into_rtranclp, rule demo_step3, rule converse_rtranclp_into_rtranclp, rule demo_step4,
      rule converse_rtranclp_into_rtranclp, rule demo_step5, rule r_into_rtranclp, rule demo_step6)

lemma demo_w6_eval:
  "nd_ins (wd_node demo_w6 demo_dst) = [(replicate 32 5, demo_src, 60)]" "credited_from demo_src (wd_node demo_w6 demo_dst) = 60"
  "nd_store (wd_node demo_w6 demo_src) = demo_s3"
proof -
  show i: "nd_ins (wd_node demo_w6 demo_dst) = [(replicate 32 5, demo_src, 60)]"
    using demo_proof_sel demo_src_dst by (simp add: demo_w6_def demo_w5_def demo_w4_def demo_w3_def demo_w2_def demo_w1_def new_world_def new_node_def demo_start_def)
  show "credited_from demo_src (wd_node demo_w6 demo_dst) = 60" by (simp add: credited_from_def i)
  show "nd_store (wd_node demo_w6 demo_src) = demo_s3"
    using demo_src_dst by (simp add: demo_w6_def demo_w5_def demo_w4_def demo_w3_def)
qed

end
