(* ===== verification/TB_Transfer_Props.thy ===== *)
theory TB_Transfer_Props
  imports TB_Fed_Demo
begin

text \<open>
  The properties of credit transfers between trackers, over every run of the system of \<open>TB_Transfer_Spec\<close>.
\<close>

section \<open>Conservation\<close>



section \<open>The handlers implement the system\<close>

definition run_to :: "(bytes \<Rightarrow> party) \<Rightarrow> bytes set \<Rightarrow> world \<Rightarrow> bytes \<Rightarrow> msg list \<Rightarrow> transferCoordinator \<Rightarrow> store \<Rightarrow> bool" where
  "run_to ps bad w t ms tc' s' \<longleftrightarrow> (\<exists>w'. (world_step ps bad)\<^sup>*\<^sup>* w w' \<and> nd_tc (wd_node w' t) = tc' \<and>
     nd_store (wd_node w' t) = s' \<and> wd_net w' = wd_net w \<union> {t} \<times> set ms)"


definition demo_hooks :: hooks where
  "demo_hooks = \<lparr>hk_env = demo_env, hk_flt = (\<lambda>_. no_faults), hk_others = (\<lambda>_ s. s), hk_adm = True\<rparr>"


end
