(* ===== verification/TB_Federation_Props.thy ===== *)
theory TB_Federation_Props
  imports TB_Federation_Spec TB_Transfer_Props
begin

text \<open>
  The properties of the federation subsystem and their witnesses on a concrete tracker.
\<close>

section \<open>Whom a proof pays\<close>

definition alone :: "hooks \<Rightarrow> bool" where
  "alone hk \<longleftrightarrow> (\<forall>k s. hk_others hk k s = s)"

lemma alone_quiet: "alone hk \<Longrightarrow> quiet_hooks hk"
  by (simp add: alone_def quiet_hooks_def)

lemma in_attempts_None:
  assumes "alone hk" "in_attempts hk n k inp s = (None, evs, s')"
  shows "\<exists>flt prev sq e. AppendTransferIn (hk_env hk) flt (in_record prev sq inp) s = (Inr e, s')"
  using assms(2)
proof (induction n arbitrary: k)
  case (Suc n)
  obtain prev sq where t: "nextTip (hk_flt hk k) s = Inr (prev, sq)" using Suc.prems by (auto split: sum.splits)
  obtain y s1 where a: "AppendTransferIn (hk_env hk) (hk_flt hk k) (in_record prev sq inp) s = (y, s1)" by fastforce
  have o: "hk_others hk k s = s" using assms(1) by (simp add: alone_def)
  show ?case
  proof (cases y)
    case (Inl x)
    then have "s1 = s" using AppendTransferIn_cases [OF a] by auto
    then show ?thesis using Suc t a o Inl by (auto split: if_splits)
  next
    case (Inr e)
    then show ?thesis using Suc.prems t a o by auto
  qed
qed simp

section \<open>Properties\<close>


text \<open>
  C10. A row of the known peers that the operator seeded keeps the address, region and source
  the operator gave it in every later state, whatever peers gossip, however old it gets and over
  restarts with the same configuration.
\<close>

theorem allowlist_rows_pinned:
  assumes "Federation_Open cr cd cfg0 dep now False s revs known = Inr (cfg, st0)" "dp_known_peers dep"
    "p \<in> set (fg_peers cfg0)" "distinct (map al_tracker_id (fg_peers cfg0))" "al_tracker_id p \<noteq> []" "al_addr p \<noteq> []"
    "known (al_tracker_id p) = None \<or> pinned p known" "fed_run allow cfg t0 st0 t st"
  shows "pinned p (fs_known st) \<and>
    (\<forall>now' flt cfg' st'. Federation_Open cr cd cfg0 dep now' flt (fs_store st) (fs_revs st) (fs_known st) = Inr (cfg', st') \<longrightarrow>
       pinned p (fs_known st'))"
proof -
  have "pinned p (fs_known st0)"
    using Federation_Open_Inr(4) [OF assms(1)] seed_known_pinned [OF assms(4,3)] assms(2,5,6,7) by auto
  with assms(8) have st: "pinned p (fs_known st)"
    by (induction rule: fed_run.induct) (auto intro: fed_step_pinned)
  then show ?thesis using Federation_Open_Inr(4) seed_known_pinned(1) [OF assms(4,3) st] assms(2) by simp
qed


text \<open>
  A tracker that archives a root forwards it in an envelope of its own; no receiver of that copy
  archives the root, and a relayed copy that is admitted keeps the issuer's own copy out of the
  archive until the time to live is over.
\<close>

theorem relayed_roots_not_archived:
  assumes c: "Root_Apply cfgC ioC env stC = (None, stC')" "(q, frame) \<in> set (drop (length (fs_out stC)) (fs_out stC'))"
    "fe_sender_id env \<noteq> fc_my_id cfgC"
    and b: "fc_cd cfgB = fc_cd cfgC" "codec_rt (c_env (fc_cd cfgB))"
  shows "fs_store (snd (recv_frame cfgB ioB pub p frame stB)) = fs_store stB \<and>
    (\<forall>relay. UnmarshalFrame (fc_cd cfgB) frame = Inr relay \<and> dedupe_ok (fs_dedupe stB) \<and> room stB \<and> admitted cfgB ioB pub p relay stB \<and>
       calm_run allow cfgB (io_now ioB) (snd (recv_frame cfgB ioB pub p frame stB)) t st \<and>
       t < io_now ioB + dd_ttl (fs_dedupe stB) \<and> io_now io' = t \<longrightarrow>
       fs_store (snd (dispatch cfgB io' pub' p' env st)) = fs_store st)"
proof -
  from Root_Apply_None [OF c(1)] obtain m s1 where m: "dec (c_root (fc_cd cfgC)) (fe_payload env) = Some m" "ra_tracker_id m = fe_sender_id env"
    and st: "stC' = forward cfgC ioC KIND_ROOT_ATTESTATION (fe_payload env) (stC\<lparr>fs_store := s1\<rparr>)" by blast
  have "(q, frame) \<in> set (drop (length (fs_out (stC\<lparr>fs_store := s1\<rparr>))) (fs_out (forward cfgC ioC KIND_ROOT_ATTESTATION (fe_payload env) (stC\<lparr>fs_store := s1\<rparr>))))"
    using c(2) st by simp
  from forward_frames [OF this] obtain relay where
    r: "MarshalFrame (fc_cd cfgC) (Some relay) = Inr frame" "fe_sender_id relay = fc_my_id cfgC" "fe_kind relay = KIND_ROOT_ATTESTATION"
      "fe_payload relay = fe_payload env" by blast
  have u: "UnmarshalFrame (fc_cd cfgB) frame = Inr e \<Longrightarrow> e = relay" for e
    using frame_round_trip [OF b(2), of relay frame] r(1) b(1) by (auto simp: UnmarshalFrame_def split: if_splits)
  have one: "fs_store (snd (recv_frame cfgB ioB pub p frame stB)) = fs_store stB"
  proof (cases "UnmarshalFrame (fc_cd cfgB) frame")
    case (Inr e)
    have "fs_store (snd (dispatch cfgB ioB pub p relay stB)) = fs_store stB"
      by (rule foreign_root_refused [of _ _ m]) (use m r b(1) c(3) in auto)
    then show ?thesis using u [OF Inr] Inr by (simp add: recv_frame_def)
  qed (simp add: recv_frame_def)
  have two: "fs_store (snd (dispatch cfgB io' pub' p' env st)) = fs_store st"
    if h: "UnmarshalFrame (fc_cd cfgB) frame = Inr e" "dedupe_ok (fs_dedupe stB)" "room stB" "admitted cfgB ioB pub p e stB"
      "calm_run allow cfgB (io_now ioB) (snd (recv_frame cfgB ioB pub p frame stB)) t st"
      "t < io_now ioB + dd_ttl (fs_dedupe stB)" "io_now io' = t" for e
  proof -
    have run: "calm_run allow cfgB (io_now ioB) (snd (dispatch cfgB ioB pub p e stB)) t st" using h(1,5) by (simp add: recv_frame_def)
    have "\<not> admitted cfgB io' pub' p' env st"
      by (rule admitted_once [OF h(2-4) run h(6,7)]) (simp add: MessageID_def r(4) u [OF h(1)])
    from not_admitted [OF this] show ?thesis by auto
  qed
  show ?thesis using one two by blast
qed

section \<open>Evidence of equivocation\<close>

text \<open>
  Equivocation evidence of the right shape is acted on whatever its signatures are: the accused
  tracker leaves the table of peers, its health is zero, its connection stays, and attaching it
  again does not bring it back into the table, so transfers from it are refused.
\<close>

theorem evidence_acts_unverified:
  assumes "admitted cfg io pub p env st" "fe_kind env = KIND_EQUIVOCATION_EVIDENCE"
    "dec (c_evidence (fc_cd cfg)) (fe_payload env) = Some evi" "ValidateEquivocationEvidence (Some evi) = None"
    "ee_tracker_id evi = x" "x \<noteq> fc_my_id cfg" "snd (dispatch cfg io pub p env st) = st'"
  shows "fs_reg st' x = None \<and> Health_Score hc x now (fs_health st') = Fin 0 \<and> fs_peers st' = fs_peers st \<and>
    fs_reg (snd (attachPeerLocked x xpub c addr st')) x = None \<and>
    (cfg_ledger (fc_tc cfg) \<and> si_source_tracker_id inp = x \<longrightarrow>
       fst (Federation_StartTransfer cfg io' inp (snd (attachPeerLocked x xpub c addr st'))) = StReturn (Inl ErrPeerNotConnected))"
proof -
  obtain bs d where d: "dispatch cfg io pub p env st = handle cfg io p env (st\<lparr>fs_buckets := bs, fs_dedupe := d\<rparr>)"
    using admitted_marks [OF assms(1)] by blast
  have x: "to_array 32 x = x" using assms(4,5) by (auto simp: ValidateEquivocationEvidence_def fed_lens split: if_splits)
  have st': "st' = flag_offender x (forward cfg io KIND_EQUIVOCATION_EVIDENCE (fe_payload env) (st\<lparr>fs_buckets := bs, fs_dedupe := d\<rparr>))"
    using assms(2-7) d x by (simp add: handle_def OnIncomingEvidence_def)
  have r: "fs_reg st' x = None" "fs_peers st' = fs_peers st" by (simp_all add: st')
  have "x \<in> ph_equivocated (fs_health st')" by (simp add: st' flag_offender_def Let_def OnEquivocation_def)
  then have "Health_Score hc x now (fs_health st') = Fin 0" by (simp add: Health_Score_def)
  moreover have a: "fs_reg (snd (attachPeerLocked x xpub c addr st')) x = None"
    using r(1) by (simp add: attachPeerLocked_def Reg_Update_def)
  ultimately show ?thesis using r by (simp add: Federation_StartTransfer_def Reg_IsActive_def)
qed

text \<open>
  The source answers a request with the proof it has cached for the nonce without looking at the
  identity of the request, and the destination pays the identity of its caller without looking
  at the identity of the proof.
\<close>

theorem proof_pays_caller:
  assumes src: "parse_request cfgS env d = Inr req" "tc_issued tcS (to_array 32 (tq_nonce req)) = Some c"
      "netS d KIND_TRANSFER_PROOF (ip_payload c) = None"
    and dst: "proof_verified cfgD pub pr" "alone hk" "chain_inv (hk_env hk) s"
      "Hook_AppendTransferIn hk (credit_input inp pr) s = (None, evs, s')"
  shows "OnRequest cfgS hkS now ord netS env d tcS sS = (''transfer_request_replayed'', [(d, KIND_TRANSFER_PROOF, ip_payload c)], [], tcS, sS) \<and>
    fst (start_resume cfgD hk now ord netD (Some pub) inp (GotProof pr) tcD s) = Inr (proof_output pr) \<and>
    abs_bal s' = acct_add (si_identity_id inp) (uint (tp_amount pr)) (abs_bal s)"
proof (intro conjI)
  show "OnRequest cfgS hkS now ord netS env d tcS sS = (''transfer_request_replayed'', [(d, KIND_TRANSFER_PROOF, ip_payload c)], [], tcS, sS)"
    using src by (simp add: OnRequest_def request_replay_def send_def)
  show "fst (start_resume cfgD hk now ord netD (Some pub) inp (GotProof pr) tcD s) = Inr (proof_output pr)"
    using dst by (auto simp: start_resume_def start_credit_def proof_verified_def)
  from in_attempts_None [OF dst(2) dst(4) [unfolded Hook_AppendTransferIn_def]] obtain flt prev sq e where
    a: "AppendTransferIn (hk_env hk) flt (in_record prev sq (credit_input inp pr)) s = (Inr e, s')" by blast
  from AppendTransferIn_cases [OF a] obtain ai body where
    app: "appended (hk_env hk) flt ai s body e s'" and u: "tin_input (in_record prev sq (credit_input inp pr)) ai body" by auto
  show "abs_bal s' = acct_add (si_identity_id inp) (uint (tp_amount pr)) (abs_bal s)"
    using appended_one(1) [OF app chain_inv_balances [OF dst(3)], of "uint (tp_amount pr)" "si_identity_id inp"] u
    by (simp add: tin_input_def in_record_def credit_input_def)
qed

text \<open>
  C9. Two trackers that hold each other's keys and exchange their frames over a working
  connection both finish the handshake, each with the id and the key of the other and with the
  same lifetime, rate and features.
\<close>

theorem handshake_completes:
  assumes a: "speaker cr cd a apriv apub na nb" and b: "speaker cr cd b bpriv bpub nb na" and cd: "hs_codecs cd"
    and acc: "carried cr cd bpriv b KIND_PEERING_ACCEPT (accept_op cd)" and ex: "expected a = Some apub"
    and io: "io_fine ioA na" "io_fine ioB nb"
    and wire: "\<forall>k<3. hs_recv ioA k = Inr (snd (RunHandshakeListener cr cd b bpriv expected ioB) ! k)"
      "\<forall>k<2. hs_recv ioB k = Inr (snd (RunHandshakeDialer cr cd a apriv b bpub ioA) ! k)"
  shows "\<exists>ra rb. fst (RunHandshakeDialer cr cd a apriv b bpub ioA) = Inr ra \<and> hr_peer_tracker_id ra = b \<and> hr_peer_pub_key ra = bpub \<and>
    fst (RunHandshakeListener cr cd b bpriv expected ioB) = Inr rb \<and> hr_peer_tracker_id rb = a \<and> hr_peer_pub_key rb = apub \<and>
    hr_dedupe_ttl ra = hr_dedupe_ttl rb \<and> hr_gossip_rate_qps ra = hr_gossip_rate_qps rb \<and> hr_peer_features ra = hr_peer_features rb"
proof -
  let ?D = "RunHandshakeDialer cr cd a apriv b bpub ioA" and ?L = "RunHandshakeListener cr cd b bpriv expected ioB"
  have w: "hs_recv ioB 0 = Inr (snd ?D ! 0)" "hs_recv ioB 1 = Inr (snd ?D ! 1)" "hs_recv ioA 0 = Inr (snd ?L ! 0)"
    "hs_recv ioA 1 = Inr (snd ?L ! 1)" "hs_recv ioA 2 = Inr (snd ?L ! 2)" using wire by auto
  have b0: "hs_recv ioB 0 = Inr (hello_frame cr cd apriv a na)" using dialer_hello_first [OF a cd io(1), of b bpub] w(1) by auto
  have a0: "hs_recv ioA 0 = Inr (hello_frame cr cd bpriv b nb)"
    using listener_hello_first [where expected = expected, OF b a cd io(2) b0 ex] w(3) by auto
  have b1: "hs_recv ioB 1 = Inr (auth_frame cr cd apriv a nb)" using dialer_sends [OF a b cd io(1) a0] w(2) by simp
  note L = listener_accepts [where expected = expected, OF b a cd io(2) b0 b1 ex acc]
  obtain he ae where h: "recvKind cd (Inr (hello_frame cr cd bpriv b nb)) KIND_HELLO = Inr he"
      "validatePeerHello cr cd he [b \<mapsto> bpub] = Inr (b, bpub, nb, SupportedFeatures)"
    and au: "recvKind cd (Inr (auth_frame cr cd bpriv b na)) KIND_PEER_AUTH = Inr ae" "validatePeerAuth cr cd ae bpub na = None"
    using hello_accepted [OF b cd, of "[b \<mapsto> bpub]"] auth_accepted [OF b cd] by auto
  have e: "codec_rt (c_env cd)" "codec_rt (c_accept cd)" and k: "key_pair cr bpriv bpub" using cd b by (auto simp: hs_codecs_def speaker_def)
  obtain ab where ab: "enc (c_accept cd) \<lparr>ac_dedupe_ttl_s = word_of_int (go_div (3600 * second_ns) second_ns), ac_gossip_rate_qps = 100\<rparr> = Some ab"
    using carriedD(3) [OF acc e(1)] by (auto simp: accept_op_def)
  have ttl: "uint (word_of_int (go_div (3600 * second_ns) second_ns) :: u32) * second_ns = 3600 * second_ns" by (simp add: go_div_def second_ns_def)
  show ?thesis unfolding L
    using w(4,5) [unfolded L] a0 h au carriedD(2) [OF acc e(1)] codec_rtD [OF e(2) ab] io(1) key_pair_Verify [OF k, of ab] ttl
      sendHello_fine [OF a cd] sendPeerAuth_fine [OF a cd] ab
    by (simp add: RunHandshakeDialer_def io_fine_def accept_op_def)
qed

text \<open>
  A tracker \<open>c\<close> that \<open>a\<close> dials can hand \<open>a\<close>'s answers on to \<open>b\<close>: it puts \<open>b\<close>'s nonce into its own hello, and \<open>b\<close>
  accepts the connection of \<open>c\<close> as the peer \<open>a\<close>, although \<open>a\<close> has never talked to \<open>b\<close>.
\<close>

text \<open>
  The answer to a nonce does not name the tracker it is meant for: a tracker c that a dials can
  put the nonce of b into its own hello, and b then accepts the connection of c as the peer a,
  which has never talked to b.
\<close>

theorem handshake_can_be_relayed:
  assumes a: "speaker cr cd a apriv apub na nb" and c: "speaker cr cd c cpriv cpub nb na" and b: "speaker cr cd b bpriv bpub nb na"
    and cd: "hs_codecs cd" and acc: "carried cr cd bpriv b KIND_PEERING_ACCEPT (accept_op cd)"
    and cfg: "fc_cr cfg = cr" "fc_cd cfg = cd" "fc_my_id cfg = b" "fc_priv cfg = bpriv" "\<not> fs_closed st"
      "fs_reg st a = Some info" "pi_pub_key info = apub"
    and io: "io_fine ioA na" "hs_recv ioA 0 = Inr (hello_frame cr cd cpriv c nb)" "io_fine ioB nb"
      "\<forall>k<2. hs_recv ioB k = Inr (snd (RunHandshakeDialer cr cd a apriv c cpub ioA) ! k)"
  shows "fs_peers (snd (acceptInbound cfg ioB conn addr st)) a = Some conn \<and>
    Reg_IsActive a (fs_reg (snd (acceptInbound cfg ioB conn addr st)))"
proof -
  have d: "snd (RunHandshakeDialer cr cd a apriv c cpub ioA) = [hello_frame cr cd apriv a na, auth_frame cr cd apriv a nb]"
    by (rule dialer_sends [OF a c cd io(1,2)])
  have r: "hs_recv ioB 0 = Inr (hello_frame cr cd apriv a na)" "hs_recv ioB 1 = Inr (auth_frame cr cd apriv a nb)"
    using io(4) by (simp_all add: d)
  have "RunHandshakeListener cr cd b bpriv (\<lambda>i. map_option pi_pub_key (fs_reg st i)) ioB = (Inr \<lparr>hr_peer_tracker_id = a, hr_peer_pub_key = apub,
    hr_dedupe_ttl = 3600 * second_ns, hr_gossip_rate_qps = 100, hr_peer_features = NegotiateFeatures SupportedFeatures SupportedFeatures\<rparr>,
    [hello_frame cr cd bpriv b nb, auth_frame cr cd bpriv b na, accept_frame cr cd bpriv b])"
    by (rule listener_accepts [OF b a cd io(3) r _ acc]) (simp add: cfg)
  then show ?thesis using cfg by (simp add: acceptInbound_def attachPeerLocked_def Reg_Update_def Reg_IsActive_def)
qed

section \<open>A concrete tracker\<close>

definition demo_c :: bytes where "demo_c = replicate 32 6"

definition no_limit :: RateBucket where "no_limit = \<lparr>rb_rate = Fin 0, rb_burst = 0\<rparr>"

definition demo_peer :: "bytes \<Rightarrow> AllowlistedPeer" where
  "demo_peer t = \<lparr>al_tracker_id = t, al_pub_key = t, al_addr = ''a:1'', al_region = ''eu''\<rparr>"

definition demo_fed :: "bytes \<Rightarrow> bytes list \<Rightarrow> FedConfig" where
  "demo_fed t ps = \<lparr>fg_my_tracker_id = t, fg_my_priv = zeros 32 @ t, fg_handshake_timeout = 0, fg_dedupe_ttl = 0, fg_dedupe_cap = 0,
     fg_gossip_rate_qps = 0, fg_send_queue_depth = 0, fg_publish_cadence = 0, fg_idle_timeout = 0, fg_redial_base = 0,
     fg_redial_max = 0, fg_transfer_timeout = 0, fg_issued_proof_cap = 0, fg_peers = map demo_peer ps,
     fg_health = \<lparr>hc_uptime_window = 1, hc_rev_gossip_window = 1, hc_latency_target = 1, hc_uptime_weight = Fin (1/2),
       hc_rev_gossip_weight = Fin (1/4), hc_latency_weight = Fin (1/4)\<rparr>,
     fg_peer_exchange_cadence = 0,
     fg_rate_limit = \<lparr>rl_root_attestation = no_limit, rl_revocation = no_limit, rl_peer_exchange = no_limit,
       rl_equivocation_evidence = no_limit, rl_transfer = no_limit\<rparr>,
     fg_known_peers_prune_interval = 0, fg_known_peers_max_age = 0, fg_low_health_threshold = Fin (1/4), fg_low_health_window = 0,
     fg_health_watch_interval = 0\<rparr>"

definition all_deps :: Deps where
  "all_deps = \<lparr>dp_transport = True, dp_root_src = True, dp_archive = True, dp_metrics = True, dp_ledger = True, dp_revocations = True,
     dp_known_peers = True\<rparr>"

definition demo_fcfg :: "bytes \<Rightarrow> bytes list \<Rightarrow> fed_cfg" where
  "demo_fcfg t ps = open_cfg demo_crypto demo_cd (withDefaults (demo_fed t ps)) all_deps"

definition demo_fst :: "bytes \<Rightarrow> bytes list \<Rightarrow> fed_state" where
  "demo_fst t ps = \<lparr>fs_reg = seed_registry (map demo_peer ps), fs_peers = Map.empty, fs_closed = False,
     fs_dedupe = NewDedupe (3600 * second_ns) 65536, fs_buckets = Map.empty, fs_health = NewPeerHealth, fs_self_equiv = 0,
     fs_store = empty_store, fs_revs = Map.empty, fs_known = seed_known 0 False (map demo_peer ps) Map.empty,
     fs_tc = empty_tc, fs_events = [], fs_out = []\<rparr>"

lemma demo_open: "Federation_Open demo_crypto demo_cd (demo_fed t ps) all_deps 0 False empty_store Map.empty Map.empty =
    Inr (demo_fcfg t ps, demo_fst t ps)"
  by (simp add: Federation_Open_def all_deps_def demo_fcfg_def demo_fst_def Let_def withDefaults_def demo_fed_def dflt_def hour_ns_def
      newTransferCoordinator_def empty_tc_def)

definition demo_io :: "time \<Rightarrow> bytes list \<Rightarrow> fed_io" where
  "demo_io t ps = \<lparr>io_now = t, io_peers = ps, io_keys = [], io_flt = no_faults, io_rev_fault = False, io_known_fault = False,
     io_send = (\<lambda>_ _. None), io_hk = demo_hooks\<rparr>"

text \<open>The frame of a payload signed by the tracker \<open>t\<close>.\<close>

definition demo_frame :: "bytes \<Rightarrow> FedKind \<Rightarrow> bytes \<Rightarrow> FedEnvelope" where
  "demo_frame t k b = env_of demo_crypto (zeros 32 @ t) t k b"

lemma demo_key_pair: "length t = 32 \<Longrightarrow> key_pair demo_crypto (zeros 32 @ t) t"
  by (simp add: key_pair_def demo_crypto_def PrivateKeySize_def PublicKeySize_def SignatureSize_def)

lemma demo_fcfg_sel [simp]:
  "fc_cr (demo_fcfg t ps) = demo_crypto" "fc_cd (demo_fcfg t ps) = demo_cd" "fc_my_id (demo_fcfg t ps) = t"
  "fc_priv (demo_fcfg t ps) = zeros 32 @ t" "fc_rev_archive (demo_fcfg t ps)" "fc_known_archive (demo_fcfg t ps)"
  "cfg_ledger (fc_tc (demo_fcfg t ps))"
  by (simp_all add: demo_fcfg_def open_cfg_def withDefaults_def demo_fed_def Let_def all_deps_def open_tc_cfg_def newTransferCoordinator_def)

lemma demo_unlimited: "fst (Limiter_Allow (fc_rate (demo_fcfg t ps)) n n' p k bs)"
  by (cases k) (simp_all add: Limiter_Allow_def demo_fcfg_def open_cfg_def withDefaults_def demo_fed_def Let_def no_limit_def)

lemma new_dedupe: "Dedupe_Seen n n' i (NewDedupe ttl cp) = (False, NewDedupe ttl cp)"
  by (simp add: Dedupe_Seen_def evictExpiredLocked_def NewDedupe_def)

lemma demo_fst_sel [simp]:
  "fs_dedupe (demo_fst t ps) = NewDedupe (3600 * second_ns) 65536" "dedupe_ok (NewDedupe ttl cp)" "room (demo_fst t ps)"
  "dd_ttl (NewDedupe ttl cp) = ttl" "fs_store (demo_fst t ps) = empty_store" "fs_revs (demo_fst t ps) = Map.empty"
  by (simp_all add: demo_fst_def NewDedupe_ok room_def) (simp_all add: NewDedupe_def)

lemma demo_admitted:
  assumes "fs_dedupe st = NewDedupe ttl cp" "VerifyFedEnvelope demo_crypto pub (Some env) = None"
  shows "admitted (demo_fcfg t ps) io pub p env st"
  using assms by (simp add: admitted_def demo_unlimited new_dedupe)

text \<open>Every short payload of a known kind is carried.\<close>

lemma demo_carried:
  assumes "length t = 32" "b \<noteq> []" "length b < 256" "enc_fed_kind k = Some x" "k \<noteq> KIND_UNSPECIFIED"
  shows "carried demo_crypto demo_cd (zeros 32 @ t) t k (Some b)"
proof -
  let ?e = "env_of demo_crypto (zeros 32 @ t) t k b"
  have sig: "length (ed_sign demo_crypto (zeros 32 @ t) b) = 64" by (simp add: demo_crypto_def)
  have v: "ValidateFedEnvelope (Some ?e) = None"
    using assms sig by (cases k) (simp_all add: ValidateFedEnvelope_def fed_lens)
  have f: "enc (c_env demo_cd) ?e = Some (enc_fields [t, [x], b, ed_sign demo_crypto (zeros 32 @ t) b])"
    using assms sig by (simp add: demo_cd_def demo_env_codec_def mk_codec_def Let_def)
  have "send_signed demo_crypto demo_cd (zeros 32 @ t) t k (Some b) None = (None, [enc_fields [t, [x], b, ed_sign demo_crypto (zeros 32 @ t) b]])"
    using assms v f by (simp add: send_signed_def SignFedEnvelope_def PrivateKeySize_def fed_lens Let_def env_of_def MarshalFrame_def)
  then show ?thesis using assms sig by (simp add: carried_def MaxFrameBytes_def)
qed

section \<open>Revocations\<close>

definition demo_rev :: Revocation where
  "demo_rev = (let r = \<lparr>rv_tracker_id = demo_src, rv_identity_id = alice, rv_reason = REVOCATION_REASON_ABUSE, rv_revoked_at = 7,
       rv_tracker_sig = []\<rparr>
     in r\<lparr>rv_tracker_sig := to_array 64 (demo_src @ the (enc demo_revocation_codec r))\<rparr>)"

definition demo_rev_bytes :: bytes where
  "demo_rev_bytes = the (enc demo_revocation_codec demo_rev)"

definition demo_rev_env :: FedEnvelope where
  "demo_rev_env = demo_frame demo_c KIND_REVOCATION demo_rev_bytes"

definition demo_rev_frame :: bytes where
  "demo_rev_frame = frame_of demo_crypto demo_cd (zeros 32 @ demo_c) demo_c KIND_REVOCATION (Some demo_rev_bytes)"

definition demo_relayed :: fed_state where
  "demo_relayed = snd (recv_frame (demo_fcfg demo_dst [demo_src, demo_c]) (demo_io 5 []) demo_c demo_c
     demo_rev_frame (demo_fst demo_dst [demo_src, demo_c]))"

lemma demo_rev_enc: "enc demo_revocation_codec demo_rev = Some demo_rev_bytes" "demo_rev_bytes \<noteq> []" "length demo_rev_bytes < 256"
  by (simp_all add: demo_rev_bytes_def demo_revocation_codec_def mk_codec_def Let_def demo_rev_def demo_src_def alice_def)

lemma demo_rev_codec: "codec_rt demo_revocation_codec"
  unfolding demo_revocation_codec_def by (rule mk_codec_rt) (auto split: if_splits)

lemma demo_rev_facts:
  "UnmarshalFrame demo_cd demo_rev_frame = Inr demo_rev_env" "VerifyFedEnvelope demo_crypto demo_c (Some demo_rev_env) = None"
  "dec (c_revocation demo_cd) (fe_payload demo_rev_env) = Some demo_rev" "ValidateRevocation (Some demo_rev) = None"
  "case CanonicalRevocationPreSig demo_cd (Some demo_rev) of Inl e \<Rightarrow> False
     | Inr cb \<Rightarrow> ed_verify demo_crypto demo_src cb (rv_tracker_sig demo_rev)"
  "fe_kind demo_rev_env = KIND_REVOCATION"
proof -
  have c: "carried demo_crypto demo_cd (zeros 32 @ demo_c) demo_c KIND_REVOCATION (Some demo_rev_bytes)"
    by (rule demo_carried) (use demo_rev_enc in \<open>simp_all add: demo_c_def\<close>)
  show "fe_kind demo_rev_env = KIND_REVOCATION" by (simp add: demo_rev_env_def demo_frame_def)
  show "UnmarshalFrame demo_cd demo_rev_frame = Inr demo_rev_env"
    using carriedD(2) [OF c demo_cd_rt(2)]
    by (auto simp: recvKind_def demo_rev_frame_def demo_rev_env_def demo_frame_def split: sum.splits if_splits)
  show "VerifyFedEnvelope demo_crypto demo_c (Some demo_rev_env) = None"
    using key_pair_Verify [OF demo_key_pair, of demo_c]
    by (simp add: VerifyFedEnvelope_def demo_rev_env_def demo_frame_def demo_c_def ValidateFedEnvelope_def fed_lens) (simp add: demo_crypto_def demo_rev_enc)
  show "dec (c_revocation demo_cd) (fe_payload demo_rev_env) = Some demo_rev"
    using codec_rtD [OF demo_rev_codec demo_rev_enc(1)] by (simp add: demo_rev_env_def demo_frame_def demo_cd_def)
  show "ValidateRevocation (Some demo_rev) = None" by code_simp
  show "case CanonicalRevocationPreSig demo_cd (Some demo_rev) of Inl e \<Rightarrow> False
     | Inr cb \<Rightarrow> ed_verify demo_crypto demo_src cb (rv_tracker_sig demo_rev)" by code_simp
qed

lemma demo_relayed_eval: "fs_revs demo_relayed (demo_src, alice) = Some (revocation_row 5 demo_rev)"
proof -
  obtain bs d where d: "dispatch (demo_fcfg demo_dst [demo_src, demo_c]) (demo_io 5 []) demo_c demo_c demo_rev_env (demo_fst demo_dst [demo_src, demo_c])
    = handle (demo_fcfg demo_dst [demo_src, demo_c]) (demo_io 5 []) demo_c demo_rev_env ((demo_fst demo_dst [demo_src, demo_c])\<lparr>fs_buckets := bs, fs_dedupe := d\<rparr>)"
    using admitted_marks [OF demo_admitted [OF demo_fst_sel(1) demo_rev_facts(2)]] by blast
  have k: "PeerPubKey ((demo_fst demo_dst [demo_src, demo_c])\<lparr>fs_buckets := bs, fs_dedupe := d\<rparr>) (to_array 32 (rv_tracker_id demo_rev)) = Some demo_src"
    by (simp add: PeerPubKey_def demo_fst_def seed_registry_def Reg_Add_def pending_peer_def demo_peer_def demo_src_def demo_c_def
       PublicKeySize_def demo_rev_def Let_def)
  obtain cb where cb: "CanonicalRevocationPreSig demo_cd (Some demo_rev) = Inr cb" "ed_verify demo_crypto demo_src cb (rv_tracker_sig demo_rev)"
    using demo_rev_facts(5) by (auto split: sum.splits)
  have r: "PutPeerRevocation False (revocation_row 5 demo_rev) Map.empty = (None, [(demo_src, alice) \<mapsto> revocation_row 5 demo_rev])"
    by (simp add: PutPeerRevocation_def revocation_row_def demo_rev_def Let_def demo_src_def alice_def sql_u64_def) (simp add: unix_def)
  show ?thesis unfolding demo_relayed_def recv_frame_def
    by (simp add: demo_rev_facts d handle_def Revocation_OnIncoming_def k cb) (simp add: demo_io_def r)
qed


section \<open>Pinned rows\<close>

theorem allowlist_rows_pinned_witness:
  "pinned (demo_peer demo_src) (fs_known demo_relayed)"
proof -
  let ?cfg = "demo_fcfg demo_dst [demo_src, demo_c]"
  have run: "fed_run {} ?cfg 5 (demo_fst demo_dst [demo_src, demo_c]) 5 demo_relayed"
    using run_step [OF run_wait [OF order_refl] fd_recv [of "{}" ?cfg "demo_io 5 []" _ demo_c demo_c demo_rev_frame, simplified] order_refl]
    by (simp add: demo_relayed_def demo_io_def)
  have d: "distinct (map al_tracker_id (fg_peers (demo_fed demo_dst [demo_src, demo_c])))"
    by (simp add: demo_fed_def demo_peer_def demo_src_def demo_c_def)
  show ?thesis
    using allowlist_rows_pinned [OF demo_open _ _ d _ _ _ run, of "demo_peer demo_src"]
    by (simp add: all_deps_def demo_fed_def) (simp add: demo_peer_def demo_src_def)
qed

section \<open>Repeated messages\<close>

lemma demo_verifies:
  assumes "length t = 32" "b \<noteq> []" "enc_fed_kind k = Some x" "k \<noteq> KIND_UNSPECIFIED"
  shows "VerifyFedEnvelope demo_crypto t (Some (demo_frame t k b)) = None"
proof -
  have "Verify demo_crypto t b (ed_sign demo_crypto (zeros 32 @ t) b)" "length (ed_sign demo_crypto (zeros 32 @ t) b) = 64"
    using key_pair_Verify [OF demo_key_pair [OF assms(1)]] by (simp_all add: demo_crypto_def)
  then show ?thesis using assms by (cases k) (simp_all add: VerifyFedEnvelope_def demo_frame_def ValidateFedEnvelope_def fed_lens)
qed

definition demo_dcfg :: fed_cfg where "demo_dcfg = demo_fcfg demo_dst [demo_src, demo_c]"
definition demo_dst0 :: fed_state where "demo_dst0 = demo_fst demo_dst [demo_src, demo_c]"


section \<open>Relayed roots\<close>

definition demo_root :: RootAttestation where
  "demo_root = \<lparr>ra_tracker_id = demo_src, ra_hour = 2, ra_merkle_root = replicate 32 3, ra_tracker_sig = replicate 64 4\<rparr>"

definition demo_root_bytes :: bytes where "demo_root_bytes = the (enc demo_root_codec demo_root)"

definition demo_root_env :: FedEnvelope where "demo_root_env = demo_frame demo_src KIND_ROOT_ATTESTATION demo_root_bytes"

definition demo_c0 :: fed_state where
  "demo_c0 = (demo_fst demo_c [demo_src, demo_dst])\<lparr>fs_peers := [demo_dst \<mapsto> 1]\<rparr>"

lemma demo_root_enc: "enc (c_root demo_cd) demo_root = Some demo_root_bytes" "demo_root_bytes \<noteq> []" "length demo_root_bytes < 256"
  by (simp_all add: demo_root_bytes_def demo_root_codec_def mk_codec_def Let_def demo_root_def demo_src_def demo_cd_def)

abbreviation "demo_ccfg \<equiv> demo_fcfg demo_c [demo_src, demo_dst]"

definition demo_c1 :: fed_state where
  "demo_c1 = snd (Root_Apply demo_ccfg (demo_io 5 [demo_dst]) demo_root_env demo_c0)"

definition demo_relay_frame :: bytes where
  "demo_relay_frame = frame_of demo_crypto demo_cd (zeros 32 @ demo_c) demo_c KIND_ROOT_ATTESTATION (Some demo_root_bytes)"

lemma demo_relay_carried: "carried demo_crypto demo_cd (zeros 32 @ demo_c) demo_c KIND_ROOT_ATTESTATION (Some demo_root_bytes)"
  by (rule demo_carried) (use demo_root_enc in \<open>simp_all add: demo_c_def\<close>)

lemma demo_relay_unmarshal: "UnmarshalFrame demo_cd demo_relay_frame = Inr (demo_frame demo_c KIND_ROOT_ATTESTATION demo_root_bytes)"
  using carriedD(2) [OF demo_relay_carried demo_cd_rt(2)]
  by (auto simp: recvKind_def demo_relay_frame_def demo_frame_def split: sum.splits if_splits)

lemma demo_c1_eval:
  "Root_Apply demo_ccfg (demo_io 5 [demo_dst]) demo_root_env demo_c0 = (None, demo_c1)"
  "(demo_dst, demo_relay_frame) \<in> set (drop (length (fs_out demo_c0)) (fs_out demo_c1))"
proof -
  have d: "dec (c_root demo_cd) demo_root_bytes = Some demo_root" using codec_rtD [OF demo_cd_rt(3) demo_root_enc(1)] .
  have v: "ValidateRootAttestation (Some demo_root) = None" by code_simp
  obtain s1 where p: "PutPeerRoot no_faults (root_row 5 demo_root) empty_store = (None, s1)"
    by (simp add: PutPeerRoot_def root_row_def empty_store_def demo_root_def demo_src_def no_faults_def sql_u64_def) (simp add: unix_def)
  have r: "Root_Apply demo_ccfg (demo_io 5 [demo_dst]) demo_root_env demo_c0 =
    (None, forward demo_ccfg (demo_io 5 [demo_dst]) KIND_ROOT_ATTESTATION demo_root_bytes (demo_c0\<lparr>fs_store := s1\<rparr>))"
    using d v p by (simp add: Root_Apply_def demo_root_env_def demo_frame_def demo_root_def demo_io_def demo_c0_def)
  then show "Root_Apply demo_ccfg (demo_io 5 [demo_dst]) demo_root_env demo_c0 = (None, demo_c1)" by (simp add: demo_c1_def)
  have g: "Gossip_Forward demo_crypto demo_cd (zeros 32 @ demo_c) demo_c [demo_dst] KIND_ROOT_ATTESTATION demo_root_bytes None = Inr [(demo_dst, demo_relay_frame)]"
    using carriedD(1) [OF demo_relay_carried demo_cd_rt(2)]
    by (auto simp: Gossip_Forward_def send_signed_def demo_relay_frame_def split: sum.splits)
  have "fs_out demo_c1 = [(demo_dst, demo_relay_frame)]" "fs_out demo_c0 = []"
    using r g by (simp_all add: demo_c1_def forward_def Let_def ActivePeers_def demo_io_def demo_c0_def demo_fst_def)
  then show "(demo_dst, demo_relay_frame) \<in> set (drop (length (fs_out demo_c0)) (fs_out demo_c1))" by simp
qed

theorem relayed_roots_not_archived_witness:
  "fs_store (snd (recv_frame demo_dcfg (demo_io 6 []) demo_c demo_c demo_relay_frame demo_dst0)) = empty_store \<and>
   fs_store (snd (dispatch demo_dcfg (demo_io 9 []) demo_src demo_src demo_root_env
     (snd (recv_frame demo_dcfg (demo_io 6 []) demo_c demo_c demo_relay_frame demo_dst0)))) = empty_store"
proof -
  have v: "VerifyFedEnvelope demo_crypto demo_c (Some (demo_frame demo_c KIND_ROOT_ATTESTATION demo_root_bytes)) = None"
    by (rule demo_verifies) (use demo_root_enc in \<open>simp_all add: demo_c_def\<close>)
  have n: "io_now (demo_io x ps) = x" for x ps by (simp add: demo_io_def)
  have a: "admitted demo_dcfg (demo_io 6 []) demo_c demo_c (demo_frame demo_c KIND_ROOT_ATTESTATION demo_root_bytes) demo_dst0"
    unfolding demo_dcfg_def demo_dst0_def by (rule demo_admitted [OF demo_fst_sel(1) v])
  have ne: "fe_sender_id demo_root_env \<noteq> fc_my_id demo_ccfg" by (simp add: demo_root_env_def demo_frame_def demo_src_def demo_c_def)
  let ?st = "snd (recv_frame demo_dcfg (demo_io 6 []) demo_c demo_c demo_relay_frame demo_dst0)"
  have run: "calm_run {} demo_dcfg 6 ?st 9 ?st" by (rule calm_wait) simp
  have cd: "fc_cd demo_dcfg = demo_cd" and st0: "fs_store demo_dst0 = empty_store" "dedupe_ok (fs_dedupe demo_dst0)" "room demo_dst0"
    "dd_ttl (fs_dedupe demo_dst0) = 3600 * second_ns" by (simp_all only: demo_dcfg_def demo_dst0_def demo_fcfg_sel demo_fst_sel)
  show ?thesis
    using relayed_roots_not_archived [OF demo_c1_eval ne, of demo_dcfg "demo_io 6 []" demo_c demo_c demo_dst0 "{}" 9 ?st "demo_io 9 []" demo_src demo_src]
      run a demo_relay_unmarshal demo_cd_rt(2) by (simp add: n cd st0 second_ns_def)
qed

section \<open>Evidence\<close>

definition demo_evidence :: EquivocationEvidence where
  "demo_evidence = \<lparr>ee_tracker_id = demo_src, ee_hour = 2, ee_root_a = replicate 32 1, ee_sig_a = zeros 64, ee_root_b = replicate 32 2,
     ee_sig_b = zeros 64\<rparr>"

definition demo_evidence_bytes :: bytes where "demo_evidence_bytes = the (enc demo_evidence_codec demo_evidence)"

theorem evidence_acts_unverified_witness:
  "fs_reg demo_dst0 demo_src \<noteq> None \<and>
   fs_reg (snd (dispatch demo_dcfg (demo_io 5 []) demo_c demo_c (demo_frame demo_c KIND_EQUIVOCATION_EVIDENCE demo_evidence_bytes) demo_dst0)) demo_src = None"
proof -
  have e: "enc demo_evidence_codec demo_evidence = Some demo_evidence_bytes" "demo_evidence_bytes \<noteq> []"
    by (simp_all add: demo_evidence_bytes_def demo_evidence_codec_def mk_codec_def Let_def demo_evidence_def demo_src_def)
  have rt: "codec_rt demo_evidence_codec" unfolding demo_evidence_codec_def by (rule mk_codec_rt) auto
  have v: "VerifyFedEnvelope demo_crypto demo_c (Some (demo_frame demo_c KIND_EQUIVOCATION_EVIDENCE demo_evidence_bytes)) = None"
    by (rule demo_verifies) (use e in \<open>simp_all add: demo_c_def\<close>)
  have a: "admitted demo_dcfg (demo_io 5 []) demo_c demo_c (demo_frame demo_c KIND_EQUIVOCATION_EVIDENCE demo_evidence_bytes) demo_dst0"
    unfolding demo_dcfg_def demo_dst0_def by (rule demo_admitted [OF demo_fst_sel(1) v])
  have d: "dec (c_evidence (fc_cd demo_dcfg)) (fe_payload (demo_frame demo_c KIND_EQUIVOCATION_EVIDENCE demo_evidence_bytes)) = Some demo_evidence"
    using codec_rtD [OF rt e(1)] by (simp add: demo_dcfg_def demo_frame_def demo_cd_def)
  have k: "ValidateEquivocationEvidence (Some demo_evidence) = None" by code_simp
  have "fs_reg demo_dst0 demo_src \<noteq> None"
    by (simp add: demo_dst0_def demo_fst_def seed_registry_def Reg_Add_def pending_peer_def demo_peer_def demo_src_def demo_c_def PublicKeySize_def)
  then show ?thesis using evidence_acts_unverified [OF a _ d k, of demo_src]
    by (simp add: demo_evidence_def demo_dcfg_def demo_frame_def demo_src_dst)
qed

section \<open>A proof for another identity\<close>

definition theft :: StartTransferInput where
  "theft = demo_start\<lparr>si_identity_id := bob, si_consumer_pub := bob,
     si_consumer_sig := to_array 64 (bob @ bob @ be64 60 @ replicate 32 5)\<rparr>"

definition theft_env :: FedEnvelope where
  "theft_env = \<lparr>fe_sender_id = demo_dst, fe_kind = KIND_TRANSFER_PROOF_REQUEST,
     fe_payload = the (enc demo_request_codec (start_request (demo_tc_cfg demo_dst) theft)), fe_sender_sig = []\<rparr>"

definition demo_s5 :: store where
  "demo_s5 = snd (snd (Hook_AppendTransferIn demo_hooks (credit_input theft demo_proof) empty_store))"

theorem proof_pays_caller_witness:
  "tp_identity_id demo_proof = alice \<and>
   fst (OnRequest (demo_tc_cfg demo_src) demo_hooks 0 [] all_sends theft_env demo_dst (snd (snd demo_issued)) demo_s3) = ''transfer_request_replayed'' \<and>
   abs_bal demo_s5 bob = 60 \<and> abs_bal demo_s5 alice = 0"
proof -
  have i: "tp_identity_id demo_proof = alice"
    by (simp add: demo_proof_def Let_def request_proof_def demo_req_def start_request_def demo_start_def)
  have p: "parse_request (demo_tc_cfg demo_src) theft_env demo_dst = Inr (start_request (demo_tc_cfg demo_dst) theft)" by code_simp
  have n: "to_array 32 (tq_nonce (start_request (demo_tc_cfg demo_dst) theft)) = replicate 32 5" by code_simp
  have "tc_issued (snd (snd demo_issued)) (replicate 32 5) \<noteq> None" by code_simp
  then obtain c where c: "tc_issued (snd (snd demo_issued)) (replicate 32 5) = Some c" by blast
  have "fst (Hook_AppendTransferIn demo_hooks (credit_input theft demo_proof) empty_store) = None" by code_simp
  then have h: "Hook_AppendTransferIn demo_hooks (credit_input theft demo_proof) empty_store =
    (None, fst (snd (Hook_AppendTransferIn demo_hooks (credit_input theft demo_proof) empty_store)), demo_s5)"
    by (metis demo_s5_def prod.collapse)
  have al: "alone demo_hooks" "chain_inv (hk_env demo_hooks) empty_store" by (simp_all add: alone_def demo_hooks_def chain_inv_empty)
  have z: "abs_bal empty_store = (\<lambda>_. 0)" by (rule ext) (simp add: abs_bal_def empty_store_def credits_of_def)
  have "alice \<noteq> bob" by code_simp
  then show ?thesis
    using proof_pays_caller [OF p c [folded n] _ demo_verified al h, of all_sends demo_hooks 0 "[]" demo_s3 all_sends empty_tc] i demo_proof_sel(2)
    by (simp add: all_sends_def z acct_add_def theft_def)
qed

section \<open>Handshakes\<close>

definition demo_na :: bytes where "demo_na = replicate 32 21"
definition demo_nb :: bytes where "demo_nb = replicate 32 22"

lemma demo_speaker:
  assumes "length t = 32" "length n = 32" "length m = 32"
  shows "speaker demo_crypto demo_cd t (zeros 32 @ t) t n m"
proof -
  have h: "sha256 demo_crypto t = t"
  proof -
    have "map2 (\<lambda>a b. a + 1 * b) (zeros 32) t = t" using assms(1)
      by (intro nth_equalityI) (simp_all add: zeros_def)
    then show ?thesis using assms(1) by (simp add: demo_crypto_def) (subst mix.simps, auto simp: mix.simps)
  qed
  obtain hb where hb: "hello_op demo_cd t n = Some hb" "hb \<noteq> []" "length hb < 256"
    using assms by (simp add: hello_op_def demo_cd_def demo_hello_codec_def mk_codec_def Let_def my_hello_def SupportedFeatures_def enc_str_def)
  obtain ab where ab: "auth_op demo_crypto demo_cd (zeros 32 @ t) m = Some ab" "ab \<noteq> []" "length ab < 256"
    by (simp add: auth_op_def demo_cd_def demo_auth_codec_def mk_codec_def Let_def) (simp add: demo_crypto_def)
  show ?thesis unfolding speaker_def hb(1) ab(1)
    using assms h demo_key_pair [OF assms(1)] demo_carried [OF assms(1) hb(2,3), of KIND_HELLO] demo_carried [OF assms(1) ab(2,3), of KIND_PEER_AUTH]
    by simp
qed

lemma demo_accept_carried: "length t = 32 \<Longrightarrow> carried demo_crypto demo_cd (zeros 32 @ t) t KIND_PEERING_ACCEPT (accept_op demo_cd)"
proof -
  assume t: "length t = 32"
  obtain b where b: "accept_op demo_cd = Some b" "b \<noteq> []" "length b < 256"
    by (simp add: accept_op_def demo_cd_def demo_accept_codec_def mk_codec_def Let_def)
  show ?thesis unfolding b(1) using demo_carried [OF t b(2,3), of KIND_PEERING_ACCEPT] by simp
qed

lemma demo_hs_codecs: "hs_codecs demo_cd" by (simp add: hs_codecs_def demo_cd_rt)

definition demo_hs :: "bytes \<Rightarrow> bytes list \<Rightarrow> hs_io" where
  "demo_hs n fs = \<lparr>hs_nonce = Some n, hs_recv = (\<lambda>k. Inr (fs ! k)), hs_send = (\<lambda>_. None)\<rparr>"

abbreviation "hello_of t n \<equiv> hello_frame demo_crypto demo_cd (zeros 32 @ t) t n"
abbreviation "auth_of t n \<equiv> auth_frame demo_crypto demo_cd (zeros 32 @ t) t n"

definition demo_ioA :: hs_io where
  "demo_ioA = demo_hs demo_na [hello_of demo_dst demo_nb, auth_of demo_dst demo_na, accept_frame demo_crypto demo_cd (zeros 32 @ demo_dst) demo_dst]"

definition demo_ioB :: hs_io where
  "demo_ioB = demo_hs demo_nb [hello_of demo_src demo_na, auth_of demo_src demo_nb]"

lemma demo_lens: "length demo_src = 32" "length demo_dst = 32" "length demo_c = 32" "length demo_na = 32" "length demo_nb = 32"
  by (simp_all add: demo_src_def demo_dst_def demo_c_def demo_na_def demo_nb_def)

lemma demo_hs_fine: "io_fine (demo_hs n fs) n" "hs_recv (demo_hs n fs) k = Inr (fs ! k)"
  by (simp_all add: demo_hs_def io_fine_def)

lemmas demo_spA = demo_speaker [OF demo_lens(1,4,5)]
lemmas demo_spB = demo_speaker [OF demo_lens(2,5,4)]

theorem handshake_completes_witness:
  "\<exists>ra rb. fst (RunHandshakeDialer demo_crypto demo_cd demo_src (zeros 32 @ demo_src) demo_dst demo_dst demo_ioA) = Inr ra \<and> hr_peer_tracker_id ra = demo_dst \<and>
    fst (RunHandshakeListener demo_crypto demo_cd demo_dst (zeros 32 @ demo_dst) [demo_src \<mapsto> demo_src] demo_ioB) = Inr rb \<and> hr_peer_tracker_id rb = demo_src"
proof -
  have d: "snd (RunHandshakeDialer demo_crypto demo_cd demo_src (zeros 32 @ demo_src) demo_dst demo_dst demo_ioA) = [hello_of demo_src demo_na, auth_of demo_src demo_nb]"
    by (rule dialer_sends [OF demo_spA demo_spB demo_hs_codecs]) (simp_all add: demo_ioA_def demo_hs_fine)
  have l: "snd (RunHandshakeListener demo_crypto demo_cd demo_dst (zeros 32 @ demo_dst) [demo_src \<mapsto> demo_src] demo_ioB) =
    [hello_of demo_dst demo_nb, auth_of demo_dst demo_na, accept_frame demo_crypto demo_cd (zeros 32 @ demo_dst) demo_dst]"
    by (subst listener_accepts [OF demo_spB demo_spA demo_hs_codecs _ _ _ _ demo_accept_carried [OF demo_lens(2)]])
      (simp_all add: demo_ioB_def demo_hs_fine)
  have "\<exists>ra rb. fst (RunHandshakeDialer demo_crypto demo_cd demo_src (zeros 32 @ demo_src) demo_dst demo_dst demo_ioA) = Inr ra \<and> hr_peer_tracker_id ra = demo_dst \<and> hr_peer_pub_key ra = demo_dst \<and>
    fst (RunHandshakeListener demo_crypto demo_cd demo_dst (zeros 32 @ demo_dst) [demo_src \<mapsto> demo_src] demo_ioB) = Inr rb \<and> hr_peer_tracker_id rb = demo_src \<and> hr_peer_pub_key rb = demo_src \<and>
    hr_dedupe_ttl ra = hr_dedupe_ttl rb \<and> hr_gossip_rate_qps ra = hr_gossip_rate_qps rb \<and> hr_peer_features ra = hr_peer_features rb"
    by (rule handshake_completes [OF demo_spA demo_spB demo_hs_codecs demo_accept_carried [OF demo_lens(2)]])
      (unfold d l, simp_all add: demo_ioA_def demo_ioB_def demo_hs_fine)
  then show ?thesis by blast
qed

definition demo_ioR :: hs_io where "demo_ioR = demo_hs demo_na [hello_of demo_c demo_nb]"

theorem handshake_can_be_relayed_witness:
  "fs_peers (snd (acceptInbound demo_dcfg demo_ioB 7 ''c'' demo_dst0)) demo_src = Some 7"
proof -
  note spC = demo_speaker [OF demo_lens(3,5,4)]
  have d: "snd (RunHandshakeDialer demo_crypto demo_cd demo_src (zeros 32 @ demo_src) demo_c demo_c demo_ioR) = [hello_of demo_src demo_na, auth_of demo_src demo_nb]"
    by (rule dialer_sends [OF demo_spA spC demo_hs_codecs]) (simp_all add: demo_ioR_def demo_hs_fine)
  obtain info where r: "fs_reg demo_dst0 demo_src = Some info" "pi_pub_key info = demo_src"
    by (simp add: demo_dst0_def demo_fst_def seed_registry_def Reg_Add_def pending_peer_def demo_peer_def demo_src_def demo_c_def PublicKeySize_def)
  have "fs_peers (snd (acceptInbound demo_dcfg demo_ioB 7 ''c'' demo_dst0)) demo_src = Some 7 \<and>
    Reg_IsActive demo_src (fs_reg (snd (acceptInbound demo_dcfg demo_ioB 7 ''c'' demo_dst0)))"
    by (rule handshake_can_be_relayed [where ioA = demo_ioR, OF demo_spA spC demo_spB demo_hs_codecs demo_accept_carried [OF demo_lens(2)]])
      (use r in \<open>unfold d, simp_all add: demo_dcfg_def demo_ioR_def demo_ioB_def demo_hs_fine\<close>, simp add: demo_dst0_def demo_fst_def)
  then show ?thesis by blast
qed

end
