(* ===== verification/TB_Float_Exact.thy ===== *)
theory TB_Float_Exact
  imports TB_Float_Bounds "HOL-Library.Signed_Division"
begin

text \<open>
  Exact and signed results of \<open>float64\<close> arithmetic: multiples of a quarter below \<open>2^51\<close> are not rounded,
  rounding is odd and keeps the sign, and the float value of a duration in a unit is a number.
\<close>

text \<open>\<open>math.Abs\<close>.\<close>

fun f_abs :: "float64 \<Rightarrow> float64" where
  "f_abs NaN = NaN"
| "f_abs NegInf = PosInf"
| "f_abs PosInf = PosInf"
| "f_abs (Fin a) = Fin \<bar>a\<bar>"

section \<open>Exact values\<close>

lemma round_even_int [simp]: "round_even (of_int n) = n"
  by (simp add: round_even_def)

definition quarter :: "rat \<Rightarrow> bool" where
  "quarter q \<longleftrightarrow> (\<exists>n. q * 4 = of_int n \<and> \<bar>n\<bar> < 2 ^ 53)"

lemma round64_quarter:
  assumes "quarter q"
  shows "round64 q = Fin q"
proof (cases "q = 0")
  case False
  obtain n where n: "q * 4 = of_int n" "\<bar>n\<bar> < 2 ^ 53" using assms by (auto simp: quarter_def)
  define a where "a = \<bar>q\<bar>"
  have a: "0 < a" "a * 4 = of_int \<bar>n\<bar>" using False n(1) by (auto simp: a_def abs_mult [symmetric])
  have "of_int \<bar>n\<bar> < (2 ^ 53 :: rat)" using n(2) by (metis of_int_less_iff of_int_numeral of_int_power)
  then have "a < pow2 51" using a(2) by (simp add: pow2_def)
  then have be: "bin_exp a < 51" using bin_exp_less a(1) by blast
  define e where "e = max (bin_exp a - 52) (- 1074)"
  have e: "e \<le> - 2" using be by (simp add: e_def)
  define k where "k = nat (- e - 2)"
  have "nat (- e) = k + 2" using e by (simp add: k_def)
  then have pe: "pow2 e = 1 / of_int (2 ^ (k + 2))" using e by (simp add: pow2_def)
  have int: "a / pow2 e = of_int (\<bar>n\<bar> * 2 ^ k)" using a(2) by (simp add: pe power_add mult.commute mult.left_commute)
  have v: "of_int (round_even (a / pow2 e)) * pow2 e = a"
    unfolding int round_even_int unfolding int [symmetric] by (simp add: less_imp_neq [OF pow2_pos, symmetric])
  have "\<not> bin_exp a \<ge> 1024" using be by simp
  then show ?thesis using False v by (simp add: round64_def Let_def a_def [symmetric] e_def [symmetric]) (simp add: a_def abs_mult_sgn mult.commute)
qed (simp add: round64_def)

lemma f_abs_round64: "f_abs (round64 q) = round64 \<bar>q\<bar>"
proof (cases "q = 0")
  case False
  define e where "e = max (bin_exp \<bar>q\<bar> - 52) (- 1074)"
  define v where "v = of_int (round_even (\<bar>q\<bar> / pow2 e)) * pow2 e"
  have "0 \<le> round_even (\<bar>q\<bar> / pow2 e)" by (rule round_even_ge) (simp add: divide_nonneg_pos)
  then have "0 \<le> v" by (simp add: v_def)
  moreover have "round64 q = (if v > 0 \<and> bin_exp v \<ge> 1024 then (if q > 0 then PosInf else NegInf) else Fin (sgn q * v))"
      "round64 \<bar>q\<bar> = (if v > 0 \<and> bin_exp v \<ge> 1024 then PosInf else Fin v)"
    using False by (simp_all add: round64_def Let_def e_def v_def)
  ultimately show ?thesis using False by (auto simp: abs_mult)
qed (simp add: round64_def)

lemma quarterI: "q * 4 = of_int n \<Longrightarrow> \<bar>n\<bar> < 2 ^ 53 \<Longrightarrow> quarter q"
  by (auto simp: quarter_def)

lemma round64_minus: "round64 (- q) = f_neg (round64 q)"
  by (auto simp: round64_def Let_def sgn_if)

lemma round64_nonneg: "0 \<le> q \<Longrightarrow> round64 q = PosInf \<or> (\<exists>r. round64 q = Fin r \<and> 0 \<le> r)"
  using f_abs_round64 [of q] by (cases "round64 q") auto

lemma round64_finite:
  assumes "\<bar>q\<bar> \<le> of_int n" "n < 2 ^ 53"
  shows "\<exists>r. round64 q = Fin r"
proof -
  have "f_bnd n (f_abs (round64 q))" using round64_bnd [of "\<bar>q\<bar>" n] assms by (simp add: f_abs_round64)
  then show ?thesis by (cases "round64 q") (auto simp: f_bnd_def)
qed

lemma time_sub_range: "- (2 ^ 63) \<le> time_sub a b" "time_sub a b < 2 ^ 63"
  by (auto simp: time_sub_def min_int_def)

text \<open>
  \<open>Duration.Seconds\<close>, \<open>Minutes\<close> and \<open>Hours\<close> in a unit of \<open>u\<close> nanoseconds; integer division cuts off towards zero.
\<close>

definition dur_in :: "int \<Rightarrow> int \<Rightarrow> float64" where
  "dur_in u d = f_add (f_of_int (d sdiv u)) (f_div (f_of_int (d smod u)) (f_of_int u))"

lemma f_of_int_exact: "0 \<le> n \<Longrightarrow> n < 2 ^ 51 \<Longrightarrow> f_of_int n = Fin (of_int n)"
  unfolding f_of_int_def by (rule round64_quarter) (rule quarterI [of _ "4 * n"], simp_all)

lemma dur_in_not_NaN:
  assumes "- (2 ^ 63) \<le> d" "d < 2 ^ 63" "2 ^ 20 \<le> u" "u < 2 ^ 51"
  shows "dur_in u d \<noteq> NaN"
proof -
  define q where "q = d sdiv u"
  define m where "m = d smod u"
  have "\<bar>d\<bar> \<le> 2 ^ 63" using assms by auto
  also have "\<dots> \<le> 2 ^ 44 * u" using assms(3) by simp
  finally have "\<bar>d\<bar> div u \<le> 2 ^ 44" using assms(3) zdiv_mono1 [of "\<bar>d\<bar>" "2 ^ 44 * u" u] by simp
  moreover have "\<bar>q\<bar> \<le> \<bar>d\<bar> div u" "\<bar>m\<bar> \<le> u"
    using assms(3) by (auto simp: q_def m_def signed_divide_int_def signed_modulo_int_def sgn_if abs_mult pos_imp_zdiv_nonneg_iff order_less_imp_le)
  ultimately have "\<bar>q\<bar> \<le> 2 ^ 44" "\<bar>m\<bar> \<le> u" by linarith+
  then have r: "\<bar>of_int q :: rat\<bar> \<le> of_int (2 ^ 44)" "\<bar>of_int m :: rat\<bar> \<le> of_int u" by linarith+
  obtain x where x: "f_of_int q = Fin x" using round64_finite [OF r(1)] by (auto simp: f_of_int_def)
  obtain y where y: "f_of_int m = Fin y" "\<bar>y\<bar> \<le> of_int u"
  proof -
    have "f_bnd u (f_abs (round64 (of_int m)))" using round64_bnd [of "\<bar>of_int m\<bar>" u] r(2) assms(4) by (simp add: f_abs_round64)
    then show thesis using that by (cases "round64 (of_int m)") (auto simp: f_bnd_def f_of_int_def)
  qed
  obtain z where z: "round64 (y / of_int u) = Fin z"
    using round64_finite [of "y / of_int u" 1] y(2) assms(3) by (auto simp: abs_divide)
  have "f_of_int u = Fin (of_int u)" using assms(3,4) by (intro f_of_int_exact) auto
  then show ?thesis using x y(1) z assms(3) by (simp add: dur_in_def q_def [symmetric] m_def [symmetric])
qed

end
