(* ===== verification/TB_Reputation.thy ===== *)
theory TB_Reputation
  imports TB_Float_Exact TB_Credit
begin

text \<open>
  The tracker's reputation subsystem (\<open>src/tracker/internal/reputation\<close>): the SQL tables of states,
  events and scores, the ingest calls, the categorical breaches, the operator's freeze and unfreeze,
  the periodic evaluator with its z-scores, and the read cache that the broker consults.

  A time column holds whole Unix seconds. Every SQL statement may fail: \<open>bad s i q\<close> says that
  statement \<open>q\<close> on identity \<open>i\<close> fails at call site \<open>s\<close> (also when its context is over).
  The JSON column of reasons is kept decoded; \<open>json.Marshal\<close> refuses a reason whose \<open>Z\<close> is not finite.
  The metrics are not modelled.
\<close>

section \<open>States, signals and breaches\<close>

datatype RepState = StateOK | StateAudit | StateFrozen

fun RepState_String :: "RepState \<Rightarrow> string" where
  "RepState_String StateOK = ''OK''"
| "RepState_String StateAudit = ''AUDIT''"
| "RepState_String StateFrozen = ''FROZEN''"

definition canTransition :: "RepState \<Rightarrow> RepState \<Rightarrow> bool" where
  "canTransition from to = (if from = to then False else if from = StateFrozen then False else True)"

record ReasonRecord =
  rr_kind :: string
  rr_signal :: string
  rr_breach_kind :: string
  rr_z :: float64
  rr_window :: string
  rr_operator :: string
  rr_at :: i64

definition zero_reason :: ReasonRecord where
  "zero_reason = \<lparr>rr_kind = [], rr_signal = [], rr_breach_kind = [], rr_z = Fin 0, rr_window = [], rr_operator = [], rr_at = 0\<rparr>"

datatype Role = RoleConsumer | RoleSeeder | RoleAgnostic

datatype SignalKind = SignalUnspecified | SignalBrokerRequest | SignalProofRejection | SignalExhaustionClaim
  | SignalCostReportDeviation | SignalConsumerComplaint | SignalOfferAccept | SignalOfferReject | SignalOfferUnreachable
  | SignalSettlementClean | SignalSettlementSigMissing | SignalDisputeFiled | SignalDisputeUpheld | SignalProofFidelityLevel

fun SignalKind_Role :: "SignalKind \<Rightarrow> Role" where
  "SignalKind_Role SignalBrokerRequest = RoleConsumer"
| "SignalKind_Role SignalProofRejection = RoleConsumer"
| "SignalKind_Role SignalExhaustionClaim = RoleConsumer"
| "SignalKind_Role SignalDisputeFiled = RoleConsumer"
| "SignalKind_Role SignalDisputeUpheld = RoleConsumer"
| "SignalKind_Role SignalProofFidelityLevel = RoleConsumer"
| "SignalKind_Role SignalUnspecified = RoleAgnostic"
| "SignalKind_Role _ = RoleSeeder"

definition PrimarySignals :: "SignalKind list" where
  "PrimarySignals = [SignalBrokerRequest, SignalProofRejection, SignalExhaustionClaim, SignalCostReportDeviation, SignalConsumerComplaint]"

fun IsPrimary :: "SignalKind \<Rightarrow> bool" where
  "IsPrimary SignalBrokerRequest = True"
| "IsPrimary SignalProofRejection = True"
| "IsPrimary SignalExhaustionClaim = True"
| "IsPrimary SignalCostReportDeviation = True"
| "IsPrimary SignalConsumerComplaint = True"
| "IsPrimary _ = False"

text \<open>\<open>BreachKind\<close> is a \<open>uint8\<close>; \<open>BreachOther\<close> stands for the values that have no name.\<close>

datatype BreachKind = BreachUnspecified | BreachInvalidProofSignature | BreachInconsistentSeederSig
  | BreachReplayConfirmedNonce | BreachConsecutiveProofRejects | BreachOther byte

fun BreachKind_String :: "BreachKind \<Rightarrow> string" where
  "BreachKind_String BreachInvalidProofSignature = ''invalid_proof_signature''"
| "BreachKind_String BreachInconsistentSeederSig = ''inconsistent_seeder_sig''"
| "BreachKind_String BreachReplayConfirmedNonce = ''replay_confirmed_nonce''"
| "BreachKind_String BreachConsecutiveProofRejects = ''consecutive_proof_rejects''"
| "BreachKind_String _ = ''unspecified''"

fun ImmediateAction :: "BreachKind \<Rightarrow> RepState" where
  "ImmediateAction BreachInvalidProofSignature = StateAudit"
| "ImmediateAction BreachInconsistentSeederSig = StateAudit"
| "ImmediateAction BreachReplayConfirmedNonce = StateAudit"
| "ImmediateAction BreachConsecutiveProofRejects = StateAudit"
| "ImmediateAction _ = StateOK"

fun signalRole :: "BreachKind \<Rightarrow> Role" where
  "signalRole BreachInconsistentSeederSig = RoleSeeder"
| "signalRole BreachInvalidProofSignature = RoleConsumer"
| "signalRole BreachReplayConfirmedNonce = RoleConsumer"
| "signalRole BreachConsecutiveProofRejects = RoleConsumer"
| "signalRole _ = RoleAgnostic"

section \<open>The score formula\<close>

text \<open>\<open>math.Exp\<close> and \<open>math.Log\<close>, whose last bits depend on the platform.\<close>

record rep_math =
  rm_exp :: "float64 \<Rightarrow> float64"
  rm_log :: "float64 \<Rightarrow> float64"

record scoreInputs =
  si_completion_health :: float64
  si_consumer_satisfaction :: float64
  si_seeder_fairness :: float64
  si_first_seen_at :: time
  si_now :: time
  si_last_audit_at :: time

definition rep_hour_ns :: int where "rep_hour_ns = 3600000000000"

definition dur_hours :: "int \<Rightarrow> float64" where
  "dur_hours d = dur_in rep_hour_ns d"

definition longevityBonus :: "rep_math \<Rightarrow> time \<Rightarrow> time \<Rightarrow> float64" where
  "longevityBonus lib firstSeen now = (if firstSeen = zero_time \<or> \<not> now > firstSeen then Fin 0
     else let days = f_div (dur_hours (time_sub now firstSeen)) (Fin 24)
       in f_min (Fin 1) (f_div (rm_log lib (f_add days (Fin 1))) (rm_log lib (Fin 365))))"

definition auditRecencyPenalty :: "rep_math \<Rightarrow> time \<Rightarrow> time \<Rightarrow> float64" where
  "auditRecencyPenalty lib lastAudit now = (if lastAudit = zero_time then Fin 0
     else let dt = f_div (dur_hours (time_sub now lastAudit)) (Fin 24);
              dt1 = (if f_lt dt (Fin 0) then Fin 0 else dt)
       in rm_exp lib (f_div (f_neg dt1) (Fin 7)))"

definition rep_clamp01 :: "float64 \<Rightarrow> float64" where
  "rep_clamp01 x = (if f_lt x (Fin 0) then Fin 0 else if f_lt (Fin 1) x then Fin 1 else x)"

definition computeScore :: "rep_math \<Rightarrow> scoreInputs \<Rightarrow> float64" where
  "computeScore lib inp = (let
     raw = f_sub (f_add (f_add (f_add
             (f_mul (round64 (3 / 10)) (si_completion_health inp))
             (f_mul (round64 (3 / 10)) (si_consumer_satisfaction inp)))
             (f_mul (round64 (2 / 10)) (si_seeder_fairness inp)))
             (f_mul (round64 (2 / 10)) (longevityBonus lib (si_first_seen_at inp) (si_now inp))))
             (f_mul (round64 (4 / 10)) (auditRecencyPenalty lib (si_last_audit_at inp) (si_now inp)))
     in rep_clamp01 raw)"

definition newDefaultInputs :: "time \<Rightarrow> time \<Rightarrow> scoreInputs" where
  "newDefaultInputs firstSeen now = \<lparr>si_completion_health = Fin 1, si_consumer_satisfaction = Fin 1, si_seeder_fairness = Fin 1,
     si_first_seen_at = firstSeen, si_now = now, si_last_audit_at = zero_time\<rparr>"

section \<open>Medians\<close>

text \<open>The order of \<open>sort.Float64s\<close>: a NaN comes before every other value.\<close>

instantiation float64 :: linorder
begin

definition less_eq_float64 :: "float64 \<Rightarrow> float64 \<Rightarrow> bool" where
  "less_eq_float64 a b \<longleftrightarrow> a = NaN \<or> f_le a b"

definition less_float64 :: "float64 \<Rightarrow> float64 \<Rightarrow> bool" where
  "less_float64 a b \<longleftrightarrow> a \<le> b \<and> a \<noteq> b"

instance
proof
  fix x y z :: float64
  show "x < y \<longleftrightarrow> x \<le> y \<and> \<not> y \<le> x"
    by (cases x; cases y) (auto simp: less_float64_def less_eq_float64_def)
  show "x \<le> x" by (cases x) (auto simp: less_eq_float64_def)
  show "x \<le> y \<Longrightarrow> y \<le> z \<Longrightarrow> x \<le> z"
    by (cases x; cases y; cases z) (auto simp: less_eq_float64_def)
  show "x \<le> y \<Longrightarrow> y \<le> x \<Longrightarrow> x = y"
    by (cases x; cases y) (auto simp: less_eq_float64_def)
  show "x \<le> y \<or> y \<le> x" by (cases x; cases y) (auto simp: less_eq_float64_def)
qed

end

definition medianSortedCopy :: "float64 list \<Rightarrow> float64" where
  "medianSortedCopy xs = (let n = length xs in if n = 0 then Fin 0
     else if n mod 2 = 1 then xs ! (n div 2)
     else f_mul (Fin (1 / 2)) (f_add (xs ! (n div 2 - 1)) (xs ! (n div 2))))"

definition medianMAD :: "float64 list \<Rightarrow> float64 \<times> float64" where
  "medianMAD xs = (if length xs = 0 then (Fin 0, Fin 0)
     else let sorted_xs = sort xs;
              median = medianSortedCopy sorted_xs;
              devs = map (\<lambda>x. f_abs (f_sub x median)) sorted_xs
       in (median, medianSortedCopy (sort devs)))"

definition zScore :: "float64 \<Rightarrow> float64 \<Rightarrow> float64 \<Rightarrow> float64" where
  "zScore sample median mad = (if f_eq mad (Fin 0) then Fin 0 else f_div (f_sub sample median) mad)"

section \<open>The tables\<close>

record stateRow =
  rw_state :: RepState
  rw_since :: i64
  rw_first_seen_at :: i64
  rw_reasons :: "ReasonRecord list"
  rw_updated_at :: i64

record rep_event =
  rpe_identity_id :: ident
  rpe_role :: Role
  rpe_event_type :: SignalKind
  rpe_value :: float64
  rpe_observed_at :: i64

record rep_db =
  rd_state :: "ident \<rightharpoonup> stateRow"
  rd_events :: "rep_event list"
  rd_scores :: "ident \<rightharpoonup> float64 \<times> i64"

datatype rep_stmt = SqlRead | SqlInsert | SqlUpdate | SqlAppend | SqlSelect | SqlDelete
datatype rep_site = AtIngest | AtConsumer | AtFlag SignalKind | AtLoad nat | AtAudit | AtScore | AtPrune
  | AtBreach | AtFreeze | AtUnfreeze | AtRefresh | AtReload nat | AtStatus

type_synonym rep_bad = "rep_site \<Rightarrow> ident \<Rightarrow> rep_stmt \<Rightarrow> bool"

definition errInvalidTransition :: string where
  "errInvalidTransition = ''reputation: invalid state transition''"

definition fresh_row :: "time \<Rightarrow> stateRow" where
  "fresh_row now = \<lparr>rw_state = StateOK, rw_since = unix now, rw_first_seen_at = unix now, rw_reasons = [], rw_updated_at = unix now\<rparr>"

definition ensureState :: "(rep_stmt \<Rightarrow> bool) \<Rightarrow> ident \<Rightarrow> time \<Rightarrow> rep_db \<Rightarrow> string option \<times> rep_db" where
  "ensureState bad i now db = (if bad SqlInsert then (Some ''reputation: ensureState'', db)
     else (None, case rd_state db i of Some _ \<Rightarrow> db | None \<Rightarrow> db\<lparr>rd_state := (rd_state db)(i \<mapsto> fresh_row now)\<rparr>))"

definition readState :: "(rep_stmt \<Rightarrow> bool) \<Rightarrow> ident \<Rightarrow> rep_db \<Rightarrow> string + stateRow option" where
  "readState bad i db = (if bad SqlRead then Inl ''reputation: readState'' else Inr (rd_state db i))"

definition json_ok :: "ReasonRecord \<Rightarrow> bool" where
  "json_ok r \<longleftrightarrow> (case rr_z r of Fin _ \<Rightarrow> True | _ \<Rightarrow> False)"

definition transition :: "(rep_stmt \<Rightarrow> bool) \<Rightarrow> ident \<Rightarrow> RepState \<Rightarrow> ReasonRecord \<Rightarrow> time \<Rightarrow> rep_db \<Rightarrow> string option \<times> rep_db" where
  "transition bad i to reason now db = (case readState bad i db of Inl e \<Rightarrow> (Some e, db)
     | Inr found \<Rightarrow>
       if found = None \<and> bad SqlInsert then (Some ''reputation: transition: insert'', db)
       else let cur = (case found of Some r \<Rightarrow> r | None \<Rightarrow> fresh_row now);
                db1 = (if found = None then db\<lparr>rd_state := (rd_state db)(i \<mapsto> cur)\<rparr> else db)
         in if \<not> canTransition (rw_state cur) to then (Some errInvalidTransition, db1)
            else let reasons = rw_reasons cur @ [reason] in
              if \<not> list_all json_ok reasons then (Some ''reputation: transition: encode reasons'', db1)
              else if bad SqlUpdate then (Some ''reputation: transition: update'', db1)
              else (None, db1\<lparr>rd_state := (rd_state db1)(i \<mapsto> cur\<lparr>rw_state := to, rw_since := unix now,
                     rw_reasons := reasons, rw_updated_at := unix now\<rparr>)\<rparr>))"

definition appendReason :: "(rep_stmt \<Rightarrow> bool) \<Rightarrow> ident \<Rightarrow> ReasonRecord \<Rightarrow> time \<Rightarrow> rep_db \<Rightarrow> string option \<times> rep_db" where
  "appendReason bad i reason now db = (case readState bad i db of Inl e \<Rightarrow> (Some e, db)
     | Inr None \<Rightarrow> (Some ''reputation: appendReason: identity not found'', db)
     | Inr (Some cur) \<Rightarrow> let reasons = rw_reasons cur @ [reason] in
         if \<not> list_all json_ok reasons then (Some ''reputation: appendReason: encode reasons'', db)
         else if bad SqlUpdate then (Some ''reputation: appendReason: update'', db)
         else (None, db\<lparr>rd_state := (rd_state db)(i \<mapsto> cur\<lparr>rw_reasons := reasons, rw_updated_at := unix now\<rparr>)\<rparr>))"

definition clearFrozen :: "(rep_stmt \<Rightarrow> bool) \<Rightarrow> ident \<Rightarrow> ReasonRecord \<Rightarrow> time \<Rightarrow> rep_db \<Rightarrow> string option \<times> rep_db" where
  "clearFrozen bad i reason now db = (case readState bad i db of Inl e \<Rightarrow> (Some e, db)
     | Inr None \<Rightarrow> (Some ''reputation: clearFrozen: identity not found'', db)
     | Inr (Some cur) \<Rightarrow>
         if rw_state cur \<noteq> StateFrozen then (None, db)
         else let reasons = rw_reasons cur @ [reason] in
           if \<not> list_all json_ok reasons then (Some ''reputation: clearFrozen: encode reasons'', db)
           else if bad SqlUpdate then (Some ''reputation: clearFrozen: update'', db)
           else (None, db\<lparr>rd_state := (rd_state db)(i \<mapsto> cur\<lparr>rw_state := StateOK, rw_since := unix now,
                  rw_reasons := reasons, rw_updated_at := unix now\<rparr>)\<rparr>))"

definition appendEvent :: "(rep_stmt \<Rightarrow> bool) \<Rightarrow> ident \<Rightarrow> Role \<Rightarrow> SignalKind \<Rightarrow> float64 \<Rightarrow> time \<Rightarrow> rep_db \<Rightarrow> string option \<times> rep_db" where
  "appendEvent bad i role kind v observedAt db = (if bad SqlAppend then (Some ''reputation: appendEvent'', db)
     else (None, db\<lparr>rd_events := rd_events db @ [\<lparr>rpe_identity_id = i, rpe_role = role, rpe_event_type = kind,
            rpe_value = v, rpe_observed_at = unix observedAt\<rparr>]\<rparr>))"

definition in_signal_window :: "time \<Rightarrow> time \<Rightarrow> rep_event \<Rightarrow> bool" where
  "in_signal_window from to e \<longleftrightarrow> unix from \<le> rpe_observed_at e \<and> rpe_observed_at e < unix to"

text \<open>
  \<open>GROUP BY identity_id\<close>. The rows come in no particular order; here, in that of the first event. Every
  stored value is 0, 1/2 or 1, so \<open>SUM\<close> is exact and its order does not matter either.
\<close>

definition aggregateBySignal :: "(rep_stmt \<Rightarrow> bool) \<Rightarrow> SignalKind \<Rightarrow> time \<Rightarrow> time \<Rightarrow> rep_db \<Rightarrow> string + (ident \<times> float64) list" where
  "aggregateBySignal bad kind from to db = (if bad SqlSelect then Inl ''reputation: aggregate''
     else let evs = filter (\<lambda>e. rpe_event_type e = kind \<and> in_signal_window from to e) (rd_events db)
       in Inr (map (\<lambda>i. (i, fold (\<lambda>e s. f_add s (rpe_value e)) (filter (\<lambda>e. rpe_identity_id e = i) evs) (Fin 0)))
            (remdups (map rpe_identity_id evs))))"

definition populationSize :: "(rep_stmt \<Rightarrow> bool) \<Rightarrow> Role \<Rightarrow> time \<Rightarrow> time \<Rightarrow> rep_db \<Rightarrow> string + int" where
  "populationSize bad role from to db = (if bad SqlRead then Inl ''reputation: populationSize''
     else Inr (int (length (remdups (map rpe_identity_id (filter (\<lambda>e. rpe_role e = role \<and> in_signal_window from to e) (rd_events db)))))))"

definition pruneEventsBefore :: "(rep_stmt \<Rightarrow> bool) \<Rightarrow> time \<Rightarrow> rep_db \<Rightarrow> string option \<times> rep_db" where
  "pruneEventsBefore bad cutoff db = (if bad SqlDelete then (Some ''reputation: pruneEventsBefore'', db)
     else (None, db\<lparr>rd_events := filter (\<lambda>e. \<not> rpe_observed_at e < unix cutoff) (rd_events db)\<rparr>))"

definition upsertScore :: "(rep_stmt \<Rightarrow> bool) \<Rightarrow> ident \<Rightarrow> float64 \<Rightarrow> time \<Rightarrow> rep_db \<Rightarrow> string option \<times> rep_db" where
  "upsertScore bad i score now db = (if bad SqlInsert then (Some ''reputation: upsertScore'', db)
     else (None, db\<lparr>rd_scores := (rd_scores db)(i \<mapsto> (score, unix now))\<rparr>))"

definition loadAllScores :: "(rep_stmt \<Rightarrow> bool) \<Rightarrow> rep_db \<Rightarrow> string + (ident \<rightharpoonup> float64)" where
  "loadAllScores bad db = (if bad SqlSelect then Inl ''reputation: loadAllScores'' else Inr (map_option fst \<circ> rd_scores db))"

definition loadAllStates :: "(rep_stmt \<Rightarrow> bool) \<Rightarrow> rep_db \<Rightarrow> string + (ident \<rightharpoonup> stateRow)" where
  "loadAllStates bad db = (if bad SqlSelect then Inl ''reputation: loadAllStates'' else Inr (rd_state db))"

end
