(* ===== verification/TB_Evaluator.thy ===== *)
theory TB_Evaluator
  imports TB_Reputation
begin

text \<open>
  The operations of the reputation \<open>Subsystem\<close> (\<open>src/tracker/internal/reputation\<close>: \<open>reputation.go\<close>,
  \<open>score.go\<close>, \<open>ingest.go\<close>, \<open>evaluator.go\<close>): opening and closing, the reads from the cache, the ingest
  calls, breaches, freeze and unfreeze, and one pass of the evaluator.

  \<open>rs_notified\<close> is the log of the calls made to the \<open>FreezeListener\<close>. Where the code ranges over a Go
  map, the order of the keys is an argument.
\<close>

section \<open>The subsystem\<close>

record ReputationConfig =
  rc_evaluation_interval_s :: int
  rc_short_s :: int
  rc_medium_s :: int
  rc_long_s :: int
  rc_z_score_threshold :: float64
  rc_default_score :: float64
  rc_freeze_list_cache_ttl_s :: int
  rc_min_population_for_z_score :: int
  rc_storage_path :: string

record cachedEntry =
  ce_state :: RepState
  ce_score :: float64
  ce_since :: time
  ce_frozen :: bool

type_synonym scoreCache = "ident \<rightharpoonup> cachedEntry"

record RepSubsystem =
  rs_cfg :: ReputationConfig
  rs_listener :: bool
  rs_db :: rep_db
  rs_cache :: "scoreCache option"
  rs_closed :: bool
  rs_notified :: "(ident \<times> string \<times> time) list"

definition ErrSubsystemClosed :: string where
  "ErrSubsystemClosed = ''reputation: subsystem closed''"

definition entry_of :: "stateRow \<Rightarrow> float64 \<Rightarrow> cachedEntry" where
  "entry_of st sc = \<lparr>ce_state = rw_state st, ce_score = sc, ce_since = seconds (rw_since st), ce_frozen = (rw_state st = StateFrozen)\<rparr>"

definition reloadCache :: "rep_bad \<Rightarrow> RepSubsystem \<Rightarrow> string option \<times> RepSubsystem" where
  "reloadCache bad s = (case loadAllStates (bad (AtReload 0) []) (rs_db s) of Inl e \<Rightarrow> (Some e, s)
     | Inr states \<Rightarrow> (case loadAllScores (bad (AtReload 1) []) (rs_db s) of Inl e \<Rightarrow> (Some e, s)
       | Inr scores \<Rightarrow> (None, s\<lparr>rs_cache := Some (\<lambda>i. case states i of
             Some st \<Rightarrow> Some (entry_of st (case scores i of Some sc \<Rightarrow> sc | None \<Rightarrow> rc_default_score (rs_cfg s)))
           | None \<Rightarrow> (case scores i of None \<Rightarrow> None
               | Some sc \<Rightarrow> Some \<lparr>ce_state = StateOK, ce_score = sc, ce_since = zero_time, ce_frozen = False\<rparr>))\<rparr>)))"

text \<open>\<open>Open\<close>; \<open>opened\<close> is what \<open>openStorage\<close> gives for a non-empty path.\<close>

definition Rep_Open :: "rep_bad \<Rightarrow> ReputationConfig \<Rightarrow> bool \<Rightarrow> (string + rep_db) \<Rightarrow> string + RepSubsystem" where
  "Rep_Open bad cfg listener opened =
     (if rc_storage_path cfg = [] then Inl ''reputation: Open requires cfg.StoragePath''
      else if rc_evaluation_interval_s cfg \<le> 0 then Inl ''reputation: EvaluationIntervalS must be > 0''
      else if rc_min_population_for_z_score cfg \<le> 0 then Inl ''reputation: MinPopulationForZScore must be > 0''
      else (case opened of Inl e \<Rightarrow> Inl e
       | Inr db \<Rightarrow> (case reloadCache bad \<lparr>rs_cfg = cfg, rs_listener = listener, rs_db = db, rs_cache = None,
                          rs_closed = False, rs_notified = []\<rparr> of
            (Some e, _) \<Rightarrow> Inl e
          | (None, s) \<Rightarrow> Inr s)))"

definition Rep_Close :: "RepSubsystem \<Rightarrow> RepSubsystem" where
  "Rep_Close s = (if rs_closed s then s else s\<lparr>rs_closed := True\<rparr>)"

section \<open>Reads\<close>

definition Rep_Score :: "RepSubsystem \<Rightarrow> ident \<Rightarrow> float64 \<times> bool" where
  "Rep_Score s i = (case rs_cache s of None \<Rightarrow> (rc_default_score (rs_cfg s), False)
     | Some cache \<Rightarrow> (case cache i of None \<Rightarrow> (rc_default_score (rs_cfg s), False) | Some e \<Rightarrow> (ce_score e, True)))"

definition IsFrozen :: "RepSubsystem \<Rightarrow> ident \<Rightarrow> bool" where
  "IsFrozen s i = (case rs_cache s of None \<Rightarrow> False
     | Some cache \<Rightarrow> (case cache i of None \<Rightarrow> False | Some e \<Rightarrow> ce_frozen e))"

record ReputationStatus =
  st_state :: RepState
  st_since :: time
  st_reasons :: "ReasonRecord list"

definition Rep_Status :: "rep_bad \<Rightarrow> RepSubsystem \<Rightarrow> ident \<Rightarrow> ReputationStatus" where
  "Rep_Status bad s i = (let none = \<lparr>st_state = StateOK, st_since = zero_time, st_reasons = []\<rparr> in
     case rs_cache s of None \<Rightarrow> none
     | Some cache \<Rightarrow> (case cache i of None \<Rightarrow> none
       | Some e \<Rightarrow> \<lparr>st_state = ce_state e, st_since = ce_since e,
           st_reasons = (if rs_closed s then [] else case readState (bad AtStatus i) i (rs_db s) of
               Inr (Some row) \<Rightarrow> rw_reasons row | _ \<Rightarrow> [])\<rparr>))"

section \<open>Ingest\<close>

text \<open>\<open>ensureState\<close> and then \<open>appendEvent\<close>, stopping at the first error.\<close>

definition ingest :: "rep_bad \<Rightarrow> ident \<Rightarrow> Role \<Rightarrow> SignalKind \<Rightarrow> float64 \<Rightarrow> time \<Rightarrow> RepSubsystem \<Rightarrow> string option \<times> RepSubsystem" where
  "ingest bad i role kind v now s = (case ensureState (bad AtIngest i) i now (rs_db s) of
       (Some e, db) \<Rightarrow> (Some e, s\<lparr>rs_db := db\<rparr>)
     | (None, db) \<Rightarrow> (case appendEvent (bad AtIngest i) i role kind v now db of (e, db') \<Rightarrow> (e, s\<lparr>rs_db := db'\<rparr>)))"

definition RecordBrokerRequest :: "rep_bad \<Rightarrow> time \<Rightarrow> ident \<Rightarrow> RepSubsystem \<Rightarrow> string option \<times> RepSubsystem" where
  "RecordBrokerRequest bad now consumer s = (if rs_closed s then (Some ErrSubsystemClosed, s)
     else ingest bad consumer RoleConsumer SignalBrokerRequest (Fin 1) now s)"

definition RecordProofFidelity :: "rep_bad \<Rightarrow> time \<Rightarrow> ident \<Rightarrow> string \<Rightarrow> RepSubsystem \<Rightarrow> string option \<times> RepSubsystem" where
  "RecordProofFidelity bad now consumer level s = (if rs_closed s then (Some ErrSubsystemClosed, s)
     else let v = (if level = ''full_two_signal'' then Fin 1 else if level = ''partial'' then Fin (1 / 2) else Fin 0)
       in ingest bad consumer RoleConsumer SignalProofFidelityLevel v now s)"

definition RecordOfferOutcome :: "rep_bad \<Rightarrow> time \<Rightarrow> ident \<Rightarrow> string \<Rightarrow> RepSubsystem \<Rightarrow> string option \<times> RepSubsystem" where
  "RecordOfferOutcome bad now seeder outcome s = (if rs_closed s then (Some ErrSubsystemClosed, s)
     else if outcome = ''accept'' then ingest bad seeder RoleSeeder SignalOfferAccept (Fin 1) now s
     else if outcome = ''reject'' then ingest bad seeder RoleSeeder SignalOfferReject (Fin 1) now s
     else if outcome = ''unreachable'' then ingest bad seeder RoleSeeder SignalOfferUnreachable (Fin 1) now s
     else (Some ''reputation: RecordOfferOutcome: unknown outcome'', s))"

text \<open>In \<open>OnLedgerEvent\<close> every storage error is dropped and the next statement runs all the same.\<close>

definition ingest_blind :: "rep_bad \<Rightarrow> ident \<Rightarrow> Role \<Rightarrow> SignalKind \<Rightarrow> time \<Rightarrow> rep_db \<Rightarrow> rep_db" where
  "ingest_blind bad i role kind now db =
     snd (appendEvent (bad AtIngest i) i role kind (Fin 1) now (snd (ensureState (bad AtIngest i) i now db)))"

definition Rep_OnLedgerEvent :: "rep_bad \<Rightarrow> time \<Rightarrow> AdmEvent \<Rightarrow> RepSubsystem \<Rightarrow> RepSubsystem" where
  "Rep_OnLedgerEvent bad now ev s = (if rs_closed s then s else (case ae_kind ev of
       LedgerEventSettlement \<Rightarrow>
         (let db = snd (ensureState (bad AtConsumer (ae_consumer_id ev)) (ae_consumer_id ev) now (rs_db s));
              kind = (if and (ae_flags ev) 1 \<noteq> 0 then SignalSettlementSigMissing else SignalSettlementClean)
          in s\<lparr>rs_db := (if ae_seeder_id ev \<noteq> zero_id then ingest_blind bad (ae_seeder_id ev) RoleSeeder kind now db else db)\<rparr>)
     | LedgerEventDisputeFiled \<Rightarrow> s\<lparr>rs_db := ingest_blind bad (ae_consumer_id ev) RoleConsumer SignalDisputeFiled now (rs_db s)\<rparr>
     | LedgerEventDisputeResolved \<Rightarrow> if \<not> ae_dispute_upheld ev then s
         else s\<lparr>rs_db := ingest_blind bad (ae_consumer_id ev) RoleConsumer SignalDisputeUpheld now (rs_db s)\<rparr>
     | _ \<Rightarrow> s))"

section \<open>Breaches, freeze and unfreeze\<close>

definition refreshOne :: "rep_bad \<Rightarrow> ident \<Rightarrow> RepSubsystem \<Rightarrow> string option \<times> RepSubsystem" where
  "refreshOne bad i s = (case readState (bad AtRefresh i) i (rs_db s) of Inl e \<Rightarrow> (Some e, s)
     | Inr None \<Rightarrow> (None, s)
     | Inr (Some row) \<Rightarrow>
       (let scores = (case loadAllScores (bad AtRefresh i) (rs_db s) of Inl _ \<Rightarrow> Map.empty | Inr m \<Rightarrow> m);
            cur = (case rs_cache s of None \<Rightarrow> Map.empty | Some c \<Rightarrow> c);
            sc = (case scores i of Some x \<Rightarrow> x
                  | None \<Rightarrow> (case cur i of Some prev \<Rightarrow> ce_score prev | None \<Rightarrow> rc_default_score (rs_cfg s)))
        in (None, s\<lparr>rs_cache := Some (cur(i \<mapsto> entry_of row sc))\<rparr>)))"

definition RecordCategoricalBreach :: "rep_bad \<Rightarrow> time \<Rightarrow> ident \<Rightarrow> BreachKind \<Rightarrow> RepSubsystem \<Rightarrow> string option \<times> RepSubsystem" where
  "RecordCategoricalBreach bad now i kind s =
     (if rs_closed s then (Some ErrSubsystemClosed, s)
      else if kind = BreachUnspecified then (Some ''reputation: RecordCategoricalBreach: BreachUnspecified'', s)
      else (case ingest bad i (signalRole kind) SignalUnspecified (Fin 1) now s of
        (Some e, s1) \<Rightarrow> (Some e, s1)
      | (None, s1) \<Rightarrow>
        (let target = ImmediateAction kind;
             reason = zero_reason\<lparr>rr_kind := ''breach'', rr_breach_kind := BreachKind_String kind, rr_at := unix now\<rparr>;
             moved = transition (bad AtBreach i) i target reason now (rs_db s1)
         in (case readState (bad AtIngest i) i (rs_db s1) of Inl e \<Rightarrow> (Some e, s1)
           | Inr None \<Rightarrow> (case moved of (Some e, db) \<Rightarrow> (Some e, s1\<lparr>rs_db := db\<rparr>)
               | (None, db) \<Rightarrow> refreshOne bad i (s1\<lparr>rs_db := db\<rparr>))
           | Inr (Some cur) \<Rightarrow>
               if rw_state cur = StateFrozen then (None, s1)
               else if rw_state cur = target then
                 (case appendReason (bad AtBreach i) i reason now (rs_db s1) of (Some e, db) \<Rightarrow> (Some e, s1\<lparr>rs_db := db\<rparr>)
                  | (None, db) \<Rightarrow> refreshOne bad i (s1\<lparr>rs_db := db\<rparr>))
               else (case moved of
                    (Some e, db) \<Rightarrow> (if e = errInvalidTransition then None else Some e, s1\<lparr>rs_db := db\<rparr>)
                  | (None, db) \<Rightarrow> refreshOne bad i (s1\<lparr>rs_db := db\<rparr>))))))"

definition notifyFreeze :: "ident \<Rightarrow> string \<Rightarrow> time \<Rightarrow> RepSubsystem \<Rightarrow> RepSubsystem" where
  "notifyFreeze i reason revokedAt s = (if \<not> rs_listener s then s
     else s\<lparr>rs_notified := rs_notified s @ [(i, reason, revokedAt)]\<rparr>)"

definition manual_reason :: "string \<Rightarrow> time \<Rightarrow> ReasonRecord" where
  "manual_reason operator now = zero_reason\<lparr>rr_kind := ''manual'', rr_operator := operator, rr_at := unix now\<rparr>"

definition Freeze :: "rep_bad \<Rightarrow> time \<Rightarrow> ident \<Rightarrow> string \<Rightarrow> RepSubsystem \<Rightarrow> string option \<times> RepSubsystem" where
  "Freeze bad now i operator s =
     (if rs_closed s then (Some ErrSubsystemClosed, s)
      else (case ensureState (bad AtFreeze i) i now (rs_db s) of (Some e, db) \<Rightarrow> (Some e, s\<lparr>rs_db := db\<rparr>)
       | (None, db) \<Rightarrow> (case transition (bad AtFreeze i) i StateFrozen (manual_reason operator now) now db of
           (Some e, db1) \<Rightarrow> (if e = errInvalidTransition then None else Some e, s\<lparr>rs_db := db1\<rparr>)
         | (None, db1) \<Rightarrow> (case refreshOne bad i (s\<lparr>rs_db := db1\<rparr>) of
             (Some e, s1) \<Rightarrow> (Some e, s1)
           | (None, s1) \<Rightarrow> (None, notifyFreeze i ''operator'' now s1)))))"

definition Unfreeze :: "rep_bad \<Rightarrow> time \<Rightarrow> ident \<Rightarrow> string \<Rightarrow> RepSubsystem \<Rightarrow> string option \<times> RepSubsystem" where
  "Unfreeze bad now i operator s =
     (if rs_closed s then (Some ErrSubsystemClosed, s)
      else (case clearFrozen (bad AtUnfreeze i) i (manual_reason operator now) now (rs_db s) of
         (Some e, db) \<Rightarrow> (Some e, s\<lparr>rs_db := db\<rparr>)
       | (None, db) \<Rightarrow> refreshOne bad i (s\<lparr>rs_db := db\<rparr>)))"

section \<open>The evaluator\<close>

definition signalLabel :: "SignalKind \<Rightarrow> string" where
  "signalLabel sig = (case sig of SignalBrokerRequest \<Rightarrow> ''network_requests_per_h'' | SignalProofRejection \<Rightarrow> ''proof_rejection_rate''
     | SignalExhaustionClaim \<Rightarrow> ''exhaustion_claim_rate'' | SignalCostReportDeviation \<Rightarrow> ''cost_report_deviation''
     | SignalConsumerComplaint \<Rightarrow> ''consumer_complaint_rate'' | _ \<Rightarrow> ''unknown'')"

definition windowLabel :: "SignalKind \<Rightarrow> string" where
  "windowLabel sig = (case sig of SignalBrokerRequest \<Rightarrow> ''1h'' | _ \<Rightarrow> ''24h'')"

record rep_flag =
  fl_id :: ident
  fl_signal :: SignalKind
  fl_z :: float64
  fl_window :: string

text \<open>\<open>now.Add(-time.Duration(n) * time.Second)\<close>: the product wraps.\<close>

definition cutoff :: "time \<Rightarrow> int \<Rightarrow> time" where
  "cutoff now n = now + i64_wrap (- n * 10 ^ 9)"

definition primaryWindow :: "ReputationConfig \<Rightarrow> time \<Rightarrow> SignalKind \<Rightarrow> time \<times> time" where
  "primaryWindow cfg now sig = (case sig of
       SignalBrokerRequest \<Rightarrow> (cutoff now (rc_short_s cfg), now + seconds 1)
     | _ \<Rightarrow> (cutoff now (rc_medium_s cfg), now + seconds 1))"

text \<open>One round of the loop over \<open>PrimarySignals\<close>: the outliers of a signal, and the loop.\<close>

definition flag_signal :: "rep_bad \<Rightarrow> ReputationConfig \<Rightarrow> time \<Rightarrow> rep_db \<Rightarrow> SignalKind \<Rightarrow> string + rep_flag list" where
  "flag_signal bad cfg now db sig = (case primaryWindow cfg now sig of (from, to) \<Rightarrow>
     (case aggregateBySignal (bad (AtFlag sig) []) sig from to db of Inl e \<Rightarrow> Inl e
      | Inr rows \<Rightarrow> (case populationSize (bad (AtFlag sig) []) (SignalKind_Role sig) from to db of Inl e \<Rightarrow> Inl e
        | Inr popSize \<Rightarrow>
          if popSize < rc_min_population_for_z_score cfg then Inr []
          else (case medianMAD (map snd rows) of (median, mad) \<Rightarrow>
            if f_eq mad (Fin 0) then Inr []
            else Inr (map (\<lambda>r. \<lparr>fl_id = fst r, fl_signal = sig, fl_z = zScore (snd r) median mad, fl_window = windowLabel sig\<rparr>)
                   (filter (\<lambda>r. f_lt (rc_z_score_threshold cfg) (f_abs (zScore (snd r) median mad))) rows))))))"

fun flag_all :: "rep_bad \<Rightarrow> ReputationConfig \<Rightarrow> time \<Rightarrow> rep_db \<Rightarrow> SignalKind list \<Rightarrow> string + rep_flag list" where
  "flag_all bad cfg now db [] = Inr []"
| "flag_all bad cfg now db (sig # sigs) = (case flag_signal bad cfg now db sig of Inl e \<Rightarrow> Inl e
     | Inr fs \<Rightarrow> (case flag_all bad cfg now db sigs of Inl e \<Rightarrow> Inl e | Inr gs \<Rightarrow> Inr (fs @ gs)))"

definition zscore_reason :: "rep_flag \<Rightarrow> time \<Rightarrow> ReasonRecord" where
  "zscore_reason f now = zero_reason\<lparr>rr_kind := ''zscore'', rr_signal := signalLabel (fl_signal f), rr_z := fl_z f,
     rr_window := fl_window f, rr_at := unix now\<rparr>"

text \<open>The loop that moves flagged identities to AUDIT, against the states loaded before it.\<close>

fun flag_loop :: "rep_bad \<Rightarrow> time \<Rightarrow> (ident \<rightharpoonup> stateRow) \<Rightarrow> rep_flag list \<Rightarrow> rep_db \<Rightarrow> string option \<times> rep_db" where
  "flag_loop bad now states [] db = (None, db)"
| "flag_loop bad now states (f # fs) db =
     (if states (fl_id f) = None \<or> rw_state (the (states (fl_id f))) = StateOK then
        (case transition (bad (AtFlag (fl_signal f)) (fl_id f)) (fl_id f) StateAudit (zscore_reason f now) now db of
           (Some e, db') \<Rightarrow> if e \<noteq> errInvalidTransition then (Some e, db') else flag_loop bad now states fs db'
         | (None, db') \<Rightarrow> flag_loop bad now states fs db')
      else flag_loop bad now states fs db)"

definition audit_reason :: "ReasonRecord \<Rightarrow> bool" where
  "audit_reason r \<longleftrightarrow> \<not> (rr_kind r \<noteq> ''zscore'' \<and> rr_kind r \<noteq> ''breach'')"

fun later :: "time \<Rightarrow> ReasonRecord list \<Rightarrow> time" where
  "later t [] = t"
| "later t (r # rs) = (let rt = seconds (rr_at r) in later (if rt > t then rt else t) rs)"

definition recent_audits :: "time \<Rightarrow> ReasonRecord list \<Rightarrow> ReasonRecord list" where
  "recent_audits now rs = filter (\<lambda>r. audit_reason r \<and> seconds (rr_at r) > now - seconds (7 * 24 * 3600)) rs"

text \<open>The body of the loop over the states, and the loop.\<close>

definition audit_one :: "rep_bad \<Rightarrow> time \<Rightarrow> ident list \<Rightarrow> ident \<Rightarrow> stateRow \<Rightarrow> RepSubsystem \<Rightarrow> RepSubsystem" where
  "audit_one bad now flagged i st s =
     (if rw_state st \<noteq> StateAudit then s
      else let recent = recent_audits now (rw_reasons st);
               lastAudit = later zero_time recent
        in if length recent \<ge> 3 then
             (case transition (bad AtAudit i) i StateFrozen
                 (zero_reason\<lparr>rr_kind := ''transition'', rr_signal := ''freeze_repeat'', rr_at := unix now\<rparr>) now (rs_db s) of
                (Some e, db) \<Rightarrow> s\<lparr>rs_db := db\<rparr>
              | (None, db) \<Rightarrow> notifyFreeze i ''freeze_repeat'' now (s\<lparr>rs_db := db\<rparr>))
           else if lastAudit \<noteq> zero_time \<and> lastAudit < now - seconds (48 * 3600) \<and> i \<notin> set flagged then
             s\<lparr>rs_db := snd (transition (bad AtAudit i) i StateOK
                 (zero_reason\<lparr>rr_kind := ''transition'', rr_signal := ''audit_cleared'', rr_at := unix now\<rparr>) now (rs_db s))\<rparr>
           else s)"

fun audit_states :: "rep_bad \<Rightarrow> time \<Rightarrow> ident list \<Rightarrow> (ident \<rightharpoonup> stateRow) \<Rightarrow> ident list \<Rightarrow> RepSubsystem \<Rightarrow> RepSubsystem" where
  "audit_states bad now flagged states [] s = s"
| "audit_states bad now flagged states (i # is) s = audit_states bad now flagged states is
     (case states i of None \<Rightarrow> s | Some st \<Rightarrow> audit_one bad now flagged i st s)"

definition lastAuditTime :: "ReasonRecord list \<Rightarrow> time" where
  "lastAuditTime reasons = later zero_time (filter audit_reason reasons)"

definition row_score :: "rep_math \<Rightarrow> time \<Rightarrow> stateRow \<Rightarrow> float64" where
  "row_score lib now st = computeScore lib ((newDefaultInputs (seconds (rw_first_seen_at st)) now)\<lparr>
     si_last_audit_at := lastAuditTime (rw_reasons st)\<rparr>)"

text \<open>The loop of \<open>recomputeScoresAndPublish\<close> over the loaded states, which fills the next cache.\<close>

fun score_loop :: "rep_bad \<Rightarrow> rep_math \<Rightarrow> time \<Rightarrow> (ident \<rightharpoonup> stateRow) \<Rightarrow> ident list \<Rightarrow> scoreCache \<Rightarrow> rep_db \<Rightarrow>
    (string + scoreCache) \<times> rep_db" where
  "score_loop bad lib now states [] next db = (Inr next, db)"
| "score_loop bad lib now states (i # is) next db = (case states i of
       None \<Rightarrow> score_loop bad lib now states is next db
     | Some st \<Rightarrow> (case upsertScore (bad AtScore i) i (row_score lib now st) now db of
         (Some e, db') \<Rightarrow> (Inl e, db')
       | (None, db') \<Rightarrow> score_loop bad lib now states is (next(i \<mapsto> entry_of st (row_score lib now st))) db'))"

definition publishScores :: "rep_bad \<Rightarrow> rep_math \<Rightarrow> time \<Rightarrow> ident list \<Rightarrow> (ident \<rightharpoonup> stateRow) \<Rightarrow> RepSubsystem \<Rightarrow> string option \<times> RepSubsystem" where
  "publishScores bad lib now order states s = (case score_loop bad lib now states order Map.empty (rs_db s) of
       (Inl e, db) \<Rightarrow> (Some e, s\<lparr>rs_db := db\<rparr>)
     | (Inr next, db) \<Rightarrow> (None, s\<lparr>rs_db := db, rs_cache := Some next\<rparr>))"

definition recomputeScoresAndPublish :: "rep_bad \<Rightarrow> rep_math \<Rightarrow> time \<Rightarrow> ident list \<Rightarrow> RepSubsystem \<Rightarrow> string option \<times> RepSubsystem" where
  "recomputeScoresAndPublish bad lib now order s = (case loadAllStates (bad (AtLoad 2) []) (rs_db s) of Inl e \<Rightarrow> (Some e, s)
     | Inr states \<Rightarrow> publishScores bad lib now order states s)"

text \<open>\<open>order1\<close> and \<open>order2\<close> are the orders of the two loops over the loaded states.\<close>

definition runOneCycle :: "rep_bad \<Rightarrow> rep_math \<Rightarrow> time \<Rightarrow> ident list \<Rightarrow> ident list \<Rightarrow> RepSubsystem \<Rightarrow> string option \<times> RepSubsystem" where
  "runOneCycle bad lib now order1 order2 s = (case flag_all bad (rs_cfg s) now (rs_db s) PrimarySignals of Inl e \<Rightarrow> (Some e, s)
     | Inr flagged \<Rightarrow> (case loadAllStates (bad (AtLoad 0) []) (rs_db s) of Inl e \<Rightarrow> (Some e, s)
     | Inr states \<Rightarrow> (case flag_loop bad now states flagged (rs_db s) of (Some e, db) \<Rightarrow> (Some e, s\<lparr>rs_db := db\<rparr>)
     | (None, db) \<Rightarrow> (case loadAllStates (bad (AtLoad 1) []) db of Inl e \<Rightarrow> (Some e, s\<lparr>rs_db := db\<rparr>)
     | Inr states1 \<Rightarrow>
       (let s1 = audit_states bad now (map fl_id flagged) states1 order1 (s\<lparr>rs_db := db\<rparr>) in
        case recomputeScoresAndPublish bad lib now order2 s1 of (Some e, s2) \<Rightarrow> (Some e, s2)
        | (None, s2) \<Rightarrow> (case pruneEventsBefore (bad AtPrune []) (cutoff now (rc_long_s (rs_cfg s))) (rs_db s2) of
            (e, db2) \<Rightarrow> (e, s2\<lparr>rs_db := db2\<rparr>)))))))"

end
