(* ===== verification/TB_Reputation_Spec.thy ===== *)
theory TB_Reputation_Spec
  imports TB_Evaluator
begin

text \<open>
  What the reputation subsystem promises. \<open>row_step\<close> is the abstract machine of one identity: a row is
  created in OK, moves to AUDIT on an outlier or a breach, from AUDIT to FROZEN on three recent audit
  reasons, back to OK after 48 quiet hours, and in and out of FROZEN by the operator. Every call, with any
  SQL failure, moves every row along that machine only. On the machine the reasons column is append-only
  and explains the state: replaying it gives the state.
\<close>

section \<open>The machine of one identity\<close>

definition moved :: "stateRow \<Rightarrow> RepState \<Rightarrow> ReasonRecord \<Rightarrow> time \<Rightarrow> stateRow" where
  "moved cur to r now = cur\<lparr>rw_state := to, rw_since := unix now, rw_reasons := rw_reasons cur @ [r], rw_updated_at := unix now\<rparr>"

definition noted :: "stateRow \<Rightarrow> ReasonRecord \<Rightarrow> time \<Rightarrow> stateRow" where
  "noted cur r now = cur\<lparr>rw_reasons := rw_reasons cur @ [r], rw_updated_at := unix now\<rparr>"

definition is_freeze_repeat :: "ReasonRecord \<Rightarrow> bool" where
  "is_freeze_repeat r \<longleftrightarrow> rr_kind r = ''transition'' \<and> rr_signal r = ''freeze_repeat''"

definition is_audit_cleared :: "ReasonRecord \<Rightarrow> bool" where
  "is_audit_cleared r \<longleftrightarrow> rr_kind r = ''transition'' \<and> rr_signal r = ''audit_cleared''"

definition audits_since :: "i64 \<Rightarrow> ReasonRecord list \<Rightarrow> ReasonRecord list" where
  "audits_since t rs = filter (\<lambda>r. audit_reason r \<and> rr_at r > t) rs"

inductive row_step :: "stateRow option \<Rightarrow> stateRow option \<Rightarrow> bool" where
  rs_fresh: "row_step None (Some (fresh_row now))"
| rs_zscore: "rw_state c = StateOK \<Longrightarrow> rr_kind r = ''zscore'' \<Longrightarrow> row_step (Some c) (Some (moved c StateAudit r now))"
| rs_breach: "rw_state c = StateOK \<Longrightarrow> rr_kind r = ''breach'' \<Longrightarrow> row_step (Some c) (Some (moved c StateAudit r now))"
| rs_again: "rw_state c = StateAudit \<Longrightarrow> rr_kind r = ''breach'' \<Longrightarrow> row_step (Some c) (Some (noted c r now))"
| rs_repeat: "rw_state c = StateAudit \<Longrightarrow> is_freeze_repeat r \<Longrightarrow> 3 \<le> length (audits_since (rr_at r - 604800) (rw_reasons c)) \<Longrightarrow>
    row_step (Some c) (Some (moved c StateFrozen r now))"
| rs_cleared: "rw_state c = StateAudit \<Longrightarrow> is_audit_cleared r \<Longrightarrow> audits_since (rr_at r - 172800) (rw_reasons c) = [] \<Longrightarrow>
    audits_since (rr_at r - 604800) (rw_reasons c) \<noteq> [] \<Longrightarrow> row_step (Some c) (Some (moved c StateOK r now))"
| rs_freeze: "rw_state c \<noteq> StateFrozen \<Longrightarrow> rr_kind r = ''manual'' \<Longrightarrow> row_step (Some c) (Some (moved c StateFrozen r now))"
| rs_unfreeze: "rw_state c = StateFrozen \<Longrightarrow> rr_kind r = ''manual'' \<Longrightarrow> row_step (Some c) (Some (moved c StateOK r now))"

abbreviation row_run :: "stateRow option \<Rightarrow> stateRow option \<Rightarrow> bool" where
  "row_run \<equiv> row_step\<^sup>*\<^sup>*"

inductive_simps row_step_Some: "row_step (Some c) ro"
inductive_simps row_step_None: "row_step None ro"

lemmas row_steps = row_step.intros [THEN r_into_rtranclp [where r = row_step]]

section \<open>The trail of reasons\<close>

text \<open>What a reason does to the state, and whether it may follow the reasons before it.\<close>

definition trail_next :: "RepState \<Rightarrow> ReasonRecord \<Rightarrow> RepState" where
  "trail_next st r = (if audit_reason r then StateAudit
     else if rr_kind r = ''manual'' then (if st = StateFrozen then StateOK else StateFrozen)
     else if is_freeze_repeat r then StateFrozen else StateOK)"

definition trail_allowed :: "ReasonRecord list \<Rightarrow> RepState \<Rightarrow> ReasonRecord \<Rightarrow> bool" where
  "trail_allowed pre st r \<longleftrightarrow>
     (if rr_kind r = ''zscore'' then st = StateOK
      else if rr_kind r = ''breach'' then st \<noteq> StateFrozen
      else if rr_kind r = ''manual'' then True
      else if is_freeze_repeat r then st = StateAudit \<and> 3 \<le> length (audits_since (rr_at r - 604800) pre)
      else is_audit_cleared r \<and> st = StateAudit \<and> audits_since (rr_at r - 172800) pre = [] \<and> audits_since (rr_at r - 604800) pre \<noteq> [])"

definition trail_state :: "ReasonRecord list \<Rightarrow> RepState" where
  "trail_state rs = foldl trail_next StateOK rs"

definition trail_valid :: "ReasonRecord list \<Rightarrow> bool" where
  "trail_valid rs \<longleftrightarrow> (\<forall>k < length rs. trail_allowed (take k rs) (trail_state (take k rs)) (rs ! k))"

fun freezes :: "RepState \<Rightarrow> ReasonRecord list \<Rightarrow> nat" where
  "freezes st [] = 0"
| "freezes st (r # rs) = (if trail_next st r = StateFrozen then 1 else 0) + freezes (trail_next st r) rs"

definition explained :: "stateRow option \<Rightarrow> bool" where
  "explained ro \<longleftrightarrow> (case ro of None \<Rightarrow> True | Some c \<Rightarrow> trail_valid (rw_reasons c) \<and> trail_state (rw_reasons c) = rw_state c)"

lemma trail_state_snoc [simp]: "trail_state (rs @ [r]) = trail_next (trail_state rs) r"
  by (simp add: trail_state_def)

lemma trail_valid_snoc [simp]: "trail_valid (rs @ [r]) \<longleftrightarrow> trail_valid rs \<and> trail_allowed rs (trail_state rs) r"
  by (auto simp: trail_valid_def nth_append less_Suc_eq all_conj_distrib)

lemma trail_Nil [simp]: "trail_valid []" "trail_state [] = StateOK"
  by (simp_all add: trail_valid_def trail_state_def)

lemma freezes_append: "freezes st (xs @ ys) = freezes st xs + freezes (foldl trail_next st xs) ys"
  by (induction xs arbitrary: st) auto

lemma moved_simps [simp]: "rw_reasons (moved c to r now) = rw_reasons c @ [r]" "rw_state (moved c to r now) = to"
    "rw_first_seen_at (moved c to r now) = rw_first_seen_at c"
    "rw_reasons (noted c r now) = rw_reasons c @ [r]" "rw_state (noted c r now) = rw_state c"
    "rw_first_seen_at (noted c r now) = rw_first_seen_at c" "rw_reasons (fresh_row now) = []" "rw_state (fresh_row now) = StateOK"
  by (simp_all add: moved_def noted_def fresh_row_def)

lemma explained_step: "row_step ro ro' \<Longrightarrow> explained ro \<Longrightarrow> explained ro'"
  by (induction rule: row_step.induct)
     (auto simp: explained_def trail_allowed_def trail_next_def audit_reason_def is_freeze_repeat_def is_audit_cleared_def)

lemma explained_run: "row_run ro ro' \<Longrightarrow> explained ro \<Longrightarrow> explained ro'"
  by (induction rule: rtranclp_induct) (auto intro: explained_step)

text \<open>A row is never dropped, its first sighting never changes, and its reasons only grow.\<close>

definition row_grows :: "stateRow option \<Rightarrow> stateRow option \<Rightarrow> bool" where
  "row_grows ro ro' \<longleftrightarrow> (\<forall>c. ro = Some c \<longrightarrow> (\<exists>c' more. ro' = Some c' \<and> rw_first_seen_at c' = rw_first_seen_at c \<and>
     rw_reasons c' = rw_reasons c @ more))"

lemma grows_refl: "row_grows ro ro"
  by (simp add: row_grows_def)

lemma grows_trans: "row_grows a b \<Longrightarrow> row_grows b c \<Longrightarrow> row_grows a c"
  by (force simp: row_grows_def)

lemma grows_run: "row_run ro ro' \<Longrightarrow> row_grows ro ro'"
proof (induction rule: rtranclp_induct)
  case (step y z)
  have "row_grows y z" using step.hyps(2) by (induction rule: row_step.induct) (auto simp: row_grows_def)
  then show ?case using step.IH grows_trans by blast
qed (rule grows_refl)

section \<open>Every call follows the machine\<close>

definition db_runs :: "rep_db \<Rightarrow> rep_db \<Rightarrow> bool" where
  "db_runs db db' \<longleftrightarrow> (\<forall>i. row_run (rd_state db i) (rd_state db' i))"

lemma db_runs_refl [simp]: "db_runs db db"
  by (simp add: db_runs_def)

lemma db_runs_trans: "db_runs a b \<Longrightarrow> db_runs b c \<Longrightarrow> db_runs a c"
  unfolding db_runs_def by (meson rtranclp_trans)

lemma db_runs_upd: "row_run (rd_state db i) (Some c) \<Longrightarrow> rd_state db' = (rd_state db)(i \<mapsto> c) \<Longrightarrow> db_runs db db'"
  by (simp add: db_runs_def)

lemma db_runs_same: "rd_state db' = rd_state db \<Longrightarrow> db_runs db db'"
  by (simp add: db_runs_def)

lemma ensureState_runs: "db_runs db (snd (ensureState bad i now db))"
  by (auto simp: ensureState_def db_runs_def row_step_None split: option.splits intro: row_steps)

text \<open>What \<open>transition\<close> does, by outcome.\<close>

lemma transition_cases:
  obtains (failed) e db1 where "transition bad i to r now db = (Some e, db1)"
      "db1 = db \<or> rd_state db i = None \<and> rd_state db1 = (rd_state db)(i \<mapsto> fresh_row now)"
      "rd_events db1 = rd_events db" "rd_scores db1 = rd_scores db"
  | (ok) cur db1 where "transition bad i to r now db = (None, db1)"
      "cur = (case rd_state db i of Some c \<Rightarrow> c | None \<Rightarrow> fresh_row now)" "canTransition (rw_state cur) to"
      "rd_state db1 = (rd_state db)(i \<mapsto> moved cur to r now)" "rd_events db1 = rd_events db" "rd_scores db1 = rd_scores db"
proof (cases "fst (transition bad i to r now db)")
  case None
  then show thesis
    by (intro ok [of "snd (transition bad i to r now db)" "case rd_state db i of Some c \<Rightarrow> c | None \<Rightarrow> fresh_row now"])
       (auto simp: transition_def readState_def Let_def moved_def split: if_splits option.splits)
next
  case (Some e)
  then show thesis
    by (intro failed [of e "snd (transition bad i to r now db)"])
       (auto simp: transition_def readState_def Let_def split: if_splits option.splits)
qed

lemma transition_runs:
  assumes "\<And>c. (rd_state db i = Some c \<or> rd_state db i = None \<and> c = fresh_row now) \<Longrightarrow> canTransition (rw_state c) to \<Longrightarrow>
    row_step (Some c) (Some (moved c to r now))"
  shows "db_runs db (snd (transition bad i to r now db))"
proof (cases rule: transition_cases [of bad i to r now db])
  case (failed e db1)
  then show ?thesis by (auto simp: db_runs_def intro: row_steps)
next
  case (ok cur db1)
  have "row_run (rd_state db i) (Some cur)" using ok(2) by (auto split: option.splits intro: row_steps)
  moreover have "row_step (Some cur) (Some (moved cur to r now))"
    using assms [of cur] ok(2,3) by (auto split: option.splits)
  ultimately have "row_run (rd_state db i) (Some (moved cur to r now))" by (rule rtranclp.rtrancl_into_rtrancl)
  then show ?thesis using ok(1,4) by (auto intro: db_runs_upd)
qed

lemma ingest_runs: "db_runs (rs_db s) (rs_db (snd (ingest bad i role kind v now s)))"
  using ensureState_runs [of "rs_db s" "bad AtIngest i" i now]
  by (auto simp: ingest_def appendEvent_def db_runs_def split: prod.splits option.splits)

lemma ingest_blind_runs: "db_runs db (ingest_blind bad i role kind now db)"
  using ensureState_runs [of db "bad AtIngest i" i now]
  by (auto simp: ingest_blind_def appendEvent_def db_runs_def split: if_splits)

lemma appendReason_runs:
  assumes "\<And>c. rd_state db i = Some c \<Longrightarrow> rw_state c = StateAudit" "rr_kind r = ''breach''"
  shows "db_runs db (snd (appendReason bad i r now db))"
  using assms row_step.rs_again [of _ r now]
  by (auto simp: appendReason_def readState_def Let_def noted_def intro!: db_runs_upd split: option.splits)

lemma clearFrozen_runs:
  assumes "rr_kind r = ''manual''"
  shows "db_runs db (snd (clearFrozen bad i r now db))"
  using assms row_step.rs_unfreeze [of _ r now]
  by (auto simp: clearFrozen_def readState_def Let_def moved_def intro!: db_runs_upd split: option.splits)

lemma refreshOne_db [simp]: "rs_db (snd (refreshOne bad i s)) = rs_db s" "rs_notified (snd (refreshOne bad i s)) = rs_notified s"
    "rs_cfg (snd (refreshOne bad i s)) = rs_cfg s"
  by (auto simp: refreshOne_def Let_def split: sum.splits option.splits)

lemma refreshOne_eq: "refreshOne bad i s = (e, s1) \<Longrightarrow> rs_db s1 = rs_db s \<and> rs_notified s1 = rs_notified s \<and> rs_cfg s1 = rs_cfg s"
  using refreshOne_db [of bad i s] by simp

lemma notifyFreeze_db [simp]: "rs_db (notifyFreeze i r t s) = rs_db s" "rs_cache (notifyFreeze i r t s) = rs_cache s"
    "rs_cfg (notifyFreeze i r t s) = rs_cfg s" "IsFrozen (notifyFreeze i r t s) = IsFrozen s"
  by (simp_all add: notifyFreeze_def IsFrozen_def fun_eq_iff)

text \<open>The breaches the code declares all call for an audit.\<close>

definition declared :: "BreachKind \<Rightarrow> bool" where
  "declared k \<longleftrightarrow> (case k of BreachUnspecified \<Rightarrow> False | BreachOther _ \<Rightarrow> False | _ \<Rightarrow> True)"

lemma declared_audit [simp]: "declared k \<Longrightarrow> ImmediateAction k = StateAudit"
  by (cases k) (auto simp: declared_def)

lemma breach_runs:
  assumes "declared kind"
  shows "db_runs (rs_db s) (rs_db (snd (RecordCategoricalBreach bad now i kind s)))"
proof -
  define r where "r = zero_reason\<lparr>rr_kind := ''breach'', rr_breach_kind := BreachKind_String kind, rr_at := unix now\<rparr>"
  have kind: "rr_kind r = ''breach''" by (simp add: r_def)
  have T: "db_runs db (snd (transition (bad AtBreach i) i StateAudit r now db))" for db
    by (rule transition_runs) (auto simp: canTransition_def kind intro!: row_step.rs_breach split: if_splits intro: RepState.exhaust)
  show ?thesis
  proof (cases "ingest bad i (signalRole kind) SignalUnspecified (Fin 1) now s")
    case (Pair e s1)
    have I: "db_runs (rs_db s) (rs_db s1)" using ingest_runs [of s bad i "signalRole kind" SignalUnspecified "Fin 1" now] Pair by simp
    note tr = db_runs_trans [OF I]
    have T1: "db_runs (rs_db s) db" if "transition (bad AtBreach i) i StateAudit r now (rs_db s1) = (x, db)" for x db
      using tr [OF T] that by (metis snd_conv)
    have A1: "db_runs (rs_db s) db" if "appendReason (bad AtBreach i) i r now (rs_db s1) = (x, db)"
      "rd_state (rs_db s1) i = Some c" "rw_state c = StateAudit" for x db c
      using tr [OF appendReason_runs [of "rs_db s1" i r "bad AtBreach i" now]] that kind by (metis option.inject snd_conv)
    show ?thesis using assms I
      by (auto simp: RecordCategoricalBreach_def Pair Let_def r_def [symmetric] readState_def T1 A1 split: option.splits prod.splits if_splits)
  qed
qed

lemma Freeze_runs: "db_runs (rs_db s) (rs_db (snd (Freeze bad now i op s)))"
proof -
  have T: "db_runs db (snd (transition (bad AtFreeze i) i StateFrozen (manual_reason op now) now db))" for db
    by (rule transition_runs) (auto simp: canTransition_def manual_reason_def intro!: row_step.rs_freeze)
  have "db_runs (rs_db s) db1"
    if "ensureState (bad AtFreeze i) i now (rs_db s) = (e, db)"
       "transition (bad AtFreeze i) i StateFrozen (manual_reason op now) now db = (e1, db1)" for e db e1 db1
    using db_runs_trans [OF ensureState_runs T] that by (metis snd_conv)
  moreover have "db_runs (rs_db s) db" if "ensureState (bad AtFreeze i) i now (rs_db s) = (e, db)" for e db
    using ensureState_runs that by (metis snd_conv)
  ultimately show ?thesis
    by (auto simp: Freeze_def dest!: refreshOne_eq split: prod.splits option.splits)
qed

lemma Unfreeze_runs: "db_runs (rs_db s) (rs_db (snd (Unfreeze bad now i op s)))"
  using clearFrozen_runs [of "manual_reason op now" "rs_db s" "bad AtUnfreeze i" i now]
  by (auto simp: Unfreeze_def manual_reason_def split: prod.splits option.splits)


lemma later_mono: "t \<le> later t rs"
proof (induction rs arbitrary: t)
  case (Cons a rs)
  have "t \<le> (if seconds (rr_at a) > t then seconds (rr_at a) else t)" by simp
  also have "\<dots> \<le> later (if seconds (rr_at a) > t then seconds (rr_at a) else t) rs" by (rule Cons.IH)
  finally show ?case by (simp add: Let_def)
qed simp

lemma later_ge: "r \<in> set rs \<Longrightarrow> seconds (rr_at r) \<le> later t rs"
proof (induction rs arbitrary: t)
  case (Cons a rs)
  have "seconds (rr_at a) \<le> later (if seconds (rr_at a) > t then seconds (rr_at a) else t) rs"
    using later_mono [of "if seconds (rr_at a) > t then seconds (rr_at a) else t" rs] by (simp split: if_splits)
  then show ?case using Cons by (auto simp: Let_def)
qed simp

lemma later_Nil_conv: "later t rs \<noteq> t \<Longrightarrow> rs \<noteq> []"
  by auto

lemma seconds_unix: "seconds a > now - seconds k \<Longrightarrow> a > unix now - k" "seconds a < now - seconds k \<Longrightarrow> \<not> a > unix now - k"
  by (simp_all add: seconds_def unix_def)

lemma length_filter_mono: "(\<And>x. P x \<Longrightarrow> Q x) \<Longrightarrow> length (filter P xs) \<le> length (filter Q xs)"
  by (induction xs) auto

lemma recent_le_since: "length (recent_audits now rs) \<le> length (audits_since (unix now - 604800) rs)"
  unfolding recent_audits_def audits_since_def
  by (rule length_filter_mono) (auto dest: seconds_unix(1))

lemma quiet_since:
  assumes "later zero_time (recent_audits now rs) < now - seconds (48 * 3600)"
  shows "audits_since (unix now - 172800) rs = []"
proof -
  have "\<not> rr_at r > unix now - 172800" if "r \<in> set rs" "audit_reason r" for r
  proof (rule seconds_unix(2))
    show "seconds (rr_at r) < now - seconds 172800"
    proof (cases "r \<in> set (recent_audits now rs)")
      case True
      then show ?thesis using later_ge [OF True, of zero_time] assms by simp
    next
      case False
      then show ?thesis using that by (simp add: recent_audits_def seconds_def)
    qed
  qed
  then show ?thesis by (auto simp: audits_since_def filter_empty_conv)
qed

lemma audit_one_other: "j \<noteq> i \<Longrightarrow> rd_state (rs_db (audit_one bad now flagged i st s)) j = rd_state (rs_db s) j"
proof -
  assume ne: "j \<noteq> i"
  have T: "rd_state (snd (transition b i to r now db)) j = rd_state db j" for b to r db
    by (cases rule: transition_cases [of b i to r now db]) (use ne in auto)
  then show ?thesis by (auto simp: audit_one_def Let_def split: prod.splits option.splits dest: arg_cong [of _ _ snd]) (metis snd_conv)+
qed

lemma audit_one_runs:
  assumes "rd_state (rs_db s) i = Some st"
  shows "db_runs (rs_db s) (rs_db (audit_one bad now flagged i st s))"
proof -
  let ?fr = "zero_reason\<lparr>rr_kind := ''transition'', rr_signal := ''freeze_repeat'', rr_at := unix now\<rparr>"
  let ?ok = "zero_reason\<lparr>rr_kind := ''transition'', rr_signal := ''audit_cleared'', rr_at := unix now\<rparr>"
  have F: "db_runs (rs_db s) (snd (transition (bad AtAudit i) i StateFrozen ?fr now (rs_db s)))"
    if "rw_state st = StateAudit" "length (recent_audits now (rw_reasons st)) \<ge> 3"
    by (rule transition_runs)
       (use assms that recent_le_since [of now "rw_reasons st"] in \<open>auto intro!: row_step.rs_repeat simp: is_freeze_repeat_def\<close>)
  have C: "db_runs (rs_db s) (snd (transition (bad AtAudit i) i StateOK ?ok now (rs_db s)))"
    if "rw_state st = StateAudit" "later zero_time (recent_audits now (rw_reasons st)) \<noteq> zero_time"
       "later zero_time (recent_audits now (rw_reasons st)) < now - seconds (48 * 3600)"
    by (rule transition_runs)
       (use assms that later_Nil_conv [OF that(2)] recent_le_since [of now "rw_reasons st"] quiet_since [OF that(3)] in
         \<open>auto intro!: row_step.rs_cleared simp: is_audit_cleared_def\<close>)
  show ?thesis using F C
    by (auto simp: audit_one_def Let_def split: prod.splits option.splits)
qed

lemma audit_loop_runs:
  assumes "distinct is" "\<And>i. i \<in> set is \<Longrightarrow> rd_state (rs_db s) i = states i"
  shows "db_runs (rs_db s) (rs_db (audit_states bad now flagged states is s))"
  using assms
proof (induction "is" arbitrary: s)
  case (Cons i "is")
  define s1 where "s1 = (case states i of None \<Rightarrow> s | Some st \<Rightarrow> audit_one bad now flagged i st s)"
  have "db_runs (rs_db s) (rs_db s1)" using Cons.prems(2) [of i] by (auto simp: s1_def audit_one_runs split: option.splits)
  moreover have "rd_state (rs_db s1) j = states j" if "j \<in> set is" for j
  proof -
    have "j \<noteq> i" using that Cons.prems(1) by auto
    then show ?thesis using that Cons.prems(2) [of j] by (auto simp: s1_def audit_one_other split: option.splits)
  qed
  ultimately show ?case using Cons.IH [of s1] Cons.prems(1) db_runs_trans by (auto simp: s1_def)
qed simp

lemma flag_loop_runs: "db_runs db (snd (flag_loop bad now states fs db))"
proof (induction fs arbitrary: db)
  case (Cons f fs)
  have T: "db_runs db (snd (transition b (fl_id f) StateAudit (zscore_reason f now) now db))" for b
    by (rule transition_runs) (auto simp: canTransition_def zscore_reason_def intro!: row_step.rs_zscore split: if_splits intro: RepState.exhaust)
  have "db_runs db db'" if "transition b (fl_id f) StateAudit (zscore_reason f now) now db = (e, db')" for b e db'
    using T [of b] that by simp
  then show ?case using Cons.IH db_runs_trans
    by (auto split: prod.splits option.splits) blast+
qed simp

lemma score_loop_state [simp]: "rd_state (snd (score_loop bad lib now states is next db)) = rd_state db"
  by (induction "is" arbitrary: "next" db) (auto simp: upsertScore_def split: option.splits)

lemma publish_db: "rd_state (rs_db (snd (publishScores bad lib now order states s))) = rd_state (rs_db s)"
    "rs_notified (snd (publishScores bad lib now order states s)) = rs_notified s"
  by (auto simp: publishScores_def dest: arg_cong [of _ _ "\<lambda>p. rd_state (snd p)"] split: prod.splits sum.splits)

lemma recompute_db: "rd_state (rs_db (snd (recomputeScoresAndPublish bad lib now order s))) = rd_state (rs_db s)"
    "rs_notified (snd (recomputeScoresAndPublish bad lib now order s)) = rs_notified s"
  by (auto simp: recomputeScoresAndPublish_def publish_db split: sum.splits)

lemma cycle_runs:
  assumes "distinct order1"
  shows "db_runs (rs_db s) (rs_db (snd (runOneCycle bad lib now order1 order2 s)))"
proof (cases "flag_all bad (rs_cfg s) now (rs_db s) PrimarySignals")
  case (Inr fs)
  obtain e db where fl: "flag_loop bad now (rd_state (rs_db s)) fs (rs_db s) = (e, db)" by fastforce
  have F: "db_runs (rs_db s) db" using flag_loop_runs [of "rs_db s" bad now "rd_state (rs_db s)" fs] fl by simp
  define s1 where "s1 = audit_states bad now (map fl_id fs) (rd_state db) order1 (s\<lparr>rs_db := db\<rparr>)"
  have "db_runs db (rs_db s1)" using audit_loop_runs [OF assms, of "s\<lparr>rs_db := db\<rparr>" "rd_state db"] by (simp add: s1_def)
  then have A: "db_runs (rs_db s) (rs_db s1)" using F db_runs_trans by blast
  have R: "db_runs (rs_db s) (rs_db s2)" if "recomputeScoresAndPublish bad lib now order2 s1 = (e, s2)" for e s2
    using recompute_db(1) [of bad lib now order2 s1] that A by (simp add: db_runs_def)
  show ?thesis using F A R
    by (auto simp: runOneCycle_def Inr fl loadAllStates_def Let_def s1_def [symmetric] pruneEventsBefore_def db_runs_def
      split: option.splits prod.splits)
qed (simp add: runOneCycle_def)

end
