(* ===== verification/TB_Reputation_Props.thy ===== *)
theory TB_Reputation_Props
  imports TB_Reputation_Spec TB_Broker_Spec
begin

text \<open>
  Runs of the reputation subsystem: any sequence of its calls and evaluator passes, each with its own
  clock and its own SQL failures (\<open>ok\<close> says which failures are allowed). A locale carries facts about the
  machine of one identity over to runs of the whole subsystem.
\<close>

section \<open>Keyed machines\<close>

locale keyed_machine =
  fixes step :: "'s \<Rightarrow> 's \<Rightarrow> bool"
    and view :: "'s \<Rightarrow> 'k \<Rightarrow> 'r"
    and mstep :: "'r \<Rightarrow> 'r \<Rightarrow> bool"
  assumes follows: "step s s' \<Longrightarrow> mstep\<^sup>*\<^sup>* (view s k) (view s' k)"
begin

lemma run_follows: "step\<^sup>*\<^sup>* s s' \<Longrightarrow> mstep\<^sup>*\<^sup>* (view s k) (view s' k)"
  by (induction rule: rtranclp_induct) (auto intro: rtranclp_trans follows)

lemma run_keeps:
  assumes "step\<^sup>*\<^sup>* s s'" "\<And>r r'. mstep r r' \<Longrightarrow> I r \<Longrightarrow> I r'" "I (view s k)"
  shows "I (view s' k)"
proof -
  have "I r'" if "mstep\<^sup>*\<^sup>* r r'" "I r" for r r'
    using that by (induction rule: rtranclp_induct) (auto intro: assms(2))
  then show ?thesis using run_follows [OF assms(1)] assms(3) by blast
qed

end

section \<open>Runs\<close>

abbreviation no_bad :: rep_bad where
  "no_bad \<equiv> (\<lambda>s i q. False)"

abbreviation row_of :: "RepSubsystem \<Rightarrow> ident \<Rightarrow> stateRow option" where
  "row_of s i \<equiv> rd_state (rs_db s) i"

inductive rep_step :: "(rep_bad \<Rightarrow> bool) \<Rightarrow> RepSubsystem \<Rightarrow> RepSubsystem \<Rightarrow> bool" for ok where
  st_request: "ok bad \<Longrightarrow> rep_step ok s (snd (RecordBrokerRequest bad now i s))"
| st_fidelity: "ok bad \<Longrightarrow> rep_step ok s (snd (RecordProofFidelity bad now i level s))"
| st_offer: "ok bad \<Longrightarrow> rep_step ok s (snd (RecordOfferOutcome bad now i outcome s))"
| st_ledger: "ok bad \<Longrightarrow> rep_step ok s (Rep_OnLedgerEvent bad now ev s)"
| st_breach: "ok bad \<Longrightarrow> declared kind \<Longrightarrow> rep_step ok s (snd (RecordCategoricalBreach bad now i kind s))"
| st_freeze: "ok bad \<Longrightarrow> rep_step ok s (snd (Freeze bad now i operator s))"
| st_unfreeze: "ok bad \<Longrightarrow> rep_step ok s (snd (Unfreeze bad now i operator s))"
| st_cycle: "ok bad \<Longrightarrow> \<not> rs_closed s \<Longrightarrow> s' = snd (runOneCycle bad lib now order1 order2 s) \<Longrightarrow> distinct order1 \<Longrightarrow>
    dom (row_of s') \<subseteq> set order1 \<Longrightarrow> dom (row_of s') \<subseteq> set order2 \<Longrightarrow> rep_step ok s s'"
| st_close: "rep_step ok s (Rep_Close s)"
| st_restart: "ok bad \<Longrightarrow> Rep_Open bad cfg (rs_listener s) (Inr (rs_db s)) = Inr s' \<Longrightarrow> rep_step ok s (s'\<lparr>rs_notified := rs_notified s\<rparr>)"

abbreviation rep_run :: "(rep_bad \<Rightarrow> bool) \<Rightarrow> RepSubsystem \<Rightarrow> RepSubsystem \<Rightarrow> bool" where
  "rep_run ok \<equiv> (rep_step ok)\<^sup>*\<^sup>*"

lemma Rep_Open_db: "Rep_Open bad cfg l (Inr db) = Inr s' \<Longrightarrow> rs_db s' = db"
  by (auto simp: Rep_Open_def reloadCache_def split: if_splits prod.splits option.splits sum.splits)

lemma ledger_runs: "db_runs (rs_db s) (rs_db (Rep_OnLedgerEvent bad now ev s))"
  using db_runs_trans [OF ensureState_runs ingest_blind_runs] ensureState_runs ingest_blind_runs
  by (auto simp: Rep_OnLedgerEvent_def Let_def split: LedgerEventKind.splits)

lemma rep_step_runs: "rep_step ok s s' \<Longrightarrow> db_runs (rs_db s) (rs_db s')"
proof (induction rule: rep_step.induct)
  case (st_cycle bad s s' lib now order1 order2)
  then show ?case using cycle_runs [OF st_cycle.hyps(4)] by simp
next
  case (st_restart bad cfg s s')
  then show ?case using Rep_Open_db by fastforce
qed (auto simp: RecordBrokerRequest_def RecordProofFidelity_def RecordOfferOutcome_def Rep_Close_def Let_def
      ingest_runs ledger_runs breach_runs Freeze_runs Unfreeze_runs)

interpretation rep: keyed_machine "rep_step ok" row_of row_step for ok
  by unfold_locales (use rep_step_runs in \<open>auto simp: db_runs_def\<close>)

section \<open>The state of an identity\<close>



text \<open>
  The audit history is append-only: a run never drops the row of an identity, never changes when it was
  first seen, and only appends to its reasons.
\<close>

theorem reasons_append_only:
  assumes "rep_run ok s s'" "row_of s i = Some c"
  shows "\<exists>c' more. row_of s' i = Some c' \<and> rw_first_seen_at c' = rw_first_seen_at c \<and> rw_reasons c' = rw_reasons c @ more"
  using grows_run [OF rep.run_follows [OF assms(1)], of i] assms(2) by (auto simp: row_grows_def)

lemma frozen_next:
  assumes "row_run (Some c) ro" "rw_state c = StateFrozen"
  shows "ro = Some c \<or> (\<exists>c' r more. ro = Some c' \<and> rw_reasons c' = rw_reasons c @ r # more \<and> rr_kind r = ''manual'')"
  using assms
proof (induction rule: rtranclp_induct)
  case (step y z)
  then consider "y = Some c" | c' r more where "y = Some c'" "rw_reasons c' = rw_reasons c @ r # more" "rr_kind r = ''manual''" by blast
  then show ?case
  proof cases
    case 1
    then show ?thesis using step.hyps(2) assms(2) by (auto simp: row_step_Some)
  next
    case 2
    then show ?thesis using grows_run [OF r_into_rtranclp [where r = row_step, OF step.hyps(2)]] by (force simp: row_grows_def)
  qed
qed simp

text \<open>
  FROZEN is left only through the operator: a frozen row is unchanged by a run, or the first reason added
  to it is a manual one.
\<close>

theorem frozen_until_operator:
  assumes "rep_run ok s s'" "row_of s i = Some c" "rw_state c = StateFrozen"
  shows "row_of s' i = Some c \<or>
    (\<exists>c' r more. row_of s' i = Some c' \<and> rw_reasons c' = rw_reasons c @ r # more \<and> rr_kind r = ''manual'')"
  using frozen_next [of c "row_of s' i"] rep.run_follows [OF assms(1), of i] assms(2,3) by simp

section \<open>The cache and the database\<close>

definition frozen_row :: "rep_db \<Rightarrow> ident \<Rightarrow> bool" where
  "frozen_row db i \<longleftrightarrow> (case rd_state db i of None \<Rightarrow> False | Some c \<Rightarrow> rw_state c = StateFrozen)"

definition coherent :: "RepSubsystem \<Rightarrow> bool" where
  "coherent s \<longleftrightarrow> (\<forall>i. IsFrozen s i \<longleftrightarrow> frozen_row (rs_db s) i)"

lemma IsFrozen_db [simp]: "IsFrozen (s\<lparr>rs_db := db\<rparr>) = IsFrozen s"
  by (simp add: IsFrozen_def fun_eq_iff)

lemma frozen_row_ensure [simp]: "frozen_row (snd (ensureState bad i now db)) = frozen_row db"
  by (auto simp: ensureState_def frozen_row_def fun_eq_iff split: option.splits)

lemma frozen_row_transition:
  "fst (transition bad i to r now db) \<noteq> None \<or> to \<noteq> StateFrozen \<Longrightarrow> frozen_row (snd (transition bad i to r now db)) = frozen_row db"
  by (cases rule: transition_cases [of bad i to r now db])
     (auto simp: frozen_row_def canTransition_def intro!: ext split: option.splits if_splits)

lemma frozen_row_reason [simp]: "frozen_row (snd (appendReason bad i r now db)) = frozen_row db"
  by (auto simp: appendReason_def readState_def Let_def frozen_row_def fun_eq_iff split: option.splits)

lemma frozen_row_other:
  "j \<noteq> i \<Longrightarrow> frozen_row (snd (transition bad i to r now db)) j = frozen_row db j"
  "j \<noteq> i \<Longrightarrow> frozen_row (snd (clearFrozen bad i r now db)) j = frozen_row db j"
  by (cases rule: transition_cases [of bad i to r now db]; auto simp: frozen_row_def)
     (auto simp: clearFrozen_def readState_def Let_def frozen_row_def split: option.splits)

lemma frozen_row_events [simp]: "frozen_row (db\<lparr>rd_events := e\<rparr>) = frozen_row db" "frozen_row (db\<lparr>rd_scores := sc\<rparr>) = frozen_row db"
  by (simp_all add: frozen_row_def fun_eq_iff)

lemma frozen_row_append [simp]: "frozen_row (snd (appendEvent bad i role kind v now db)) = frozen_row db"
  by (simp add: appendEvent_def)

lemma ingest_frozen [simp]: "frozen_row (rs_db (snd (ingest bad i role kind v now s))) = frozen_row (rs_db s)"
    "IsFrozen (snd (ingest bad i role kind v now s)) = IsFrozen s"
  by (auto simp: ingest_def split: prod.splits option.splits) (metis frozen_row_append frozen_row_ensure snd_conv)+

lemma ingest_blind_frozen [simp]: "frozen_row (ingest_blind bad i role kind now db) = frozen_row db"
  by (simp add: ingest_blind_def)

lemma refreshOne_coherent:
  assumes "\<And>j. j \<noteq> i \<Longrightarrow> IsFrozen s j \<longleftrightarrow> frozen_row (rs_db s) j" "rd_state (rs_db s) i = None \<Longrightarrow> \<not> IsFrozen s i"
  shows "coherent (snd (refreshOne no_bad i s))"
proof (cases "rd_state (rs_db s) i")
  case None
  then have "IsFrozen s j \<longleftrightarrow> frozen_row (rs_db s) j" for j
    using assms by (cases "j = i") (simp_all add: frozen_row_def)
  then show ?thesis using None by (simp add: coherent_def refreshOne_def readState_def)
next
  case (Some row)
  obtain c where c: "rs_cache (snd (refreshOne no_bad i s)) = Some c" "\<And>e. c i = Some e \<Longrightarrow> ce_frozen e = frozen_row (rs_db s) i"
      "c i \<noteq> None" "\<And>j. j \<noteq> i \<Longrightarrow> c j = (case rs_cache s of None \<Rightarrow> None | Some m \<Rightarrow> m j)"
    using Some by (fastforce simp: refreshOne_def readState_def Let_def entry_of_def frozen_row_def split: option.splits)
  have "IsFrozen (snd (refreshOne no_bad i s)) j \<longleftrightarrow> frozen_row (rs_db s) j" for j
  proof (cases "j = i")
    case True
    then show ?thesis using c(1-3) by (auto simp: IsFrozen_def split: option.splits)
  next
    case False
    then show ?thesis using c(1,4) assms(1) [OF False] by (simp add: IsFrozen_def split: option.splits)
  qed
  then show ?thesis by (simp add: coherent_def)
qed

lemma coherent_cong: "frozen_row (rs_db s') = frozen_row (rs_db s) \<Longrightarrow> IsFrozen s' = IsFrozen s \<Longrightarrow> coherent s' = coherent s"
  by (simp add: coherent_def)

lemma coherent_refresh:
  assumes "coherent s" "\<And>j. j \<noteq> i \<Longrightarrow> frozen_row db j = frozen_row (rs_db s) j" "rd_state db i \<noteq> None"
  shows "coherent (snd (refreshOne no_bad i (s\<lparr>rs_db := db\<rparr>)))"
  using assms by (intro refreshOne_coherent) (auto simp: coherent_def)

lemma transition_row: "fst (transition bad i to r now db) = None \<Longrightarrow> rd_state (snd (transition bad i to r now db)) i \<noteq> None"
  by (cases rule: transition_cases [of bad i to r now db]) auto

lemma breach_coherent:
  assumes "coherent s" "declared kind"
  shows "coherent (snd (RecordCategoricalBreach no_bad now i kind s))"
proof (cases "ingest no_bad i (signalRole kind) SignalUnspecified (Fin 1) now s")
  case (Pair e s1)
  then have s1: "frozen_row (rs_db s1) = frozen_row (rs_db s)" "IsFrozen s1 = IsFrozen s"
    using ingest_frozen [of no_bad i "signalRole kind" SignalUnspecified "Fin 1" now s] by simp_all
  then have c1: "coherent s1" using assms(1) coherent_cong by blast
  define r where "r = zero_reason\<lparr>rr_kind := ''breach'', rr_breach_kind := BreachKind_String kind, rr_at := unix now\<rparr>"
  have T: "frozen_row db = frozen_row (rs_db s1)" "x = None \<Longrightarrow> rd_state db i \<noteq> None"
    if "transition (\<lambda>q. False) i StateAudit r now (rs_db s1) = (x, db)" for x db
    using frozen_row_transition [of "\<lambda>q. False" i StateAudit r now "rs_db s1"] transition_row [of "\<lambda>q. False" i StateAudit r now "rs_db s1"] that
    by simp_all
  have A: "frozen_row db = frozen_row (rs_db s1)" "x = None \<Longrightarrow> rd_state db i \<noteq> None"
    if "appendReason (\<lambda>q. False) i r now (rs_db s1) = (x, db)" for x db
    using frozen_row_reason [of "\<lambda>q. False" i r now "rs_db s1"] that
    by (auto simp: appendReason_def readState_def Let_def split: option.splits if_splits)
  show ?thesis using assms(2) c1 T A
    by (auto simp: RecordCategoricalBreach_def Pair Let_def r_def [symmetric] readState_def assms(1)
      intro: coherent_cong [THEN iffD2] coherent_refresh split: option.splits prod.splits)
qed

lemma Freeze_coherent:
  assumes "coherent s"
  shows "coherent (snd (Freeze no_bad now i op s))"
proof (cases "ensureState (\<lambda>q. False) i now (rs_db s)")
  case (Pair e db)
  then have E: "frozen_row db = frozen_row (rs_db s)" using frozen_row_ensure [of "\<lambda>q. False" i now "rs_db s"] by simp
  obtain x db1 where t: "transition (\<lambda>q. False) i StateFrozen (manual_reason op now) now db = (x, db1)" by fastforce
  have F: "x \<noteq> None \<Longrightarrow> frozen_row db1 = frozen_row (rs_db s)"
    using frozen_row_transition [of "\<lambda>q. False" i StateFrozen "manual_reason op now" now db] t E by simp
  have O: "j \<noteq> i \<Longrightarrow> frozen_row db1 j = frozen_row (rs_db s) j" for j
    using frozen_row_other(1) [of j i "\<lambda>q. False" StateFrozen "manual_reason op now" now db] t E by simp
  have R: "x = None \<Longrightarrow> rd_state db1 i \<noteq> None"
    using transition_row [of "\<lambda>q. False" i StateFrozen "manual_reason op now" now db] t by simp
  have "coherent s1" if "x = None" "refreshOne no_bad i (s\<lparr>rs_db := db1\<rparr>) = (y, s1)" for y s1
    using coherent_refresh [OF assms O R [OF that(1)]] that(2) by simp
  then show ?thesis using assms E F
    by (auto simp: Freeze_def Pair t coherent_def split: option.splits prod.splits)
qed

lemma Unfreeze_coherent:
  assumes "coherent s"
  shows "coherent (snd (Unfreeze no_bad now i op s))"
proof (cases "clearFrozen (\<lambda>q. False) i (manual_reason op now) now (rs_db s)")
  case (Pair x db)
  have O: "j \<noteq> i \<Longrightarrow> frozen_row db j = frozen_row (rs_db s) j" for j
    using frozen_row_other(2) [of j i "\<lambda>q. False" "manual_reason op now" now "rs_db s"] Pair by simp
  have R: "x = None \<Longrightarrow> rd_state db i \<noteq> None" "x \<noteq> None \<Longrightarrow> db = rs_db s"
    using Pair by (auto simp: clearFrozen_def readState_def Let_def split: option.splits if_splits)
  show ?thesis using assms coherent_refresh [OF assms O] R
    by (auto simp: Unfreeze_def Pair split: option.splits)
qed

lemma score_loop_clean:
  "fst (score_loop no_bad lib now states is next db) = Inr (\<lambda>i. if i \<in> set is then
       (case states i of None \<Rightarrow> next i | Some st \<Rightarrow> Some (entry_of st (row_score lib now st))) else next i)"
  by (induction "is" arbitrary: "next" db) (auto simp: upsertScore_def intro!: ext split: option.splits)

lemma recompute_clean:
  assumes "dom (rd_state (rs_db s)) \<subseteq> set order"
  shows "coherent (snd (recomputeScoresAndPublish no_bad lib now order s))" "fst (recomputeScoresAndPublish no_bad lib now order s) = None"
proof -
  define nxt where "nxt = (\<lambda>i. if i \<in> set order then
     (case row_of s i of None \<Rightarrow> None | Some st \<Rightarrow> Some (entry_of st (row_score lib now st))) else None)"
  obtain db where sl: "score_loop no_bad lib now (rd_state (rs_db s)) order Map.empty (rs_db s) = (Inr nxt, db)"
    using score_loop_clean [of lib now "rd_state (rs_db s)" order Map.empty "rs_db s"]
    by (cases "score_loop no_bad lib now (rd_state (rs_db s)) order Map.empty (rs_db s)") (simp add: nxt_def)
  have eq: "recomputeScoresAndPublish no_bad lib now order s = (None, s\<lparr>rs_db := db, rs_cache := Some nxt\<rparr>)"
    by (simp add: recomputeScoresAndPublish_def loadAllStates_def publishScores_def sl)
  then show "fst (recomputeScoresAndPublish no_bad lib now order s) = None" by simp
  have st: "rd_state db = rd_state (rs_db s)" using recompute_db(1) [of no_bad lib now order s] eq by simp
  show "coherent (snd (recomputeScoresAndPublish no_bad lib now order s))"
    using assms by (auto simp: eq coherent_def IsFrozen_def frozen_row_def st nxt_def entry_of_def split: option.splits)
qed

lemma flag_loop_frozen: "frozen_row (snd (flag_loop bad now states fs db)) = frozen_row db"
proof (induction fs arbitrary: db)
  case (Cons f fs)
  have "frozen_row db' = frozen_row db" if "transition b (fl_id f) StateAudit (zscore_reason f now) now db = (e, db')" for b e db'
    using frozen_row_transition [of b "fl_id f" StateAudit "zscore_reason f now" now db] that by simp
  then show ?case using Cons.IH by (auto split: prod.splits option.splits)
qed simp

lemma audit_loop_other: "rs_cache (audit_states bad now flagged states is s) = rs_cache s" "rs_cfg (audit_states bad now flagged states is s) = rs_cfg s"
  by (induction "is" arbitrary: s) (auto simp: audit_one_def Let_def split: option.splits prod.splits)

lemma cycle_coherent:
  assumes "coherent s" "dom (row_of (snd (runOneCycle no_bad lib now order1 order2 s))) \<subseteq> set order2"
  shows "coherent (snd (runOneCycle no_bad lib now order1 order2 s))"
proof (cases "flag_all no_bad (rs_cfg s) now (rs_db s) PrimarySignals")
  case (Inr fs)
  obtain e db where fl: "flag_loop no_bad now (rd_state (rs_db s)) fs (rs_db s) = (e, db)" by fastforce
  have F: "frozen_row db = frozen_row (rs_db s)" using flag_loop_frozen [of no_bad now "rd_state (rs_db s)" fs "rs_db s"] fl by simp
  show ?thesis
  proof (cases e)
    case (Some x)
    then show ?thesis using assms(1) F by (simp add: runOneCycle_def Inr fl loadAllStates_def coherent_def)
  next
    case None
    define s1 where "s1 = audit_states no_bad now (map fl_id fs) (rd_state db) order1 (s\<lparr>rs_db := db\<rparr>)"
    obtain e2 s2 where r: "recomputeScoresAndPublish no_bad lib now order2 s1 = (e2, s2)" by fastforce
    have run: "\<exists>evs. runOneCycle no_bad lib now order1 order2 s = (e2, s2\<lparr>rs_db := (rs_db s2)\<lparr>rd_events := evs\<rparr>\<rparr>)"
    proof (cases e2)
      case N: None
      then show ?thesis using None
        by (intro exI [of _ "filter (\<lambda>e. \<not> rpe_observed_at e < unix (cutoff now (rc_long_s (rs_cfg s)))) (rd_events (rs_db s2))"])
           (simp add: runOneCycle_def Inr fl loadAllStates_def s1_def [symmetric] r pruneEventsBefore_def)
    next
      case (Some x)
      then show ?thesis using None by (intro exI [of _ "rd_events (rs_db s2)"])
        (simp add: runOneCycle_def Inr fl loadAllStates_def s1_def [symmetric] r)
    qed
    have "rd_state (rs_db s2) = rd_state (rs_db s1)" using recompute_db(1) [of no_bad lib now order2 s1] r by simp
    then have "dom (rd_state (rs_db s1)) \<subseteq> set order2" using run assms(2) by auto
    then have "coherent s2" using recompute_clean(1) [of s1 order2 lib now] r by simp
    then show ?thesis using run by (auto simp: coherent_def)
  qed
qed (simp add: runOneCycle_def assms(1))


lemma ledger_frozen [simp]: "frozen_row (rs_db (Rep_OnLedgerEvent bad now ev s)) = frozen_row (rs_db s)"
    "IsFrozen (Rep_OnLedgerEvent bad now ev s) = IsFrozen s"
  by (auto simp: Rep_OnLedgerEvent_def Let_def split: LedgerEventKind.splits)

lemma Open_coherent: "Rep_Open bad cfg l opened = Inr s \<Longrightarrow> coherent s"
  by (auto simp: Rep_Open_def reloadCache_def loadAllStates_def loadAllScores_def coherent_def IsFrozen_def frozen_row_def entry_of_def
    split: if_splits sum.splits option.splits prod.splits)

lemma coherent_step: "rep_step (\<lambda>b. b = no_bad) s s' \<Longrightarrow> coherent s \<Longrightarrow> coherent s'"
proof (induction rule: rep_step.induct)
  case (st_cycle bad s s' lib now order1 order2)
  then show ?case using cycle_coherent [of s lib now order1 order2] by simp
next
  case (st_restart bad cfg s s')
  then have "coherent s'" using Open_coherent by blast
  then show ?case by (simp add: coherent_def IsFrozen_def)
qed (auto simp: RecordBrokerRequest_def RecordProofFidelity_def RecordOfferOutcome_def Rep_Close_def Let_def
      breach_coherent Freeze_coherent Unfreeze_coherent, auto simp: coherent_def IsFrozen_def)

lemma coherent_run: "rep_run (\<lambda>b. b = no_bad) s s' \<Longrightarrow> coherent s \<Longrightarrow> coherent s'"
  by (induction rule: rtranclp_induct) (auto intro: coherent_step)

text \<open>
  The broker's view is the database's: from a successful open, after any sequence of calls and
  evaluator passes without SQL failures, \<open>IsFrozen\<close> is true of exactly the identities whose row is FROZEN.
\<close>

theorem is_frozen_agrees:
  assumes "Rep_Open bad cfg listener opened = Inr s" "rep_run (\<lambda>b. b = no_bad) s s'"
  shows "IsFrozen s' i \<longleftrightarrow> (\<exists>c. row_of s' i = Some c \<and> rw_state c = StateFrozen)"
  using coherent_run [OF assms(2) Open_coherent [OF assms(1)]]
  by (auto simp: coherent_def frozen_row_def split: option.splits)

end
