(* ===== verification/TB_Rep_Notify.thy ===== *)
theory TB_Rep_Notify
  imports TB_Reputation_Props
begin

text \<open>
  The notifications to the \<open>FreezeListener\<close>, which federation turns into revocations: how often an
  identity is announced, against how often its trail of reasons says it was frozen.
\<close>

definition notices :: "RepSubsystem \<Rightarrow> ident \<Rightarrow> nat" where
  "notices s i = length (filter (\<lambda>x. fst x = i) (rs_notified s))"

definition frozen_count :: "rep_db \<Rightarrow> ident \<Rightarrow> nat" where
  "frozen_count db i = (case rd_state db i of None \<Rightarrow> 0 | Some c \<Rightarrow> freezes StateOK (rw_reasons c))"

definition db_explained :: "rep_db \<Rightarrow> bool" where
  "db_explained db \<longleftrightarrow> (\<forall>i. explained (rd_state db i))"

lemma db_explained_runs: "db_runs db db' \<Longrightarrow> db_explained db \<Longrightarrow> db_explained db'"
  by (auto simp: db_explained_def db_runs_def intro: explained_run)

lemma db_explainedD: "db_explained db \<Longrightarrow> rd_state db i = Some c \<Longrightarrow> explained (Some c)"
  by (metis db_explained_def)

lemma freezes_snoc:
  "explained (Some c) \<Longrightarrow> freezes StateOK (rw_reasons c @ [r]) =
     freezes StateOK (rw_reasons c) + (if trail_next (rw_state c) r = StateFrozen then 1 else 0)"
  by (simp add: freezes_append explained_def trail_state_def)

lemma ensure_count [simp]: "frozen_count (snd (ensureState bad i now db)) = frozen_count db"
  by (auto simp: ensureState_def frozen_count_def fun_eq_iff split: option.splits)

lemma events_count [simp]: "frozen_count (db\<lparr>rd_events := e\<rparr>) = frozen_count db"
  by (simp add: frozen_count_def fun_eq_iff)

lemma append_count [simp]: "frozen_count (snd (appendEvent bad i role kind v now db)) = frozen_count db"
  by (simp add: appendEvent_def)

lemma transition_count:
  assumes "db_explained db" "\<And>st. st \<noteq> StateFrozen \<Longrightarrow> trail_next st r = to"
  shows "frozen_count (snd (transition bad i to r now db)) j = frozen_count db j +
    (if j = i \<and> fst (transition bad i to r now db) = None \<and> to = StateFrozen then 1 else 0)"
proof (cases rule: transition_cases [of bad i to r now db])
  case (failed e db1)
  then show ?thesis by (auto simp: frozen_count_def)
next
  case (ok cur db1)
  have ex: "explained (Some cur)" using assms(1) ok(2) by (auto simp: db_explained_def explained_def split: option.splits)
  have "rw_state cur \<noteq> StateFrozen" using ok(3) by (auto simp: canTransition_def split: if_splits)
  then have "freezes StateOK (rw_reasons cur @ [r]) = freezes StateOK (rw_reasons cur) + (if to = StateFrozen then 1 else 0)"
    using freezes_snoc [OF ex, of r] assms(2) by simp
  then show ?thesis using ok by (auto simp: frozen_count_def split: option.splits)
qed

lemma appendReason_count:
  assumes "db_explained db" "rr_kind r = ''breach''"
  shows "frozen_count (snd (appendReason bad i r now db)) = frozen_count db"
proof
  fix j
  have "freezes StateOK (rw_reasons c @ [r]) = freezes StateOK (rw_reasons c)" if "rd_state db i = Some c" for c
    using freezes_snoc [OF db_explainedD [OF assms(1) that(1)], of r] assms(2) that by (simp add: trail_next_def audit_reason_def)
  then show "frozen_count (snd (appendReason bad i r now db)) j = frozen_count db j"
    by (auto simp: appendReason_def readState_def Let_def frozen_count_def split: option.splits)
qed

lemma clearFrozen_count:
  assumes "db_explained db" "rr_kind r = ''manual''"
  shows "frozen_count (snd (clearFrozen bad i r now db)) = frozen_count db"
proof
  fix j
  have "freezes StateOK (rw_reasons c @ [r]) = freezes StateOK (rw_reasons c)" if "rd_state db i = Some c" "rw_state c = StateFrozen" for c
    using freezes_snoc [OF db_explainedD [OF assms(1) that(1)], of r] assms(2) that by (simp add: trail_next_def audit_reason_def)
  then show "frozen_count (snd (clearFrozen bad i r now db)) j = frozen_count db j"
    by (auto simp: clearFrozen_def readState_def Let_def frozen_count_def split: option.splits)
qed

text \<open>
  \<open>advances clean s s'\<close>: no identity is announced more often than it is frozen between the two states;
  when \<open>clean\<close>, exactly as often.
\<close>

definition advances :: "bool \<Rightarrow> RepSubsystem \<Rightarrow> RepSubsystem \<Rightarrow> bool" where
  "advances clean s s' \<longleftrightarrow> (\<forall>i. \<exists>k n. frozen_count (rs_db s') i = frozen_count (rs_db s) i + k \<and>
     notices s' i = notices s i + n \<and> n \<le> k \<and> (clean \<and> rs_listener s \<longrightarrow> n = k)) \<and> rs_listener s' = rs_listener s"

lemma advances_refl: "frozen_count (rs_db s') = frozen_count (rs_db s) \<Longrightarrow> rs_notified s' = rs_notified s \<Longrightarrow>
    rs_listener s' = rs_listener s \<Longrightarrow> advances clean s s'"
  by (simp add: advances_def notices_def)

lemma advances_trans: "advances clean a b \<Longrightarrow> advances clean b c \<Longrightarrow> advances clean a c"
  unfolding advances_def by (metis (no_types, lifting) add.assoc add_mono)

lemma advances_freeze:
  assumes "\<And>j. frozen_count (rs_db s') j = frozen_count (rs_db s) j + (if j = i then 1 else 0)"
    "rs_notified s' = rs_notified s \<and> \<not> (clean \<and> rs_listener s) \<or> rs_notified s' = rs_notified (notifyFreeze i r t s)"
    "rs_listener s' = rs_listener s"
  shows "advances clean s s'"
proof -
  have "\<exists>k n. frozen_count (rs_db s') j = frozen_count (rs_db s) j + k \<and> notices s' j = notices s j + n \<and> n \<le> k \<and>
     (clean \<and> rs_listener s \<longrightarrow> n = k)" for j
    using assms(1) [of j] assms(2)
    by (intro exI [of _ "if j = i then 1 else 0 :: nat"] exI [of _ "notices s' j - notices s j"])
       (auto simp: notices_def notifyFreeze_def)
  then show ?thesis using assms(3) by (simp add: advances_def)
qed

lemma ingest_advances: "advances clean s (snd (ingest bad i role kind v now s))"
  by (rule advances_refl) (auto simp: ingest_def split: prod.splits option.splits, (metis append_count ensure_count snd_conv)+)

lemma refreshOne_listener [simp]: "rs_listener (snd (refreshOne bad i s)) = rs_listener s"
  by (auto simp: refreshOne_def Let_def split: sum.splits option.splits)

lemma refreshOne_all: "refreshOne bad i s = (e, s1) \<Longrightarrow> rs_db s1 = rs_db s \<and> rs_notified s1 = rs_notified s \<and> rs_listener s1 = rs_listener s"
  using refreshOne_db [of bad i s] refreshOne_listener [of bad i s] by simp

lemma breach_advances:
  assumes "db_explained (rs_db s)" "declared kind"
  shows "advances clean s (snd (RecordCategoricalBreach bad now i kind s))"
proof (cases "ingest bad i (signalRole kind) SignalUnspecified (Fin 1) now s")
  case (Pair e s1)
  have I: "advances clean s s1" using ingest_advances [of clean s bad i "signalRole kind" SignalUnspecified "Fin 1" now] Pair by simp
  have ex: "db_explained (rs_db s1)"
    using db_explained_runs [OF ingest_runs assms(1), of bad i "signalRole kind" SignalUnspecified "Fin 1" now] Pair by simp
  define r where "r = zero_reason\<lparr>rr_kind := ''breach'', rr_breach_kind := BreachKind_String kind, rr_at := unix now\<rparr>"
  obtain x db where t: "transition (bad AtBreach i) i StateAudit r now (rs_db s1) = (x, db)" by fastforce
  have T: "frozen_count db = frozen_count (rs_db s1)"
    using transition_count [OF ex, of r StateAudit "bad AtBreach i" i now] t
    by (auto simp: fun_eq_iff trail_next_def audit_reason_def r_def)
  obtain y db2 where a: "appendReason (bad AtBreach i) i r now (rs_db s1) = (y, db2)" by fastforce
  have A: "frozen_count db2 = frozen_count (rs_db s1)"
    using appendReason_count [OF ex, of r "bad AtBreach i" i now] a by (simp add: r_def)
  have L: "advances clean s s'" if "frozen_count (rs_db s') = frozen_count (rs_db s1)" "rs_notified s' = rs_notified s1"
    "rs_listener s' = rs_listener s1" for s'
    using advances_trans [OF I advances_refl [OF that]] .
  have Lr: "advances clean s (snd (refreshOne bad i (s1\<lparr>rs_db := d\<rparr>)))" "advances clean s (s1\<lparr>rs_db := d\<rparr>)"
    if "frozen_count d = frozen_count (rs_db s1)" for d
    using that by (auto intro: L)
  have K: "ImmediateAction kind = StateAudit" using assms(2) by simp
  show ?thesis
  proof (cases "rs_closed s \<or> kind = BreachUnspecified")
    case True
    then show ?thesis using advances_refl [of s s clean] by (auto simp: RecordCategoricalBreach_def)
  next
    case False
    then show ?thesis using I Lr [OF T] Lr [OF A]
      by (cases e; cases x; cases y) (simp_all add: RecordCategoricalBreach_def Pair K Let_def r_def [symmetric] readState_def t a split: option.splits)
  qed
qed

lemma Freeze_advances:
  assumes "db_explained (rs_db s)" "clean \<Longrightarrow> bad = no_bad"
  shows "advances clean s (snd (Freeze bad now i op s))"
proof -
  obtain e db where n: "ensureState (bad AtFreeze i) i now (rs_db s) = (e, db)" by fastforce
  have N: "frozen_count db = frozen_count (rs_db s)" using ensure_count [of "bad AtFreeze i" i now "rs_db s"] n by simp
  have ex: "db_explained db" using db_explained_runs [OF ensureState_runs assms(1), of "bad AtFreeze i" i now] n by simp
  obtain x db1 where t: "transition (bad AtFreeze i) i StateFrozen (manual_reason op now) now db = (x, db1)" by fastforce
  have T: "frozen_count db1 j = frozen_count (rs_db s) j + (if j = i \<and> x = None then 1 else 0)" for j
    using transition_count [OF ex, of "manual_reason op now" StateFrozen "bad AtFreeze i" i now j] t N
    by (simp add: manual_reason_def trail_next_def audit_reason_def)
  obtain y s1 where r: "refreshOne bad i (s\<lparr>rs_db := db1\<rparr>) = (y, s1)" by fastforce
  have R: "rs_db s1 = db1" "rs_notified s1 = rs_notified s" "rs_listener s1 = rs_listener s" using refreshOne_all [OF r] by simp_all
  have y: "clean \<Longrightarrow> y = None" using r assms(2) by (auto simp: refreshOne_def readState_def Let_def split: option.splits)
  have A: "advances clean s (if y = None then notifyFreeze i ''operator'' now s1 else s1)" if "x = None"
    by (rule advances_freeze [of _ _ i _ "''operator''" now]) (use T that R y in \<open>auto simp: notifyFreeze_def\<close>)
  show ?thesis using A T N
    advances_refl [of "s\<lparr>rs_db := db\<rparr>" s clean] advances_refl [of "s\<lparr>rs_db := db1\<rparr>" s clean]
    by (cases e; cases x; cases y) (auto simp: Freeze_def n t r fun_eq_iff advances_refl)
qed

lemma Unfreeze_advances:
  assumes "db_explained (rs_db s)"
  shows "advances clean s (snd (Unfreeze bad now i op s))"
proof -
  obtain x db where t: "clearFrozen (bad AtUnfreeze i) i (manual_reason op now) now (rs_db s) = (x, db)" by fastforce
  have "frozen_count db = frozen_count (rs_db s)"
    using clearFrozen_count [OF assms, of "manual_reason op now" "bad AtUnfreeze i" i now] t by (simp add: manual_reason_def)
  then show ?thesis by (auto simp: Unfreeze_def t intro!: advances_refl split: option.splits)
qed

lemma audit_one_advances:
  assumes "db_explained (rs_db s)"
  shows "advances clean s (audit_one bad now flagged i st s)"
proof -
  let ?fr = "zero_reason\<lparr>rr_kind := ''transition'', rr_signal := ''freeze_repeat'', rr_at := unix now\<rparr>"
  let ?ok = "zero_reason\<lparr>rr_kind := ''transition'', rr_signal := ''audit_cleared'', rr_at := unix now\<rparr>"
  have C: "advances clean s (s\<lparr>rs_db := snd (transition (bad AtAudit i) i StateOK ?ok now (rs_db s))\<rparr>)"
    using transition_count [OF assms, of ?ok StateOK "bad AtAudit i" i now]
    by (intro advances_refl) (auto simp: fun_eq_iff trail_next_def audit_reason_def is_freeze_repeat_def)
  obtain x db where t: "transition (bad AtAudit i) i StateFrozen ?fr now (rs_db s) = (x, db)" by fastforce
  have T: "frozen_count db j = frozen_count (rs_db s) j + (if j = i \<and> x = None then 1 else 0)" for j
    using transition_count [OF assms, of ?fr StateFrozen "bad AtAudit i" i now j] t
    by (simp add: trail_next_def audit_reason_def is_freeze_repeat_def)
  have "advances clean s (if x = None then notifyFreeze i ''freeze_repeat'' now (s\<lparr>rs_db := db\<rparr>) else s\<lparr>rs_db := db\<rparr>)"
  proof (cases x)
    case None
    then show ?thesis
      by (simp, intro advances_freeze [of _ _ i _ "''freeze_repeat''" now]) (use T None in \<open>auto simp: notifyFreeze_def\<close>)
  qed (use T in \<open>auto simp: fun_eq_iff intro!: advances_refl\<close>)
  then show ?thesis using C advances_refl [of s s clean]
    by (auto simp: audit_one_def Let_def t split: option.splits)
qed

lemma flag_loop_count:
  "db_explained db \<Longrightarrow> frozen_count (snd (flag_loop bad now states fs db)) = frozen_count db"
proof (induction fs arbitrary: db)
  case (Cons f fs)
  obtain x db1 where t: "transition (bad (AtFlag (fl_signal f)) (fl_id f)) (fl_id f) StateAudit (zscore_reason f now) now db = (x, db1)"
    by fastforce
  have T: "frozen_count db1 = frozen_count db"
    using transition_count [OF Cons.prems, of "zscore_reason f now" StateAudit "bad (AtFlag (fl_signal f)) (fl_id f)" "fl_id f" now] t
    by (auto simp: fun_eq_iff trail_next_def audit_reason_def zscore_reason_def)
  have "db_runs db db1" using flag_loop_runs [of db bad now Map.empty "[f]"] t by (auto split: option.splits if_splits)
  then have "db_explained db1" using db_explained_runs Cons.prems by blast
  then show ?case using Cons.IH Cons.prems T t by (auto split: option.splits)
qed simp

lemma audit_loop_advances:
  assumes "db_explained (rs_db s)" "distinct is" "\<And>i. i \<in> set is \<Longrightarrow> row_of s i = states i"
  shows "advances clean s (audit_states bad now flagged states is s)"
  using assms
proof (induction "is" arbitrary: s)
  case (Cons i "is")
  define s1 where "s1 = (case states i of None \<Rightarrow> s | Some st \<Rightarrow> audit_one bad now flagged i st s)"
  have "advances clean s s1" using audit_one_advances [OF Cons.prems(1)] advances_refl [of s s clean] by (auto simp: s1_def split: option.splits)
  moreover have "db_runs (rs_db s) (rs_db s1)" using Cons.prems(3) [of i] by (auto simp: s1_def audit_one_runs split: option.splits)
  then have "db_explained (rs_db s1)" using db_explained_runs Cons.prems(1) by blast
  moreover have "row_of s1 j = states j" if "j \<in> set is" for j
  proof -
    have "j \<noteq> i" using that Cons.prems(2) by auto
    then show ?thesis using that Cons.prems(3) [of j] by (auto simp: s1_def audit_one_other split: option.splits)
  qed
  ultimately show ?case using Cons.IH [of s1] Cons.prems(2) advances_trans by (auto simp: s1_def)
qed (simp add: advances_refl)

lemma recompute_listener: "rs_listener (snd (recomputeScoresAndPublish bad lib now order s)) = rs_listener s"
  by (auto simp: recomputeScoresAndPublish_def publishScores_def split: sum.splits prod.splits)

lemma recompute_advances: "advances clean s (snd (recomputeScoresAndPublish bad lib now order s))"
  by (rule advances_refl) (simp_all add: recompute_db recompute_listener frozen_count_def fun_eq_iff)

lemma cycle_advances:
  assumes "db_explained (rs_db s)" "distinct order1"
  shows "advances clean s (snd (runOneCycle bad lib now order1 order2 s))"
proof (cases "flag_all bad (rs_cfg s) now (rs_db s) PrimarySignals")
  case (Inr fs)
  obtain e db where fl: "flag_loop bad now (rd_state (rs_db s)) fs (rs_db s) = (e, db)" by fastforce
  have F: "advances clean s (s\<lparr>rs_db := db\<rparr>)"
    using flag_loop_count [OF assms(1), of bad now "rd_state (rs_db s)" fs] fl by (intro advances_refl) simp_all
  have ex: "db_explained db"
    using db_explained_runs [OF flag_loop_runs assms(1), of bad now "rd_state (rs_db s)" fs] fl by simp
  define s1 where "s1 = audit_states bad now (map fl_id fs) (rd_state db) order1 (s\<lparr>rs_db := db\<rparr>)"
  obtain x s2 where r: "recomputeScoresAndPublish bad lib now order2 s1 = (x, s2)" by fastforce
  have "advances clean (s\<lparr>rs_db := db\<rparr>) s1" unfolding s1_def by (rule audit_loop_advances) (use ex assms(2) in simp_all)
  moreover have "advances clean s1 s2" using recompute_advances [of clean s1 bad lib now order2] r by simp
  ultimately have S2: "advances clean s s2" using F advances_trans by blast
  have P: "advances clean s (s2\<lparr>rs_db := snd (pruneEventsBefore b t (rs_db s2))\<rparr>)" for b t
    using advances_trans [OF S2 advances_refl] by (simp add: pruneEventsBefore_def)
  then show ?thesis using F S2 advances_refl [of s s clean]
    by (cases e; cases x)
       (simp_all add: runOneCycle_def Inr fl loadAllStates_def s1_def [symmetric] r split: prod.splits, (metis snd_conv)+)
qed (simp add: runOneCycle_def advances_refl)

lemma ingest_blind_count [simp]: "frozen_count (ingest_blind bad i role kind now db) = frozen_count db"
  by (simp add: ingest_blind_def)

lemma Rep_Open_restart: "Rep_Open bad cfg l (Inr db) = Inr s' \<Longrightarrow> rs_db s' = db \<and> rs_listener s' = l"
  by (auto simp: Rep_Open_def reloadCache_def split: if_splits prod.splits option.splits sum.splits)

lemma rep_step_advances:
  "rep_step ok s s' \<Longrightarrow> db_explained (rs_db s) \<Longrightarrow> (\<And>b. clean \<Longrightarrow> ok b \<Longrightarrow> b = no_bad) \<Longrightarrow> advances clean s s'"
proof (induction rule: rep_step.induct)
  case (st_restart bad cfg s s')
  then show ?case using Rep_Open_restart by (intro advances_refl) force+
next
  case (st_ledger bad s now ev)
  then show ?case by (intro advances_refl) (auto simp: Rep_OnLedgerEvent_def Let_def split: LedgerEventKind.splits)
next
  case (st_freeze bad s now i operator)
  show ?case by (rule Freeze_advances) (use st_freeze in blast)+
next
  case (st_cycle bad s s' lib now order1 order2)
  then show ?case using cycle_advances by simp
qed (auto simp: RecordBrokerRequest_def RecordProofFidelity_def RecordOfferOutcome_def Let_def Rep_Close_def
      ingest_advances breach_advances Unfreeze_advances advances_refl)


end
