(* ===== verification/TB_Rep_Cycle.thy ===== *)
theory TB_Rep_Cycle
  imports TB_Rep_Notify
begin

text \<open>
  One pass of the evaluator against the rules it implements, identity by identity: \<open>cycle_row\<close> gives the
  row after a pass as a function of the row before and the outliers found, whatever the order in which the
  pass visits the identities. Then what the pass does not do, and the broker's use of the result.
\<close>

section \<open>The rules of one pass\<close>

definition flag_rule :: "time \<Rightarrow> rep_flag option \<Rightarrow> stateRow option \<Rightarrow> stateRow option" where
  "flag_rule now f ro = (case f of None \<Rightarrow> ro | Some f \<Rightarrow>
     (let c = (case ro of None \<Rightarrow> fresh_row now | Some c \<Rightarrow> c) in
      if rw_state c = StateOK then Some (moved c StateAudit (zscore_reason f now) now) else Some c))"

definition freeze_reason :: "time \<Rightarrow> ReasonRecord" where
  "freeze_reason now = zero_reason\<lparr>rr_kind := ''transition'', rr_signal := ''freeze_repeat'', rr_at := unix now\<rparr>"

definition cleared_reason :: "time \<Rightarrow> ReasonRecord" where
  "cleared_reason now = zero_reason\<lparr>rr_kind := ''transition'', rr_signal := ''audit_cleared'', rr_at := unix now\<rparr>"

definition quiet :: "time \<Rightarrow> ReasonRecord list \<Rightarrow> bool" where
  "quiet now rs \<longleftrightarrow> later zero_time (recent_audits now rs) \<noteq> zero_time \<and> later zero_time (recent_audits now rs) < now - seconds (48 * 3600)"

definition audit_rule :: "time \<Rightarrow> bool \<Rightarrow> stateRow \<Rightarrow> stateRow" where
  "audit_rule now flagged c = (if rw_state c \<noteq> StateAudit then c
     else if length (recent_audits now (rw_reasons c)) \<ge> 3 then moved c StateFrozen (freeze_reason now) now
     else if quiet now (rw_reasons c) \<and> \<not> flagged then moved c StateOK (cleared_reason now) now
     else c)"

definition cycle_row :: "time \<Rightarrow> rep_flag list \<Rightarrow> ident \<Rightarrow> stateRow option \<Rightarrow> stateRow option" where
  "cycle_row now fs i ro = map_option (audit_rule now (i \<in> fl_id ` set fs)) (flag_rule now (find (\<lambda>f. fl_id f = i) fs) ro)"

definition encodable :: "rep_db \<Rightarrow> bool" where
  "encodable db \<longleftrightarrow> (\<forall>i c. rd_state db i = Some c \<longrightarrow> list_all json_ok (rw_reasons c))"

definition finite_z :: "rep_flag \<Rightarrow> bool" where
  "finite_z f \<longleftrightarrow> (case fl_z f of Fin _ \<Rightarrow> True | _ \<Rightarrow> False)"

lemma json_ok_reasons [simp]: "json_ok (freeze_reason now)" "json_ok (cleared_reason now)" "json_ok (manual_reason op now)"
    "json_ok (zscore_reason f now) = finite_z f"
  by (simp_all add: json_ok_def freeze_reason_def cleared_reason_def manual_reason_def zero_reason_def zscore_reason_def finite_z_def)

lemma transition_clean:
  assumes "encodable db" "json_ok r" "c = (case rd_state db i of None \<Rightarrow> fresh_row now | Some c \<Rightarrow> c)" "canTransition (rw_state c) to"
  shows "transition (\<lambda>q. False) i to r now db = (None, db\<lparr>rd_state := (rd_state db)(i \<mapsto> moved c to r now)\<rparr>)"
  using assms by (auto simp: transition_def readState_def Let_def encodable_def moved_def split: option.splits)

lemma transition_refused:
  assumes "rd_state db i = Some c" "\<not> canTransition (rw_state c) to"
  shows "transition (\<lambda>q. False) i to r now db = (Some errInvalidTransition, db)"
  using assms by (simp add: transition_def readState_def Let_def)

lemma encodable_upd: "encodable db \<Longrightarrow> json_ok r \<Longrightarrow> c = (case rd_state db i of None \<Rightarrow> fresh_row now | Some c \<Rightarrow> c) \<Longrightarrow>
    encodable (db\<lparr>rd_state := (rd_state db)(i \<mapsto> moved c to r now)\<rparr>)"
  by (auto simp: encodable_def split: option.splits)

text \<open>An identity that may move to AUDIT now was one when the states were loaded.\<close>

definition loaded_ok :: "(ident \<rightharpoonup> stateRow) \<Rightarrow> rep_db \<Rightarrow> bool" where
  "loaded_ok states db \<longleftrightarrow> (\<forall>i. rd_state db i = None \<or> rw_state (the (rd_state db i)) = StateOK \<longrightarrow>
     states i = None \<or> rw_state (the (states i)) = StateOK)"

lemma flag_loop_clean:
  assumes "encodable db" "list_all finite_z fs" "loaded_ok states db" "\<And>i. rd_state db i = None \<Longrightarrow> states i = None"
  shows "\<exists>db'. flag_loop no_bad now states fs db = (None, db') \<and> encodable db' \<and>
    (\<forall>i. rd_state db' i = flag_rule now (find (\<lambda>f. fl_id f = i) fs) (rd_state db i))"
  using assms
proof (induction fs arbitrary: db)
  case Nil
  then show ?case by (simp add: flag_rule_def)
next
  case (Cons f fs)
  let ?i = "fl_id f" and ?r = "zscore_reason f now"
  define c where "c = (case rd_state db ?i of None \<Rightarrow> fresh_row now | Some c \<Rightarrow> c)"
  have rest: "\<exists>db'. flag_loop no_bad now states fs db1 = (None, db') \<and> encodable db' \<and>
      (\<forall>i. rd_state db' i = flag_rule now (find (\<lambda>f. fl_id f = i) (f # fs)) (rd_state db i))"
    if d: "encodable db1" "loaded_ok states db1" "\<And>i. rd_state db1 i = None \<Longrightarrow> states i = None"
      "\<And>i. i \<noteq> ?i \<Longrightarrow> rd_state db1 i = rd_state db i" "rd_state db1 ?i = flag_rule now (Some f) (rd_state db ?i)"
      "\<And>c. rd_state db1 ?i = Some c \<Longrightarrow> rw_state c \<noteq> StateOK" for db1
  proof -
    obtain db' where db': "flag_loop no_bad now states fs db1 = (None, db')" "encodable db'"
      "\<And>i. rd_state db' i = flag_rule now (find (\<lambda>f. fl_id f = i) fs) (rd_state db1 i)"
      using Cons.IH [OF d(1) _ d(2,3)] Cons.prems(2) by auto
    have "rd_state db1 ?i \<noteq> None" using d(5) by (auto simp: flag_rule_def Let_def split: option.splits if_splits)
    then have "rd_state db' ?i = rd_state db1 ?i"
      using d(6) db'(3) [of ?i] by (auto simp: flag_rule_def split: option.splits)
    then have "rd_state db' i = flag_rule now (find (\<lambda>f. fl_id f = i) (f # fs)) (rd_state db i)" for i
      using d(4,5) db'(3) [of i] by (cases "i = ?i") auto
    then show ?thesis using db'(1,2) by blast
  qed
  show ?case
  proof (cases "rw_state c = StateOK")
    case True
    have el: "states ?i = None \<or> rw_state (the (states ?i)) = StateOK"
      using Cons.prems(3) True unfolding loaded_ok_def c_def by (auto split: option.splits)
    have t: "transition (\<lambda>q. False) ?i StateAudit ?r now db = (None, db\<lparr>rd_state := (rd_state db)(?i \<mapsto> moved c StateAudit ?r now)\<rparr>)"
      by (rule transition_clean) (use Cons.prems True in \<open>auto simp: c_def canTransition_def\<close>)
    have "\<exists>db'. flag_loop no_bad now states fs (db\<lparr>rd_state := (rd_state db)(?i \<mapsto> moved c StateAudit ?r now)\<rparr>) = (None, db') \<and> encodable db' \<and>
      (\<forall>i. rd_state db' i = flag_rule now (find (\<lambda>f. fl_id f = i) (f # fs)) (rd_state db i))"
    proof (rule rest)
      show "encodable (db\<lparr>rd_state := (rd_state db)(?i \<mapsto> moved c StateAudit ?r now)\<rparr>)"
        by (rule encodable_upd) (use Cons.prems in \<open>auto simp: c_def\<close>)
      show "rd_state (db\<lparr>rd_state := (rd_state db)(?i \<mapsto> moved c StateAudit ?r now)\<rparr>) ?i = flag_rule now (Some f) (rd_state db ?i)"
        using True by (simp add: flag_rule_def c_def [symmetric])
    qed (use Cons.prems in \<open>auto simp: loaded_ok_def split: if_splits\<close>)
    then show ?thesis using el t by simp
  next
    case False
    then have row: "rd_state db ?i = Some c" by (auto simp: c_def split: option.splits)
    then have t: "canTransition (rw_state c) StateAudit = False"
      using False by (cases "rw_state c") (auto simp: canTransition_def)
    have "\<exists>db'. flag_loop no_bad now states fs db = (None, db') \<and> encodable db' \<and>
      (\<forall>i. rd_state db' i = flag_rule now (find (\<lambda>f. fl_id f = i) (f # fs)) (rd_state db i))"
      by (rule rest) (use Cons.prems row False in \<open>auto simp: flag_rule_def\<close>)
    then show ?thesis using transition_refused [OF row, of StateAudit ?r now] t by simp
  qed
qed

lemma audit_one_clean:
  assumes "encodable (rs_db s)" "row_of s i = Some c"
  shows "row_of (audit_one no_bad now flagged i c s) i = Some (audit_rule now (i \<in> set flagged) c)"
    "encodable (rs_db (audit_one no_bad now flagged i c s))"
proof -
  have F: "rw_state c = StateAudit \<Longrightarrow> to \<noteq> StateAudit \<Longrightarrow> json_ok r \<Longrightarrow>
      transition (\<lambda>q. False) i to r now (rs_db s) = (None, (rs_db s)\<lparr>rd_state := (rd_state (rs_db s))(i \<mapsto> moved c to r now)\<rparr>)" for to r
    by (rule transition_clean) (use assms in \<open>auto simp: canTransition_def\<close>)
  have E: "json_ok r \<Longrightarrow> encodable ((rs_db s)\<lparr>rd_state := (rd_state (rs_db s))(i \<mapsto> moved c to r now)\<rparr>)" for to r
    by (rule encodable_upd [OF assms(1)]) (simp_all add: assms(2))
  show "row_of (audit_one no_bad now flagged i c s) i = Some (audit_rule now (i \<in> set flagged) c)"
    using assms(2) by (auto simp: audit_one_def audit_rule_def Let_def quiet_def F freeze_reason_def [symmetric] cleared_reason_def [symmetric])
  show "encodable (rs_db (audit_one no_bad now flagged i c s))"
    using assms(1) by (auto simp: audit_one_def Let_def F E freeze_reason_def [symmetric] cleared_reason_def [symmetric])
qed

lemma audit_loop_clean:
  assumes "distinct is" "encodable (rs_db s)" "\<And>i. i \<in> set is \<Longrightarrow> row_of s i = states i"
  shows "row_of (audit_states no_bad now flagged states is s) i =
    (if i \<in> set is then map_option (audit_rule now (i \<in> set flagged)) (states i) else row_of s i)"
  using assms
proof (induction "is" arbitrary: s)
  case (Cons j "is")
  define s1 where "s1 = (case states j of None \<Rightarrow> s | Some st \<Rightarrow> audit_one no_bad now flagged j st s)"
  have j: "row_of s j = states j" using Cons.prems(3) by simp
  have E: "encodable (rs_db s1)" using Cons.prems(2) j audit_one_clean(2) by (auto simp: s1_def split: option.splits)
  have other: "k \<noteq> j \<Longrightarrow> row_of s1 k = row_of s k" for k by (auto simp: s1_def audit_one_other split: option.splits)
  have "row_of s1 j = map_option (audit_rule now (j \<in> set flagged)) (states j)"
    using audit_one_clean(1) [OF Cons.prems(2), of j] j by (auto simp: s1_def split: option.splits)
  moreover have "row_of s1 k = states k" if "k \<in> set is" for k
    using that Cons.prems(1,3) other [of k] by auto
  ultimately show ?case using Cons.IH [of s1] Cons.prems(1) E other [of i] by (auto simp: s1_def)
qed simp

lemma flag_signal_clean: "\<exists>fs. flag_signal no_bad cfg now db sig = Inr fs"
  by (simp add: flag_signal_def aggregateBySignal_def populationSize_def Let_def split: prod.splits)

lemma flag_all_clean: "\<exists>fs. flag_all no_bad cfg now db sigs = Inr fs"
proof (induction sigs)
  case (Cons sig sigs)
  then show ?case using flag_signal_clean [of cfg now db sig] by auto
qed simp

definition outliers :: "RepSubsystem \<Rightarrow> time \<Rightarrow> rep_flag list" where
  "outliers s now = (case flag_all no_bad (rs_cfg s) now (rs_db s) PrimarySignals of Inl _ \<Rightarrow> [] | Inr fs \<Rightarrow> fs)"


section \<open>What a pass does not do\<close>

lemma transition_audit_row:
  assumes "rd_state db i = Some c" "rw_state c = StateAudit" "j \<noteq> i \<or> to = StateAudit"
  shows "rd_state (snd (transition bad j to r now db)) i = Some c"
  using assms by (cases rule: transition_cases [of bad j to r now db]) (auto simp: canTransition_def split: if_splits)

lemma flag_loop_audit_row:
  "rd_state db i = Some c \<Longrightarrow> rw_state c = StateAudit \<Longrightarrow> rd_state (snd (flag_loop bad now states fs db)) i = Some c"
proof (induction fs arbitrary: db)
  case (Cons f fs)
  obtain x db1 where t: "transition (bad (AtFlag (fl_signal f)) (fl_id f)) (fl_id f) StateAudit (zscore_reason f now) now db = (x, db1)"
    by fastforce
  have "rd_state db1 i = Some c"
    using transition_audit_row [OF Cons.prems, of "fl_id f" StateAudit "bad (AtFlag (fl_signal f)) (fl_id f)" "zscore_reason f now" now] t by simp
  then show ?case using Cons.IH Cons.prems t by (auto split: option.splits)
qed simp

lemma audit_loop_stuck:
  assumes "row_of s i = Some c" "audit_one bad now flagged i (the (states i)) = (\<lambda>s. s) \<or> states i = None"
  shows "row_of (audit_states bad now flagged states is s) i = Some c"
  using assms
proof (induction "is" arbitrary: s)
  case (Cons j "is")
  have "row_of (case states j of None \<Rightarrow> s | Some st \<Rightarrow> audit_one bad now flagged j st s) i = Some c"
    using Cons.prems by (cases "j = i") (auto simp: audit_one_other split: option.splits)
  then show ?case using Cons.IH Cons.prems(2) by simp
qed simp

lemma stale_recent:
  assumes "recent_audits now rs = []" "now \<le> now'"
  shows "recent_audits now' rs = []"
  using assms by (fastforce simp: recent_audits_def filter_empty_conv)

text \<open>
  An audit that was not reviewed in time is never lifted: once the audit reasons of an identity in AUDIT are
  all more than seven days old, no later pass of the evaluator changes its row, although the 48 quiet hours
  after which an audit is meant to clear are long over.
\<close>

theorem stale_audit_never_clears:
  assumes "row_of s i = Some c" "rw_state c = StateAudit" "recent_audits now (rw_reasons c) = []" "now \<le> now'"
  shows "row_of (snd (runOneCycle bad lib now' order1 order2 s)) i = Some c"
proof (cases "flag_all bad (rs_cfg s) now' (rs_db s) PrimarySignals")
  case (Inr fs)
  obtain e db where fl: "flag_loop bad now' (rd_state (rs_db s)) fs (rs_db s) = (e, db)" by fastforce
  have row: "rd_state db i = Some c" using flag_loop_audit_row [OF assms(1,2), of bad now' "rd_state (rs_db s)" fs] fl by simp
  define s1 where "s1 = audit_states bad now' (map fl_id fs) (rd_state db) order1 (s\<lparr>rs_db := db\<rparr>)"
  have "audit_one bad now' (map fl_id fs) i c = (\<lambda>s. s)"
    using stale_recent [OF assms(3,4)] by (simp add: audit_one_def fun_eq_iff)
  then have A: "row_of s1 i = Some c" unfolding s1_def by (intro audit_loop_stuck) (simp_all add: row)
  obtain x s2 where r: "recomputeScoresAndPublish bad lib now' order2 s1 = (x, s2)" by fastforce
  have "row_of s2 i = Some c" using recompute_db(1) [of bad lib now' order2 s1] r A by simp
  then show ?thesis using row A assms(1)
    by (cases e; cases x) (simp_all add: runOneCycle_def Inr fl loadAllStates_def s1_def [symmetric] r pruneEventsBefore_def)
qed (simp add: runOneCycle_def assms(1))

lemma Freeze_clean:
  assumes "\<not> rs_closed s" "encodable (rs_db s)" "row_of s i = Some c" "rw_state c \<noteq> StateFrozen"
    "bad AtFreeze i = (\<lambda>q. False)"
  shows "Freeze bad now i op s = (case refreshOne bad i (s\<lparr>rs_db := (rs_db s)\<lparr>rd_state :=
       (rd_state (rs_db s))(i \<mapsto> moved c StateFrozen (manual_reason op now) now)\<rparr>\<rparr>) of
     (Some e, s1) \<Rightarrow> (Some e, s1) | (None, s1) \<Rightarrow> (None, notifyFreeze i ''operator'' now s1))"
proof -
  have "transition (\<lambda>q. False) i StateFrozen (manual_reason op now) now (rs_db s) =
      (None, (rs_db s)\<lparr>rd_state := (rd_state (rs_db s))(i \<mapsto> moved c StateFrozen (manual_reason op now) now)\<rparr>)"
    by (rule transition_clean) (use assms in \<open>auto simp: canTransition_def\<close>)
  then show ?thesis using assms by (simp add: Freeze_def ensureState_def)
qed

text \<open>
  The evaluator can undo an operator's freeze in the broker's view: it does not take the lock the operator
  holds, so when it has loaded the states before a freeze and publishes its cache after it, the row is
  FROZEN and \<open>IsFrozen\<close> is false until the next pass.
\<close>

theorem publish_loses_freeze:
  assumes "\<not> rs_closed s" "encodable (rs_db s)" "row_of s i = Some c" "rw_state c \<noteq> StateFrozen"
    "Freeze no_bad now i operator s = (e, s1)"
    "publishScores no_bad lib now' order (rd_state (rs_db s)) s1 = (e', s2)"
  shows "e = None \<and> IsFrozen s1 i \<and> e' = None \<and> frozen_row (rs_db s2) i \<and> \<not> IsFrozen s2 i"
proof -
  have s1: "e = None" "row_of s1 i = Some (moved c StateFrozen (manual_reason operator now) now)" "IsFrozen s1 i"
    using assms(5) unfolding Freeze_clean [OF assms(1-4) refl]
    by (auto simp: refreshOne_def readState_def Let_def IsFrozen_def entry_of_def notifyFreeze_def split: if_splits)
  obtain db where sl: "score_loop no_bad lib now' (rd_state (rs_db s)) order Map.empty (rs_db s1) =
      (Inr (\<lambda>i. if i \<in> set order then (case row_of s i of None \<Rightarrow> None | Some st \<Rightarrow> Some (entry_of st (row_score lib now' st))) else None), db)"
    using score_loop_clean [of lib now' "rd_state (rs_db s)" order Map.empty "rs_db s1"]
    by (cases "score_loop no_bad lib now' (rd_state (rs_db s)) order Map.empty (rs_db s1)") simp
  have "rd_state db = rd_state (rs_db s1)"
    using score_loop_state [of no_bad lib now' "rd_state (rs_db s)" order Map.empty "rs_db s1"] sl by simp
  then show ?thesis using assms(3,4,6) s1 by (auto simp: publishScores_def sl frozen_row_def IsFrozen_def entry_of_def split: if_splits)
qed

text \<open>
  A freeze whose cache refresh fails is never announced: the call reports an error with the row already
  FROZEN, and the operator's retry succeeds without telling federation.
\<close>

theorem failed_freeze_never_announced:
  assumes "\<not> rs_closed s" "encodable (rs_db s)" "row_of s i = Some c" "rw_state c \<noteq> StateFrozen"
    "Freeze (\<lambda>a j q. a = AtRefresh \<and> q = SqlRead) now i operator s = (e, s1)" "Freeze no_bad now' i operator s1 = (e', s2)"
  shows "e \<noteq> None \<and> e' = None \<and> frozen_row (rs_db s2) i \<and> rs_notified s2 = rs_notified s"
proof -
  define c' where "c' = moved c StateFrozen (manual_reason operator now) now"
  have s1: "e \<noteq> None" "s1 = s\<lparr>rs_db := (rs_db s)\<lparr>rd_state := (rd_state (rs_db s))(i \<mapsto> c')\<rparr>\<rparr>"
    using assms(5) Freeze_clean [OF assms(1-4), of "\<lambda>a j q. a = AtRefresh \<and> q = SqlRead" now operator]
    by (auto simp: refreshOne_def readState_def c'_def)
  have "rw_state c' = StateFrozen" by (simp add: c'_def)
  then have "transition (\<lambda>q. False) i StateFrozen (manual_reason operator now') now' (rs_db s1) = (Some errInvalidTransition, rs_db s1)"
    by (intro transition_refused [of _ _ c']) (simp_all add: s1(2) canTransition_def)
  then have "e' = None \<and> s2 = s1"
    using assms(1,6) by (auto simp: Freeze_def ensureState_def s1(2))
  then show ?thesis using s1 \<open>rw_state c' = StateFrozen\<close> by (simp add: frozen_row_def)
qed


section \<open>The broker behind it\<close>

lemma Pick_not_frozen: "cand \<in> set (Pick snapshot body w frozen score cfg tried) \<Longrightarrow> \<not> frozen (sr_identity_id (cd_record cand))"
  by (auto simp: Pick_def eligible_iff)

lemma offer_loop_not_frozen:
  "fst (offer_loop env body h i n k tried any st) = LoopReturn (Inr res) \<Longrightarrow> rr_admit res = Some a \<Longrightarrow>
     \<not> sv_frozen env (as_assigned_seeder a)"
proof (induction env body h i n k tried any st rule: offer_loop.induct)
  case (2 env body h i n k tried any st)
  show ?case
  proof (cases "Pick (Match (sv_orders env k) (submit_filter (sv_cfg env) body) (bk_reg st)) body
         (bc_score_weights (sv_cfg env)) (sv_frozen env) (sv_score env) (sv_cfg env) tried")
    case Nil
    then show ?thesis using "2.prems" by simp
  next
    case (Cons cand rest)
    have "\<not> sv_frozen env (sr_identity_id (cd_record cand))"
      by (rule Pick_not_frozen [of _ "Match (sv_orders env k) (submit_filter (sv_cfg env) body) (bk_reg st)" body
            "bc_score_weights (sv_cfg env)" "sv_frozen env" "sv_score env" "sv_cfg env" tried]) (simp add: Cons)
    then show ?thesis using "2.prems" "2.IH" [OF Cons refl refl]
      by (auto simp: Cons Let_def split: prod.splits sum.splits if_splits option.splits)
  qed
qed simp


end
