(* ===== verification/TB_Rep_Stats.thy ===== *)
theory TB_Rep_Stats
  imports TB_Evaluator "HOL-Library.Multiset"
begin

text \<open>
  The arithmetic of the evaluator. Counts below \<open>2^50\<close> and their medians are exact in \<open>float64\<close>, so the
  robust z-score can be reasoned about over the rationals: at most half of the identities that report a
  signal lie outside the median absolute deviation. The published score stays between 0 and 1.
\<close>

section \<open>Medians of rationals\<close>

lemma sort_map_Fin: "sort (map Fin qs) = map Fin (sort qs)"
proof (rule properties_for_sort)
  show "mset (map Fin (sort qs)) = mset (map Fin qs)" by simp
  have "sorted (sort qs)" by simp
  then show "sorted (map Fin (sort qs))" unfolding sorted_map by (rule sorted_wrt_mono_rel [rotated]) (simp add: less_eq_float64_def)
qed

definition med :: "rat list \<Rightarrow> rat" where
  "med qs = (let n = length qs in if n = 0 then 0 else if n mod 2 = 1 then qs ! (n div 2) else (qs ! (n div 2 - 1) + qs ! (n div 2)) / 2)"

lemma medianSortedCopy_Fin:
  assumes "\<And>a b. a \<in> set qs \<Longrightarrow> b \<in> set qs \<Longrightarrow> quarter (a + b) \<and> quarter ((a + b) / 2)"
  shows "medianSortedCopy (map Fin qs) = Fin (med qs)"
proof (cases "length qs = 0 \<or> length qs mod 2 = 1")
  case False
  then have "0 < length qs" by simp
  then have "length qs div 2 - 1 < length qs" "length qs div 2 < length qs" by linarith+
  note len = this
  then have "qs ! (length qs div 2 - 1) \<in> set qs" "qs ! (length qs div 2) \<in> set qs" by (simp_all only: nth_mem)
  from assms [OF this] show ?thesis using False
    by (simp add: medianSortedCopy_def med_def Let_def round64_quarter f_mul_def nth_map [OF len(1)] nth_map [OF len(2)] del: One_nat_def)
qed (auto simp: medianSortedCopy_def med_def Let_def)

lemma med_half:
  assumes "sorted qs" "qs \<noteq> []"
  shows "2 * length (filter (\<lambda>d. med qs < d) qs) \<le> length qs"
proof -
  define k where "k = (length qs - 1) div 2"
  have pos: "0 < length qs" using assms(2) by simp
  then have k: "k < length qs" unfolding k_def by linarith
  have "qs ! k \<le> med qs"
  proof (cases "length qs mod 2 = 1")
    case True
    then have "(length qs - 1) div 2 = length qs div 2" by presburger
    then show ?thesis using assms(2) True by (simp add: med_def Let_def k_def)
  next
    case False
    then have kh: "k = length qs div 2 - 1" "length qs div 2 < length qs" using pos unfolding k_def by presburger+
    then have "qs ! k \<le> qs ! (length qs div 2)" using assms(1) by (intro sorted_nth_mono) auto
    then show ?thesis using assms(2) False kh by (simp add: med_def Let_def)
  qed
  have "\<not> med qs < d" if d: "d \<in> set (take (Suc k) qs)" for d
  proof -
    obtain i where "i \<le> k" "d = qs ! i" using d k by (auto simp: in_set_conv_nth less_Suc_eq_le)
    then show ?thesis using sorted_nth_mono [OF assms(1) \<open>i \<le> k\<close> k] \<open>qs ! k \<le> med qs\<close> by simp
  qed
  then have "filter (\<lambda>d. med qs < d) (take (Suc k) qs) = []" by (auto simp: filter_empty_conv)
  then have "filter (\<lambda>d. med qs < d) qs = filter (\<lambda>d. med qs < d) (drop (Suc k) qs)"
    by (metis append_Nil append_take_drop_id filter_append)
  then have "length (filter (\<lambda>d. med qs < d) qs) \<le> length qs - Suc k"
    by (metis length_drop length_filter_le)
  then show ?thesis using k by (simp add: k_def)
qed


section \<open>Outliers are a minority\<close>

text \<open>Samples that are counts below \<open>2^50\<close>.\<close>

definition counts :: "rat list \<Rightarrow> bool" where
  "counts qs \<longleftrightarrow> (\<forall>q \<in> set qs. \<exists>n. q = of_int n \<and> 0 \<le> n \<and> n < 2 ^ 50)"

lemma medianMAD_counts:
  assumes "counts qs"
  shows "medianMAD (map Fin qs) = (Fin (med (sort qs)), Fin (med (sort (map (\<lambda>q. \<bar>q - med (sort qs)\<bar>) (sort qs)))))"
    "\<exists>h. med (sort qs) * 2 = of_int h \<and> 0 \<le> h \<and> h < 2 ^ 51"
proof -
  have el: "\<exists>n. q = of_int n \<and> 0 \<le> n \<and> n < 2 ^ 50" if "q \<in> set (sort qs)" for q using assms that by (simp add: counts_def)
  have M: "medianSortedCopy (map Fin (sort qs)) = Fin (med (sort qs))"
  proof (rule medianSortedCopy_Fin)
    fix a b assume "a \<in> set (sort qs)" "b \<in> set (sort qs)"
    then obtain m n where "a = of_int m" "b = of_int n" "0 \<le> m" "m < 2 ^ 50" "0 \<le> n" "n < 2 ^ 50" using el by meson
    then show "quarter (a + b) \<and> quarter ((a + b) / 2)"
      by (intro conjI quarterI [of _ "4 * (m + n)"] quarterI [of _ "2 * (m + n)"]) auto
  qed
  show half: "\<exists>h. med (sort qs) * 2 = of_int h \<and> 0 \<le> h \<and> h < 2 ^ 51"
  proof (cases "qs = []")
    case False
    define l where "l = length qs"
    have "0 < l" using False by (simp add: l_def)
    then have "l div 2 - 1 < l" "l div 2 < l" by linarith+
    then have "sort qs ! (l div 2 - 1) \<in> set (sort qs)" "sort qs ! (l div 2) \<in> set (sort qs)"
      by (simp_all only: nth_mem length_sort l_def)
    then obtain m n where mn: "sort qs ! (l div 2 - 1) = of_int m" "sort qs ! (l div 2) = of_int n" "0 \<le> m" "m < 2 ^ 50" "0 \<le> n" "n < 2 ^ 50"
      using el by meson
    show ?thesis
    proof (cases "l mod 2 = 1")
      case True
      then show ?thesis using mn \<open>0 < l\<close> by (intro exI [of _ "2 * n"]) (auto simp: med_def Let_def l_def [symmetric])
    next
      case False
      then show ?thesis using mn \<open>0 < l\<close> by (intro exI [of _ "m + n"]) (auto simp: med_def Let_def l_def [symmetric])
    qed
  qed (simp add: med_def)
  then obtain h where h: "med (sort qs) * 2 = of_int h" "0 \<le> h" "h < 2 ^ 51" by blast
  let ?d = "\<lambda>q. \<bar>q - med (sort qs)\<bar>"
  have dev: "\<exists>n. ?d q * 2 = of_int n \<and> 0 \<le> n \<and> n < 2 ^ 51" if q: "q \<in> set (sort qs)" for q
  proof -
    obtain n where n: "q = of_int n" "0 \<le> n" "n < 2 ^ 50" using el [OF q] by blast
    have "?d q * 2 = \<bar>q * 2 - med (sort qs) * 2\<bar>" by (simp only: left_diff_distrib [symmetric] abs_mult abs_numeral)
    also have "\<dots> = of_int \<bar>2 * n - h\<bar>" using h(1) n(1) by simp
    finally have "?d q * 2 = of_int \<bar>2 * n - h\<bar>" .
    moreover have "0 \<le> \<bar>2 * n - h\<bar>" "\<bar>2 * n - h\<bar> < 2 ^ 51" using n(2,3) h(2,3) by auto
    ultimately show ?thesis by blast
  qed
  have D: "f_abs (f_sub (Fin q) (Fin (med (sort qs)))) = Fin (?d q)" if q: "q \<in> set (sort qs)" for q
  proof -
    obtain n where "?d q * 2 = of_int n" "0 \<le> n" "n < 2 ^ 51" using dev [OF q] by blast
    then have "quarter (?d q)" by (intro quarterI [of _ "2 * n"]) auto
    then show ?thesis by (simp add: f_sub_def f_abs_round64 round64_quarter)
  qed
  have N: "medianSortedCopy (map Fin (sort (map ?d (sort qs)))) = Fin (med (sort (map ?d (sort qs))))"
  proof (rule medianSortedCopy_Fin)
    have dv: "\<exists>n. x * 2 = of_int n \<and> 0 \<le> n \<and> n < 2 ^ 51" if x: "x \<in> set (sort (map ?d (sort qs)))" for x
    proof -
      obtain q where "x = ?d q" "q \<in> set (sort qs)" using x by auto
      then show ?thesis using dev [of q] by simp
    qed
    fix a b assume ab: "a \<in> set (sort (map ?d (sort qs)))" "b \<in> set (sort (map ?d (sort qs)))"
    obtain m n where "a * 2 = of_int m" "b * 2 = of_int n" "0 \<le> m" "m < 2 ^ 51" "0 \<le> n" "n < 2 ^ 51"
      using dv [OF ab(1)] dv [OF ab(2)] by blast
    then show "quarter (a + b) \<and> quarter ((a + b) / 2)"
      by (intro conjI quarterI [of _ "2 * (m + n)"] quarterI [of _ "m + n"]) auto
  qed
  have "map (\<lambda>x. f_abs (f_sub x (Fin (med (sort qs))))) (map Fin (sort qs)) = map Fin (map ?d (sort qs))" using D by simp
  then show "medianMAD (map Fin qs) = (Fin (med (sort qs)), Fin (med (sort (map ?d (sort qs)))))"
    using N by (cases "qs = []") (simp_all add: medianMAD_def Let_def sort_map_Fin M med_def del: map_map)
qed


lemma length_filter_mset: "length (filter P xs) = size (filter_mset P (mset xs))"
  by (metis mset_filter size_mset)

lemma f_abs_ratio_le_1:
  assumes "\<bar>x\<bar> \<le> y" "0 < y"
  shows "f_le (f_abs (round64 (x / y))) (Fin 1)"
proof -
  have "f_bnd 1 (round64 \<bar>x / y\<bar>)" by (rule round64_bnd) (use assms in \<open>simp_all add: abs_divide\<close>)
  then show ?thesis by (auto simp: f_abs_round64 f_bnd_def)
qed

lemma zScore_outside:
  assumes "quarter (x - m)" "0 \<le> d" "\<not> f_eq (Fin d) (Fin 0)" "f_le (Fin 1) thr" "f_lt thr (f_abs (zScore (Fin x) (Fin m) (Fin d)))"
  shows "d < \<bar>x - m\<bar>"
proof (rule ccontr)
  assume "\<not> d < \<bar>x - m\<bar>"
  moreover have d: "0 < d" using assms(2,3) by (simp add: f_eq_def)
  ultimately have "f_le (f_abs (round64 ((x - m) / d))) (Fin 1)" by (intro f_abs_ratio_le_1) simp_all
  moreover have "zScore (Fin x) (Fin m) (Fin d) = round64 ((x - m) / d)"
    using d round64_quarter [OF assms(1)] by (simp add: zScore_def f_eq_def f_sub_def)
  ultimately show False using assms(4,5) f_le_trans by (metis f_lt_def)
qed

lemma outliers_minority:
  assumes "counts qs" "medianMAD (map Fin qs) = (median, mad)" "\<not> f_eq mad (Fin 0)" "f_le (Fin 1) thr"
  shows "2 * length (filter (\<lambda>q. f_lt thr (f_abs (zScore (Fin q) median mad))) qs) \<le> length qs"
proof -
  define m where "m = med (sort qs)"
  define ds where "ds = sort (map (\<lambda>q. \<bar>q - m\<bar>) (sort qs))"
  have eq: "median = Fin m" "mad = Fin (med ds)" using medianMAD_counts(1) [OF assms(1)] assms(2) by (simp_all add: m_def ds_def)
  have ne: "qs \<noteq> []" using assms(2,3) by (auto simp: medianMAD_def f_eq_def)
  then have "length ds \<noteq> 0" by (simp add: ds_def)
  then have "ds \<noteq> []" by blast
  then have half: "2 * length (filter (\<lambda>d. med ds < d) ds) \<le> length ds" by (intro med_half) (simp_all add: ds_def)
  have "0 \<le> med ds"
  proof -
    have pos: "0 < length ds" using \<open>ds \<noteq> []\<close> by simp
    then have "ds ! (length ds div 2 - 1) \<in> set ds" "ds ! (length ds div 2) \<in> set ds" by (intro nth_mem; linarith)+
    then have "0 \<le> ds ! (length ds div 2 - 1)" "0 \<le> ds ! (length ds div 2)" by (auto simp: ds_def)
    then show ?thesis by (simp add: med_def Let_def)
  qed
  moreover have "quarter (q - m)" if "q \<in> set qs" for q
  proof -
    obtain h where h: "m * 2 = of_int h" "0 \<le> h" "h < 2 ^ 51" using medianMAD_counts(2) [OF assms(1)] by (auto simp: m_def)
    from assms(1) \<open>q \<in> set qs\<close> obtain n where "q = of_int n" "0 \<le> n" "n < 2 ^ 50" by (auto simp: counts_def)
    then show ?thesis using h by (intro quarterI [of _ "4 * n - 2 * h"]) auto
  qed
  ultimately have out: "med ds < \<bar>q - m\<bar>" if "q \<in> set qs" "f_lt thr (f_abs (zScore (Fin q) median mad))" for q
    using zScore_outside [of q m "med ds" thr] assms(3,4) that eq by simp
  have "length (filter (\<lambda>q. f_lt thr (f_abs (zScore (Fin q) median mad))) qs) \<le> length (filter (\<lambda>q. med ds < \<bar>q - m\<bar>) qs)"
    using out by (induction qs) auto
  also have "\<dots> = length (filter (\<lambda>d. med ds < d) (map (\<lambda>q. \<bar>q - m\<bar>) qs))" by (simp add: filter_map comp_def)
  also have "\<dots> = length (filter (\<lambda>d. med ds < d) ds)"
    unfolding length_filter_mset by (rule arg_cong [where f = "\<lambda>M. size (filter_mset _ M)"]) (simp add: ds_def)
  finally show ?thesis using half by (simp add: ds_def)
qed

lemma sum_of_ones:
  assumes "\<And>e. e \<in> set es \<Longrightarrow> rpe_value e = Fin 1" "0 \<le> k" "k + int (length es) < 2 ^ 50"
  shows "fold (\<lambda>e s. f_add s (rpe_value e)) es (Fin (of_int k)) = Fin (of_int (k + int (length es)))"
  using assms
proof (induction es arbitrary: k)
  case (Cons e es)
  have "round64 (of_int k + 1) = Fin (of_int (k + 1))"
    by (subst round64_quarter) (use Cons.prems(2,3) in \<open>auto intro!: quarterI [of _ "4 * (k + 1)"]\<close>)
  then show ?case using Cons.IH [of "k + 1"] Cons.prems by simp
qed simp

text \<open>
  C33. Outliers are a minority: as long as the events of a signal count one each and the
  threshold is at least 1, one pass flags at most half of the identities that have events of the
  signal in its window.
\<close>

theorem outliers_are_a_minority:
  assumes "flag_signal bad cfg now db sig = Inr fs" "f_le (Fin 1) (rc_z_score_threshold cfg)"
    "\<forall>e \<in> set (rd_events db). rpe_event_type e = sig \<longrightarrow> rpe_value e = Fin 1" "length (rd_events db) < 2 ^ 50"
  shows "2 * length fs \<le> card (rpe_identity_id ` {e \<in> set (rd_events db). rpe_event_type e = sig \<and>
    in_signal_window (fst (primaryWindow cfg now sig)) (snd (primaryWindow cfg now sig)) e})"
proof -
  obtain lo hi where w: "primaryWindow cfg now sig = (lo, hi)" by fastforce
  define evs where "evs = filter (\<lambda>e. rpe_event_type e = sig \<and> in_signal_window lo hi e) (rd_events db)"
  define ids where "ids = remdups (map rpe_identity_id evs)"
  define total where "total = (\<lambda>i. fold (\<lambda>e s. f_add s (rpe_value e)) (filter (\<lambda>e. rpe_identity_id e = i) evs) (Fin 0))"
  define num where "num = (\<lambda>i. int (length (filter (\<lambda>e. rpe_identity_id e = i) evs)))"
  have len: "num i < 2 ^ 50" for i
  proof -
    have "length (filter (\<lambda>e. rpe_identity_id e = i) evs) \<le> length (rd_events db)"
      unfolding evs_def by (meson length_filter_le order_trans)
    then have "num i < int (2 ^ 50)" unfolding num_def using assms(4) by (simp only: of_nat_less_iff)
    then show ?thesis by simp
  qed
  have tot: "total i = Fin (of_int (num i))" for i
    using sum_of_ones [of "filter (\<lambda>e. rpe_identity_id e = i) evs" 0] assms(3) len [of i]
    by (auto simp: total_def num_def evs_def)
  define qs :: "rat list" where "qs = map (\<lambda>i. of_int (num i)) ids"
  have "0 \<le> num i" for i by (simp add: num_def)
  then have "counts qs" using len unfolding counts_def qs_def by auto
  have samples: "map snd (map (\<lambda>i. (i, total i)) ids) = map Fin qs" by (simp add: qs_def tot)
  obtain median mad where mm: "medianMAD (map Fin qs) = (median, mad)" by fastforce
  have agg: "aggregateBySignal (bad (AtFlag sig) []) sig lo hi db = Inr (map (\<lambda>i. (i, total i)) ids) \<or> fs = []"
    using assms(1) by (auto simp: flag_signal_def w aggregateBySignal_def Let_def evs_def ids_def total_def split: if_splits)
  have "length fs \<le> length (filter (\<lambda>q. f_lt (rc_z_score_threshold cfg) (f_abs (zScore (Fin q) median mad))) qs) \<and> \<not> f_eq mad (Fin 0) \<or> fs = []"
  proof (cases "fs = []")
    case False
    then have "fs = map (\<lambda>r. \<lparr>fl_id = fst r, fl_signal = sig, fl_z = zScore (snd r) median mad, fl_window = windowLabel sig\<rparr>)
        (filter (\<lambda>r. f_lt (rc_z_score_threshold cfg) (f_abs (zScore (snd r) median mad))) (map (\<lambda>i. (i, total i)) ids)) \<and> \<not> f_eq mad (Fin 0)"
      using assms(1) agg by (auto simp: flag_signal_def w samples mm simp del: map_map split: sum.splits if_splits)
    then show ?thesis by (simp add: filter_map comp_def tot qs_def)
  qed simp
  then have "2 * length fs \<le> length qs"
    using outliers_minority [OF \<open>counts qs\<close> mm _ assms(2)] by fastforce
  also have "\<dots> = card (set ids)" by (simp add: qs_def ids_def distinct_card [symmetric])
  also have "set ids = rpe_identity_id ` {e \<in> set (rd_events db). rpe_event_type e = sig \<and> in_signal_window lo hi e}"
    by (auto simp: ids_def evs_def)
  finally show ?thesis by (simp add: w)
qed

section \<open>Scores\<close>

text \<open>What the score relies on of \<open>math.Exp\<close> and \<open>math.Log\<close>.\<close>

definition math_ok :: "rep_math \<Rightarrow> bool" where
  "math_ok lib \<longleftrightarrow> (\<forall>x. f_le x (Fin 0) \<longrightarrow> f_in_unit (rm_exp lib x)) \<and>
     (\<forall>x \<ge> 1. \<exists>y \<ge> 0. rm_log lib (Fin x) = Fin y) \<and> (\<exists>y > 0. rm_log lib (Fin 365) = Fin y)"

lemma hour_float: "f_of_int rep_hour_ns = Fin (of_int rep_hour_ns)"
  by (rule f_of_int_exact) (simp_all add: rep_hour_ns_def)

lemma dur_hours_nonneg:
  assumes "0 \<le> d" "d < 2 ^ 63"
  shows "f_bnd 2562049 (dur_hours d)"
proof -
  have q: "d sdiv rep_hour_ns = d div rep_hour_ns" "d smod rep_hour_ns = d mod rep_hour_ns"
    using assms by (simp_all add: signed_divide_int_def signed_modulo_int_def rep_hour_ns_def sgn_if)
  have "0 \<le> d div rep_hour_ns" "d div rep_hour_ns \<le> 2562048" "0 \<le> d mod rep_hour_ns" "d mod rep_hour_ns \<le> rep_hour_ns"
    using assms by (auto simp: rep_hour_ns_def intro!: pos_mod_sign order_less_imp_le [OF pos_mod_bound])
  then have "f_bnd 2562048 (f_of_int (d div rep_hour_ns))" "f_bnd (rep_hour_ns * 1) (f_of_int (d mod rep_hour_ns))"
    by (auto intro!: f_bnd_of_int simp: rep_hour_ns_def)
  moreover from this(2) have "f_bnd 1 (f_div (f_of_int (d mod rep_hour_ns)) (Fin (of_int rep_hour_ns)))"
    by (rule f_bnd_div) (simp_all add: rep_hour_ns_def)
  ultimately show ?thesis unfolding dur_hours_def dur_in_def q hour_float
    using f_bnd_add [of 2562048 "f_of_int (d div rep_hour_ns)" 1] by simp
qed


lemma dur_hours_not_NaN: "- (2 ^ 63) \<le> d \<Longrightarrow> d < 2 ^ 63 \<Longrightarrow> dur_hours d \<noteq> NaN"
  using dur_in_not_NaN [of d rep_hour_ns] by (simp add: dur_hours_def rep_hour_ns_def)

lemma longevity_unit:
  assumes "math_ok lib"
  shows "f_bnd 1 (longevityBonus lib firstSeen now)"
proof (cases "firstSeen = zero_time \<or> \<not> now > firstSeen")
  case False
  define days where "days = f_div (dur_hours (time_sub now firstSeen)) (Fin 24)"
  have "0 \<le> time_sub now firstSeen" using False by (auto simp: time_sub_def min_int_def)
  then have "f_bnd 2562049 (dur_hours (time_sub now firstSeen))" using dur_hours_nonneg time_sub_range by blast
  then have "f_bnd 2562049 days" unfolding days_def using f_bnd_div [of 1 2562049 _ 24] by simp
  then obtain r where r: "days = Fin r" "0 \<le> r" "f_bnd 2562050 (f_add days (Fin 1))"
    using f_bnd_add [of 2562049 days 1 "Fin 1"] by (auto simp: f_bnd_def)
  obtain x where x: "f_add days (Fin 1) = Fin x" "1 \<le> x" using r round64_ge_1 [of "r + 1"] by (auto simp: f_bnd_def)
  obtain y l where "rm_log lib (Fin x) = Fin y" "0 \<le> y" "rm_log lib (Fin 365) = Fin l" "0 < l"
    using assms x(2) unfolding math_ok_def by blast
  then show ?thesis using False x(1) round64_nonneg [of "y / l"]
    by (auto simp: longevityBonus_def days_def [symmetric] Let_def f_min_def f_bnd_def)
qed (auto simp: longevityBonus_def f_bnd_def)

lemma penalty_unit:
  assumes "math_ok lib"
  shows "f_bnd 1 (auditRecencyPenalty lib lastAudit now)"
proof (cases "lastAudit = zero_time")
  case False
  define dt where "dt = f_div (dur_hours (time_sub now lastAudit)) (Fin 24)"
  define dt1 where "dt1 = (if f_lt dt (Fin 0) then Fin 0 else dt)"
  have "dur_hours (time_sub now lastAudit) \<noteq> NaN" using dur_hours_not_NaN time_sub_range by blast
  then have "dt \<noteq> NaN" unfolding dt_def by (cases "dur_hours (time_sub now lastAudit)") auto
  then have "f_le (Fin 0) dt1" by (auto simp: dt1_def f_lt_def)
  then have "f_le (f_div (f_neg dt1) (Fin 7)) (Fin 0)"
    using round64_minus [of "r / 7" for r] round64_nonneg [of "r / 7" for r] by (cases dt1) (force simp: round64_minus)+
  then have "f_in_unit (rm_exp lib (f_div (f_neg dt1) (Fin 7)))" using assms by (simp add: math_ok_def)
  then show ?thesis using False by (simp add: auditRecencyPenalty_def Let_def dt_def [symmetric] dt1_def [symmetric] f_bnd_unit)
qed (simp add: auditRecencyPenalty_def)

lemma rep_clamp01_unit: "x \<noteq> NaN \<Longrightarrow> f_in_unit (rep_clamp01 x)"
  by (cases x) (auto simp: rep_clamp01_def f_in_unit_def f_lt_def)

lemma f_bnd_weight: "0 \<le> w \<Longrightarrow> w \<le> 1 \<Longrightarrow> f_bnd 1 x \<Longrightarrow> f_bnd 1 (f_mul (round64 w) x)"
  using f_bnd_mul [of 1 "round64 w" 1 x] round64_bnd [of w 1] by simp

text \<open>
  The published score is a number between 0 and 1 for every row and every clock (also before the first
  sighting or before the last audit), given that \<open>math.Exp\<close> maps what is at most 0 into the unit interval and
  \<open>math.Log\<close> is non-negative from 1 on.
\<close>

theorem reputation_score_in_unit:
  assumes "math_ok lib"
  shows "f_in_unit (row_score lib now st)"
proof -
  have s: "f_bnd (m + 1) (f_add x y)" if "f_bnd m x" "f_bnd 1 y" "m < 9" for m x y
    using f_bnd_add [OF that(1,2)] that(3) by simp
  let ?l = "longevityBonus lib (seconds (rw_first_seen_at st)) now"
  define raw where "raw = f_add (f_add (f_add (f_mul (round64 (3 / 10)) (Fin 1)) (f_mul (round64 (3 / 10)) (Fin 1)))
      (f_mul (round64 (2 / 10)) (Fin 1))) (f_mul (round64 (2 / 10)) ?l)"
  have w: "f_bnd 1 (f_mul (round64 (3 / 10)) (Fin 1))" "f_bnd 1 (f_mul (round64 (2 / 10)) (Fin 1))" "f_bnd 1 (f_mul (round64 (2 / 10)) ?l)"
    by (rule f_bnd_weight; simp add: longevity_unit [OF assms])+
  have "f_bnd (1 + 1 + 1 + 1) raw" unfolding raw_def by (rule s, rule s, rule s, rule w, rule w, simp, rule w, simp, rule w, simp)
  moreover have "f_bnd 1 (f_mul (round64 (4 / 10)) (auditRecencyPenalty lib (lastAuditTime (rw_reasons st)) now))"
    by (rule f_bnd_weight) (simp_all add: penalty_unit [OF assms])
  ultimately have "f_sub raw (f_mul (round64 (4 / 10)) (auditRecencyPenalty lib (lastAuditTime (rw_reasons st)) now)) \<noteq> NaN"
    by (auto simp: f_bnd_def f_sub_def)
  then show ?thesis
    using rep_clamp01_unit by (simp add: row_score_def computeScore_def newDefaultInputs_def Let_def raw_def)
qed

end
