(* ===== verification/TB_Rep_Demo.thy ===== *)
theory TB_Rep_Demo
  imports TB_Rep_Cycle TB_Rep_Stats
begin

text \<open>
  A concrete reputation subsystem: the results above at work on it, with every hypothesis discharged.
\<close>

definition demo_rcfg :: ReputationConfig where
  "demo_rcfg = \<lparr>rc_evaluation_interval_s = 60, rc_short_s = 3600, rc_medium_s = 86400, rc_long_s = 604800, rc_z_score_threshold = Fin 4,
     rc_default_score = Fin (1 / 2), rc_freeze_list_cache_ttl_s = 600, rc_min_population_for_z_score = 3, rc_storage_path = ''rep''\<rparr>"

definition empty_db :: rep_db where
  "empty_db = \<lparr>rd_state = Map.empty, rd_events = [], rd_scores = Map.empty\<rparr>"

definition demo_rep :: "rep_db \<Rightarrow> RepSubsystem" where
  "demo_rep db = \<lparr>rs_cfg = demo_rcfg, rs_listener = True, rs_db = db,
     rs_cache = Some (\<lambda>i. map_option (\<lambda>st. entry_of st (Fin (1 / 2))) (rd_state db i)), rs_closed = False, rs_notified = []\<rparr>"

definition demo_bad_id :: ident where
  "demo_bad_id = replicate 32 7"

lemma demo_rep_simps [simp]: "rs_db (demo_rep db) = db" "rs_closed (demo_rep db) = False" "rs_notified (demo_rep db) = []"
    "rs_listener (demo_rep db) = True" "rs_cfg (demo_rep db) = demo_rcfg"
  by (simp_all add: demo_rep_def)

lemma empty_db_simps [simp]: "rd_state empty_db = Map.empty" "rd_events empty_db = []" "rd_scores empty_db = Map.empty"
  by (simp_all add: empty_db_def)

text \<open>\<open>Open\<close> on an empty database, and the operator freezing an identity.\<close>

lemma demo_rep_open: "Rep_Open no_bad demo_rcfg True (Inr empty_db) = Inr (demo_rep empty_db)"
  by (simp add: Rep_Open_def demo_rcfg_def reloadCache_def loadAllStates_def loadAllScores_def demo_rep_def fun_eq_iff)

definition demo_frozen_row :: stateRow where
  "demo_frozen_row = moved (fresh_row (seconds 100)) StateFrozen (manual_reason ''op'' (seconds 100)) (seconds 100)"

definition demo_frozen :: RepSubsystem where
  "demo_frozen = snd (Freeze no_bad (seconds 100) demo_bad_id ''op'' (demo_rep empty_db))"

lemma demo_frozen_state: "rd_state (rs_db demo_frozen) = [demo_bad_id \<mapsto> demo_frozen_row]" "rs_notified demo_frozen = [(demo_bad_id, ''operator'', seconds 100)]"
    "rs_closed demo_frozen = False"
  by (simp_all add: demo_frozen_def Freeze_def ensureState_def transition_def readState_def Let_def canTransition_def json_ok_def manual_reason_def
    zero_reason_def refreshOne_def notifyFreeze_def moved_def demo_frozen_row_def)

lemma demo_step: "rep_run (\<lambda>b. b = no_bad) (demo_rep empty_db) demo_frozen"
  unfolding demo_frozen_def by (rule r_into_rtranclp [where r = "rep_step (\<lambda>b. b = no_bad)", OF rep_step.st_freeze]) simp

definition demo_thawed :: RepSubsystem where
  "demo_thawed = snd (Unfreeze no_bad (seconds 200) demo_bad_id ''op'' demo_frozen)"

lemma demo_rep_step2: "rep_run (\<lambda>b. b = no_bad) demo_frozen demo_thawed"
  unfolding demo_thawed_def by (rule r_into_rtranclp [where r = "rep_step (\<lambda>b. b = no_bad)", OF rep_step.st_unfreeze]) simp

lemma demo_frozen_row_simps [simp]: "rw_state demo_frozen_row = StateFrozen" "rw_reasons demo_frozen_row = [manual_reason ''op'' (seconds 100)]"
  by (simp_all add: demo_frozen_row_def)



theorem reasons_append_only_witness:
  "\<exists>c' more. row_of demo_thawed demo_bad_id = Some c' \<and> rw_reasons c' = manual_reason ''op'' (seconds 100) # more"
  using reasons_append_only [OF demo_rep_step2, of demo_bad_id demo_frozen_row] by (auto simp: demo_frozen_state)

theorem frozen_until_operator_witness:
  "row_of demo_thawed demo_bad_id = Some demo_frozen_row \<or>
    (\<exists>c' r more. row_of demo_thawed demo_bad_id = Some c' \<and> rw_reasons c' = rw_reasons demo_frozen_row @ r # more \<and> rr_kind r = ''manual'')"
  using frozen_until_operator [OF demo_rep_step2, of demo_bad_id demo_frozen_row] by (simp add: demo_frozen_state)

theorem is_frozen_agrees_witness: "IsFrozen demo_frozen demo_bad_id \<and> \<not> IsFrozen demo_frozen []"
  using is_frozen_agrees [OF demo_rep_open demo_step, of demo_bad_id] is_frozen_agrees [OF demo_rep_open demo_step, of "[]"]
  by (simp add: demo_frozen_state demo_bad_id_def)



section \<open>A pass of the evaluator\<close>

definition demo_breach :: "i64 \<Rightarrow> ReasonRecord" where
  "demo_breach t = zero_reason\<lparr>rr_kind := ''breach'', rr_breach_kind := ''replay_confirmed_nonce'', rr_at := t\<rparr>"

definition demo_audit_row :: stateRow where
  "demo_audit_row = \<lparr>rw_state = StateAudit, rw_since = 10, rw_first_seen_at = 5, rw_reasons = map demo_breach [10, 20, 30], rw_updated_at = 30\<rparr>"

definition demo_audit :: RepSubsystem where
  "demo_audit = demo_rep (empty_db\<lparr>rd_state := [demo_bad_id \<mapsto> demo_audit_row]\<rparr>)"

lemma demo_audit_simps [simp]: "rd_state (rs_db demo_audit) = [demo_bad_id \<mapsto> demo_audit_row]" "rs_closed demo_audit = False"
    "rd_events (rs_db demo_audit) = []" "rs_cfg demo_audit = demo_rcfg" "rw_state demo_audit_row = StateAudit"
  by (simp_all add: demo_audit_def demo_audit_row_def)

lemma demo_outliers [simp]: "outliers demo_audit now = []"
  by (simp add: outliers_def PrimarySignals_def flag_signal_def primaryWindow_def aggregateBySignal_def populationSize_def medianMAD_def
    f_eq_def demo_rcfg_def)

lemma demo_encodable: "encodable (rs_db demo_audit)"
  by (simp add: encodable_def demo_audit_row_def demo_breach_def json_ok_def zero_reason_def)

text \<open>Stand-ins for \<open>math.Exp\<close> and \<open>math.Log\<close>.\<close>

definition demo_rep_math :: rep_math where
  "demo_rep_math = \<lparr>rm_exp = (\<lambda>x. if x = Fin 0 then Fin 1 else Fin (1 / 2)), rm_log = (\<lambda>x. case x of Fin q \<Rightarrow> Fin (q - 1) | _ \<Rightarrow> x)\<rparr>"

lemma demo_cycle_row: "cycle_row (seconds 60) [] demo_bad_id (Some demo_audit_row) =
    Some (moved demo_audit_row StateFrozen (freeze_reason (seconds 60)) (seconds 60))"
  by (simp add: cycle_row_def flag_rule_def audit_rule_def recent_audits_def demo_audit_row_def demo_breach_def audit_reason_def zero_reason_def seconds_def)


theorem stale_audit_never_clears_witness:
  "row_of (snd (runOneCycle no_bad demo_rep_math (seconds 9000000) [demo_bad_id] [demo_bad_id] demo_audit)) demo_bad_id = Some demo_audit_row"
  by (rule stale_audit_never_clears [of _ _ _ "seconds 1000000"])
     (simp_all add: recent_audits_def demo_audit_row_def demo_breach_def zero_reason_def seconds_def)

definition demo_refrozen :: RepSubsystem where
  "demo_refrozen = snd (Freeze no_bad (seconds 40) demo_bad_id ''op'' demo_audit)"

theorem publish_loses_freeze_witness:
  "IsFrozen demo_refrozen demo_bad_id \<and>
   \<not> IsFrozen (snd (publishScores no_bad demo_rep_math (seconds 40) [demo_bad_id] [demo_bad_id \<mapsto> demo_audit_row] demo_refrozen)) demo_bad_id"
proof -
  obtain e where f: "Freeze no_bad (seconds 40) demo_bad_id ''op'' demo_audit = (e, demo_refrozen)"
    by (metis demo_refrozen_def prod.collapse)
  obtain e' s2 where g: "publishScores no_bad demo_rep_math (seconds 40) [demo_bad_id] (rd_state (rs_db demo_audit)) demo_refrozen = (e', s2)"
    by fastforce
  then show ?thesis using publish_loses_freeze [OF _ demo_encodable _ _ f g, of demo_audit_row] by simp
qed

theorem failed_freeze_never_announced_witness:
  "\<exists>s1 s2. Freeze (\<lambda>a j q. a = AtRefresh \<and> q = SqlRead) (seconds 40) demo_bad_id ''op'' demo_audit = (Some ''reputation: readState'', s1) \<and>
     Freeze no_bad (seconds 41) demo_bad_id ''op'' s1 = (None, s2) \<and> frozen_row (rs_db s2) demo_bad_id \<and> rs_notified s2 = []"
proof -
  obtain e s1 where f: "Freeze (\<lambda>a j q. a = AtRefresh \<and> q = SqlRead) (seconds 40) demo_bad_id ''op'' demo_audit = (e, s1)" by fastforce
  obtain e' s2 where g: "Freeze no_bad (seconds 41) demo_bad_id ''op'' s1 = (e', s2)" by fastforce
  have "e = Some ''reputation: readState''"
    using f Freeze_clean [of demo_audit demo_bad_id demo_audit_row "\<lambda>a j q. a = AtRefresh \<and> q = SqlRead" "seconds 40" "''op''"] demo_encodable
    by (simp add: refreshOne_def readState_def)
  moreover have "rs_notified demo_audit = []" by (simp add: demo_audit_def)
  ultimately show ?thesis
    using failed_freeze_never_announced [OF _ demo_encodable _ _ f g, of demo_audit_row] f g by simp
qed

section \<open>Outliers and scores\<close>

definition demo_event :: "byte \<Rightarrow> rep_event" where
  "demo_event b = \<lparr>rpe_identity_id = [b], rpe_role = RoleConsumer, rpe_event_type = SignalBrokerRequest, rpe_value = Fin 1, rpe_observed_at = 50\<rparr>"

definition demo_traffic :: rep_db where
  "demo_traffic = empty_db\<lparr>rd_events := map demo_event [1, 2, 3, 3, 4, 4, 5, 5, 5, 5, 5, 5, 5, 5, 5]\<rparr>"

lemma demo_flags: "map_sum id (map (\<lambda>f. (fl_id f, fl_z f))) (flag_signal no_bad demo_rcfg (seconds 60) demo_traffic SignalBrokerRequest) = Inr [([5], Fin 7)]"
  by code_simp

theorem outliers_are_a_minority_witness:
  "\<exists>fs. flag_signal no_bad demo_rcfg (seconds 60) demo_traffic SignalBrokerRequest = Inr fs \<and> map fl_id fs = [[5]] \<and>
     2 * length fs \<le> card (rpe_identity_id ` {e \<in> set (rd_events demo_traffic). rpe_event_type e = SignalBrokerRequest \<and>
       in_signal_window (fst (primaryWindow demo_rcfg (seconds 60) SignalBrokerRequest)) (snd (primaryWindow demo_rcfg (seconds 60) SignalBrokerRequest)) e})"
proof -
  obtain fs where fs: "flag_signal no_bad demo_rcfg (seconds 60) demo_traffic SignalBrokerRequest = Inr fs"
    using flag_signal_clean by blast
  have "map (\<lambda>f. (fl_id f, fl_z f)) fs = [([5], Fin 7)]" using demo_flags fs by simp
  then have "map fst (map (\<lambda>f. (fl_id f, fl_z f)) fs) = map fst [([5 :: byte], Fin 7)]" by (rule arg_cong)
  then have ids: "map fl_id fs = [[5]]" by (simp add: comp_def)
  then show ?thesis
    using outliers_are_a_minority [OF fs] fs by (simp add: demo_rcfg_def demo_traffic_def demo_event_def)
qed

lemma demo_math_ok: "math_ok demo_rep_math"
  by (auto simp: math_ok_def demo_rep_math_def f_in_unit_def)

theorem reputation_score_in_unit_witness: "f_in_unit (row_score demo_rep_math (seconds 60) demo_audit_row)"
  by (rule reputation_score_in_unit [OF demo_math_ok])

end
