(* ===== verification/TB_Stunturn.thy ===== *)
theory TB_Stunturn
  imports TB_Float_Exact
begin

text \<open>
  NAT traversal (\<open>src/tracker/internal/stunturn\<close>): the allocator of relay sessions with its per-seeder
  bandwidth buckets (\<open>allocator.go\<close>), and the binding codec around the STUN library (\<open>codec.go\<close>,
  \<open>reflect.go\<close>, \<open>token.go\<close>).

  The three indexes of the allocator share pointers to the session entries, so the model has a heap of
  entries and the indexes hold addresses: a write through one index is seen through the others.
\<close>

section \<open>The allocator\<close>

datatype turn_err = ErrDuplicateRequest | ErrRandFailed | ErrUnknownToken | ErrSessionExpired | ErrThrottled | ErrInvalidConfig string

record TurnSession =
  ts_token :: bytes
  ts_session_id :: u64
  ts_consumer_id :: ident
  ts_seeder_id :: ident
  ts_request_id :: reqid
  ts_allocated_at :: time
  ts_last_active :: time

record turnBucket =
  tb_capacity_bytes :: float64
  tb_refill_per_sec :: float64
  tb_available :: float64
  tb_last_refill :: time

record AllocatorConfig =
  alc_max_kbps_per_seeder :: int
  alc_session_ttl :: int

type_synonym eaddr = nat

record Allocator =
  al_cfg :: AllocatorConfig
  al_next_id :: u64
  al_heap :: "eaddr \<rightharpoonup> TurnSession"
  al_fresh :: eaddr
  al_by_token :: "bytes \<rightharpoonup> eaddr"
  al_by_sid :: "u64 \<rightharpoonup> eaddr"
  al_by_req :: "reqid \<rightharpoonup> eaddr"
  al_buckets :: "ident \<rightharpoonup> turnBucket"

text \<open>\<open>NewAllocator\<close>; \<open>now_set\<close> and \<open>rand_set\<close> say that the injected functions are not nil.\<close>

definition NewAllocator :: "AllocatorConfig \<Rightarrow> bool \<Rightarrow> bool \<Rightarrow> turn_err + Allocator" where
  "NewAllocator cfg now_set rand_set =
     (if alc_max_kbps_per_seeder cfg \<le> 0 then Inl (ErrInvalidConfig ''MaxKbpsPerSeeder must be > 0'')
      else if alc_session_ttl cfg \<le> 0 then Inl (ErrInvalidConfig ''SessionTTL must be > 0'')
      else if \<not> now_set then Inl (ErrInvalidConfig ''Now must not be nil'')
      else if \<not> rand_set then Inl (ErrInvalidConfig ''Rand must not be nil'')
      else Inr \<lparr>al_cfg = cfg, al_next_id = 0, al_heap = Map.empty, al_fresh = 0, al_by_token = Map.empty, al_by_sid = Map.empty,
        al_by_req = Map.empty, al_buckets = Map.empty\<rparr>)"

definition ensureBucket :: "ident \<Rightarrow> time \<Rightarrow> Allocator \<Rightarrow> Allocator" where
  "ensureBucket seeder now a = (case al_buckets a seeder of Some _ \<Rightarrow> a
     | None \<Rightarrow> let capBytes = f_div (f_mul (f_of_int (alc_max_kbps_per_seeder (al_cfg a))) (Fin 1024)) (Fin 8)
         in a\<lparr>al_buckets := (al_buckets a)(seeder \<mapsto> \<lparr>tb_capacity_bytes = capBytes, tb_refill_per_sec = capBytes,
              tb_available = capBytes, tb_last_refill = now\<rparr>)\<rparr>)"

text \<open>\<open>rand\<close> is the outcome of \<open>io.ReadFull\<close> on the injected reader: an error, or 16 bytes.\<close>

definition Allocate :: "(string + bytes) \<Rightarrow> ident \<Rightarrow> ident \<Rightarrow> reqid \<Rightarrow> time \<Rightarrow> Allocator \<Rightarrow> (turn_err + TurnSession) \<times> Allocator" where
  "Allocate rand consumer seeder requestID now a =
     (if al_by_req a requestID \<noteq> None then (Inl ErrDuplicateRequest, a)
      else (case rand of Inl _ \<Rightarrow> (Inl ErrRandFailed, a)
       | Inr tok \<Rightarrow>
         if al_by_token a tok \<noteq> None then (Inl ErrRandFailed, a)
         else let sid = al_next_id a + 1;
                  e = \<lparr>ts_token = tok, ts_session_id = sid, ts_consumer_id = consumer, ts_seeder_id = seeder,
                    ts_request_id = requestID, ts_allocated_at = now, ts_last_active = now\<rparr>;
                  p = al_fresh a
           in (Inr e, ensureBucket seeder now (a\<lparr>al_next_id := sid, al_heap := (al_heap a)(p \<mapsto> e), al_fresh := p + 1,
                al_by_token := (al_by_token a)(tok \<mapsto> p), al_by_sid := (al_by_sid a)(sid \<mapsto> p),
                al_by_req := (al_by_req a)(requestID \<mapsto> p)\<rparr>))))"

definition deleteIndexes :: "TurnSession \<Rightarrow> Allocator \<Rightarrow> Allocator" where
  "deleteIndexes e a = a\<lparr>al_by_token := (al_by_token a)(ts_token e := None), al_by_sid := (al_by_sid a)(ts_session_id e := None),
     al_by_req := (al_by_req a)(ts_request_id e := None)\<rparr>"

text \<open>The entry behind a pointer of an index.\<close>

definition deref :: "Allocator \<Rightarrow> eaddr option \<Rightarrow> TurnSession option" where
  "deref a op = (case op of None \<Rightarrow> None | Some p \<Rightarrow> al_heap a p)"

definition Resolve :: "bytes \<Rightarrow> Allocator \<Rightarrow> TurnSession option" where
  "Resolve tok a = deref a (al_by_token a tok)"

definition dur_secs :: "int \<Rightarrow> float64" where
  "dur_secs d = dur_in second_ns d"

definition refill :: "turnBucket \<Rightarrow> time \<Rightarrow> turnBucket" where
  "refill b now = (let elapsed = dur_secs (time_sub now (tb_last_refill b)) in
     if f_le elapsed (Fin 0) then b
     else let av = f_add (tb_available b) (f_mul elapsed (tb_refill_per_sec b));
              av1 = (if f_lt (tb_capacity_bytes b) av then tb_capacity_bytes b else av)
       in b\<lparr>tb_available := av1, tb_last_refill := now\<rparr>)"

text \<open>What a call can end in: a panic, an error, or a session.\<close>

datatype turn_out = TurnPanic | TurnErr turn_err | TurnOk TurnSession

definition ResolveAndCharge :: "bytes \<Rightarrow> int \<Rightarrow> time \<Rightarrow> Allocator \<Rightarrow> turn_out \<times> Allocator" where
  "ResolveAndCharge tok n now a = (case al_by_token a tok of None \<Rightarrow> (TurnErr ErrUnknownToken, a)
     | Some p \<Rightarrow> (case al_heap a p of None \<Rightarrow> (TurnPanic, a)
     | Some e \<Rightarrow>
       if time_sub now (ts_last_active e) > alc_session_ttl (al_cfg a) then (TurnErr ErrSessionExpired, deleteIndexes e a)
       else (case al_buckets a (ts_seeder_id e) of None \<Rightarrow> (TurnPanic, a)
         | Some b0 \<Rightarrow>
           (let b = refill b0 now in
            if n > 0 \<and> f_lt (tb_available b) (f_of_int n) then
              (TurnErr ErrThrottled, a\<lparr>al_buckets := (al_buckets a)(ts_seeder_id e \<mapsto> b)\<rparr>)
            else let b1 = (if n > 0 then b\<lparr>tb_available := f_sub (tb_available b) (f_of_int n)\<rparr> else b);
                     e1 = e\<lparr>ts_last_active := now\<rparr>
              in (TurnOk e1, a\<lparr>al_buckets := (al_buckets a)(ts_seeder_id e \<mapsto> b1), al_heap := (al_heap a)(p \<mapsto> e1)\<rparr>)))))"

definition Charge :: "ident \<Rightarrow> int \<Rightarrow> time \<Rightarrow> Allocator \<Rightarrow> turn_err option \<times> Allocator" where
  "Charge seeder n now a = (if n \<le> 0 then (None, a)
     else let a1 = ensureBucket seeder now a; b = refill (the (al_buckets a1 seeder)) now
       in if f_lt (tb_available b) (f_of_int n) then (Some ErrThrottled, a1\<lparr>al_buckets := (al_buckets a1)(seeder \<mapsto> b)\<rparr>)
          else (None, a1\<lparr>al_buckets := (al_buckets a1)(seeder \<mapsto> b\<lparr>tb_available := f_sub (tb_available b) (f_of_int n)\<rparr>)\<rparr>))"

definition Turn_Release :: "u64 \<Rightarrow> Allocator \<Rightarrow> Allocator" where
  "Turn_Release sid a = (case deref a (al_by_sid a sid) of None \<Rightarrow> a | Some e \<Rightarrow> deleteIndexes e a)"

text \<open>\<open>Sweep\<close> ranges over the token index while deleting from it; \<open>order\<close> is the order of the tokens.\<close>

fun Sweep :: "bytes list \<Rightarrow> time \<Rightarrow> Allocator \<Rightarrow> int \<times> Allocator" where
  "Sweep [] now a = (0, a)"
| "Sweep (tok # order) now a = (case deref a (al_by_token a tok) of
       None \<Rightarrow> Sweep order now a
     | Some e \<Rightarrow> if time_sub now (ts_last_active e) > alc_session_ttl (al_cfg a)
         then (case Sweep order now (deleteIndexes e a) of (n, a') \<Rightarrow> (n + 1, a'))
         else Sweep order now a)"

section \<open>The codec\<close>

text \<open>
  \<open>unmarshal\<close> and \<open>encode\<close> stand for the STUN library: the decoded message of a packet, and the bytes of a
  binding success response with one XOR-MAPPED-ADDRESS attribute.
\<close>

record stun_msg =
  sm_binding :: bool
  sm_request :: bool
  sm_attrs :: "16 word list"
  sm_transaction_id :: bytes

fun unknown_attr :: "16 word list \<Rightarrow> bool" where
  "unknown_attr [] = False"
| "unknown_attr (t # ts) = (if t \<ge> 0x8000 then unknown_attr ts else True)"

definition DecodeBindingRequest :: "(bytes \<Rightarrow> string + stun_msg) \<Rightarrow> bytes \<Rightarrow> string + bytes" where
  "DecodeBindingRequest unmarshal p = (case unmarshal p of Inl e \<Rightarrow> Inl ''stunturn: invalid stun packet''
     | Inr m \<Rightarrow> if \<not> sm_binding m \<or> \<not> sm_request m then Inl ''stunturn: invalid stun packet: not a binding request''
         else if unknown_attr (sm_attrs m) then Inl ''stunturn: invalid stun packet: unknown comprehension-required attribute''
         else Inr (to_array 12 (sm_transaction_id m)))"

text \<open>A \<open>netip.AddrPort\<close>: no address when it is not valid, otherwise its 4 or 16 bytes and the port.\<close>

record addr_port =
  ap_addr :: "bytes option"
  ap_port :: "16 word"

definition EncodeBindingResponse :: "(bytes \<Rightarrow> bytes \<Rightarrow> int \<Rightarrow> string + bytes) \<Rightarrow> bytes \<Rightarrow> addr_port \<Rightarrow> bytes option" where
  "EncodeBindingResponse encode txID observed = (case ap_addr observed of None \<Rightarrow> None
     | Some ip \<Rightarrow> (case encode txID ip (uint (ap_port observed)) of Inl _ \<Rightarrow> None | Inr raw \<Rightarrow> Some raw))"

record ReflectResult =
  rf_observed :: addr_port
  rf_response :: bytes

definition Reflect :: "(bytes \<Rightarrow> bytes \<Rightarrow> int \<Rightarrow> string + bytes) \<Rightarrow> bytes \<Rightarrow> addr_port \<Rightarrow> ReflectResult option" where
  "Reflect encode txID observed = (if ap_addr observed = None then Some \<lparr>rf_observed = \<lparr>ap_addr = None, ap_port = 0\<rparr>, rf_response = []\<rparr>
     else map_option (\<lambda>raw. \<lparr>rf_observed = observed, rf_response = raw\<rparr>) (EncodeBindingResponse encode txID observed))"

end
