(* ===== verification/TB_Config.thy ===== *)
theory TB_Config
  imports TB_Score TB_Broker TB_Evaluator TB_Stunturn
begin

text \<open>
  The tracker's configuration (\<open>src/tracker/internal/config\<close>): the sections of \<open>Config\<close> and their defaults
  (\<open>config.go\<close>), \<open>ApplyDefaults\<close>, \<open>Validate\<close> with the checks of every section, and \<open>Load\<close>. A Go \<open>int\<close> is an
  integer; the one product that can overflow wraps. The admission and reputation sections are the
  records that those components read. A map of prices is the list of its entries in the order in which
  \<open>range\<close> visits them. An error keeps its field and the fixed part of its message; the offending value, an index
  or a model name that the code prints into it is left out.
\<close>

section \<open>Sections\<close>

record ServerConfig =
  svc_listen_addr :: string
  svc_identity_key_path :: string
  svc_tls_cert_path :: string
  svc_tls_key_path :: string
  svc_max_frame_size :: int
  svc_idle_timeout_s :: int
  svc_max_incoming_streams :: int
  svc_shutdown_grace_s :: int

record LedgerConfig =
  ldc_storage_path :: string
  ldc_merkle_root_interval_min :: int

record BrokerSection =
  bks_headroom_threshold :: float64
  bks_load_threshold :: int
  bks_score_weights :: BrokerScoreWeights
  bks_offer_timeout_ms :: int
  bks_max_offer_attempts :: int
  bks_broker_request_rate_per_sec :: float64
  bks_queue_drain_interval_ms :: int
  bks_inflight_terminal_ttl_s :: int

record SettlementConfig =
  stc_tunnel_setup_ms :: int
  stc_stream_idle_s :: int
  stc_settlement_timeout_s :: int
  stc_reservation_ttl_s :: int
  stc_stale_tip_retries :: int

record FederationRateLimitConfig =
  frl_root_attestation :: float64
  frl_revocation :: float64
  frl_peer_exchange :: float64
  frl_equivocation_evidence :: float64
  frl_transfer :: float64

record FederationBootstrapConfig =
  fbs_max_peers :: int
  fbs_ttl_seconds :: int

record FederationHealthConfig =
  fhc_uptime_window_s :: int
  fhc_rev_gossip_window_s :: int
  fhc_rev_gossip_buffer_size :: int
  fhc_latency_target_ms :: int
  fhc_uptime_weight :: float64
  fhc_rev_gossip_weight :: float64
  fhc_latency_weight :: float64

record FederationPeer =
  fpc_tracker_id :: string
  fpc_pubkey :: string
  fpc_addr :: string
  fpc_region :: string

record FederationConfig =
  fdc_peer_count_min :: int
  fdc_peer_count_max :: int
  fdc_gossip_dedupe_ttl_s :: int
  fdc_transfer_retry_window_h :: int
  fdc_enroll_rate_per_min_per_ip :: int
  fdc_handshake_timeout_s :: int
  fdc_gossip_rate_qps :: int
  fdc_send_queue_depth :: int
  fdc_publish_cadence_s :: int
  fdc_listen_addr :: string
  fdc_idle_timeout_s :: int
  fdc_redial_base_s :: int
  fdc_redial_max_s :: int
  fdc_peers :: "FederationPeer list"
  fdc_bootstrap :: FederationBootstrapConfig
  fdc_health :: FederationHealthConfig
  fdc_peer_exchange_cadence_s :: int
  fdc_rate_limit :: FederationRateLimitConfig
  fdc_integrity_check_on_reconnect :: "bool option"

record STUNTURNConfig =
  stn_stun_listen_addr :: string
  stn_turn_listen_addr :: string
  stn_turn_relay_max_kbps :: int
  stn_session_ttl_seconds :: int

record Config =
  cf_data_dir :: string
  cf_log_level :: string
  cf_server :: ServerConfig
  cf_admin_listen_addr :: string
  cf_ledger :: LedgerConfig
  cf_broker :: BrokerSection
  cf_settlement :: SettlementConfig
  cf_federation :: FederationConfig
  cf_reputation :: ReputationConfig
  cf_admission :: AdmissionConfig
  cf_stun_turn :: STUNTURNConfig
  cf_metrics_listen_addr :: string
  cf_pricing :: "(string \<times> ModelPrices) list"

section \<open>Defaults\<close>

definition DefaultServer :: "ServerConfig" where
  "DefaultServer = \<lparr>svc_listen_addr = [], svc_identity_key_path = [], svc_tls_cert_path = [], svc_tls_key_path = [], svc_max_frame_size = 1048576,
     svc_idle_timeout_s = 60, svc_max_incoming_streams = 1024, svc_shutdown_grace_s = 30\<rparr>"

definition DefaultBroker :: "BrokerSection" where
  "DefaultBroker = \<lparr>bks_headroom_threshold = round64 (2 / 10), bks_load_threshold = 5, bks_score_weights = \<lparr>sw_reputation = round64 (4 / 10),
     sw_headroom = round64 (3 / 10), sw_rtt = round64 (2 / 10), sw_load = round64 (1 / 10)\<rparr>, bks_offer_timeout_ms = 1500,
     bks_max_offer_attempts = 4, bks_broker_request_rate_per_sec = Fin 2, bks_queue_drain_interval_ms = 1000,
     bks_inflight_terminal_ttl_s = 600\<rparr>"

definition DefaultSettlement :: "SettlementConfig" where
  "DefaultSettlement = \<lparr>stc_tunnel_setup_ms = 10000, stc_stream_idle_s = 60, stc_settlement_timeout_s = 900, stc_reservation_ttl_s = 1200,
     stc_stale_tip_retries = 3\<rparr>"

definition DefaultFederation :: "FederationConfig" where
  "DefaultFederation = \<lparr>fdc_peer_count_min = 8, fdc_peer_count_max = 16, fdc_gossip_dedupe_ttl_s = 3600, fdc_transfer_retry_window_h = 24,
     fdc_enroll_rate_per_min_per_ip = 1, fdc_handshake_timeout_s = 5, fdc_gossip_rate_qps = 100, fdc_send_queue_depth = 256,
     fdc_publish_cadence_s = 3600, fdc_listen_addr = [], fdc_idle_timeout_s = 60, fdc_redial_base_s = 1, fdc_redial_max_s = 30, fdc_peers = [],
     fdc_bootstrap = \<lparr>fbs_max_peers = 50, fbs_ttl_seconds = 600\<rparr>, fdc_health = \<lparr>fhc_uptime_window_s = 7200,
     fhc_rev_gossip_window_s = 600, fhc_rev_gossip_buffer_size = 16, fhc_latency_target_ms = 200, fhc_uptime_weight = round64 (6 / 10),
     fhc_rev_gossip_weight = round64 (2 / 10), fhc_latency_weight = round64 (2 / 10)\<rparr>, fdc_peer_exchange_cadence_s = 3600,
     fdc_rate_limit = \<lparr>frl_root_attestation = Fin 1, frl_revocation = Fin 5, frl_peer_exchange = round64 (5 / 100),
     frl_equivocation_evidence = Fin 1, frl_transfer = Fin 20\<rparr>, fdc_integrity_check_on_reconnect = Some True\<rparr>"

definition DefaultReputation :: "ReputationConfig" where
  "DefaultReputation = \<lparr>rc_evaluation_interval_s = 60, rc_short_s = 3600, rc_medium_s = 86400, rc_long_s = 604800, rc_z_score_threshold = Fin (5 / 2),
     rc_default_score = Fin (1 / 2), rc_freeze_list_cache_ttl_s = 600, rc_min_population_for_z_score = 100, rc_storage_path = []\<rparr>"

definition DefaultPricing :: "(string \<times> ModelPrices) list" where
  "DefaultPricing = [(''claude-opus-4-7'', \<lparr>mp_in = 15, mp_out = 75\<rparr>), (''claude-sonnet-4-6'', \<lparr>mp_in = 3, mp_out = 15\<rparr>),
     (''claude-haiku-4-5-20251001'', \<lparr>mp_in = 1, mp_out = 5\<rparr>)]"

definition DefaultConfig :: "Config" where
  "DefaultConfig = \<lparr>cf_data_dir = [], cf_log_level = ''info'', cf_server = DefaultServer, cf_admin_listen_addr = ''127.0.0.1:9090'',
     cf_ledger = \<lparr>ldc_storage_path = [], ldc_merkle_root_interval_min = 60\<rparr>, cf_broker = DefaultBroker,
     cf_settlement = DefaultSettlement, cf_federation = DefaultFederation, cf_reputation = DefaultReputation, cf_admission = DefaultAdmissionConfig,
     cf_stun_turn = \<lparr>stn_stun_listen_addr = '':3478'', stn_turn_listen_addr = '':3479'', stn_turn_relay_max_kbps = 1024,
     stn_session_ttl_seconds = 30\<rparr>, cf_metrics_listen_addr = '':9100'', cf_pricing = DefaultPricing\<rparr>"

text \<open>Zero values are replaced: integers, strings, floats (where \<open>== 0\<close> is a float comparison).\<close>

definition or_int :: "int \<Rightarrow> int \<Rightarrow> int" where
  "or_int x d = (if x = 0 then d else x)"

definition or_str :: "string \<Rightarrow> string \<Rightarrow> string" where
  "or_str x d = (if x = [] then d else x)"

definition or_float :: "float64 \<Rightarrow> float64 \<Rightarrow> float64" where
  "or_float x d = (if f_eq x (Fin 0) then d else x)"

definition or_path :: "string \<Rightarrow> string \<Rightarrow> string \<Rightarrow> string" where
  "or_path x dir suffix = (if x = [] \<and> dir \<noteq> [] then dir @ suffix else x)"

definition defaults_server :: "ServerConfig \<Rightarrow> ServerConfig" where
  "defaults_server c = c\<lparr>svc_max_frame_size := or_int (svc_max_frame_size c) (svc_max_frame_size DefaultServer),
     svc_idle_timeout_s := or_int (svc_idle_timeout_s c) (svc_idle_timeout_s DefaultServer),
     svc_max_incoming_streams := or_int (svc_max_incoming_streams c) (svc_max_incoming_streams DefaultServer),
     svc_shutdown_grace_s := or_int (svc_shutdown_grace_s c) (svc_shutdown_grace_s DefaultServer)\<rparr>"

definition defaults_weights :: "BrokerScoreWeights \<Rightarrow> BrokerScoreWeights" where
  "defaults_weights w = (if f_eq (sw_reputation w) (Fin 0) \<and> f_eq (sw_headroom w) (Fin 0) \<and> f_eq (sw_rtt w) (Fin 0) \<and> f_eq (sw_load w) (Fin 0)
     then bks_score_weights DefaultBroker else w)"

definition defaults_broker :: "BrokerSection \<Rightarrow> BrokerSection" where
  "defaults_broker c = c\<lparr>bks_headroom_threshold := or_float (bks_headroom_threshold c) (bks_headroom_threshold DefaultBroker),
     bks_load_threshold := or_int (bks_load_threshold c) (bks_load_threshold DefaultBroker),
     bks_offer_timeout_ms := or_int (bks_offer_timeout_ms c) (bks_offer_timeout_ms DefaultBroker),
     bks_max_offer_attempts := or_int (bks_max_offer_attempts c) (bks_max_offer_attempts DefaultBroker),
     bks_broker_request_rate_per_sec := or_float (bks_broker_request_rate_per_sec c) (bks_broker_request_rate_per_sec DefaultBroker),
     bks_queue_drain_interval_ms := or_int (bks_queue_drain_interval_ms c) (bks_queue_drain_interval_ms DefaultBroker),
     bks_inflight_terminal_ttl_s := or_int (bks_inflight_terminal_ttl_s c) (bks_inflight_terminal_ttl_s DefaultBroker),
     bks_score_weights := defaults_weights (bks_score_weights c)\<rparr>"

definition defaults_settlement :: "SettlementConfig \<Rightarrow> SettlementConfig" where
  "defaults_settlement c = c\<lparr>stc_tunnel_setup_ms := or_int (stc_tunnel_setup_ms c) (stc_tunnel_setup_ms DefaultSettlement),
     stc_stream_idle_s := or_int (stc_stream_idle_s c) (stc_stream_idle_s DefaultSettlement),
     stc_settlement_timeout_s := or_int (stc_settlement_timeout_s c) (stc_settlement_timeout_s DefaultSettlement),
     stc_reservation_ttl_s := or_int (stc_reservation_ttl_s c) (stc_reservation_ttl_s DefaultSettlement),
     stc_stale_tip_retries := or_int (stc_stale_tip_retries c) (stc_stale_tip_retries DefaultSettlement)\<rparr>"

definition defaults_health :: "FederationHealthConfig \<Rightarrow> FederationHealthConfig" where
  "defaults_health h = (let d = fdc_health DefaultFederation;
       h1 = h\<lparr>fhc_uptime_window_s := or_int (fhc_uptime_window_s h) (fhc_uptime_window_s d),
              fhc_rev_gossip_window_s := or_int (fhc_rev_gossip_window_s h) (fhc_rev_gossip_window_s d),
              fhc_rev_gossip_buffer_size := or_int (fhc_rev_gossip_buffer_size h) (fhc_rev_gossip_buffer_size d),
              fhc_latency_target_ms := or_int (fhc_latency_target_ms h) (fhc_latency_target_ms d)\<rparr>
     in if f_eq (fhc_uptime_weight h) (Fin 0) \<and> f_eq (fhc_rev_gossip_weight h) (Fin 0) \<and> f_eq (fhc_latency_weight h) (Fin 0)
        then h1\<lparr>fhc_uptime_weight := fhc_uptime_weight d, fhc_rev_gossip_weight := fhc_rev_gossip_weight d, fhc_latency_weight := fhc_latency_weight d\<rparr>
        else h1)"

definition defaults_rate_limit :: "FederationRateLimitConfig \<Rightarrow> FederationRateLimitConfig" where
  "defaults_rate_limit r = (if f_eq (frl_root_attestation r) (Fin 0) \<and> f_eq (frl_revocation r) (Fin 0) \<and> f_eq (frl_peer_exchange r) (Fin 0) \<and>
       f_eq (frl_equivocation_evidence r) (Fin 0) \<and> f_eq (frl_transfer r) (Fin 0) then fdc_rate_limit DefaultFederation else r)"

definition defaults_federation :: "FederationConfig \<Rightarrow> FederationConfig" where
  "defaults_federation c = c\<lparr>fdc_peer_count_min := or_int (fdc_peer_count_min c) (fdc_peer_count_min DefaultFederation),
     fdc_peer_count_max := or_int (fdc_peer_count_max c) (fdc_peer_count_max DefaultFederation),
     fdc_gossip_dedupe_ttl_s := or_int (fdc_gossip_dedupe_ttl_s c) (fdc_gossip_dedupe_ttl_s DefaultFederation),
     fdc_transfer_retry_window_h := or_int (fdc_transfer_retry_window_h c) (fdc_transfer_retry_window_h DefaultFederation),
     fdc_enroll_rate_per_min_per_ip := or_int (fdc_enroll_rate_per_min_per_ip c) (fdc_enroll_rate_per_min_per_ip DefaultFederation),
     fdc_handshake_timeout_s := or_int (fdc_handshake_timeout_s c) (fdc_handshake_timeout_s DefaultFederation),
     fdc_gossip_rate_qps := or_int (fdc_gossip_rate_qps c) (fdc_gossip_rate_qps DefaultFederation),
     fdc_send_queue_depth := or_int (fdc_send_queue_depth c) (fdc_send_queue_depth DefaultFederation),
     fdc_publish_cadence_s := or_int (fdc_publish_cadence_s c) (fdc_publish_cadence_s DefaultFederation),
     fdc_idle_timeout_s := or_int (fdc_idle_timeout_s c) (fdc_idle_timeout_s DefaultFederation),
     fdc_redial_base_s := or_int (fdc_redial_base_s c) (fdc_redial_base_s DefaultFederation),
     fdc_redial_max_s := or_int (fdc_redial_max_s c) (fdc_redial_max_s DefaultFederation),
     fdc_peer_exchange_cadence_s := or_int (fdc_peer_exchange_cadence_s c) (fdc_peer_exchange_cadence_s DefaultFederation),
     fdc_bootstrap := (fdc_bootstrap c)\<lparr>fbs_max_peers := or_int (fbs_max_peers (fdc_bootstrap c)) (fbs_max_peers (fdc_bootstrap DefaultFederation)),
     fbs_ttl_seconds := or_int (fbs_ttl_seconds (fdc_bootstrap c)) (fbs_ttl_seconds (fdc_bootstrap DefaultFederation))\<rparr>,
     fdc_health := defaults_health (fdc_health c), fdc_rate_limit := defaults_rate_limit (fdc_rate_limit c),
     fdc_integrity_check_on_reconnect := (case fdc_integrity_check_on_reconnect c of None \<Rightarrow> Some True | Some v \<Rightarrow> Some v)\<rparr>"

definition defaults_reputation :: "string \<Rightarrow> ReputationConfig \<Rightarrow> ReputationConfig" where
  "defaults_reputation dir c = c\<lparr>rc_evaluation_interval_s := or_int (rc_evaluation_interval_s c) (rc_evaluation_interval_s DefaultReputation),
     rc_short_s := or_int (rc_short_s c) (rc_short_s DefaultReputation), rc_medium_s := or_int (rc_medium_s c) (rc_medium_s DefaultReputation),
     rc_long_s := or_int (rc_long_s c) (rc_long_s DefaultReputation),
     rc_z_score_threshold := or_float (rc_z_score_threshold c) (rc_z_score_threshold DefaultReputation),
     rc_default_score := or_float (rc_default_score c) (rc_default_score DefaultReputation),
     rc_freeze_list_cache_ttl_s := or_int (rc_freeze_list_cache_ttl_s c) (rc_freeze_list_cache_ttl_s DefaultReputation),
     rc_min_population_for_z_score := or_int (rc_min_population_for_z_score c) (rc_min_population_for_z_score DefaultReputation),
     rc_storage_path := or_path (rc_storage_path c) dir ''/reputation.sqlite''\<rparr>"

definition defaults_admission_weights :: "AdmissionScoreWeights \<Rightarrow> AdmissionScoreWeights" where
  "defaults_admission_weights w = (if f_eq (aw_settlement_reliability w) (Fin 0) \<and> f_eq (aw_inverse_dispute_rate w) (Fin 0) \<and> f_eq (aw_tenure w) (Fin 0) \<and>
       f_eq (aw_net_credit_flow w) (Fin 0) \<and> f_eq (aw_balance_cushion w) (Fin 0) then DefaultAdmissionWeights else w)"

definition defaults_admission :: "string \<Rightarrow> AdmissionConfig \<Rightarrow> AdmissionConfig" where
  "defaults_admission dir c = c\<lparr>ac_pressure_admit_threshold := or_float (ac_pressure_admit_threshold c) (ac_pressure_admit_threshold DefaultAdmissionConfig),
     ac_pressure_reject_threshold := or_float (ac_pressure_reject_threshold c) (ac_pressure_reject_threshold DefaultAdmissionConfig),
     ac_queue_cap := or_int (ac_queue_cap c) (ac_queue_cap DefaultAdmissionConfig),
     ac_trial_tier_score := or_float (ac_trial_tier_score c) (ac_trial_tier_score DefaultAdmissionConfig),
     ac_aging_alpha_per_minute := or_float (ac_aging_alpha_per_minute c) (ac_aging_alpha_per_minute DefaultAdmissionConfig),
     ac_queue_timeout_s := or_int (ac_queue_timeout_s c) (ac_queue_timeout_s DefaultAdmissionConfig),
     ac_net_flow_normalization_constant := or_int (ac_net_flow_normalization_constant c) (ac_net_flow_normalization_constant DefaultAdmissionConfig),
     ac_tenure_cap_days := or_int (ac_tenure_cap_days c) (ac_tenure_cap_days DefaultAdmissionConfig),
     ac_starter_grant_credits := or_int (ac_starter_grant_credits c) (ac_starter_grant_credits DefaultAdmissionConfig),
     ac_rolling_window_days := or_int (ac_rolling_window_days c) (ac_rolling_window_days DefaultAdmissionConfig),
     ac_trial_settlements_required := or_int (ac_trial_settlements_required c) (ac_trial_settlements_required DefaultAdmissionConfig),
     ac_trial_duration_hours := or_int (ac_trial_duration_hours c) (ac_trial_duration_hours DefaultAdmissionConfig),
     ac_attestation_ttl_seconds := or_int (ac_attestation_ttl_seconds c) (ac_attestation_ttl_seconds DefaultAdmissionConfig),
     ac_attestation_max_ttl_seconds := or_int (ac_attestation_max_ttl_seconds c) (ac_attestation_max_ttl_seconds DefaultAdmissionConfig),
     ac_attestation_issuance_per_consumer_per_hour := or_int (ac_attestation_issuance_per_consumer_per_hour c) (ac_attestation_issuance_per_consumer_per_hour DefaultAdmissionConfig),
     ac_max_attestation_score_imported := or_float (ac_max_attestation_score_imported c) (ac_max_attestation_score_imported DefaultAdmissionConfig),
     ac_snapshot_interval_s := or_int (ac_snapshot_interval_s c) (ac_snapshot_interval_s DefaultAdmissionConfig),
     ac_snapshots_retained := or_int (ac_snapshots_retained c) (ac_snapshots_retained DefaultAdmissionConfig),
     ac_fsync_batch_window_ms := or_int (ac_fsync_batch_window_ms c) (ac_fsync_batch_window_ms DefaultAdmissionConfig),
     ac_heartbeat_window_minutes := or_int (ac_heartbeat_window_minutes c) (ac_heartbeat_window_minutes DefaultAdmissionConfig),
     ac_heartbeat_freshness_decay_max_s := or_int (ac_heartbeat_freshness_decay_max_s c) (ac_heartbeat_freshness_decay_max_s DefaultAdmissionConfig),
     ac_score_weights := defaults_admission_weights (ac_score_weights c), ac_tlog_path := or_path (ac_tlog_path c) dir ''/admission.tlog'',
     ac_snapshot_path_prefix := or_path (ac_snapshot_path_prefix c) dir ''/admission.snapshot''\<rparr>"

definition defaults_stun_turn :: "STUNTURNConfig \<Rightarrow> STUNTURNConfig" where
  "defaults_stun_turn c = (let d = cf_stun_turn DefaultConfig in c\<lparr>
     stn_stun_listen_addr := or_str (stn_stun_listen_addr c) (stn_stun_listen_addr d),
     stn_turn_listen_addr := or_str (stn_turn_listen_addr c) (stn_turn_listen_addr d),
     stn_turn_relay_max_kbps := or_int (stn_turn_relay_max_kbps c) (stn_turn_relay_max_kbps d),
     stn_session_ttl_seconds := or_int (stn_session_ttl_seconds c) (stn_session_ttl_seconds d)\<rparr>)"

definition ApplyDefaults :: "Config \<Rightarrow> Config" where
  "ApplyDefaults c = c\<lparr>
     cf_log_level := or_str (cf_log_level c) (cf_log_level DefaultConfig),
     cf_server := defaults_server (cf_server c),
     cf_admin_listen_addr := or_str (cf_admin_listen_addr c) (cf_admin_listen_addr DefaultConfig),
     cf_ledger := (cf_ledger c)\<lparr>ldc_merkle_root_interval_min :=
        or_int (ldc_merkle_root_interval_min (cf_ledger c)) (ldc_merkle_root_interval_min (cf_ledger DefaultConfig))\<rparr>,
     cf_broker := defaults_broker (cf_broker c),
     cf_settlement := defaults_settlement (cf_settlement c),
     cf_federation := defaults_federation (cf_federation c),
     cf_reputation := defaults_reputation (cf_data_dir c) (cf_reputation c),
     cf_admission := defaults_admission (cf_data_dir c) (cf_admission c),
     cf_stun_turn := defaults_stun_turn (cf_stun_turn c),
     cf_metrics_listen_addr := or_str (cf_metrics_listen_addr c) (cf_metrics_listen_addr DefaultConfig),
     cf_pricing := (if length (cf_pricing c) = 0 then cf_pricing DefaultConfig else cf_pricing c)\<rparr>"

section \<open>Validation\<close>

type_synonym FieldError = "string \<times> string"

definition fail_if :: "bool \<Rightarrow> string \<Rightarrow> string \<Rightarrow> FieldError list" where
  "fail_if b field msg = (if b then [(field, msg)] else [])"

text \<open>\<open>filepath.IsAbs\<close> on Unix.\<close>

definition IsAbs :: "string \<Rightarrow> bool" where
  "IsAbs p \<longleftrightarrow> p \<noteq> [] \<and> hd p = CHR ''/''"

text \<open>\<open>net.SplitHostPort\<close>: the index of the last colon, and whether the call succeeds.\<close>

fun last_index :: "char \<Rightarrow> string \<Rightarrow> nat option" where
  "last_index c [] = None"
| "last_index c (x # xs) = (case last_index c xs of Some i \<Rightarrow> Some (Suc i) | None \<Rightarrow> if x = c then Some 0 else None)"

fun first_index :: "char \<Rightarrow> string \<Rightarrow> nat option" where
  "first_index c [] = None"
| "first_index c (x # xs) = (if x = c then Some 0 else map_option Suc (first_index c xs))"

definition SplitHostPort_ok :: "string \<Rightarrow> bool" where
  "SplitHostPort_ok hp = (case last_index (CHR '':'') hp of None \<Rightarrow> False
     | Some i \<Rightarrow>
       if hp ! 0 = CHR ''['' then
         (case first_index (CHR '']'') hp of None \<Rightarrow> False
          | Some e \<Rightarrow> if e + 1 \<noteq> i then False
              else CHR ''['' \<notin> set (drop 1 hp) \<and> CHR '']'' \<notin> set (drop (e + 1) hp))
       else if CHR '':'' \<in> set (take i hp) then False
       else CHR ''['' \<notin> set hp \<and> CHR '']'' \<notin> set hp)"

definition checkRequired :: "Config \<Rightarrow> FieldError list" where
  "checkRequired c =
     (if cf_data_dir c = [] then [(''data_dir'', ''must be non-empty'')]
      else fail_if (\<not> IsAbs (cf_data_dir c)) ''data_dir'' ''must be an absolute path'') @
     fail_if (svc_listen_addr (cf_server c) = []) ''server.listen_addr'' ''must be non-empty'' @
     fail_if (svc_identity_key_path (cf_server c) = []) ''server.identity_key_path'' ''must be non-empty'' @
     fail_if (svc_tls_cert_path (cf_server c) = []) ''server.tls_cert_path'' ''must be non-empty'' @
     fail_if (svc_tls_key_path (cf_server c) = []) ''server.tls_key_path'' ''must be non-empty'' @
     fail_if (ldc_storage_path (cf_ledger c) = []) ''ledger.storage_path'' ''must be non-empty''"

definition checkLogLevel :: "Config \<Rightarrow> FieldError list" where
  "checkLogLevel c = fail_if (cf_log_level c \<notin> set [[], ''debug'', ''info'', ''warn'', ''error'']) ''log_level''
     ''must be one of: debug, info, warn, error''"

definition checkServer :: "Config \<Rightarrow> FieldError list" where
  "checkServer c = (let s = cf_server c in
     fail_if (svc_max_frame_size s < 1024) ''server.max_frame_size'' ''must be >= 1024'' @
     fail_if (svc_idle_timeout_s s \<le> 0) ''server.idle_timeout_s'' ''must be > 0'' @
     fail_if (svc_max_incoming_streams s < 16) ''server.max_incoming_streams'' ''must be >= 16'' @
     fail_if (svc_shutdown_grace_s s < 0) ''server.shutdown_grace_s'' ''must be >= 0'')"

text \<open>The loop over the listeners; \<open>seen\<close> holds the addresses taken so far.\<close>

fun listener_loop :: "(string \<times> string) list \<Rightarrow> string list \<Rightarrow> FieldError list" where
  "listener_loop [] seen = []"
| "listener_loop ((field, addr) # ls) seen =
     (if addr = [] then listener_loop ls seen
      else if \<not> SplitHostPort_ok addr then (field, ''must be a valid host:port'') # listener_loop ls seen
      else if addr \<in> set seen then (field, ''collides with'') # listener_loop ls seen
      else listener_loop ls (addr # seen))"

definition listeners :: "Config \<Rightarrow> (string \<times> string) list" where
  "listeners c = [(''server.listen_addr'', svc_listen_addr (cf_server c)), (''admin.listen_addr'', cf_admin_listen_addr c),
     (''metrics.listen_addr'', cf_metrics_listen_addr c), (''stun_turn.stun_listen_addr'', stn_stun_listen_addr (cf_stun_turn c)),
     (''stun_turn.turn_listen_addr'', stn_turn_listen_addr (cf_stun_turn c))]"

definition checkListeners :: "Config \<Rightarrow> FieldError list" where
  "checkListeners c = listener_loop (listeners c) []"

definition checkLedger :: "Config \<Rightarrow> FieldError list" where
  "checkLedger c = fail_if (ldc_merkle_root_interval_min (cf_ledger c) \<le> 0) ''ledger.merkle_root_interval_minutes'' ''must be > 0''"

text \<open>\<open>approxEqual\<close>: a NaN is not close to anything.\<close>

definition approxEqual :: "float64 \<Rightarrow> float64 \<Rightarrow> float64 \<Rightarrow> bool" where
  "approxEqual a b tolerance = (let d = f_sub a b; d1 = (if f_lt d (Fin 0) then f_neg d else d) in f_lt d1 tolerance)"

definition out_of_unit :: "float64 \<Rightarrow> bool" where
  "out_of_unit x \<longleftrightarrow> f_lt x (Fin 0) \<or> f_lt (Fin 1) x"

definition checkBroker :: "Config \<Rightarrow> FieldError list" where
  "checkBroker c = (let b = cf_broker c; w = bks_score_weights b in
     fail_if (out_of_unit (bks_headroom_threshold b)) ''broker.headroom_threshold'' ''must be in [0.0, 1.0]'' @
     fail_if (bks_load_threshold b < 1) ''broker.load_threshold'' ''must be >= 1'' @
     fail_if (f_lt (sw_reputation w) (Fin 0)) ''broker.score_weights.reputation'' ''must be >= 0'' @
     fail_if (f_lt (sw_headroom w) (Fin 0)) ''broker.score_weights.headroom'' ''must be >= 0'' @
     fail_if (f_lt (sw_rtt w) (Fin 0)) ''broker.score_weights.rtt'' ''must be >= 0'' @
     fail_if (f_lt (sw_load w) (Fin 0)) ''broker.score_weights.load'' ''must be >= 0'' @
     fail_if (\<not> approxEqual (f_add (f_add (f_add (sw_reputation w) (sw_headroom w)) (sw_rtt w)) (sw_load w)) (Fin 1) (round64 (1 / 1000)))
       ''broker.score_weights'' ''weights must sum to 1.0 +/- 0.001'' @
     fail_if (bks_offer_timeout_ms b \<le> 0) ''broker.offer_timeout_ms'' ''must be > 0'' @
     fail_if (bks_max_offer_attempts b < 1) ''broker.max_offer_attempts'' ''must be >= 1'' @
     fail_if (f_le (bks_broker_request_rate_per_sec b) (Fin 0)) ''broker.broker_request_rate_per_sec'' ''must be > 0'' @
     fail_if (bks_queue_drain_interval_ms b < 100 \<or> bks_queue_drain_interval_ms b > 60000) ''broker.queue_drain_interval_ms'' ''must be in [100, 60000]'' @
     fail_if (bks_inflight_terminal_ttl_s b < 60) ''broker.inflight_terminal_ttl_s'' ''must be >= 60'')"

definition checkSettlement :: "Config \<Rightarrow> FieldError list" where
  "checkSettlement c = (let s = cf_settlement c in
     fail_if (stc_tunnel_setup_ms s \<le> 0) ''settlement.tunnel_setup_ms'' ''must be > 0'' @
     fail_if (stc_stream_idle_s s \<le> 0) ''settlement.stream_idle_s'' ''must be > 0'' @
     fail_if (stc_settlement_timeout_s s \<le> 0) ''settlement.settlement_timeout_s'' ''must be > 0'' @
     fail_if (stc_reservation_ttl_s s \<le> 0) ''settlement.reservation_ttl_s'' ''must be > 0'' @
     fail_if (stc_tunnel_setup_ms s > 0 \<and> stc_settlement_timeout_s s > 0 \<and> stc_tunnel_setup_ms s \<ge> i64_wrap (stc_settlement_timeout_s s * 1000))
       ''settlement.tunnel_setup_ms'' ''must be < settlement_timeout_s x 1000'' @
     fail_if (stc_reservation_ttl_s s > 0 \<and> stc_settlement_timeout_s s > 0 \<and> stc_reservation_ttl_s s < stc_settlement_timeout_s s)
       ''settlement.reservation_ttl_s'' ''must be >= settlement_timeout_s (TTL must outlast settlement)'' @
     fail_if (stc_stale_tip_retries s < 0 \<or> stc_stale_tip_retries s > 10) ''settlement.stale_tip_retries'' ''must be in [0, 10]'')"

fun peer_loop :: "FederationPeer list \<Rightarrow> string list \<Rightarrow> FieldError list" where
  "peer_loop [] seen = []"
| "peer_loop (p # ps) seen =
     fail_if (length (fpc_tracker_id p) \<noteq> 64) ''federation.peers.tracker_id'' ''must be 64 hex chars'' @
     fail_if (length (fpc_pubkey p) \<noteq> 64) ''federation.peers.pubkey'' ''must be 64 hex chars'' @
     fail_if (fpc_addr p = []) ''federation.peers.addr'' ''empty'' @
     fail_if (fpc_tracker_id p \<in> set seen) ''federation.peers.tracker_id'' ''duplicate'' @
     peer_loop ps (fpc_tracker_id p # seen)"

definition checkHealth :: "FederationHealthConfig \<Rightarrow> FieldError list" where
  "checkHealth h =
     fail_if (fhc_uptime_window_s h \<le> 0) ''federation.health.uptime_window_s'' ''must be > 0'' @
     fail_if (fhc_rev_gossip_window_s h \<le> 0) ''federation.health.rev_gossip_window_s'' ''must be > 0'' @
     fail_if (fhc_rev_gossip_buffer_size h < 1 \<or> fhc_rev_gossip_buffer_size h > 256) ''federation.health.rev_gossip_buffer_size'' ''must be 1..256'' @
     fail_if (out_of_unit (fhc_uptime_weight h)) ''federation.health.uptime_weight'' ''must be in [0,1]'' @
     fail_if (out_of_unit (fhc_rev_gossip_weight h)) ''federation.health.rev_gossip_weight'' ''must be in [0,1]'' @
     fail_if (out_of_unit (fhc_latency_weight h)) ''federation.health.latency_weight'' ''must be in [0,1]'' @
     fail_if (fhc_latency_target_ms h \<le> 0) ''federation.health.latency_target_ms'' ''must be > 0'' @
     fail_if (f_lt (round64 (1 / 1000000000))
         (f_abs (f_sub (f_add (f_add (fhc_uptime_weight h) (fhc_rev_gossip_weight h)) (fhc_latency_weight h)) (Fin 1))))
       ''federation.health'' ''uptime_weight + rev_gossip_weight + latency_weight must sum to 1.0''"

definition checkFederation :: "Config \<Rightarrow> FieldError list" where
  "checkFederation c = (let f = cf_federation c; cad = fdc_peer_exchange_cadence_s f in
     fail_if (fdc_peer_count_min f < 1) ''federation.peer_count_min'' ''must be >= 1'' @
     fail_if (fdc_peer_count_max f < fdc_peer_count_min f) ''federation.peer_count_max'' ''must be >= peer_count_min'' @
     fail_if (fdc_gossip_dedupe_ttl_s f \<le> 0) ''federation.gossip_dedupe_ttl_s'' ''must be > 0'' @
     fail_if (fdc_transfer_retry_window_h f \<le> 0) ''federation.transfer_retry_window_hours'' ''must be > 0'' @
     fail_if (fdc_enroll_rate_per_min_per_ip f < 1) ''federation.enroll_rate_per_min_per_ip'' ''must be >= 1'' @
     fail_if (fdc_handshake_timeout_s f \<le> 0 \<or> fdc_handshake_timeout_s f > 60) ''federation.handshake_timeout_s'' ''must be 1..60'' @
     fail_if (fdc_gossip_rate_qps f \<le> 0 \<or> fdc_gossip_rate_qps f > 10000) ''federation.gossip_rate_qps'' ''must be 1..10000'' @
     fail_if (fdc_send_queue_depth f \<le> 0 \<or> fdc_send_queue_depth f > 1048576) ''federation.send_queue_depth'' ''out of range'' @
     fail_if (fdc_publish_cadence_s f < 60 \<or> fdc_publish_cadence_s f > 24 * 3600) ''federation.publish_cadence_s'' ''must be 60..86400'' @
     fail_if (fdc_idle_timeout_s f < 1 \<or> fdc_idle_timeout_s f > 600) ''federation.idle_timeout_s'' ''must be 1..600'' @
     fail_if (fdc_redial_base_s f < 1 \<or> fdc_redial_base_s f > 60) ''federation.redial_base_s'' ''must be 1..60'' @
     fail_if (fdc_redial_max_s f < fdc_redial_base_s f \<or> fdc_redial_max_s f > 600) ''federation.redial_max_s'' ''must be >= redial_base_s and <= 600'' @
     fail_if (fbs_max_peers (fdc_bootstrap f) < 1 \<or> fbs_max_peers (fdc_bootstrap f) > 256) ''federation.bootstrap.max_peers'' ''must be 1..256'' @
     fail_if (fbs_ttl_seconds (fdc_bootstrap f) < 60 \<or> fbs_ttl_seconds (fdc_bootstrap f) > 3600) ''federation.bootstrap.ttl_seconds'' ''must be 60..3600'' @
     checkHealth (fdc_health f) @
     (if cad < 0 then [(''federation.peer_exchange_cadence_s'', ''must be >= 0 (0 disables)'')]
      else fail_if (cad > 0 \<and> (cad < 60 \<or> cad > 86400)) ''federation.peer_exchange_cadence_s'' ''must be in [60, 86400] when non-zero'') @
     fail_if (fdc_listen_addr f \<noteq> [] \<and> \<not> SplitHostPort_ok (fdc_listen_addr f)) ''federation.listen_addr'' ''invalid host:port'' @
     peer_loop (fdc_peers f) [])"

definition checkReputation :: "Config \<Rightarrow> FieldError list" where
  "checkReputation c = (let r = cf_reputation c in
     fail_if (rc_evaluation_interval_s r \<le> 0) ''reputation.evaluation_interval_s'' ''must be > 0'' @
     fail_if (\<not> (rc_short_s r < rc_medium_s r \<and> rc_medium_s r < rc_long_s r)) ''reputation.signal_windows'' ''must have short_s < medium_s < long_s'' @
     fail_if (f_le (rc_z_score_threshold r) (Fin 0)) ''reputation.z_score_threshold'' ''must be > 0'' @
     fail_if (out_of_unit (rc_default_score r)) ''reputation.default_score'' ''must be in [0.0, 1.0]'' @
     fail_if (rc_freeze_list_cache_ttl_s r \<le> 0) ''reputation.freeze_list_cache_ttl_s'' ''must be > 0'' @
     fail_if (rc_min_population_for_z_score r \<le> 0) ''reputation.min_population_for_z_score'' ''must be > 0'' @
     fail_if (rc_storage_path r = []) ''reputation.storage_path'' ''must be set (typically derived from data_dir)'')"

text \<open>\<open>parent_exists p\<close>: \<open>os.Stat\<close> of the directory of \<open>p\<close> succeeds.\<close>

definition checkAdmission :: "(string \<Rightarrow> bool) \<Rightarrow> Config \<Rightarrow> FieldError list" where
  "checkAdmission parent_exists c = (let a = cf_admission c; w = ac_score_weights a in
     fail_if (f_le (ac_pressure_admit_threshold a) (Fin 0)) ''admission.pressure_admit_threshold'' ''must be > 0'' @
     fail_if (f_le (ac_pressure_reject_threshold a) (Fin 0)) ''admission.pressure_reject_threshold'' ''must be > 0'' @
     fail_if (f_lt (Fin 0) (ac_pressure_admit_threshold a) \<and> f_lt (Fin 0) (ac_pressure_reject_threshold a) \<and>
         f_le (ac_pressure_reject_threshold a) (ac_pressure_admit_threshold a)) ''admission.pressure_admit_threshold'' ''must be < pressure_reject_threshold'' @
     fail_if (ac_queue_cap a < 1) ''admission.queue_cap'' ''must be >= 1'' @
     fail_if (out_of_unit (ac_trial_tier_score a)) ''admission.trial_tier_score'' ''must be in [0.0, 1.0]'' @
     fail_if (f_lt (ac_aging_alpha_per_minute a) (Fin 0)) ''admission.aging_alpha_per_minute'' ''must be >= 0'' @
     fail_if (ac_queue_timeout_s a \<le> 0) ''admission.queue_timeout_s'' ''must be > 0'' @
     fail_if (f_lt (aw_settlement_reliability w) (Fin 0)) ''admission.score_weights.settlement_reliability'' ''must be >= 0'' @
     fail_if (f_lt (aw_inverse_dispute_rate w) (Fin 0)) ''admission.score_weights.inverse_dispute_rate'' ''must be >= 0'' @
     fail_if (f_lt (aw_tenure w) (Fin 0)) ''admission.score_weights.tenure'' ''must be >= 0'' @
     fail_if (f_lt (aw_net_credit_flow w) (Fin 0)) ''admission.score_weights.net_credit_flow'' ''must be >= 0'' @
     fail_if (f_lt (aw_balance_cushion w) (Fin 0)) ''admission.score_weights.balance_cushion'' ''must be >= 0'' @
     fail_if (\<not> approxEqual (f_add (f_add (f_add (f_add (aw_settlement_reliability w) (aw_inverse_dispute_rate w)) (aw_tenure w)) (aw_net_credit_flow w))
         (aw_balance_cushion w)) (Fin 1) (round64 (1 / 1000))) ''admission.score_weights'' ''weights must sum to 1.0 +/- 0.001'' @
     fail_if (ac_net_flow_normalization_constant a \<le> 0) ''admission.net_flow_normalization_constant'' ''must be > 0'' @
     fail_if (ac_tenure_cap_days a < 1) ''admission.tenure_cap_days'' ''must be >= 1'' @
     fail_if (ac_starter_grant_credits a < 1) ''admission.starter_grant_credits'' ''must be >= 1'' @
     fail_if (ac_rolling_window_days a < 1) ''admission.rolling_window_days'' ''must be >= 1'' @
     fail_if (ac_trial_settlements_required a < 0) ''admission.trial_settlements_required'' ''must be >= 0'' @
     fail_if (ac_trial_duration_hours a < 0) ''admission.trial_duration_hours'' ''must be >= 0'' @
     fail_if (ac_attestation_ttl_seconds a \<le> 0) ''admission.attestation_ttl_seconds'' ''must be > 0'' @
     fail_if (ac_attestation_max_ttl_seconds a < ac_attestation_ttl_seconds a) ''admission.attestation_max_ttl_seconds'' ''must be >= attestation_ttl_seconds'' @
     fail_if (ac_attestation_issuance_per_consumer_per_hour a < 1) ''admission.attestation_issuance_per_consumer_per_hour'' ''must be >= 1'' @
     fail_if (out_of_unit (ac_max_attestation_score_imported a)) ''admission.max_attestation_score_imported'' ''must be in [0.0, 1.0]'' @
     (if ac_tlog_path a = [] then [(''admission.tlog_path'', ''must be non-empty'')]
      else fail_if (\<not> parent_exists (ac_tlog_path a)) ''admission.tlog_path'' ''parent directory does not exist'') @
     fail_if (ac_snapshot_path_prefix a = []) ''admission.snapshot_path_prefix'' ''must be non-empty'' @
     fail_if (ac_snapshot_interval_s a \<le> 0) ''admission.snapshot_interval_s'' ''must be > 0'' @
     fail_if (ac_snapshots_retained a < 1) ''admission.snapshots_retained'' ''must be >= 1'' @
     fail_if (ac_fsync_batch_window_ms a < 0) ''admission.fsync_batch_window_ms'' ''must be >= 0'' @
     fail_if (ac_heartbeat_window_minutes a < 1) ''admission.heartbeat_window_minutes'' ''must be >= 1'' @
     fail_if (ac_heartbeat_freshness_decay_max_s a \<le> 0) ''admission.heartbeat_freshness_decay_max_s'' ''must be > 0'' @
     concat (map (\<lambda>peer. fail_if (peer = []) ''admission.attestation_peer_blocklist'' ''must be non-empty'') (ac_attestation_peer_blocklist a)))"

definition checkSTUNTURN :: "Config \<Rightarrow> FieldError list" where
  "checkSTUNTURN c =
     fail_if (stn_turn_relay_max_kbps (cf_stun_turn c) \<le> 0) ''stun_turn.turn_relay_max_kbps'' ''must be > 0'' @
     fail_if (stn_session_ttl_seconds (cf_stun_turn c) \<le> 0) ''stun_turn.session_ttl_seconds'' ''must be > 0''"

definition checkPricing :: "Config \<Rightarrow> FieldError list" where
  "checkPricing c = (if length (cf_pricing c) = 0 then [(''pricing.models'', ''must contain at least one model'')]
     else concat (map (\<lambda>(name, m).
       fail_if (name = []) ''pricing.models'' ''model name empty'' @
       fail_if (mp_in m = 0) ''pricing.models.in_credits_per_token'' ''must be > 0'' @
       fail_if (mp_out m = 0) ''pricing.models.out_credits_per_token'' ''must be > 0'') (cf_pricing c)))"

text \<open>\<open>Validate\<close> returns the collected errors; none is \<open>nil\<close>.\<close>

definition Validate :: "(string \<Rightarrow> bool) \<Rightarrow> Config \<Rightarrow> FieldError list" where
  "Validate parent_exists c = checkRequired c @ checkLogLevel c @ checkListeners c @ checkServer c @ checkLedger c @ checkBroker c @
     checkSettlement c @ checkFederation c @ checkReputation c @ checkAdmission parent_exists c @ checkSTUNTURN c @ checkPricing c"

section \<open>Loading\<close>

datatype load_err = OpenError string | ParseError string string | ValidationError "FieldError list"

text \<open>\<open>opened\<close> is the outcome of opening the file, \<open>parse\<close> the strict YAML decoder.\<close>

definition Config_Load :: "(string \<Rightarrow> bool) \<Rightarrow> (bytes \<Rightarrow> string + Config) \<Rightarrow> string \<Rightarrow> (string + bytes) \<Rightarrow> load_err + Config" where
  "Config_Load parent_exists parse path opened = (case opened of Inl e \<Rightarrow> Inl (OpenError e)
     | Inr bs \<Rightarrow> (case parse bs of Inl e \<Rightarrow> Inl (ParseError path e)
       | Inr c0 \<Rightarrow> (let c = ApplyDefaults c0; errs = Validate parent_exists c
           in if errs = [] then Inr c else Inl (ValidationError errs))))"

end
