(* ===== verification/TB_Stunturn_Spec.thy ===== *)
theory TB_Stunturn_Spec
  imports TB_Stunturn
begin

text \<open>
  What the relay allocator promises: its three indexes agree, every live session has a bucket (so the panic
  in \<open>ResolveAndCharge\<close> is never reached), buckets stay between empty and one second of the configured
  bandwidth, and the whole refines a plain table from tokens to sessions.
\<close>

section \<open>Well-formed allocators\<close>

definition turn_cap :: "AllocatorConfig \<Rightarrow> int" where
  "turn_cap cfg = alc_max_kbps_per_seeder cfg * 128"

definition bucket_ok :: "int \<Rightarrow> turnBucket \<Rightarrow> bool" where
  "bucket_ok c b \<longleftrightarrow> tb_capacity_bytes b = Fin (of_int c) \<and> tb_refill_per_sec b = Fin (of_int c) \<and> f_bnd c (tb_available b)"

definition turn_indexed :: "Allocator \<Rightarrow> eaddr \<Rightarrow> TurnSession \<Rightarrow> bool" where
  "turn_indexed a p e \<longleftrightarrow> al_heap a p = Some e \<and> al_by_token a (ts_token e) = Some p \<and> al_by_sid a (ts_session_id e) = Some p \<and>
     al_by_req a (ts_request_id e) = Some p \<and> al_buckets a (ts_seeder_id e) \<noteq> None \<and> ts_session_id e \<le> al_next_id a"

definition indexes_ok :: "Allocator \<Rightarrow> bool" where
  "indexes_ok a \<longleftrightarrow>
     (\<forall>t p. al_by_token a t = Some p \<longrightarrow> (\<exists>e. turn_indexed a p e \<and> ts_token e = t)) \<and>
     (\<forall>s p. al_by_sid a s = Some p \<longrightarrow> (\<exists>e. turn_indexed a p e \<and> ts_session_id e = s)) \<and>
     (\<forall>r p. al_by_req a r = Some p \<longrightarrow> (\<exists>e. turn_indexed a p e \<and> ts_request_id e = r)) \<and>
     (\<forall>p. al_heap a p \<noteq> None \<longrightarrow> p < al_fresh a)"

definition turn_buckets_ok :: "Allocator \<Rightarrow> bool" where
  "turn_buckets_ok a \<longleftrightarrow> (\<forall>i b. al_buckets a i = Some b \<longrightarrow> bucket_ok (turn_cap (al_cfg a)) b)"

definition turn_inv :: "Allocator \<Rightarrow> bool" where
  "turn_inv a \<longleftrightarrow> indexes_ok a \<and> turn_buckets_ok a \<and> 0 < alc_max_kbps_per_seeder (al_cfg a) \<and> alc_max_kbps_per_seeder (al_cfg a) < 2 ^ 40"

lemma indexes_okD:
  "indexes_ok a \<Longrightarrow> al_by_token a t = Some p \<Longrightarrow> \<exists>e. turn_indexed a p e \<and> ts_token e = t"
  "indexes_ok a \<Longrightarrow> al_by_sid a s = Some p \<Longrightarrow> \<exists>e. turn_indexed a p e \<and> ts_session_id e = s"
  "indexes_ok a \<Longrightarrow> al_by_req a r = Some p \<Longrightarrow> \<exists>e. turn_indexed a p e \<and> ts_request_id e = r"
  "indexes_ok a \<Longrightarrow> al_heap a p \<noteq> None \<Longrightarrow> p < al_fresh a"
  by (auto simp: indexes_ok_def)

lemma bucket_capacity:
  assumes "0 < k" "k < 2 ^ 40"
  shows "f_div (f_mul (f_of_int k) (Fin 1024)) (Fin 8) = Fin (of_int (k * 128))"
proof -
  have "f_of_int k = Fin (of_int k)" using assms by (intro f_of_int_exact) auto
  moreover have "round64 (of_int k * 1024) = Fin (of_int k * 1024)"
    by (rule round64_quarter, rule quarterI [of _ "k * 4096"]) (use assms in auto)
  moreover have "round64 (of_int k * 1024 / 8) = Fin (of_int k * 1024 / 8)"
    by (rule round64_quarter, rule quarterI [of _ "k * 512"]) (use assms in auto)
  ultimately show ?thesis by (simp add: f_mul_def)
qed

lemma ensureBucket_simps [simp]: "al_heap (ensureBucket i now a) = al_heap a" "al_by_token (ensureBucket i now a) = al_by_token a"
    "al_by_sid (ensureBucket i now a) = al_by_sid a" "al_by_req (ensureBucket i now a) = al_by_req a"
    "al_next_id (ensureBucket i now a) = al_next_id a" "al_fresh (ensureBucket i now a) = al_fresh a" "al_cfg (ensureBucket i now a) = al_cfg a"
    "al_buckets (ensureBucket i now a) i \<noteq> None"
  by (auto simp: ensureBucket_def Let_def split: option.splits)

lemma ensureBucket_keeps: "al_buckets a j = Some b \<Longrightarrow> al_buckets (ensureBucket i now a) j = Some b"
  by (auto simp: ensureBucket_def Let_def split: option.splits)

lemma ensureBucket_ok:
  assumes "turn_buckets_ok a" "0 < alc_max_kbps_per_seeder (al_cfg a)" "alc_max_kbps_per_seeder (al_cfg a) < 2 ^ 40"
  shows "turn_buckets_ok (ensureBucket i now a)"
  using assms bucket_capacity [OF assms(2,3)]
  by (auto simp: turn_buckets_ok_def ensureBucket_def Let_def bucket_ok_def turn_cap_def f_bnd_def split: option.splits if_splits)

lemma indexes_ok_cong:
  assumes "indexes_ok a" "al_heap a' = al_heap a" "al_by_token a' = al_by_token a" "al_by_sid a' = al_by_sid a" "al_by_req a' = al_by_req a"
    "al_next_id a' = al_next_id a" "al_fresh a' = al_fresh a" "\<And>j. al_buckets a j \<noteq> None \<Longrightarrow> al_buckets a' j \<noteq> None"
  shows "indexes_ok a'"
proof -
  have "turn_indexed a p e \<Longrightarrow> turn_indexed a' p e" for p e using assms by (simp add: turn_indexed_def)
  then show ?thesis using assms(1-7) unfolding indexes_ok_def by metis
qed

section \<open>Buckets\<close>

lemma dur_secs_not_NaN: "dur_secs (time_sub a b) \<noteq> NaN"
  using dur_in_not_NaN [OF time_sub_range, of second_ns] by (simp add: dur_secs_def second_ns_def)

lemma refill_ok:
  assumes "bucket_ok c b" "0 < c" "c < 2 ^ 53"
  shows "bucket_ok c (refill b now)"
proof -
  define el where "el = dur_secs (time_sub now (tb_last_refill b))"
  obtain v where v: "tb_available b = Fin v" "0 \<le> v" "v \<le> of_int c" using assms(1) by (auto simp: bucket_ok_def f_bnd_def)
  show ?thesis
  proof (cases "f_le el (Fin 0)")
    case False
    then have el: "el = PosInf \<or> (\<exists>r > 0. el = Fin r)" using dur_secs_not_NaN [of now "tb_last_refill b"] by (cases el) (auto simp: el_def)
    have "f_mul el (Fin (of_int c)) = PosInf \<or> (\<exists>w \<ge> 0. f_mul el (Fin (of_int c)) = Fin w)"
    proof (cases el)
      case (Fin r)
      then have "0 \<le> r * of_int c" using el assms(2) by auto
      then show ?thesis using Fin round64_nonneg by (auto simp: f_mul_def)
    qed (use el assms(2) in \<open>auto simp: f_mul_def\<close>)
    then have "f_add (Fin v) (f_mul el (Fin (of_int c))) = PosInf \<or> (\<exists>w \<ge> 0. f_add (Fin v) (f_mul el (Fin (of_int c))) = Fin w)"
      using v(2) round64_nonneg add_nonneg_nonneg by fastforce
    then show ?thesis using assms v False
      by (auto simp: refill_def Let_def el_def [symmetric] bucket_ok_def f_bnd_def f_lt_def)
  qed (use assms(1) in \<open>simp add: refill_def Let_def el_def [symmetric]\<close>)
qed

lemma debit_ok:
  assumes "bucket_ok c b" "\<not> f_lt (tb_available b) (f_of_int n)" "0 < n" "c < 2 ^ 53"
  shows "bucket_ok c (b\<lparr>tb_available := f_sub (tb_available b) (f_of_int n)\<rparr>)"
proof -
  obtain v where v: "tb_available b = Fin v" "0 \<le> v" "v \<le> of_int c" using assms(1) by (auto simp: bucket_ok_def f_bnd_def)
  obtain x where x: "f_of_int n = Fin x" "0 \<le> x" "x \<le> v"
    using round64_nonneg [of "of_int n"] assms(2,3) v(1) by (auto simp: f_of_int_def f_lt_def)
  have "f_bnd c (round64 (v - x))" by (rule round64_bnd) (use v x assms(4) in auto)
  then show ?thesis using assms(1) v(1) x(1) by (simp add: bucket_ok_def f_sub_def)
qed

lemma turn_cap_range: "turn_inv a \<Longrightarrow> 0 < turn_cap (al_cfg a) \<and> turn_cap (al_cfg a) < 2 ^ 53"
  by (auto simp: turn_inv_def turn_cap_def)

lemma turn_inv_bucket: "turn_inv a \<Longrightarrow> al_buckets a i = Some b \<Longrightarrow> bucket_ok (turn_cap (al_cfg a)) b"
  by (auto simp: turn_inv_def turn_buckets_ok_def)

lemma turn_inv_set_bucket:
  assumes "turn_inv a" "bucket_ok (turn_cap (al_cfg a)) b"
  shows "turn_inv (a\<lparr>al_buckets := (al_buckets a)(i \<mapsto> b)\<rparr>)"
proof -
  have "indexes_ok (a\<lparr>al_buckets := (al_buckets a)(i \<mapsto> b)\<rparr>)"
    by (rule indexes_ok_cong [of a]) (use assms(1) in \<open>auto simp: turn_inv_def\<close>)
  then show ?thesis using assms by (auto simp: turn_inv_def turn_buckets_ok_def)
qed

section \<open>Every operation keeps the invariant\<close>

lemma deleteIndexes_inv:
  assumes "turn_inv a" "turn_indexed a p e"
  shows "turn_inv (deleteIndexes e a)"
proof -
  have ok: "indexes_ok a" using assms(1) by (simp add: turn_inv_def)
  have keep: "turn_indexed (deleteIndexes e a) q f" if "turn_indexed a q f" "q \<noteq> p" for q f
    using that assms(2) by (auto simp: turn_indexed_def deleteIndexes_def)
  have "indexes_ok (deleteIndexes e a)"
    unfolding indexes_ok_def
  proof (intro conjI allI impI)
    fix t q assume q: "al_by_token (deleteIndexes e a) t = Some q"
    then obtain f where "turn_indexed a q f" "ts_token f = t" using indexes_okD(1) [OF ok] by (auto simp: deleteIndexes_def split: if_splits)
    then show "\<exists>f. turn_indexed (deleteIndexes e a) q f \<and> ts_token f = t"
      using keep q assms(2) by (cases "q = p") (auto simp: deleteIndexes_def turn_indexed_def split: if_splits)
  next
    fix t q assume q: "al_by_sid (deleteIndexes e a) t = Some q"
    then obtain f where "turn_indexed a q f" "ts_session_id f = t" using indexes_okD(2) [OF ok] by (auto simp: deleteIndexes_def split: if_splits)
    then show "\<exists>f. turn_indexed (deleteIndexes e a) q f \<and> ts_session_id f = t"
      using keep q assms(2) by (cases "q = p") (auto simp: deleteIndexes_def turn_indexed_def split: if_splits)
  next
    fix t q assume q: "al_by_req (deleteIndexes e a) t = Some q"
    then obtain f where "turn_indexed a q f" "ts_request_id f = t" using indexes_okD(3) [OF ok] by (auto simp: deleteIndexes_def split: if_splits)
    then show "\<exists>f. turn_indexed (deleteIndexes e a) q f \<and> ts_request_id f = t"
      using keep q assms(2) by (cases "q = p") (auto simp: deleteIndexes_def turn_indexed_def split: if_splits)
  next
    fix q assume "al_heap (deleteIndexes e a) q \<noteq> None"
    then show "q < al_fresh (deleteIndexes e a)" using indexes_okD(4) [OF ok] by (simp add: deleteIndexes_def)
  qed
  then show ?thesis using assms(1) by (simp add: turn_inv_def turn_buckets_ok_def deleteIndexes_def)
qed


lemma Allocate_inv:
  assumes "turn_inv a" "al_next_id a \<noteq> - 1"
  shows "turn_inv (snd (Allocate rand consumer seeder req now a))"
proof -
  have ok: "indexes_ok a" and kb: "0 < alc_max_kbps_per_seeder (al_cfg a)" "alc_max_kbps_per_seeder (al_cfg a) < 2 ^ 40" "turn_buckets_ok a"
    using assms(1) by (simp_all add: turn_inv_def)
  show ?thesis
  proof (cases "al_by_req a req = None \<and> (\<exists>tok. rand = Inr tok \<and> al_by_token a tok = None)")
    case True
    then obtain tok where tok: "rand = Inr tok" "al_by_token a tok = None" "al_by_req a req = None" by blast
    define sid where "sid = al_next_id a + 1"
    define p where "p = al_fresh a"
    define e where "e = \<lparr>ts_token = tok, ts_session_id = sid, ts_consumer_id = consumer, ts_seeder_id = seeder,
      ts_request_id = req, ts_allocated_at = now, ts_last_active = now\<rparr>"
    define a1 where "a1 = a\<lparr>al_next_id := sid, al_heap := (al_heap a)(p \<mapsto> e), al_fresh := p + 1, al_by_token := (al_by_token a)(tok \<mapsto> p),
      al_by_sid := (al_by_sid a)(sid \<mapsto> p), al_by_req := (al_by_req a)(req \<mapsto> p)\<rparr>"
    have res: "snd (Allocate rand consumer seeder req now a) = ensureBucket seeder now a1"
      using tok by (simp add: Allocate_def Let_def a1_def e_def sid_def p_def)
    have "1 + al_next_id a \<noteq> 0" using assms(2) by (metis add.commute eq_neg_iff_add_eq_0)
    then have sid: "al_next_id a < sid" unfolding sid_def by (simp add: word_less_nat_alt unatSuc add.commute)
    have keep: "turn_indexed (ensureBucket seeder now a1) q f \<and> q \<noteq> p" if f: "turn_indexed a q f" for q f
    proof -
      have "q \<noteq> p" using indexes_okD(4) [OF ok, of q] f by (auto simp: p_def turn_indexed_def)
      moreover have "ts_session_id f \<noteq> sid" "ts_session_id f \<le> sid" using f sid by (auto simp: turn_indexed_def)
      moreover have "ts_token f \<noteq> tok" "ts_request_id f \<noteq> req" using f tok(2,3) by (auto simp: turn_indexed_def)
      moreover have "al_buckets (ensureBucket seeder now a1) (ts_seeder_id f) \<noteq> None"
        using f ensureBucket_keeps [of a1] by (fastforce simp: turn_indexed_def a1_def)
      ultimately show ?thesis using f by (auto simp: turn_indexed_def a1_def)
    qed
    have new: "turn_indexed (ensureBucket seeder now a1) p e" by (simp add: turn_indexed_def a1_def e_def)
    have "indexes_ok (ensureBucket seeder now a1)"
      unfolding indexes_ok_def
    proof (intro conjI allI impI)
      fix t q assume "al_by_token (ensureBucket seeder now a1) t = Some q"
      then show "\<exists>f. turn_indexed (ensureBucket seeder now a1) q f \<and> ts_token f = t"
        using keep new indexes_okD(1) [OF ok] by (cases "t = tok") (auto simp: a1_def e_def, blast)
    next
      fix t q assume "al_by_sid (ensureBucket seeder now a1) t = Some q"
      then show "\<exists>f. turn_indexed (ensureBucket seeder now a1) q f \<and> ts_session_id f = t"
        using keep new indexes_okD(2) [OF ok] by (cases "t = sid") (auto simp: a1_def e_def, blast)
    next
      fix t q assume "al_by_req (ensureBucket seeder now a1) t = Some q"
      then show "\<exists>f. turn_indexed (ensureBucket seeder now a1) q f \<and> ts_request_id f = t"
        using keep new indexes_okD(3) [OF ok] by (cases "t = req") (auto simp: a1_def e_def, blast)
    next
      fix q assume "al_heap (ensureBucket seeder now a1) q \<noteq> None"
      then show "q < al_fresh (ensureBucket seeder now a1)" using indexes_okD(4) [OF ok, of q] by (auto simp: a1_def p_def split: if_splits)
    qed
    moreover have "turn_buckets_ok (ensureBucket seeder now a1)"
      by (rule ensureBucket_ok) (use kb in \<open>simp_all add: a1_def turn_buckets_ok_def\<close>)
    ultimately show ?thesis using kb by (simp add: turn_inv_def res a1_def)
  next
    case False
    then show ?thesis using assms(1) by (auto simp: Allocate_def Let_def split: sum.splits)
  qed
qed

lemma touch_inv:
  assumes "turn_inv a" "turn_indexed a p e"
  shows "turn_inv (a\<lparr>al_heap := (al_heap a)(p \<mapsto> e\<lparr>ts_last_active := now\<rparr>)\<rparr>)"
proof -
  let ?a = "a\<lparr>al_heap := (al_heap a)(p \<mapsto> e\<lparr>ts_last_active := now\<rparr>)\<rparr>"
  have ok: "indexes_ok a" using assms(1) by (simp add: turn_inv_def)
  have keep: "\<exists>f'. turn_indexed ?a q f' \<and> ts_token f' = ts_token f \<and> ts_session_id f' = ts_session_id f \<and> ts_request_id f' = ts_request_id f"
    if "turn_indexed a q f" for q f
    using that assms(2) by (cases "q = p") (auto simp: turn_indexed_def)
  have "indexes_ok ?a"
    unfolding indexes_ok_def
  proof (intro conjI allI impI)
    fix t q assume "al_by_token ?a t = Some q"
    then show "\<exists>f. turn_indexed ?a q f \<and> ts_token f = t" using indexes_okD(1) [OF ok, of t q] keep by fastforce
  next
    fix t q assume "al_by_sid ?a t = Some q"
    then show "\<exists>f. turn_indexed ?a q f \<and> ts_session_id f = t" using indexes_okD(2) [OF ok, of t q] keep by fastforce
  next
    fix t q assume "al_by_req ?a t = Some q"
    then show "\<exists>f. turn_indexed ?a q f \<and> ts_request_id f = t" using indexes_okD(3) [OF ok, of t q] keep by fastforce
  next
    fix q assume "al_heap ?a q \<noteq> None"
    then show "q < al_fresh ?a" using indexes_okD(4) [OF ok] assms(2) by (auto simp: turn_indexed_def split: if_splits)
  qed
  then show ?thesis using assms(1) by (simp add: turn_inv_def turn_buckets_ok_def)
qed

lemma ResolveAndCharge_inv:
  assumes "turn_inv a"
  shows "turn_inv (snd (ResolveAndCharge tok n now a)) \<and> fst (ResolveAndCharge tok n now a) \<noteq> TurnPanic"
proof (cases "al_by_token a tok")
  case (Some p)
  have "indexes_ok a" using assms by (simp add: turn_inv_def)
  then obtain e where e: "turn_indexed a p e" using indexes_okD(1) Some by blast
  then obtain b where b: "al_heap a p = Some e" "al_buckets a (ts_seeder_id e) = Some b" by (auto simp: turn_indexed_def)
  define b1 where "b1 = refill b now"
  define b2 where "b2 = (if n > 0 then b1\<lparr>tb_available := f_sub (tb_available b1) (f_of_int n)\<rparr> else b1)"
  have b1: "bucket_ok (turn_cap (al_cfg a)) b1"
    unfolding b1_def using refill_ok turn_inv_bucket [OF assms b(2)] turn_cap_range [OF assms] by blast
  have b2: "bucket_ok (turn_cap (al_cfg a)) b2" if "\<not> (n > 0 \<and> f_lt (tb_available b1) (f_of_int n))"
    using that b1 debit_ok turn_cap_range [OF assms] by (auto simp: b2_def)
  have "turn_inv (a\<lparr>al_buckets := (al_buckets a)(ts_seeder_id e \<mapsto> b2), al_heap := (al_heap a)(p \<mapsto> e\<lparr>ts_last_active := now\<rparr>)\<rparr>)"
    if "\<not> (n > 0 \<and> f_lt (tb_available b1) (f_of_int n))"
    using touch_inv [OF turn_inv_set_bucket [OF assms b2 [OF that], of "ts_seeder_id e"], of p e now] e by (simp add: turn_indexed_def)
  then show ?thesis
    using deleteIndexes_inv [OF assms e] turn_inv_set_bucket [OF assms b1] b
    by (auto simp: ResolveAndCharge_def Some Let_def b1_def [symmetric] b2_def [symmetric])
qed (use assms in \<open>simp add: ResolveAndCharge_def\<close>)

lemma Charge_inv:
  assumes "turn_inv a"
  shows "turn_inv (snd (Charge i n now a))"
proof -
  define a1 where "a1 = ensureBucket i now a"
  have a1: "turn_inv a1"
    using assms ensureBucket_ok [of a i now] indexes_ok_cong [of a a1] ensureBucket_keeps [of a] by (fastforce simp: turn_inv_def a1_def)
  obtain b where b: "al_buckets a1 i = Some b" using ensureBucket_simps(8) [of i now a] unfolding a1_def by blast
  define b1 where "b1 = refill b now"
  have b1: "bucket_ok (turn_cap (al_cfg a1)) b1"
    unfolding b1_def using refill_ok turn_inv_bucket [OF a1 b] turn_cap_range [OF a1] by blast
  have b2: "bucket_ok (turn_cap (al_cfg a1)) (b1\<lparr>tb_available := f_sub (tb_available b1) (f_of_int n)\<rparr>)"
    if "\<not> f_lt (tb_available b1) (f_of_int n)" "0 < n"
    using debit_ok [OF b1 that] turn_cap_range [OF a1] by simp
  show ?thesis using assms turn_inv_set_bucket [OF a1 b1] turn_inv_set_bucket [OF a1 b2]
    by (auto simp: Charge_def Let_def a1_def [symmetric] b b1_def [symmetric])
qed

lemma deref_indexed:
  assumes "turn_inv a"
  shows "deref a (al_by_token a t) = Some e \<Longrightarrow> \<exists>p. turn_indexed a p e \<and> ts_token e = t"
    "deref a (al_by_sid a s) = Some e \<Longrightarrow> \<exists>p. turn_indexed a p e \<and> ts_session_id e = s"
  using assms indexes_okD(1,2) [of a] by (fastforce simp: deref_def turn_inv_def turn_indexed_def split: option.splits)+

lemma Turn_Release_inv: "turn_inv a \<Longrightarrow> turn_inv (Turn_Release sid a)"
proof (cases "deref a (al_by_sid a sid)")
  case (Some e)
  assume inv: "turn_inv a"
  then obtain p where "turn_indexed a p e" using deref_indexed(2) [OF inv Some] by blast
  then show ?thesis using deleteIndexes_inv [OF inv] Some by (simp add: Turn_Release_def)
qed (simp add: Turn_Release_def)

lemma Sweep_inv: "turn_inv a \<Longrightarrow> turn_inv (snd (Sweep order now a))"
proof (induction order arbitrary: a)
  case (Cons t order)
  have "turn_inv (deleteIndexes e a)" if "deref a (al_by_token a t) = Some e" for e
    using deref_indexed(1) [OF Cons.prems that] deleteIndexes_inv [OF Cons.prems] by blast
  then show ?case using Cons by (auto split: option.splits prod.splits dest: arg_cong [of _ _ snd]) (metis snd_conv)
qed simp

section \<open>The table of sessions\<close>

abbreviation sessions :: "Allocator \<Rightarrow> bytes \<rightharpoonup> TurnSession" where
  "sessions a \<equiv> (\<lambda>t. Resolve t a)"

definition turn_expired :: "int \<Rightarrow> time \<Rightarrow> TurnSession \<Rightarrow> bool" where
  "turn_expired ttl now e \<longleftrightarrow> time_sub now (ts_last_active e) > ttl"

definition drop_if :: "(TurnSession \<Rightarrow> bool) \<Rightarrow> TurnSession option \<Rightarrow> TurnSession option" where
  "drop_if P x = (case x of None \<Rightarrow> None | Some e \<Rightarrow> if P e then None else Some e)"

lemma drop_if_simps [simp]: "drop_if P None = None" "drop_if P (Some e) = (if P e then None else Some e)"
  by (simp_all add: drop_if_def)

lemma indexed_session: "turn_indexed a p e \<Longrightarrow> Resolve (ts_token e) a = Some e"
  by (simp add: Resolve_def deref_def turn_indexed_def)

lemma session_indexed: "turn_inv a \<Longrightarrow> Resolve t a = Some e \<Longrightarrow> \<exists>p. turn_indexed a p e \<and> ts_token e = t"
  unfolding Resolve_def by (rule deref_indexed(1))

lemma Resolve_delete: "Resolve t (deleteIndexes e a) = (if t = ts_token e then None else Resolve t a)"
  by (simp add: Resolve_def deref_def deleteIndexes_def split: option.splits)

text \<open>Two live sessions with the same session id, request id or token are the same session.\<close>

lemma sessions_unique:
  assumes "turn_inv a" "Resolve t a = Some e" "Resolve u a = Some f"
    "ts_session_id e = ts_session_id f \<or> ts_request_id e = ts_request_id f"
  shows "t = u"
proof -
  obtain p q where "turn_indexed a p e" "ts_token e = t" "turn_indexed a q f" "ts_token f = u" using session_indexed assms by metis
  then show ?thesis using assms(4) by (auto simp: turn_indexed_def)
qed

lemma Release_table:
  assumes "turn_inv a"
  shows "Resolve t (Turn_Release sid a) = drop_if (\<lambda>e. ts_session_id e = sid) (Resolve t a)"
proof (cases "deref a (al_by_sid a sid)")
  case None
  have "ts_session_id e \<noteq> sid" if "Resolve t a = Some e" for e
    using session_indexed [OF assms that] None by (auto simp: turn_indexed_def deref_def)
  then show ?thesis using None by (cases "Resolve t a") (simp_all add: Turn_Release_def)
next
  case (Some e)
  obtain p where p: "turn_indexed a p e" "ts_session_id e = sid" using deref_indexed(2) [OF assms Some] by blast
  note e = indexed_session [OF p(1)]
  have "ts_session_id f \<noteq> sid" if "Resolve t a = Some f" "t \<noteq> ts_token e" for f
    using sessions_unique [OF assms e that(1)] that(2) p(2) by auto
  then show ?thesis using Some p(2) e by (cases "Resolve t a") (auto simp: Turn_Release_def Resolve_delete)
qed

lemma Sweep_table:
  assumes "turn_inv a" "distinct order"
  shows "Resolve t (snd (Sweep order now a)) =
      (if t \<in> set order then drop_if (turn_expired (alc_session_ttl (al_cfg a)) now) (Resolve t a) else Resolve t a)"
    "fst (Sweep order now a) = int (length (filter (\<lambda>u. Resolve u a \<noteq> None \<and> turn_expired (alc_session_ttl (al_cfg a)) now (the (Resolve u a))) order))"
  using assms
proof (induction order arbitrary: a)
  case (Cons u order)
  {
    case 1
    show ?case
    proof (cases "Resolve u a")
      case None
      then show ?thesis using Cons.IH(1) [OF 1(1)] 1(2) by (auto simp: Resolve_def)
    next
      case (Some e)
      obtain p where p: "turn_indexed a p e" "ts_token e = u" using session_indexed [OF 1(1) Some] by blast
      have "al_cfg (deleteIndexes e a) = al_cfg a" by (simp add: deleteIndexes_def)
      then have "Resolve t (snd (Sweep order now (deleteIndexes e a))) = (if t \<in> set order
          then drop_if (turn_expired (alc_session_ttl (al_cfg a)) now) (if t = u then None else Resolve t a) else if t = u then None else Resolve t a)"
        using Cons.IH(1) [OF deleteIndexes_inv [OF 1(1) p(1)]] 1(2) p(2) by (simp add: Resolve_delete)
      moreover have "deref a (al_by_token a u) = Some e" using Some by (simp add: Resolve_def)
      ultimately show ?thesis using Cons.IH(1) [OF 1(1)] 1(2) Some by (auto simp flip: turn_expired_def split: prod.splits)
    qed
  next
    case 2
    show ?case
    proof (cases "Resolve u a")
      case None
      then show ?thesis using Cons.IH(2) [OF 2(1)] 2(2) by (simp add: Resolve_def)
    next
      case (Some e)
      obtain p where p: "turn_indexed a p e" "ts_token e = u" using session_indexed [OF 2(1) Some] by blast
      have "al_cfg (deleteIndexes e a) = al_cfg a" by (simp add: deleteIndexes_def)
      then have "fst (Sweep order now (deleteIndexes e a)) = int (length (filter (\<lambda>v. Resolve v (deleteIndexes e a) \<noteq> None \<and>
          turn_expired (alc_session_ttl (al_cfg a)) now (the (Resolve v (deleteIndexes e a)))) order))"
        using Cons.IH(2) [OF deleteIndexes_inv [OF 2(1) p(1)]] 2(2) by simp
      also have "filter (\<lambda>v. Resolve v (deleteIndexes e a) \<noteq> None \<and> turn_expired (alc_session_ttl (al_cfg a)) now (the (Resolve v (deleteIndexes e a)))) order =
          filter (\<lambda>v. Resolve v a \<noteq> None \<and> turn_expired (alc_session_ttl (al_cfg a)) now (the (Resolve v a))) order"
        using 2(2) p(2) by (intro filter_cong) (auto simp: Resolve_delete)
      finally have "fst (Sweep order now (deleteIndexes e a)) = int (length (filter (\<lambda>v. Resolve v a \<noteq> None \<and>
          turn_expired (alc_session_ttl (al_cfg a)) now (the (Resolve v a))) order))" .
      moreover have "deref a (al_by_token a u) = Some e" using Some by (simp add: Resolve_def)
      ultimately show ?thesis using Cons.IH(2) [OF 2(1)] 2(2) Some by (auto simp flip: turn_expired_def split: prod.splits)
    qed
  }
qed simp_all

lemma Allocate_table:
  assumes "turn_inv a" "al_next_id a \<noteq> - 1" "Allocate rand consumer seeder req now a = (Inr e, a')"
  shows "Resolve t a' = (if t = ts_token e then Some e else Resolve t a)" "Resolve (ts_token e) a = None" "ts_request_id e = req"
    "Resolve t a = Some f \<Longrightarrow> ts_request_id f \<noteq> req \<and> ts_session_id f \<noteq> ts_session_id e"
proof -
  have new: "al_by_req a req = None" "al_by_token a (ts_token e) = None" "ts_request_id e = req" "ts_session_id e = al_next_id a + 1"
    and heap: "al_heap a' = (al_heap a)(al_fresh a \<mapsto> e)" "al_by_token a' = (al_by_token a)(ts_token e \<mapsto> al_fresh a)"
    using assms(3) by (auto simp: Allocate_def Let_def split: if_splits sum.splits)
  show "ts_request_id e = req" by (rule new)
  show "Resolve (ts_token e) a = None" using new(2) by (simp add: Resolve_def deref_def)
  have "al_by_token a t \<noteq> Some (al_fresh a)"
  proof
    assume h: "al_by_token a t = Some (al_fresh a)"
    have ok: "indexes_ok a" using assms(1) by (simp add: turn_inv_def)
    obtain f where "turn_indexed a (al_fresh a) f" using indexes_okD(1) [OF ok h] by blast
    then show False using indexes_okD(4) [OF ok, of "al_fresh a"] by (simp add: turn_indexed_def)
  qed
  then show "Resolve t a' = (if t = ts_token e then Some e else Resolve t a)"
    using heap by (auto simp: Resolve_def deref_def split: option.splits)
  assume "Resolve t a = Some f"
  then obtain p where p: "turn_indexed a p f" using session_indexed [OF assms(1)] by blast
  have "1 + al_next_id a \<noteq> 0" using assms(2) by (metis add.commute eq_neg_iff_add_eq_0)
  then have "al_next_id a < al_next_id a + 1" by (simp add: word_less_nat_alt unatSuc add.commute)
  then show "ts_request_id f \<noteq> req \<and> ts_session_id f \<noteq> ts_session_id e" using p new(1,4) by (auto simp: turn_indexed_def)
qed

lemma Allocate_refused: "Allocate rand consumer seeder req now a = (Inl e, a') \<Longrightarrow> a' = a"
  by (auto simp: Allocate_def Let_def split: if_splits sum.splits)

text \<open>The outcomes of \<open>ResolveAndCharge\<close> over the table.\<close>

definition charged :: "int \<Rightarrow> time \<Rightarrow> bytes \<Rightarrow> turn_out \<Rightarrow> (bytes \<rightharpoonup> TurnSession) \<Rightarrow> (bytes \<rightharpoonup> TurnSession) \<Rightarrow> bool" where
  "charged ttl now tok out m m' \<longleftrightarrow> (case m tok of None \<Rightarrow> out = TurnErr ErrUnknownToken \<and> m' = m
     | Some e \<Rightarrow> if turn_expired ttl now e then out = TurnErr ErrSessionExpired \<and> m' = m(tok := None)
         else out = TurnErr ErrThrottled \<and> m' = m \<or> out = TurnOk (e\<lparr>ts_last_active := now\<rparr>) \<and> m' = m(tok \<mapsto> e\<lparr>ts_last_active := now\<rparr>))"

lemma ResolveAndCharge_table:
  assumes "turn_inv a"
  shows "charged (alc_session_ttl (al_cfg a)) now tok (fst (ResolveAndCharge tok n now a)) (sessions a) (sessions (snd (ResolveAndCharge tok n now a)))"
proof (cases "al_by_token a tok")
  case (Some p)
  have ok: "indexes_ok a" using assms by (simp add: turn_inv_def)
  obtain e where e: "turn_indexed a p e" "ts_token e = tok" using indexes_okD(1) [OF ok Some] by blast
  then obtain b where b: "al_heap a p = Some e" "al_buckets a (ts_seeder_id e) = Some b" by (auto simp: turn_indexed_def)
  have p: "al_by_token a u = Some p \<Longrightarrow> u = tok" for u
    using indexes_okD(1) [OF ok, of u p] e b by (auto simp: turn_indexed_def)
  have upd: "sessions (a\<lparr>al_buckets := B, al_heap := (al_heap a)(p \<mapsto> f)\<rparr>) = (sessions a)(tok \<mapsto> f)" for B f
  proof
    fix u
    show "sessions (a\<lparr>al_buckets := B, al_heap := (al_heap a)(p \<mapsto> f)\<rparr>) u = ((sessions a)(tok \<mapsto> f)) u"
      using Some p [of u] by (cases "u = tok") (auto simp: Resolve_def deref_def split: option.splits)
  qed
  have same: "sessions (a\<lparr>al_buckets := B\<rparr>) = sessions a" for B
    by (intro ext) (simp add: Resolve_def deref_def split: option.splits)
  have del: "sessions (deleteIndexes e a) = (sessions a)(tok := None)" using e(2) by (intro ext) (simp add: Resolve_delete)
  have r: "Resolve tok a = Some e" using indexed_session [OF e(1)] e(2) by simp
  define b1 where "b1 = refill b now"
  consider (late) "turn_expired (alc_session_ttl (al_cfg a)) now e"
    | (slow) "\<not> turn_expired (alc_session_ttl (al_cfg a)) now e" "n > 0 \<and> f_lt (tb_available b1) (f_of_int n)"
    | (fine) "\<not> turn_expired (alc_session_ttl (al_cfg a)) now e" "\<not> (n > 0 \<and> f_lt (tb_available b1) (f_of_int n))" by blast
  then show ?thesis
  proof cases
    case late
    then have "ResolveAndCharge tok n now a = (TurnErr ErrSessionExpired, deleteIndexes e a)"
      using b by (simp add: ResolveAndCharge_def Some turn_expired_def)
    then show ?thesis using late r del by (simp add: charged_def)
  next
    case slow
    then have "ResolveAndCharge tok n now a = (TurnErr ErrThrottled, a\<lparr>al_buckets := (al_buckets a)(ts_seeder_id e \<mapsto> b1)\<rparr>)"
      using b by (simp add: ResolveAndCharge_def Some turn_expired_def b1_def [symmetric] Let_def)
    then show ?thesis using slow(1) r same by (simp add: charged_def)
  next
    case fine
    then have "\<exists>B. ResolveAndCharge tok n now a =
        (TurnOk (e\<lparr>ts_last_active := now\<rparr>), a\<lparr>al_buckets := B, al_heap := (al_heap a)(p \<mapsto> e\<lparr>ts_last_active := now\<rparr>)\<rparr>)"
      using b by (simp add: ResolveAndCharge_def Some turn_expired_def b1_def [symmetric] Let_def) blast
    then show ?thesis using fine(1) r upd by (auto simp: charged_def)
  qed
qed (simp add: charged_def ResolveAndCharge_def Resolve_def deref_def)


section \<open>Runs of the allocator\<close>

inductive turn_step :: "Allocator \<Rightarrow> Allocator \<Rightarrow> bool" where
  tu_allocate: "al_next_id a \<noteq> - 1 \<Longrightarrow> turn_step a (snd (Allocate rand consumer seeder req now a))"
| tu_resolve: "turn_step a (snd (ResolveAndCharge tok n now a))"
| tu_charge: "turn_step a (snd (Charge seeder n now a))"
| tu_release: "turn_step a (Turn_Release sid a)"
| tu_sweep: "turn_step a (snd (Sweep order now a))"

abbreviation turn_run :: "Allocator \<Rightarrow> Allocator \<Rightarrow> bool" where
  "turn_run \<equiv> turn_step\<^sup>*\<^sup>*"

lemma turn_step_inv: "turn_step a a' \<Longrightarrow> turn_inv a \<Longrightarrow> turn_inv a'"
  by (induction rule: turn_step.induct)
     (simp_all add: Allocate_inv ResolveAndCharge_inv Charge_inv Turn_Release_inv Sweep_inv)

lemma NewAllocator_inv: "NewAllocator cfg x y = Inr a \<Longrightarrow> alc_max_kbps_per_seeder cfg < 2 ^ 40 \<Longrightarrow> turn_inv a"
  by (auto simp: NewAllocator_def turn_inv_def indexes_ok_def turn_buckets_ok_def split: if_splits)

lemma turn_run_inv:
  assumes "NewAllocator cfg x y = Inr a" "alc_max_kbps_per_seeder cfg < 2 ^ 40" "turn_run a a'"
  shows "turn_inv a'"
  using assms(3) NewAllocator_inv [OF assms(1,2)] by (induction rule: rtranclp_induct) (auto intro: turn_step_inv)

lemma turn_step_cfg: "turn_step a a' \<Longrightarrow> al_cfg a' = al_cfg a"
proof (induction rule: turn_step.induct)
  case (tu_sweep a order now)
  have del: "al_cfg (deleteIndexes e a) = al_cfg a" for e a by (simp add: deleteIndexes_def)
  show ?case by (induction order arbitrary: a) (auto simp: del split: option.splits prod.splits, metis del snd_conv)
qed (auto simp: Allocate_def ResolveAndCharge_def Charge_def Turn_Release_def deleteIndexes_def Let_def split: option.splits sum.splits)

lemma turn_run_cfg: "turn_run a a' \<Longrightarrow> al_cfg a' = al_cfg a"
  by (induction rule: rtranclp_induct) (auto dest: turn_step_cfg)

text \<open>
  C34. The relay allocator is well-formed after any sequence of calls: its indexes by token,
  session id and request id name the same sessions, every live session's seeder has a bucket,
  and so ResolveAndCharge never reaches its panic.
\<close>

theorem allocator_well_formed:
  assumes "NewAllocator cfg now_set rand_set = Inr a" "alc_max_kbps_per_seeder cfg < 2 ^ 40" "turn_run a a'"
  shows "indexes_ok a' \<and> fst (ResolveAndCharge tok n now a') \<noteq> TurnPanic"
  using turn_run_inv [OF assms] ResolveAndCharge_inv by (simp add: turn_inv_def)

text \<open>
  C35. The three indexes refine one table from tokens to sessions: an allocation adds one
  session whose token, request id and session id no live session has; a release drops the
  sessions with the id; a sweep drops exactly the expired ones; resolving a token ends as the
  table says, and a session that is served is marked active.
\<close>

theorem allocator_refines_table:
  assumes "NewAllocator cfg now_set rand_set = Inr a0" "alc_max_kbps_per_seeder cfg < 2 ^ 40" "turn_run a0 a"
  shows "(al_next_id a \<noteq> - 1 \<and> Allocate rand consumer seeder req now a = (Inr e, a') \<longrightarrow>
      sessions a' = (sessions a)(ts_token e \<mapsto> e) \<and> sessions a (ts_token e) = None \<and>
      (\<forall>f \<in> ran (sessions a). ts_request_id f \<noteq> req \<and> ts_session_id f \<noteq> ts_session_id e)) \<and>
    sessions (Turn_Release sid a) = drop_if (\<lambda>e. ts_session_id e = sid) \<circ> sessions a \<and>
    (distinct order \<and> dom (sessions a) \<subseteq> set order \<longrightarrow>
      sessions (snd (Sweep order now a)) = drop_if (turn_expired (alc_session_ttl cfg) now) \<circ> sessions a) \<and>
    charged (alc_session_ttl cfg) now tok (fst (ResolveAndCharge tok n now a)) (sessions a) (sessions (snd (ResolveAndCharge tok n now a)))"
proof -
  have inv: "turn_inv a" by (rule turn_run_inv [OF assms])
  have cfg: "al_cfg a = cfg" using turn_run_cfg [OF assms(3)] assms(1) by (auto simp: NewAllocator_def split: if_splits)
  have "sessions (snd (Sweep order now a)) t = (drop_if (turn_expired (alc_session_ttl cfg) now) \<circ> sessions a) t"
    if "distinct order" "dom (sessions a) \<subseteq> set order" for t
  proof (cases "t \<in> set order")
    case False
    then have "sessions a t = None" using that(2) by (auto simp: dom_def)
    then show ?thesis using Sweep_table(1) [OF inv that(1), of t now] False by simp
  qed (use Sweep_table(1) [OF inv that(1), of t now] in \<open>simp add: cfg\<close>)
  moreover have "sessions a' = (sessions a)(ts_token e \<mapsto> e) \<and> sessions a (ts_token e) = None \<and>
      (\<forall>f \<in> ran (sessions a). ts_request_id f \<noteq> req \<and> ts_session_id f \<noteq> ts_session_id e)"
    if "al_next_id a \<noteq> - 1" "Allocate rand consumer seeder req now a = (Inr e, a')"
    using Allocate_table [OF inv that] by (auto simp: ran_def fun_eq_iff)
  ultimately show ?thesis using Release_table [OF inv] ResolveAndCharge_table [OF inv, of now tok n] cfg by (auto simp: fun_eq_iff)
qed

text \<open>
  C36. A seeder's bucket is never below empty nor above one second of the configured rate, after
  any sequence of calls: no call grants more bytes than that at once.
\<close>

theorem bucket_within_capacity:
  assumes "NewAllocator cfg now_set rand_set = Inr a" "alc_max_kbps_per_seeder cfg < 2 ^ 40" "turn_run a a'" "al_buckets a' i = Some b"
  shows "f_le (Fin 0) (tb_available b) \<and> f_le (tb_available b) (Fin (of_int (alc_max_kbps_per_seeder cfg * 128)))"
proof -
  have "al_cfg a' = cfg" using turn_run_cfg [OF assms(3)] assms(1) by (auto simp: NewAllocator_def split: if_splits)
  then show ?thesis using turn_inv_bucket [OF turn_run_inv [OF assms(1-3)] assms(4)] by (auto simp: bucket_ok_def f_bnd_def turn_cap_def)
qed

section \<open>A concrete allocator\<close>

definition demo_turn_cfg :: AllocatorConfig where
  "demo_turn_cfg = \<lparr>alc_max_kbps_per_seeder = 8, alc_session_ttl = seconds 60\<rparr>"

definition demo_a0 :: Allocator where
  "demo_a0 = \<lparr>al_cfg = demo_turn_cfg, al_next_id = 0, al_heap = Map.empty, al_fresh = 0, al_by_token = Map.empty, al_by_sid = Map.empty,
     al_by_req = Map.empty, al_buckets = Map.empty\<rparr>"

definition demo_a1 :: Allocator where
  "demo_a1 = snd (Allocate (Inr (replicate 16 1)) [1] [2] [3] 0 demo_a0)"

lemma demo_new: "NewAllocator demo_turn_cfg True True = Inr demo_a0"
  by (simp add: NewAllocator_def demo_a0_def demo_turn_cfg_def seconds_def)

lemma demo_turn_run: "turn_run demo_a0 demo_a1"
  unfolding demo_a1_def by (rule r_into_rtranclp [where r = turn_step, OF turn_step.tu_allocate]) (simp add: demo_a0_def)

lemma demo_kbps: "alc_max_kbps_per_seeder demo_turn_cfg < 2 ^ 40"
  by (simp add: demo_turn_cfg_def)

lemma demo_live: "Resolve (replicate 16 1) demo_a1 = Some \<lparr>ts_token = replicate 16 1, ts_session_id = 1, ts_consumer_id = [1], ts_seeder_id = [2],
    ts_request_id = [3], ts_allocated_at = 0, ts_last_active = 0\<rparr>"
  by (simp add: demo_a1_def Allocate_def demo_a0_def Let_def Resolve_def deref_def)

theorem allocator_well_formed_witness:
  "indexes_ok demo_a1 \<and> fst (ResolveAndCharge (replicate 16 1) 1000 (seconds 1) demo_a1) \<noteq> TurnPanic"
  by (rule allocator_well_formed [OF demo_new demo_kbps demo_turn_run])

theorem allocator_refines_table_witness:
  "Resolve (replicate 16 1) demo_a1 \<noteq> None \<and> Resolve (replicate 16 1) (Turn_Release 1 demo_a1) = None"
proof -
  have "sessions (Turn_Release 1 demo_a1) = drop_if (\<lambda>e. ts_session_id e = 1) \<circ> sessions demo_a1"
    using allocator_refines_table [OF demo_new demo_kbps demo_turn_run] by blast
  then show ?thesis by (simp add: fun_eq_iff demo_live)
qed

theorem bucket_within_capacity_witness:
  "\<exists>b. al_buckets demo_a1 [2] = Some b \<and> f_le (Fin 0) (tb_available b) \<and> f_le (tb_available b) (Fin 1024)"
proof -
  obtain b where b: "al_buckets demo_a1 [2] = Some b"
    using ensureBucket_simps(8) by (fastforce simp: demo_a1_def Allocate_def demo_a0_def Let_def)
  then show ?thesis using bucket_within_capacity [OF demo_new demo_kbps demo_turn_run b] by (simp add: demo_turn_cfg_def)
qed

end
