(* ===== verification/TB_Config_Spec.thy ===== *)
theory TB_Config_Spec
  imports TB_Config TB_Stunturn_Spec
begin

text \<open>
  The configuration: what a load guarantees to the components that read it. Defaults are idempotent and
  leave a minimal file valid; a loaded configuration passes the guards of the components it opens; the
  checks of listeners and peers are the checks of a plain specification.
\<close>

section \<open>Defaults\<close>

lemma or_idem [simp]:
  "or_int (or_int x d) d = or_int x d"
  "or_str (or_str y e) e = or_str y e"
  "or_float (or_float z f) f = or_float z f"
  "or_path (or_path y dir e) dir e = or_path y dir e"
  by (simp_all add: or_int_def or_str_def or_float_def or_path_def)

lemma defaults_weights_idem [simp]:
  "defaults_weights (defaults_weights w) = defaults_weights w"
  "defaults_admission_weights (defaults_admission_weights v) = defaults_admission_weights v"
  "defaults_rate_limit (defaults_rate_limit r) = defaults_rate_limit r"
  by (simp_all add: defaults_weights_def defaults_admission_weights_def defaults_rate_limit_def)

lemma defaults_health_idem [simp]: "defaults_health (defaults_health h) = defaults_health h"
  by (simp add: defaults_health_def Let_def)

lemma defaults_sections_idem [simp]:
  "defaults_server (defaults_server s) = defaults_server s"
  "defaults_broker (defaults_broker b) = defaults_broker b"
  "defaults_settlement (defaults_settlement t) = defaults_settlement t"
  "defaults_reputation dir (defaults_reputation dir r) = defaults_reputation dir r"
  "defaults_admission dir (defaults_admission dir a) = defaults_admission dir a"
  "defaults_stun_turn (defaults_stun_turn u) = defaults_stun_turn u"
  by (simp_all add: defaults_server_def defaults_broker_def defaults_settlement_def defaults_reputation_def
      defaults_admission_def defaults_stun_turn_def Let_def)

lemma defaults_federation_idem [simp]: "defaults_federation (defaults_federation f) = defaults_federation f"
  by (simp add: defaults_federation_def split: option.split)

lemma ApplyDefaults_idem: "ApplyDefaults (ApplyDefaults c) = ApplyDefaults c"
  by (simp add: ApplyDefaults_def)

section \<open>Reading the verdict of a check\<close>

lemma fail_if_Nil [simp]: "fail_if b f m = [] \<longleftrightarrow> \<not> b"
  by (simp add: fail_if_def)

lemma Validate_Nil:
  "Validate pe c = [] \<longleftrightarrow> checkRequired c = [] \<and> checkLogLevel c = [] \<and> checkListeners c = [] \<and> checkServer c = [] \<and>
     checkLedger c = [] \<and> checkBroker c = [] \<and> checkSettlement c = [] \<and> checkFederation c = [] \<and> checkReputation c = [] \<and>
     checkAdmission pe c = [] \<and> checkSTUNTURN c = [] \<and> checkPricing c = []"
  by (simp add: Validate_def)

lemma listener_loop_Nil:
  "listener_loop ls seen = [] \<longleftrightarrow> (let used = filter (\<lambda>a. a \<noteq> []) (map snd ls)
     in list_all SplitHostPort_ok used \<and> distinct used \<and> set used \<inter> set seen = {})"
  by (induction ls seen rule: listener_loop.induct) (auto simp: Let_def)

lemma peer_loop_Nil:
  "peer_loop ps seen = [] \<longleftrightarrow> distinct (map fpc_tracker_id ps) \<and> fpc_tracker_id ` set ps \<inter> set seen = {} \<and>
     (\<forall>p \<in> set ps. length (fpc_tracker_id p) = 64 \<and> length (fpc_pubkey p) = 64 \<and> fpc_addr p \<noteq> [])"
  by (induction ps seen rule: peer_loop.induct) auto

lemma Config_Load_Inr:
  "Config_Load pe parse path opened = Inr c \<longleftrightarrow>
     (\<exists>bs c0. opened = Inr bs \<and> parse bs = Inr c0 \<and> c = ApplyDefaults c0 \<and> Validate pe c = [])"
  by (auto simp: Config_Load_def Let_def split: sum.splits)

section \<open>What a loaded configuration guarantees\<close>

text \<open>The allocator's configuration, as the command builds it from the file's section.\<close>

definition allocator_config :: "Config \<Rightarrow> AllocatorConfig" where
  "allocator_config c = \<lparr>alc_max_kbps_per_seeder = stn_turn_relay_max_kbps (cf_stun_turn c),
     alc_session_ttl = i64_wrap (stn_session_ttl_seconds (cf_stun_turn c) * 1000000000)\<rparr>"

lemma NewAllocator_validated:
  assumes "checkSTUNTURN c = []" "stn_session_ttl_seconds (cf_stun_turn c) \<le> 9223372036"
  shows "\<exists>a. NewAllocator (allocator_config c) True True = Inr a \<and> al_cfg a = allocator_config c"
proof -
  have "alc_session_ttl (allocator_config c) = stn_session_ttl_seconds (cf_stun_turn c) * 1000000000"
    using assms by (simp add: allocator_config_def checkSTUNTURN_def i64_wrap_id is_i64_def)
  then show ?thesis
    using assms(1) by (auto simp: NewAllocator_def checkSTUNTURN_def allocator_config_def)
qed

lemma Rep_Open_validated:
  assumes "checkReputation c = []"
  shows "\<exists>s. Rep_Open (\<lambda>_ _ _. False) (cf_reputation c) listener (Inr db) = Inr s \<and> rs_cfg s = cf_reputation c \<and> rs_db s = db"
  using assms by (auto simp: checkReputation_def Let_def Rep_Open_def reloadCache_def loadAllStates_def loadAllScores_def)


section \<open>A minimal file\<close>

text \<open>What the strict decoder yields for a file with the required fields only: every other field has Go's zero value.\<close>

definition required_only :: "string \<Rightarrow> string \<Rightarrow> string \<Rightarrow> string \<Rightarrow> string \<Rightarrow> string \<Rightarrow> Config" where
  "required_only dir listen ident_key cert key ledger_path = \<lparr>cf_data_dir = dir, cf_log_level = [],
     cf_server = \<lparr>svc_listen_addr = listen, svc_identity_key_path = ident_key, svc_tls_cert_path = cert, svc_tls_key_path = key,
       svc_max_frame_size = 0, svc_idle_timeout_s = 0, svc_max_incoming_streams = 0, svc_shutdown_grace_s = 0\<rparr>,
     cf_admin_listen_addr = [], cf_ledger = \<lparr>ldc_storage_path = ledger_path, ldc_merkle_root_interval_min = 0\<rparr>,
     cf_broker = \<lparr>bks_headroom_threshold = Fin 0, bks_load_threshold = 0,
       bks_score_weights = \<lparr>sw_reputation = Fin 0, sw_headroom = Fin 0, sw_rtt = Fin 0, sw_load = Fin 0\<rparr>, bks_offer_timeout_ms = 0,
       bks_max_offer_attempts = 0, bks_broker_request_rate_per_sec = Fin 0, bks_queue_drain_interval_ms = 0, bks_inflight_terminal_ttl_s = 0\<rparr>,
     cf_settlement = \<lparr>stc_tunnel_setup_ms = 0, stc_stream_idle_s = 0, stc_settlement_timeout_s = 0, stc_reservation_ttl_s = 0,
       stc_stale_tip_retries = 0\<rparr>,
     cf_federation = \<lparr>fdc_peer_count_min = 0, fdc_peer_count_max = 0, fdc_gossip_dedupe_ttl_s = 0, fdc_transfer_retry_window_h = 0,
       fdc_enroll_rate_per_min_per_ip = 0, fdc_handshake_timeout_s = 0, fdc_gossip_rate_qps = 0, fdc_send_queue_depth = 0,
       fdc_publish_cadence_s = 0, fdc_listen_addr = [], fdc_idle_timeout_s = 0, fdc_redial_base_s = 0, fdc_redial_max_s = 0, fdc_peers = [],
       fdc_bootstrap = \<lparr>fbs_max_peers = 0, fbs_ttl_seconds = 0\<rparr>,
       fdc_health = \<lparr>fhc_uptime_window_s = 0, fhc_rev_gossip_window_s = 0, fhc_rev_gossip_buffer_size = 0, fhc_latency_target_ms = 0,
         fhc_uptime_weight = Fin 0, fhc_rev_gossip_weight = Fin 0, fhc_latency_weight = Fin 0\<rparr>, fdc_peer_exchange_cadence_s = 0,
       fdc_rate_limit = \<lparr>frl_root_attestation = Fin 0, frl_revocation = Fin 0, frl_peer_exchange = Fin 0,
         frl_equivocation_evidence = Fin 0, frl_transfer = Fin 0\<rparr>, fdc_integrity_check_on_reconnect = None\<rparr>,
     cf_reputation = \<lparr>rc_evaluation_interval_s = 0, rc_short_s = 0, rc_medium_s = 0, rc_long_s = 0, rc_z_score_threshold = Fin 0,
       rc_default_score = Fin 0, rc_freeze_list_cache_ttl_s = 0, rc_min_population_for_z_score = 0, rc_storage_path = []\<rparr>,
     cf_admission = \<lparr>ac_pressure_admit_threshold = Fin 0, ac_pressure_reject_threshold = Fin 0, ac_queue_cap = 0, ac_trial_tier_score = Fin 0,
       ac_aging_alpha_per_minute = Fin 0, ac_queue_timeout_s = 0, ac_score_weights = \<lparr>aw_settlement_reliability = Fin 0,
         aw_inverse_dispute_rate = Fin 0, aw_tenure = Fin 0, aw_net_credit_flow = Fin 0, aw_balance_cushion = Fin 0\<rparr>,
       ac_net_flow_normalization_constant = 0, ac_tenure_cap_days = 0, ac_starter_grant_credits = 0, ac_rolling_window_days = 0,
       ac_trial_settlements_required = 0, ac_trial_duration_hours = 0, ac_attestation_ttl_seconds = 0, ac_attestation_max_ttl_seconds = 0,
       ac_attestation_issuance_per_consumer_per_hour = 0, ac_max_attestation_score_imported = Fin 0, ac_tlog_path = [],
       ac_snapshot_path_prefix = [], ac_snapshot_interval_s = 0, ac_snapshots_retained = 0, ac_fsync_batch_window_ms = 0,
       ac_heartbeat_window_minutes = 0, ac_heartbeat_freshness_decay_max_s = 0, ac_attestation_peer_blocklist = []\<rparr>,
     cf_stun_turn = \<lparr>stn_stun_listen_addr = [], stn_turn_listen_addr = [], stn_turn_relay_max_kbps = 0, stn_session_ttl_seconds = 0\<rparr>,
     cf_metrics_listen_addr = [], cf_pricing = []\<rparr>"

text \<open>The default weights sum to one within the tolerance of the checks, after rounding.\<close>

lemma default_weights_sum:
  "checkBroker DefaultConfig = []" "checkHealth (fdc_health DefaultFederation) = []"
  "checkAdmission (\<lambda>_. True) (DefaultConfig\<lparr>cf_admission := DefaultAdmissionConfig\<lparr>ac_tlog_path := ''t'', ac_snapshot_path_prefix := ''s''\<rparr>\<rparr>) = []"
  by code_simp+

lemma or_zero [simp]: "or_int 0 d = d" "or_str [] e = e" "or_float (Fin 0) f = f" "dir \<noteq> [] \<Longrightarrow> or_path [] dir e = dir @ e"
  by (simp_all add: or_int_def or_str_def or_float_def or_path_def f_eq_def)

lemma ApplyDefaults_required_only:
  assumes "dir \<noteq> []"
  shows "ApplyDefaults (required_only dir listen ik cert key lp) = DefaultConfig\<lparr>cf_data_dir := dir,
     cf_server := DefaultServer\<lparr>svc_listen_addr := listen, svc_identity_key_path := ik, svc_tls_cert_path := cert, svc_tls_key_path := key\<rparr>,
     cf_ledger := \<lparr>ldc_storage_path = lp, ldc_merkle_root_interval_min = 60\<rparr>,
     cf_reputation := DefaultReputation\<lparr>rc_storage_path := dir @ ''/reputation.sqlite''\<rparr>,
     cf_admission := DefaultAdmissionConfig\<lparr>ac_tlog_path := dir @ ''/admission.tlog'', ac_snapshot_path_prefix := dir @ ''/admission.snapshot''\<rparr>\<rparr>"
  using assms
  by (simp add: ApplyDefaults_def required_only_def DefaultConfig_def defaults_server_def DefaultServer_def defaults_broker_def
      defaults_weights_def DefaultBroker_def f_eq_def defaults_settlement_def DefaultSettlement_def defaults_federation_def
      defaults_health_def defaults_rate_limit_def DefaultFederation_def Let_def defaults_reputation_def DefaultReputation_def
      defaults_admission_def defaults_admission_weights_def DefaultAdmissionConfig_def defaults_stun_turn_def)

lemma default_listeners_ok: "list_all SplitHostPort_ok [''127.0.0.1:9090'', '':9100'', '':3478'', '':3479'']"
  by code_simp

lemma default_sections_ok:
  "checkFederation DefaultConfig = []" "checkSettlement DefaultConfig = []" "checkSTUNTURN DefaultConfig = []" "checkPricing DefaultConfig = []"
  "checkLogLevel DefaultConfig = []"
  by code_simp+

lemma default_reputation_ok: "cf_reputation c = DefaultReputation\<lparr>rc_storage_path := p\<rparr> \<Longrightarrow> p \<noteq> [] \<Longrightarrow> checkReputation c = []"
  by (simp add: checkReputation_def DefaultReputation_def out_of_unit_def f_lt_def)

lemma default_admission_ok:
  "cf_admission c = DefaultAdmissionConfig\<lparr>ac_tlog_path := p, ac_snapshot_path_prefix := q\<rparr> \<Longrightarrow> p \<noteq> [] \<Longrightarrow> q \<noteq> [] \<Longrightarrow> pe p \<Longrightarrow>
     checkAdmission pe c = []"
  using default_weights_sum(3) by (simp add: checkAdmission_def Let_def DefaultAdmissionConfig_def)

text \<open>A section's check reads its own section only.\<close>

lemma check_sections_cong:
  "cf_broker c = cf_broker d \<Longrightarrow> checkBroker c = checkBroker d"
  "cf_settlement c = cf_settlement d \<Longrightarrow> checkSettlement c = checkSettlement d"
  "cf_federation c = cf_federation d \<Longrightarrow> checkFederation c = checkFederation d"
  "cf_stun_turn c = cf_stun_turn d \<Longrightarrow> checkSTUNTURN c = checkSTUNTURN d"
  "cf_pricing c = cf_pricing d \<Longrightarrow> checkPricing c = checkPricing d"
  "cf_log_level c = cf_log_level d \<Longrightarrow> checkLogLevel c = checkLogLevel d"
  by (simp_all add: checkBroker_def checkSettlement_def checkFederation_def checkSTUNTURN_def checkPricing_def checkLogLevel_def)

lemma Validate_required_only:
  assumes "IsAbs dir" "SplitHostPort_ok listen" "listen \<noteq> []" "listen \<notin> {''127.0.0.1:9090'', '':9100'', '':3478'', '':3479''}"
    and "ik \<noteq> []" "cert \<noteq> []" "key \<noteq> []" "lp \<noteq> []" "pe (dir @ ''/admission.tlog'')"
  shows "Validate pe (ApplyDefaults (required_only dir listen ik cert key lp)) = []"
proof -
  let ?c = "ApplyDefaults (required_only dir listen ik cert key lp)"
  have dir: "dir \<noteq> []" using assms(1) by (simp add: IsAbs_def)
  note c = ApplyDefaults_required_only [OF dir, of listen ik cert key lp]
  have "checkRequired ?c = []" "checkServer ?c = []" "checkLedger ?c = []"
    using assms dir by (simp_all add: c checkRequired_def checkServer_def checkLedger_def DefaultServer_def)
  moreover have "checkListeners ?c = []"
    using assms(2,3,4) default_listeners_ok
    by (auto simp: c checkListeners_def listener_loop_Nil listeners_def DefaultConfig_def)
  moreover have "checkReputation ?c = []"
    by (rule default_reputation_ok [of _ "dir @ ''/reputation.sqlite''"]) (simp_all add: c)
  moreover have "checkAdmission pe ?c = []"
    by (rule default_admission_ok [where p = "dir @ ''/admission.tlog''" and q = "dir @ ''/admission.snapshot''"]) (simp_all add: c assms)
  moreover have "checkBroker ?c = []" "checkSettlement ?c = []" "checkFederation ?c = []" "checkSTUNTURN ?c = []" "checkPricing ?c = []"
      "checkLogLevel ?c = []"
    using default_sections_ok default_weights_sum(1) check_sections_cong(1-6) [of ?c DefaultConfig] by (simp_all add: c)
  ultimately show ?thesis by (simp add: Validate_Nil)
qed

text \<open>A file that sets the required fields only is loaded: with an absolute data directory, a valid
  listen address other than the four default ones and non-empty key, certificate and ledger paths, the
  defaults alone satisfy every check, once the directory of the admission log exists.\<close>

theorem minimal_file_loads:
  assumes "parse bs = Inr (required_only dir listen ik cert key lp)"
    and "IsAbs dir" "SplitHostPort_ok listen" "listen \<noteq> []" "listen \<notin> {''127.0.0.1:9090'', '':9100'', '':3478'', '':3479''}"
    and "ik \<noteq> []" "cert \<noteq> []" "key \<noteq> []" "lp \<noteq> []" "pe (dir @ ''/admission.tlog'')"
  shows "Config_Load pe parse path (Inr bs) = Inr (ApplyDefaults (required_only dir listen ik cert key lp))"
  using Validate_required_only [where pe = pe, OF assms(2-10)] assms(1) by (simp add: Config_Load_Inr)

section \<open>Values the file cannot express, and values the checks let through\<close>

text \<open>The periodic peer exchange cannot be turned off from the file, nor can the retries of a stale tip or
  the shutdown grace be set to zero: \<open>ApplyDefaults\<close> replaces a zero before \<open>Validate\<close>, which accepts it, sees it.\<close>

theorem zero_is_not_configurable:
  "fdc_peer_exchange_cadence_s (cf_federation (ApplyDefaults c)) \<noteq> 0 \<and>
   stc_stale_tip_retries (cf_settlement (ApplyDefaults c)) \<noteq> 0 \<and>
   svc_shutdown_grace_s (cf_server (ApplyDefaults c)) \<noteq> 0 \<and>
   ac_trial_settlements_required (cf_admission (ApplyDefaults c)) \<noteq> 0"
  by (simp_all add: ApplyDefaults_def defaults_federation_def defaults_settlement_def defaults_server_def defaults_admission_def
      or_int_def DefaultFederation_def DefaultSettlement_def DefaultServer_def DefaultAdmissionConfig_def)

text \<open>The range checks are written as rejections of values outside the range, so a NaN in the file
  passes: a headroom threshold, the health weights and the default reputation score may all be NaN.\<close>

theorem nan_passes_the_checks:
  assumes "checkBroker c = []" "checkFederation c = []" "checkReputation c = []"
  shows "checkFederation (c\<lparr>cf_federation := (cf_federation c)\<lparr>fdc_health := (fdc_health (cf_federation c))\<lparr>fhc_uptime_weight := NaN\<rparr>\<rparr>\<rparr>) = [] \<and>
     checkBroker (c\<lparr>cf_broker := (cf_broker c)\<lparr>bks_headroom_threshold := NaN\<rparr>\<rparr>) = [] \<and>
     checkReputation (c\<lparr>cf_reputation := (cf_reputation c)\<lparr>rc_default_score := NaN, rc_z_score_threshold := NaN\<rparr>\<rparr>) = []"
  using assms by (auto simp: checkFederation_def checkHealth_def checkBroker_def checkReputation_def Let_def out_of_unit_def f_lt_def f_sub_def
      split: if_splits)

section \<open>Witnesses\<close>

abbreviation demo_config :: Config where
  "demo_config \<equiv> required_only ''/var/lib'' '':7443'' ''k'' ''c'' ''t'' ''/var/lib/ledger''"

lemma demo_listen_ok: "SplitHostPort_ok '':7443''"
  by code_simp

theorem minimal_file_loads_witness:
  "Config_Load (\<lambda>_. True) (\<lambda>_. Inr demo_config) ''tracker.yaml'' (Inr []) = Inr (ApplyDefaults demo_config)"
  using minimal_file_loads [of "\<lambda>_. Inr demo_config" "[]" "''/var/lib''" "'':7443''" "''k''" "''c''" "''t''" "''/var/lib/ledger''" "\<lambda>_. True"]
    demo_listen_ok by (simp add: IsAbs_def)

lemma demo_config_loads: "Config_Load (\<lambda>_. True) (\<lambda>_. Inr demo_config) ''tracker.yaml'' (Inr []) = Inr (ApplyDefaults demo_config)"
  using Validate_required_only [of "''/var/lib''" "'':7443''" "''k''" "''c''" "''t''" "''/var/lib/ledger''" "\<lambda>_. True"] demo_listen_ok
  by (simp add: Config_Load_Inr IsAbs_def)


abbreviation demo_defaults :: Config where
  "demo_defaults \<equiv> DefaultConfig\<lparr>cf_reputation := DefaultReputation\<lparr>rc_storage_path := ''r''\<rparr>\<rparr>"

lemma demo_defaults_ok: "checkBroker demo_defaults = []" "checkFederation demo_defaults = []" "checkReputation demo_defaults = []"
  using default_sections_ok(1) default_weights_sum(1) check_sections_cong(1,3) [of demo_defaults DefaultConfig]
    default_reputation_ok [of demo_defaults "''r''"] by simp_all

theorem nan_passes_the_checks_witness:
  "checkBroker (demo_defaults\<lparr>cf_broker := (cf_broker demo_defaults)\<lparr>bks_headroom_threshold := NaN\<rparr>\<rparr>) = []"
  using nan_passes_the_checks [of demo_defaults] demo_defaults_ok by blast

end
