(* ===== verification/TB_Api.thy ===== *)
theory TB_Api
  imports TB_Settlement TB_Admission TB_Evaluator TB_Stunturn TB_Federation
begin

text \<open>
  The plugin-facing RPC surface (\<open>src/tracker/internal/api\<close>): the router, the mapping of errors to statuses and
  the handler of every method, composed over the models of the ledger, the registry, the broker, the
  settlement, admission, reputation and the relay allocator.

  The protobuf codec of the messages is the record \<open>api_codec\<close>. \<open>api_env\<close> holds what the router was built
  with, the environments of the components it calls, and what time, randomness and remote parties
  contribute to one call; \<open>ax_wired d\<close> says that the dependency \<open>d\<close> is not nil. A broker request that admission
  queues blocks its goroutine: it ends in \<open>HParked\<close> and is resumed by \<open>serve_resume\<close>. Of an internal error
  only the prefix is kept (it is printed in debug mode alone), of a formatted message the text without the
  numbers. The metrics of the bootstrap handler are not modelled.
\<close>

section \<open>Errors and responses\<close>

datatype rpc_err = RpcErr RpcStatus string string | RpcInternal string

definition Api_ErrInvalid :: "string \<Rightarrow> rpc_err" where
  "Api_ErrInvalid msg = RpcErr RPC_STATUS_INVALID ''INVALID'' msg"

definition Api_ErrNoCapacity :: "string \<Rightarrow> rpc_err" where
  "Api_ErrNoCapacity msg = RpcErr RPC_STATUS_NO_CAPACITY ''NO_CAPACITY'' msg"

definition Api_ErrFrozen :: "string \<Rightarrow> rpc_err" where
  "Api_ErrFrozen msg = RpcErr RPC_STATUS_FROZEN ''FROZEN'' msg"

definition Api_ErrNotFound :: "string \<Rightarrow> rpc_err" where
  "Api_ErrNotFound msg = RpcErr RPC_STATUS_NOT_FOUND ''NOT_FOUND'' msg"

definition Api_ErrUnauthenticated :: "string \<Rightarrow> rpc_err" where
  "Api_ErrUnauthenticated msg = RpcErr RPC_STATUS_UNAUTHENTICATED ''UNAUTHENTICATED'' msg"

definition Api_ErrNotImplemented :: "string \<Rightarrow> rpc_err" where
  "Api_ErrNotImplemented rpc = RpcErr RPC_STATUS_INTERNAL ''NOT_IMPLEMENTED'' (rpc @ '' handler awaiting subsystem'')"

definition OkResponse :: "bytes \<Rightarrow> RpcResponse" where
  "OkResponse payload = \<lparr>rs_status = RPC_STATUS_OK, rs_payload = payload, rs_error = None\<rparr>"

definition error_response :: "RpcStatus \<Rightarrow> string \<Rightarrow> string \<Rightarrow> RpcResponse" where
  "error_response status code msg = \<lparr>rs_status = status, rs_payload = [], rs_error = Some \<lparr>re_code = code, re_message = msg\<rparr>\<rparr>"

definition ErrToResponse :: "rpc_err option \<Rightarrow> bool \<Rightarrow> RpcResponse" where
  "ErrToResponse oe debug = (case oe of None \<Rightarrow> OkResponse []
     | Some (RpcErr status code msg) \<Rightarrow> error_response status code msg
     | Some (RpcInternal m) \<Rightarrow> error_response RPC_STATUS_INTERNAL ''INTERNAL'' (if debug then m else ''internal error''))"

section \<open>Messages\<close>

record EnrollRequest =
  er_identity_pubkey :: bytes
  er_role :: u32
  er_account_fingerprint :: bytes
  er_nonce :: bytes
  er_consumer_sig :: bytes

record EnrollResponse =
  ep_identity_id :: bytes
  ep_starter_grant_credits :: u64
  ep_starter_grant_entry :: bytes

text \<open>The headroom is a \<open>float\<close> on the wire, of which every value is a \<open>float64\<close>.\<close>

record Advertisement =
  av_models :: "string list"
  av_max_context :: u32
  av_available :: bool
  av_headroom :: float64
  av_tiers :: u32

record TurnRelayOpenResponse =
  tp_relay_endpoint :: string
  tp_token :: bytes

record api_codec =
  pc_envelope :: "bytes \<Rightarrow> string + EnvelopeSigned"
  pc_enroll :: "bytes \<Rightarrow> string + EnrollRequest"
  pc_balance :: "bytes \<Rightarrow> string + bytes"
  pc_settle :: "bytes \<Rightarrow> string + SettleRequest"
  pc_usage :: "bytes \<Rightarrow> string + UsageReport"
  pc_advertisement :: "bytes \<Rightarrow> string + Advertisement"
  pc_transfer :: "bytes \<Rightarrow> string + TransferRequest"
  pc_stun :: "bytes \<Rightarrow> string option"
  pc_turn :: "bytes \<Rightarrow> string + bytes"
  pe_broker_response :: "BrokerRequestResponse \<Rightarrow> string + bytes"
  pe_enroll_response :: "EnrollResponse \<Rightarrow> string + bytes"
  pe_entry :: "Entry \<Rightarrow> string + bytes"
  pe_snapshot :: "SignedBalanceSnapshot \<Rightarrow> string + bytes"
  pe_ack :: "string + bytes"
  pe_proof :: "StartTransferOutput \<Rightarrow> string + bytes"
  pe_stun :: "string \<Rightarrow> string + bytes"
  pe_turn :: "TurnRelayOpenResponse \<Rightarrow> string + bytes"
  pe_bootstrap :: "BootstrapPeerList \<Rightarrow> string + bytes"

text \<open>\<open>b, _ := proto.Marshal(m)\<close>.\<close>

definition marshalled :: "string + bytes \<Rightarrow> bytes" where
  "marshalled r = (case r of Inl _ \<Rightarrow> [] | Inr b \<Rightarrow> b)"

section \<open>State and environment\<close>

record tracker_state =
  tk_sl :: settle_state
  tk_adm :: Subsystem
  tk_rep :: RepSubsystem
  tk_turn :: Allocator

datatype api_dep = DepLedger | DepRegistry | DepStunTurn | DepBroker | DepSettlement | DepAdmission | DepFederation
  | DepReputation | DepBootstrap

datatype admit_err = AdmitFrozen string | AdmitOther string

record RequestCtx =
  rx_peer_id :: ident
  rx_remote_addr :: string
  rx_now :: time

record api_env =
  ax_codec :: api_codec
  ax_debug :: bool
  ax_wired :: "api_dep \<Rightarrow> bool"
  ax_identity :: "(ident \<Rightarrow> bytes option) option"
  ax_tracker_pub :: bytes
  ax_relay_addr :: string
  ax_crypto :: crypto
  ax_ledger :: ledger_env
  ax_fault :: faults
  ax_ledger_now :: time
  ax_admit :: "bytes \<Rightarrow> bytes \<Rightarrow> admit_err option"
  ax_io :: io_faults
  ax_adm :: adm_env
  ax_rid :: reqid
  ax_jitter :: int
  ax_queue_timeout :: int
  ax_submit :: submit_env
  ax_settle :: settle_env
  ax_rep_bad :: rep_bad
  ax_rep_now :: time
  ax_turn_rand :: "string + bytes"
  ax_reflect :: "string \<Rightarrow> string"
  ax_start :: "StartTransferInput \<Rightarrow> string + StartTransferOutput"
  ax_known_peers :: "int \<Rightarrow> bool \<Rightarrow> string + KnownPeer list"
  ax_issuer :: ident
  ax_sign :: "bytes \<Rightarrow> string + bytes"
  ax_max_peers :: int
  ax_boot_ttl :: int
  ax_wall :: time

datatype handler_out = HOk RpcResponse | HErr rpc_err | HParked reqid | HPanic

definition notImpl :: "string \<Rightarrow> tracker_state \<Rightarrow> handler_out \<times> tracker_state" where
  "notImpl rpc st = (HErr (Api_ErrNotImplemented rpc), st)"

definition upd_bk :: "(broker_state \<Rightarrow> 'a \<times> broker_state) \<Rightarrow> tracker_state \<Rightarrow> 'a \<times> tracker_state" where
  "upd_bk op st = (case op (sl_bk (tk_sl st)) of (x, b) \<Rightarrow> (x, st\<lparr>tk_sl := (tk_sl st)\<lparr>sl_bk := b\<rparr>\<rparr>))"

section \<open>Enroll and balance\<close>

definition enrollStarterGrantCredits :: u64 where "enrollStarterGrantCredits = 1000"

definition grant_event :: "ident \<Rightarrow> time \<Rightarrow> AdmEvent" where
  "grant_event peer now = \<lparr>ae_kind = LedgerEventStarterGrant, ae_consumer_id = peer, ae_seeder_id = zero_id,
     ae_cost_credits = enrollStarterGrantCredits, ae_flags = 0, ae_dispute_upheld = False, ae_timestamp = now\<rparr>"

definition enroll_grant :: "api_env \<Rightarrow> RequestCtx \<Rightarrow> tracker_state \<Rightarrow> handler_out \<times> tracker_state" where
  "enroll_grant ax rc st = (case IssueStarterGrant (ax_ledger ax) (ax_fault ax) (ax_ledger_now ax) (rx_peer_id rc)
         enrollStarterGrantCredits (sl_store (tk_sl st)) of
       (Inl e, s) \<Rightarrow> (HErr (RpcInternal ''enroll: starter_grant: ''), st\<lparr>tk_sl := (tk_sl st)\<lparr>sl_store := s\<rparr>\<rparr>)
     | (Inr entry, s) \<Rightarrow>
       (let st1 = st\<lparr>tk_sl := (tk_sl st)\<lparr>sl_store := s\<rparr>\<rparr>;
            st2 = (if ax_wired ax DepAdmission then st1\<lparr>tk_adm := (tk_adm st1)\<lparr>sb_store :=
                     OnLedgerEvent (ax_io ax) (grant_event (rx_peer_id rc) (rx_now rc)) (sb_store (tk_adm st1))\<rparr>\<rparr> else st1)
        in (case pe_entry (ax_codec ax) entry of Inl e \<Rightarrow> (HErr (RpcInternal ''enroll: marshal entry: ''), st2)
          | Inr entryBytes \<Rightarrow> (HOk (OkResponse (marshalled (pe_enroll_response (ax_codec ax)
              \<lparr>ep_identity_id = rx_peer_id rc, ep_starter_grant_credits = enrollStarterGrantCredits,
               ep_starter_grant_entry = entryBytes\<rparr>))), st2))))"

definition enroll :: "api_env \<Rightarrow> RequestCtx \<Rightarrow> bytes \<Rightarrow> tracker_state \<Rightarrow> handler_out \<times> tracker_state" where
  "enroll ax rc payload st = (if \<not> ax_wired ax DepLedger then notImpl ''enroll'' st
     else (case pc_enroll (ax_codec ax) payload of Inl e \<Rightarrow> (HErr (Api_ErrInvalid (''EnrollRequest: '' @ e)), st)
       | Inr req \<Rightarrow>
         if length (er_identity_pubkey req) \<noteq> 32 then (HErr (Api_ErrInvalid ''identity_pubkey length''), st)
         else if length (er_account_fingerprint req) \<noteq> 32 then (HErr (Api_ErrInvalid ''account_fingerprint length''), st)
         else (case (if ax_wired ax DepAdmission then ax_admit ax (rx_peer_id rc) (er_account_fingerprint req) else None) of
             Some (AdmitFrozen m) \<Rightarrow> (HErr (Api_ErrFrozen m), st)
           | Some (AdmitOther m) \<Rightarrow> (HErr (RpcInternal (''enroll: admission: '' @ m)), st)
           | None \<Rightarrow> enroll_grant ax rc st)))"

definition balance :: "api_env \<Rightarrow> RequestCtx \<Rightarrow> bytes \<Rightarrow> tracker_state \<Rightarrow> handler_out \<times> tracker_state" where
  "balance ax rc payload st = (if \<not> ax_wired ax DepLedger then notImpl ''balance'' st
     else (case pc_balance (ax_codec ax) payload of Inl e \<Rightarrow> (HErr (Api_ErrInvalid (''BalanceRequest: '' @ e)), st)
       | Inr identity \<Rightarrow>
         if length identity \<noteq> 32 then (HErr (Api_ErrInvalid ''identity_id length''), st)
         else (case SignedBalance (ax_ledger ax) (ax_fault ax) (ax_ledger_now ax) identity (sl_store (tk_sl st)) of
             Inl e \<Rightarrow> (HErr (RpcInternal ''balance: ''), st)
           | Inr snap \<Rightarrow> (case pe_snapshot (ax_codec ax) snap of Inl e \<Rightarrow> (HErr (RpcInternal ''balance: marshal snapshot: ''), st)
             | Inr out \<Rightarrow> (HOk (OkResponse out), st)))))"

section \<open>Broker requests\<close>

definition ClassifyProofFidelity :: "ExhaustionProofV1 option \<Rightarrow> string" where
  "ClassifyProofFidelity op = (case op of None \<Rightarrow> ''degraded''
     | Some p \<Rightarrow> (case (xp_stop_failure p, xp_usage_probe p) of
         (None, None) \<Rightarrow> ''degraded''
       | (None, Some _) \<Rightarrow> ''partial''
       | (Some _, None) \<Rightarrow> ''partial''
       | (Some sf, Some _) \<Rightarrow> if sf_matcher sf \<noteq> ''rate_limit'' then ''degraded'' else ''full_two_signal''))"

definition balanceSnapshotTTL :: int where "balanceSnapshotTTL = seconds 600"

definition verifyBrokerRequest :: "api_env \<Rightarrow> (ident \<Rightarrow> bytes option) \<Rightarrow> EnvelopeSigned \<Rightarrow> EnvelopeBody \<Rightarrow> ident \<Rightarrow> time \<Rightarrow> rpc_err option" where
  "verifyBrokerRequest ax resolver env body consumer now = (case resolver consumer of
       None \<Rightarrow> Some (Api_ErrUnauthenticated ''consumer not connected'')
     | Some pub \<Rightarrow>
       if \<not> VerifyEnvelope (ax_crypto ax) pub (Some env) then Some (Api_ErrUnauthenticated ''envelope signature invalid'')
       else (case ev_balance_proof body of None \<Rightarrow> Some (Api_ErrInvalid ''balance_proof missing body'')
         | Some bal \<Rightarrow> (case sb_body bal of None \<Rightarrow> Some (Api_ErrInvalid ''balance_proof missing body'')
           | Some b \<Rightarrow>
             if \<not> VerifyBalanceSnapshot (ax_crypto ax) (ax_tracker_pub ax) (Some bal) then Some (Api_ErrInvalid ''balance_proof signature invalid'')
             else if time_sub now (seconds (sint (bs_issued_at b))) > balanceSnapshotTTL then Some (Api_ErrInvalid ''balance_proof stale'')
             else None)))"

definition brokerResultToResponse :: "api_env \<Rightarrow> Result \<Rightarrow> handler_out" where
  "brokerResultToResponse ax res = (case
       (if rr_outcome res = OutcomeAdmit then (case rr_admit res of None \<Rightarrow> Inl HPanic
          | Some a \<Rightarrow> Inr (OSeederAssignment (Some \<lparr>sa_seeder_addr = map (\<lambda>c. of_nat (of_char c)) (as_seeder_addr a),
              sa_seeder_pubkey = as_seeder_pubkey a, sa_reservation_token = as_reservation_token a\<rparr>)))
        else if rr_outcome res = OutcomeNoCapacity then (case rr_no_cap res of None \<Rightarrow> Inl HPanic | Some r \<Rightarrow> Inr (ONoCapacity (Some r)))
        else Inl (HErr (RpcInternal ''api: unexpected broker outcome''))) of
       Inl out \<Rightarrow> out
     | Inr outcome \<Rightarrow> (case pe_broker_response (ax_codec ax) \<lparr>br_outcome = Some outcome\<rparr> of Inl e \<Rightarrow> HErr (RpcInternal e)
         | Inr bs \<Rightarrow> HOk (OkResponse bs)))"

fun reject_code :: "RejectReason \<Rightarrow> int" where
  "reject_code RejectReasonUnspecified = 0"
| "reject_code RejectReasonRegionOverloaded = 1"
| "reject_code RejectReasonQueueTimeout = 2"

definition rejection :: "RejectedDetails \<Rightarrow> BrokerRequestResponse" where
  "rejection rd = \<lparr>br_outcome = Some (ORejected (Some \<lparr>rj_reason = reject_code (rd_reason rd), rj_retry_after_s = rd_retry_after_s rd\<rparr>))\<rparr>"

definition rejectedToResponse :: "api_env \<Rightarrow> RejectedDetails \<Rightarrow> handler_out" where
  "rejectedToResponse ax rd = (case pe_broker_response (ax_codec ax) (rejection rd) of Inl e \<Rightarrow> HErr (RpcInternal e)
     | Inr bs \<Rightarrow> HOk (OkResponse bs))"

text \<open>After the checks: the decision of admission and what follows from it.\<close>

definition broker_decided :: "api_env \<Rightarrow> EnvelopeSigned \<Rightarrow> AdmResult \<Rightarrow> tracker_state \<Rightarrow> handler_out \<times> tracker_state" where
  "broker_decided ax env res st = (case dr_outcome res of
       AdmAdmit \<Rightarrow> (case upd_bk (Submit (ax_submit ax) (Some env)) st of
           (Inl ErrUnknownModel, st1) \<Rightarrow> (HErr (Api_ErrInvalid ''UNKNOWN_MODEL''), st1)
         | (Inl ErrIdentityFrozen, st1) \<Rightarrow> (HErr (Api_ErrFrozen ''identity revoked by peer tracker''), st1)
         | (Inl e, st1) \<Rightarrow> (HErr (RpcInternal ''broker''), st1)
         | (Inr r, st1) \<Rightarrow> (brokerResultToResponse ax r, st1))
     | AdmQueue \<Rightarrow> (case dr_queued res of None \<Rightarrow> (HErr (RpcInternal ''api: admission returned OutcomeQueue with nil Queued''), st)
         | Some q \<Rightarrow> (HParked (QueuedDetails.qd_request_id q), snd (upd_bk (\<lambda>b. ((), RegisterQueued (Some env) (QueuedDetails.qd_request_id q) b)) st)))
     | AdmReject \<Rightarrow> (case dr_rejected res of None \<Rightarrow> HPanic | Some rd \<Rightarrow> rejectedToResponse ax rd, st)
     | AdmUnspecified \<Rightarrow> (HErr (RpcInternal ''api: admission returned unknown outcome''), st))"

definition upd_rep :: "api_env \<Rightarrow> (RepSubsystem \<Rightarrow> string option \<times> RepSubsystem) \<Rightarrow> tracker_state \<Rightarrow> tracker_state" where
  "upd_rep ax op st = (if ax_wired ax DepReputation then st\<lparr>tk_rep := snd (op (tk_rep st))\<rparr> else st)"

definition verify_enabled :: "api_env \<Rightarrow> bool" where
  "verify_enabled ax \<longleftrightarrow> ax_identity ax \<noteq> None \<and> length (ax_tracker_pub ax) = PublicKeySize"

definition broker_request :: "api_env \<Rightarrow> RequestCtx \<Rightarrow> bytes \<Rightarrow> tracker_state \<Rightarrow> handler_out \<times> tracker_state" where
  "broker_request ax rc payload st =
     (if \<not> ax_wired ax DepBroker \<or> \<not> ax_wired ax DepAdmission then notImpl ''broker_request'' st
      else (case pc_envelope (ax_codec ax) payload of Inl e \<Rightarrow> (HErr (Api_ErrInvalid (''EnvelopeSigned: '' @ e)), st)
       | Inr env \<Rightarrow> (case es_body env of None \<Rightarrow> (HErr (Api_ErrInvalid ''EnvelopeSigned.Body nil''), st)
       | Some body \<Rightarrow> (case ValidateEnvelopeBody (Some body) of Some e \<Rightarrow> (HErr (Api_ErrInvalid (''EnvelopeBody: '' @ e)), st)
       | None \<Rightarrow>
         (let consumer = to_array 32 (ev_consumer_id body);
              st1 = upd_rep ax (RecordBrokerRequest (ax_rep_bad ax) (ax_rep_now ax) consumer) st
          in (case (if verify_enabled ax then verifyBrokerRequest ax (the (ax_identity ax)) env body consumer (rx_now rc) else None) of
               Some e \<Rightarrow> (HErr e, st1)
             | None \<Rightarrow>
               (let st2 = (if verify_enabled ax then upd_rep ax (RecordProofFidelity (ax_rep_bad ax) (ax_rep_now ax) consumer
                             (ClassifyProofFidelity (ev_exhaustion_proof body))) st1 else st1)
                in (case Decide (ax_adm ax) (ax_rid ax) (ax_jitter ax) consumer None (rx_now rc) (tk_adm st2) of
                     (res, adm) \<Rightarrow> broker_decided ax env res (st2\<lparr>tk_adm := adm\<rparr>)))))))))"

text \<open>What wakes a parked request: a delivered result, the timer, or the end of the call's context.\<close>

datatype wake = Delivered "Result option" | TimerFired | CallDone

definition queueTimeoutFallback :: int where "queueTimeoutFallback = seconds 300"

definition queue_wait :: "api_env \<Rightarrow> int" where
  "queue_wait ax = (if ax_queue_timeout ax \<le> 0 then queueTimeoutFallback else ax_queue_timeout ax)"

definition serve_resume :: "api_env \<Rightarrow> reqid \<Rightarrow> wake \<Rightarrow> tracker_state \<Rightarrow> handler_out \<times> tracker_state" where
  "serve_resume ax i w st = (case w of
       Delivered None \<Rightarrow> (HErr (RpcInternal ''api: broker delivered nil result for queued envelope''), st)
     | Delivered (Some res) \<Rightarrow> (brokerResultToResponse ax res, st)
     | TimerFired \<Rightarrow> (rejectedToResponse ax \<lparr>rd_reason = RejectReasonQueueTimeout, rd_retry_after_s = of_int (queue_wait ax sdiv second_ns)\<rparr>,
         snd (upd_bk (\<lambda>b. ((), CancelQueued i b)) st))
     | CallDone \<Rightarrow> (HErr (RpcInternal ''context''), snd (upd_bk (\<lambda>b. ((), CancelQueued i b)) st)))"

section \<open>Usage reports and settlement\<close>

definition mapSettlementError :: "settle_err \<Rightarrow> rpc_err" where
  "mapSettlementError e =
     (if e = StSession ErrUnknownRequest then Api_ErrNotFound ''unknown request_id''
      else if e = StBroker ErrSeederMismatch then Api_ErrInvalid ''SEEDER_MISMATCH''
      else if e = StBroker ErrModelMismatch then Api_ErrInvalid ''MODEL_MISMATCH''
      else if e = StBroker ErrCostOverspend then Api_ErrInvalid ''COST_OVERSPEND''
      else if e = StBroker ErrSeederSigInvalid then Api_ErrInvalid ''SEEDER_SIG_INVALID''
      else if e = StBroker ErrInvalidState \<or> e = StSession ErrIllegalTransition then Api_ErrInvalid ''INVALID_STATE''
      else if e = StBroker ErrConsumerSig then Api_ErrInvalid ''CONSUMER_SIG_INVALID''
      else if e = StBroker ErrUnknownPreimage then Api_ErrNotFound ''unknown preimage_hash''
      else if e = StBroker ErrDuplicateSettle then Api_ErrInvalid ''DUPLICATE_SETTLE''
      else if e = StBroker ErrDuplicateUsageReport then Api_ErrInvalid ''DUPLICATE_USAGE_REPORT''
      else RpcInternal ''settlement'')"

definition settle_reply :: "api_env \<Rightarrow> (settle_err + unit) \<times> settle_state \<Rightarrow> tracker_state \<Rightarrow> handler_out \<times> tracker_state" where
  "settle_reply ax r st = (case r of (Inl e, sl) \<Rightarrow> (HErr (mapSettlementError e), st\<lparr>tk_sl := sl\<rparr>)
     | (Inr _, sl) \<Rightarrow> (HOk (OkResponse (marshalled (pe_ack (ax_codec ax)))), st\<lparr>tk_sl := sl\<rparr>))"

definition usage_report :: "api_env \<Rightarrow> RequestCtx \<Rightarrow> bytes \<Rightarrow> tracker_state \<Rightarrow> handler_out \<times> tracker_state" where
  "usage_report ax rc payload st = (if \<not> ax_wired ax DepSettlement then notImpl ''usage_report'' st
     else (case pc_usage (ax_codec ax) payload of Inl e \<Rightarrow> (HErr (Api_ErrInvalid (''UsageReport: '' @ e)), st)
       | Inr report \<Rightarrow>
         if length (ur_request_id report) \<noteq> 16 then (HErr (Api_ErrInvalid ''UsageReport.request_id: want 16 bytes''), st)
         else if ur_model report = [] then (HErr (Api_ErrInvalid ''UsageReport.model: empty''), st)
         else settle_reply ax (HandleUsageReport (ax_settle ax) (rx_peer_id rc) (Some report) (tk_sl st)) st))"

definition settle :: "api_env \<Rightarrow> RequestCtx \<Rightarrow> bytes \<Rightarrow> tracker_state \<Rightarrow> handler_out \<times> tracker_state" where
  "settle ax rc payload st = (if \<not> ax_wired ax DepSettlement then notImpl ''settle'' st
     else (case pc_settle (ax_codec ax) payload of Inl e \<Rightarrow> (HErr (Api_ErrInvalid (''SettleRequest: '' @ e)), st)
       | Inr req \<Rightarrow>
         if length (sr_preimage_hash req) \<noteq> 32 then (HErr (Api_ErrInvalid ''preimage_hash length''), st)
         else settle_reply ax (HandleSettle (ax_settle ax) (rx_peer_id rc) (Some req) (tk_sl st)) st))"

section \<open>Advertise\<close>

definition tiersFromBitmask :: "u32 \<Rightarrow> PrivacyTier list" where
  "tiersFromBitmask b = (if and b 1 \<noteq> 0 then [PRIVACY_TIER_STANDARD] else []) @ (if and b 2 \<noteq> 0 then [PRIVACY_TIER_TEE] else [])"

definition advertise :: "api_env \<Rightarrow> RequestCtx \<Rightarrow> bytes \<Rightarrow> tracker_state \<Rightarrow> handler_out \<times> tracker_state" where
  "advertise ax rc payload st = (if \<not> ax_wired ax DepRegistry then notImpl ''advertise'' st
     else (case pc_advertisement (ax_codec ax) payload of Inl e \<Rightarrow> (HErr (Api_ErrInvalid (''Advertisement: '' @ e)), st)
       | Inr ad \<Rightarrow>
         (case upd_bk (upd_registry (Advertise (rx_peer_id rc) \<lparr>ca_models = av_models ad, ca_max_context = av_max_context ad,
               ca_tiers = tiersFromBitmask (av_tiers ad), ca_attestation = []\<rparr> (av_available ad) (av_headroom ad))) st of
            (Some e, st1) \<Rightarrow> (HErr (RpcInternal ''advertise: ''), st1)
          | (None, st1) \<Rightarrow> (HOk (OkResponse []), st1))))"

section \<open>Transfers\<close>

definition transfer_err :: "api_err \<Rightarrow> rpc_err" where
  "transfer_err e = (case e of ApiInvalid m \<Rightarrow> Api_ErrInvalid m | ApiUnauthenticated m \<Rightarrow> Api_ErrUnauthenticated m
     | ApiInternal m \<Rightarrow> RpcInternal m)"

text \<open>\<open>ax_start\<close> is the answer of federation's \<open>StartTransfer\<close>, which waits for the source tracker.\<close>

definition transfer_request :: "api_env \<Rightarrow> RequestCtx \<Rightarrow> bytes \<Rightarrow> tracker_state \<Rightarrow> handler_out \<times> tracker_state" where
  "transfer_request ax rc payload st =
     (if \<not> ax_wired ax DepFederation \<or> length (ax_tracker_pub ax) \<noteq> PublicKeySize then notImpl ''transfer_request'' st
      else (case pc_transfer (ax_codec ax) payload of Inl e \<Rightarrow> (HErr (Api_ErrInvalid (''TransferRequest: '' @ e)), st)
       | Inr req \<Rightarrow> (case transfer_request_check (ax_crypto ax) (ax_tracker_pub ax) req of Some e \<Rightarrow> (HErr (transfer_err e), st)
         | None \<Rightarrow> (case ax_start ax (api_input req) of Inl e \<Rightarrow> (HErr (RpcInternal (''transfer_request: federation: '' @ e)), st)
           | Inr proof \<Rightarrow> (case pe_proof (ax_codec ax) proof of Inl e \<Rightarrow> (HErr (RpcInternal ''transfer_request: marshal proof: ''), st)
             | Inr bs \<Rightarrow> (HOk (OkResponse bs), st))))))"

section \<open>Relay\<close>

definition stun_allocate :: "api_env \<Rightarrow> RequestCtx \<Rightarrow> bytes \<Rightarrow> tracker_state \<Rightarrow> handler_out \<times> tracker_state" where
  "stun_allocate ax rc payload st = (if \<not> ax_wired ax DepStunTurn then notImpl ''stun_allocate'' st
     else (case (if length payload > 0 then pc_stun (ax_codec ax) payload else None) of
         Some e \<Rightarrow> (HErr (Api_ErrInvalid (''StunAllocateRequest: '' @ e)), st)
       | None \<Rightarrow> (case pe_stun (ax_codec ax) (ax_reflect ax (rx_remote_addr rc)) of Inl e \<Rightarrow> (HErr (RpcInternal e), st)
         | Inr b \<Rightarrow> (HOk (OkResponse b), st))))"

definition fallbackRelayAddr :: string where "fallbackRelayAddr = ''127.0.0.1:0''"

text \<open>The two parties of the relay: with a broker, those of the reservation, of which the caller must be one.\<close>

definition turn_parties :: "api_env \<Rightarrow> ident \<Rightarrow> reqid \<Rightarrow> tracker_state \<Rightarrow> rpc_err + ident \<times> ident" where
  "turn_parties ax peer rid st = (if \<not> ax_wired ax DepBroker then Inr (peer, peer)
     else (case Broker_LookupAssignment rid (sl_bk (tk_sl st)) of
         None \<Rightarrow> Inl (Api_ErrInvalid ''turn_relay_open: unknown reservation_token'')
       | Some (c, s) \<Rightarrow> if peer \<noteq> c \<and> peer \<noteq> s then Inl (Api_ErrUnauthenticated ''turn_relay_open: caller not party to reservation'')
           else Inr (c, s)))"

definition turn_reply :: "api_env \<Rightarrow> turn_err + TurnSession \<Rightarrow> handler_out" where
  "turn_reply ax r = (case r of
       Inl e \<Rightarrow> HErr (if e = ErrThrottled then Api_ErrNoCapacity ''turn_relay_open: seeder bandwidth budget exceeded''
         else if e = turn_err.ErrDuplicateRequest then Api_ErrInvalid ''turn_relay_open: duplicate request_id''
         else RpcInternal ''turn_relay_open: '')
     | Inr sess \<Rightarrow> HOk (OkResponse (marshalled (pe_turn (ax_codec ax) \<lparr>tp_relay_endpoint =
         (if ax_relay_addr ax = [] then fallbackRelayAddr else ax_relay_addr ax), tp_token = ts_token sess\<rparr>))))"

definition turn_relay_open :: "api_env \<Rightarrow> RequestCtx \<Rightarrow> bytes \<Rightarrow> tracker_state \<Rightarrow> handler_out \<times> tracker_state" where
  "turn_relay_open ax rc payload st = (if \<not> ax_wired ax DepStunTurn then notImpl ''turn_relay_open'' st
     else (case pc_turn (ax_codec ax) payload of Inl e \<Rightarrow> (HErr (Api_ErrInvalid (''TurnRelayOpenRequest: '' @ e)), st)
       | Inr sid \<Rightarrow>
         if length sid \<noteq> 16 then (HErr (Api_ErrInvalid ''session_id length''), st)
         else (let rid = to_array 16 sid in
           (case turn_parties ax (rx_peer_id rc) rid st of Inl e \<Rightarrow> (HErr e, st)
            | Inr (consumer, seeder) \<Rightarrow>
              (case Allocate (ax_turn_rand ax) consumer seeder rid (rx_now rc) (tk_turn st) of
                 (r, a) \<Rightarrow> (turn_reply ax r, st\<lparr>tk_turn := a\<rparr>))))))"

section \<open>Bootstrap peers\<close>

definition bootstrap_peer :: "KnownPeer \<Rightarrow> BootstrapPeer" where
  "bootstrap_peer row = \<lparr>bp_tracker_id = kn_tracker_id row, bp_addr = kn_addr row, bp_region_hint = kn_region_hint row,
     bp_health_score = kn_health_score row, bp_last_seen = of_int (kn_last_seen row)\<rparr>"

text \<open>The loop over the rows, which stops when \<open>max\<close> are collected; \<open>n\<close> counts them.\<close>

fun bootstrap_rows :: "int \<Rightarrow> bytes \<Rightarrow> int \<Rightarrow> KnownPeer list \<Rightarrow> BootstrapPeer list" where
  "bootstrap_rows limit issuer n [] = []"
| "bootstrap_rows limit issuer n (row # rows) =
     (if kn_tracker_id row = issuer then bootstrap_rows limit issuer n rows
      else if n + 1 \<ge> limit then [bootstrap_peer row]
      else bootstrap_peer row # bootstrap_rows limit issuer (n + 1) rows)"

definition bootstrap_list :: "api_env \<Rightarrow> RequestCtx \<Rightarrow> BootstrapPeer list \<Rightarrow> BootstrapPeerList" where
  "bootstrap_list ax rc out = (let now = (if rx_now rc = zero_time then ax_wall ax else rx_now rc);
       ttl = (if ax_boot_ttl ax \<le> 0 then seconds 600 else ax_boot_ttl ax)
     in \<lparr>bl_issuer_id = ax_issuer ax, bl_signed_at = of_int (unix now), bl_expires_at = of_int (unix (now + ttl)),
         bl_peers = map Some out, bl_sig = []\<rparr>)"

definition bootstrap_peers :: "api_env \<Rightarrow> RequestCtx \<Rightarrow> tracker_state \<Rightarrow> handler_out \<times> tracker_state" where
  "bootstrap_peers ax rc st = (if \<not> ax_wired ax DepBootstrap then notImpl ''bootstrap_peers'' st
     else (let limit = (if ax_max_peers ax \<le> 0 then 50 else ax_max_peers ax) in
       (case ax_known_peers ax (limit + 1) True of
          Inl e \<Rightarrow> (HOk (error_response RPC_STATUS_INTERNAL ''BOOTSTRAP_LIST_STORAGE'' e), st)
        | Inr rows \<Rightarrow>
          (let lst = bootstrap_list ax rc (bootstrap_rows limit (ax_issuer ax) 0 rows) in
           (case pe_bootstrap (ax_codec ax) lst of Inl e \<Rightarrow> (HErr (RpcInternal (''bootstrap_peers: canonical: '' @ e)), st)
            | Inr cb \<Rightarrow> (case ax_sign ax cb of
                Inl e \<Rightarrow> (HOk (error_response RPC_STATUS_INTERNAL ''BOOTSTRAP_LIST_SIGN'' e), st)
              | Inr sig \<Rightarrow> (case pe_bootstrap (ax_codec ax) (lst\<lparr>bl_sig := sig\<rparr>) of
                  Inl e \<Rightarrow> (HErr (RpcInternal (''bootstrap_peers: marshal: '' @ e)), st)
                | Inr payload \<Rightarrow> (HOk (OkResponse payload), st))))))))"

section \<open>The router\<close>

definition handler :: "api_env \<Rightarrow> RpcMethod \<Rightarrow> (RequestCtx \<Rightarrow> bytes \<Rightarrow> tracker_state \<Rightarrow> handler_out \<times> tracker_state) option" where
  "handler ax m = (case m of
       RPC_METHOD_ENROLL \<Rightarrow> Some (enroll ax)
     | RPC_METHOD_BROKER_REQUEST \<Rightarrow> Some (broker_request ax)
     | RPC_METHOD_BALANCE \<Rightarrow> Some (balance ax)
     | RPC_METHOD_SETTLE \<Rightarrow> Some (settle ax)
     | RPC_METHOD_USAGE_REPORT \<Rightarrow> Some (usage_report ax)
     | RPC_METHOD_ADVERTISE \<Rightarrow> Some (advertise ax)
     | RPC_METHOD_TRANSFER_REQUEST \<Rightarrow> Some (transfer_request ax)
     | RPC_METHOD_STUN_ALLOCATE \<Rightarrow> Some (stun_allocate ax)
     | RPC_METHOD_TURN_RELAY_OPEN \<Rightarrow> Some (turn_relay_open ax)
     | RPC_METHOD_BOOTSTRAP_PEERS \<Rightarrow> Some (\<lambda>rc _. bootstrap_peers ax rc)
     | _ \<Rightarrow> None)"

datatype dispatch_out = Replied RpcResponse | Parked reqid | Panicked

definition dispatched :: "api_env \<Rightarrow> handler_out \<Rightarrow> dispatch_out" where
  "dispatched ax out = (case out of HOk resp \<Rightarrow> Replied resp | HErr e \<Rightarrow> Replied (ErrToResponse (Some e) (ax_debug ax))
     | HParked i \<Rightarrow> Parked i | HPanic \<Rightarrow> Panicked)"

definition Dispatch :: "api_env \<Rightarrow> RequestCtx \<Rightarrow> RpcRequest \<Rightarrow> tracker_state \<Rightarrow> dispatch_out \<times> tracker_state" where
  "Dispatch ax rc req st =
     (if rq_method req = RPC_METHOD_UNSPECIFIED
      then (Replied (error_response RPC_STATUS_INVALID ''METHOD_ZERO_RESERVED'' ''method 0 reserved for heartbeat channel''), st)
      else (case handler ax (rq_method req) of
          None \<Rightarrow> (Replied (error_response RPC_STATUS_INVALID ''UNKNOWN_METHOD'' ''''), st)
        | Some h \<Rightarrow> (case h rc (rq_payload req) st of (out, st1) \<Rightarrow> (dispatched ax out, st1))))"

end
