(* ===== verification/TB_Api_Spec.thy ===== *)
theory TB_Api_Spec
  imports TB_Api TB_Ledger_Props
begin

text \<open>
  The RPC surface: every reply is well-formed and no handler panics; what a broker request must carry
  before anything happens on its behalf; who may open a relay; and two weaknesses of the handlers, a
  balance proof that anyone can present and a starter grant that is paid on every call.
\<close>

section \<open>Replies\<close>

definition reply_ok :: "RpcResponse \<Rightarrow> bool" where
  "reply_ok r \<longleftrightarrow> rs_status r \<in> {RPC_STATUS_OK, RPC_STATUS_INVALID, RPC_STATUS_NO_CAPACITY,
          RPC_STATUS_FROZEN, RPC_STATUS_INTERNAL, RPC_STATUS_UNAUTHENTICATED, RPC_STATUS_NOT_FOUND} \<and>
     (rs_status r \<noteq> RPC_STATUS_OK \<longrightarrow> (\<exists>e. rs_error r = Some e \<and> re_code e \<noteq> []))"

lemma ValidateRPCResponse_reply:
  "reply_ok r \<Longrightarrow> length (rs_payload r) \<le> MaxRPCPayloadSize \<Longrightarrow> ValidateRPCResponse (Some r) = None"
  by (auto simp: reply_ok_def ValidateRPCResponse_def)

text \<open>Errors that a handler may return, and outcomes of a handler that make an orderly reply.\<close>

definition err_ok :: "rpc_err \<Rightarrow> bool" where
  "err_ok e \<longleftrightarrow> (case e of RpcInternal _ \<Rightarrow> True | RpcErr status code _ \<Rightarrow> code \<noteq> [] \<and>
     status \<in> {RPC_STATUS_INVALID, RPC_STATUS_NO_CAPACITY, RPC_STATUS_FROZEN, RPC_STATUS_INTERNAL, RPC_STATUS_UNAUTHENTICATED, RPC_STATUS_NOT_FOUND})"

definition out_ok :: "handler_out \<Rightarrow> bool" where
  "out_ok h \<longleftrightarrow> (case h of HOk r \<Rightarrow> reply_ok r | HErr e \<Rightarrow> err_ok e | HParked _ \<Rightarrow> True | HPanic \<Rightarrow> False)"

lemmas api_errs = Api_ErrInvalid_def Api_ErrNoCapacity_def Api_ErrFrozen_def Api_ErrNotFound_def Api_ErrUnauthenticated_def Api_ErrNotImplemented_def

lemma err_ok_simps [simp]:
  "err_ok (Api_ErrInvalid m)" "err_ok (Api_ErrNoCapacity m)" "err_ok (Api_ErrFrozen m)" "err_ok (Api_ErrNotFound m)"
  "err_ok (Api_ErrUnauthenticated m)" "err_ok (Api_ErrNotImplemented m)" "err_ok (RpcInternal m)"
  by (simp_all add: err_ok_def api_errs)

lemma out_ok_simps [simp]:
  "out_ok (HErr e) = err_ok e" "out_ok (HParked i)" "out_ok (HOk (OkResponse p))" "\<not> out_ok HPanic"
  "c \<noteq> [] \<Longrightarrow> out_ok (HOk (error_response RPC_STATUS_INTERNAL c m))"
  by (simp_all add: out_ok_def reply_ok_def OkResponse_def error_response_def)

lemma notImpl_ok [simp]: "out_ok (fst (notImpl rpc st))"
  by (simp add: notImpl_def)

lemma dispatched_ok:
  assumes "out_ok h"
  shows "dispatched ax h \<noteq> Panicked" "dispatched ax h = Replied r \<Longrightarrow> reply_ok r"
  using assms by (auto simp: out_ok_def dispatched_def ErrToResponse_def error_response_def reply_ok_def err_ok_def
      split: handler_out.splits rpc_err.splits if_splits)

text \<open>A result of the broker is an assignment or a refusal, and carries the details of what it is.\<close>

definition result_ok :: "Result \<Rightarrow> bool" where
  "result_ok r \<longleftrightarrow> rr_outcome r = OutcomeAdmit \<and> rr_admit r \<noteq> None \<or> rr_outcome r = OutcomeNoCapacity \<and> rr_no_cap r \<noteq> None"

lemma no_capacity_ok [simp]: "result_ok (no_capacity m)"
  by (simp add: result_ok_def no_capacity_def)

lemma offer_loop_result:
  "offer_loop env body h i n k tried any st = (LoopReturn (Inr r), st') \<Longrightarrow> result_ok r"
  by (induction env body h i n k tried any st arbitrary: st' rule: offer_loop.induct)
    (auto simp: Let_def result_ok_def split: list.splits prod.splits sum.splits option.splits if_splits)

lemma Submit_result: "Submit env oe st = (Inr r, st') \<Longrightarrow> result_ok r"
  by (auto simp: Submit_def Let_def dest: offer_loop_result split: option.splits sum.splits prod.splits if_splits loop_out.splits)

lemma brokerResult_ok [simp]: "result_ok r \<Longrightarrow> out_ok (brokerResultToResponse ax r)"
  by (auto simp: brokerResultToResponse_def result_ok_def split: option.splits sum.splits)

lemma rejected_ok [simp]: "out_ok (rejectedToResponse ax rd)"
  by (simp add: rejectedToResponse_def split: sum.split)

lemma Decide_rejected: "Decide env rid j c att now s = (res, s') \<Longrightarrow> dr_outcome res = AdmReject \<Longrightarrow> \<exists>rd. dr_rejected res = Some rd"
  by (auto simp: Decide_def Let_def split: if_splits)

lemma broker_decided_ok:
  assumes "dr_outcome res = AdmReject \<Longrightarrow> \<exists>rd. dr_rejected res = Some rd"
  shows "out_ok (fst (broker_decided ax env res st))"
  using assms
  by (auto simp: broker_decided_def upd_bk_def dest: Submit_result split: AdmOutcome.splits option.splits prod.splits sum.splits broker_err.splits)

lemma verify_err_ok: "verifyBrokerRequest ax res env body c now = Some e \<Longrightarrow> err_ok e"
  by (auto simp: verifyBrokerRequest_def split: option.splits if_splits)

lemma broker_request_ok: "out_ok (fst (broker_request ax rc p st))"
  by (auto simp: broker_request_def Let_def intro!: broker_decided_ok dest: verify_err_ok Decide_rejected
      split: sum.splits option.splits prod.splits if_splits)

lemma mapSettlementError_ok [simp]: "err_ok (mapSettlementError e)"
  by (simp add: mapSettlementError_def)

lemma settle_reply_ok [simp]: "out_ok (fst (settle_reply ax r st))"
  by (simp add: settle_reply_def split: prod.split sum.split)

lemma enroll_ok: "out_ok (fst (enroll ax rc p st))"
  by (simp add: enroll_def enroll_grant_def Let_def split: sum.split option.split prod.split admit_err.split)

lemma balance_ok: "out_ok (fst (balance ax rc p st))"
  by (simp add: balance_def split: sum.split)

lemma usage_report_ok: "out_ok (fst (usage_report ax rc p st))" and settle_ok: "out_ok (fst (settle ax rc p st))"
  by (simp_all add: usage_report_def settle_def split: sum.split)

lemma advertise_ok: "out_ok (fst (advertise ax rc p st))"
  by (simp add: advertise_def split: sum.split prod.split option.split)

lemma transfer_ok: "out_ok (fst (transfer_request ax rc p st))"
  by (auto simp: transfer_request_def transfer_err_def split: sum.splits option.splits api_err.splits)

lemma stun_ok: "out_ok (fst (stun_allocate ax rc p st))"
  by (simp add: stun_allocate_def split: sum.split option.split)

lemma turn_reply_ok [simp]: "out_ok (turn_reply ax r)"
  by (simp add: turn_reply_def split: sum.split)

lemma turn_parties_err: "turn_parties ax peer rid st = Inl e \<Longrightarrow> err_ok e"
  by (auto simp: turn_parties_def split: if_splits option.splits)

lemma turn_ok: "out_ok (fst (turn_relay_open ax rc p st))"
  by (auto simp: turn_relay_open_def Let_def dest: turn_parties_err split: sum.split prod.split)

lemma bootstrap_ok: "out_ok (fst (bootstrap_peers ax rc st))"
  by (simp add: bootstrap_peers_def Let_def split: sum.split)

lemmas handlers_ok = broker_request_ok enroll_ok balance_ok usage_report_ok settle_ok advertise_ok transfer_ok stun_ok turn_ok bootstrap_ok

lemma handler_ok: "handler ax m = Some h \<Longrightarrow> out_ok (fst (h rc p st))"
  by (auto simp: handler_def handlers_ok split: RpcMethod.splits)


section \<open>Broker requests\<close>

lemma verify_accepts:
  "verifyBrokerRequest ax resolver env body c now = None \<longleftrightarrow> (\<exists>pub bal b. resolver c = Some pub \<and>
     VerifyEnvelope (ax_crypto ax) pub (Some env) \<and> ev_balance_proof body = Some bal \<and> sb_body bal = Some b \<and>
     VerifyBalanceSnapshot (ax_crypto ax) (ax_tracker_pub ax) (Some bal) \<and>
     time_sub now (seconds (sint (bs_issued_at b))) \<le> balanceSnapshotTTL)"
  by (auto simp: verifyBrokerRequest_def split: option.splits if_splits)

lemma upd_rep_other [simp]: "tk_sl (upd_rep ax f st) = tk_sl st" "tk_adm (upd_rep ax f st) = tk_adm st"
  by (simp_all add: upd_rep_def)


section \<open>Weaknesses\<close>

lemma sint_unixSecondsU:
  assumes "0 \<le> unix t" "unix t < 2 ^ 63"
  shows "sint (unixSecondsU t) = unix t"
  using assms by (simp add: unixSecondsU_def Let_def sint_sbintrunc' signed_take_bit_int_eq_self)

lemma SignedBalance_snapshot:
  assumes "SignedBalance env flt t j s = Inr snap" "sig_correct (le_crypto env) (le_key env) pub"
  shows "VerifyBalanceSnapshot (le_crypto env) pub (Some snap) \<and>
    (\<exists>b. sb_body snap = Some b \<and> bs_credits b = abs_bal s j \<and> bs_issued_at b = unixSecondsU t)"
proof -
  have "br_credits (case st_balances s j of None \<Rightarrow> zero_balance | Some b \<Rightarrow> b) = abs_bal s j"
    by (auto simp: abs_bal_def credits_of_def zero_balance_def split: option.splits)
  then show ?thesis using assms
    by (auto simp: SignedBalance_def BalanceWithTip_def SignBalanceSnapshot_def DeterministicMarshal_def VerifyBalanceSnapshot_def
        Verify_def sig_correct_def Let_def split: if_splits option.splits sum.splits)
qed

text \<open>
  A balance proof is not bound to the consumer that presents it. The balance handler hands the signed
  snapshot of any identity \<open>j\<close> to any caller, and a request of another consumer that carries this snapshot
  passes the checks of the broker request for ten minutes; the broker then reserves against the credits of \<open>j\<close>.
\<close>

theorem borrowed_balance_proof:
  assumes "chain_inv (ax_ledger ax) (sl_store (tk_sl st))" "ax_wired ax DepLedger" "pc_balance (ax_codec ax) q = Inr j" "length j = 32"
    and "SignedBalance (ax_ledger ax) (ax_fault ax) (ax_ledger_now ax) j (sl_store (tk_sl st)) = Inr snap"
    and "pe_snapshot (ax_codec ax) snap = Inr bs" "le_crypto (ax_ledger ax) = ax_crypto ax"
    and "sig_correct (ax_crypto ax) (le_key (ax_ledger ax)) (ax_tracker_pub ax)"
    and "0 \<le> unix (ax_ledger_now ax)" "unix (ax_ledger_now ax) < 2 ^ 63" "time_sub now (seconds (unix (ax_ledger_now ax))) \<le> seconds 600"
    and "resolver consumer = Some pub" "VerifyEnvelope (ax_crypto ax) pub (Some env)" "ev_balance_proof body = Some snap"
  shows "balance ax rc q st = (HOk (OkResponse bs), st) \<and>
     verifyBrokerRequest ax resolver env body consumer now = None \<and>
     uint (snapshot_credits body) = abs_bal (sl_store (tk_sl st)) j"
proof -
  let ?s = "sl_store (tk_sl st)"
  have "balance ax rc q st = (HOk (OkResponse bs), st)"
    using assms(2-6) by (simp add: balance_def)
  moreover obtain b where ver: "VerifyBalanceSnapshot (ax_crypto ax) (ax_tracker_pub ax) (Some snap)" and
    b: "sb_body snap = Some b" "bs_credits b = abs_bal ?s j" "bs_issued_at b = unixSecondsU (ax_ledger_now ax)"
    using SignedBalance_snapshot [OF assms(5)] assms(7,8) by metis
  have iss: "sint (bs_issued_at b) = unix (ax_ledger_now ax)" unfolding b(3) by (rule sint_unixSecondsU [OF assms(9,10)])
  have "verifyBrokerRequest ax resolver env body consumer now = None"
    unfolding verify_accepts balanceSnapshotTTL_def using assms(11-14) ver b(1) iss by auto
  moreover have "0 \<le> abs_bal ?s j \<and> abs_bal ?s j < 2 ^ 63"
    using credits_of_bounds [OF chain_inv_balances [OF assms(1)]] by (simp add: abs_bal_def)
  then have "uint (snapshot_credits body) = abs_bal ?s j"
    using assms(14) b by (auto simp: snapshot_credits_def uint_word_of_int)
  ultimately show ?thesis by blast
qed

text \<open>A sequence of enroll calls that all succeed.\<close>

fun enrolls :: "(api_env \<times> RequestCtx \<times> bytes) list \<Rightarrow> tracker_state \<Rightarrow> tracker_state option" where
  "enrolls [] st = Some st"
| "enrolls ((ax, rc, p) # cs) st = (case enroll ax rc p st of (HOk _, st1) \<Rightarrow> enrolls cs st1 | _ \<Rightarrow> None)"

lemma enroll_step:
  assumes "enroll ax rc p st = (HOk r, st1)" "chain_inv (ax_ledger ax) (sl_store (tk_sl st))"
  shows "chain_inv (ax_ledger ax) (sl_store (tk_sl st1)) \<and>
    abs_bal (sl_store (tk_sl st1)) = acct_add (rx_peer_id rc) 1000 (abs_bal (sl_store (tk_sl st)))"
proof -
  let ?s = "sl_store (tk_sl st)"
  from assms(1) obtain e where g: "IssueStarterGrant (ax_ledger ax) (ax_fault ax) (ax_ledger_now ax) (rx_peer_id rc) enrollStarterGrantCredits ?s
      = (Inr e, sl_store (tk_sl st1))"
    by (auto simp: enroll_def enroll_grant_def notImpl_def Let_def split: if_splits sum.splits option.splits prod.splits admit_err.splits)
  obtain inp body where app: "appended (ax_ledger ax) (ax_fault ax) inp ?s body e (sl_store (tk_sl st1))" and
    gi: "grant_input (rx_peer_id rc) enrollStarterGrantCredits inp body"
    using IssueStarterGrant_cases [OF g chain_inv_seqs [OF assms(2)]] by auto
  have "abs_bal (sl_store (tk_sl st1)) = acct_add (rx_peer_id rc) 1000 (abs_bal ?s)"
    using appended_one(1) [OF app chain_inv_balances [OF assms(2)], of 1000 "rx_peer_id rc"] gi
    by (simp add: grant_input_def enrollStarterGrantCredits_def is_i64_def)
  then show ?thesis using ledger_step_inv [OF step_grant [OF g] assms(2)] by simp
qed

text \<open>
  The starter grant is paid on every call: a peer that enrolls \<open>n\<close> times with success has \<open>n\<close> times 1000
  credits more. The architecture grants one per identity; no handler and no ledger operation checks it.
\<close>

theorem enroll_grants_every_time:
  assumes "enrolls calls st = Some st'" "\<forall>(ax, rc, p) \<in> set calls. ax_ledger ax = env \<and> rx_peer_id rc = i"
    "chain_inv env (sl_store (tk_sl st))"
  shows "abs_bal (sl_store (tk_sl st')) i = abs_bal (sl_store (tk_sl st)) i + 1000 * int (length calls)"
  using assms
proof (induction calls arbitrary: st)
  case (Cons call calls)
  obtain ax rc p where call: "call = (ax, rc, p)" by (cases call)
  then obtain r st1 where e: "enroll ax rc p st = (HOk r, st1)" "enrolls calls st1 = Some st'"
    using Cons.prems(1) by (auto split: prod.splits handler_out.splits)
  have eq: "ax_ledger ax = env" "rx_peer_id rc = i" using Cons.prems(2) call by auto
  have "chain_inv env (sl_store (tk_sl st1))" "abs_bal (sl_store (tk_sl st1)) i = abs_bal (sl_store (tk_sl st)) i + 1000"
    using enroll_step [OF e(1)] Cons.prems(3) eq by (auto simp: acct_add_def)
  then show ?case using Cons.IH [OF e(2)] Cons.prems(2) by auto
qed simp

text \<open>
  A queue timeout above ten minutes, which the configuration allows, is handed to the consumer as a retry
  delay that the response check of the shared protocol refuses.
\<close>

lemma queue_timeout_reply_invalid:
  assumes "seconds 601 \<le> ax_queue_timeout ax" "ax_queue_timeout ax < seconds (2 ^ 32)"
  shows "ValidateBrokerRequestResponse (Some (rejection \<lparr>rd_reason = RejectReasonQueueTimeout,
     rd_retry_after_s = of_int (queue_wait ax sdiv second_ns)\<rparr>)) \<noteq> None"
proof -
  let ?q = "ax_queue_timeout ax"
  have q: "queue_wait ax = ?q" "0 \<le> ?q" using assms by (simp_all add: queue_wait_def seconds_def)
  have d: "?q sdiv second_ns = ?q div second_ns" using assms by (simp add: signed_divide_int_def second_ns_def seconds_def)
  have "601 \<le> ?q div second_ns" "?q div second_ns < 2 ^ 32" using assms by (simp_all add: seconds_def second_ns_def)
  then have "uint (of_int (?q sdiv second_ns) :: u32) = ?q div second_ns" unfolding d by (simp add: uint_word_of_int)
  then have "(of_int (?q sdiv second_ns) :: u32) > 600" using \<open>601 \<le> ?q div second_ns\<close> by (simp add: word_less_alt)
  then show ?thesis by (simp add: ValidateBrokerRequestResponse_def rejection_def ValidateRejected_def q(1))
qed

section \<open>Relays\<close>

text \<open>
  With a broker, a relay is opened by a party of an assigned request only, and the session that is
  recorded is between the two parties of that request.
\<close>

lemma relay_opened_by_party:
  assumes "turn_relay_open ax rc p st = (HOk r, st')" "ax_wired ax DepBroker"
  shows "\<exists>sid c s sess. pc_turn (ax_codec ax) p = Inr sid \<and> length sid = 16 \<and>
     Broker_LookupAssignment sid (sl_bk (tk_sl st)) = Some (c, s) \<and> rx_peer_id rc \<in> {c, s} \<and>
     Allocate (ax_turn_rand ax) c s sid (rx_now rc) (tk_turn st) = (Inr sess, tk_turn st') \<and>
     ts_consumer_id sess = c \<and> ts_seeder_id sess = s"
proof -
  from assms obtain sid c s sess where *: "pc_turn (ax_codec ax) p = Inr sid" "length sid = 16" "turn_parties ax (rx_peer_id rc) (to_array 16 sid) st = Inr (c, s)"
    "Allocate (ax_turn_rand ax) c s (to_array 16 sid) (rx_now rc) (tk_turn st) = (Inr sess, tk_turn st')"
    by (auto simp: turn_relay_open_def turn_reply_def notImpl_def Let_def split: if_splits sum.splits prod.splits)
  moreover have "to_array 16 sid = sid" using *(2) by (simp add: to_array_def)
  moreover from *(4) have "ts_consumer_id sess = c \<and> ts_seeder_id sess = s"
    by (auto simp: Allocate_def Let_def split: if_splits sum.splits)
  ultimately show ?thesis using assms(2) by (auto simp: turn_parties_def split: option.splits if_splits)
qed

end
