(* ===== verification/TB_Server.thy ===== *)
theory TB_Server
  imports TB_Api TB_Codec
begin

text \<open>
  The QUIC server around the router (\<open>src/tracker/internal/server\<close>): length-prefixed frames, the handling of
  one RPC stream, the heartbeat stream, offer pushes, and the table of live connections.

  A stream is the list of bytes that the peer has sent before it closed its side. \<open>io n\<close> says that the
  \<open>n\<close>-th write of a call succeeds; one that fails has written nothing. The registry is wired. A connection is a number; \<open>co_open\<close> holds the ones whose goroutine is running.
  TLS, QUIC and the listener are not modelled.
\<close>

section \<open>Frames\<close>

datatype frame_err = FrEOF | FrUnexpectedEOF | FrTooLarge | FrMarshal string | FrUnmarshal string | FrWrite

text \<open>\<open>WriteFrame\<close>: the error, and the bytes that were written.\<close>

definition WriteFrame :: "(nat \<Rightarrow> bool) \<Rightarrow> ('m \<Rightarrow> string + bytes) \<Rightarrow> 'm \<Rightarrow> int \<Rightarrow> frame_err option \<times> bytes" where
  "WriteFrame io encm m maxFrameSize = (case encm m of Inl e \<Rightarrow> (Some (FrMarshal e), [])
     | Inr buf \<Rightarrow> if int (length buf) > maxFrameSize then (Some FrTooLarge, [])
         else let hdr = be32 (of_nat (length buf)) in
           if \<not> io 0 then (Some FrWrite, [])
           else if \<not> io 1 then (Some FrWrite, hdr)
           else (None, hdr @ buf))"

text \<open>\<open>io.ReadFull\<close> into a buffer of \<open>n\<close> bytes.\<close>

definition ReadFull :: "nat \<Rightarrow> bytes \<Rightarrow> frame_err + bytes \<times> bytes" where
  "ReadFull n s = (if n \<le> length s then Inr (take n s, drop n s) else if s = [] then Inl FrEOF else Inl FrUnexpectedEOF)"

definition ReadFrame :: "(bytes \<Rightarrow> string + 'm) \<Rightarrow> int \<Rightarrow> bytes \<Rightarrow> frame_err + 'm \<times> bytes" where
  "ReadFrame decm maxFrameSize s = (case ReadFull 4 s of Inl e \<Rightarrow> Inl e
     | Inr (hdr, s1) \<Rightarrow> (let n = (be_word hdr :: u32) in
         if uint n > maxFrameSize then Inl FrTooLarge
         else (case ReadFull (unat n) s1 of Inl e \<Rightarrow> Inl e
           | Inr (body, s2) \<Rightarrow> (case decm body of Inl e \<Rightarrow> Inl (FrUnmarshal e) | Inr m \<Rightarrow> Inr (m, s2)))))"

section \<open>RPC streams\<close>

record rpc_codec =
  pw_request :: "bytes \<Rightarrow> string + RpcRequest"
  pw_response :: "RpcResponse \<Rightarrow> string + bytes"

datatype stream_out = NothingWritten | Wrote "frame_err option" bytes | StreamParked reqid

definition write_response :: "(nat \<Rightarrow> bool) \<Rightarrow> rpc_codec \<Rightarrow> int \<Rightarrow> RpcResponse \<Rightarrow> stream_out" where
  "write_response io cd maxFrame resp = (case WriteFrame io (pw_response cd) resp maxFrame of (e, bs) \<Rightarrow> Wrote e bs)"

definition panic_response :: RpcResponse where
  "panic_response = error_response RPC_STATUS_INTERNAL ''PANIC'' ''handler panicked''"

definition frame_response :: RpcResponse where
  "frame_response = error_response RPC_STATUS_INVALID ''FRAME'' ''''"

definition handleRPCStream :: "(nat \<Rightarrow> bool) \<Rightarrow> rpc_codec \<Rightarrow> int \<Rightarrow> api_env \<Rightarrow> RequestCtx \<Rightarrow> bytes \<Rightarrow> tracker_state \<Rightarrow> stream_out \<times> tracker_state" where
  "handleRPCStream io cd maxFrame ax rc s st = (case ReadFrame (pw_request cd) maxFrame s of
       Inl e \<Rightarrow> if e = FrEOF \<or> e = FrUnexpectedEOF then (NothingWritten, st)
         else (write_response io cd maxFrame frame_response, st)
     | Inr (req, _) \<Rightarrow> (case Dispatch ax rc req st of
         (Replied resp, st1) \<Rightarrow> (write_response io cd maxFrame resp, st1)
       | (Parked i, st1) \<Rightarrow> (StreamParked i, st1)
       | (Panicked, st1) \<Rightarrow> (write_response io cd maxFrame panic_response, st1)))"

section \<open>Connections\<close>

record conn =
  co_peer_id :: ident
  co_peer_pub :: bytes
  co_remote_addr :: string

record server_state =
  sv_running :: bool
  sv_stopped :: bool
  sv_conns :: "ident \<rightharpoonup> nat"
  sv_conn :: "nat \<rightharpoonup> conn"
  sv_open :: "nat set"
  sv_registry :: Registry

definition Server_PeerPubkey :: "ident \<Rightarrow> server_state \<Rightarrow> bytes option" where
  "Server_PeerPubkey i srv = (case sv_conns srv i of None \<Rightarrow> None | Some c \<Rightarrow> map_option co_peer_pub (sv_conn srv c))"

text \<open>The record that \<open>serveConn\<close> registers for every peer that connects.\<close>

definition connected_record :: "ident \<Rightarrow> string \<Rightarrow> time \<Rightarrow> SeederRecord" where
  "connected_record peer addr now = \<lparr>sr_identity_id = peer, sr_conn_session_id = 0,
     sr_capabilities = \<lparr>ca_models = [], ca_max_context = 0, ca_tiers = [], ca_attestation = []\<rparr>, sr_available = False,
     sr_headroom_estimate = Fin 0, sr_reputation_score = Fin 0,
     sr_net_coords = \<lparr>nc_external_addr = addr, nc_local_candidates = []\<rparr>, sr_load = 0, sr_last_heartbeat = now\<rparr>"

text \<open>\<open>serveConn\<close> up to its first stream, for a new connection \<open>c\<close>, and the deferred function at its end.\<close>

definition serve_connect :: "nat \<Rightarrow> ident \<Rightarrow> bytes \<Rightarrow> string \<Rightarrow> time \<Rightarrow> server_state \<Rightarrow> server_state" where
  "serve_connect c peer pub addr now srv = srv\<lparr>sv_conns := (sv_conns srv)(peer \<mapsto> c),
     sv_conn := (sv_conn srv)(c \<mapsto> \<lparr>co_peer_id = peer, co_peer_pub = pub, co_remote_addr = addr\<rparr>), sv_open := insert c (sv_open srv),
     sv_registry := Register (connected_record peer addr now) (sv_registry srv)\<rparr>"

definition serve_disconnect :: "nat \<Rightarrow> server_state \<Rightarrow> server_state" where
  "serve_disconnect c srv = (case sv_conn srv c of None \<Rightarrow> srv
     | Some co \<Rightarrow> srv\<lparr>sv_conns := (sv_conns srv)(co_peer_id co := None), sv_open := sv_open srv - {c},
         sv_registry := Deregister (co_peer_id co) (sv_registry srv)\<rparr>)"

text \<open>One round of \<open>runHeartbeat\<close>: the next ping, and whether the loop goes on. A registry error is only logged.\<close>

definition heartbeat_round :: "(nat \<Rightarrow> bool) \<Rightarrow> (bytes \<Rightarrow> string + u64) \<Rightarrow> (u64 \<Rightarrow> string + bytes) \<Rightarrow> int \<Rightarrow> ident \<Rightarrow> time \<Rightarrow> bytes \<Rightarrow>
    Registry \<Rightarrow> (bool \<times> bytes \<times> bytes) \<times> Registry" where
  "heartbeat_round io decm encm maxFrame peer now s r = (case ReadFrame decm maxFrame s of
       Inl e \<Rightarrow> ((False, s, []), r)
     | Inr (pingSeq, s1) \<Rightarrow> (let r1 = snd (Heartbeat peer now r) in
         (case WriteFrame io encm pingSeq maxFrame of (Some e, bs) \<Rightarrow> ((False, s1, bs), r1) | (None, bs) \<Rightarrow> ((True, s1, bs), r1))))"

text \<open>\<open>PushOfferTo\<close> and \<open>PushSettlementTo\<close>: the connection that the push goroutine gets.\<close>

definition PushOfferTo :: "ident \<Rightarrow> server_state \<Rightarrow> nat option" where
  "PushOfferTo i srv = (if \<not> sv_running srv \<or> sv_stopped srv then None else sv_conns srv i)"

definition PushSettlementTo :: "ident \<Rightarrow> server_state \<Rightarrow> nat option" where
  "PushSettlementTo i srv = (if \<not> sv_running srv \<or> sv_stopped srv then None else sv_conns srv i)"

text \<open>
  \<open>Shutdown\<close>: whether it returns without an error, and the connections it closes; \<open>drained\<close> says that the calls in
  flight ended before the deadline.
\<close>

definition Shutdown :: "bool \<Rightarrow> server_state \<Rightarrow> (bool \<times> nat set) \<times> server_state" where
  "Shutdown drained srv = (if \<not> sv_running srv then ((True, {}), srv)
     else if sv_stopped srv then ((True, {}), srv)
     else ((drained, if drained then {} else ran (sv_conns srv)), srv\<lparr>sv_stopped := True\<rparr>))"

section \<open>Pushes\<close>

record OfferDecision =
  od_accept :: bool
  od_ephemeral_pubkey :: bytes
  od_reject_reason :: string

definition PushTagOffer :: byte where "PushTagOffer = 1"
definition PushTagSettlement :: byte where "PushTagSettlement = 2"

text \<open>The helpers of \<open>push_api.go\<close>, with the codec of the message as an argument.\<close>

definition EncodeOfferPush :: "(OfferPush \<Rightarrow> string + bytes) \<Rightarrow> OfferPush option \<Rightarrow> string + bytes" where
  "EncodeOfferPush encm op = (case ValidateOfferPush op of Some e \<Rightarrow> Inl e | None \<Rightarrow> encm (the op))"

definition EncodeSettlementPush :: "(SettlementPush \<Rightarrow> string + bytes) \<Rightarrow> SettlementPush option \<Rightarrow> string + bytes" where
  "EncodeSettlementPush encm op = (case ValidateSettlementPush op of Some e \<Rightarrow> Inl e | None \<Rightarrow> encm (the op))"

definition DecodeOfferDecision :: "(bytes \<Rightarrow> string + OfferDecision) \<Rightarrow> bytes \<Rightarrow> string + OfferDecision" where
  "DecodeOfferDecision decm b = (if b = [] then Inl ''api: empty OfferDecision bytes''
     else (case decm b of Inl e \<Rightarrow> Inl (''api: unmarshal OfferDecision: '' @ e) | Inr d \<Rightarrow> Inr d))"

definition rejectReason :: "bool \<Rightarrow> string" where
  "rejectReason deadline_exceeded = (if deadline_exceeded then ''timeout'' else ''connection_lost'')"

definition timeoutOrLost :: "bool \<Rightarrow> string" where
  "timeoutOrLost after_deadline = (if after_deadline then ''timeout'' else ''connection_lost'')"

definition refusal :: "string \<Rightarrow> OfferDecision" where
  "refusal reason = \<lparr>od_accept = False, od_ephemeral_pubkey = [], od_reject_reason = reason\<rparr>"

text \<open>
  \<open>runOfferPush\<close>: \<open>opened\<close> says that a stream could be opened, \<open>io 0\<close> that the tag was written, \<open>io 1\<close> and \<open>io 2\<close>
  that the frame was, \<open>reply\<close> is what the peer sent; at a failure \<open>over\<close> says that the context had exceeded its
  deadline and \<open>late\<close> that the clock was past the deadline of the stream. The result is the decision that
  is delivered, and the bytes that were written.
\<close>

definition runOfferPush :: "bool \<Rightarrow> (nat \<Rightarrow> bool) \<Rightarrow> bool \<Rightarrow> bool \<Rightarrow> ('p \<Rightarrow> string + bytes) \<Rightarrow> (bytes \<Rightarrow> string + OfferDecision) \<Rightarrow> int \<Rightarrow> 'p \<Rightarrow>
    bytes \<Rightarrow> OfferDecision \<times> bytes" where
  "runOfferPush opened io over late encm decm maxFrame push reply =
     (if \<not> opened then (refusal (rejectReason over), [])
      else if \<not> io 0 then (refusal (rejectReason over), [])
      else (case WriteFrame (\<lambda>n. io (n + 1)) encm push maxFrame of
          (Some e, bs) \<Rightarrow> (refusal (rejectReason over), PushTagOffer # bs)
        | (None, bs) \<Rightarrow> (case ReadFrame decm maxFrame reply of
            Inl e \<Rightarrow> (refusal (timeoutOrLost late), PushTagOffer # bs)
          | Inr (d, _) \<Rightarrow> (d, PushTagOffer # bs))))"

text \<open>\<open>runSettlementPush\<close>: whether an acknowledgement is delivered before the channel is closed.\<close>

definition runSettlementPush :: "bool \<Rightarrow> (nat \<Rightarrow> bool) \<Rightarrow> ('p \<Rightarrow> string + bytes) \<Rightarrow> (bytes \<Rightarrow> string + unit) \<Rightarrow> int \<Rightarrow> 'p \<Rightarrow> bytes \<Rightarrow>
    bool \<times> bytes" where
  "runSettlementPush opened io encm decm maxFrame push reply =
     (if \<not> opened then (False, [])
      else if \<not> io 0 then (False, [])
      else (case WriteFrame (\<lambda>n. io (n + 1)) encm push maxFrame of
          (Some e, bs) \<Rightarrow> (False, PushTagSettlement # bs)
        | (None, bs) \<Rightarrow> (case ReadFrame decm maxFrame reply of
            Inl e \<Rightarrow> (False, PushTagSettlement # bs)
          | Inr _ \<Rightarrow> (True, PushTagSettlement # bs))))"

section \<open>Frames round trip\<close>

lemma WriteFrame_ok:
  assumes "io 0" "io 1" "encm m = Inr buf" "int (length buf) \<le> maxf"
  shows "WriteFrame io encm m maxf = (None, be32 (of_nat (length buf)) @ buf)"
  using assms by (simp add: WriteFrame_def Let_def)

lemma ReadFrame_frame:
  assumes "int (length buf) \<le> maxf" "length buf < 2 ^ 32" "decm buf = Inr m"
  shows "ReadFrame decm maxf (be32 (of_nat (length buf)) @ buf @ rest) = Inr (m, rest)"
proof -
  have u: "unat (of_nat (length buf) :: u32) = length buf" using assms(2) by (simp add: unat_of_nat)
  then have "uint (of_nat (length buf) :: u32) = int (length buf)" by (simp add: uint_nat)
  then show ?thesis using assms u by (simp add: ReadFrame_def ReadFull_def Let_def)
qed

lemma ReadFrame_cut:
  assumes "int (length buf) \<le> maxf" "length buf < 2 ^ 32" "k < 4 + length buf"
  shows "ReadFrame decm maxf (take k (be32 (of_nat (length buf)) @ buf)) \<in> {Inl FrEOF, Inl FrUnexpectedEOF}"
proof (cases "k < 4")
  case True
  then show ?thesis by (simp add: ReadFrame_def ReadFull_def)
next
  case False
  have u: "unat (of_nat (length buf) :: u32) = length buf" using assms(2) by (simp add: unat_of_nat)
  then have n: "uint (of_nat (length buf) :: u32) = int (length buf)" by (simp add: uint_nat)
  have "\<not> length buf \<le> k - 4" using assms(3) False by simp
  then show ?thesis using assms(1) u n False by (auto simp: ReadFrame_def ReadFull_def Let_def)
qed

text \<open>
  C40. What the server writes as one frame, a reader of the same format reads as the same
  message, wherever the stream goes on; a frame that is cut off anywhere is reported as the end
  of the stream and never as a message, and the server then answers nothing and changes nothing.
\<close>

theorem rpc_frame_round_trip:
  assumes "io 0" "io 1" "encm m = Inr buf" "decm buf = Inr m" "int (length buf) \<le> maxf" "maxf < 2 ^ 32"
  shows "\<exists>fr. WriteFrame io encm m maxf = (None, fr) \<and> ReadFrame decm maxf (fr @ rest) = Inr (m, rest) \<and>
     (\<forall>k < length fr. handleRPCStream io' cd maxf ax rc (take k fr) st = (NothingWritten, st))"
proof -
  have len: "length buf < 2 ^ 32" using assms(5,6) by (metis le_less_trans of_nat_less_iff of_nat_numeral of_nat_power)
  have "handleRPCStream io' cd maxf ax rc (take k (be32 (of_nat (length buf)) @ buf)) st = (NothingWritten, st)"
    if "k < 4 + length buf" for k
    using ReadFrame_cut [OF assms(5) len that, of "pw_request cd"] by (auto simp: handleRPCStream_def)
  then show ?thesis using WriteFrame_ok [where io = io and encm = encm, OF assms(1-3,5)] ReadFrame_frame [where decm = decm, OF assms(5) len assms(4)] by simp
qed

section \<open>The table of connections\<close>

lemma serve_disconnect_live:
  assumes "sv_conn srv c = Some co" "sv_conns srv (co_peer_id co) = Some c"
  shows "PushOfferTo (co_peer_id co) (serve_disconnect c srv) = None \<and> Server_PeerPubkey (co_peer_id co) (serve_disconnect c srv) = None"
  using assms by (simp add: serve_disconnect_def PushOfferTo_def Server_PeerPubkey_def)

lemma no_push_after_shutdown:
  "PushOfferTo i (snd (Shutdown d srv)) = None" "PushSettlementTo i (snd (Shutdown d srv)) = None"
  by (simp_all add: PushOfferTo_def PushSettlementTo_def Shutdown_def)

text \<open>An offer is accepted only by a decision that the peer sent as a frame; every failure on the way is a refusal.\<close>

lemma offer_accepted_by_peer:
  assumes "runOfferPush opened io over late encm decm maxf push reply = (d, bs)" "od_accept d"
  shows "opened \<and> (\<exists>rest. ReadFrame decm maxf reply = Inr (d, rest)) \<and> (\<exists>fr. WriteFrame (\<lambda>n. io (n + 1)) encm push maxf = (None, fr) \<and> bs = PushTagOffer # fr)"
  using assms by (auto simp: runOfferPush_def refusal_def split: if_splits prod.splits option.splits sum.splits)

text \<open>
  A peer that connects again before its old connection has ended is lost: when the old goroutine ends, it
  deletes the entry and the registration of the new connection, which stays open. The peer then gets
  no offers, its envelopes are refused as those of a consumer that is not connected, and it cannot advertise.
\<close>

theorem reconnect_is_forgotten:
  assumes "c \<noteq> c'" "sv_running srv" "\<not> sv_stopped srv" "sv_registry srv \<noteq> []"
  shows "let sv1 = serve_connect c' peer pub addr' now' (serve_connect c peer pub addr now srv);
      sv2 = serve_disconnect c sv1
    in PushOfferTo peer sv1 = Some c' \<and> c' \<in> sv_open sv2 \<and> PushOfferTo peer sv2 = None \<and>
       Server_PeerPubkey peer sv2 = None \<and> Registry_Get peer (sv_registry sv2) = None"
proof -
  have "Registry_Get peer (Deregister peer r) = None" if "r \<noteq> []" for r
  proof -
    have "nat (be_uint (take 8 peer) mod int (length r)) < length r" using that by (simp add: nat_less_iff)
    then show ?thesis by (simp add: Registry_Get_def Deregister_def with_shard_def shard_get_def shard_delete_def shardIndex_def Let_def)
  qed
  moreover have "Register x r \<noteq> []" if "r \<noteq> []" for x r using that by (simp add: Register_def with_shard_def Let_def split: prod.split)
  ultimately show ?thesis using assms
    by (simp add: serve_connect_def serve_disconnect_def PushOfferTo_def Server_PeerPubkey_def Let_def)
qed

end
