(* ===== verification/TB_Api_Demo.thy ===== *)
theory TB_Api_Demo
  imports TB_Api_Spec TB_Server
begin

text \<open>
  A concrete tracker behind the RPC surface: the results on the handlers and on the server at work on it, with
  every hypothesis discharged. What a result does not depend on, the rest of the environment \<open>ax\<close> and of the
  state \<open>st\<close>, stays arbitrary.
\<close>

definition demo_proof_v1 :: ExhaustionProofV1 where
  "demo_proof_v1 = \<lparr>xp_stop_failure = Some \<lparr>sf_matcher = ''rate_limit'', sf_at = 7290, sf_error_shape = []\<rparr>,
     xp_usage_probe = Some \<lparr>up_at = 7295, up_output = []\<rparr>, xp_captured_at = 7296, xp_nonce = zeros 16\<rparr>"

definition demo_request_body :: "ident \<Rightarrow> SignedBalanceSnapshot \<Rightarrow> EnvelopeBody" where
  "demo_request_body consumer snap = \<lparr>ev_protocol_version = 1, ev_consumer_id = consumer, ev_model = ''m'', ev_max_input_tokens = 3,
     ev_max_output_tokens = 4, ev_tier = PRIVACY_TIER_STANDARD, ev_body_hash = zeros 32, ev_exhaustion_proof = Some demo_proof_v1,
     ev_balance_proof = Some snap, ev_captured_at = 7297, ev_nonce = zeros 16, ev_consumer_ephemeral_pub = []\<rparr>"

definition demo_envelope :: "ident \<Rightarrow> SignedBalanceSnapshot \<Rightarrow> EnvelopeSigned" where
  "demo_envelope consumer snap = \<lparr>es_body = Some (demo_request_body consumer snap),
     es_consumer_sig = ed_sign demo_crypto (consumer @ consumer) (the (pb_envelope demo_crypto (demo_request_body consumer snap)))\<rparr>"

definition demo_snapshot :: SignedBalanceSnapshot where
  "demo_snapshot = (case SignedBalance demo_env no_faults (seconds 7300) alice demo_s1 of Inr snap \<Rightarrow> snap)"

definition demo_enroll :: EnrollRequest where
  "demo_enroll = \<lparr>er_identity_pubkey = alice, er_role = 1, er_account_fingerprint = zeros 32, er_nonce = [], er_consumer_sig = []\<rparr>"

definition demo_api :: "api_env \<Rightarrow> api_env" where
  "demo_api ax = ax\<lparr>ax_codec := (ax_codec ax)\<lparr>pc_envelope := (\<lambda>_. Inr (demo_envelope bob demo_snapshot)), pc_enroll := (\<lambda>_. Inr demo_enroll),
       pc_balance := Inr, pe_entry := (\<lambda>_. Inr []), pe_snapshot := (\<lambda>snap. Inr (sb_tracker_sig snap))\<rparr>,
     ax_wired := (\<lambda>d. d \<in> {DepLedger, DepBroker, DepAdmission}), ax_identity := Some [alice \<mapsto> alice, bob \<mapsto> bob],
     ax_tracker_pub := replicate 32 7, ax_crypto := demo_crypto, ax_ledger := demo_env, ax_fault := no_faults,
     ax_ledger_now := seconds 7300, ax_admit := (\<lambda>_ _. None)\<rparr>"

definition demo_tracker :: "store \<Rightarrow> tracker_state \<Rightarrow> tracker_state" where
  "demo_tracker s st = st\<lparr>tk_sl := (tk_sl st)\<lparr>sl_store := s\<rparr>,
     tk_adm := (tk_adm st)\<lparr>sb_demand := \<lparr>dt_rate_ewma = Fin 0, dt_last_tick = zero_time\<rparr>\<rparr>\<rparr>"

definition demo_rx :: RequestCtx where
  "demo_rx = \<lparr>rx_peer_id = alice, rx_remote_addr = ''a'', rx_now = seconds 7310\<rparr>"

lemmas demo_api_simps = demo_api_def demo_tracker_def demo_rx_def demo_env_def

lemma demo_snapshot_ok: "SignedBalance demo_env no_faults (seconds 7300) alice demo_s1 = Inr demo_snapshot"
proof -
  have "\<exists>snap. SignedBalance demo_env no_faults (seconds 7300) alice demo_s1 = Inr snap"
    by (simp add: SignedBalance_def BalanceWithTip_def no_faults_def alice_def SignBalanceSnapshot_def
        DeterministicMarshal_def demo_env_def demo_crypto_def key_sizes Let_def split: option.split)
  then show ?thesis by (auto simp: demo_snapshot_def)
qed

lemma demo_envelope_ok:
  assumes "length consumer = 32"
  shows "VerifyEnvelope demo_crypto consumer (Some (demo_envelope consumer snap))" "es_body (demo_envelope consumer snap) = Some (demo_request_body consumer snap)"
    "ValidateEnvelopeBody (Some (demo_request_body consumer snap)) = None"
  using assms by (simp_all add: VerifyEnvelope_def demo_envelope_def DeterministicMarshal_def Verify_def demo_crypto_def key_sizes
      ValidateEnvelopeBody_def ValidateProofV1_def demo_request_body_def demo_proof_v1_def ProtocolVersion_def envelopeIDLen_def
      envelopeBodyHashLen_def envelopeNonceLen_def nonceLen_def proofFreshnessWindow_def)

lemma demo_api_unix: "unix (seconds 7300) = 7300" "seconds 7310 - seconds 7300 = seconds 10"
  by (simp_all add: unix_def seconds_def second_ns_def)

definition demo_reserved :: RpcResponse where
  "demo_reserved = error_response RPC_STATUS_INVALID ''METHOD_ZERO_RESERVED'' ''method 0 reserved for heartbeat channel''"


lemma demo_verify: "verifyBrokerRequest (demo_api ax) [alice \<mapsto> alice, bob \<mapsto> bob] (demo_envelope bob demo_snapshot) (demo_request_body bob demo_snapshot)
    bob (seconds 7310) = None"
proof -
  have "VerifyBalanceSnapshot demo_crypto (replicate 32 7) (Some demo_snapshot) \<and>
      (\<exists>b. sb_body demo_snapshot = Some b \<and> bs_credits b = abs_bal demo_s1 alice \<and> bs_issued_at b = unixSecondsU (seconds 7300))"
    using SignedBalance_snapshot [OF demo_snapshot_ok, of "replicate 32 7"] demo_sig_correct by (simp add: demo_env_def)
  moreover have "sint (unixSecondsU (seconds 7300)) = 7300" using sint_unixSecondsU [of "seconds 7300"] by (simp add: demo_api_unix)
  moreover have "time_sub (seconds 7310) (seconds 7300) \<le> seconds 600" by code_simp
  ultimately show ?thesis unfolding verify_accepts using demo_envelope_ok [of bob demo_snapshot]
    by (auto simp: demo_api_def balanceSnapshotTTL_def demo_request_body_def bob_def alice_def)
qed

lemma broker_decided_adm: "tk_adm (snd (broker_decided ax env res st)) = tk_adm st"
  by (simp add: broker_decided_def upd_bk_def split: AdmOutcome.split option.split prod.split sum.split broker_err.split)

lemma Decide_demand: "sb_demand (snd (Decide env rid j c att now s)) = demand_record now (sb_demand s)"
  by (simp add: Decide_def Let_def)

lemma demo_broker_request:
  "sb_demand (tk_adm (snd (broker_request (demo_api ax) demo_rx [] (demo_tracker s st)))) = demand_record (seconds 7310) \<lparr>dt_rate_ewma = Fin 0, dt_last_tick = zero_time\<rparr>"
proof -
  have b: "length bob = 32" "to_array 32 (ev_consumer_id (demo_request_body bob demo_snapshot)) = bob"
    by (simp_all add: bob_def demo_request_body_def to_array_def)
  have d: "ax_wired (demo_api ax) DepBroker" "ax_wired (demo_api ax) DepAdmission" "\<not> ax_wired (demo_api ax) DepReputation"
    "pc_envelope (ax_codec (demo_api ax)) [] = Inr (demo_envelope bob demo_snapshot)" "ax_identity (demo_api ax) = Some [alice \<mapsto> alice, bob \<mapsto> bob]"
    by (simp_all add: demo_api_def)
  show ?thesis
    by (simp add: broker_request_def d b demo_envelope_ok [OF b(1)] upd_rep_def demo_verify Let_def broker_decided_adm Decide_demand case_prod_unfold demo_rx_def demo_tracker_def)
qed


theorem borrowed_balance_proof_witness:
  "\<forall>ax rc st. fst (balance (demo_api ax) rc alice (demo_tracker demo_s1 st)) = HOk (OkResponse (sb_tracker_sig demo_snapshot)) \<and>
     verifyBrokerRequest (demo_api ax) [bob \<mapsto> bob] (demo_envelope bob demo_snapshot) (demo_request_body bob demo_snapshot) bob (seconds 7310) = None \<and>
     uint (snapshot_credits (demo_request_body bob demo_snapshot)) = 500"
proof (intro allI)
  fix ax rc st
  let ?ax = "demo_api ax" and ?st = "demo_tracker demo_s1 st"
  have t: "time_sub (seconds 7310) (seconds 7300) \<le> seconds 600" by code_simp
  have ids: "length alice = 32" "length bob = 32" by (simp_all add: alice_def bob_def)
  show "fst (balance ?ax rc alice ?st) = HOk (OkResponse (sb_tracker_sig demo_snapshot)) \<and>
     verifyBrokerRequest ?ax [bob \<mapsto> bob] (demo_envelope bob demo_snapshot) (demo_request_body bob demo_snapshot) bob (seconds 7310) = None \<and>
     uint (snapshot_credits (demo_request_body bob demo_snapshot)) = 500"
    using borrowed_balance_proof [of ?ax ?st alice alice demo_snapshot "sb_tracker_sig demo_snapshot" "seconds 7310" "[bob \<mapsto> bob]" bob bob
        "demo_envelope bob demo_snapshot" "demo_request_body bob demo_snapshot" rc]
      ledger_reach_inv [OF demo_s1_reach] demo_snapshot_ok demo_sig_correct demo_s1_eval t ids demo_envelope_ok [OF ids(2)]
    by (simp add: demo_api_simps demo_api_unix demo_request_body_def)
qed

definition demo_grants :: "nat \<Rightarrow> store" where
  "demo_grants n = ((\<lambda>s. snd (IssueStarterGrant demo_env no_faults (seconds 7300) alice 1000 s)) ^^ n) empty_store"

lemma demo_grants_ok:
  "\<exists>e. IssueStarterGrant demo_env no_faults (seconds 7300) alice 1000 (demo_grants 0) = (Inr e, demo_grants 1)"
  "\<exists>e. IssueStarterGrant demo_env no_faults (seconds 7300) alice 1000 (demo_grants 1) = (Inr e, demo_grants 2)"
proof -
  let ?g = "IssueStarterGrant demo_env no_faults (seconds 7300) alice 1000"
  have ok: "\<not> isl (fst (?g s)) \<Longrightarrow> \<exists>e. ?g s = (Inr e, snd (?g s))" for s by (cases "?g s"; cases "fst (?g s)") auto
  have "\<not> isl (fst (?g (demo_grants 0)))" "\<not> isl (fst (?g (demo_grants 1)))" by code_simp+
  from ok [OF this(1)] ok [OF this(2)] show "\<exists>e. ?g (demo_grants 0) = (Inr e, demo_grants 1)" "\<exists>e. ?g (demo_grants 1) = (Inr e, demo_grants 2)"
    by (simp_all add: demo_grants_def numeral_2_eq_2)
qed

lemma demo_enroll_step:
  assumes "IssueStarterGrant demo_env no_faults (seconds 7300) alice 1000 s = (Inr e, s')" "sl_store (tk_sl st) = s"
  shows "\<exists>r st'. enroll (demo_api ax) demo_rx [] st = (HOk r, st') \<and> sl_store (tk_sl st') = s'"
proof -
  have d: "ax_wired (demo_api ax) DepLedger" "pc_enroll (ax_codec (demo_api ax)) [] = Inr demo_enroll" "ax_admit (demo_api ax) i f = None"
    "ax_ledger (demo_api ax) = demo_env" "ax_fault (demo_api ax) = no_faults" "ax_ledger_now (demo_api ax) = seconds 7300"
    "pe_entry (ax_codec (demo_api ax)) e = Inr []" for i f by (simp_all add: demo_api_def)
  show ?thesis using assms by (simp add: enroll_def enroll_grant_def d demo_rx_def demo_enroll_def alice_def enrollStarterGrantCredits_def Let_def)
qed

theorem enroll_grants_every_time_witness:
  "\<forall>ax st. \<exists>st'. enrolls [(demo_api ax, demo_rx, []), (demo_api ax, demo_rx, [])] (demo_tracker empty_store st) = Some st' \<and>
     abs_bal (sl_store (tk_sl st')) alice = 2000"
proof (intro allI)
  fix ax st
  let ?calls = "[(demo_api ax, demo_rx, []), (demo_api ax, demo_rx, [])]" and ?st = "demo_tracker empty_store st"
  have s: "sl_store (tk_sl ?st) = demo_grants 0" by (simp add: demo_tracker_def demo_grants_def)
  from demo_grants_ok(1) s obtain r st1 where e1: "enroll (demo_api ax) demo_rx [] ?st = (HOk r, st1)" "sl_store (tk_sl st1) = demo_grants 1"
    by (metis demo_enroll_step)
  from demo_grants_ok(2) e1(2) obtain r2 st2 where e2: "enroll (demo_api ax) demo_rx [] st1 = (HOk r2, st2)"
    by (metis demo_enroll_step)
  have en: "enrolls ?calls ?st = Some st2" using e1(1) e2 by simp
  have inv: "chain_inv demo_env (sl_store (tk_sl ?st))" using ledger_reach_inv [of demo_env empty_store] by (simp add: demo_tracker_def ledger_reach_def)
  have "\<forall>(x, rc, p) \<in> set ?calls. ax_ledger x = demo_env \<and> rx_peer_id rc = alice" by (simp add: demo_api_def demo_rx_def)
  from enroll_grants_every_time [OF en this inv] en show "\<exists>st'. enrolls ?calls ?st = Some st' \<and> abs_bal (sl_store (tk_sl st')) alice = 2000"
    by (simp add: demo_tracker_def abs_bal_def empty_store_def credits_of_def)
qed

theorem rpc_frame_round_trip_witness:
  "\<forall>io cd ax rc st. ReadFrame Inr 1024 ([0, 0, 0, 2, 8, 9] @ [5]) = Inr ([8, 9 :: byte], [5]) \<and>
     handleRPCStream io cd 1024 ax rc [0, 0, 0, 2, 8] st = (NothingWritten, st)"
proof (intro allI)
  fix io cd ax rc st
  have b: "be32 2 = [0, 0, 0, 2 :: byte]" by code_simp
  have w: "WriteFrame (\<lambda>_. True) Inr [8, 9 :: byte] 1024 = (None, [0, 0, 0, 2, 8, 9])" by (simp add: WriteFrame_def b)
  show "ReadFrame Inr 1024 ([0, 0, 0, 2, 8, 9] @ [5]) = Inr ([8, 9 :: byte], [5]) \<and>
     handleRPCStream io cd 1024 ax rc [0, 0, 0, 2, 8] st = (NothingWritten, st)"
    using rpc_frame_round_trip [of "\<lambda>_. True" Inr "[8, 9 :: byte]" "[8, 9]" Inr 1024 "[5]" io cd ax rc st] w
    by (auto dest: spec [where x = 5])
qed

theorem reconnect_is_forgotten_witness:
  "\<forall>srv. let s0 = srv\<lparr>sv_running := True, sv_stopped := False, sv_registry := [Map.empty]\<rparr>;
      s1 = serve_connect 2 alice alice ''b'' 20 (serve_connect 1 alice alice ''a'' 10 s0) in
     PushOfferTo alice s1 = Some 2 \<and> PushOfferTo alice (serve_disconnect 1 s1) = None \<and> 2 \<in> sv_open (serve_disconnect 1 s1)"
  using reconnect_is_forgotten [of 1 2] by (auto simp: Let_def)

end
