(* ===== verification/Spec2Isabelle.thy ===== *)
theory Spec2Isabelle
  imports TB_Settlement_Spec TB_TLog_Spec TB_Snapshot TB_Admission_Spec TB_Federation_Props TB_Rep_Demo
    TB_Config_Spec TB_Api_Demo
begin

text \<open>
  \<^bold>\<open>Token Bay: the tracker's core, modelled and verified.\<close>

  Token Bay lets consumers whose own quota is used up borrow model capacity from seeders and pay in
  credits. A regional \<^emph>\<open>tracker\<close> (Go, under \<open>src/tracker\<close>) does the accounting and the matching. Its core is

  \<^item> the \<^bold>\<open>ledger\<close> (\<open>src/tracker/internal/ledger\<close>): an append-only hash chain of signed entries with a balance
    table, an integrity audit and hourly Merkle roots, over an SQL store;
  \<^item> the \<^bold>\<open>session\<close> tables (\<open>internal/session\<close>): in-flight requests and credit reservations;
  \<^item> the \<^bold>\<open>registry\<close> (\<open>internal/registry\<close>): the sharded table of seeders;
  \<^item> the \<^bold>\<open>broker\<close> (\<open>internal/broker\<close>): pricing, ranking, the offer loop, the queue drain and the operator
    overrides, and the \<^bold>\<open>settlement\<close> of finished requests into the ledger;
  \<^item> \<^bold>\<open>admission\<close> (\<open>internal/admission\<close>): credit scores, attestations between trackers, the pressure-driven
    decision, the waiting queue, and the persistence of the credit history;
  \<^item> \<^bold>\<open>federation\<close> (\<open>internal/federation\<close>): peering between trackers, gossip of roots, revocations and peers, and
    the transfer of credits from one tracker's ledger to another's;
  \<^item> \<^bold>\<open>reputation\<close> (\<open>internal/reputation\<close>): a state OK, AUDIT or FROZEN per identity with the reasons for it, a score, and the
    evaluator that finds outliers; the broker reads its cache, federation hears of its freezes;
  \<^item> the \<^bold>\<open>relay allocator\<close> (\<open>internal/stunturn\<close>): relay sessions with tokens and bandwidth buckets, and the STUN codec;
  \<^item> the \<^bold>\<open>configuration\<close> (\<open>internal/config\<close>): sections, defaults and checks;
  \<^item> the \<^bold>\<open>RPC surface\<close> (\<open>internal/api\<close>, \<open>internal/server\<close>): the router and the handler of every method, frames, streams,
    pushes and the table of live connections;
  \<^item> the messages and signatures they share (\<open>src/shared\<close>).

  A broker request passes admission, then the broker reserves its maximal cost against the balance
  snapshot in the envelope, offers it to ranked seeders and assigns it. The seeder's usage report opens
  a settlement, the consumer's counter-signature (or a timer) closes it by a usage entry on the ledger,
  which releases the reservation and the seeder's load and emits an event. Events feed admission.
  A consumer moves credits by asking the destination tracker, which asks the source tracker for a proof:
  the source debits its ledger and signs the proof, the destination verifies it and credits its own.

  \<^bold>\<open>Theories.\<close> Every definition that models code keeps the name it has in the source where HOL allows it.

  \<^item> \<open>TB_Prelude\<close>: bytes, words, instants, sums over maps, and the interfaces \<open>invariant_system\<close>,
    \<open>monotone_system\<close> (components driven by steps) and \<open>weak_order\<close> (a Go \<open>Less\<close> function);
    \<open>TB_Float\<close>, \<open>TB_Float_Bounds\<close>: \<open>float64\<close> as rationals with NaN and infinities, every operation rounded to
    nearest even, and bounds on rounded results (\<open>TB_Float_Exact\<close>: values that need no rounding, durations); \<open>TB_Codec\<close>: \<open>encoding/binary\<close> and CRC-32C;
    \<open>TB_Heap\<close>: \<open>container/heap\<close>, correct for every \<open>weak_order\<close>.
  \<^item> \<open>TB_Wire\<close> (\<open>shared/proto\<close>, \<open>shared/exhaustionproof\<close>), \<open>TB_Signing\<close> (\<open>shared/signing\<close>), \<open>TB_Attestation\<close>
    (\<open>shared/admission\<close>): messages as records, validators, signatures.
  \<^item> \<open>TB_Entry\<close>, \<open>TB_Storage\<close>, \<open>TB_Ledger\<close>: the ledger; \<open>TB_Chain\<close>, \<open>TB_Accounts\<close>, \<open>TB_Audit\<close>, \<open>TB_Usage\<close> its
    invariants and lemmas, \<open>TB_Concrete\<close> a concrete instance for witnesses, \<open>TB_Ledger_Props\<close> the properties.
  \<^item> \<open>TB_Session\<close>, \<open>TB_Registry\<close>, \<open>TB_Broker\<close>, \<open>TB_Settlement\<close>, each with a \<open>_Spec\<close> theory.
  \<^item> \<open>TB_Credit\<close>, \<open>TB_TLog\<close>, \<open>TB_Snapshot\<close>: admission's credit history, log and snapshots (\<open>TB_TLog_Spec\<close>);
    \<open>TB_Score\<close>, \<open>TB_Admission\<close>: scores, queue and decisions (\<open>TB_Score_Spec\<close>, \<open>TB_Admission_Spec\<close>).
  \<^item> \<open>TB_Fed_Msgs\<close> (\<open>shared/federation\<close> and envelopes), \<open>TB_Gossip\<close> (filter, rate limits, peers, health; contract
    and lemmas of the filter in \<open>TB_Gossip_Spec\<close>), \<open>TB_Transfer\<close> (transfer coordinator and the ledger adapter of
    \<open>cmd/token-bay-tracker\<close>), \<open>TB_Federation\<close> (archives, handlers, dispatcher), \<open>TB_Peering\<close> (handshake, redial loop,
    opening). \<open>TB_Transfer_Spec\<close> is the system of many trackers with its invariant, \<open>TB_Handshake_Spec\<close> and
    \<open>TB_Federation_Spec\<close> the invariants of one tracker, \<open>TB_Fed_Demo\<close> a concrete codec and transfer,
    \<open>TB_Transfer_Props\<close> and \<open>TB_Federation_Props\<close> the properties.
  \<^item> \<open>TB_Reputation\<close> (states, signals, score formula, medians, the SQL tables), \<open>TB_Evaluator\<close> (cache, ingest, breaches,
    freeze, the evaluator pass). \<open>TB_Reputation_Spec\<close> is the abstract machine of one row, \<open>TB_Reputation_Props\<close> the
    refinement to it through the interface \<open>keyed_machine\<close>, \<open>TB_Rep_Notify\<close> the announcements, \<open>TB_Rep_Cycle\<close> a pass as a
    whole and the broker on top of it, \<open>TB_Rep_Stats\<close> medians and score bounds, \<open>TB_Rep_Demo\<close> the witnesses.
  \<^item> \<open>TB_Stunturn\<close>, \<open>TB_Stunturn_Spec\<close>: the allocator, its invariant and its refinement to one table;
    \<open>TB_Config\<close>, \<open>TB_Config_Spec\<close>: the configuration and what a load guarantees to the components.
  \<^item> \<open>TB_Api\<close>: errors, handlers and router, composed over the models of the components (\<open>tracker_state\<close>);
    \<open>TB_Server\<close>: frames, RPC and heartbeat streams, pushes, connections; \<open>TB_Api_Spec\<close> the properties of the
    handlers, \<open>TB_Api_Demo\<close> the witnesses.

  \<^bold>\<open>How the code is represented.\<close> A struct is a record, an enumeration or a tagged union a datatype, a
  \<open>uint64\<close> a \<open>64 word\<close>, an \<open>int64\<close> an \<open>int\<close> with the wrap-around written out, a map with one owner a HOL map.
  A call that can fail returns a sum or an option with the source's error values. Each mutex-protected
  operation is one state transformer; goroutines are steps of an inductive relation, and the invariants
  hold for every interleaving of them. The order of map iteration is an argument. Database calls,
  system calls and remote parties are arguments that may fail or answer arbitrarily at every call. A goroutine
  that waits on a channel is split there: \<open>start_begin\<close> and \<open>start_resume\<close> are the two halves of \<open>StartTransfer\<close>.

  \<^bold>\<open>Parameters.\<close> Ed25519, SHA-256 and the protobuf encoder are fields of the record \<open>crypto\<close>, \<open>math.Exp\<close> and
  \<open>math.Log2\<close> of \<open>math_lib\<close>. Nothing is assumed of them but what a theorem names: that the encoder can be
  decoded, that the hash has 32 bytes, that a signature made with a key verifies, that no collision occurs
  among the inputs at hand, that the codec of a federation message (\<open>fed_codec\<close>) decodes what it encodes, that \<open>Exp\<close> is not negative. The witnesses instantiate them.

  \<^bold>\<open>What is shown.\<close>

  \<^item> Ledger: the chain invariant under every sequence of operations and failures, conservation of
    credits, exact movement of a settlement, single use of request ids and transfer references, who
    authorised an entry, that the audit accepts what the code wrote and detects tampering, that failed
    appends leave no trace, and the self-dealing case in which an entry creates credits.
  \<^item> Session and registry: reserved totals are the sum of the slots, no overcommitment while the sums
    fit in 64 bits (and a concrete wrap beyond), expiry, the refinement of the sharded table to one map.
  \<^item> Broker and settlement: ranking, the outcome of a submission and its effect on loads and
    reservations under interference, the settlement invariant, the acceptance of usage reports, the
    all-or-nothing effect of a settlement, and a replay after a refused counter-signature.
  \<^item> Admission: the subsystem invariant, what a decision returns, the pop order, scores within the unit
    interval under rounding, imported and issued attestations, the sliding-window limit, the log under
    crashes at any byte, snapshots as bytes, and two ways in which a restart loses events.
  \<^item> Federation: no more is credited than was debited, over all interleavings of any number of trackers of which
    some are dishonest, and the handlers are runs of that system; every archived revocation carries the
    signature of its issuer; a message is handled once; the operator's rows are pinned; a handshake of two
    honest trackers completes. Four theorems show weaknesses of the protocol: a handshake can be relayed, relayed
    roots are never archived, evidence is acted on unverified, a cached proof pays whoever asks for it.
  \<^item> Reputation: every row moves along the abstract machine under any SQL failures, the append-only reasons explain
    the state, FROZEN is left through the operator only, each freeze is announced once, a pass is its rules identity by
    identity in any order of iteration, outliers are a minority, the score is in the unit interval, and a frozen
    identity is neither served nor assigned by the broker. Three theorems show weaknesses: a stale audit never clears,
    a pass can undo a freeze in the cache, a freeze whose refresh fails is never announced.
  \<^item> Relay and configuration: the three indexes are one table and no call panics, buckets stay within one second of the
    rate; defaults are idempotent, a minimal file loads, what \<open>Load\<close> returns is accepted by the components it opens;
    zero cannot be configured where the comments say it disables, and a NaN passes the range checks.
  \<^item> RPC: no handler meets a result without its details and every reply passes the response check of the protocol,
    nothing happens for a consumer before its envelope and balance proof were verified, a relay is opened by a party of an
    assigned request only, frames round trip and a cut frame is never taken for a message. Four results show
    weaknesses: a balance proof of another identity is accepted, the starter grant is paid on every enroll, the end of
    an old connection removes the new one of the same peer, a long queue timeout gives a reply that is refused.

  \<^bold>\<open>Bounds and fuel.\<close> The audit loop takes the number of pages as fuel and is shown to need one page per
  thousand entries. The offer loop and the retry loop carry the attempt counters of the code. All other
  recursion is structural or has a measure; \<open>read_frames\<close> consumes at least 25 bytes per frame. Score
  bounds need each weight to be at most 2 and the three always-defined weights to sum to at least
  1/1024; validated configurations have weights that sum to 1. Pop order is stated for priorities that
  need no rounding at the two instants involved, because the code does not restore the heap order when it
  advances the clock.

  The bucket bound is stated for a configured rate below 2 to the 40 kilobits, the bound on outliers for fewer than
  2 to the 50 events, so that counts and rates are exact in \<open>float64\<close>.

  \<^bold>\<open>Not modelled.\<close> What is left is I/O around the modelled operations: QUIC, TLS and the HTTP server, the accept
  loop, the JSON list handlers, metrics, command-line wiring, and the plugin
  (\<open>src/plugin\<close>), which drives subprocesses, hooks and tunnels.
\<close>

end
